(* ===== verification/Prelude.thy ===== *)
theory Prelude
  imports Complex_Main
begin

text \<open>
  Prelude of the development: the shape of a fallible, state-passing operation
  (an \<open>async\<close> method that may throw), its combinators, and the lemmas every
  component uses to take such an operation apart. An exception is the left
  injection of a sum; the state that the operation leaves behind is returned
  in both cases, since a throw does not undo what was already written (only a
  transaction does, see theory \<open>Store\<close>).
\<close>

section \<open>Operations that may throw\<close>

named_theorems mnd \<open>evaluation and inversion rules of the operation combinators\<close>

type_synonym ('s, 'e, 'a) op = "'s \<Rightarrow> ('e + 'a) \<times> 's"

definition ret :: "'a \<Rightarrow> ('s, 'e, 'a) op" where
  "ret x = (\<lambda>s. (Inr x, s))"

definition throw :: "'e \<Rightarrow> ('s, 'e, 'a) op" where
  "throw e = (\<lambda>s. (Inl e, s))"

definition bnd :: "('s, 'e, 'a) op \<Rightarrow> ('a \<Rightarrow> ('s, 'e, 'b) op) \<Rightarrow> ('s, 'e, 'b) op" where
  "bnd m f = (\<lambda>s. case m s of (r, t) \<Rightarrow> (case r of Inl e \<Rightarrow> (Inl e, t) | Inr x \<Rightarrow> f x t))"

definition catching :: "('s, 'e, 'a) op \<Rightarrow> ('e \<Rightarrow> ('s, 'e, 'a) op) \<Rightarrow> ('s, 'e, 'a) op" where
  "catching m h = (\<lambda>s. case m s of (r, t) \<Rightarrow> (case r of Inl e \<Rightarrow> h e t | Inr x \<Rightarrow> (Inr x, t)))"

text \<open>
  \<open>try { x = await m; ...k(x) } catch (e) { h(e) }\<close> where \<open>k\<close> has its own handler: \<open>h\<close> sees only
  what \<open>m\<close> throws, so it can refer to the variables as they were before the assignment.
\<close>

definition attempting :: "('s, 'e, 'a) op \<Rightarrow> ('e \<Rightarrow> ('s, 'e, 'b) op) \<Rightarrow> ('a \<Rightarrow> ('s, 'e, 'b) op) \<Rightarrow> ('s, 'e, 'b) op" where
  "attempting m h k = (\<lambda>s. case m s of (r, t) \<Rightarrow> (case r of Inl e \<Rightarrow> h e t | Inr x \<Rightarrow> k x t))"

definition gets :: "('s \<Rightarrow> 'a) \<Rightarrow> ('s, 'e, 'a) op" where
  "gets f = (\<lambda>s. (Inr (f s), s))"

definition modify :: "('s \<Rightarrow> 's) \<Rightarrow> ('s, 'e, unit) op" where
  "modify f = (\<lambda>s. (Inr (), f s))"

definition check :: "bool \<Rightarrow> 'e \<Rightarrow> ('s, 'e, unit) op" where
  "check b e = (if b then ret () else throw e)"

definition lift_result :: "'e + 'a \<Rightarrow> ('s, 'e, 'a) op" where
  "lift_result r = (\<lambda>s. (r, s))"

text \<open>The rows a query returned, of which the code takes the first or throws.\<close>

definition the_or :: "'a option \<Rightarrow> 'e \<Rightarrow> ('s, 'e, 'a) op" where
  "the_or v e = (case v of None \<Rightarrow> throw e | Some x \<Rightarrow> ret x)"

section \<open>Pure results\<close>

definition rbind :: "'e + 'a \<Rightarrow> ('a \<Rightarrow> 'e + 'b) \<Rightarrow> 'e + 'b" where
  "rbind r f = (case r of Inl e \<Rightarrow> Inl e | Inr x \<Rightarrow> f x)"

definition rcheck :: "bool \<Rightarrow> 'e \<Rightarrow> 'e + unit" where
  "rcheck b e = (if b then Inr () else Inl e)"

fun mapR :: "('a \<Rightarrow> 'e + 'b) \<Rightarrow> 'a list \<Rightarrow> 'e + 'b list" where
  "mapR f [] = Inr []"
| "mapR f (x # xs) = rbind (f x) (\<lambda>y. rbind (mapR f xs) (\<lambda>ys. Inr (y # ys)))"

lemma rbind_simps [simp]: "rbind (Inl e) f = Inl e" "rbind (Inr x) f = f x"
  by (simp_all add: rbind_def)

lemma rbind_Inr_iff [mnd]: "rbind r f = Inr y \<longleftrightarrow> (\<exists>x. r = Inr x \<and> f x = Inr y)"
  by (cases r) simp_all

lemma rbind_Inl_iff: "rbind r f = Inl e \<longleftrightarrow> r = Inl e \<or> (\<exists>x. r = Inr x \<and> f x = Inl e)"
  by (cases r) auto

lemma rcheck_Inr [mnd]: "rcheck b e = Inr u \<longleftrightarrow> b"
  by (simp add: rcheck_def)

lemma rcheck_simps [simp]: "rcheck True e = Inr ()" "rcheck False e = Inl e"
  by (simp_all add: rcheck_def)

lemma mapR_Inr_length: "mapR f xs = Inr ys \<Longrightarrow> length ys = length xs"
  by (induction xs arbitrary: ys) (auto simp: mnd)

lemma mapR_Inr_nth:
  "mapR f xs = Inr ys \<Longrightarrow> i < length xs \<Longrightarrow> f (xs ! i) = Inr (ys ! i)"
  by (induction xs arbitrary: ys i) (auto simp: mnd nth_Cons split: nat.splits)

lemma mapR_Inl:
  "x \<in> set xs \<Longrightarrow> (\<And>y. f x \<noteq> Inr y) \<Longrightarrow> \<exists>e. mapR f xs = Inl e"
proof (induction xs)
  case Nil
  then show ?case by simp
next
  case (Cons a xs)
  then show ?case
    by (cases "f a"; cases "mapR f xs") auto
qed

section \<open>Evaluation of operations\<close>

lemma ret_eval [mnd, simp]: "ret x s = (Inr x, s)"
  by (simp add: ret_def)

lemma throw_eval [mnd, simp]: "throw e s = (Inl e, s)"
  by (simp add: throw_def)

lemma gets_eval [mnd, simp]: "gets f s = (Inr (f s), s)"
  by (simp add: gets_def)

lemma modify_eval [mnd, simp]: "modify f s = (Inr (), f s)"
  by (simp add: modify_def)

lemma lift_result_eval [mnd, simp]: "lift_result r s = (r, s)"
  by (simp add: lift_result_def)

lemma check_eval [simp]: "check True e s = (Inr (), s)" "check False e s = (Inl e, s)"
  by (simp_all add: check_def)

lemma the_or_eval [simp]: "the_or None e s = (Inl e, s)" "the_or (Some x) e s = (Inr x, s)"
  by (simp_all add: the_or_def)

lemma bnd_Inl [simp]: "m s = (Inl e, t) \<Longrightarrow> bnd m f s = (Inl e, t)"
  by (simp add: bnd_def)

lemma bnd_Inr [simp]: "m s = (Inr x, t) \<Longrightarrow> bnd m f s = f x t"
  by (simp add: bnd_def)

lemma catching_Inl [simp]: "m s = (Inl e, t) \<Longrightarrow> catching m h s = h e t"
  by (simp add: catching_def)

lemma catching_Inr [simp]: "m s = (Inr x, t) \<Longrightarrow> catching m h s = (Inr x, t)"
  by (simp add: catching_def)

lemma attempting_Inl [simp]: "m s = (Inl e, t) \<Longrightarrow> attempting m h k s = h e t"
  by (simp add: attempting_def)

lemma attempting_Inr [simp]: "m s = (Inr x, t) \<Longrightarrow> attempting m h k s = k x t"
  by (simp add: attempting_def)

text \<open>Inversion: what must have happened for an operation to return normally.\<close>

lemma bnd_Inr_iff [mnd]:
  "bnd m f s = (Inr y, u) \<longleftrightarrow> (\<exists>x t. m s = (Inr x, t) \<and> f x t = (Inr y, u))"
  by (auto simp: bnd_def split: prod.splits sum.splits)

lemma check_Inr_iff [mnd]: "check b e s = (Inr x, t) \<longleftrightarrow> b \<and> t = s"
  by (auto simp: check_def)

lemma the_or_Inr_iff [mnd]: "the_or v e s = (Inr x, t) \<longleftrightarrow> v = Some x \<and> t = s"
  by (auto simp: the_or_def split: option.splits)

lemma bnd_Inl_iff:
  "bnd m f s = (Inl e, u) \<longleftrightarrow>
     m s = (Inl e, u) \<or> (\<exists>x t. m s = (Inr x, t) \<and> f x t = (Inl e, u))"
  by (auto simp: bnd_def split: prod.splits sum.splits)

section \<open>Operations that only move the state along a relation\<close>

text \<open>
  \<open>along R m\<close>: whatever \<open>m\<close> returns or throws, the state it leaves is \<open>R\<close>-reachable
  from the one it started in. The rules compose, so that a handler built from
  transactions moves along the reflexive transitive closure of the transactions'
  step relation.
\<close>

named_theorems along_intros \<open>rules that compose the moves of an operation\<close>

definition along :: "('s \<Rightarrow> 's \<Rightarrow> bool) \<Rightarrow> ('s, 'e, 'a) op \<Rightarrow> bool" where
  "along R m \<longleftrightarrow> (\<forall>s. R\<^sup>*\<^sup>* s (snd (m s)))"

lemma alongI: "(\<And>s r t. m s = (r, t) \<Longrightarrow> R\<^sup>*\<^sup>* s t) \<Longrightarrow> along R m"
  by (simp add: along_def) (metis prod.collapse)

lemma alongD: "along R m \<Longrightarrow> m s = (r, t) \<Longrightarrow> R\<^sup>*\<^sup>* s t"
  by (metis along_def snd_conv)

lemma along_step: "(\<And>s r t. m s = (r, t) \<Longrightarrow> R s t) \<Longrightarrow> along R m"
  by (rule alongI) auto

lemma along_ret [along_intros]: "along R (ret x)"
  by (rule alongI) simp

lemma along_throw [along_intros]: "along R (throw e)"
  by (rule alongI) simp

lemma along_gets [along_intros]: "along R (gets f)"
  by (rule alongI) simp

lemma along_check [along_intros]: "along R (check b e)"
  by (rule alongI) (auto simp: check_def split: if_splits)

lemma along_the_or [along_intros]: "along R (the_or v e)"
  by (rule alongI) (auto simp: the_or_def split: option.splits)

lemma along_lift [along_intros]: "along R (lift_result r)"
  by (rule alongI) simp

lemma along_bnd [along_intros]:
  assumes m: "along R m" and f: "\<And>x. along R (f x)"
  shows "along R (bnd m f)"
proof (rule alongI)
  fix s r u
  assume eq: "bnd m f s = (r, u)"
  obtain q t where q: "m s = (q, t)" by force
  with m have st: "R\<^sup>*\<^sup>* s t" by (rule alongD)
  show "R\<^sup>*\<^sup>* s u"
  proof (cases q)
    case (Inl e)
    with q eq st show ?thesis by simp
  next
    case (Inr x)
    with q eq have "f x t = (r, u)" by simp
    with f have "R\<^sup>*\<^sup>* t u" by (rule alongD)
    with st show ?thesis by (rule rtranclp_trans)
  qed
qed

lemma along_catching [along_intros]:
  assumes m: "along R m" and h: "\<And>e. along R (h e)"
  shows "along R (catching m h)"
proof (rule alongI)
  fix s r u
  assume eq: "catching m h s = (r, u)"
  obtain q t where q: "m s = (q, t)" by force
  with m have st: "R\<^sup>*\<^sup>* s t" by (rule alongD)
  show "R\<^sup>*\<^sup>* s u"
  proof (cases q)
    case (Inl e)
    with q eq have "h e t = (r, u)" by simp
    with h have "R\<^sup>*\<^sup>* t u" by (rule alongD)
    with st show ?thesis by (rule rtranclp_trans)
  next
    case (Inr x)
    with q eq st show ?thesis by simp
  qed
qed

lemma along_attempting [along_intros]:
  assumes m: "along R m" and h: "\<And>e. along R (h e)" and k: "\<And>x. along R (k x)"
  shows "along R (attempting m h k)"
proof (rule alongI)
  fix s r u
  assume eq: "attempting m h k s = (r, u)"
  obtain q t where q: "m s = (q, t)" by force
  with m have "R\<^sup>*\<^sup>* s t" by (rule alongD)
  moreover from q eq have "R\<^sup>*\<^sup>* t u" by (cases q) (auto intro: alongD [OF h] alongD [OF k])
  ultimately show "R\<^sup>*\<^sup>* s u" by (rule rtranclp_trans)
qed

lemma along_if [along_intros]: "along R a \<Longrightarrow> along R b \<Longrightarrow> along R (if c then a else b)"
  by simp

lemma along_option [along_intros]:
  "along R a \<Longrightarrow> (\<And>x. along R (b x)) \<Longrightarrow> along R (case v of None \<Rightarrow> a | Some x \<Rightarrow> b x)"
  by (cases v) simp_all

lemma along_invariant:
  assumes "along R m" and "m s = (r, t)" and "I s" and "\<And>a b. R a b \<Longrightarrow> I a \<Longrightarrow> I b"
  shows "I t"
proof -
  from assms(1,2) have "R\<^sup>*\<^sup>* s t" by (rule alongD)
  then show ?thesis
    using assms(3) by (induction rule: rtranclp_induct) (auto intro: assms(4))
qed

section \<open>Lists\<close>

text \<open>\<open>[...new Set(xs)]\<close>: the first occurrence of each element, in order.\<close>

fun uniq_from :: "'a list \<Rightarrow> 'a list \<Rightarrow> 'a list" where
  "uniq_from seen [] = []"
| "uniq_from seen (x # xs) =
     (if x \<in> set seen then uniq_from seen xs else x # uniq_from (x # seen) xs)"

definition uniq :: "'a list \<Rightarrow> 'a list" where
  "uniq xs = uniq_from [] xs"

lemma set_uniq_from: "set (uniq_from seen xs) = set xs - set seen"
  by (induction seen xs rule: uniq_from.induct) auto

lemma distinct_uniq_from: "distinct (uniq_from seen xs)"
  by (induction seen xs rule: uniq_from.induct) (auto simp: set_uniq_from)

lemma uniq_from_id: "distinct xs \<Longrightarrow> set xs \<inter> set seen = {} \<Longrightarrow> uniq_from seen xs = xs"
  by (induction seen xs rule: uniq_from.induct) auto

lemma set_uniq [simp]: "set (uniq xs) = set xs"
  by (simp add: uniq_def set_uniq_from)

lemma distinct_uniq [simp]: "distinct (uniq xs)"
  by (simp add: uniq_def distinct_uniq_from)

lemma uniq_distinct [simp]: "distinct xs \<Longrightarrow> uniq xs = xs"
  by (simp add: uniq_def uniq_from_id)

lemma uniq_Nil_iff [simp]: "uniq xs = [] \<longleftrightarrow> xs = []"
  by (metis set_uniq set_empty)

lemma find_Some_mem: "List.find P xs = Some x \<Longrightarrow> x \<in> set xs \<and> P x"
  by (metis find_Some_iff nth_mem)

section \<open>Searching and splitting lists\<close>

lemma find_SomeD: "List.find P xs = Some x \<Longrightarrow> x \<in> set xs \<and> P x"
  by (auto simp: find_Some_iff)

lemma snoc_split: "us @ [u] = xs @ e # ys \<longleftrightarrow> (xs = us \<and> e = u \<and> ys = []) \<or> (\<exists>zs. ys = zs @ [u] \<and> us = xs @ e # zs)"
  by (cases ys rule: rev_cases) auto

end
