(* ===== verification/Js.thy ===== *)
theory Js
  imports Prelude "HOL-Library.AList" "HOL-Library.Char_ord" "HOL-Library.List_Lexorder"
begin

text \<open>
  The part of JavaScript's value model and standard library that the sources use.

  Strings are lists of \<open>char\<close>, one per UTF-16 code unit, so code units up to 255 are
  covered and \<open>length\<close> is JavaScript's \<open>.length\<close>. Numbers are exact rationals;
  \<open>NaN\<close> and the infinities are no values of \<open>json\<close> (they cannot come out of JSON),
  and where an operation of the source may round or yield them this is said at the
  definition. An object is the list of its own properties in enumeration order.
\<close>

section \<open>Values\<close>

datatype json =
    JUndef
  | JNull
  | JBool bool
  | JNum rat
  | JStr string
  | JArr "json list"
  | JObj "(string \<times> json) list"

text \<open>Property access \<open>v.k\<close> (\<open>v?.k\<close> on null and undefined).\<close>

fun jget :: "json \<Rightarrow> string \<Rightarrow> json" where
  "jget (JObj kvs) k = (case map_of kvs k of None \<Rightarrow> JUndef | Some v \<Rightarrow> v)"
| "jget _ k = JUndef"

fun is_obj :: "json \<Rightarrow> bool" where
  "is_obj (JObj kvs) = True"
| "is_obj _ = False"

text \<open>\<open>typeof v === "object" && v !== null\<close>, which arrays satisfy too.\<close>

fun is_object_type :: "json \<Rightarrow> bool" where
  "is_object_type (JObj kvs) = True"
| "is_object_type (JArr vs) = True"
| "is_object_type _ = False"

fun js_str :: "json \<Rightarrow> string option" where
  "js_str (JStr s) = Some s"
| "js_str _ = None"

fun js_arr :: "json \<Rightarrow> json list option" where
  "js_arr (JArr vs) = Some vs"
| "js_arr _ = None"

fun js_fields :: "json \<Rightarrow> (string \<times> json) list" where
  "js_fields (JObj kvs) = kvs"
| "js_fields _ = []"

fun truthy :: "json \<Rightarrow> bool" where
  "truthy JUndef = False"
| "truthy JNull = False"
| "truthy (JBool b) = b"
| "truthy (JNum n) = (n \<noteq> 0)"
| "truthy (JStr s) = (s \<noteq> [])"
| "truthy (JArr vs) = True"
| "truthy (JObj kvs) = True"

text \<open>\<open>a ?? b\<close>.\<close>

definition nullish :: "json \<Rightarrow> bool" where
  "nullish v = (v = JUndef \<or> v = JNull)"

definition coalesce :: "json \<Rightarrow> json \<Rightarrow> json" where
  "coalesce a b = (if nullish a then b else a)"

text \<open>An optional string field of an object literal: \<open>null\<close> or the string.\<close>

definition jopt :: "string option \<Rightarrow> json" where
  "jopt v = (case v of None \<Rightarrow> JNull | Some s \<Rightarrow> JStr s)"

definition jundef :: "string option \<Rightarrow> json" where
  "jundef v = (case v of None \<Rightarrow> JUndef | Some s \<Rightarrow> JStr s)"

definition jnat :: "nat \<Rightarrow> json" where
  "jnat n = JNum (of_nat n)"

definition jint :: "int \<Rightarrow> json" where
  "jint n = JNum (of_int n)"

definition jstrs :: "string list \<Rightarrow> json" where
  "jstrs xs = JArr (map JStr xs)"

section \<open>Strings\<close>

definition code_unit :: "char \<Rightarrow> nat" where
  "code_unit c = of_char c"

text \<open>The white space and line terminators that \<open>trim\<close> removes, up to code unit 255.\<close>

definition is_ws :: "char \<Rightarrow> bool" where
  "is_ws c = (code_unit c \<in> {9, 10, 11, 12, 13, 32, 160})"

definition trim :: "string \<Rightarrow> string" where
  "trim s = rev (dropWhile is_ws (rev (dropWhile is_ws s)))"

definition starts_with :: "string \<Rightarrow> string \<Rightarrow> bool" where
  "starts_with p s = (take (length p) s = p)"

definition is_digit :: "char \<Rightarrow> bool" where
  "is_digit c = (48 \<le> code_unit c \<and> code_unit c \<le> 57)"

definition is_lower :: "char \<Rightarrow> bool" where
  "is_lower c = (97 \<le> code_unit c \<and> code_unit c \<le> 122)"

definition is_upper :: "char \<Rightarrow> bool" where
  "is_upper c = (65 \<le> code_unit c \<and> code_unit c \<le> 90)"

definition is_alnum :: "char \<Rightarrow> bool" where
  "is_alnum c = (is_digit c \<or> is_lower c \<or> is_upper c)"

definition to_lower :: "char \<Rightarrow> char" where
  "to_lower c = (if is_upper c then char_of (code_unit c + 32) else c)"

definition to_upper :: "char \<Rightarrow> char" where
  "to_upper c = (if is_lower c then char_of (code_unit c - 32) else c)"

text \<open>\<open>s.split(c)\<close> for a one-character separator.\<close>

fun split_on :: "char \<Rightarrow> string \<Rightarrow> string list" where
  "split_on c [] = [[]]"
| "split_on c (x # xs) =
     (if x = c then [] # split_on c xs
      else (case split_on c xs of [] \<Rightarrow> [[x]] | w # ws \<Rightarrow> (x # w) # ws))"

fun join :: "string \<Rightarrow> string list \<Rightarrow> string" where
  "join sep [] = []"
| "join sep [x] = x"
| "join sep (x # xs) = x @ sep @ join sep xs"

text \<open>\<open>s.replace(/\/$/, "")\<close> and \<open>s.replace(/\/+$/, "")\<close>.\<close>

definition drop_slash :: "string \<Rightarrow> string" where
  "drop_slash s = (if s \<noteq> [] \<and> last s = CHR ''/'' then butlast s else s)"

definition drop_slashes :: "string \<Rightarrow> string" where
  "drop_slashes s = rev (dropWhile (\<lambda>c. c = CHR ''/'') (rev s))"

fun show_nat :: "nat \<Rightarrow> string" where
  "show_nat n = (if n < 10 then [char_of (48 + n)] else show_nat (n div 10) @ [char_of (48 + n mod 10)])"

declare show_nat.simps [simp del]

definition show_int :: "int \<Rightarrow> string" where
  "show_int i = (if i < 0 then CHR ''-'' # show_nat (nat (- i)) else show_nat (nat i))"

definition digits_val :: "string \<Rightarrow> int" where
  "digits_val s = foldl (\<lambda>n c. 10 * n + (int (code_unit c) - 48)) 0 s"

text \<open>
  \<open>encodeURIComponent\<close>: everything but \<open>A-Z a-z 0-9 - _ . ! ~ * ' ( )\<close> becomes the
  percent-encoded UTF-8 bytes of its code unit (one byte up to 127, two up to 255).
\<close>

definition hex_digit :: "nat \<Rightarrow> char" where
  "hex_digit n = char_of (if n < 10 then 48 + n else 55 + n)"

definition pct :: "nat \<Rightarrow> string" where
  "pct n = [CHR ''%'', hex_digit (n div 16), hex_digit (n mod 16)]"

definition uri_unreserved :: "char \<Rightarrow> bool" where
  "uri_unreserved c = (is_alnum c \<or> c \<in> set ''-_.!~*()'' \<or> code_unit c = 39)"

definition encode_uri_component :: "string \<Rightarrow> string" where
  "encode_uri_component s =
     concat (map (\<lambda>c. if uri_unreserved c then [c]
                      else if code_unit c < 128 then pct (code_unit c)
                      else pct (192 + code_unit c div 64) @ pct (128 + code_unit c mod 64)) s)"

section \<open>Objects\<close>

text \<open>Building an object from entries: a repeated key keeps its place and its last value.\<close>

definition set_prop :: "(string \<times> json) list \<Rightarrow> string \<times> json \<Rightarrow> (string \<times> json) list" where
  "set_prop kvs kv = AList.update (fst kv) (snd kv) kvs"

text \<open>
  Enumeration order of own properties: the keys that are array indices come first, in
  numeric order, then the others in the order they were added.
\<close>

definition is_index :: "string \<Rightarrow> bool" where
  "is_index s = (s \<noteq> [] \<and> list_all is_digit s \<and> (s = ''0'' \<or> hd s \<noteq> CHR ''0'') \<and>
                 digits_val s < 4294967295)"

definition own_order :: "(string \<times> 'a) list \<Rightarrow> (string \<times> 'a) list" where
  "own_order kvs = sort_key (\<lambda>kv. digits_val (fst kv)) (filter (\<lambda>kv. is_index (fst kv)) kvs) @
                   filter (\<lambda>kv. \<not> is_index (fst kv)) kvs"

definition from_entries :: "(string \<times> json) list \<Rightarrow> json" where
  "from_entries kvs = JObj (own_order (foldl set_prop [] kvs))"

text \<open>Every object in a value has distinct keys, as JavaScript's objects do.\<close>

fun wf_json :: "json \<Rightarrow> bool" where
  "wf_json (JArr vs) = list_all wf_json vs"
| "wf_json (JObj kvs) = (distinct (map fst kvs) \<and> list_all (\<lambda>kv. wf_json (snd kv)) kvs)"
| "wf_json _ = True"

text \<open>
  \<open>JSON.stringify\<close>. The decimal rendering of a number is the argument \<open>num\<close>:
  ECMAScript's \<open>Number::toString\<close> picks the shortest decimal of the double.
\<close>

definition esc_char :: "char \<Rightarrow> string" where
  "esc_char c =
     (let n = code_unit c in
      if n = 34 then [char_of (92 :: nat), char_of (34 :: nat)]
      else if n = 92 then [char_of (92 :: nat), char_of (92 :: nat)]
      else if n = 8 then char_of (92 :: nat) # ''b''
      else if n = 9 then char_of (92 :: nat) # ''t''
      else if n = 10 then char_of (92 :: nat) # ''n''
      else if n = 12 then char_of (92 :: nat) # ''f''
      else if n = 13 then char_of (92 :: nat) # ''r''
      else if n < 32 then char_of (92 :: nat) # ''u00'' @ [hex_digit (n div 16), to_lower (hex_digit (n mod 16))]
      else [c])"

definition quote :: "string \<Rightarrow> string" where
  "quote s = char_of (34 :: nat) # concat (map esc_char s) @ [char_of (34 :: nat)]"

fun stringify :: "(rat \<Rightarrow> string) \<Rightarrow> json \<Rightarrow> string" where
  "stringify num JUndef = ''null''"
| "stringify num JNull = ''null''"
| "stringify num (JBool b) = (if b then ''true'' else ''false'')"
| "stringify num (JNum n) = num n"
| "stringify num (JStr s) = quote s"
| "stringify num (JArr vs) = ''['' @ join '','' (map (stringify num) vs) @ '']''"
| "stringify num (JObj kvs) =
     ''{'' @ join '','' (map (\<lambda>kv. quote (fst kv) @ '':'' @ stringify num (snd kv))
        (filter (\<lambda>kv. snd kv \<noteq> JUndef) kvs)) @ ''}''"

section \<open>Numbers from strings\<close>

text \<open>
  \<open>Number(s)\<close>: the trimmed string as a hexadecimal, octal or binary literal or as a
  signed decimal with fraction and exponent; \<open>0\<close> for the empty string. \<open>None\<close> stands
  for \<open>NaN\<close> and for \<open>Infinity\<close>, which every caller rejects alike. The result is the
  exact value of the literal: rounding to the nearest double is \<open>to_double\<close>.
\<close>

definition digit_in :: "int \<Rightarrow> char \<Rightarrow> int option" where
  "digit_in base c =
     (let n = int (code_unit c);
          d = (if is_digit c then Some (n - 48) else if 97 \<le> n \<and> n \<le> 102 then Some (n - 87)
               else if 65 \<le> n \<and> n \<le> 70 then Some (n - 55) else None)
      in (case d of Some k \<Rightarrow> if k < base then Some k else None | None \<Rightarrow> None))"

fun radix_val :: "int \<Rightarrow> int \<Rightarrow> string \<Rightarrow> int option" where
  "radix_val base acc [] = Some acc"
| "radix_val base acc (c # cs) =
     (case digit_in base c of None \<Rightarrow> None | Some d \<Rightarrow> radix_val base (base * acc + d) cs)"

definition unsigned_decimal :: "string \<Rightarrow> rat option" where
  "unsigned_decimal s =
     (let ip = takeWhile is_digit s; r1 = dropWhile is_digit s;
          (fp, r2, dot) = (case r1 of c # cs \<Rightarrow> if c = CHR ''.'' then (takeWhile is_digit cs, dropWhile is_digit cs, True)
                                              else ([], r1, False)
                                   | [] \<Rightarrow> ([], [], False));
          mant = of_int (digits_val (ip @ fp)) / 10 ^ length fp
      in if ip = [] \<and> fp = [] then None
         else (case r2 of
                 [] \<Rightarrow> Some mant
               | e # es \<Rightarrow>
                   if e \<noteq> CHR ''e'' \<and> e \<noteq> CHR ''E'' then None
                   else (let neg = (es \<noteq> [] \<and> hd es = CHR ''-'');
                             ds = (if es \<noteq> [] \<and> hd es \<in> set ''+-'' then tl es else es)
                         in if ds = [] \<or> \<not> list_all is_digit ds then None
                            else Some (if neg then mant / 10 ^ nat (digits_val ds) else mant * 10 ^ nat (digits_val ds)))))"

definition number_literal :: "string \<Rightarrow> rat option" where
  "number_literal raw =
     (let s = trim raw in
      if s = [] then Some 0
      else if length s > 2 \<and> s ! 0 = CHR ''0'' \<and> s ! 1 \<in> set ''xX'' then map_option of_int (radix_val 16 0 (drop 2 s))
      else if length s > 2 \<and> s ! 0 = CHR ''0'' \<and> s ! 1 \<in> set ''oO'' then map_option of_int (radix_val 8 0 (drop 2 s))
      else if length s > 2 \<and> s ! 0 = CHR ''0'' \<and> s ! 1 \<in> set ''bB'' then map_option of_int (radix_val 2 0 (drop 2 s))
      else if hd s = CHR ''-'' then map_option uminus (unsigned_decimal (tl s))
      else if hd s = CHR ''+'' then unsigned_decimal (tl s)
      else unsigned_decimal s)"

text \<open>
  Rounding to the nearest double, ties to even, for magnitudes in the normal range:
  the unit in the last place of \<open>q\<close> is \<open>2 ^ e / 2 ^ 52\<close> for the \<open>e\<close> with
  \<open>2 ^ e \<le> \<bar>q\<bar> < 2 ^ (e + 1)\<close>. Integers of magnitude up to \<open>2 ^ 53\<close> are exact.
\<close>

definition round_even :: "rat \<Rightarrow> int" where
  "round_even q = (let f = \<lfloor>q\<rfloor>; d = q - of_int f in
     if d < 1 / 2 then f else if d > 1 / 2 then f + 1 else if even f then f else f + 1)"

fun scale_up :: "nat \<Rightarrow> rat \<Rightarrow> nat \<Rightarrow> nat" where
  "scale_up 0 q k = k"
| "scale_up (Suc n) q k = (if q * 2 ^ k \<ge> 2 ^ 52 then k else scale_up n q (Suc k))"

fun scale_down :: "nat \<Rightarrow> rat \<Rightarrow> nat \<Rightarrow> nat" where
  "scale_down 0 q k = k"
| "scale_down (Suc n) q k = (if q / 2 ^ k < 2 ^ 53 then k else scale_down n q (Suc k))"

definition to_double :: "rat \<Rightarrow> rat" where
  "to_double q =
     (let a = \<bar>q\<bar>; r = (if a = 0 then 0
        else if a < 2 ^ 53 then (let k = scale_up 1074 a 0 in of_int (round_even (a * 2 ^ k)) / 2 ^ k)
        else (let k = scale_down 1024 a 0 in of_int (round_even (a / 2 ^ k)) * 2 ^ k))
      in if q < 0 then - r else r)"

definition js_number :: "string \<Rightarrow> rat option" where
  "js_number s = (case number_literal s of None \<Rightarrow> None
     | Some q \<Rightarrow> (let d = to_double q in if \<bar>d\<bar> < 2 ^ 1024 then Some d else None))"

text \<open>
  \<open>Number.parseInt(s, 10)\<close>: white space, a sign, and the longest run of digits. \<open>None\<close> stands for
  \<open>NaN\<close> and \<open>Infinity\<close>.
\<close>

definition js_parse_int :: "string \<Rightarrow> rat option" where
  "js_parse_int s =
     (let t = dropWhile is_ws s; ds = takeWhile is_digit (if t \<noteq> [] \<and> hd t \<in> set ''+-'' then tl t else t);
          d = to_double (of_int (digits_val ds))
      in if ds = [] \<or> d \<ge> 2 ^ 1024 then None else Some (if hd t = CHR ''-'' then - d else d))"

definition is_int :: "rat \<Rightarrow> bool" where
  "is_int q = (of_int \<lfloor>q\<rfloor> = q)"

section \<open>Dates\<close>

text \<open>
  A time value is the number of milliseconds since the epoch. \<open>to_iso\<close> is
  \<open>Date.prototype.toISOString\<close> for the years 0 to 9999; the civil date is computed
  in eras of 400 years that start in March.
\<close>

definition civil_of_days :: "int \<Rightarrow> int \<times> int \<times> int" where
  "civil_of_days days =
     (let z = days + 719468; era = z div 146097; doe = z mod 146097;
          yoe = (doe - doe div 1460 + doe div 36524 - doe div 146096) div 365;
          doy = doe - (365 * yoe + yoe div 4 - yoe div 100);
          mp = (5 * doy + 2) div 153;
          d = doy - (153 * mp + 2) div 5 + 1;
          m = (if mp < 10 then mp + 3 else mp - 9)
      in (yoe + era * 400 + (if m \<le> 2 then 1 else 0), m, d))"

definition pad :: "nat \<Rightarrow> int \<Rightarrow> string" where
  "pad w i = (let s = show_int i in replicate (w - length s) (CHR ''0'') @ s)"

definition to_iso :: "int \<Rightarrow> string" where
  "to_iso ms =
     (let (y, m, d) = civil_of_days (ms div 86400000); t = ms mod 86400000
      in pad 4 y @ ''-'' @ pad 2 m @ ''-'' @ pad 2 d @ ''T'' @ pad 2 (t div 3600000) @ '':'' @
         pad 2 (t div 60000 mod 60) @ '':'' @ pad 2 (t div 1000 mod 60) @ ''.'' @ pad 3 (t mod 1000) @ ''Z'')"

end
