(* ===== verification/Workflow_Fsm.thy ===== *)
theory Workflow_Fsm
  imports Js "HOL-Library.Sublist"
begin

text \<open>
  The canonical workflow states (\<open>orchestrator/src/state-machine/workflow-state.ts\<close>) and
  the table of legal transitions with its gates (\<open>transitions.ts\<close>).
\<close>

section \<open>States\<close>

datatype workflow_state =
    RECEIVED
  | POLICY_LOADED
  | CLOUD_CONTEXT_LOADED
  | CLARIFYING
  | MANIFEST_CREATING
  | MANIFEST_VALIDATING
  | IAC_GENERATING
  | PLAN_CREATING
  | POLICY_CHECKING
  | CONFIRMING
  | APPROVING
  | EXECUTING
  | COMPLETED
  | FAILED
  | CANCELLED

definition WORKFLOW_STATES :: "workflow_state list" where
  "WORKFLOW_STATES =
     [RECEIVED, POLICY_LOADED, CLOUD_CONTEXT_LOADED, CLARIFYING, MANIFEST_CREATING,
      MANIFEST_VALIDATING, IAC_GENERATING, PLAN_CREATING, POLICY_CHECKING, CONFIRMING,
      APPROVING, EXECUTING, COMPLETED, FAILED, CANCELLED]"

definition TERMINAL_WORKFLOW_STATES :: "workflow_state list" where
  "TERMINAL_WORKFLOW_STATES = [COMPLETED, FAILED, CANCELLED]"

definition isTerminalWorkflowState :: "workflow_state \<Rightarrow> bool" where
  "isTerminalWorkflowState st = (st \<in> set TERMINAL_WORKFLOW_STATES)"

text \<open>A state's label, the string literal that is its value in the source.\<close>

fun state_label :: "workflow_state \<Rightarrow> string" where
  "state_label RECEIVED = ''RECEIVED''"
| "state_label POLICY_LOADED = ''POLICY_LOADED''"
| "state_label CLOUD_CONTEXT_LOADED = ''CLOUD_CONTEXT_LOADED''"
| "state_label CLARIFYING = ''CLARIFYING''"
| "state_label MANIFEST_CREATING = ''MANIFEST_CREATING''"
| "state_label MANIFEST_VALIDATING = ''MANIFEST_VALIDATING''"
| "state_label IAC_GENERATING = ''IAC_GENERATING''"
| "state_label PLAN_CREATING = ''PLAN_CREATING''"
| "state_label POLICY_CHECKING = ''POLICY_CHECKING''"
| "state_label CONFIRMING = ''CONFIRMING''"
| "state_label APPROVING = ''APPROVING''"
| "state_label EXECUTING = ''EXECUTING''"
| "state_label COMPLETED = ''COMPLETED''"
| "state_label FAILED = ''FAILED''"
| "state_label CANCELLED = ''CANCELLED''"

text \<open>The states are the listed ones, so that what holds of each of them can be evaluated.\<close>

instantiation workflow_state :: enum
begin

definition enum_workflow_state :: "workflow_state list" where
  "enum_workflow_state = WORKFLOW_STATES"

definition enum_all_workflow_state :: "(workflow_state \<Rightarrow> bool) \<Rightarrow> bool" where
  "enum_all_workflow_state P = list_all P WORKFLOW_STATES"

definition enum_ex_workflow_state :: "(workflow_state \<Rightarrow> bool) \<Rightarrow> bool" where
  "enum_ex_workflow_state P = list_ex P WORKFLOW_STATES"

instance
proof
  show states: "UNIV = set (enum_class.enum :: workflow_state list)"
  proof -
    have "st \<in> set WORKFLOW_STATES" for st by (cases st) (simp_all add: WORKFLOW_STATES_def)
    then show ?thesis by (auto simp: enum_workflow_state_def)
  qed
  show "distinct (enum_class.enum :: workflow_state list)"
    by (simp add: enum_workflow_state_def WORKFLOW_STATES_def)
  show "enum_class.enum_all P \<longleftrightarrow> Ball UNIV P" for P :: "workflow_state \<Rightarrow> bool"
    unfolding states by (simp add: enum_all_workflow_state_def enum_workflow_state_def list_all_iff)
  show "enum_class.enum_ex P \<longleftrightarrow> Bex UNIV P" for P :: "workflow_state \<Rightarrow> bool"
    unfolding states by (simp add: enum_ex_workflow_state_def enum_workflow_state_def list_ex_iff)
qed

end

text \<open>A label is the name of one state.\<close>

lemma state_label_inject: "state_label s = state_label t \<longleftrightarrow> s = t"
proof -
  have "\<forall>s t. state_label s = state_label t \<longrightarrow> s = t" by code_simp
  then show ?thesis by blast
qed

section \<open>Gates\<close>

datatype EntryAction =
    NONE
  | LOAD_POLICY_REQUIREMENTS
  | LOAD_CLOUD_CONTEXT
  | REQUEST_CLARIFICATION
  | CREATE_MANIFEST
  | VALIDATE_MANIFEST
  | GENERATE_IAC
  | CREATE_PLAN
  | CHECK_POLICY
  | REQUEST_CONFIRMATION
  | REQUEST_APPROVAL
  | EXECUTE_IAC
  | PUBLISH_COMPLETION

record TransitionConditions =
  policiesEnabled :: bool
  policyRequirementsLoaded :: bool
  cloudContextLoaded :: bool
  clarificationCompleted :: bool
  manifestCreated :: bool
  manifestValidationPassed :: bool
  manifestConfirmed :: bool
  iacGenerated :: bool
  planCreated :: bool
  policyCheckPassed :: bool
  confirmationCompleted :: bool
  approvalRequired :: bool
  approvalCompleted :: bool

definition EMPTY_TRANSITION_CONDITIONS :: TransitionConditions where
  "EMPTY_TRANSITION_CONDITIONS =
     \<lparr>policiesEnabled = False, policyRequirementsLoaded = False, cloudContextLoaded = False,
      clarificationCompleted = False, manifestCreated = False, manifestValidationPassed = False,
      manifestConfirmed = False, iacGenerated = False, planCreated = False,
      policyCheckPassed = False, confirmationCompleted = False, approvalRequired = False,
      approvalCompleted = False\<rparr>"

text \<open>\<open>keyof TransitionConditions\<close> and the lookup \<open>conditions[key]\<close>.\<close>

datatype condition_key =
    K_policiesEnabled
  | K_policyRequirementsLoaded
  | K_cloudContextLoaded
  | K_clarificationCompleted
  | K_manifestCreated
  | K_manifestValidationPassed
  | K_manifestConfirmed
  | K_iacGenerated
  | K_planCreated
  | K_policyCheckPassed
  | K_confirmationCompleted
  | K_approvalRequired
  | K_approvalCompleted

fun holds_key :: "TransitionConditions \<Rightarrow> condition_key \<Rightarrow> bool" where
  "holds_key c K_policiesEnabled = policiesEnabled c"
| "holds_key c K_policyRequirementsLoaded = policyRequirementsLoaded c"
| "holds_key c K_cloudContextLoaded = cloudContextLoaded c"
| "holds_key c K_clarificationCompleted = clarificationCompleted c"
| "holds_key c K_manifestCreated = manifestCreated c"
| "holds_key c K_manifestValidationPassed = manifestValidationPassed c"
| "holds_key c K_manifestConfirmed = manifestConfirmed c"
| "holds_key c K_iacGenerated = iacGenerated c"
| "holds_key c K_planCreated = planCreated c"
| "holds_key c K_policyCheckPassed = policyCheckPassed c"
| "holds_key c K_confirmationCompleted = confirmationCompleted c"
| "holds_key c K_approvalRequired = approvalRequired c"
| "holds_key c K_approvalCompleted = approvalCompleted c"

fun key_label :: "condition_key \<Rightarrow> string" where
  "key_label K_policiesEnabled = ''policiesEnabled''"
| "key_label K_policyRequirementsLoaded = ''policyRequirementsLoaded''"
| "key_label K_cloudContextLoaded = ''cloudContextLoaded''"
| "key_label K_clarificationCompleted = ''clarificationCompleted''"
| "key_label K_manifestCreated = ''manifestCreated''"
| "key_label K_manifestValidationPassed = ''manifestValidationPassed''"
| "key_label K_manifestConfirmed = ''manifestConfirmed''"
| "key_label K_iacGenerated = ''iacGenerated''"
| "key_label K_planCreated = ''planCreated''"
| "key_label K_policyCheckPassed = ''policyCheckPassed''"
| "key_label K_confirmationCompleted = ''confirmationCompleted''"
| "key_label K_approvalRequired = ''approvalRequired''"
| "key_label K_approvalCompleted = ''approvalCompleted''"

record TransitionDefinition =
  to_state :: workflow_state
  onEntry :: EntryAction
  requiredConditions :: "condition_key list"

section \<open>The table\<close>

definition EXIT_TO_FAILURE_OR_CANCELLATION :: "TransitionDefinition list" where
  "EXIT_TO_FAILURE_OR_CANCELLATION =
     [\<lparr>to_state = FAILED, onEntry = NONE, requiredConditions = []\<rparr>,
      \<lparr>to_state = CANCELLED, onEntry = NONE, requiredConditions = []\<rparr>]"

fun ALLOWED_TRANSITIONS :: "workflow_state \<Rightarrow> TransitionDefinition list" where
  "ALLOWED_TRANSITIONS RECEIVED =
     [\<lparr>to_state = POLICY_LOADED, onEntry = LOAD_POLICY_REQUIREMENTS, requiredConditions = []\<rparr>,
      \<lparr>to_state = CLOUD_CONTEXT_LOADED, onEntry = LOAD_CLOUD_CONTEXT, requiredConditions = []\<rparr>]
     @ EXIT_TO_FAILURE_OR_CANCELLATION"
| "ALLOWED_TRANSITIONS POLICY_LOADED =
     [\<lparr>to_state = CLOUD_CONTEXT_LOADED, onEntry = LOAD_CLOUD_CONTEXT,
       requiredConditions = [K_policyRequirementsLoaded]\<rparr>]
     @ EXIT_TO_FAILURE_OR_CANCELLATION"
| "ALLOWED_TRANSITIONS CLOUD_CONTEXT_LOADED =
     [\<lparr>to_state = CLARIFYING, onEntry = REQUEST_CLARIFICATION,
       requiredConditions = [K_cloudContextLoaded]\<rparr>,
      \<lparr>to_state = MANIFEST_CREATING, onEntry = CREATE_MANIFEST,
       requiredConditions = [K_policyRequirementsLoaded, K_cloudContextLoaded]\<rparr>]
     @ EXIT_TO_FAILURE_OR_CANCELLATION"
| "ALLOWED_TRANSITIONS CLARIFYING =
     [\<lparr>to_state = CLARIFYING, onEntry = REQUEST_CLARIFICATION, requiredConditions = []\<rparr>,
      \<lparr>to_state = MANIFEST_CREATING, onEntry = CREATE_MANIFEST,
       requiredConditions = [K_policyRequirementsLoaded, K_cloudContextLoaded, K_clarificationCompleted]\<rparr>]
     @ EXIT_TO_FAILURE_OR_CANCELLATION"
| "ALLOWED_TRANSITIONS MANIFEST_CREATING =
     [\<lparr>to_state = CLARIFYING, onEntry = REQUEST_CLARIFICATION,
       requiredConditions = [K_cloudContextLoaded]\<rparr>,
      \<lparr>to_state = MANIFEST_VALIDATING, onEntry = VALIDATE_MANIFEST,
       requiredConditions = [K_manifestCreated]\<rparr>]
     @ EXIT_TO_FAILURE_OR_CANCELLATION"
| "ALLOWED_TRANSITIONS MANIFEST_VALIDATING =
     [\<lparr>to_state = MANIFEST_CREATING, onEntry = CREATE_MANIFEST,
       requiredConditions = [K_policyRequirementsLoaded, K_cloudContextLoaded]\<rparr>,
      \<lparr>to_state = IAC_GENERATING, onEntry = GENERATE_IAC,
       requiredConditions = [K_manifestValidationPassed, K_manifestConfirmed]\<rparr>]
     @ EXIT_TO_FAILURE_OR_CANCELLATION"
| "ALLOWED_TRANSITIONS IAC_GENERATING =
     [\<lparr>to_state = PLAN_CREATING, onEntry = CREATE_PLAN, requiredConditions = [K_iacGenerated]\<rparr>]
     @ EXIT_TO_FAILURE_OR_CANCELLATION"
| "ALLOWED_TRANSITIONS PLAN_CREATING =
     [\<lparr>to_state = POLICY_CHECKING, onEntry = CHECK_POLICY, requiredConditions = [K_planCreated]\<rparr>]
     @ EXIT_TO_FAILURE_OR_CANCELLATION"
| "ALLOWED_TRANSITIONS POLICY_CHECKING =
     [\<lparr>to_state = CONFIRMING, onEntry = REQUEST_CONFIRMATION,
       requiredConditions = [K_policyCheckPassed]\<rparr>]
     @ EXIT_TO_FAILURE_OR_CANCELLATION"
| "ALLOWED_TRANSITIONS CONFIRMING =
     [\<lparr>to_state = APPROVING, onEntry = REQUEST_APPROVAL,
       requiredConditions = [K_confirmationCompleted, K_approvalRequired]\<rparr>,
      \<lparr>to_state = EXECUTING, onEntry = EXECUTE_IAC,
       requiredConditions = [K_confirmationCompleted]\<rparr>]
     @ EXIT_TO_FAILURE_OR_CANCELLATION"
| "ALLOWED_TRANSITIONS APPROVING =
     [\<lparr>to_state = MANIFEST_CREATING, onEntry = CREATE_MANIFEST,
       requiredConditions = [K_policyRequirementsLoaded, K_cloudContextLoaded]\<rparr>,
      \<lparr>to_state = EXECUTING, onEntry = EXECUTE_IAC,
       requiredConditions = [K_confirmationCompleted, K_approvalRequired, K_approvalCompleted]\<rparr>]
     @ EXIT_TO_FAILURE_OR_CANCELLATION"
| "ALLOWED_TRANSITIONS EXECUTING =
     [\<lparr>to_state = COMPLETED, onEntry = PUBLISH_COMPLETION, requiredConditions = []\<rparr>,
      \<lparr>to_state = FAILED, onEntry = NONE, requiredConditions = []\<rparr>]"
| "ALLOWED_TRANSITIONS COMPLETED = []"
| "ALLOWED_TRANSITIONS FAILED = []"
| "ALLOWED_TRANSITIONS CANCELLED = []"

section \<open>Checking a transition\<close>

datatype transition_error =
    IllegalWorkflowTransitionError workflow_state workflow_state
  | UnsatisfiedWorkflowGateError workflow_state workflow_state "condition_key list"

text \<open>The error messages of the two classes.\<close>

fun transition_error_message :: "transition_error \<Rightarrow> string" where
  "transition_error_message (IllegalWorkflowTransitionError f t) =
     ''Illegal workflow transition: '' @ state_label f @ '' -> '' @ state_label t"
| "transition_error_message (UnsatisfiedWorkflowGateError f t missing) =
     ''Workflow transition '' @ state_label f @ '' -> '' @ state_label t @
     '' is blocked by: '' @ join '', '' (map key_label missing)"

definition getTransition ::
  "workflow_state \<Rightarrow> workflow_state \<Rightarrow> transition_error + TransitionDefinition" where
  "getTransition from to =
     (case List.find (\<lambda>candidate. to_state candidate = to) (ALLOWED_TRANSITIONS from) of
        None \<Rightarrow> Inl (IllegalWorkflowTransitionError from to)
      | Some transition \<Rightarrow> Inr transition)"

text \<open>The gates that do not hold: the edge's own, then the hard ones.\<close>

definition missing_gates ::
  "workflow_state \<Rightarrow> TransitionConditions \<Rightarrow> TransitionDefinition \<Rightarrow> condition_key list" where
  "missing_gates to conditions transition =
     filter (\<lambda>k. \<not> holds_key conditions k) (requiredConditions transition) @
     (if to = MANIFEST_CREATING \<and> policiesEnabled conditions \<and> \<not> policyRequirementsLoaded conditions
      then [K_policyRequirementsLoaded] else []) @
     (if to = EXECUTING \<and> \<not> policyCheckPassed conditions then [K_policyCheckPassed] else []) @
     (if to = EXECUTING \<and> approvalRequired conditions \<and> \<not> approvalCompleted conditions
      then [K_approvalCompleted] else [])"

definition assertTransition ::
  "workflow_state \<Rightarrow> workflow_state \<Rightarrow> TransitionConditions \<Rightarrow> transition_error + TransitionDefinition"
where
  "assertTransition from to conditions =
     rbind (getTransition from to) (\<lambda>transition.
       let missing = missing_gates to conditions transition
       in if missing \<noteq> [] then Inl (UnsatisfiedWorkflowGateError from to (uniq missing))
          else Inr transition)"

section \<open>Facts the other components use\<close>

lemmas terminal_defs = isTerminalWorkflowState_def TERMINAL_WORKFLOW_STATES_def

lemma isTerminal_iff: "isTerminalWorkflowState st \<longleftrightarrow> st = COMPLETED \<or> st = FAILED \<or> st = CANCELLED"
  by (auto simp: terminal_defs)

lemma terminal_no_exit: "isTerminalWorkflowState st \<Longrightarrow> ALLOWED_TRANSITIONS st = []"
  by (auto simp: isTerminal_iff)

lemma getTransition_to: "getTransition f t = Inr d \<Longrightarrow> to_state d = t"
  by (auto simp: getTransition_def split: option.splits dest: find_Some_mem)

lemma getTransition_mem: "getTransition f t = Inr d \<Longrightarrow> d \<in> set (ALLOWED_TRANSITIONS f)"
  by (auto simp: getTransition_def split: option.splits dest: find_Some_mem)

lemma assertTransition_get: "assertTransition f t c = Inr d \<Longrightarrow> getTransition f t = Inr d"
  by (auto simp: assertTransition_def Let_def mnd split: if_splits)

lemma assertTransition_required:
  "assertTransition f t c = Inr d \<Longrightarrow> \<forall>k \<in> set (requiredConditions d). holds_key c k"
  by (auto simp: assertTransition_def missing_gates_def Let_def mnd filter_empty_conv split: if_splits)

lemma assertTransition_not_terminal:
  "assertTransition f t c = Inr d \<Longrightarrow> \<not> isTerminalWorkflowState f"
  using terminal_no_exit [of f]
  by (auto dest!: assertTransition_get getTransition_mem)

text \<open>What a passed check has shown, edge by edge.\<close>

lemma allowed_edge:
  "assertTransition f t c = Inr d \<Longrightarrow> t \<in> to_state ` set (ALLOWED_TRANSITIONS f)"
  by (metis assertTransition_get getTransition_mem getTransition_to imageI)

lemma into_iac:
  assumes "assertTransition f IAC_GENERATING c = Inr d"
  shows "f = MANIFEST_VALIDATING \<and> manifestValidationPassed c \<and> manifestConfirmed c"
proof -
  from assms have g: "getTransition f IAC_GENERATING = Inr d" by (rule assertTransition_get)
  then have f: "f = MANIFEST_VALIDATING"
    by (cases f) (auto simp: getTransition_def EXIT_TO_FAILURE_OR_CANCELLATION_def)
  with g assertTransition_required [OF assms] show ?thesis
    by (auto simp: getTransition_def EXIT_TO_FAILURE_OR_CANCELLATION_def)
qed

lemma into_plan:
  assumes "assertTransition f PLAN_CREATING c = Inr d"
  shows "f = IAC_GENERATING \<and> iacGenerated c"
proof -
  from assms have g: "getTransition f PLAN_CREATING = Inr d" by (rule assertTransition_get)
  then have f: "f = IAC_GENERATING"
    by (cases f) (auto simp: getTransition_def EXIT_TO_FAILURE_OR_CANCELLATION_def)
  with g assertTransition_required [OF assms] show ?thesis
    by (auto simp: getTransition_def EXIT_TO_FAILURE_OR_CANCELLATION_def)
qed

lemma into_policy_checking:
  assumes "assertTransition f POLICY_CHECKING c = Inr d"
  shows "f = PLAN_CREATING \<and> planCreated c"
proof -
  from assms have g: "getTransition f POLICY_CHECKING = Inr d" by (rule assertTransition_get)
  then have f: "f = PLAN_CREATING"
    by (cases f) (auto simp: getTransition_def EXIT_TO_FAILURE_OR_CANCELLATION_def)
  with g assertTransition_required [OF assms] show ?thesis
    by (auto simp: getTransition_def EXIT_TO_FAILURE_OR_CANCELLATION_def)
qed

lemma into_confirming: "assertTransition f CONFIRMING c = Inr d \<Longrightarrow> f = POLICY_CHECKING"
  by (drule assertTransition_get, cases f)
    (auto simp: getTransition_def EXIT_TO_FAILURE_OR_CANCELLATION_def)

lemma into_approving: "assertTransition f APPROVING c = Inr d \<Longrightarrow> f = CONFIRMING \<and> confirmationCompleted c"
  by (frule assertTransition_required, drule assertTransition_get, cases f)
    (auto simp: getTransition_def EXIT_TO_FAILURE_OR_CANCELLATION_def)

lemma into_executing:
  "assertTransition f EXECUTING c = Inr d \<Longrightarrow> (f = CONFIRMING \<or> f = APPROVING) \<and> confirmationCompleted c"
  by (frule assertTransition_required, drule assertTransition_get, cases f)
    (auto simp: getTransition_def EXIT_TO_FAILURE_OR_CANCELLATION_def)

lemma into_completed: "assertTransition f COMPLETED c = Inr d \<Longrightarrow> f = EXECUTING"
  by (drule assertTransition_get, cases f)
    (auto simp: getTransition_def EXIT_TO_FAILURE_OR_CANCELLATION_def)

lemma into_received: "assertTransition f RECEIVED c \<noteq> Inr d"
  by (cases f) (auto simp: getTransition_def EXIT_TO_FAILURE_OR_CANCELLATION_def dest: assertTransition_get)

lemma distinct_targets: "distinct (map to_state (ALLOWED_TRANSITIONS f))"
  by (cases f) (simp_all add: EXIT_TO_FAILURE_OR_CANCELLATION_def)

lemma find_by_key: "distinct (map g xs) \<Longrightarrow> x \<in> set xs \<Longrightarrow> List.find (\<lambda>y. g y = g x) xs = Some x"
  by (induction xs) auto

lemma target_unique:
  "d \<in> set (ALLOWED_TRANSITIONS f) \<Longrightarrow> List.find (\<lambda>x. to_state x = to_state d) (ALLOWED_TRANSITIONS f) = Some d"
  by (rule find_by_key [OF distinct_targets])

lemma getTransition_iff: "getTransition f t = Inr d \<longleftrightarrow> d \<in> set (ALLOWED_TRANSITIONS f) \<and> to_state d = t"
proof
  assume "getTransition f t = Inr d"
  then show "d \<in> set (ALLOWED_TRANSITIONS f) \<and> to_state d = t"
    using getTransition_mem getTransition_to by blast
next
  assume "d \<in> set (ALLOWED_TRANSITIONS f) \<and> to_state d = t"
  then show "getTransition f t = Inr d"
    using target_unique [of d f] by (auto simp: getTransition_def)
qed

text \<open>
  The states a workflow must have passed, in this order, when it stands in a given one:
  the specification that the table and its gates implement.
\<close>

definition main_line :: "workflow_state list" where
  "main_line = [RECEIVED, CLOUD_CONTEXT_LOADED, MANIFEST_CREATING, MANIFEST_VALIDATING,
     IAC_GENERATING, PLAN_CREATING, POLICY_CHECKING, CONFIRMING, EXECUTING, COMPLETED]"

definition must_pass :: "workflow_state \<Rightarrow> workflow_state list" where
  "must_pass st =
     (if st \<in> {POLICY_LOADED, FAILED, CANCELLED} then [RECEIVED, st]
      else if st = CLARIFYING then [RECEIVED, CLOUD_CONTEXT_LOADED, CLARIFYING]
      else if st = APPROVING then takeWhile (\<lambda>x. x \<noteq> EXECUTING) main_line @ [APPROVING]
      else takeWhile (\<lambda>x. x \<noteq> st) main_line @ [st])"

text \<open>Histories: the states visited by a sequence of accepted transitions.\<close>

inductive history :: "workflow_state list \<Rightarrow> workflow_state \<Rightarrow> bool" where
  start: "history [RECEIVED] RECEIVED"
| accept: "history h f \<Longrightarrow> assertTransition f t c = Inr d \<Longrightarrow> history (h @ [t]) t"

lemma history_step: "history h f \<Longrightarrow> assertTransition f t c \<in> range Inr \<Longrightarrow> history (h @ [t]) t"
  by (auto intro: history.accept)

lemma must_pass_edge:
  "t \<in> to_state ` set (ALLOWED_TRANSITIONS f) \<Longrightarrow> \<exists>p. must_pass t = p @ [t] \<and> subseq p (must_pass f)"
  by (cases f) (auto simp: EXIT_TO_FAILURE_OR_CANCELLATION_def must_pass_def main_line_def)

lemma no_missing_gates:
  "missing_gates t c d = [] \<longleftrightarrow>
     (\<forall>k \<in> set (requiredConditions d). holds_key c k) \<and>
     \<not> (t = MANIFEST_CREATING \<and> policiesEnabled c \<and> \<not> policyRequirementsLoaded c) \<and>
     \<not> (t = EXECUTING \<and> \<not> policyCheckPassed c) \<and>
     \<not> (t = EXECUTING \<and> approvalRequired c \<and> \<not> approvalCompleted c)"
  by (simp add: missing_gates_def filter_empty_conv)

lemma gates_char:
  "assertTransition f t c = Inr d \<longleftrightarrow>
     getTransition f t = Inr d \<and> (\<forall>k \<in> set (requiredConditions d). holds_key c k) \<and>
     \<not> (t = MANIFEST_CREATING \<and> policiesEnabled c \<and> \<not> policyRequirementsLoaded c) \<and>
     \<not> (t = EXECUTING \<and> \<not> policyCheckPassed c) \<and>
     \<not> (t = EXECUTING \<and> approvalRequired c \<and> \<not> approvalCompleted c)"
proof (cases "getTransition f t")
  case (Inl e)
  then show ?thesis by (simp add: assertTransition_def)
next
  case (Inr tr)
  then have "assertTransition f t c = Inr d \<longleftrightarrow> d = tr \<and> missing_gates t c tr = []"
    by (auto simp: assertTransition_def Let_def)
  then show ?thesis unfolding Inr no_missing_gates by blast
qed

lemma set_missing_gates:
  "k \<in> set (missing_gates t c d) \<Longrightarrow> \<not> holds_key c k"
  "k \<in> set (requiredConditions d) \<Longrightarrow> \<not> holds_key c k \<Longrightarrow> k \<in> set (missing_gates t c d)"
  by (auto simp: missing_gates_def split: if_splits)

text \<open>Failure is open from every state that is not terminal.\<close>

lemma only_failure_open:
  "\<not> isTerminalWorkflowState st \<Longrightarrow> \<exists>d. assertTransition st FAILED c = Inr d"
  by (cases st)
    (auto simp: terminal_defs EXIT_TO_FAILURE_OR_CANCELLATION_def assertTransition_def missing_gates_def getTransition_def)

section \<open>Properties\<close>

text \<open>
  C11. A transition is accepted exactly when it is an edge of the table, every condition the
  edge names holds, and the three hard gates hold: policy requirements before manifest
  creation when policies are enabled, a passed policy check before execution, and a completed
  approval before execution when one is required. The accepted definition is the table's own.
\<close>

theorem assertTransition_complete:
  "(assertTransition from_state to conditions = Inr d) =
     (d \<in> set (ALLOWED_TRANSITIONS from_state) \<and> to_state d = to \<and>
      list_all (holds_key conditions) (requiredConditions d) \<and>
      \<not> (to = MANIFEST_CREATING \<and> policiesEnabled conditions \<and> \<not> policyRequirementsLoaded conditions) \<and>
      \<not> (to = EXECUTING \<and> \<not> policyCheckPassed conditions) \<and>
      \<not> (to = EXECUTING \<and> approvalRequired conditions \<and> \<not> approvalCompleted conditions))"
  by (auto simp: gates_char getTransition_iff list_all_iff)

text \<open>
  C12. Whatever conditions each step was checked under, the states a workflow has visited
  contain, in order, every mandatory stage of the state it stands in; in particular a
  completed workflow has passed cloud context, manifest creation and validation, code
  generation, plan, policy check, confirmation and execution.
\<close>

theorem history_passes_mandatory_stages:
  assumes "history h st"
  shows "subseq (must_pass st) h"
  using assms
proof (induction rule: history.induct)
  case start
  then show ?case by (simp add: must_pass_def main_line_def)
next
  case (accept h f t c d)
  then obtain p where "must_pass t = p @ [t]" "subseq p (must_pass f)"
    using allowed_edge must_pass_edge by blast
  with accept.IH show ?case
    by (metis list_emb_append_mono subseq_order.order_refl subseq_order.trans)
qed

theorem history_passes_mandatory_stages_witness:
  "subseq [RECEIVED, CLOUD_CONTEXT_LOADED, CLARIFYING] [RECEIVED, POLICY_LOADED, CLOUD_CONTEXT_LOADED, CLARIFYING]"
proof -
  let ?c = "EMPTY_TRANSITION_CONDITIONS\<lparr>policyRequirementsLoaded := True, cloudContextLoaded := True\<rparr>"
  note a = history_step [where c = ?c]
  note d = EMPTY_TRANSITION_CONDITIONS_def getTransition_def assertTransition_def missing_gates_def
  have 1: "history ([RECEIVED] @ [POLICY_LOADED]) POLICY_LOADED" by (rule a [OF start]) (simp add: d)
  have 2: "history (([RECEIVED] @ [POLICY_LOADED]) @ [CLOUD_CONTEXT_LOADED]) CLOUD_CONTEXT_LOADED"
    by (rule a [OF 1]) (simp add: d)
  have 3: "history ((([RECEIVED] @ [POLICY_LOADED]) @ [CLOUD_CONTEXT_LOADED]) @ [CLARIFYING]) CLARIFYING"
    by (rule a [OF 2]) (simp add: d)
  from history_passes_mandatory_stages [OF 3] show ?thesis by (simp add: must_pass_def)
qed

text \<open>
  No state is a dead end but the terminal ones: a state has an outgoing transition iff it
  is not terminal, a failure exit is open from each of them under any conditions, and
  cancellation is open from each of them except execution.
\<close>

theorem only_terminal_states_are_final:
  "(ALLOWED_TRANSITIONS st = []) = isTerminalWorkflowState st \<and>
   (assertTransition st FAILED c \<in> range Inr) = (\<not> isTerminalWorkflowState st) \<and>
   (assertTransition st CANCELLED c \<in> range Inr) = (\<not> isTerminalWorkflowState st \<and> st \<noteq> EXECUTING)"
  by (cases st)
    (auto simp: terminal_defs EXIT_TO_FAILURE_OR_CANCELLATION_def assertTransition_def missing_gates_def getTransition_def)

text \<open>
  A blocked transition names its unmet gates: the reported list is not empty, has no
  repetitions, and consists of exactly the required or hard-gated conditions that are false.
\<close>

theorem blocked_transition_reports_missing:
  assumes "assertTransition f t c = Inl (UnsatisfiedWorkflowGateError f' t' missing)"
  shows "f' = f \<and> t' = t \<and> missing \<noteq> [] \<and> distinct missing \<and> (\<forall>k \<in> set missing. \<not> holds_key c k) \<and>
         (\<forall>d k. getTransition f t = Inr d \<longrightarrow> k \<in> set (requiredConditions d) \<longrightarrow> \<not> holds_key c k \<longrightarrow> k \<in> set missing)"
proof -
  from assms obtain d where d: "getTransition f t = Inr d" "missing_gates t c d \<noteq> []" "f' = f" "t' = t"
    "missing = uniq (missing_gates t c d)"
    by (auto simp: assertTransition_def Let_def rbind_Inl_iff getTransition_def split: if_splits option.splits)
  then show ?thesis using set_missing_gates by auto
qed

theorem blocked_transition_reports_missing_witness:
  "distinct [K_confirmationCompleted, K_policyCheckPassed]"
  using blocked_transition_reports_missing
    [of CONFIRMING EXECUTING EMPTY_TRANSITION_CONDITIONS CONFIRMING EXECUTING
        "[K_confirmationCompleted, K_policyCheckPassed]"]
  by (simp add: assertTransition_def missing_gates_def getTransition_def EMPTY_TRANSITION_CONDITIONS_def uniq_def)

end
