(* ===== verification/Zod.thy ===== *)
theory Zod
  imports Js
begin

text \<open>
  Schemas of the validation package zod (version 3), as the sources build them. The package
  itself is not part of the repository: parsing is the field \<open>zparse\<close> of the \<open>world\<close> of
  third-party functions, and what the code relies on is the hypothesis \<open>zod_documented\<close>:
  parsing succeeds exactly on the values the combinators' documentation admits, with the
  documented data (\<open>zdoc\<close>), and a failure carries at least one issue.
\<close>

section \<open>Schemas\<close>

datatype string_format = UUID | EMAIL | DATETIME_OFFSET | URL

datatype string_check =
    STrim
  | SMin nat
  | SMax nat
  | SRegex "string \<Rightarrow> bool"
  | SFormat string_format

datatype number_check = NInt | NFinite | NMin rat | NMax rat | NPositive

datatype unknown_keys = Strip | Strict | Passthrough

datatype zod =
    ZStr "string_check list"
  | ZNum "number_check list"
  | ZCoerceNum "number_check list"
  | ZBool
  | ZEnum "string list"
  | ZLit json
  | ZUnknown
  | ZArr zod "nat option" "nat option"
  | ZRec zod
  | ZObj unknown_keys "(string \<times> zod) list"
  | ZOpt zod
  | ZNullable zod
  | ZDefault zod json
  | ZUnion "zod list"
  | ZDisc string "(string \<times> zod) list"
  | ZRefine zod "json \<Rightarrow> bool"
  | ZTrans zod "json \<Rightarrow> json"

abbreviation ZNullish :: "zod \<Rightarrow> zod" where
  "ZNullish s \<equiv> ZOpt (ZNullable s)"

abbreviation ZArrAny :: "zod \<Rightarrow> zod" where
  "ZArrAny s \<equiv> ZArr s None None"

text \<open>\<open>schema.strict()\<close>, \<open>schema.passthrough()\<close> and \<open>schema.extend(shape)\<close>.\<close>

fun zshape :: "zod \<Rightarrow> (string \<times> zod) list" where
  "zshape (ZObj m fs) = fs"
| "zshape _ = []"

fun zextend :: "zod \<Rightarrow> (string \<times> zod) list \<Rightarrow> zod" where
  "zextend (ZObj m fs) gs = ZObj m (foldl (\<lambda>acc g. AList.update (fst g) (snd g) acc) fs gs)"
| "zextend s gs = s"

section \<open>The documented reading\<close>

definition run_string_check :: "(string_format \<Rightarrow> string \<Rightarrow> bool) \<Rightarrow> string_check \<Rightarrow> string option \<Rightarrow> string option" where
  "run_string_check fmt chk acc =
     (case acc of None \<Rightarrow> None
      | Some s \<Rightarrow> (case chk of
            STrim \<Rightarrow> Some (trim s)
          | SMin n \<Rightarrow> if n \<le> length s then Some s else None
          | SMax n \<Rightarrow> if length s \<le> n then Some s else None
          | SRegex r \<Rightarrow> if r s then Some s else None
          | SFormat f \<Rightarrow> if fmt f s then Some s else None))"

lemma run_string_check_simps [simp]:
  "run_string_check fmt c None = None"
  "run_string_check fmt STrim (Some s) = Some (trim s)"
  "run_string_check fmt (SMin n) (Some s) = (if n \<le> length s then Some s else None)"
  "run_string_check fmt (SMax n) (Some s) = (if length s \<le> n then Some s else None)"
  "run_string_check fmt (SRegex r) (Some s) = (if r s then Some s else None)"
  "run_string_check fmt (SFormat f) (Some s) = (if fmt f s then Some s else None)"
  by (simp_all add: run_string_check_def)

definition number_ok :: "number_check \<Rightarrow> rat \<Rightarrow> bool" where
  "number_ok chk n = (case chk of NInt \<Rightarrow> is_int n | NFinite \<Rightarrow> True | NMin a \<Rightarrow> a \<le> n | NMax a \<Rightarrow> n \<le> a
                      | NPositive \<Rightarrow> 0 < n)"

text \<open>\<open>Number(v)\<close>, \<open>None\<close> for \<open>NaN\<close>; an array is converted through its string.\<close>

fun to_number :: "json \<Rightarrow> rat option" where
  "to_number JUndef = None"
| "to_number JNull = Some 0"
| "to_number (JBool b) = Some (if b then 1 else 0)"
| "to_number (JNum n) = Some n"
| "to_number (JStr s) = js_number s"
| "to_number (JArr []) = Some 0"
| "to_number (JArr [v]) = (if nullish v then Some 0 else if v = JBool True \<or> v = JBool False then None else to_number v)"
| "to_number (JArr (v # w # vs)) = None"
| "to_number (JObj kvs) = None"

fun the_list :: "'a option list \<Rightarrow> 'a list option" where
  "the_list [] = Some []"
| "the_list (v # vs) = (case v of None \<Rightarrow> None | Some x \<Rightarrow> map_option (\<lambda>xs. x # xs) (the_list vs))"

fun first_some :: "'a option list \<Rightarrow> 'a option" where
  "first_some [] = None"
| "first_some (v # vs) = (case v of None \<Rightarrow> first_some vs | Some x \<Rightarrow> Some x)"

definition len_ok :: "nat option \<Rightarrow> nat option \<Rightarrow> nat \<Rightarrow> bool" where
  "len_ok lo hi n = ((case lo of None \<Rightarrow> True | Some a \<Rightarrow> a \<le> n) \<and> (case hi of None \<Rightarrow> True | Some b \<Rightarrow> n \<le> b))"

text \<open>
  An object schema: the fields of the shape in the shape's order (an absent field whose
  schema yields \<open>undefined\<close> stays absent), then, for \<open>passthrough\<close>, the other keys.
\<close>

definition shape_fields ::
  "(string \<times> (json \<Rightarrow> json option)) list \<Rightarrow> (string \<times> json) list \<Rightarrow> (string \<times> json) list option" where
  "shape_fields fs kvs =
     map_option (\<lambda>rs. filter (\<lambda>kv. snd kv \<noteq> JUndef \<or> fst kv \<in> set (map fst kvs)) (zip (map fst fs) rs))
       (the_list (map (\<lambda>f. snd f (jget (JObj kvs) (fst f))) fs))"

definition object_doc ::
  "unknown_keys \<Rightarrow> (string \<times> (json \<Rightarrow> json option)) list \<Rightarrow> json \<Rightarrow> json option" where
  "object_doc m fs v =
     (case v of JObj kvs \<Rightarrow>
        (let extra = filter (\<lambda>kv. fst kv \<notin> set (map fst fs)) kvs in
         case shape_fields fs kvs of
           None \<Rightarrow> None
         | Some out \<Rightarrow>
             (case m of Strip \<Rightarrow> Some (JObj out)
              | Strict \<Rightarrow> if extra = [] then Some (JObj out) else None
              | Passthrough \<Rightarrow> Some (JObj (own_order (out @ filter (\<lambda>kv. fst kv \<noteq> ''__proto__'') extra)))))
      | _ \<Rightarrow> None)"

definition record_doc :: "(json \<Rightarrow> json option) \<Rightarrow> json \<Rightarrow> json option" where
  "record_doc f v =
     (case v of JObj kvs \<Rightarrow>
        map_option (\<lambda>rs. JObj (filter (\<lambda>kv. fst kv \<noteq> ''__proto__'') (zip (map fst kvs) rs)))
          (the_list (map (\<lambda>kv. f (snd kv)) kvs))
      | _ \<Rightarrow> None)"

definition array_doc :: "(json \<Rightarrow> json option) \<Rightarrow> nat option \<Rightarrow> nat option \<Rightarrow> json \<Rightarrow> json option" where
  "array_doc f lo hi v =
     (case v of JArr vs \<Rightarrow> if len_ok lo hi (length vs) then map_option JArr (the_list (map f vs)) else None
      | _ \<Rightarrow> None)"

primrec zdoc :: "(string_format \<Rightarrow> string \<Rightarrow> bool) \<Rightarrow> zod \<Rightarrow> json \<Rightarrow> json option" where
  "zdoc fmt (ZStr cs) = (\<lambda>v. case v of
     JStr s \<Rightarrow> map_option JStr (foldl (\<lambda>acc c. run_string_check fmt c acc) (Some s) cs) | _ \<Rightarrow> None)"
| "zdoc fmt (ZNum cs) = (\<lambda>v. case v of JNum n \<Rightarrow> if list_all (\<lambda>c. number_ok c n) cs then Some v else None | _ \<Rightarrow> None)"
| "zdoc fmt (ZCoerceNum cs) = (\<lambda>v. case to_number v of
     Some n \<Rightarrow> if list_all (\<lambda>c. number_ok c n) cs then Some (JNum n) else None | None \<Rightarrow> None)"
| "zdoc fmt ZBool = (\<lambda>v. case v of JBool b \<Rightarrow> Some v | _ \<Rightarrow> None)"
| "zdoc fmt (ZEnum xs) = (\<lambda>v. case v of JStr s \<Rightarrow> if s \<in> set xs then Some v else None | _ \<Rightarrow> None)"
| "zdoc fmt (ZLit x) = (\<lambda>v. if v = x then Some v else None)"
| "zdoc fmt ZUnknown = (\<lambda>v. Some v)"
| "zdoc fmt (ZArr s lo hi) = array_doc (zdoc fmt s) lo hi"
| "zdoc fmt (ZRec s) = record_doc (zdoc fmt s)"
| "zdoc fmt (ZObj m fs) = object_doc m (map (map_prod id (zdoc fmt)) fs)"
| "zdoc fmt (ZOpt s) = (\<lambda>v. if v = JUndef then Some JUndef else zdoc fmt s v)"
| "zdoc fmt (ZNullable s) = (\<lambda>v. if v = JNull then Some JNull else zdoc fmt s v)"
| "zdoc fmt (ZDefault s d) = (\<lambda>v. zdoc fmt s (if v = JUndef then d else v))"
| "zdoc fmt (ZUnion ss) = (\<lambda>v. first_some (map (\<lambda>f. f v) (map (zdoc fmt) ss)))"
| "zdoc fmt (ZDisc k ss) = (\<lambda>v. case jget v k of
     JStr t \<Rightarrow> (case map_of (map (map_prod id (zdoc fmt)) ss) t of Some f \<Rightarrow> f v | None \<Rightarrow> None) | _ \<Rightarrow> None)"
| "zdoc fmt (ZRefine s p) = (\<lambda>v. case zdoc fmt s v of Some w \<Rightarrow> if p w then Some w else None | None \<Rightarrow> None)"
| "zdoc fmt (ZTrans s t) = (\<lambda>v. map_option t (zdoc fmt s v))"

section \<open>Third-party functions\<close>

record zissue =
  zcode :: string
  zpath :: "json list"
  zmessage :: string

text \<open>
  What the sources call and the repository does not contain: zod's \<open>safeParse\<close>, SHA-256 of
  Node's crypto module, PostgreSQL's normalisation of a \<open>jsonb\<close> value, and the decimal
  rendering of a double.
\<close>

record world =
  zparse :: "zod \<Rightarrow> json \<Rightarrow> zissue list + json"
  sha256_hex :: "string \<Rightarrow> string"
  jsonb :: "json \<Rightarrow> json"
  num_str :: "rat \<Rightarrow> string"

definition zod_documented :: "(string_format \<Rightarrow> string \<Rightarrow> bool) \<Rightarrow> world \<Rightarrow> bool" where
  "zod_documented fmt W \<longleftrightarrow>
     (\<forall>s v. (case zparse W s v of
               Inr w \<Rightarrow> zdoc fmt s v = Some w
             | Inl issues \<Rightarrow> zdoc fmt s v = None \<and> issues \<noteq> []))"

lemma zod_documentedD:
  "zod_documented fmt W \<Longrightarrow>
     (case zparse W s v of Inr w \<Rightarrow> zdoc fmt s v = Some w | Inl issues \<Rightarrow> zdoc fmt s v = None \<and> issues \<noteq> [])"
  by (simp add: zod_documented_def)

lemma zod_Inr: "zod_documented fmt W \<Longrightarrow> zparse W s v = Inr w \<longleftrightarrow> zdoc fmt s v = Some w"
  by (drule zod_documentedD [where s = s and v = v]) (auto split: sum.splits)

lemma zod_Inl: "zod_documented fmt W \<Longrightarrow> zparse W s v = Inl e \<Longrightarrow> zdoc fmt s v = None \<and> e \<noteq> []"
  by (drule zod_documentedD [where s = s and v = v]) (auto split: sum.splits)

lemma zod_None: "zod_documented fmt W \<Longrightarrow> zdoc fmt s v = None \<longleftrightarrow> (\<exists>e. zparse W s v = Inl e)"
  by (cases "zparse W s v") (auto dest: zod_Inl simp: zod_Inr)

text \<open>A world that behaves as documented, for evaluating the model on concrete inputs.\<close>

definition sample_parse :: "(string_format \<Rightarrow> string \<Rightarrow> bool) \<Rightarrow> zod \<Rightarrow> json \<Rightarrow> zissue list + json" where
  "sample_parse fmt s v =
     (case zdoc fmt s v of
        Some w \<Rightarrow> Inr w
      | None \<Rightarrow> Inl [\<lparr>zcode = ''invalid_type'', zpath = [], zmessage = ''Invalid input''\<rparr>])"

fun stored_json :: "json \<Rightarrow> json" where
  "stored_json JUndef = JNull"
| "stored_json (JArr vs) = JArr (map stored_json vs)"
| "stored_json (JObj kvs) = JObj (map (\<lambda>kv. (fst kv, stored_json (snd kv))) (filter (\<lambda>kv. snd kv \<noteq> JUndef) kvs))"
| "stored_json v = v"

definition sample_world :: world where
  "sample_world = \<lparr>zparse = sample_parse (\<lambda>f s. s \<noteq> []), sha256_hex = (\<lambda>s. s), jsonb = stored_json,
                   num_str = (\<lambda>n. show_int \<lfloor>n\<rfloor>)\<rparr>"

lemma sample_documented: "zod_documented (\<lambda>f s. s \<noteq> []) sample_world"
  by (simp add: zod_documented_def sample_world_def sample_parse_def split: option.split)

lemma sample_world_simps [simp]:
  "sha256_hex sample_world s = s" "jsonb sample_world v = stored_json v" "zparse sample_world = sample_parse (\<lambda>f s. s \<noteq> [])"
  "num_str sample_world n = show_int \<lfloor>n\<rfloor>"
  by (simp_all add: sample_world_def)

section \<open>Reading a documented success back\<close>

lemma the_list_Some: "the_list vs = Some xs \<longleftrightarrow> vs = map Some xs"
  by (induction vs arbitrary: xs) (auto split: option.splits)

lemma zdoc_str: "zdoc fmt (ZStr cs) v = Some w \<Longrightarrow> \<exists>s t. v = JStr s \<and> w = JStr t"
  by (auto split: json.splits)

lemma zdoc_num: "zdoc fmt (ZNum cs) v = Some w \<longleftrightarrow> (\<exists>n. v = JNum n \<and> w = v \<and> list_all (\<lambda>c. number_ok c n) cs)"
  by (auto split: json.splits if_splits)

lemma zdoc_bool: "zdoc fmt ZBool v = Some w \<longleftrightarrow> (\<exists>b. v = JBool b \<and> w = v)"
  by (auto split: json.splits)

lemma zdoc_enum: "zdoc fmt (ZEnum xs) v = Some w \<longleftrightarrow> (\<exists>s. v = JStr s \<and> s \<in> set xs \<and> w = v)"
  by (auto split: json.splits if_splits)

lemma zdoc_arr:
  "zdoc fmt (ZArr s lo hi) v = Some w \<longleftrightarrow>
     (\<exists>vs ws. v = JArr vs \<and> w = JArr ws \<and> len_ok lo hi (length vs) \<and> map (zdoc fmt s) vs = map Some ws)"
  by (auto simp: array_doc_def the_list_Some split: json.splits if_splits)

lemma zdoc_refine: "zdoc fmt (ZRefine s p) v = Some w \<longleftrightarrow> zdoc fmt s v = Some w \<and> p w"
  by (auto split: option.splits if_splits)

lemma map_of_own_order: "\<not> is_index k \<Longrightarrow> map_of (own_order kvs) k = map_of kvs k"
proof -
  assume k: "\<not> is_index k"
  have "map_of (filter (\<lambda>kv. \<not> is_index (fst kv)) kvs) k = map_of kvs k"
    using k by (induction kvs) auto
  moreover have "map_of (sort_key (\<lambda>kv. digits_val (fst kv)) (filter (\<lambda>kv. is_index (fst kv)) kvs)) k = None"
    using k by (auto simp: map_of_eq_None_iff)
  ultimately show ?thesis by (simp add: own_order_def map_add_def)
qed

lemma shape_fields_lookup:
  assumes sf: "shape_fields fs kvs = Some out" and d: "distinct (map fst fs)" and m: "(k, f) \<in> set fs"
  shows "f (jget (JObj kvs) k) = Some (jget (JObj out) k)"
proof -
  from sf obtain rs where rs: "map (\<lambda>g. snd g (jget (JObj kvs) (fst g))) fs = map Some rs"
    and out: "out = filter (\<lambda>kv. snd kv \<noteq> JUndef \<or> fst kv \<in> set (map fst kvs)) (zip (map fst fs) rs)"
    by (auto simp: shape_fields_def the_list_Some)
  from m obtain i where i: "i < length fs" "fs ! i = (k, f)" by (auto simp: in_set_conv_nth)
  from rs have len: "length rs = length fs" by (metis length_map)
  have "map (\<lambda>g. snd g (jget (JObj kvs) (fst g))) fs ! i = map Some rs ! i" by (simp only: rs)
  with i len have fv: "f (jget (JObj kvs) k) = Some (rs ! i)" by simp
  have mem: "(k, rs ! i) \<in> set (zip (map fst fs) rs)"
    using i len by (force simp: set_zip)
  have dz: "distinct (map fst (zip (map fst fs) rs))" using d len by simp
  have dist: "distinct (map fst out)" unfolding out by (rule distinct_map_filter [OF dz])
  have "jget (JObj out) k = rs ! i"
  proof (cases "(k, rs ! i) \<in> set out")
    case True
    with dist show ?thesis by simp
  next
    case False
    with mem out have u: "rs ! i = JUndef" by auto
    have "(k, w) \<in> set out \<Longrightarrow> w = rs ! i" for w
      using mem dz out by (metis (no_types, lifting) eq_key_imp_eq_value filter_is_subset subsetD)
    with False have "map_of out k = None" by (auto simp: map_of_eq_None_iff)
    with u show ?thesis by simp
  qed
  with fv show ?thesis by simp
qed

text \<open>A field of a parsed object is the parsed field.\<close>

lemma zdoc_field:
  assumes z: "zdoc fmt (ZObj m fs) v = Some w" and d: "distinct (map fst fs)" and k: "(k, s) \<in> set fs"
    and i: "m = Passthrough \<Longrightarrow> \<not> is_index k"
  shows "zdoc fmt s (jget v k) = Some (jget w k)"
proof -
  let ?fs = "map (map_prod id (zdoc fmt)) fs"
  from z obtain kvs where v: "v = JObj kvs" by (auto simp: object_doc_def split: json.splits)
  with z obtain out where out: "shape_fields ?fs kvs = Some out"
    by (auto simp: object_doc_def Let_def split: option.splits)
  have look: "zdoc fmt s (jget (JObj kvs) k) = Some (jget (JObj out) k)"
    by (rule shape_fields_lookup [OF out]) (use d k in \<open>force simp: comp_def\<close>)+
  have ext': "map_of (filter (\<lambda>kv. fst kv \<noteq> ''__proto__'') (filter (\<lambda>kv. fst kv \<notin> fst ` set fs) kvs)) k = None"
    using k by (force simp: map_of_eq_None_iff)
  have "jget w k = jget (JObj out) k"
    using z v out i ext'
    by (cases m) (auto simp: object_doc_def Let_def map_of_own_order map_add_def comp_def split: if_splits option.splits)
  with look v show ?thesis by simp
qed

lemma zdoc_obj_is_obj: "zdoc fmt (ZObj m fs) v = Some w \<Longrightarrow> is_obj v \<and> is_obj w"
  by (auto simp: object_doc_def Let_def split: json.splits option.splits unknown_keys.splits if_splits)

lemma zdoc_strict_keys:
  "zdoc fmt (ZObj Strict fs) v = Some w \<Longrightarrow> fst ` set (js_fields v) \<subseteq> fst ` set fs"
  by (auto simp: object_doc_def Let_def filter_empty_conv comp_def split: json.splits option.splits if_splits)

text \<open>A required field that is missing makes the object invalid.\<close>

lemma zdoc_missing:
  "distinct (map fst fs) \<Longrightarrow> (k, s) \<in> set fs \<Longrightarrow> zdoc fmt s (jget v k) = None \<Longrightarrow> m \<noteq> Passthrough \<Longrightarrow>
   zdoc fmt (ZObj m fs) v = None"
  using zdoc_field [of fmt m fs v _ k s] by (cases "zdoc fmt (ZObj m fs) v") auto

declare zdoc.simps [simp del]

end
