(* ===== verification/Component_Schemas.thy ===== *)
theory Component_Schemas
  imports Zod
begin

text \<open>
  The registry of component payload schemas
  (\<open>packages/shared-contracts/src/component-schemas.ts\<close>), one definition per schema, and the
  lookup of a schema by component type and version.
\<close>

abbreviation zs :: zod where "zs \<equiv> ZStr []"
abbreviation zs1 :: zod where "zs1 \<equiv> ZStr [SMin 1]"
abbreviation zn :: zod where "zn \<equiv> ZNum []"
abbreviation zcn :: zod where "zcn \<equiv> ZCoerceNum []"
abbreviation zobj :: "(string \<times> zod) list \<Rightarrow> zod" where "zobj \<equiv> ZObj Strip"
abbreviation jfalse :: json where "jfalse \<equiv> JBool False"

abbreviation providers :: zod where
  "providers \<equiv> ZEnum [''aws'', ''azure'', ''gcp'']"

section \<open>Schemas\<close>

definition approvalRequestSchema :: zod where
  "approvalRequestSchema = zobj
     [(''requestId'', zs),
      (''status'', ZEnum [''pending'', ''approved'', ''rejected'', ''expired'']),
      (''reason'', zs),
      (''requiredApprovers'', ZOpt (ZArrAny zs)),
      (''autoApprovalEligible'', ZDefault ZBool jfalse),
      (''expiresAt'', ZOpt zs)]"

definition architectureSummarySchema :: zod where
  "architectureSummarySchema = zobj
     [(''title'', ZOpt zs),
      (''provider'', ZDefault (ZEnum [''aws'', ''azure'', ''gcp'', ''unknown'']) (JStr ''unknown'')),
      (''region'', zs),
      (''environment'', zs),
      (''estimatedCostUsd'', ZOpt zn),
      (''resources'', ZArrAny (zobj
         [(''id'', zs), (''name'', zs), (''type'', zs), (''tier'', ZOpt zs), (''properties'', ZOpt (ZRec zs))])),
      (''highlights'', ZOpt (ZArrAny zs))]"

definition artifactViewerSchema :: zod where
  "artifactViewerSchema = zobj
     [(''id'', zs), (''title'', zs),
      (''type'', ZEnum [''manifest'', ''terraform'', ''diagram'', ''cost_report'', ''policy_report'']),
      (''url'', ZOpt zs), (''content'', ZOpt zs), (''sizeBytes'', ZOpt zn)]"

definition chatMessageSchema :: zod where
  "chatMessageSchema = zobj
     [(''id'', zs),
      (''role'', ZEnum [''user'', ''assistant'', ''system'']),
      (''content'', zs), (''senderName'', ZOpt zs), (''createdAt'', ZOpt zs),
      (''status'', ZOpt (ZEnum [''sending'', ''sent'', ''complete'', ''failed''])),
      (''toolSummary'', ZOpt (zobj
         [(''toolName'', zs), (''durationMs'', ZOpt zn), (''result'', ZOpt zs)]))]"

definition clarificationQuestionSchema :: zod where
  "clarificationQuestionSchema = zobj
     [(''id'', zs), (''question'', zs), (''description'', ZOpt zs),
      (''inputType'', ZEnum [''single_select'', ''multi_select'', ''text'', ''confirmation'']),
      (''options'', ZOpt (ZArrAny (zobj [(''label'', zs), (''value'', zs), (''description'', ZOpt zs)]))),
      (''selected'', ZOpt (ZUnion [zs, ZArrAny zs])),
      (''answered'', ZOpt ZBool)]"

definition cloudStateSchema :: zod where
  "cloudStateSchema = zobj
     [(''cloudAccountId'', zs), (''provider'', providers), (''syncedAt'', zs),
      (''totalResources'', zn), (''healthyCount'', zn), (''unhealthyCount'', zn)]"

definition num_of :: "json \<Rightarrow> rat" where
  "num_of v = (case v of JNum n \<Rightarrow> n | _ \<Rightarrow> 0)"

definition computePlanSchema :: zod where
  "computePlanSchema = zobj
     [(''service'', zs),
      (''provider'', ZOpt providers),
      (''instanceType'', ZOpt zs),
      (''replicaCount'', ZDefault zn (JNum 1)),
      (''autoScaling'', ZOpt (ZRefine
         (zobj [(''min'', zcn), (''max'', zcn), (''desired'', ZOpt zcn), (''targetCpuUtilization'', ZOpt zcn)])
         (\<lambda>v. num_of (jget v ''min'') \<le> num_of (jget v ''max'')))),
      (''os'', ZOpt zs),
      (''architecture'', ZOpt (ZEnum [''x86_64'', ''arm64''])),
      (''vcpu'', ZOpt zcn), (''memoryGb'', ZOpt zcn), (''hourlyCostUsd'', ZOpt zcn), (''monthlyCostUsd'', ZOpt zcn),
      (''reservation'', ZOpt (ZEnum [''reserved'', ''on-demand'', ''spot''])),
      (''policyNotes'', ZOpt (ZArrAny zs))]"

definition containerCardSchema :: zod where
  "containerCardSchema = zobj
     [(''image'', zs), (''tag'', ZOpt zs), (''port'', zn), (''environmentVariables'', ZOpt (ZRec zs)),
      (''cpu'', ZOpt zs), (''memory'', ZOpt zs), (''healthCheckPath'', ZOpt zs)]"

abbreviation amount :: zod where "amount \<equiv> ZNum [NFinite, NMin 0]"

definition costBreakdownByServiceSchema :: zod where
  "costBreakdownByServiceSchema = zobj
     [(''service'', zs1), (''monthly_cost'', amount), (''percentage'', ZNum [NFinite, NMin 0, NMax 100])]"

definition legacyCostBreakdownSchema :: zod where
  "legacyCostBreakdownSchema = zobj
     [(''category'', zs), (''serviceName'', zs), (''costUsd'', amount), (''unit'', ZOpt zs)]"

text \<open>The bodies of the schema's \<open>superRefine\<close> and \<open>transform\<close>.\<close>

definition cost_total_given :: "json \<Rightarrow> bool" where
  "cost_total_given d = (\<not> (jget d ''state'' = JStr ''default'' \<and> jget d ''total_monthly_estimate'' = JUndef \<and>
                            jget d ''monthlyTotalUsd'' = JUndef))"

definition is_monthly :: "json \<Rightarrow> bool" where
  "is_monthly u = (\<not> truthy u \<or>
     (case u of JStr s \<Rightarrow> map to_lower (trim s) \<in> {''month'', ''mo''} | _ \<Rightarrow> False))"

definition cost_service :: "json \<Rightarrow> json \<Rightarrow> json" where
  "cost_service tot item =
     (let isMonthly = is_monthly (jget item ''unit'') in
      JObj [(''service'', jget item ''serviceName''), (''monthly_cost'', jget item ''costUsd''),
            (''unit'', jget item ''unit''),
            (''percentage'',
               if isMonthly \<and> tot \<noteq> JUndef
               then JNum (if num_of tot > 0
                          then to_double (to_double (num_of (jget item ''costUsd'') / num_of tot) * 100) else 0)
               else JUndef)])"

definition spread :: "json \<Rightarrow> (string \<times> json) list \<Rightarrow> json" where
  "spread d kvs = JObj (foldl set_prop (js_fields d) kvs)"

definition cost_transform :: "json \<Rightarrow> json" where
  "cost_transform d =
     (let tot = coalesce (jget d ''total_monthly_estimate'') (jget d ''monthlyTotalUsd'');
          services =
            (case js_arr (jget d ''breakdown_by_service'') of
               Some items \<Rightarrow> map (\<lambda>item. spread item [(''unit'', JUndef)]) items
             | None \<Rightarrow> map (cost_service tot)
                 (case js_arr (jget d ''breakdown'') of Some items \<Rightarrow> items | None \<Rightarrow> []))
      in spread d [(''totalMonthlyEstimate'', tot), (''services'', JArr services),
                   (''freshnessNote'', coalesce (jget d ''freshness_note'') (jget d ''freshness''))])"

definition currency_code :: "string \<Rightarrow> bool" where
  "currency_code s = (length s = 3 \<and> list_all (\<lambda>c. is_lower c \<or> is_upper c) s)"

definition to_upper_case :: "json \<Rightarrow> json" where
  "to_upper_case v = (case v of JStr s \<Rightarrow> JStr (map to_upper s) | _ \<Rightarrow> v)"

definition costEstimateSchema :: zod where
  "costEstimateSchema = ZTrans (ZRefine (zobj
     [(''currency'', ZTrans (ZDefault (ZStr [SRegex currency_code]) (JStr ''USD'')) to_upper_case),
      (''total_monthly_estimate'', ZOpt amount),
      (''monthlyTotalUsd'', ZOpt amount),
      (''breakdown_by_service'', ZOpt (ZArrAny costBreakdownByServiceSchema)),
      (''breakdown'', ZOpt (ZArrAny legacyCostBreakdownSchema)),
      (''assumptions'', ZDefault (ZArrAny zs) (JArr [])),
      (''confidence'', ZOpt (ZEnum [''low'', ''medium'', ''high''])),
      (''pricing_source'', ZOpt zs), (''freshness_note'', ZOpt zs), (''freshness'', ZOpt zs),
      (''cost_approval_threshold'', ZOpt amount),
      (''requires_approval'', ZDefault ZBool jfalse),
      (''state'', ZDefault (ZEnum [''default'', ''loading'', ''partial'']) (JStr ''default'')),
      (''partial_reasons'', ZOpt (ZArrAny zs)),
      (''previousMonthlyCostUsd'', ZOpt amount),
      (''deltaPercentage'', ZOpt (ZNum [NFinite]))]) cost_total_given) cost_transform"

definition storage_range_ok :: "json \<Rightarrow> bool" where
  "storage_range_ok v = (jget v ''maxAllocatedStorageGb'' = JUndef \<or>
     num_of (jget v ''maxAllocatedStorageGb'') \<ge> num_of (jget v ''allocatedStorageGb''))"

definition databaseConfigSchema :: zod where
  "databaseConfigSchema = ZRefine (zobj
     [(''engine'', zs1), (''version'', ZOpt zs), (''instanceClass'', ZOpt zs),
      (''allocatedStorageGb'', ZNum [NPositive]),
      (''maxAllocatedStorageGb'', ZOpt (ZNum [NPositive])),
      (''storageType'', ZOpt zs),
      (''multiAz'', ZDefault ZBool jfalse),
      (''backupRetentionDays'', ZNum [NInt, NMin 0]),
      (''maintenanceWindow'', ZOpt zs),
      (''storageEncrypted'', ZBool),
      (''publiclyAccessible'', ZBool),
      (''deletionProtection'', ZBool)]) storage_range_ok"

definition databaseEngineSelectorSchema :: zod where
  "databaseEngineSelectorSchema = zobj
     [(''runId'', zs1), (''provider'', providers), (''recommendedEngine'', ZOpt zs),
      (''selectedEngine'', ZOpt zs), (''reasoning'', ZOpt zs),
      (''availableEngines'', ZArr (zobj
         [(''engine'', zs1), (''displayName'', zs1), (''version'', zs1), (''supported'', ZBool),
          (''managedServices'', ZDefault (ZArrAny zs) (JArr [])), (''bestFor'', ZOpt zs)]) (Some 1) None)]"

definition driftStatusSchema :: zod where
  "driftStatusSchema = zobj
     [(''hasDrift'', ZBool), (''lastCheckedAt'', zs),
      (''driftedResources'', ZOpt (ZArrAny (zobj
         [(''resourceId'', zs), (''resourceName'', ZOpt zs), (''resourceType'', zs), (''property'', zs),
          (''expectedValue'', zs), (''actualValue'', zs)])))]"

definition executionTimelineSchema :: zod where
  "executionTimelineSchema = zobj
     [(''currentStep'', zs),
      (''steps'', ZArrAny (zobj
         [(''id'', zs), (''name'', zs),
          (''status'', ZEnum [''pending'', ''running'', ''succeeded'', ''failed'', ''skipped'']),
          (''durationMs'', ZOpt zn), (''startedAt'', ZOpt zs), (''completedAt'', ZOpt zs)]))]"

definition portSchema :: zod where
  "portSchema = ZNum [NInt, NMin 1, NMax 65535]"

definition loadbalancerCardSchema :: zod where
  "loadbalancerCardSchema = zobj
     [(''name'', zs1),
      (''lbType'', ZEnum [''ALB'', ''NLB'', ''AGW'']),
      (''scheme'', ZEnum [''internet-facing'', ''internal'']),
      (''listeners'', ZArrAny (zobj
         [(''port'', portSchema), (''protocol'', zs1), (''sslPolicy'', ZOpt zs), (''targetGroup'', ZOpt zs)])),
      (''targetGroups'', ZDefault (ZArrAny (zobj
         [(''name'', zs1), (''protocol'', zs1), (''port'', portSchema), (''healthCheckPath'', ZOpt zs),
          (''interval'', ZOpt (ZNum [NPositive]))])) (JArr [])),
      (''publicExposure'', ZOpt ZBool), (''approvalNote'', ZOpt zs),
      (''policyNotes'', ZDefault (ZArrAny zs) (JArr []))]"

definition notificationTargetSchema :: zod where
  "notificationTargetSchema = zobj
     [(''type'', ZEnum [''sns'', ''email'', ''webhook'']), (''destination'', zs1)]"

definition monitoringCardSchema :: zod where
  "monitoringCardSchema = zobj
     [(''logGroupNames'', ZArrAny zs1),
      (''metricNamespaces'', ZDefault (ZArrAny zs1) (JArr [])),
      (''alarmCount'', ZNum [NInt, NMin 0]),
      (''retentionDays'', ZNum [NInt, NPositive]),
      (''notificationTargets'', ZDefault (ZArrAny notificationTargetSchema) (JArr [])),
      (''policyNotes'', ZDefault (ZArrAny zs) (JArr []))]"

definition firewallRuleSchema :: zod where
  "firewallRuleSchema = zobj
     [(''direction'', ZEnum [''ingress'', ''egress'']), (''protocol'', zs), (''portRange'', zs),
      (''source'', ZOpt zs), (''destination'', ZOpt zs)]"

definition networkingTopologySchema :: zod where
  "networkingTopologySchema = zobj
     [(''vpcName'', ZOpt zs), (''vpcCidr'', zs),
      (''subnets'', ZArrAny (zobj
         [(''name'', zs), (''cidr'', zs), (''type'', ZEnum [''public'', ''private'', ''isolated'']),
          (''zone'', ZOpt zs)])),
      (''natGateway'', ZOpt ZBool), (''internetGateway'', ZOpt ZBool),
      (''securityGroups'', ZOpt (ZArrAny (zobj
         [(''name'', zs), (''rulesCount'', ZOpt zcn), (''rules'', ZOpt (ZArrAny firewallRuleSchema))])))]"

definition policyResultSchema :: zod where
  "policyResultSchema = zobj
     [(''status'', ZEnum [''passed'', ''failed'', ''warning'', ''pending'']),
      (''packName'', ZOpt zs), (''evaluatedCount'', zn), (''passedCount'', zn),
      (''violations'', ZOpt (ZArrAny (zobj
         [(''ruleId'', zs), (''severity'', ZEnum [''critical'', ''high'', ''medium'', ''low'']),
          (''message'', zs), (''remediation'', ZOpt zs)])))]"

definition regionOptionSchema :: zod where
  "regionOptionSchema = zobj
     [(''id'', zs1), (''name'', zs1), (''latencyMs'', ZOpt amount), (''complianceCompliant'', ZOpt ZBool),
      (''available'', ZDefault ZBool (JBool True)), (''restrictedByPolicy'', ZDefault ZBool jfalse)]"

definition regionSelectorSchema :: zod where
  "regionSelectorSchema = zobj
     [(''provider'', providers), (''selectedRegion'', zs), (''availableRegions'', ZArrAny regionOptionSchema),
      (''providers'', ZOpt (ZArrAny (zobj
         [(''provider'', providers), (''selectedRegion'', ZOpt zs), (''availableRegions'', ZArrAny regionOptionSchema)]))),
      (''loading'', ZOpt ZBool), (''reasoning'', ZOpt zs)]"

definition resourceTableSchema :: zod where
  "resourceTableSchema = zobj
     [(''title'', ZOpt zs), (''columns'', ZOpt (ZArrAny zs)),
      (''rows'', ZArrAny (zobj
         [(''id'', zs1), (''name'', zs1), (''type'', zs1), (''provider'', zs1), (''status'', zs1),
          (''monthlyCostUsd'', ZOpt zn), (''region'', ZOpt zs),
          (''dependsOn'', ZDefault (ZArrAny zs) (JArr [])),
          (''warningCount'', ZDefault (ZNum [NInt, NMin 0]) (JNum 0)),
          (''spec'', ZOpt (ZRec ZUnknown))]))]"

definition securityFindingSchema :: zod where
  "securityFindingSchema = ZObj Strict
     [(''title'', ZStr [STrim, SMin 1, SMax 256]),
      (''severity'', ZEnum [''critical'', ''high'', ''medium'', ''low'']),
      (''description'', ZStr [STrim, SMin 1, SMax 4000]),
      (''affectedResource'', ZOpt (ZStr [STrim, SMin 1, SMax 256])),
      (''suggestedFix'', ZOpt (ZStr [STrim, SMin 1, SMax 2000])),
      (''mitigationSteps'', ZOpt (ZArr (ZStr [STrim, SMin 1, SMax 2000]) None (Some 30)))]"

definition securityWarningSchema :: zod where
  "securityWarningSchema = ZUnion
     [ZObj Strict [(''findings'', ZArr securityFindingSchema None (Some 200))], securityFindingSchema]"

definition storageCardSchema :: zod where
  "storageCardSchema = zobj
     [(''bucketName'', zs), (''storageClass'', ZOpt zs), (''versioning'', ZDefault ZBool jfalse),
      (''encryption'', ZOpt zs), (''publicAccessBlocked'', ZDefault ZBool (JBool True)),
      (''lifecycleRulesCount'', ZOpt zn)]"

definition terraformPlanDiffSchema :: zod where
  "terraformPlanDiffSchema = zobj
     [(''addCount'', zn), (''changeCount'', zn), (''destroyCount'', zn),
      (''changes'', ZArrAny (zobj
         [(''resourceType'', zs), (''resourceName'', zs),
          (''action'', ZEnum [''create'', ''update'', ''delete'', ''no-op'']), (''details'', ZOpt zs)]))]"

definition terraformReviewSchema :: zod where
  "terraformReviewSchema = zobj
     [(''moduleName'', zs), (''provider'', zs), (''version'', ZOpt zs), (''codeSnippet'', zs),
      (''summary'', ZOpt zs),
      (''files'', ZOpt (ZArrAny (zobj [(''filename'', zs), (''linesCount'', zn)])))]"

section \<open>The registry\<close>

definition componentSchemas :: "(string \<times> zod) list" where
  "componentSchemas =
     [(''approval_request'', approvalRequestSchema),
      (''architecture_summary'', architectureSummarySchema),
      (''artifact_viewer'', artifactViewerSchema),
      (''chat_message'', chatMessageSchema),
      (''clarification_question'', clarificationQuestionSchema),
      (''cloud_state'', cloudStateSchema),
      (''compute_plan'', computePlanSchema),
      (''container_card'', containerCardSchema),
      (''cost_estimate'', costEstimateSchema),
      (''database_config'', databaseConfigSchema),
      (''database_engine_selector'', databaseEngineSelectorSchema),
      (''drift_status'', driftStatusSchema),
      (''execution_timeline'', executionTimelineSchema),
      (''loadbalancer_card'', loadbalancerCardSchema),
      (''monitoring_card'', monitoringCardSchema),
      (''networking_topology'', networkingTopologySchema),
      (''policy_result'', policyResultSchema),
      (''region_selector'', regionSelectorSchema),
      (''resource_table'', resourceTableSchema),
      (''security_warning'', securityWarningSchema),
      (''storage_card'', storageCardSchema),
      (''terraform_plan_diff'', terraformPlanDiffSchema),
      (''terraform_review'', terraformReviewSchema)]"

definition COMPONENT_SCHEMA_VERSION :: string where
  "COMPONENT_SCHEMA_VERSION = ''1.0.0''"

definition componentSchemasByVersion :: "(string \<times> (string \<times> zod) list) list" where
  "componentSchemasByVersion =
     map (\<lambda>(component, schema). (component, [(COMPONENT_SCHEMA_VERSION, schema)])) componentSchemas"

end
