(* ===== verification/Errors.thy ===== *)
theory Errors
  imports Zod
begin

text \<open>
  The exceptions of the orchestrator as values of one type, the typed application errors
  (\<open>common/errors/typed-errors.ts\<close>), the mapping of an exception to a response body
  (\<open>common/filters/global-exception.filter.ts\<close>) and the validation pipe
  (\<open>common/pipes/zod-validation.pipe.ts\<close>).
\<close>

section \<open>Exceptions\<close>

record prov_error =
  pe_name :: string
  pe_code :: string
  pe_message :: string
  pe_status :: nat
  pe_details :: "json list option"

text \<open>
  \<open>HttpException\<close> is the framework's: status, response value, message. The other
  constructors are the classes that handlers tell apart; any other \<open>Error\<close> is
  \<open>OtherError\<close> with its message.
\<close>

datatype exn =
    ProvError prov_error
  | ZodError "zissue list"
  | HttpException nat json string
  | ComponentPayloadValidationError string string "(string \<times> string) list"
  | IacGenerationError string string
  | NoConnectedProviderError
  | PolicyDeniesAllRegionsError
  | OtherError string

definition http_exception :: "nat \<Rightarrow> string \<Rightarrow> string \<Rightarrow> exn" where
  "http_exception status name msg =
     HttpException status (JObj [(''message'', JStr msg), (''error'', JStr name), (''statusCode'', jnat status)]) msg"

abbreviation BadRequestException :: "string \<Rightarrow> exn" where
  "BadRequestException m \<equiv> http_exception 400 ''Bad Request'' m"
abbreviation ForbiddenException :: "string \<Rightarrow> exn" where
  "ForbiddenException m \<equiv> http_exception 403 ''Forbidden'' m"
abbreviation NotFoundException :: "string \<Rightarrow> exn" where
  "NotFoundException m \<equiv> http_exception 404 ''Not Found'' m"
abbreviation ConflictException :: "string \<Rightarrow> exn" where
  "ConflictException m \<equiv> http_exception 409 ''Conflict'' m"
abbreviation NotImplementedException :: "string \<Rightarrow> exn" where
  "NotImplementedException m \<equiv> http_exception 501 ''Not Implemented'' m"

text \<open>\<open>error instanceof ConflictException\<close>: only that class has status 409.\<close>

definition is_conflict :: "exn \<Rightarrow> bool" where
  "is_conflict e = (case e of HttpException st r m \<Rightarrow> st = 409 | _ \<Rightarrow> False)"

fun exn_message :: "exn \<Rightarrow> string" where
  "exn_message (ProvError p) = pe_message p"
| "exn_message (ZodError is) = ''''"
| "exn_message (HttpException st r m) = m"
| "exn_message (ComponentPayloadValidationError t v is) = ''Component payload failed schema validation''"
| "exn_message (IacGenerationError c m) = m"
| "exn_message NoConnectedProviderError = ''Connect a provider account to proceed.''"
| "exn_message PolicyDeniesAllRegionsError =
     ''Workspace policy allows no regions. Ask a workspace admin to update the allowed regions policy.''"
| "exn_message (OtherError m) = m"

section \<open>Typed errors\<close>

definition prov :: "string \<Rightarrow> string \<Rightarrow> string \<Rightarrow> nat \<Rightarrow> json list option \<Rightarrow> exn" where
  "prov name code msg status details =
     ProvError \<lparr>pe_name = name, pe_code = code, pe_message = msg, pe_status = status, pe_details = details\<rparr>"

definition NotFoundError :: "string \<Rightarrow> exn" where
  "NotFoundError m = prov ''NotFoundError'' ''NOT_FOUND'' m 404 None"
definition ConflictError :: "string \<Rightarrow> exn" where
  "ConflictError m = prov ''ConflictError'' ''CONFLICT'' m 409 None"
definition UnauthorizedError :: exn where
  "UnauthorizedError = prov ''UnauthorizedError'' ''UNAUTHORIZED'' ''Authentication required'' 401 None"
definition ForbiddenError :: "string option \<Rightarrow> exn" where
  "ForbiddenError m = prov ''ForbiddenError'' ''FORBIDDEN''
     (case m of Some s \<Rightarrow> s | None \<Rightarrow> ''You do not have permission to perform this action'') 403 None"
definition ValidationError :: "string \<Rightarrow> json list option \<Rightarrow> exn" where
  "ValidationError m details = prov ''ValidationError'' ''VALIDATION_FAILED'' m 400 details"
definition NotImplementedError :: "string \<Rightarrow> exn" where
  "NotImplementedError domain = prov ''NotImplementedError'' ''NOT_IMPLEMENTED'' (domain @ '' is not implemented yet'') 501 None"
definition DependencyError :: "string \<Rightarrow> exn" where
  "DependencyError m = prov ''DependencyError'' ''DEPENDENCY_UNAVAILABLE'' m 502 None"
definition UpstreamError :: "nat \<Rightarrow> string \<Rightarrow> string \<Rightarrow> exn" where
  "UpstreamError status code m = prov ''UpstreamError'' code m status None"

lemmas typed_errors = prov_def NotFoundError_def ConflictError_def UnauthorizedError_def ForbiddenError_def
  ValidationError_def NotImplementedError_def DependencyError_def UpstreamError_def

text \<open>\<open>instanceof\<close> on the subclasses, whose \<open>name\<close> is the class's own.\<close>

definition is_prov_class :: "string \<Rightarrow> exn \<Rightarrow> bool" where
  "is_prov_class c e = (case e of ProvError p \<Rightarrow> pe_name p = c | _ \<Rightarrow> False)"

section \<open>The exception filter\<close>

record error_body =
  eb_error :: string
  eb_message :: string
  eb_status :: nat
  eb_request_id :: string
  eb_code :: "string option"
  eb_details :: "json list option"

definition STATUS_CODE :: "nat \<Rightarrow> string option" where
  "STATUS_CODE = map_of
     [(400, ''VALIDATION_FAILED''), (401, ''UNAUTHORIZED''), (403, ''FORBIDDEN''), (404, ''NOT_FOUND''),
      (409, ''CONFLICT''), (501, ''NOT_IMPLEMENTED''), (500, ''INTERNAL_ERROR'')]"

text \<open>\<open>String(v)\<close>, and \<open>Array.prototype.join\<close>, which prints null and undefined as nothing.\<close>

fun to_string :: "(rat \<Rightarrow> string) \<Rightarrow> json \<Rightarrow> string" where
  "to_string num JUndef = ''undefined''"
| "to_string num JNull = ''null''"
| "to_string num (JBool b) = (if b then ''true'' else ''false'')"
| "to_string num (JNum n) = num n"
| "to_string num (JStr s) = s"
| "to_string num (JArr vs) = join '','' (map (\<lambda>v. if nullish v then [] else to_string num v) vs)"
| "to_string num (JObj kvs) = ''[object Object]''"

definition join_values :: "(rat \<Rightarrow> string) \<Rightarrow> string \<Rightarrow> json list \<Rightarrow> string" where
  "join_values num sep vs = join sep (map (\<lambda>v. if nullish v then [] else to_string num v) vs)"

text \<open>\<open>status_name\<close> stands for the framework's \<open>HttpStatus[status]\<close>.\<close>

definition toErrorBody :: "world \<Rightarrow> (nat \<Rightarrow> string option) \<Rightarrow> exn \<Rightarrow> string \<Rightarrow> error_body" where
  "toErrorBody W status_name exception requestId =
     (case exception of
        ProvError p \<Rightarrow> \<lparr>eb_error = pe_name p, eb_message = pe_message p, eb_status = pe_status p,
          eb_request_id = requestId, eb_code = Some (pe_code p), eb_details = pe_details p\<rparr>
      | ZodError issues \<Rightarrow> \<lparr>eb_error = ''ValidationError'', eb_message = ''Request validation failed'', eb_status = 400,
          eb_request_id = requestId, eb_code = Some ''VALIDATION_FAILED'',
          eb_details = Some (map (\<lambda>i. JObj [(''field'', JStr (join_values (num_str W) ''.'' (zpath i))),
                                             (''message'', JStr (zmessage i))]) issues)\<rparr>
      | HttpException status response msg \<Rightarrow>
          (let message = (case response of
                 JStr s \<Rightarrow> s
               | _ \<Rightarrow> (case jget response ''message'' of
                     JArr raw \<Rightarrow> join_values (num_str W) '', '' raw
                   | JStr raw \<Rightarrow> raw
                   | _ \<Rightarrow> msg))
           in \<lparr>eb_error = (case status_name status of Some n \<Rightarrow> n | None \<Rightarrow> ''Error''), eb_message = message,
               eb_status = status, eb_request_id = requestId,
               eb_code = (case jget response ''code'' of
                   JStr c \<Rightarrow> Some c
                 | _ \<Rightarrow> (case STATUS_CODE status of Some c \<Rightarrow> Some c
                        | None \<Rightarrow> if status \<ge> 500 then Some ''INTERNAL_ERROR'' else None)),
               eb_details = None\<rparr>)
      | _ \<Rightarrow> \<lparr>eb_error = ''InternalServerError'', eb_message = ''Internal server error'', eb_status = 500,
          eb_request_id = requestId, eb_code = Some ''INTERNAL_ERROR'', eb_details = None\<rparr>)"

datatype log_level = LogError | LogWarn

definition filter_catch ::
  "world \<Rightarrow> (nat \<Rightarrow> string option) \<Rightarrow> exn \<Rightarrow> string option \<Rightarrow> log_level \<times> error_body" where
  "filter_catch W status_name exception requestId =
     (let body = toErrorBody W status_name exception (case requestId of Some r \<Rightarrow> r | None \<Rightarrow> ''unknown'')
      in (if eb_status body \<ge> 500 then LogError else LogWarn, body))"

section \<open>The validation pipe\<close>

definition pipe_transform ::
  "world \<Rightarrow> zod \<Rightarrow> string option \<Rightarrow> string option \<Rightarrow> json \<Rightarrow> exn + json" where
  "pipe_transform W schema meta_data meta_type v =
     (case zparse W schema v of
        Inr d \<Rightarrow> Inr d
      | Inl issues \<Rightarrow>
          Inl (ValidationError ''Request validation failed''
            (Some (map (\<lambda>i. JObj
               [(''field'', JStr (if zpath i \<noteq> [] then join_values (num_str W) ''.'' (zpath i)
                                  else (case meta_data of Some d \<Rightarrow> d
                                        | None \<Rightarrow> (case meta_type of Some t \<Rightarrow> t | None \<Rightarrow> '''')))),
                (''message'', JStr (zmessage i))]) issues))))"

section \<open>Properties\<close>

text \<open>
  No internal text leaks through the exception filter: an exception that is neither a
  typed application error, a validation error nor an HTTP exception is answered by the same
  generic 500 body whatever its message, and only exceptions answered with 500 or above are
  logged as errors.
\<close>

theorem filter_hides_internal_errors:
  "(\<forall>p issues st r m. e \<noteq> ProvError p \<and> e \<noteq> ZodError issues \<and> e \<noteq> HttpException st r m) \<longrightarrow>
     filter_catch W status_name e requestId = filter_catch W status_name (OtherError '''') requestId \<and>
     eb_status (snd (filter_catch W status_name e requestId)) = 500"
  by (cases e) (auto simp: filter_catch_def toErrorBody_def)

theorem filter_hides_internal_errors_witness:
  "filter_catch sample_world (\<lambda>n. None) (IacGenerationError ''IAC'' ''secret'') None =
   filter_catch sample_world (\<lambda>n. None) (OtherError '''') None"
  using filter_hides_internal_errors [of "IacGenerationError ''IAC'' ''secret''" sample_world "\<lambda>n. None" None] by simp

end
