(* ===== verification/Planning_Contracts.thy ===== *)
theory Planning_Contracts
  imports Component_Schemas Errors
begin

text \<open>
  Contracts with the planning agent and the manifest service
  (\<open>orchestrator/src/services/planning-contracts.ts\<close>): the schemas of what they send, the
  validation of a user's answers against a clarification question, and the projection of a
  manifest into registry components.
\<close>

section \<open>Regular expressions of the schemas\<close>

text \<open>\<open>^[a-z][a-z0-9_]*$\<close>, \<open>^\d+\.\d+\.\d+$\<close> and the same with pre-release and build parts.\<close>

definition field_name_re :: "string \<Rightarrow> bool" where
  "field_name_re s = (case s of [] \<Rightarrow> False
     | c # cs \<Rightarrow> is_lower c \<and> list_all (\<lambda>d. is_lower d \<or> is_digit d \<or> d = CHR ''_'') cs)"

definition version_re :: "string \<Rightarrow> bool" where
  "version_re s = (case split_on (CHR ''.'') s of
     [a, b, c] \<Rightarrow> list_all (\<lambda>p. p \<noteq> [] \<and> list_all is_digit p) [a, b, c] | _ \<Rightarrow> False)"

definition ident_char :: "char \<Rightarrow> bool" where
  "ident_char c = (is_alnum c \<or> c = CHR ''.'' \<or> c = CHR ''-'')"

definition build_part :: "string \<Rightarrow> bool" where
  "build_part s = (s = [] \<or> (hd s = CHR ''+'' \<and> tl s \<noteq> [] \<and> list_all ident_char (tl s)))"

definition semver_re :: "string \<Rightarrow> bool" where
  "semver_re s =
     (let core = takeWhile (\<lambda>c. is_digit c \<or> c = CHR ''.'') s; rest = drop (length core) s in
      version_re core \<and>
      (if rest \<noteq> [] \<and> hd rest = CHR ''-''
       then takeWhile ident_char (tl rest) \<noteq> [] \<and> build_part (dropWhile ident_char (tl rest))
       else build_part rest))"

section \<open>Schemas\<close>

abbreviation zuuid :: zod where "zuuid \<equiv> ZStr [SFormat UUID]"
abbreviation zdatetime :: zod where "zdatetime \<equiv> ZStr [SFormat DATETIME_OFFSET]"

definition cloudAccountSchema :: zod where
  "cloudAccountSchema = zobj
     [(''id'', zuuid), (''workspace_id'', zuuid), (''provider'', providers), (''label'', zs),
      (''status'', ZEnum [''pending'', ''active'', ''failed'', ''disconnected'']),
      (''verified_at'', ZNullish zdatetime)]"

definition cloudContextSchema :: zod where
  "cloudContextSchema = zobj
     [(''connected_providers'', ZArr providers (Some 1) None),
      (''active_accounts'', ZArr (zextend cloudAccountSchema
         [(''supported_regions'', ZArr zs1 (Some 1) None),
          (''resource_counts'', ZNullable (ZRec (ZNum [NInt, NMin 0]))),
          (''quota_limits'', ZNullable (ZRec (ZNum [NMin 0])))]) (Some 1) None)]"

definition options_allowed :: "json \<Rightarrow> bool" where
  "options_allowed f = (\<not> truthy (jget f ''options'') \<or> jget f ''type'' = JStr ''string'' \<or>
                        jget f ''type'' = JStr ''strings'')"

definition answerFieldSchema :: zod where
  "answerFieldSchema = ZRefine (ZObj Strict
     [(''name'', ZStr [SRegex field_name_re, SMax 64]),
      (''type'', ZEnum [''string'', ''number'', ''boolean'', ''strings'']),
      (''options'', ZNullish (ZArr zs1 (Some 1) None))]) options_allowed"

definition question_fields :: "json \<Rightarrow> json list" where
  "question_fields q = (case js_arr (jget q ''fields'') of Some fs \<Rightarrow> fs | None \<Rightarrow> [])"

definition fields_unique :: "json \<Rightarrow> bool" where
  "fields_unique q = (let names = map (\<lambda>f. jget f ''name'') (question_fields q) in
                      length (uniq names) = length names)"

definition questionSchema :: zod where
  "questionSchema = ZRefine (ZObj Strict
     [(''question'', ZStr [STrim, SMin 1, SMax 10000]),
      (''fields'', ZDefault (ZArr answerFieldSchema (Some 1) (Some 20))
         (JArr [JObj [(''name'', JStr ''answer''), (''type'', JStr ''string'')]])),
      (''question_id'', ZNullish (ZStr [SMin 1, SMax 64])),
      (''input_type'', ZNullish (ZEnum [''text'', ''select'', ''multi_select'', ''boolean'', ''confirmation''])),
      (''options'', ZNullish (ZArr zs1 None (Some 50))),
      (''required'', ZNullish ZBool),
      (''field_mapping'', ZNullish (ZStr [SMin 1, SMax 128]))]) fields_unique"

definition text_schema :: zod where
  "text_schema = ZStr [STrim, SMin 1, SMax 10000]"

definition agentEnvelopeSchema :: zod where
  "agentEnvelopeSchema = ZDisc ''type''
     [(''assistant_message'', zobj [(''type'', ZLit (JStr ''assistant_message'')),
        (''data'', ZObj Strict [(''message'', text_schema)])]),
      (''clarification_question'', zobj [(''type'', ZLit (JStr ''clarification_question'')),
        (''data'', questionSchema)]),
      (''manifest_draft'', zobj [(''type'', ZLit (JStr ''manifest_draft'')),
        (''data'', ZObj Strict [(''message'', text_schema), (''manifest'', ZRec ZUnknown)])]),
      (''component_payload'', zobj [(''type'', ZLit (JStr ''component_payload'')),
        (''data'', ZObj Strict [(''component_id'', zs),
           (''component_version'', ZDefault (ZStr [SMax 128, SRegex semver_re]) (JStr COMPONENT_SCHEMA_VERSION)),
           (''payload'', ZRec ZUnknown)])]),
      (''tool_summary'', zobj [(''type'', ZLit (JStr ''tool_summary'')),
        (''data'', ZObj Strict [(''tool_name'', text_schema), (''summary'', text_schema)])]),
      (''error'', zobj [(''type'', ZLit (JStr ''error'')),
        (''data'', ZObj Strict [(''code'', text_schema), (''message'', text_schema),
           (''retryable'', ZDefault ZBool jfalse)])])]"

definition agentResponseSchema :: zod where
  "agentResponseSchema = ZObj Strict
     [(''result'', ZObj Strict
        [(''type'', zs), (''data'', ZUnknown), (''version'', ZStr [SRegex version_re]),
         (''request_id'', zuuid),
         (''metadata'', ZObj Strict
            [(''confidence'', ZNum [NMin 0, NMax 1]),
             (''source'', ZEnum [''llm_generated'', ''template'', ''user_input'']),
             (''warnings'', ZDefault (ZArrAny zs) (JArr []))])])]"

section \<open>Answers\<close>

definition answer_type_schema :: "json \<Rightarrow> zod" where
  "answer_type_schema f =
     (if jget f ''type'' = JStr ''number'' then ZNum [NFinite]
      else if jget f ''type'' = JStr ''boolean'' then ZBool
      else if jget f ''type'' = JStr ''strings'' then ZArr (ZStr [STrim, SMin 1, SMax 2000]) (Some 1) (Some 50)
      else ZStr [STrim, SMin 1, SMax 10000])"

definition answer_in :: "json list \<Rightarrow> json \<Rightarrow> bool" where
  "answer_in options v = (case v of JArr vs \<Rightarrow> list_all (\<lambda>x. x \<in> set options) vs | _ \<Rightarrow> v \<in> set options)"

definition answer_schema :: "json \<Rightarrow> zod" where
  "answer_schema f =
     (case js_arr (jget f ''options'') of
        Some options \<Rightarrow> ZRefine (answer_type_schema f) (answer_in options)
      | None \<Rightarrow> answer_type_schema f)"

definition field_name :: "json \<Rightarrow> string" where
  "field_name f = (case jget f ''name'' of JStr n \<Rightarrow> n | _ \<Rightarrow> '''')"

definition answer_shape :: "json \<Rightarrow> (string \<times> zod) list" where
  "answer_shape question =
     foldl (\<lambda>shape f. AList.update (field_name f) (answer_schema f) shape) [] (question_fields question)"

definition validateAnswers :: "world \<Rightarrow> json \<Rightarrow> json \<Rightarrow> zissue list + json" where
  "validateAnswers W question answers = zparse W (ZObj Strict (answer_shape question)) answers"

section \<open>Components\<close>

definition validateComponent :: "world \<Rightarrow> string \<Rightarrow> json \<Rightarrow> string \<Rightarrow> exn + json" where
  "validateComponent W cid payload version =
     (let versions = map_of componentSchemasByVersion cid;
          schema = (case versions of Some vs \<Rightarrow> map_of vs version | None \<Rightarrow> None)
      in case schema of
           None \<Rightarrow> Inl (ComponentPayloadValidationError
                     (if versions \<noteq> None then cid else ''unknown'')
                     (if version = COMPONENT_SCHEMA_VERSION then version else ''unsupported'')
                     [(''$'', ''unknown_component_or_version'')])
         | Some sc \<Rightarrow>
             (case zparse W sc payload of
                Inl issues \<Rightarrow> Inl (ComponentPayloadValidationError cid version (map (\<lambda>i. (''$'', zcode i)) issues))
              | Inr d \<Rightarrow> Inr d))"

definition manifest_resource_schema :: zod where
  "manifest_resource_schema = ZArrAny (ZObj Passthrough
     [(''name'', ZOpt zs), (''logical_name'', ZOpt zs), (''type'', zs)])"

definition component :: "world \<Rightarrow> string \<Rightarrow> string \<Rightarrow> json \<Rightarrow> exn + json" where
  "component W requestId type d =
     rbind (validateComponent W type d COMPONENT_SCHEMA_VERSION) (\<lambda>v.
       Inr (JObj [(''type'', JStr type), (''version'', JStr ''1.0.0''), (''requestId'', JStr requestId), (''data'', v)]))"

definition name_resource :: "json \<Rightarrow> json" where
  "name_resource r =
     spread r [(''name'', coalesce (jget r ''name'') (coalesce (jget r ''logical_name'') (JStr ''resource'')))]"

definition resource_id :: "int \<Rightarrow> nat \<Rightarrow> json" where
  "resource_id version index = JStr (show_int version @ '':'' @ show_nat index)"

definition resource_component ::
  "world \<Rightarrow> json \<Rightarrow> string \<Rightarrow> int \<Rightarrow> nat \<times> json \<Rightarrow> exn + json" where
  "resource_component W manifest requestId version ir =
     (let index = fst ir; r = snd ir in
      if jget r ''type'' = JStr ''aws_ec2'' then component W requestId ''compute_plan''
        (JObj [(''service'', JStr ''Amazon EC2''), (''instanceType'', jget r ''instance_type''),
               (''replicaCount'', coalesce (jget r ''count'') (JNum 1)), (''os'', jget r ''image'')])
      else if jget r ''type'' = JStr ''aws_rds'' then component W requestId ''database_config''
        (JObj [(''engine'', jget r ''engine''), (''instanceClass'', jget r ''instance_class''),
               (''allocatedStorageGb'', jget r ''allocated_storage_gb'')])
      else if jget r ''type'' = JStr ''aws_s3'' then component W requestId ''storage_card''
        (JObj [(''bucketName'', jget r ''name''), (''versioning'', coalesce (jget r ''versioning'') (JBool True))])
      else component W requestId ''resource_table''
        (JObj [(''rows'', JArr [JObj [(''id'', resource_id version index), (''name'', jget r ''name''),
           (''type'', jget r ''type''), (''provider'', jget manifest ''provider''), (''status'', JStr ''draft'')]])]))"

definition manifest_resources :: "world \<Rightarrow> json \<Rightarrow> exn + json list" where
  "manifest_resources W manifest =
     (case zparse W manifest_resource_schema (jget manifest ''resources'') of
        Inl issues \<Rightarrow> Inl (ZodError issues)
      | Inr v \<Rightarrow> Inr (map name_resource (case js_arr v of Some rs \<Rightarrow> rs | None \<Rightarrow> [])))"

definition manifestComponents :: "world \<Rightarrow> json \<Rightarrow> string \<Rightarrow> int \<Rightarrow> exn + json list" where
  "manifestComponents W manifest requestId version =
     rbind (manifest_resources W manifest) (\<lambda>resources.
     rbind (component W requestId ''architecture_summary''
       (JObj [(''provider'', jget manifest ''provider''), (''region'', jget manifest ''region''),
              (''environment'', jget manifest ''environment''),
              (''resources'', JArr (map (\<lambda>ir. JObj [(''id'', resource_id version (fst ir)),
                 (''name'', jget (snd ir) ''name''), (''type'', jget (snd ir) ''type'')]) (enumerate 0 resources)))])) (\<lambda>summary.
     rbind (mapR (resource_component W manifest requestId version) (enumerate 0 resources)) (\<lambda>cards.
       Inr (summary # cards))))"

section \<open>Facts\<close>

lemma validate_database_config:
  "validateComponent W ''database_config'' payload COMPONENT_SCHEMA_VERSION = Inr d \<longleftrightarrow>
     zparse W databaseConfigSchema payload = Inr d"
  by (simp add: validateComponent_def componentSchemasByVersion_def componentSchemas_def split: sum.splits)

text \<open>The security fields of a database configuration are not defaulted.\<close>

lemma database_config_explicit:
  assumes "zdoc fmt databaseConfigSchema payload = Some d"
    and "k \<in> {''storageEncrypted'', ''publiclyAccessible'', ''deletionProtection''}"
  shows "\<exists>b. jget payload k = JBool b \<and> jget d k = JBool b"
proof -
  from assms(1) obtain fs where z: "zdoc fmt (ZObj Strip fs) payload = Some d"
    and fs: "distinct (map fst fs)" "(''storageEncrypted'', ZBool) \<in> set fs"
      "(''publiclyAccessible'', ZBool) \<in> set fs" "(''deletionProtection'', ZBool) \<in> set fs"
    unfolding databaseConfigSchema_def zdoc_refine by auto
  have "zdoc fmt ZBool (jget payload k) = Some (jget d k)"
    using assms(2) fs zdoc_field [OF z fs(1)] by auto
  then show ?thesis by (metis zdoc_bool)
qed

lemma database_config_required:
  "jget payload ''backupRetentionDays'' = JUndef \<Longrightarrow> zdoc fmt databaseConfigSchema payload = None"
  unfolding databaseConfigSchema_def
  by (subst zdoc.simps, subst zdoc_missing [where k = "''backupRetentionDays''" and s = "ZNum [NInt, NMin 0]"])
    (auto simp: zdoc.simps)

lemma map_of_set_prop: "map_of (set_prop kvs (k, v)) = (map_of kvs)(k \<mapsto> v)"
  by (simp add: set_prop_def update_conv')

lemma name_resource_type: "jget (name_resource r) ''type'' = jget r ''type''"
  by (cases r) (simp_all add: name_resource_def spread_def map_of_set_prop)

lemma not_index_type: "\<not> is_index ''type''"
  by (simp add: is_index_def is_digit_def code_unit_def)

lemma resource_type_kept:
  assumes "zdoc fmt manifest_resource_schema (JArr rs) = Some v" and "r \<in> set rs"
  shows "\<exists>ws w. v = JArr ws \<and> w \<in> set ws \<and> jget w ''type'' = jget r ''type''"
proof -
  let ?s = "ZObj Passthrough [(''name'', ZOpt zs), (''logical_name'', ZOpt zs), (''type'', zs)]"
  from assms(1) obtain ws where v: "v = JArr ws" and ws: "map (zdoc fmt ?s) rs = map Some ws"
    unfolding manifest_resource_schema_def zdoc_arr by auto
  from assms(2) have "zdoc fmt ?s r \<in> set (map (zdoc fmt ?s) rs)" by simp
  then have "zdoc fmt ?s r \<in> set (map Some ws)" by (simp only: ws)
  then obtain w where w: "w \<in> set ws" "zdoc fmt ?s r = Some w" by auto
  have "zdoc fmt zs (jget r ''type'') = Some (jget w ''type'')"
  proof (rule zdoc_field [OF w(2)])
    show "(''type'', zs) \<in> set [(''name'', ZOpt zs), (''logical_name'', ZOpt zs), (''type'', zs)]" by simp
  qed (simp_all add: not_index_type)
  then have "jget w ''type'' = jget r ''type''" by (auto simp: zdoc.simps split: json.splits)
  with v w show ?thesis by blast
qed

lemma update_fresh: "k \<notin> fst ` set al \<Longrightarrow> AList.update k v al = al @ [(k, v)]"
  by (induction al) auto

lemma answer_shape_fields:
  assumes "distinct (map field_name (question_fields q))"
  shows "answer_shape q = map (\<lambda>f. (field_name f, answer_schema f)) (question_fields q)"
proof -
  have "distinct (map field_name fs) \<Longrightarrow> fst ` set acc \<inter> field_name ` set fs = {} \<Longrightarrow>
        foldl (\<lambda>shape f. AList.update (field_name f) (answer_schema f) shape) acc fs =
        acc @ map (\<lambda>f. (field_name f, answer_schema f)) fs" for fs acc
    by (induction fs arbitrary: acc) (auto simp: update_fresh)
  from this [of "question_fields q" "[]"] assms show ?thesis by (simp add: answer_shape_def)
qed

text \<open>What an accepted answer to a field is: its type, and for a field with options one of them.\<close>

definition answers_field :: "json \<Rightarrow> json \<Rightarrow> bool" where
  "answers_field f v =
     ((case jget f ''type'' of
         JStr t \<Rightarrow>
           if t = ''number'' then \<exists>n. v = JNum n
           else if t = ''boolean'' then \<exists>b. v = JBool b
           else if t = ''strings'' then \<exists>xs. v = JArr (map JStr xs) \<and> xs \<noteq> [] \<and> length xs \<le> 50 \<and> list_all (\<lambda>x. x \<noteq> []) xs
           else \<exists>s. v = JStr s \<and> s \<noteq> [] \<and> length s \<le> 10000
       | _ \<Rightarrow> True) \<and>
      (case jget f ''options'' of JArr opts \<Rightarrow> answer_in opts v | _ \<Rightarrow> True))"

lemma text_answer:
  "zdoc fmt (ZStr [STrim, SMin 1, SMax n]) v = Some w \<Longrightarrow> \<exists>s. w = JStr s \<and> s \<noteq> [] \<and> length s \<le> n"
  by (cases v) (simp_all add: zdoc.simps(1), clarsimp split: if_splits)

lemma texts_answer:
  assumes "zdoc fmt (ZArr (ZStr [STrim, SMin 1, SMax n]) (Some 1) (Some m)) v = Some w"
  shows "\<exists>xs. w = JArr (map JStr xs) \<and> xs \<noteq> [] \<and> length xs \<le> m \<and> list_all (\<lambda>x. x \<noteq> []) xs"
proof -
  let ?s = "ZStr [STrim, SMin 1, SMax n]"
  from assms obtain vs ws where w: "w = JArr ws" "len_ok (Some 1) (Some m) (length vs)"
    and ws: "map (zdoc fmt ?s) vs = map Some ws"
    unfolding zdoc_arr by auto
  have "\<exists>x. y = JStr x \<and> x \<noteq> []" if "y \<in> set ws" for y
  proof -
    from that ws have "Some y \<in> set (map (zdoc fmt ?s) vs)" by simp
    then show ?thesis by (auto simp del: One_nat_def dest!: text_answer [OF sym])
  qed
  then obtain h where h: "\<And>y. y \<in> set ws \<Longrightarrow> y = JStr (h y) \<and> h y \<noteq> []" by metis
  then have "ws = map JStr (map h ws)" by (simp add: map_idI)
  moreover have "length vs = length ws" using ws by (metis length_map)
  ultimately show ?thesis using w h
    by (intro exI [where x = "map h ws"]) (auto simp: len_ok_def list_all_iff)
qed

lemma answer_schema_sound:
  assumes "zdoc fmt (answer_schema f) v = Some w"
  shows "answers_field f w"
proof -
  have t: "zdoc fmt (answer_type_schema f) v = Some w"
    and o': "\<And>opts. jget f ''options'' = JArr opts \<Longrightarrow> answer_in opts w"
    using assms by (auto simp: answer_schema_def zdoc_refine split: option.splits if_splits)
  from t have "case jget f ''type'' of
         JStr t \<Rightarrow>
           if t = ''number'' then \<exists>n. w = JNum n
           else if t = ''boolean'' then \<exists>b. w = JBool b
           else if t = ''strings'' then \<exists>xs. w = JArr (map JStr xs) \<and> xs \<noteq> [] \<and> length xs \<le> 50 \<and> list_all (\<lambda>x. x \<noteq> []) xs
           else \<exists>s. w = JStr s \<and> s \<noteq> [] \<and> length s \<le> 10000
       | _ \<Rightarrow> True"
    unfolding answer_type_schema_def
    by (auto simp: zdoc_num zdoc_bool simp del: One_nat_def dest!: text_answer texts_answer
        split: json.split if_splits)
  with o' show ?thesis by (auto simp: answers_field_def split: json.splits)
qed

section \<open>Properties\<close>



text \<open>
  The security posture of a database card is what the payload states: a database
  configuration that validates carries an explicit boolean for storage encryption, public
  accessibility and deletion protection, and the validated data repeats it unchanged.
\<close>

theorem database_config_states_security:
  assumes "zod_documented fmt W"
    and "validateComponent W ''database_config'' payload COMPONENT_SCHEMA_VERSION = Inr d"
    and "k \<in> {''storageEncrypted'', ''publiclyAccessible'', ''deletionProtection''}"
  shows "\<exists>b. jget payload k = JBool b \<and> jget d k = JBool b"
  using assms(2,3) database_config_explicit
  by (simp only: validate_database_config zod_Inr [OF assms(1)])

theorem database_config_states_security_witness:
  "\<exists>b. jget (JObj [(''engine'', JStr ''postgres''), (''allocatedStorageGb'', JNum 20), (''backupRetentionDays'', JNum 7),
      (''storageEncrypted'', JBool True), (''publiclyAccessible'', JBool False), (''deletionProtection'', JBool True)])
      ''storageEncrypted'' = JBool b"
proof -
  let ?p = "JObj [(''engine'', JStr ''postgres''), (''allocatedStorageGb'', JNum 20), (''backupRetentionDays'', JNum 7),
      (''storageEncrypted'', JBool True), (''publiclyAccessible'', JBool False), (''deletionProtection'', JBool True)]"
  have "\<exists>d. zdoc (\<lambda>f s. s \<noteq> []) databaseConfigSchema ?p = Some d"
    by (simp add: databaseConfigSchema_def zdoc.simps object_doc_def shape_fields_def
        number_ok_def is_int_def storage_range_ok_def)
  then obtain d where "validateComponent sample_world ''database_config'' ?p COMPONENT_SCHEMA_VERSION = Inr d"
    by (auto simp: validate_database_config zod_Inr [OF sample_documented] simp del: sample_world_simps)
  from database_config_states_security [OF sample_documented this, of "''storageEncrypted''"] show ?thesis by auto
qed

text \<open>
  A manifest that contains an \<open>aws_rds\<close> resource cannot be projected into components,
  whatever its fields: the projection sends the database card no retention and security
  fields, which its schema requires.
\<close>

theorem rds_manifest_never_projects:
  assumes "zod_documented fmt W"
    and "jget manifest ''resources'' = JArr rs" and "r \<in> set rs" and "jget r ''type'' = JStr ''aws_rds''"
  shows "\<exists>e. manifestComponents W manifest requestId version = Inl e"
proof (cases "zparse W manifest_resource_schema (JArr rs)")
  case (Inl issues)
  with assms(2) show ?thesis by (simp add: manifestComponents_def manifest_resources_def)
next
  case (Inr v)
  then have "zdoc fmt manifest_resource_schema (JArr rs) = Some v" by (simp only: zod_Inr [OF assms(1)])
  from resource_type_kept [OF this assms(3)] obtain ws w
    where v: "v = JArr ws" and w: "w \<in> set ws" "jget w ''type'' = JStr ''aws_rds''"
    using assms(4) by auto
  let ?rs = "map name_resource ws"
  have m: "manifest_resources W manifest = Inr ?rs"
    using Inr v assms(2) by (simp add: manifest_resources_def)
  obtain i where i: "i < length ws" "ws ! i = w" using w(1) by (auto simp: in_set_conv_nth)
  have ir: "(i, name_resource w) \<in> set (enumerate 0 ?rs)"
    using i by (simp add: in_set_enumerate_eq)
  have "resource_component W manifest requestId version (i, name_resource w) \<noteq> Inr y" for y
    using w(2) database_config_required [of _ fmt]
    by (auto simp: resource_component_def Let_def name_resource_type component_def mnd
        validate_database_config zod_Inr [OF assms(1)])
  then obtain e where "mapR (resource_component W manifest requestId version) (enumerate 0 ?rs) = Inl e"
    using mapR_Inl [where f = "resource_component W manifest requestId version", OF ir] by blast
  with m show ?thesis
    by (auto simp: manifestComponents_def rbind_def split: sum.splits)
qed

theorem rds_manifest_never_projects_witness:
  "\<exists>e. manifestComponents sample_world (JObj [(''resources'', JArr [JObj [(''type'', JStr ''aws_rds''),
       (''engine'', JStr ''postgres''), (''allocated_storage_gb'', JNum 20)]])]) ''r1'' 1 = Inl e"
  by (rule rds_manifest_never_projects [OF sample_documented]) auto

end
