(* ===== verification/Store.thy ===== *)
theory Store
  imports Errors Workflow_Fsm
begin

text \<open>
  The PostgreSQL schema the orchestrator works on, as records of lists of rows, the state of
  the running process, and the access to the database (\<open>db/db.service.ts\<close>): a transaction
  that restores the tables when its body throws, and lets the other requests of the system
  run before it starts (\<open>others\<close>), as an \<open>await\<close> does.
\<close>

section \<open>Rows\<close>

text \<open>\<open>interface ProvisioningRun\<close>; the field \<open>id\<close> is \<open>rid\<close> here. Times are milliseconds.\<close>

record run =
  rid :: string
  sessionId :: string
  workspaceId :: string
  requesterId :: string
  state :: workflow_state
  stateVersion :: int
  prompt :: string
  manifestVersion :: "int option"
  policyDecision :: "string option"
  approvalStatus :: string
  executionStatus :: string
  idempotencyKey :: "string option"
  correlationId :: string
  errorCode :: "string option"
  errorMessage :: "string option"
  createdAt :: int
  updatedAt :: int
  completedAt :: "int option"
  policyRequirements :: json
  policyRequirementsLoadedAt :: "int option"
  cloudContext :: json
  cloudContextLoadedAt :: "int option"
  agentSessionId :: "string option"
  agentTurnPending :: bool
  agentInput :: "string option"
  currentQuestion :: json
  clarificationExpiresAt :: "int option"
  answersHistory :: "json list"
  manifestValidationAttempts :: int
  manifestValidatedVersion :: "int option"
  manifestConfirmedVersion :: "int option"
  manifestConfirmedAt :: "int option"
  iacArtifactId :: "string option"

record manifest_row =
  mf_id :: string
  mf_run_id :: string
  mf_version :: int

record artifact_row =
  ar_id :: string
  ar_run_id :: string
  ar_manifest_id :: string
  ar_type :: string
  ar_hash :: string
  ar_key :: string
  ar_generation :: json

datatype event_status = Pending | Publishing | Sent | Undeliverable

record sse_event =
  se_id :: string
  se_event_id :: string
  se_workspace :: string
  se_type :: string
  se_correlation :: string
  se_payload :: json
  se_status :: event_status
  se_created :: int
  se_attempts :: nat
  se_next_attempt :: int
  se_locked_until :: "int option"
  se_published :: "int option"
  se_last_error :: "string option"
  se_updated :: int

record audit_event =
  ae_workspace :: string
  ae_event_type :: string
  ae_actor_id :: string
  ae_actor_type :: string
  ae_resource_type :: string
  ae_resource_id :: string
  ae_payload :: json
  ae_hash :: string
  ae_previous :: "string option"
  ae_correlation :: string

record membership =
  mb_workspace :: string
  mb_user :: string
  mb_role :: string

record user_row =
  ur_id :: string
  ur_clerk :: string
  ur_name :: string
  ur_email :: string
  ur_avatar :: "string option"
  ur_active :: "string option"
  ur_created :: int
  ur_updated :: int

record workspace_row =
  wk_id :: string
  wk_name :: string
  wk_policies_enabled :: "bool option"
  wk_deleted :: bool

datatype session_status = Active | Archived | Deleted

record session_row =
  cs_id :: string
  cs_workspace :: string
  cs_user :: string
  cs_title :: string
  cs_status :: session_status
  cs_created :: int
  cs_updated :: int

record turn_row =
  ct_id :: string
  ct_session :: string
  ct_workspace :: string
  ct_requester :: string
  ct_client_message :: string
  ct_key :: string
  ct_fingerprint :: string
  ct_input :: json
  ct_correlation :: string
  ct_run :: string

record message_row =
  cm_id :: string
  cm_session :: string
  cm_workspace :: string
  cm_turn :: string
  cm_role :: string
  cm_content :: string
  cm_components :: "json list"
  cm_created :: int

record chat_event =
  ce_id :: string
  ce_session :: string
  ce_workspace :: string
  ce_turn :: "string option"
  ce_sequence :: nat
  ce_type :: string
  ce_payload :: json
  ce_created :: int

section \<open>Database and process\<close>

record db =
  users :: "user_row list"
  memberships :: "membership list"
  workspaces :: "workspace_row list"
  sessions :: "session_row list"
  runs :: "run list"
  manifests :: "manifest_row list"
  artifacts :: "artifact_row list"
  outbox :: "sse_event list"
  audit :: "audit_event list"
  turns :: "turn_row list"
  messages :: "message_row list"
  event_sequences :: "(string \<times> nat) list"
  chat_events :: "chat_event list"

text \<open>
  The process: its database, the clock, the number of identifiers drawn so far, and whether
  the module is being destroyed (\<open>stopping\<close>, \<open>shutdown\<close>) or the signal of the current
  dispatch has fired.
\<close>

record sys =
  tables :: db
  clock :: int
  fresh :: nat
  stopping :: bool
  aborted :: bool

text \<open>Requests to other services and their responses, as \<open>fetch\<close> exchanges them.\<close>

record http_request =
  rq_method :: string
  rq_url :: string
  rq_headers :: "(string \<times> string) list"
  rq_body :: "json option"

record http_response =
  rs_status :: nat
  rs_text :: string
  rs_json :: "json option"

record env =
  base :: world
  uuid_of :: "nat \<Rightarrow> string"
  others :: "sys \<Rightarrow> sys"
  lock_free :: "string \<Rightarrow> sys \<Rightarrow> bool"
  fetcher :: "http_request \<Rightarrow> (sys, exn, http_response) op"

type_synonym 'a act = "(sys, exn, 'a) op"

definition txn :: "env \<Rightarrow> 'a act \<Rightarrow> 'a act" where
  "txn E m = (\<lambda>s. let s0 = others E s in
     case m s0 of (r, t) \<Rightarrow> (case r of Inl e \<Rightarrow> (Inl e, t\<lparr>tables := tables s0\<rparr>) | Inr x \<Rightarrow> (Inr x, t)))"

text \<open>\<open>pool.query\<close> of a single statement.\<close>

definition db_query :: "env \<Rightarrow> (db \<Rightarrow> 'a) \<Rightarrow> 'a act" where
  "db_query E q = txn E (gets (\<lambda>s. q (tables s)))"

definition update_db :: "(db \<Rightarrow> db) \<Rightarrow> unit act" where
  "update_db f = modify (\<lambda>s. s\<lparr>tables := f (tables s)\<rparr>)"

definition new_uuid :: "env \<Rightarrow> string act" where
  "new_uuid E = (\<lambda>s. (Inr (uuid_of E (fresh s)), s\<lparr>fresh := Suc (fresh s)\<rparr>))"

definition now :: "int act" where
  "now = gets clock"

section \<open>Constraints of the run table\<close>

text \<open>
  The \<open>CHECK\<close> and foreign-key constraints that the migrations put on
  \<open>provisioning_runs\<close>: a row that violates one makes the statement fail.
\<close>

definition policy_snapshot_complete :: "json \<Rightarrow> bool" where
  "policy_snapshot_complete v = (v = JNull \<or>
     list_all (\<lambda>k. k \<in> fst ` set (js_fields v))
       [''allowed_regions'', ''max_budget'', ''required_tags'', ''prohibited_resource_types'',
        ''required_encryption'', ''required_backup''])"

definition run_constraints :: "db \<Rightarrow> run \<Rightarrow> bool" where
  "run_constraints d r =
     (policy_snapshot_complete (policyRequirements r) \<and>
      ((manifestConfirmedVersion r = None) = (manifestConfirmedAt r = None)) \<and>
      ((currentQuestion r = JNull) = (clarificationExpiresAt r = None)) \<and>
      (manifestConfirmedVersion r = None \<or> manifestConfirmedVersion r = manifestVersion r) \<and>
      (case manifestVersion r of None \<Rightarrow> True
       | Some v \<Rightarrow> list_ex (\<lambda>m. mf_run_id m = rid r \<and> mf_version m = v) (manifests d)) \<and>
      (case iacArtifactId r of None \<Rightarrow> True | Some a \<Rightarrow> list_ex (\<lambda>x. ar_id x = a) (artifacts d)))"

definition db_error :: exn where
  "db_error = OtherError ''database error''"

definition find_run :: "string \<Rightarrow> string \<Rightarrow> db \<Rightarrow> run option" where
  "find_run i w d = List.find (\<lambda>r. rid r = i \<and> workspaceId r = w) (runs d)"

definition replace_run :: "run \<Rightarrow> db \<Rightarrow> db" where
  "replace_run r d = d\<lparr>runs := map (\<lambda>x. if rid x = rid r then r else x) (runs d)\<rparr>"

text \<open>Writing a run row back, which fails when the row violates a constraint.\<close>

definition write_run :: "run \<Rightarrow> unit act" where
  "write_run r =
     bnd (gets tables) (\<lambda>d. bnd (check (run_constraints d r) db_error) (\<lambda>_. update_db (replace_run r)))"

section \<open>Evaluation\<close>

lemma now_eval [mnd, simp]: "now s = (Inr (clock s), s)"
  by (simp add: now_def)

lemma update_db_eval [mnd, simp]: "update_db f s = (Inr (), s\<lparr>tables := f (tables s)\<rparr>)"
  by (simp add: update_db_def)

lemma new_uuid_eval [mnd, simp]: "new_uuid E s = (Inr (uuid_of E (fresh s)), s\<lparr>fresh := Suc (fresh s)\<rparr>)"
  by (simp add: new_uuid_def)

lemma txn_Inr: "txn E m s = (Inr x, t) \<longleftrightarrow> m (others E s) = (Inr x, t)"
  by (auto simp: txn_def Let_def split: prod.splits sum.splits)

lemma txn_Inl: "txn E m s = (Inl e, t) \<longleftrightarrow>
    (\<exists>u. m (others E s) = (Inl e, u) \<and> t = u\<lparr>tables := tables (others E s)\<rparr>)"
  by (auto simp: txn_def Let_def split: prod.splits sum.splits)

lemma db_query_eval [mnd, simp]: "db_query E q s = (Inr (q (tables (others E s))), others E s)"
  by (simp add: db_query_def txn_def Let_def)

text \<open>A transaction that fails leaves every table as it found it.\<close>

lemma txn_rollback: "txn E m s = (Inl e, t) \<Longrightarrow> tables t = tables (others E s)"
  by (auto simp: txn_Inl)

lemma find_run_Some: "find_run i w d = Some r \<Longrightarrow> rid r = i \<and> workspaceId r = w \<and> r \<in> set (runs d)"
  by (auto simp: find_run_def dest: find_Some_mem)

lemma write_run_Inr: "write_run r s = (Inr u, t) \<longleftrightarrow>
    run_constraints (tables s) r \<and> t = s\<lparr>tables := replace_run r (tables s)\<rparr>"
  by (auto simp: write_run_def mnd)

lemma write_run_Inl: "write_run r s = (Inl e, t) \<longleftrightarrow> \<not> run_constraints (tables s) r \<and> e = db_error \<and> t = s"
  by (auto simp: write_run_def bnd_Inl_iff check_def split: if_splits)

lemma replace_run_simps [simp]:
  "outbox (replace_run r d) = outbox d" "audit (replace_run r d) = audit d" "manifests (replace_run r d) = manifests d"
  "artifacts (replace_run r d) = artifacts d" "memberships (replace_run r d) = memberships d"
  "sessions (replace_run r d) = sessions d" "workspaces (replace_run r d) = workspaces d"
  "turns (replace_run r d) = turns d" "messages (replace_run r d) = messages d"
  "chat_events (replace_run r d) = chat_events d" "event_sequences (replace_run r d) = event_sequences d"
  "users (replace_run r d) = users d" "map rid (runs (replace_run r d)) = map rid (runs d)"
  by (simp_all add: replace_run_def)

lemma set_replace_run:
  "x \<in> set (runs (replace_run r d)) \<longleftrightarrow>
     (x \<in> set (runs d) \<and> rid x \<noteq> rid r) \<or> (x = r \<and> rid r \<in> rid ` set (runs d))"
  by (auto simp: replace_run_def image_iff split: if_splits) metis+

section \<open>Moves of the database\<close>

text \<open>
  The interface between the database and what is proved of its clients: a relation on the state that
  looks at the tables only. Whatever the relation, the clock and the source of identifiers
  move along it, a statement does if the other requests do, and a transaction does if its
  successful outcomes do, since a failed one leaves the tables alone.
\<close>

locale table_relation =
  fixes R :: "sys \<Rightarrow> sys \<Rightarrow> bool"
  assumes same_tables: "tables t = tables s \<Longrightarrow> R s t"
begin

lemma moves_new_uuid: "along R (new_uuid E)"
  by (rule along_step) (auto intro: same_tables)

lemma moves_now: "along R now"
  by (rule along_step) (auto intro: same_tables)

lemma moves_transaction:
  assumes o: "\<And>s. R\<^sup>*\<^sup>* s (others E s)" and m: "\<And>s x t. m s = (Inr x, t) \<Longrightarrow> R\<^sup>*\<^sup>* s t"
  shows "along R (txn E m)"
proof (rule alongI)
  fix s r t
  assume eq: "txn E m s = (r, t)"
  have "R\<^sup>*\<^sup>* (others E s) t"
  proof (cases r)
    case (Inl e)
    with eq have "tables t = tables (others E s)" by (auto dest: txn_rollback)
    then show ?thesis by (intro r_into_rtranclp same_tables)
  next
    case (Inr x)
    with eq show ?thesis by (intro m) (simp add: txn_Inr)
  qed
  with o [of s] show "R\<^sup>*\<^sup>* s t" by (rule rtranclp_trans)
qed

lemma moves_query: "(\<And>s. R\<^sup>*\<^sup>* s (others E s)) \<Longrightarrow> along R (db_query E q)"
  unfolding db_query_def by (rule moves_transaction) auto

end

definition empty_db :: db where
  "empty_db = \<lparr>users = [], memberships = [], workspaces = [], sessions = [], runs = [], manifests = [], artifacts = [],
     outbox = [], audit = [], turns = [], messages = [], event_sequences = [], chat_events = []\<rparr>"

definition sample_env :: env where
  "sample_env = \<lparr>base = sample_world, uuid_of = (\<lambda>n. ''uuid-'' @ show_nat n), others = (\<lambda>s. s),
     lock_free = (\<lambda>i s. True), fetcher = (\<lambda>q. throw (OtherError ''fetch failed''))\<rparr>"

definition sample_sys :: "db \<Rightarrow> sys" where
  "sample_sys d = \<lparr>tables = d, clock = 0, fresh = 0, stopping = False, aborted = False\<rparr>"

lemma sample_env_simps [simp]:
  "base sample_env = sample_world" "others sample_env s = s" "uuid_of sample_env n = ''uuid-'' @ show_nat n"
  "fetcher sample_env q = throw (OtherError ''fetch failed'')"
  by (simp_all add: sample_env_def)

lemma sample_sys_simps [simp]:
  "tables (sample_sys d) = d" "clock (sample_sys d) = 0" "fresh (sample_sys d) = 0"
  by (simp_all add: sample_sys_def)

end
