(* ===== verification/Outbox.thy ===== *)
theory Outbox
  imports Store
begin

text \<open>
  The transactional outbox: inserting an event (\<open>events/postgres-outbox.writer.ts\<close>), the
  publisher (\<open>events/outbox-publisher.service.ts\<close>) over the interface \<open>OutboxStore\<close>, stated
  as the locale \<open>outbox_contract\<close>, and the PostgreSQL store that implements it
  (\<open>events/postgres-outbox.store.ts\<close>).
\<close>

section \<open>The publisher\<close>

record outbox_event =
  oe_id :: string
  oe_event_id :: string
  oe_workspace :: string
  oe_type :: string
  oe_correlation :: string
  oe_payload :: json
  oe_created :: int
  oe_attempts :: nat

record 's outbox_store =
  claimOldestPending :: "('s, exn, outbox_event option) op"
  markPublished :: "string \<Rightarrow> ('s, exn, unit) op"
  reschedule :: "string \<Rightarrow> nat \<Rightarrow> int \<Rightarrow> string \<Rightarrow> ('s, exn, unit) op"
  markFailed :: "string \<Rightarrow> nat \<Rightarrow> string \<Rightarrow> ('s, exn, unit) op"

datatype outcome = Published | Retried | Failed_delivery | Empty

definition MAX_DELIVERY_ATTEMPTS :: nat where
  "MAX_DELIVERY_ATTEMPTS = 3"

definition publishNext ::
  "'s outbox_store \<Rightarrow> (outbox_event \<Rightarrow> ('s, exn, unit) op) \<Rightarrow> ('s \<Rightarrow> int) \<Rightarrow> ('s, exn, outcome) op" where
  "publishNext S publish now_of =
     bnd (claimOldestPending S) (\<lambda>claimed. case claimed of
       None \<Rightarrow> ret Empty
     | Some event \<Rightarrow>
         catching
           (bnd (publish event) (\<lambda>_. bnd (markPublished S (oe_event_id event)) (\<lambda>_. ret Published)))
           (\<lambda>error.
             let message = exn_message error in
             if oe_attempts event \<ge> MAX_DELIVERY_ATTEMPTS
             then bnd (markFailed S (oe_event_id event) (oe_attempts event) message) (\<lambda>_. ret Failed_delivery)
             else (let delayMs = 1000 * 2 ^ (max 0 (oe_attempts event - 1)) in
                   bnd (gets now_of) (\<lambda>t.
                   bnd (reschedule S (oe_event_id event) (oe_attempts event) (t + delayMs) message) (\<lambda>_.
                   ret Retried)))))"

section \<open>The contract of a store\<close>

text \<open>
  \<open>delivery s i\<close> is the status, the attempt count and the due time of event \<open>i\<close>. A claim hands
  out a pending event, or one whose publisher is gone, and counts the attempt; the other
  operations move a claimed event on. No operation touches another event.
\<close>

locale outbox_contract =
  fixes S :: "'s outbox_store"
    and inv :: "'s \<Rightarrow> bool"
    and delivery :: "'s \<Rightarrow> string \<Rightarrow> (event_status \<times> nat \<times> int) option"
  assumes claim_some: "inv s \<Longrightarrow> claimOldestPending S s = (Inr (Some ev), t) \<Longrightarrow>
      inv t \<and> (\<exists>st n due. delivery s (oe_event_id ev) = Some (st, n, due) \<and> (st = Pending \<or> st = Publishing) \<and>
        oe_attempts ev = Suc n \<and>
        delivery t = (delivery s)(oe_event_id ev \<mapsto> (Publishing, Suc n, due)))"
    and claim_none: "inv s \<Longrightarrow> claimOldestPending S s = (Inr None, t) \<Longrightarrow> inv t \<and> delivery t = delivery s"
    and claim_err: "inv s \<Longrightarrow> claimOldestPending S s = (Inl e, t) \<Longrightarrow> inv t \<and> delivery t = delivery s"
    and published: "inv s \<Longrightarrow> delivery s i = Some (Publishing, n, due) \<Longrightarrow> markPublished S i s = (Inr u, t) \<Longrightarrow>
      inv t \<and> delivery t = (delivery s)(i \<mapsto> (Sent, n, due))"
    and published_err: "inv s \<Longrightarrow> markPublished S i s = (Inl e, t) \<Longrightarrow> inv t \<and> delivery t = delivery s"
    and rescheduled: "inv s \<Longrightarrow> delivery s i = Some (Publishing, n, due) \<Longrightarrow> reschedule S i a due2 err s = (Inr u, t) \<Longrightarrow>
      inv t \<and> delivery t = (delivery s)(i \<mapsto> (Pending, n, due2))"
    and failed: "inv s \<Longrightarrow> delivery s i = Some (Publishing, n, due) \<Longrightarrow> markFailed S i a err s = (Inr u, t) \<Longrightarrow>
      inv t \<and> delivery t = (delivery s)(i \<mapsto> (Undeliverable, n, due))"
begin

text \<open>What one round of the publisher does to the deliveries, by its outcome.\<close>

definition round_ok :: "('s \<Rightarrow> int) \<Rightarrow> 's \<Rightarrow> outcome \<Rightarrow> 's \<Rightarrow> bool" where
  "round_ok now_of s oc t =
     (case oc of
        Empty \<Rightarrow> delivery t = delivery s
      | Published \<Rightarrow> (\<exists>i st n due. delivery s i = Some (st, n, due) \<and> st \<in> {Pending, Publishing} \<and>
                       delivery t = (delivery s)(i \<mapsto> (Sent, Suc n, due)))
      | Retried \<Rightarrow> (\<exists>i st n due t0. delivery s i = Some (st, n, due) \<and> st \<in> {Pending, Publishing} \<and> Suc n < 3 \<and>
                       delivery t = (delivery s)(i \<mapsto> (Pending, Suc n, t0 + 1000 * int (Suc n))))
      | Failed_delivery \<Rightarrow> (\<exists>i st n due. delivery s i = Some (st, n, due) \<and> st \<in> {Pending, Publishing} \<and> Suc n \<ge> 3 \<and>
                       delivery t = (delivery s)(i \<mapsto> (Undeliverable, Suc n, due))))"

lemma backoff: "0 < a \<Longrightarrow> a < 3 \<Longrightarrow> (1000 :: int) * 2 ^ (max 0 (a - 1)) = 1000 * int a"
proof -
  assume "0 < a" "a < (3::nat)"
  then have "a = 1 \<or> a = 2" by arith
  then show ?thesis by auto
qed

lemma publish_round:
  assumes inv: "inv s" and run: "publishNext S publish now_of s = (Inr oc, t)"
    and quiet: "\<And>ev a r b. publish ev a = (r, b) \<Longrightarrow> inv a \<Longrightarrow> inv b \<and> delivery b = delivery a"
  shows "inv t \<and> round_ok now_of s oc t"
proof -
  obtain c u where c: "claimOldestPending S s = (Inr c, u)"
    using run by (auto simp: publishNext_def mnd)
  show ?thesis
  proof (cases c)
    case None
    with c run have "oc = Empty" "t = u" by (auto simp: publishNext_def)
    with claim_none [OF inv] c None show ?thesis by (simp add: round_ok_def)
  next
    case (Some ev)
    let ?i = "oe_event_id ev"
    from claim_some [OF inv] c Some obtain st n due where u: "inv u" "delivery s ?i = Some (st, n, due)"
      "st \<in> {Pending, Publishing}" "oe_attempts ev = Suc n" "delivery u = (delivery s)(?i \<mapsto> (Publishing, Suc n, due))"
      by auto
    then have du: "delivery u ?i = Some (Publishing, Suc n, due)" by simp
    show ?thesis
    proof (cases "bnd (publish ev) (\<lambda>_. bnd (markPublished S ?i) (\<lambda>_. ret Published)) u")
      case (Pair q v)
      show ?thesis
      proof (cases q)
        case (Inr x)
        with Pair obtain w where w: "publish ev u = (Inr (), w)" "markPublished S ?i w = (Inr (), v)" "x = Published"
          by (auto simp: mnd)
        from quiet [OF w(1) u(1)] have "inv w" "delivery w = delivery u" by simp_all
        with published [OF _ _ w(2)] du have v: "inv v" "delivery v = (delivery u)(?i \<mapsto> (Sent, Suc n, due))" by auto
        from run c Some Pair Inr w(3) have "oc = Published" "t = v" by (auto simp: publishNext_def)
        with v u show ?thesis by (auto simp: round_ok_def intro!: exI [of _ ?i])
      next
        case (Inl e)
        with Pair have "publish ev u = (Inl e, v) \<or>
            (\<exists>w. publish ev u = (Inr (), w) \<and> markPublished S ?i w = (Inl e, v))"
          by (auto simp: bnd_Inl_iff)
        then have "inv v \<and> delivery v = delivery u"
          using quiet [OF _ u(1)] published_err by metis
        then have v: "inv v" "delivery v ?i = Some (Publishing, Suc n, due)" "delivery v = delivery u"
          using du by simp_all
        show ?thesis
        proof (cases "3 \<le> Suc n")
          case True
          with run c Some Pair Inl u(4) obtain w where "markFailed S ?i (Suc n) (exn_message e) v = (Inr (), t)"
            "oc = Failed_delivery"
            by (auto simp: publishNext_def MAX_DELIVERY_ATTEMPTS_def mnd)
          with failed [OF v(1,2)] v(3) u True show ?thesis by (auto simp: round_ok_def intro!: exI [of _ ?i])
        next
          case False
          with run c Some Pair Inl u(4) have
            "reschedule S ?i (Suc n) (now_of v + 1000 * 2 ^ (max 0 (Suc n - 1))) (exn_message e) v = (Inr (), t)"
            "oc = Retried"
            by (auto simp: publishNext_def MAX_DELIVERY_ATTEMPTS_def mnd Let_def)
          with rescheduled [OF v(1,2)] backoff [of "Suc n"] False
          have "inv t" "delivery t = (delivery v)(?i \<mapsto> (Pending, Suc n, now_of v + 1000 * int (Suc n)))" "oc = Retried"
            by auto
          with v(3) u False show ?thesis by (auto simp: round_ok_def intro!: exI [of _ ?i] exI [of _ "now_of v"])
        qed
      qed
    qed
  qed
qed

end

section \<open>The PostgreSQL store\<close>

definition toOutboxEvent :: "sse_event \<Rightarrow> outbox_event" where
  "toOutboxEvent row =
     \<lparr>oe_id = se_id row, oe_event_id = se_event_id row, oe_workspace = se_workspace row, oe_type = se_type row,
      oe_correlation = se_correlation row, oe_payload = se_payload row, oe_created = se_created row,
      oe_attempts = se_attempts row\<rparr>"

definition claimable :: "int \<Rightarrow> sse_event \<Rightarrow> bool" where
  "claimable t e =
     ((se_status e = Pending \<and> se_next_attempt e \<le> t) \<or>
      (se_status e = Publishing \<and> (case se_locked_until e of None \<Rightarrow> False | Some l \<Rightarrow> l \<le> t)))"

definition claim_order :: "int \<Rightarrow> sse_event list \<Rightarrow> sse_event list" where
  "claim_order t es = sort_key se_created (sort_key se_id (filter (claimable t) es))"

definition claim_row :: "int \<Rightarrow> sse_event \<Rightarrow> sse_event" where
  "claim_row t e = e\<lparr>se_status := Publishing, se_attempts := se_attempts e + 1,
     se_locked_until := Some (t + 30000), se_updated := t\<rparr>"

definition update_outbox :: "(sse_event \<Rightarrow> sse_event) \<Rightarrow> unit act" where
  "update_outbox f = update_db (\<lambda>d. d\<lparr>outbox := map f (outbox d)\<rparr>)"

definition pg_claimOldestPending :: "outbox_event option act" where
  "pg_claimOldestPending =
     bnd now (\<lambda>t. bnd (gets (\<lambda>s. claim_order t (outbox (tables s)))) (\<lambda>due. case due of
       [] \<Rightarrow> ret None
     | e # rest \<Rightarrow> bnd (update_outbox (\<lambda>x. if se_id x = se_id e then claim_row t x else x)) (\<lambda>_.
         ret (Some (toOutboxEvent (claim_row t e))))))"

definition when_publishing :: "string \<Rightarrow> (sse_event \<Rightarrow> sse_event) \<Rightarrow> sse_event \<Rightarrow> sse_event" where
  "when_publishing i f e = (if se_event_id e = i \<and> se_status e = Publishing then f e else e)"

definition pg_markPublished :: "string \<Rightarrow> unit act" where
  "pg_markPublished i = bnd now (\<lambda>t. update_outbox (when_publishing i (\<lambda>e.
     e\<lparr>se_status := Sent, se_published := Some t, se_locked_until := None, se_last_error := None, se_updated := t\<rparr>)))"

definition pg_reschedule :: "string \<Rightarrow> nat \<Rightarrow> int \<Rightarrow> string \<Rightarrow> unit act" where
  "pg_reschedule i attempt nextAttemptAt err = bnd now (\<lambda>t. update_outbox (when_publishing i (\<lambda>e.
     e\<lparr>se_status := Pending, se_next_attempt := nextAttemptAt, se_locked_until := None,
       se_last_error := Some (take 2000 err), se_updated := t\<rparr>)))"

definition pg_markFailed :: "string \<Rightarrow> nat \<Rightarrow> string \<Rightarrow> unit act" where
  "pg_markFailed i attempt err = bnd now (\<lambda>t. update_outbox (when_publishing i (\<lambda>e.
     e\<lparr>se_status := Undeliverable, se_locked_until := None, se_last_error := Some (take 2000 err), se_updated := t\<rparr>)))"

definition postgres_outbox_store :: "sys outbox_store" where
  "postgres_outbox_store =
     \<lparr>claimOldestPending = pg_claimOldestPending, markPublished = pg_markPublished,
      reschedule = pg_reschedule, markFailed = pg_markFailed\<rparr>"

text \<open>Inserting an event: a fresh row is pending, due at once; event identifiers are unique.\<close>

definition insert_outbox :: "env \<Rightarrow> string \<Rightarrow> string \<Rightarrow> string \<Rightarrow> string \<Rightarrow> json \<Rightarrow> unit act" where
  "insert_outbox E workspace event_id event_type correlation payload =
     bnd (new_uuid E) (\<lambda>row_id. bnd now (\<lambda>t.
     bnd (gets (\<lambda>s. event_id \<in> se_event_id ` set (outbox (tables s)) \<or> row_id \<in> se_id ` set (outbox (tables s)))) (\<lambda>dup.
     bnd (check (\<not> dup) db_error) (\<lambda>_.
     update_db (\<lambda>d. d\<lparr>outbox := outbox d @
       [\<lparr>se_id = row_id, se_event_id = event_id, se_workspace = workspace, se_type = event_type,
         se_correlation = correlation, se_payload = jsonb (base E) payload, se_status = Pending, se_created = t,
         se_attempts = 0, se_next_attempt = t, se_locked_until = None, se_published = None, se_last_error = None,
         se_updated = t\<rparr>]\<rparr>)))))"

section \<open>The store keeps the contract\<close>

definition outbox_keys :: "sys \<Rightarrow> bool" where
  "outbox_keys s = (distinct (map se_event_id (outbox (tables s))) \<and> distinct (map se_id (outbox (tables s))))"

definition row_delivery :: "sse_event \<Rightarrow> event_status \<times> nat \<times> int" where
  "row_delivery e = (se_status e, se_attempts e, se_next_attempt e)"

definition outbox_delivery :: "sys \<Rightarrow> string \<Rightarrow> (event_status \<times> nat \<times> int) option" where
  "outbox_delivery s = map_of (map (\<lambda>e. (se_event_id e, row_delivery e)) (outbox (tables s)))"

lemma map_of_update:
  "distinct (map k es) \<Longrightarrow> e \<in> set es \<Longrightarrow> (\<And>x. x \<in> set es \<Longrightarrow> k (u x) = k x) \<Longrightarrow>
   (\<And>x. x \<in> set es \<Longrightarrow> k x \<noteq> k e \<Longrightarrow> v (u x) = v x) \<Longrightarrow>
   map_of (map (\<lambda>x. (k x, v x)) (map u es)) = (map_of (map (\<lambda>x. (k x, v x)) es))(k e \<mapsto> v (u e))"
proof (induction es)
  case Nil
  then show ?case by simp
next
  case (Cons a es)
  have same: "map_of (map (\<lambda>x. (k x, v x)) (map u es)) = map_of (map (\<lambda>x. (k x, v x)) es)"
    if "k a = k e"
  proof -
    have "k x \<noteq> k e" if "x \<in> set es" for x using \<open>k a = k e\<close> that Cons.prems(1) by (auto intro: rev_image_eqI)
    then show ?thesis using Cons.prems(3,4) by (intro arg_cong [where f = map_of]) auto
  qed
  show ?case
  proof (cases "e = a")
    case True
    with Cons.prems same show ?thesis by (auto simp: fun_upd_def)
  next
    case False
    with Cons.prems have "e \<in> set es" "k a \<noteq> k e" by auto
    with Cons show ?thesis by (auto simp: fun_eq_iff)
  qed
qed

lemma same_key: "distinct (map k es) \<Longrightarrow> x \<in> set es \<Longrightarrow> e \<in> set es \<Longrightarrow> k x = k e \<Longrightarrow> x = e"
  by (metis distinct_map inj_onD)

lemma when_publishing_key [simp]: "(\<And>x. se_event_id (f x) = se_event_id x) \<Longrightarrow> se_event_id (when_publishing i f x) = se_event_id x"
  "(\<And>x. se_id (f x) = se_id x) \<Longrightarrow> se_id (when_publishing i f x) = se_id x"
  by (simp_all add: when_publishing_def)

lemma update_publishing:
  assumes inv: "outbox_keys s" and d: "outbox_delivery s i = Some (Publishing, n, due)"
    and k: "\<And>x. se_event_id (f x) = se_event_id x" "\<And>x. se_id (f x) = se_id x"
    and v: "\<And>x. se_attempts x = n \<Longrightarrow> se_next_attempt x = due \<Longrightarrow> row_delivery (f x) = w"
    and u: "update_outbox (when_publishing i f) s = (r, t)"
  shows "outbox_keys t \<and> outbox_delivery t = (outbox_delivery s)(i \<mapsto> w)"
proof -
  let ?es = "outbox (tables s)"
  from d obtain e where e: "e \<in> set ?es" "se_event_id e = i" "row_delivery e = (Publishing, n, due)"
    by (auto simp: outbox_delivery_def dest!: map_of_SomeD)
  have t: "outbox (tables t) = map (when_publishing i f) ?es" using u by (auto simp: update_outbox_def)
  from inv have dist: "distinct (map se_event_id ?es)" by (simp add: outbox_keys_def)
  have "map_of (map (\<lambda>x. (se_event_id x, row_delivery x)) (map (when_publishing i f) ?es)) =
        (map_of (map (\<lambda>x. (se_event_id x, row_delivery x)) ?es))(se_event_id e \<mapsto> row_delivery (when_publishing i f e))"
    by (rule map_of_update [OF dist e(1)]) (use e(2) k in \<open>auto simp: when_publishing_def\<close>)
  moreover have "row_delivery (when_publishing i f e) = w"
    using e v [of e] by (auto simp: when_publishing_def row_delivery_def)
  ultimately show ?thesis
    using inv t e(2) k by (simp add: outbox_keys_def outbox_delivery_def comp_def)
qed

lemma claim_order_set: "set (claim_order t es) = {e \<in> set es. claimable t e}"
  by (auto simp: claim_order_def)

lemma claim_updates:
  assumes inv: "outbox_keys s" and c: "pg_claimOldestPending s = (Inr (Some ev), t)"
  shows "outbox_keys t \<and> (\<exists>st n due. outbox_delivery s (oe_event_id ev) = Some (st, n, due) \<and>
     (st = Pending \<or> st = Publishing) \<and> oe_attempts ev = Suc n \<and>
     outbox_delivery t = (outbox_delivery s)(oe_event_id ev \<mapsto> (Publishing, Suc n, due)))"
proof -
  let ?es = "outbox (tables s)"
  from c obtain e rest where ord: "claim_order (clock s) ?es = e # rest"
    and ev: "ev = toOutboxEvent (claim_row (clock s) e)"
    and t: "outbox (tables t) = map (\<lambda>x. if se_id x = se_id e then claim_row (clock s) x else x) ?es"
    by (auto simp: pg_claimOldestPending_def update_outbox_def mnd split: list.splits)
  let ?u = "\<lambda>x. if se_id x = se_id e then claim_row (clock s) x else x"
  have e: "e \<in> set ?es" "claimable (clock s) e"
    using claim_order_set [of "clock s" ?es] ord by auto
  from inv have dist: "distinct (map se_event_id ?es)" "distinct (map se_id ?es)" by (simp_all add: outbox_keys_def)
  have "map_of (map (\<lambda>x. (se_event_id x, row_delivery x)) (map ?u ?es)) =
        (map_of (map (\<lambda>x. (se_event_id x, row_delivery x)) ?es))(se_event_id e \<mapsto> row_delivery (?u e))"
    by (rule map_of_update [OF dist(1) e(1)]) (use same_key [OF dist(2) _ e(1)] in \<open>auto simp: claim_row_def\<close>)
  moreover have "map_of (map (\<lambda>x. (se_event_id x, row_delivery x)) ?es) (se_event_id e) = Some (row_delivery e)"
    using e(1) dist(1) by (intro map_of_is_SomeI) (auto simp: comp_def)
  moreover have "outbox_keys t"
    using inv t by (simp add: outbox_keys_def comp_def if_distrib claim_row_def cong: if_cong)
  ultimately show ?thesis
    using e t ev
    by (auto simp: outbox_delivery_def row_delivery_def toOutboxEvent_def claim_row_def claimable_def)
qed

lemma pg_published:
  assumes "outbox_keys s" and "outbox_delivery s i = Some (Publishing, n, due)" and a: "pg_markPublished i s = (r, t)"
  shows "outbox_keys t \<and> outbox_delivery t = (outbox_delivery s)(i \<mapsto> (Sent, n, due))"
  by (rule update_publishing [OF assms(1,2), where f = "\<lambda>e. e\<lparr>se_status := Sent, se_published := Some (clock s),
        se_locked_until := None, se_last_error := None, se_updated := clock s\<rparr>"])
    (use a in \<open>simp_all add: pg_markPublished_def row_delivery_def\<close>)

lemma pg_rescheduled:
  assumes "outbox_keys s" and "outbox_delivery s i = Some (Publishing, n, due)" and a: "pg_reschedule i k due2 err s = (r, t)"
  shows "outbox_keys t \<and> outbox_delivery t = (outbox_delivery s)(i \<mapsto> (Pending, n, due2))"
  by (rule update_publishing [OF assms(1,2), where f = "\<lambda>e. e\<lparr>se_status := Pending, se_next_attempt := due2,
        se_locked_until := None, se_last_error := Some (take 2000 err), se_updated := clock s\<rparr>"])
    (use a in \<open>simp_all add: pg_reschedule_def row_delivery_def\<close>)

lemma pg_failed:
  assumes "outbox_keys s" and "outbox_delivery s i = Some (Publishing, n, due)" and a: "pg_markFailed i k err s = (r, t)"
  shows "outbox_keys t \<and> outbox_delivery t = (outbox_delivery s)(i \<mapsto> (Undeliverable, n, due))"
  by (rule update_publishing [OF assms(1,2), where f = "\<lambda>e. e\<lparr>se_status := Undeliverable,
        se_locked_until := None, se_last_error := Some (take 2000 err), se_updated := clock s\<rparr>"])
    (use a in \<open>simp_all add: pg_markFailed_def row_delivery_def\<close>)

lemma pg_claim_none:
  "outbox_keys s \<Longrightarrow> pg_claimOldestPending s = (Inr None, t) \<Longrightarrow> outbox_keys t \<and> outbox_delivery t = outbox_delivery s"
  by (auto simp: pg_claimOldestPending_def mnd split: list.splits)

lemma pg_no_error: "pg_claimOldestPending s \<noteq> (Inl e, t)" "pg_markPublished i s \<noteq> (Inl e, t)"
  by (auto simp: pg_claimOldestPending_def pg_markPublished_def update_outbox_def bnd_Inl_iff split: list.splits)

lemma postgres_store_sel [simp]:
  "claimOldestPending postgres_outbox_store = pg_claimOldestPending"
  "markPublished postgres_outbox_store = pg_markPublished"
  "reschedule postgres_outbox_store = pg_reschedule"
  "markFailed postgres_outbox_store = pg_markFailed"
  by (simp_all add: postgres_outbox_store_def)

interpretation pg: outbox_contract postgres_outbox_store outbox_keys outbox_delivery
  by (unfold_locales, unfold postgres_store_sel)
    (erule (1) claim_updates, erule (1) pg_claim_none, simp add: pg_no_error, erule (2) pg_published,
     simp add: pg_no_error, erule (2) pg_rescheduled, erule (2) pg_failed)

text \<open>The live event hub, which delivers an event, does not write to the outbox itself.\<close>

definition quiet_publisher :: "(outbox_event \<Rightarrow> unit act) \<Rightarrow> bool" where
  "quiet_publisher publish \<longleftrightarrow>
     (\<forall>ev a r b. publish ev a = (r, b) \<longrightarrow> outbox_keys a \<longrightarrow> outbox_keys b \<and> outbox_delivery b = outbox_delivery a)"

section \<open>Properties\<close>


definition sample_event :: sse_event where
  "sample_event = \<lparr>se_id = ''1'', se_event_id = ''e'', se_workspace = ''w'', se_type = ''StateChangedEvent'',
     se_correlation = ''c'', se_payload = JObj [], se_status = Pending, se_created = 0, se_attempts = 1,
     se_next_attempt = 0, se_locked_until = None, se_published = None, se_last_error = None, se_updated = 0\<rparr>"


text \<open>
  The outbox is claimed in creation order: the event a claim hands out was due, and no due
  event is older; an event whose publisher crashed becomes due again only when its lease of
  thirty seconds has run out.
\<close>

theorem claim_takes_oldest_due:
  assumes "pg_claimOldestPending s = (Inr (Some ev), t)"
  shows "(\<exists>e \<in> set (outbox (tables s)). claimable (clock s) e \<and> oe_id ev = se_id e \<and> oe_attempts ev = se_attempts e + 1) \<and>
         (\<forall>e \<in> set (outbox (tables s)). claimable (clock s) e \<longrightarrow> oe_created ev \<le> se_created e) \<and>
         (\<forall>e \<in> set (outbox (tables t)). se_id e = oe_id ev \<longrightarrow> \<not> claimable (clock s + 29999) e)"
proof -
  let ?es = "outbox (tables s)"
  from assms obtain e rest where ord: "claim_order (clock s) ?es = e # rest"
    and ev: "ev = toOutboxEvent (claim_row (clock s) e)"
    and t: "outbox (tables t) = map (\<lambda>x. if se_id x = se_id e then claim_row (clock s) x else x) ?es"
    by (auto simp: pg_claimOldestPending_def update_outbox_def mnd split: list.splits)
  have e: "e \<in> set ?es" "claimable (clock s) e"
    using claim_order_set [of "clock s" ?es] ord by auto
  have "sorted (map se_created (claim_order (clock s) ?es))" by (simp add: claim_order_def)
  with ord have "\<forall>x \<in> set (claim_order (clock s) ?es). se_created e \<le> se_created x" by auto
  then have "\<forall>x \<in> set ?es. claimable (clock s) x \<longrightarrow> se_created e \<le> se_created x"
    by (simp add: claim_order_set)
  moreover have "oe_id ev = se_id e" "oe_attempts ev = se_attempts e + 1" "oe_created ev = se_created e"
    by (simp_all add: ev toOutboxEvent_def claim_row_def)
  moreover have "\<not> claimable (clock s + 29999) (claim_row (clock s) x)" for x
    by (simp add: claimable_def claim_row_def)
  ultimately show ?thesis using e t by auto
qed

theorem claim_takes_oldest_due_witness:
  "\<exists>e \<in> set [sample_event]. claimable 0 e \<and> se_id e = ''1''"
proof -
  let ?s = "sample_sys (empty_db\<lparr>outbox := [sample_event]\<rparr>)"
  obtain ev t where "pg_claimOldestPending ?s = (Inr (Some ev), t)" and "oe_id ev = ''1''"
    by (simp add: pg_claimOldestPending_def claim_order_def claimable_def sample_event_def
        update_outbox_def toOutboxEvent_def claim_row_def)
  with claim_takes_oldest_due [of ?s ev t] show ?thesis by simp
qed

end
