(* ===== verification/Workflow_Transition.thy ===== *)
theory Workflow_Transition
  imports Outbox
begin

text \<open>
  The transition service (\<open>state-machine/workflow-transition.service.ts\<close>) over the interface
  \<open>WorkflowTransitionStore\<close>, stated as the locale \<open>transition_contract\<close>, and the PostgreSQL
  store with its compare-and-set update
  (\<open>state-machine/postgres-workflow-transition.store.ts\<close>).
\<close>

section \<open>The service\<close>

record snapshot =
  sn_id :: string
  sn_workspace :: string
  sn_state :: workflow_state
  sn_version :: int
  sn_correlation :: string

record state_changed_event =
  sce_id :: string
  sce_workspace :: string
  sce_run :: string
  sce_correlation :: string
  sce_from :: workflow_state
  sce_to :: workflow_state
  sce_version :: int
  sce_occurred_at :: string

record transition_audit =
  ta_workspace :: string
  ta_run :: string
  ta_actor_id :: string
  ta_actor_type :: string
  ta_from :: workflow_state
  ta_to :: workflow_state
  ta_version :: int

record transition_input =
  ti_run :: string
  ti_expected_state :: workflow_state
  ti_expected_version :: int
  ti_next :: workflow_state
  ti_audit :: transition_audit
  ti_event :: state_changed_event

definition concurrent_error :: "string \<Rightarrow> int \<Rightarrow> exn" where
  "concurrent_error i v =
     OtherError (''Run '' @ i @ '' was modified before state version '' @ show_int v @ '' could be transitioned'')"

definition transition_exn :: "transition_error + 'a \<Rightarrow> exn + 'a" where
  "transition_exn r = (case r of Inl e \<Rightarrow> Inl (OtherError (transition_error_message e)) | Inr d \<Rightarrow> Inr d)"

definition transition ::
  "(transition_input \<Rightarrow> ('s, exn, snapshot option) op) \<Rightarrow> ('s, exn, string) op \<Rightarrow> ('s \<Rightarrow> int) \<Rightarrow>
   snapshot \<Rightarrow> workflow_state \<Rightarrow> TransitionConditions \<Rightarrow> string \<Rightarrow> string \<Rightarrow> int option \<Rightarrow>
   ('s, exn, snapshot \<times> EntryAction \<times> state_changed_event) op" where
  "transition store new_id now_of run to conditions actorId actorType at_time =
     bnd (lift_result (transition_exn (assertTransition (sn_state run) to conditions))) (\<lambda>defn.
     let nextStateVersion = sn_version run + 1 in
     bnd new_id (\<lambda>event_id.
     bnd (gets now_of) (\<lambda>t.
     let event = \<lparr>sce_id = event_id, sce_workspace = sn_workspace run, sce_run = sn_id run,
                  sce_correlation = sn_correlation run, sce_from = sn_state run, sce_to = to,
                  sce_version = nextStateVersion,
                  sce_occurred_at = to_iso (case at_time of Some x \<Rightarrow> x | None \<Rightarrow> t)\<rparr>;
         audit_of = \<lparr>ta_workspace = sn_workspace run, ta_run = sn_id run, ta_actor_id = actorId,
                     ta_actor_type = actorType, ta_from = sn_state run, ta_to = to, ta_version = nextStateVersion\<rparr>
     in bnd (store \<lparr>ti_run = sn_id run, ti_expected_state = sn_state run, ti_expected_version = sn_version run,
                    ti_next = to, ti_audit = audit_of, ti_event = event\<rparr>) (\<lambda>updated.
     case updated of
       None \<Rightarrow> throw (concurrent_error (sn_id run) (sn_version run))
     | Some r \<Rightarrow> ret (r, onEntry defn, event)))))"

section \<open>The contract of a store\<close>

text \<open>
  \<open>position s i\<close> is the state and version of run \<open>i\<close>, \<open>logged s\<close> the identifiers of the events
  written, \<open>before s\<close> the state when the store's transaction starts. The store moves the run if
  and only if it stands where the caller saw it, and then writes the event with it.
\<close>

locale transition_contract =
  fixes store :: "transition_input \<Rightarrow> ('s, exn, snapshot option) op"
    and before :: "'s \<Rightarrow> 's"
    and inv :: "'s \<Rightarrow> bool"
    and position :: "'s \<Rightarrow> string \<Rightarrow> (workflow_state \<times> int) option"
    and logged :: "'s \<Rightarrow> string set"
  assumes moved: "inv (before s) \<Longrightarrow> store i s = (Inr (Some r), t) \<Longrightarrow>
      inv t \<and> position (before s) (ti_run i) = Some (ti_expected_state i, ti_expected_version i) \<and>
      position t = (position (before s))(ti_run i \<mapsto> (ti_next i, ti_expected_version i + 1)) \<and>
      sn_id r = ti_run i \<and> sn_state r = ti_next i \<and> sn_version r = ti_expected_version i + 1 \<and>
      logged t = insert (sce_id (ti_event i)) (logged (before s))"
    and stale: "store i s = (Inr None, t) \<Longrightarrow>
      position t = position (before s) \<and> logged t = logged (before s) \<and>
      position (before s) (ti_run i) \<noteq> Some (ti_expected_state i, ti_expected_version i)"
    and failed: "store i s = (Inl e, t) \<Longrightarrow> position t = position (before s) \<and> logged t = logged (before s)"
begin

lemma transition_moves:
  assumes run: "transition store new_id now_of r to c actor actorType tm s = (Inr (r', act, ev), t)"
    and i: "\<forall>x u. new_id s = (x, u) \<longrightarrow> inv (before u)"
  shows "\<exists>x u d. new_id s = (Inr x, u) \<and> inv t \<and> assertTransition (sn_state r) to c = Inr d \<and> act = onEntry d \<and>
     position (before u) (sn_id r) = Some (sn_state r, sn_version r) \<and>
     position t = (position (before u))(sn_id r \<mapsto> (to, sn_version r + 1)) \<and>
     sn_state r' = to \<and> sn_version r' = sn_version r + 1 \<and>
     logged t = insert (sce_id ev) (logged (before u)) \<and>
     sce_from ev = sn_state r \<and> sce_to ev = to \<and> sce_version ev = sn_version r + 1"
proof -
  from run obtain d x u i where d: "assertTransition (sn_state r) to c = Inr d" and u: "new_id s = (Inr x, u)"
    and st: "store i u = (Inr (Some r'), t)" and act: "act = onEntry d" and ev: "ti_event i = ev"
    and i: "ti_run i = sn_id r" "ti_expected_state i = sn_state r" "ti_expected_version i = sn_version r" "ti_next i = to"
    and e: "sce_from ev = sn_state r" "sce_to ev = to" "sce_version ev = sn_version r + 1"
    by (auto simp: transition_def transition_exn_def Let_def mnd split: sum.splits option.splits)
  from u assms(2) have "inv (before u)" by blast
  from moved [OF this st] d act ev i e u show ?thesis by (intro exI [of _ x] exI [of _ u] exI [of _ d]) simp
qed

lemma transition_fails:
  assumes run: "transition store new_id now_of r to c actor actorType tm s = (Inl e, t)"
  shows "t = s \<or> (\<exists>x. new_id s = (Inl x, t)) \<or>
    (\<exists>x u. new_id s = (Inr x, u) \<and> position t = position (before u) \<and> logged t = logged (before u))"
  using run stale failed
  by (fastforce simp: transition_def transition_exn_def Let_def bnd_Inl_iff mnd split: sum.splits option.splits)

end

section \<open>The PostgreSQL store\<close>

definition toSnapshot :: "run \<Rightarrow> snapshot" where
  "toSnapshot row = \<lparr>sn_id = rid row, sn_workspace = workspaceId row, sn_state = state row,
     sn_version = stateVersion row, sn_correlation = correlationId row\<rparr>"

definition appendStateChangedOutboxEvent :: "env \<Rightarrow> state_changed_event \<Rightarrow> unit act" where
  "appendStateChangedOutboxEvent E ev =
     insert_outbox E (sce_workspace ev) (sce_id ev) ''StateChangedEvent'' (sce_correlation ev)
       (JObj [(''run_id'', JStr (sce_run ev)), (''from'', JStr (state_label (sce_from ev))),
              (''to'', JStr (state_label (sce_to ev))), (''state_version'', jint (sce_version ev)),
              (''occurred_at'', JStr (sce_occurred_at ev))])"

text \<open>
  The audit writer is an interface the repository declares and does not implement: a parameter
  that may append to, or fail on, the audit table.
\<close>

type_synonym audit_writer = "audit_event list \<Rightarrow> exn + audit_event list"

definition write_audit :: "audit_writer \<Rightarrow> unit act" where
  "write_audit w = (\<lambda>s. case w (audit (tables s)) of
      Inl e \<Rightarrow> (Inl e, s) | Inr es \<Rightarrow> (Inr (), s\<lparr>tables := (tables s)\<lparr>audit := es\<rparr>\<rparr>))"

definition enter_state :: "workflow_state \<Rightarrow> int \<Rightarrow> run \<Rightarrow> run" where
  "enter_state to t r = r\<lparr>state := to, stateVersion := stateVersion r + 1, updatedAt := t,
     completedAt := (if isTerminalWorkflowState to then Some t else completedAt r)\<rparr>"

definition cas_match :: "transition_input \<Rightarrow> run \<Rightarrow> bool" where
  "cas_match i r = (rid r = ti_run i \<and> state r = ti_expected_state i \<and> stateVersion r = ti_expected_version i)"

definition pg_transitionAtomically ::
  "env \<Rightarrow> (transition_audit \<Rightarrow> audit_writer) \<Rightarrow> transition_input \<Rightarrow> snapshot option act" where
  "pg_transitionAtomically E writer i = txn E (
     bnd now (\<lambda>t. bnd (gets (\<lambda>s. List.find (cas_match i) (runs (tables s)))) (\<lambda>row. case row of
       None \<Rightarrow> ret None
     | Some r \<Rightarrow>
         bnd (update_db (\<lambda>d. d\<lparr>runs := map (\<lambda>x. if cas_match i x then enter_state (ti_next i) t x else x) (runs d)\<rparr>)) (\<lambda>_.
         bnd (write_audit (writer (ti_audit i))) (\<lambda>_.
         bnd (appendStateChangedOutboxEvent E (ti_event i)) (\<lambda>_.
         ret (Some (toSnapshot (enter_state (ti_next i) t r)))))))))"

section \<open>The store keeps the contract\<close>

definition run_keys :: "sys \<Rightarrow> bool" where
  "run_keys s = distinct (map rid (runs (tables s)))"

definition run_position :: "sys \<Rightarrow> string \<Rightarrow> (workflow_state \<times> int) option" where
  "run_position s = map_of (map (\<lambda>r. (rid r, (state r, stateVersion r))) (runs (tables s)))"

definition logged_events :: "sys \<Rightarrow> string set" where
  "logged_events s = se_event_id ` set (outbox (tables s))"

lemma write_audit_Inr: "write_audit w s = (Inr u, t) \<Longrightarrow>
    runs (tables t) = runs (tables s) \<and> outbox (tables t) = outbox (tables s) \<and> clock t = clock s"
  by (auto simp: write_audit_def split: sum.splits)

lemma insert_outbox_Inr: "insert_outbox E w i ty c p s = (Inr u, t) \<Longrightarrow>
    runs (tables t) = runs (tables s) \<and> logged_events t = insert i (logged_events s) \<and> i \<notin> logged_events s"
  by (auto simp: insert_outbox_def logged_events_def mnd)

lemma enter_state_simps [simp]:
  "rid (enter_state to t r) = rid r" "state (enter_state to t r) = to"
  "stateVersion (enter_state to t r) = stateVersion r + 1" "workspaceId (enter_state to t r) = workspaceId r"
  by (simp_all add: enter_state_def)

lemma pg_moved:
  assumes keys: "run_keys (others E s)" and m: "pg_transitionAtomically E w i s = (Inr (Some r), t)"
  shows "run_keys t \<and> run_position (others E s) (ti_run i) = Some (ti_expected_state i, ti_expected_version i) \<and>
    run_position t = (run_position (others E s))(ti_run i \<mapsto> (ti_next i, ti_expected_version i + 1)) \<and>
    sn_id r = ti_run i \<and> sn_state r = ti_next i \<and> sn_version r = ti_expected_version i + 1 \<and>
    logged_events t = insert (sce_id (ti_event i)) (logged_events (others E s))"
proof -
  let ?s = "others E s" and ?u = "\<lambda>tm x. if cas_match i x then enter_state (ti_next i) tm x else x"
  let ?rs = "runs (tables ?s)"
  from m obtain row tm where row: "List.find (cas_match i) ?rs = Some row"
    and t: "runs (tables t) = map (?u tm) ?rs"
    and r: "r = toSnapshot (enter_state (ti_next i) tm row)"
    and l: "logged_events t = insert (sce_id (ti_event i)) (logged_events ?s)"
    by (fastforce simp: pg_transitionAtomically_def txn_Inr mnd appendStateChangedOutboxEvent_def logged_events_def
        split: option.splits dest!: write_audit_Inr insert_outbox_Inr)
  from find_Some_mem [OF row] have e: "row \<in> set ?rs" "cas_match i row" by auto
  from keys have d: "distinct (map rid ?rs)" by (simp add: run_keys_def)
  have "map_of (map (\<lambda>x. (rid x, (state x, stateVersion x))) (map (?u tm) ?rs)) =
        (map_of (map (\<lambda>x. (rid x, (state x, stateVersion x))) ?rs))(rid row \<mapsto> (state (?u tm row), stateVersion (?u tm row)))"
    by (rule map_of_update [OF d e(1)]) (use e(2) in \<open>auto simp: cas_match_def\<close>)
  moreover have "map_of (map (\<lambda>x. (rid x, (state x, stateVersion x))) ?rs) (rid row) = Some (state row, stateVersion row)"
    using e(1) d by (intro map_of_is_SomeI) (auto simp: comp_def)
  moreover have k: "map rid (map (?u tm) ?rs) = map rid ?rs" by simp
  have "run_keys t" unfolding run_keys_def t k by (rule d)
  moreover have "rid row = ti_run i" "state row = ti_expected_state i" "stateVersion row = ti_expected_version i"
    using e(2) by (simp_all add: cas_match_def)
  ultimately show ?thesis
    using e t l r by (simp add: run_position_def toSnapshot_def)
qed

lemma pg_stale:
  assumes "pg_transitionAtomically E w i s = (Inr None, t)"
  shows "run_position t = run_position (others E s) \<and> logged_events t = logged_events (others E s) \<and>
      run_position (others E s) (ti_run i) \<noteq> Some (ti_expected_state i, ti_expected_version i)"
proof -
  from assms have n: "List.find (cas_match i) (runs (tables (others E s))) = None" "t = others E s"
    by (auto simp: pg_transitionAtomically_def txn_Inr mnd split: option.splits)
  have "run_position (others E s) (ti_run i) \<noteq> Some (ti_expected_state i, ti_expected_version i)"
  proof
    assume "run_position (others E s) (ti_run i) = Some (ti_expected_state i, ti_expected_version i)"
    then obtain x where "x \<in> set (runs (tables (others E s)))" "cas_match i x"
      by (auto simp: run_position_def cas_match_def dest!: map_of_SomeD)
    with n(1) show False by (auto simp: find_None_iff)
  qed
  with n show ?thesis by simp
qed

interpretation pgt: transition_contract "pg_transitionAtomically E w" "others E" run_keys run_position logged_events
  for E w
proof
  show "pg_transitionAtomically E w i s = (Inl e, t) \<Longrightarrow>
      run_position t = run_position (others E s) \<and> logged_events t = logged_events (others E s)" for i s e t
    unfolding pg_transitionAtomically_def by (drule txn_rollback) (simp add: run_position_def logged_events_def)
qed (blast dest: pg_moved pg_stale)+

definition sample_run :: run where
  "sample_run =
     \<lparr>rid = ''r'', sessionId = ''s'', workspaceId = ''w'', requesterId = ''u'', state = RECEIVED, stateVersion = 0,
      prompt = ''p'', manifestVersion = None, policyDecision = None, approvalStatus = ''not_required'',
      executionStatus = ''pending'', idempotencyKey = Some ''k'', correlationId = ''c'', errorCode = None,
      errorMessage = None, createdAt = 0, updatedAt = 0, completedAt = None, policyRequirements = JNull,
      policyRequirementsLoadedAt = None, cloudContext = JNull, cloudContextLoadedAt = None, agentSessionId = None,
      agentTurnPending = True, agentInput = None, currentQuestion = JNull, clarificationExpiresAt = None,
      answersHistory = [], manifestValidationAttempts = 0, manifestValidatedVersion = None,
      manifestConfirmedVersion = None, manifestConfirmedAt = None, iacArtifactId = None\<rparr>"

section \<open>Properties\<close>

text \<open>
  C14. A transition that returns has moved the run: the gates held, the run stood in the database
  at the state and version the caller saw, it now stands at the target with the version one
  higher, no other run has moved, and the state-change event is in the outbox, committed with it.
\<close>

theorem transition_is_compare_and_set:
  assumes "run_keys (others E (s\<lparr>fresh := Suc (fresh s)\<rparr>))"
    and "transition (pg_transitionAtomically E w) (new_uuid E) clock r to c actor actorType tm s = (Inr (r', act, ev), t)"
  shows "(\<exists>d. assertTransition (sn_state r) to c = Inr d \<and> act = onEntry d) \<and>
     (let d = others E (s\<lparr>fresh := Suc (fresh s)\<rparr>) in
      run_position d (sn_id r) = Some (sn_state r, sn_version r) \<and>
      run_position t = (run_position d)(sn_id r \<mapsto> (to, sn_version r + 1)) \<and>
      logged_events t = insert (sce_id ev) (logged_events d)) \<and>
     sce_from ev = sn_state r \<and> sce_to ev = to \<and> sce_version ev = sn_version r + 1"
proof -
  have "\<forall>x u. new_uuid E s = (x, u) \<longrightarrow> run_keys (others E u)" using assms(1) by auto
  from pgt.transition_moves [OF assms(2) this] show ?thesis by auto
qed

theorem transition_is_compare_and_set_witness:
  "run_position (snd (transition (pg_transitionAtomically sample_env (\<lambda>a es. Inr es)) (new_uuid sample_env) clock
      (toSnapshot sample_run) FAILED EMPTY_TRANSITION_CONDITIONS ''u'' ''user'' None
      (sample_sys (empty_db\<lparr>runs := [sample_run]\<rparr>)))) ''r'' = Some (FAILED, 1)"
proof -
  let ?s = "sample_sys (empty_db\<lparr>runs := [sample_run]\<rparr>)"
  let ?w = "\<lambda>a es. Inr es" and ?r = "toSnapshot sample_run"
  let ?m = "transition (pg_transitionAtomically sample_env ?w) (new_uuid sample_env) clock ?r FAILED
      EMPTY_TRANSITION_CONDITIONS ''u'' ''user'' None ?s"
  obtain x t where m: "?m = (x, t)" by force
  obtain d where d: "assertTransition RECEIVED FAILED EMPTY_TRANSITION_CONDITIONS = Inr d"
    using only_failure_open [of RECEIVED] by (auto simp: isTerminal_iff)
  have "\<not> isl (fst ?m)"
    by (simp add: transition_def transition_exn_def toSnapshot_def sample_run_def d Let_def pg_transitionAtomically_def
        txn_def bnd_def cas_match_def write_audit_def appendStateChangedOutboxEvent_def insert_outbox_def empty_db_def
        check_def sample_sys_def jint_def)
  with m obtain r' act ev where "x = Inr (r', act, ev)" by (cases x) auto
  with m have "?m = (Inr (r', act, ev), t)" by simp
  from transition_is_compare_and_set [OF _ this] m show ?thesis
    by (simp add: run_keys_def toSnapshot_def sample_run_def Let_def)
qed

text \<open>
  A transition that throws leaves the run where it was: after a refused gate, a lost race, a
  failing audit writer or a failing outbox insert, no run has moved and no event is logged.
\<close>

theorem failed_transition_rolls_back:
  assumes "transition (pg_transitionAtomically E w) (new_uuid E) clock r to c actor actorType tm s = (Inl e, t)"
  shows "t = s \<or>
         (run_position t = run_position (others E (s\<lparr>fresh := Suc (fresh s)\<rparr>)) \<and>
          logged_events t = logged_events (others E (s\<lparr>fresh := Suc (fresh s)\<rparr>)))"
  using pgt.transition_fails [OF assms] by auto

theorem failed_transition_rolls_back_witness:
  "run_position (snd (transition (pg_transitionAtomically sample_env (\<lambda>a es. Inl db_error)) (new_uuid sample_env) clock
      (toSnapshot sample_run) FAILED EMPTY_TRANSITION_CONDITIONS ''u'' ''user'' None
      (sample_sys (empty_db\<lparr>runs := [sample_run]\<rparr>)))) ''r'' = Some (RECEIVED, 0)"
proof -
  let ?s = "sample_sys (empty_db\<lparr>runs := [sample_run]\<rparr>)"
  let ?m = "transition (pg_transitionAtomically sample_env (\<lambda>a es. Inl db_error)) (new_uuid sample_env) clock
      (toSnapshot sample_run) FAILED EMPTY_TRANSITION_CONDITIONS ''u'' ''user'' None ?s"
  obtain x t where m: "?m = (x, t)" by force
  obtain d where d: "assertTransition RECEIVED FAILED EMPTY_TRANSITION_CONDITIONS = Inr d"
    using only_failure_open [of RECEIVED] by (auto simp: isTerminal_iff)
  have "isl (fst ?m)"
    by (simp add: transition_def transition_exn_def toSnapshot_def sample_run_def d Let_def pg_transitionAtomically_def
        txn_def bnd_def cas_match_def write_audit_def empty_db_def sample_sys_def)
  with m obtain e where "x = Inl e" by (cases x) auto
  with m have "?m = (Inl e, t)" by simp
  from failed_transition_rolls_back [OF this] m show ?thesis
    by (auto simp: run_position_def sample_run_def)
qed

end
