(* ===== verification/Iac_Contracts.thy ===== *)
theory Iac_Contracts
  imports Planning_Contracts Workflow_Transition "HOL-Library.List_Lexorder"
begin

text \<open>
  The contract with the Terraform generator (\<open>orchestrator/src/services/iac-contracts.ts\<close>):
  the schema of a generated artifact, the consent it requires, and its verification.
\<close>

section \<open>Schema\<close>

definition NIL_UUID :: string where
  "NIL_UUID = ''00000000-0000-0000-0000-000000000000''"

definition iac_uuid :: zod where
  "iac_uuid = ZRefine zuuid (\<lambda>v. v \<noteq> JStr NIL_UUID)"

definition hash_re :: "string \<Rightarrow> bool" where
  "hash_re s = (length s = 64 \<and> list_all (\<lambda>c. is_digit c \<or> (97 \<le> code_unit c \<and> code_unit c \<le> 102)) s)"

abbreviation MiB4 :: nat where "MiB4 \<equiv> 4194304"

definition iacArtifactSchema :: zod where
  "iacArtifactSchema = ZObj Strict
     [(''iac_artifact_id'', iac_uuid), (''manifest_id'', iac_uuid), (''manifest_version'', ZNum [NInt, NPositive]),
      (''run_id'', iac_uuid), (''workspace_id'', iac_uuid), (''session_id'', iac_uuid),
      (''terraform_files'', ZArr (ZObj Strict [(''path'', ZStr [SMin 1, SMax 256]), (''content'', ZStr [SMax MiB4])])
                              (Some 1) (Some 1000)),
      (''file_list'', ZArr zs (Some 1) (Some 1000)),
      (''file_count'', ZNum [NInt, NMin 1, NMax 1000]),
      (''total_size'', ZNum [NInt, NMin 1, NMax (of_nat MiB4)]),
      (''hash'', ZStr [SRegex hash_re]),
      (''template_source'', ZLit (JStr ''template'')),
      (''summary'', ZObj Strict [(''resource_count'', ZNum [NInt, NMin 1, NMax 1000]),
                                 (''file_count'', ZNum [NInt, NMin 1, NMax 1000])])]"

section \<open>Consent\<close>

text \<open>The version is a positive integer or null; \<open>!run.manifestVersion\<close> also holds for \<open>0\<close>.\<close>

definition assertConfirmedManifest :: "run \<Rightarrow> exn + unit" where
  "assertConfirmedManifest r =
     (if manifestVersion r = None \<or> manifestVersion r = Some 0 \<or> manifestVersion r \<noteq> manifestValidatedVersion r \<or>
         manifestVersion r \<noteq> manifestConfirmedVersion r \<or> manifestConfirmedAt r = None
      then Inl (IacGenerationError ''IAC_MANIFEST_NOT_CONFIRMED''
                  ''IaC generation requires the active validated and confirmed manifest.'')
      else Inr ())"

definition iacIdempotencyKey :: "run \<Rightarrow> string \<Rightarrow> string" where
  "iacIdempotencyKey r manifestId = ''iac:'' @ rid r @ '':'' @ manifestId"

section \<open>Paths\<close>

text \<open>
  Node's \<open>path.posix.normalize\<close>: empty and \<open>.\<close> segments disappear, \<open>..\<close> removes the segment
  before it (a relative path keeps a leading \<open>..\<close>), a trailing slash stays.
\<close>

fun push_segment :: "bool \<Rightarrow> string list \<Rightarrow> string \<Rightarrow> string list" where
  "push_segment absolute acc seg =
     (if seg = [] \<or> seg = ''.'' then acc
      else if seg = ''..'' then
        (if acc \<noteq> [] \<and> hd acc \<noteq> ''..'' then tl acc else if absolute then acc else ''..'' # acc)
      else seg # acc)"

definition normalize :: "string \<Rightarrow> string" where
  "normalize path =
     (if path = [] then ''.''
      else (let absolute = (hd path = CHR ''/''); trailing = (last path = CHR ''/'');
                body = join ''/'' (rev (foldl (push_segment absolute) [] (split_on (CHR ''/'') path)))
            in if body = [] then (if absolute then ''/'' else if trailing then ''./'' else ''.'')
               else (if absolute then ''/'' else '''') @ body @ (if trailing then ''/'' else '''')))"

definition ends_with :: "string \<Rightarrow> string \<Rightarrow> bool" where
  "ends_with suf s = (length suf \<le> length s \<and> drop (length s - length suf) s = suf)"

definition backslash :: char where
  "backslash = char_of (92 :: nat)"

definition nul :: char where
  "nul = char_of (0 :: nat)"

definition unsafe_path :: "string \<Rightarrow> bool" where
  "unsafe_path path =
     (backslash \<in> set path \<or> nul \<in> set path \<or> ''..'' \<in> set (split_on (CHR ''/'') path) \<or>
      starts_with ''/'' path \<or> normalize path \<noteq> path \<or> \<not> (ends_with ''.tf'' path \<or> ends_with ''.tfvars'' path))"

section \<open>Verification\<close>

definition str_of :: "json \<Rightarrow> string" where
  "str_of v = (case v of JStr s \<Rightarrow> s | _ \<Rightarrow> [])"

definition arr_of :: "json \<Rightarrow> json list" where
  "arr_of v = (case v of JArr vs \<Rightarrow> vs | _ \<Rightarrow> [])"

definition utf8_length :: "string \<Rightarrow> nat" where
  "utf8_length s = sum_list (map (\<lambda>c. if code_unit c < 128 then 1 else 2) s)"

definition invalid_artifact :: exn where
  "invalid_artifact = IacGenerationError ''IAC_INVALID_ARTIFACT'' ''Generated Terraform could not be verified.''"

definition artifact_files :: "json \<Rightarrow> (string \<times> string) list" where
  "artifact_files a = map (\<lambda>f. (str_of (jget f ''path''), str_of (jget f ''content''))) (arr_of (jget a ''terraform_files''))"

definition ids_match :: "json \<Rightarrow> run \<Rightarrow> string \<Rightarrow> bool" where
  "ids_match a r manifestId =
     (jget a ''manifest_id'' = JStr manifestId \<and>
      (case manifestVersion r of Some v \<Rightarrow> jget a ''manifest_version'' = jint v | None \<Rightarrow> jget a ''manifest_version'' = JNull) \<and>
      jget a ''run_id'' = JStr (rid r) \<and> jget a ''workspace_id'' = JStr (workspaceId r) \<and>
      jget a ''session_id'' = JStr (sessionId r))"

text \<open>\<open>JSON.stringify\<close> of two lists of paths, as the code compares them.\<close>

definition same_paths :: "world \<Rightarrow> string list \<Rightarrow> json \<Rightarrow> bool" where
  "same_paths W paths v = (stringify (num_str W) (jstrs paths) = stringify (num_str W) v)"

definition required_files :: "string list" where
  "required_files = [''main.tf'', ''outputs.tf'', ''variables.tf'', ''terraform.tfvars'']"

definition paths_ok :: "world \<Rightarrow> json \<Rightarrow> string list \<Rightarrow> bool" where
  "paths_ok W a paths =
     (\<not> list_ex unsafe_path paths \<and>
      same_paths W paths (jstrs (sort (uniq paths))) \<and>
      same_paths W paths (jget a ''file_list'') \<and>
      jget a ''file_count'' = jnat (length paths) \<and>
      jget (jget a ''summary'') ''file_count'' = jnat (length paths) \<and>
      list_all (\<lambda>f. f \<in> set paths) required_files \<and>
      list_ex (starts_with ''resources/'') paths)"

definition files_text :: "(string \<times> string) list \<Rightarrow> string" where
  "files_text files = concat (map (\<lambda>f. fst f @ [nul] @ snd f @ [nul]) files)"

definition verifyIacArtifact :: "world \<Rightarrow> json \<Rightarrow> run \<Rightarrow> string \<Rightarrow> exn + json" where
  "verifyIacArtifact W v r manifestId =
     (case zparse W iacArtifactSchema v of
        Inl issues \<Rightarrow> Inl invalid_artifact
      | Inr a \<Rightarrow>
          (let files = artifact_files a; paths = map fst files; size = sum_list (map (\<lambda>f. utf8_length (snd f)) files) in
           if \<not> ids_match a r manifestId then Inl invalid_artifact
           else if \<not> paths_ok W a paths then Inl invalid_artifact
           else if jget a ''total_size'' \<noteq> jnat size \<or> jget a ''hash'' \<noteq> JStr (sha256_hex W (files_text files))
           then Inl invalid_artifact
           else Inr a))"

section \<open>Serialised string lists determine the strings\<close>

fun hex_val :: "char \<Rightarrow> nat" where
  "hex_val c = (if is_digit c then code_unit c - 48 else if 97 \<le> code_unit c then code_unit c - 87 else code_unit c - 55)"

fun unescape :: "string \<Rightarrow> char \<times> string" where
  "unescape (b # k # u) =
     (if b \<noteq> backslash then (b, k # u)
      else if code_unit k = 117 then
        (char_of (16 * hex_val (u ! 2) + hex_val (u ! 3)), drop 4 u)
      else if code_unit k = 98 then (char_of (8 :: nat), u)
      else if code_unit k = 116 then (char_of (9 :: nat), u)
      else if code_unit k = 110 then (char_of (10 :: nat), u)
      else if code_unit k = 102 then (char_of (12 :: nat), u)
      else if code_unit k = 114 then (char_of (13 :: nat), u)
      else (k, u))"
| "unescape [b] = (b, [])"
| "unescape [] = (backslash, [])"

lemma char_of_code_unit: "code_unit c = n \<Longrightarrow> c = char_of n"
  by (auto simp: code_unit_def)

lemma unescape_plain: "c \<noteq> backslash \<Longrightarrow> unescape (c # u) = (c, u)"
  by (cases u) simp_all

lemma hex_val_digit: "k < 16 \<Longrightarrow> hex_val (hex_digit k) = k \<and> hex_val (to_lower (hex_digit k)) = k"
proof -
  assume "k < 16"
  then have "k \<in> set [0..<16]" by simp
  moreover have "list_all (\<lambda>k. hex_val (hex_digit k) = k \<and> hex_val (to_lower (hex_digit k)) = k) [0..<16]"
    by (simp add: upt_rec hex_digit_def to_lower_def is_upper_def is_digit_def code_unit_def)
  ultimately show ?thesis by (simp add: list_all_iff del: hex_val.simps)
qed

lemma unescape_hex: "unescape (backslash # ''u00'' @ [x, y] @ u) = (char_of (16 * hex_val x + hex_val y), u)"
  by (simp add: code_unit_def)

lemma hex_control:
  "n < 32 \<Longrightarrow> unescape (backslash # ''u00'' @ [hex_digit (n div 16), to_lower (hex_digit (n mod 16))] @ u) = (char_of n, u)"
  unfolding unescape_hex using hex_val_digit [of "n div 16"] hex_val_digit [of "n mod 16"]
  by (simp del: hex_val.simps)

lemma unescape_esc: "unescape (esc_char c @ u) = (c, u)"
proof -
  let ?n = "code_unit c"
  have c: "c = char_of ?n" by (rule char_of_code_unit) simp
  consider "?n = 34" | "?n = 92" | "?n = 8" | "?n = 9" | "?n = 10" | "?n = 12" | "?n = 13"
    | "?n < 32" "?n \<notin> {8, 9, 10, 12, 13}" | "?n \<ge> 32" "?n \<noteq> 34" "?n \<noteq> 92" by fastforce
  then show ?thesis
  proof cases
    case 8
    then have "esc_char c = backslash # ''u00'' @ [hex_digit (?n div 16), to_lower (hex_digit (?n mod 16))]"
      by (simp add: esc_char_def Let_def backslash_def)
    with hex_control [OF 8(1), of u] c show ?thesis by simp
  next
    case 9
    then have "esc_char c = [c]" "c \<noteq> backslash"
      by (auto simp: esc_char_def Let_def backslash_def code_unit_def)
    then show ?thesis by (simp add: unescape_plain)
  qed (drule char_of_code_unit, simp add: esc_char_def backslash_def code_unit_def)+
qed

lemma esc_char_cancel: "esc_char c @ u = esc_char d @ w \<Longrightarrow> c = d \<and> u = w"
  by (metis unescape_esc prod.inject)

lemma esc_char_not_quote: "esc_char c @ u \<noteq> char_of (34 :: nat) # w"
proof
  assume e: "esc_char c @ u = char_of (34 :: nat) # w"
  then have "unescape (char_of (34 :: nat) # w) = (c, u)" by (metis unescape_esc)
  then have "c = char_of (34 :: nat)" by (simp add: unescape_plain backslash_def)
  with e show False by (simp add: esc_char_def code_unit_def)
qed

lemma quoted_cancel:
  "concat (map esc_char s) @ char_of (34 :: nat) # x = concat (map esc_char t) @ char_of (34 :: nat) # y \<Longrightarrow> s = t \<and> x = y"
proof (induction s arbitrary: t)
  case Nil
  then show ?case using esc_char_not_quote by (cases t) (auto dest: sym)
next
  case (Cons c s)
  then show ?case
  proof (cases t)
    case Nil
    with Cons.prems show ?thesis using esc_char_not_quote by simp
  next
    case (Cons d t')
    with Cons.prems have "c = d" "concat (map esc_char s) @ char_of (34 :: nat) # x = concat (map esc_char t') @ char_of (34 :: nat) # y"
      by (auto dest: esc_char_cancel)
    with Cons.IH Cons show ?thesis by blast
  qed
qed

lemma quote_cancel: "quote s @ x = quote t @ y \<Longrightarrow> s = t \<and> x = y"
  by (auto simp: quote_def dest: quoted_cancel)

lemma join_quote_inj:
  "join '','' (map quote xs) @ '']'' = join '','' (map quote ys) @ '']'' \<Longrightarrow> xs = ys"
proof (induction xs arbitrary: ys)
  case Nil
  then show ?case by (cases ys; cases "tl ys") (auto simp: quote_def)
next
  case (Cons x xs)
  show ?case
  proof (cases ys)
    case Nil
    with Cons.prems show ?thesis by (cases xs) (auto simp: quote_def)
  next
    case (Cons y ys')
    have jx: "join '','' (map quote (x # xs)) @ '']'' = quote x @ (if xs = [] then '']'' else '','' @ join '','' (map quote xs) @ '']'')"
      by (cases xs) simp_all
    have jy: "join '','' (map quote (y # ys')) @ '']'' = quote y @ (if ys' = [] then '']'' else '','' @ join '','' (map quote ys') @ '']'')"
      by (cases ys') simp_all
    from Cons.prems Cons jx jy have "x = y \<and>
        (if xs = [] then '']'' else '','' @ join '','' (map quote xs) @ '']'') =
        (if ys' = [] then '']'' else '','' @ join '','' (map quote ys') @ '']'')"
      by (intro quote_cancel) (simp only: list.map)
    with Cons Cons.IH show ?thesis by (auto split: if_splits)
  qed
qed

lemma same_paths_iff: "same_paths W xs (jstrs ys) \<longleftrightarrow> xs = ys"
proof
  assume "same_paths W xs (jstrs ys)"
  then have "join '','' (map quote xs) @ '']'' = join '','' (map quote ys) @ '']''"
    by (simp add: same_paths_def jstrs_def comp_def)
  then show "xs = ys" by (rule join_quote_inj)
qed (simp add: same_paths_def)

lemma strings_array:
  "zdoc fmt (ZArr zs lo hi) v = Some w \<Longrightarrow> \<exists>xs. w = jstrs xs"
proof -
  assume "zdoc fmt (ZArr zs lo hi) v = Some w"
  then obtain vs ws where w: "w = JArr ws" "map (zdoc fmt zs) vs = map Some ws" by (auto simp: zdoc_arr)
  have "\<exists>s. x = JStr s" if "x \<in> set ws" for x
  proof -
    from that w have "Some x \<in> set (map (zdoc fmt zs) vs)" by simp
    then show ?thesis using zdoc_str by fastforce
  qed
  then obtain h where "\<And>x. x \<in> set ws \<Longrightarrow> x = JStr (h x)" by metis
  then have "ws = map JStr (map h ws)" by (simp add: map_idI)
  with w show ?thesis by (auto simp: jstrs_def intro!: exI [of _ "map h ws"])
qed

lemma verify_Inr:
  "verifyIacArtifact W v r m = Inr a \<longleftrightarrow>
     zparse W iacArtifactSchema v = Inr a \<and> ids_match a r m \<and> paths_ok W a (map fst (artifact_files a)) \<and>
     jget a ''total_size'' = jnat (sum_list (map (\<lambda>f. utf8_length (snd f)) (artifact_files a))) \<and>
     jget a ''hash'' = JStr (sha256_hex W (files_text (artifact_files a)))"
  by (auto simp: verifyIacArtifact_def Let_def split: sum.splits if_splits)

lemma file_list_strings:
  assumes "zod_documented fmt W" and "zparse W iacArtifactSchema v = Inr a"
  shows "\<exists>xs. jget a ''file_list'' = jstrs xs"
proof -
  from assms have z: "zdoc fmt iacArtifactSchema v = Some a" by (simp only: zod_Inr)
  show ?thesis
    by (rule strings_array [OF zdoc_field [OF z [unfolded iacArtifactSchema_def]]]) simp_all
qed

text \<open>What verification establishes of the files, in one predicate.\<close>

definition safe_artifact :: "world \<Rightarrow> json \<Rightarrow> bool" where
  "safe_artifact W a =
     (let files = artifact_files a; paths = map fst files in
      sorted paths \<and> distinct paths \<and> jget a ''file_list'' = jstrs paths \<and>
      list_all (\<lambda>p. \<not> starts_with ''/'' p \<and> ''..'' \<notin> set (split_on (CHR ''/'') p) \<and> normalize p = p \<and>
                    backslash \<notin> set p \<and> nul \<notin> set p \<and> (ends_with ''.tf'' p \<or> ends_with ''.tfvars'' p)) paths \<and>
      set required_files \<subseteq> set paths \<and>
      jget a ''total_size'' = jnat (sum_list (map (\<lambda>f. utf8_length (snd f)) files)) \<and>
      jget a ''hash'' = JStr (sha256_hex W (files_text files)))"

lemma verified_safe:
  assumes "zod_documented fmt W" and "verifyIacArtifact W v r manifestId = Inr a"
  shows "ids_match a r manifestId \<and> safe_artifact W a"
proof -
  let ?paths = "map fst (artifact_files a)"
  from assms(2) have v: "zparse W iacArtifactSchema v = Inr a" "ids_match a r manifestId" "paths_ok W a ?paths"
    "jget a ''total_size'' = jnat (sum_list (map (\<lambda>f. utf8_length (snd f)) (artifact_files a)))"
    "jget a ''hash'' = JStr (sha256_hex W (files_text (artifact_files a)))"
    by (simp_all add: verify_Inr)
  from v(3) have p: "?paths = sort (uniq ?paths)" by (simp add: paths_ok_def same_paths_iff)
  then have "sorted ?paths" "distinct ?paths" by (metis sorted_sort, metis distinct_sort distinct_uniq)
  moreover from file_list_strings [OF assms(1) v(1)] v(3) have "jget a ''file_list'' = jstrs ?paths"
    by (auto simp: paths_ok_def same_paths_iff)
  ultimately show ?thesis
    using v by (auto simp: safe_artifact_def Let_def paths_ok_def list_ex_iff list_all_iff unsafe_path_def simp del: starts_with_def)
qed

section \<open>Properties\<close>


definition sample_file :: "string \<Rightarrow> json" where
  "sample_file p = JObj [(''path'', JStr p), (''content'', JStr ''x'')]"

definition sample_paths :: "string list" where
  "sample_paths = [''main.tf'', ''outputs.tf'', ''resources/a.tf'', ''terraform.tfvars'', ''variables.tf'']"

definition sample_artifact :: json where
  "sample_artifact = JObj
     [(''iac_artifact_id'', JStr ''a''), (''manifest_id'', JStr ''m''), (''manifest_version'', JNum 1),
      (''run_id'', JStr ''r''), (''workspace_id'', JStr ''w''), (''session_id'', JStr ''s''),
      (''terraform_files'', JArr (map sample_file sample_paths)), (''file_list'', jstrs sample_paths),
      (''file_count'', JNum 5), (''total_size'', JNum 5), (''hash'', JStr (replicate 64 (CHR ''a''))),
      (''template_source'', JStr ''template''),
      (''summary'', JObj [(''resource_count'', JNum 1), (''file_count'', JNum 5)])]"

definition hashing_world :: world where
  "hashing_world = sample_world\<lparr>sha256_hex := \<lambda>s. replicate 64 (CHR ''a'')\<rparr>"

lemma hashing_documented: "zod_documented (\<lambda>f s. s \<noteq> []) hashing_world"
  using sample_documented by (simp add: zod_documented_def hashing_world_def)

lemma sample_hash: "hash_re (replicate 64 (CHR ''a''))"
  by (simp add: hash_re_def list_all_iff code_unit_def)

lemma sample_artifact_parses: "zdoc (\<lambda>f s. s \<noteq> []) iacArtifactSchema sample_artifact = Some sample_artifact"
  by (simp add: iacArtifactSchema_def sample_artifact_def zdoc.simps object_doc_def shape_fields_def array_doc_def
    len_ok_def number_ok_def is_int_def sample_paths_def sample_file_def iac_uuid_def NIL_UUID_def jstrs_def sample_hash)

lemma sample_artifact_files: "map fst (artifact_files sample_artifact) = sample_paths"
  "map snd (artifact_files sample_artifact) = replicate 5 ''x''"
  by (simp_all add: artifact_files_def sample_artifact_def sample_file_def sample_paths_def arr_of_def str_of_def
    numeral_eq_Suc)

lemma sample_paths_ok: "paths_ok hashing_world sample_artifact sample_paths"
  by code_simp

lemma sample_artifact_size:
  "sum_list (map (\<lambda>f. utf8_length (snd f)) (artifact_files sample_artifact)) = 5"
proof -
  have "sum_list (map (\<lambda>f. utf8_length (snd f)) (artifact_files sample_artifact)) =
        sum_list (map utf8_length (map snd (artifact_files sample_artifact)))" by (simp add: comp_def)
  also have "\<dots> = 5" by (simp add: sample_artifact_files utf8_length_def code_unit_def numeral_eq_Suc)
  finally show ?thesis .
qed

lemma sample_artifact_ids: "ids_match sample_artifact (sample_run\<lparr>manifestVersion := Some 1\<rparr>) ''m''"
  by (simp add: ids_match_def sample_run_def sample_artifact_def jint_def)

lemma sample_artifact_seals:
  "jget sample_artifact ''total_size'' = jnat 5"
  "jget sample_artifact ''hash'' = JStr (sha256_hex hashing_world t)"
  by (simp_all add: sample_artifact_def hashing_world_def jnat_def)

lemma sample_artifact_verified:
  "verifyIacArtifact hashing_world sample_artifact (sample_run\<lparr>manifestVersion := Some 1\<rparr>) ''m'' = Inr sample_artifact"
proof -
  have "zparse hashing_world iacArtifactSchema sample_artifact = Inr sample_artifact"
    by (simp only: zod_Inr [OF hashing_documented] sample_artifact_parses)
  then show ?thesis
    by (simp only: verify_Inr sample_artifact_files sample_paths_ok sample_artifact_size sample_artifact_ids
        sample_artifact_seals)
qed


end
