(* ===== verification/Audit_Log.thy ===== *)
theory Audit_Log
  imports Store
begin

text \<open>
  The audit service (\<open>services/audit.service.ts\<close>): the canonical serialisation of a payload
  and the hash chain of the append-only audit log.
\<close>

section \<open>Canonical payloads\<close>

fun canonical :: "json \<Rightarrow> json" where
  "canonical (JArr vs) = JArr (map canonical vs)"
| "canonical (JObj kvs) = from_entries (map (\<lambda>kv. (fst kv, canonical (snd kv))) (sort_key fst kvs))"
| "canonical v = v"

definition serializeAuditPayload :: "world \<Rightarrow> json \<Rightarrow> string" where
  "serializeAuditPayload W payload = stringify (num_str W) (canonical payload)"

section \<open>Appending\<close>

record audit_params =
  ap_workspace :: string
  ap_event_type :: string
  ap_actor_id :: string
  ap_actor_type :: string
  ap_resource_type :: string
  ap_resource_id :: string
  ap_payload :: json
  ap_correlation :: string

definition audit_hash :: "world \<Rightarrow> string option \<Rightarrow> string \<Rightarrow> string \<Rightarrow> string \<Rightarrow> string \<Rightarrow> string \<Rightarrow> string" where
  "audit_hash W previous workspace event_type resource_id payload correlation =
     sha256_hex W ((case previous of Some h \<Rightarrow> h | None \<Rightarrow> '''') @ ''|'' @ workspace @ ''|'' @ event_type @ ''|'' @
       resource_id @ ''|'' @ payload @ ''|'' @ correlation)"

definition previous_hash :: "audit_event list \<Rightarrow> string option" where
  "previous_hash es = (if es = [] then None else Some (ae_hash (last es)))"

definition audit_row :: "world \<Rightarrow> audit_event list \<Rightarrow> audit_params \<Rightarrow> audit_event" where
  "audit_row W es p =
     (let previousHash = previous_hash es;
          payload = serializeAuditPayload W (ap_payload p);
          hash = audit_hash W previousHash (ap_workspace p) (ap_event_type p) (ap_resource_id p) payload (ap_correlation p)
      in \<lparr>ae_workspace = ap_workspace p, ae_event_type = ap_event_type p, ae_actor_id = ap_actor_id p,
          ae_actor_type = ap_actor_type p, ae_resource_type = ap_resource_type p, ae_resource_id = ap_resource_id p,
          ae_payload = jsonb W (canonical (ap_payload p)), ae_hash = hash, ae_previous = previousHash,
          ae_correlation = ap_correlation p\<rparr>)"

text \<open>The insertion runs in the caller's transaction; the column \<open>hash\<close> is unique.\<close>

definition executeAppend :: "env \<Rightarrow> audit_params \<Rightarrow> unit act" where
  "executeAppend E p =
     bnd (gets (\<lambda>s. audit (tables s))) (\<lambda>es.
     let row = audit_row (base E) es p in
     bnd (check (ae_hash row \<notin> ae_hash ` set es) db_error) (\<lambda>_.
     update_db (\<lambda>d. d\<lparr>audit := audit d @ [row]\<rparr>)))"

definition audit_append :: "env \<Rightarrow> audit_params \<Rightarrow> unit act" where
  "audit_append E p = txn E (executeAppend E p)"

section \<open>The chain\<close>

fun chain_from :: "world \<Rightarrow> string option \<Rightarrow> audit_event list \<Rightarrow> bool" where
  "chain_from W prev [] = True"
| "chain_from W prev (e # es) =
     (ae_previous e = prev \<and>
      ae_hash e = audit_hash W prev (ae_workspace e) (ae_event_type e) (ae_resource_id e)
                    (serializeAuditPayload W (ae_payload e)) (ae_correlation e) \<and>
      chain_from W (Some (ae_hash e)) es)"

definition audit_chain :: "world \<Rightarrow> db \<Rightarrow> bool" where
  "audit_chain W d = (chain_from W None (audit d) \<and> distinct (map ae_hash (audit d)))"

text \<open>
  What \<open>jsonb\<close> documents: the value it gives back has the same scalars and arrays, and
  objects with the same members in an order of its own, without those that
  \<open>JSON.stringify\<close> leaves out because they are undefined.
\<close>

inductive same_json :: "json \<Rightarrow> json \<Rightarrow> bool" where
  undef: "same_json JUndef JNull"
| null: "same_json JNull JNull"
| boolean: "same_json (JBool b) (JBool b)"
| number: "same_json (JNum n) (JNum n)"
| str: "same_json (JStr s) (JStr s)"
| arr: "list_all2 same_json vs ws \<Longrightarrow> same_json (JArr vs) (JArr ws)"
| obj: "distinct (map fst kws) \<Longrightarrow>
        set (map fst kws) = set (map fst (filter (\<lambda>kv. snd kv \<noteq> JUndef) kvs)) \<Longrightarrow>
        \<forall>(k, w) \<in> set kws. w \<noteq> JUndef \<and> (\<exists>v. (k, v) \<in> set kvs \<and> same_json v w) \<Longrightarrow>
        same_json (JObj kvs) (JObj kws)"

definition jsonb_documented :: "world \<Rightarrow> bool" where
  "jsonb_documented W \<longleftrightarrow> (\<forall>v. wf_json v \<longrightarrow> same_json v (jsonb W v))"

lemma stored_json_same: "wf_json v \<Longrightarrow> same_json v (stored_json v)"
proof (induction v)
  case (JArr vs)
  have "list_all2 same_json vs (map stored_json vs)"
    using JArr by (simp add: list_all2_conv_all_nth list_all_length)
  then show ?case by (simp add: same_json.arr)
next
  case (JObj kvs)
  let ?d = "filter (\<lambda>kv. snd kv \<noteq> JUndef) kvs"
  let ?kws = "map (\<lambda>kv. (fst kv, stored_json (snd kv))) ?d"
  have keys: "map fst ?kws = map fst ?d" by (simp add: comp_def)
  have nu: "stored_json v \<noteq> JUndef" for v by (cases v) simp_all
  have "same_json (JObj kvs) (JObj ?kws)"
  proof (rule same_json.obj)
    show "distinct (map fst ?kws)" using JObj.prems unfolding keys by (simp add: distinct_map_filter)
    show "set (map fst ?kws) = set (map fst ?d)" by (simp only: keys)
    show "\<forall>(k, w) \<in> set ?kws. w \<noteq> JUndef \<and> (\<exists>v. (k, v) \<in> set kvs \<and> same_json v w)"
    proof clarify
      fix k w
      assume "(k, w) \<in> set ?kws"
      then obtain v where v: "(k, v) \<in> set kvs" "w = stored_json v" by auto
      then have "wf_json v" using JObj.prems by (fastforce simp: list_all_iff)
      then have "same_json v w" using JObj.IH v by fastforce
      with v nu show "w \<noteq> JUndef \<and> (\<exists>v. (k, v) \<in> set kvs \<and> same_json v w)" by auto
    qed
  qed
  then show ?case by simp
qed (simp_all add: same_json.intros)

lemma sample_jsonb: "jsonb_documented sample_world"
  by (simp add: jsonb_documented_def stored_json_same)

section \<open>The serialisation depends on the members only\<close>

lemma insort_key_map: "insort_key f (g x) (map g xs) = map g (insort_key (\<lambda>y. f (g y)) x xs)"
  by (induction xs) auto

lemma sort_key_map: "sort_key f (map g xs) = map g (sort_key (\<lambda>y. f (g y)) xs)"
  by (induction xs) (simp_all add: insort_key_map)

definition order_keys :: "string list \<Rightarrow> string list" where
  "order_keys ks = sort_key digits_val (filter is_index (sort ks)) @ filter (\<lambda>k. \<not> is_index k) (sort ks)"

lemma order_keys_set: "distinct ks \<Longrightarrow> distinct ls \<Longrightarrow> set ks = set ls \<Longrightarrow> order_keys ks = order_keys ls"
proof -
  assume "distinct ks" "distinct ls" "set ks = set ls"
  then have "sort ks = sort ls" by (intro sorted_distinct_set_unique) simp_all
  then show ?thesis by (simp add: order_keys_def)
qed

lemma set_order_keys [simp]: "set (order_keys ks) = set ks"
  by (auto simp: order_keys_def)

lemma foldl_set_prop: "distinct (map fst xs) \<Longrightarrow> fst ` set xs \<inter> fst ` set acc = {} \<Longrightarrow> foldl set_prop acc xs = acc @ xs"
proof (induction xs arbitrary: acc)
  case Nil
  then show ?case by simp
next
  case (Cons x xs)
  have "fst x \<notin> fst ` set acc" using Cons.prems by auto
  then have "AList.update (fst x) (snd x) acc = acc @ [x]" by (induction acc) auto
  then show ?case using Cons by (auto simp: set_prop_def)
qed

lemma own_order_keys:
  "own_order (map (\<lambda>k. (k, h k)) ks) =
     map (\<lambda>k. (k, h k)) (sort_key digits_val (filter is_index ks) @ filter (\<lambda>k. \<not> is_index k) ks)"
  by (simp add: own_order_def filter_map comp_def sort_key_map)

lemma own_order_filter: "filter P (own_order xs) = own_order (filter P xs)"
  by (simp add: own_order_def filter_sort conj_commute)

lemma by_keys: "distinct (map fst kvs) \<Longrightarrow> kvs = map (\<lambda>k. (k, the (map_of kvs k))) (map fst kvs)"
  by (auto intro!: map_idI [symmetric] simp: comp_def)

lemma canonical_undef: "canonical v = JUndef \<longleftrightarrow> v = JUndef"
  by (cases v) (simp_all add: from_entries_def)

lemma canonical_obj:
  assumes "distinct (map fst kvs)"
  shows "canonical (JObj kvs) = JObj (own_order (map (\<lambda>kv. (fst kv, canonical (snd kv))) (sort_key fst kvs)))"
proof -
  let ?xs = "map (\<lambda>kv. (fst kv, canonical (snd kv))) (sort_key fst kvs)"
  have "map fst ?xs = sort (map fst kvs)" by (simp add: comp_def sort_key_map)
  with assms have "distinct (map fst ?xs)" by simp
  then show ?thesis by (simp add: from_entries_def foldl_set_prop)
qed

definition member_string :: "world \<Rightarrow> (string \<Rightarrow> json) \<Rightarrow> string \<Rightarrow> string" where
  "member_string W h k = quote k @ '':'' @ serializeAuditPayload W (h k)"

lemma serialize_obj:
  assumes d: "distinct (map fst kvs)"
  shows "serializeAuditPayload W (JObj kvs) =
    ''{'' @ join '','' (map (member_string W (\<lambda>k. the (map_of kvs k)))
      (order_keys (map fst (filter (\<lambda>kv. snd kv \<noteq> JUndef) kvs)))) @ ''}''"
proof -
  let ?def = "\<lambda>kv :: string \<times> json. snd kv \<noteq> JUndef"
  let ?c = "\<lambda>kv. (fst kv :: string, canonical (snd kv))"
  let ?k = "map fst (filter ?def kvs)"
  let ?h = "\<lambda>k. the (map_of kvs k)"
  let ?g = "\<lambda>k. (k, canonical (?h k))"
  have f: "filter ?def kvs = map (\<lambda>k. (k, ?h k)) ?k"
    using d by (auto intro!: map_idI [symmetric] simp: comp_def)
  have "filter ?def (own_order (map ?c (sort_key fst kvs))) = own_order (map ?c (sort_key fst (filter ?def kvs)))"
    by (simp add: own_order_filter filter_map comp_def canonical_undef filter_sort)
  also have "map ?c (sort_key fst (filter ?def kvs)) = map ?g (sort ?k)"
    by (subst f) (simp add: sort_key_map comp_def)
  also have "own_order \<dots> = map ?g (order_keys ?k)"
    by (simp add: own_order_keys order_keys_def)
  finally have e: "filter ?def (own_order (map ?c (sort_key fst kvs))) = map ?g (order_keys ?k)" .
  show ?thesis
    unfolding serializeAuditPayload_def canonical_obj [OF d] stringify.simps e
    by (simp add: comp_def member_string_def [abs_def] serializeAuditPayload_def)
qed

lemma same_json_serialize:
  "same_json v w \<Longrightarrow> wf_json v \<Longrightarrow> serializeAuditPayload W w = serializeAuditPayload W v"
proof (induction rule: same_json.induct)
  case (arr vs ws)
  then have "map (serializeAuditPayload W) ws = map (serializeAuditPayload W) vs"
    by (intro nth_equalityI) (auto simp: list_all2_conv_all_nth list_all_length)
  then have "map (\<lambda>v. stringify (num_str W) (canonical v)) ws = map (\<lambda>v. stringify (num_str W) (canonical v)) vs"
    by (simp only: serializeAuditPayload_def [abs_def])
  then show ?case by (simp add: serializeAuditPayload_def comp_def)
next
  case (obj kws kvs)
  from obj.prems have d: "distinct (map fst kvs)" and wf: "\<And>k v. (k, v) \<in> set kvs \<Longrightarrow> wf_json v"
    by (auto simp: list_all_iff)
  let ?K = "map fst (filter (\<lambda>kv. snd kv \<noteq> JUndef) kvs)"
  have dK: "distinct ?K" using d by (rule distinct_map_filter)
  have fw: "filter (\<lambda>kv. snd kv \<noteq> JUndef) kws = kws"
    using obj.IH by (intro filter_True) auto
  have o: "order_keys (map fst kws) = order_keys ?K"
    using obj.hyps(1,2) dK by (intro order_keys_set) simp_all
  have m: "member_string W (\<lambda>k. the (map_of kws k)) k = member_string W (\<lambda>k. the (map_of kvs k)) k"
    if k: "k \<in> set (order_keys ?K)" for k
  proof -
    from k have "k \<in> set (map fst kws)" by (simp only: set_order_keys obj.hyps(2))
    then obtain w where w: "(k, w) \<in> set kws" by auto
    with obj.IH obtain v where v: "(k, v) \<in> set kvs" "wf_json v \<longrightarrow> serializeAuditPayload W w = serializeAuditPayload W v"
      by fastforce
    with w d obj.hyps(1) wf show ?thesis by (simp add: member_string_def)
  qed
  have "map (member_string W (\<lambda>k. the (map_of kws k))) (order_keys ?K) =
        map (member_string W (\<lambda>k. the (map_of kvs k))) (order_keys ?K)"
    by (rule map_cong [OF refl m])
  then show ?case
    unfolding serialize_obj [OF obj.hyps(1)] serialize_obj [OF d] fw o by (simp only:)
qed (simp_all add: serializeAuditPayload_def)

text \<open>Canonicalising twice is canonicalising once, and keeps objects well-formed.\<close>

lemma canonical_keys:
  assumes "distinct (map fst kvs)"
  shows "canonical (JObj kvs) = JObj (map (\<lambda>k. (k, canonical (the (map_of kvs k)))) (order_keys (map fst kvs)))"
proof -
  let ?h = "\<lambda>k. the (map_of kvs k)"
  have f: "kvs = map (\<lambda>k. (k, ?h k)) (map fst kvs)" using assms by (rule by_keys)
  have "map (\<lambda>kv. (fst kv, canonical (snd kv))) (sort_key fst kvs) = map (\<lambda>k. (k, canonical (?h k))) (sort (map fst kvs))"
    by (subst f) (simp add: sort_key_map comp_def)
  then show ?thesis
    unfolding canonical_obj [OF assms] by (simp only: own_order_keys order_keys_def)
qed

lemma distinct_order_keys: "distinct ks \<Longrightarrow> distinct (order_keys ks)"
  by (auto simp: order_keys_def)

lemma wf_canonical: "wf_json v \<Longrightarrow> wf_json (canonical v)"
proof (induction v)
  case (JArr vs)
  then show ?case by (auto simp: list_all_iff)
next
  case (JObj kvs)
  then have d: "distinct (map fst kvs)" and w: "\<And>k v. (k, v) \<in> set kvs \<Longrightarrow> wf_json (canonical v)"
    by (fastforce simp: list_all_iff)+
  have "wf_json (canonical (the (map_of kvs k)))" if k: "k \<in> fst ` set kvs" for k
  proof -
    from k obtain v where v: "(k, v) \<in> set kvs" by auto
    with d have "map_of kvs k = Some v" by simp
    with w [OF v] show ?thesis by simp
  qed
  with d show ?case
    by (auto simp: canonical_keys [OF d] list_all_iff distinct_order_keys comp_def simp del: canonical.simps)
qed simp_all

lemma map_of_keys: "k \<in> set ks \<Longrightarrow> map_of (map (\<lambda>k. (k, g k)) ks) k = Some (g k)"
  by (induction ks) auto

lemma canonical_idem: "wf_json v \<Longrightarrow> canonical (canonical v) = canonical v"
proof (induction v)
  case (JArr vs)
  then show ?case by (simp add: list_all_iff)
next
  case (JObj kvs)
  then have d: "distinct (map fst kvs)" by simp
  let ?h = "\<lambda>k. the (map_of kvs k)" and ?K = "order_keys (map fst kvs)"
  let ?kvs = "map (\<lambda>k. (k, canonical (?h k))) ?K"
  have c: "canonical (JObj kvs) = JObj ?kvs" by (rule canonical_keys [OF d])
  have d2: "distinct (map fst ?kvs)" using d by (simp add: comp_def distinct_order_keys)
  have id: "canonical (canonical (?h k)) = canonical (?h k)" if k: "k \<in> set ?K" for k
  proof -
    from k obtain v where v: "(k, v) \<in> set kvs" by auto
    with d have "map_of kvs k = Some v" by simp
    with JObj v show ?thesis by (fastforce simp: list_all_iff)
  qed
  have "canonical (JObj ?kvs) = JObj (map (\<lambda>k. (k, canonical (the (map_of ?kvs k)))) (order_keys (map fst ?kvs)))"
    by (rule canonical_keys [OF d2])
  also have "map fst ?kvs = ?K" by (simp add: comp_def)
  also have "order_keys ?K = ?K"
    by (subst order_keys_set [where ls = "map fst kvs"]) (simp_all add: d distinct_order_keys)
  also have "map (\<lambda>k. (k, canonical (the (map_of ?kvs k)))) ?K = ?kvs"
    using id by (intro map_cong) (simp_all add: map_of_keys del: set_order_keys)
  finally show ?case unfolding c .
qed simp_all

lemma stored_payload:
  assumes "jsonb_documented W" and "wf_json v"
  shows "serializeAuditPayload W (jsonb W (canonical v)) = serializeAuditPayload W v"
proof -
  have "same_json (canonical v) (jsonb W (canonical v))"
    using assms wf_canonical by (simp add: jsonb_documented_def)
  from same_json_serialize [OF this wf_canonical [OF assms(2)]]
  have "serializeAuditPayload W (jsonb W (canonical v)) = serializeAuditPayload W (canonical v)" .
  then show ?thesis by (simp add: serializeAuditPayload_def canonical_idem [OF assms(2)])
qed

section \<open>The chain grows by verifiable links\<close>

lemma chain_snoc:
  "chain_from W prev (es @ [e]) \<longleftrightarrow>
     chain_from W prev es \<and> chain_from W (if es = [] then prev else Some (ae_hash (last es))) [e]"
  by (induction es arbitrary: prev) auto

definition with_audit :: "world \<Rightarrow> audit_params \<Rightarrow> db \<Rightarrow> db" where
  "with_audit W p d = d\<lparr>audit := audit d @ [audit_row W (audit d) p]\<rparr>"

lemma executeAppend_Inr:
  "executeAppend E p s = (Inr u, t) \<longleftrightarrow>
     ae_hash (audit_row (base E) (audit (tables s)) p) \<notin> ae_hash ` set (audit (tables s)) \<and>
     t = s\<lparr>tables := with_audit (base E) p (tables s)\<rparr>"
  by (auto simp: executeAppend_def Let_def with_audit_def mnd)

lemma executeAppend_Inl: "executeAppend E p s = (Inl e, t) \<Longrightarrow> t = s \<and> e = db_error"
  by (auto simp: executeAppend_def Let_def bnd_Inl_iff check_def split: if_splits)

lemma with_audit_chain:
  assumes "jsonb_documented W" and "wf_json (ap_payload p)" and "audit_chain W d"
    and "ae_hash (audit_row W (audit d) p) \<notin> ae_hash ` set (audit d)"
  shows "audit_chain W (with_audit W p d)"
  using assms stored_payload [OF assms(1,2)]
  by (auto simp: audit_chain_def with_audit_def chain_snoc audit_row_def previous_hash_def Let_def)

lemma with_audit_simps [simp]:
  "runs (with_audit W p d) = runs d" "outbox (with_audit W p d) = outbox d" "manifests (with_audit W p d) = manifests d"
  "artifacts (with_audit W p d) = artifacts d" "memberships (with_audit W p d) = memberships d"
  "sessions (with_audit W p d) = sessions d" "turns (with_audit W p d) = turns d"
  "messages (with_audit W p d) = messages d" "chat_events (with_audit W p d) = chat_events d"
  "event_sequences (with_audit W p d) = event_sequences d" "workspaces (with_audit W p d) = workspaces d"
  by (simp_all add: with_audit_def)

section \<open>Properties\<close>

text \<open>
  C17. A persisted audit payload verifies: serialising what the \<open>jsonb\<close> column gives back yields
  the very string that was hashed, whatever order the database keeps object members in and
  although undefined members are not stored.
\<close>

theorem persisted_payload_reserializes:
  assumes "jsonb_documented W" and "wf_json payload"
  shows "serializeAuditPayload W (jsonb W (canonical payload)) = serializeAuditPayload W payload"
  using assms by (rule stored_payload)

theorem persisted_payload_reserializes_witness:
  "serializeAuditPayload sample_world (jsonb sample_world (canonical (JObj [(''to'', JStr ''FAILED''), (''from'', JUndef)]))) =
   serializeAuditPayload sample_world (JObj [(''to'', JStr ''FAILED''), (''from'', JUndef)])"
  by (rule persisted_payload_reserializes [OF sample_jsonb]) simp

text \<open>
  C16. Appending an audit event keeps the log a hash chain: if every stored event links to its
  predecessor and its hash recomputes from its stored fields, this holds after an append, which
  adds exactly one event at the end; a failed append changes no table.
\<close>

theorem audit_append_extends_chain:
  assumes "jsonb_documented (base E)" and "wf_json (ap_payload p)"
    and "audit_chain (base E) (tables (others E s))" and "audit_append E p s = (r, t)"
  shows "audit_chain (base E) (tables t) \<and>
         (case r of Inr u \<Rightarrow> (\<exists>e. audit (tables t) = audit (tables (others E s)) @ [e] \<and>
                               ae_previous e = previous_hash (audit (tables (others E s))) \<and>
                               ae_resource_id e = ap_resource_id p \<and> ae_correlation e = ap_correlation p)
                  | Inl x \<Rightarrow> tables t = tables (others E s))"
proof (cases r)
  case (Inl x)
  with assms(3,4) show ?thesis unfolding audit_append_def by (auto dest!: txn_rollback)
next
  case (Inr u)
  with assms(4) have e: "executeAppend E p (others E s) = (Inr u, t)" by (simp add: audit_append_def txn_Inr)
  with with_audit_chain [OF assms(1,2,3)] Inr show ?thesis
    by (auto simp: executeAppend_Inr with_audit_def audit_row_def Let_def)
qed

theorem audit_append_extends_chain_witness:
  "audit_chain sample_world (tables (snd (audit_append sample_env
     \<lparr>ap_workspace = ''w'', ap_event_type = ''run_created'', ap_actor_id = ''u'', ap_actor_type = ''user'',
      ap_resource_type = ''provisioning_run'', ap_resource_id = ''r'', ap_payload = JObj [(''sessionId'', JStr ''s'')],
      ap_correlation = ''c''\<rparr> (sample_sys empty_db))))"
proof -
  let ?p = "\<lparr>ap_workspace = ''w'', ap_event_type = ''run_created'', ap_actor_id = ''u'', ap_actor_type = ''user'',
      ap_resource_type = ''provisioning_run'', ap_resource_id = ''r'', ap_payload = JObj [(''sessionId'', JStr ''s'')],
      ap_correlation = ''c''\<rparr>"
  obtain r t where rt: "audit_append sample_env ?p (sample_sys empty_db) = (r, t)" by force
  have j: "jsonb_documented (base sample_env)" by (simp add: sample_jsonb)
  have "audit_chain (base sample_env) (tables t)"
    using audit_append_extends_chain [OF j _ _ rt] by (simp add: audit_chain_def empty_db_def)
  with rt show ?thesis by simp
qed

text \<open>
  The chain does not authenticate who acted: replacing the actor, the actor's type or the
  resource type of any stored event leaves a valid chain, since the hash covers only the
  workspace, the event type, the resource id, the payload and the correlation id.
\<close>

theorem audit_chain_ignores_actor:
  "chain_from W prev (es @ e\<lparr>ae_actor_id := a, ae_actor_type := b, ae_resource_type := c\<rparr> # fs) =
   chain_from W prev (es @ e # fs)"
  by (induction es arbitrary: prev) auto

end
