(* ===== verification/Policy.thy ===== *)
theory Policy
  imports Workflow_Transition
begin

text \<open>
  Policy requirements: the client that reads them from the policy service
  (\<open>services/policy-service.client.ts\<close>), the pre-flight service over the interface
  \<open>PolicyPreflightStore\<close>, stated as the locale \<open>preflight_contract\<close>
  (\<open>services/policy-preflight.service.ts\<close>), and its PostgreSQL store
  (\<open>services/postgres-policy-preflight.store.ts\<close>).
\<close>

section \<open>The client\<close>

record policy_requirements =
  pr_allowedRegions :: "json list"
  pr_maxBudget :: "rat option"
  pr_requiredTags :: json
  pr_prohibitedResourceTypes :: "json list"
  pr_requiredEncryption :: bool
  pr_requiredBackup :: bool

definition ANY_TAG_VALUE :: string where
  "ANY_TAG_VALUE = ''*''"

definition isStringArray :: "json \<Rightarrow> bool" where
  "isStringArray v = (case v of JArr vs \<Rightarrow> list_all (\<lambda>x. js_str x \<noteq> None) vs | _ \<Rightarrow> False)"

definition elements :: "json \<Rightarrow> json list" where
  "elements v = (case js_arr v of Some vs \<Rightarrow> vs | None \<Rightarrow> [])"

definition budget_ok :: "json \<Rightarrow> bool" where
  "budget_ok v = (v = JNull \<or> (case v of JNum n \<Rightarrow> 0 < n | _ \<Rightarrow> False))"

definition tag_key :: "json \<Rightarrow> string" where
  "tag_key v = (case v of JStr s \<Rightarrow> s | _ \<Rightarrow> '''')"

definition read_requirements :: "json \<Rightarrow> exn + policy_requirements" where
  "read_requirements body =
     rbind (rcheck (is_obj body) (OtherError ''Policy service returned an invalid requirements payload'')) (\<lambda>_.
     let allowedRegions = (if jget body ''allowed_regions'' = JUndef then JArr [] else jget body ''allowed_regions'');
         maxBudget = coalesce (jget body ''max_monthly_budget_usd'') JNull;
         requiredTags = coalesce (jget body ''required_tags'') (JArr []);
         prohibitedResourceTypes = coalesce (jget body ''prohibited_resource_types'') (JArr []);
         requiredEncryption = coalesce (jget body ''required_encryption'') (JBool False)
     in if \<not> isStringArray allowedRegions \<or> \<not> budget_ok maxBudget \<or> \<not> isStringArray requiredTags \<or>
           \<not> isStringArray prohibitedResourceTypes \<or> (\<forall>b \<in> {True, False}. requiredEncryption \<noteq> JBool b) \<or>
           (jget body ''warnings'' \<noteq> JUndef \<and> \<not> isStringArray (jget body ''warnings''))
        then Inl (OtherError ''Policy service returned malformed requirements'')
        else if jget body ''allowed_regions'' \<noteq> JUndef \<and> elements allowedRegions = []
        then Inl PolicyDeniesAllRegionsError
        else Inr \<lparr>pr_allowedRegions = elements allowedRegions,
                  pr_maxBudget = (case maxBudget of JNum n \<Rightarrow> Some n | _ \<Rightarrow> None),
                  pr_requiredTags = from_entries (map (\<lambda>t. (tag_key t, JStr ANY_TAG_VALUE)) (elements requiredTags)),
                  pr_prohibitedResourceTypes = elements prohibitedResourceTypes,
                  pr_requiredEncryption = (requiredEncryption = JBool True),
                  pr_requiredBackup = False\<rparr>)"

text \<open>\<open>response.json()\<close>, which rejects on a body that is no JSON.\<close>

definition response_json :: "http_response \<Rightarrow> json act" where
  "response_json r = the_or (rs_json r) (OtherError ''invalid json'')"

definition response_ok :: "http_response \<Rightarrow> bool" where
  "response_ok r = (200 \<le> rs_status r \<and> rs_status r \<le> 299)"

definition getPolicyRequirements :: "env \<Rightarrow> string \<Rightarrow> string option \<Rightarrow> string \<Rightarrow> policy_requirements act" where
  "getPolicyRequirements E baseUrl serviceToken workspace =
     bnd (fetcher E
       \<lparr>rq_method = ''GET'',
        rq_url = drop_slash baseUrl @ ''/v1/workspaces/'' @ encode_uri_component workspace @ ''/policy-requirements'',
        rq_headers = (case serviceToken of Some t \<Rightarrow> (if t \<noteq> [] then [(''Authorization'', ''Bearer '' @ t)] else []) | None \<Rightarrow> []),
        rq_body = None\<rparr>) (\<lambda>response.
     bnd (check (response_ok response) (OtherError (''Policy service returned '' @ show_nat (rs_status response)))) (\<lambda>_.
     bnd (response_json response) (\<lambda>body. lift_result (read_requirements body))))"

section \<open>The pre-flight service\<close>

record preflight_input =
  pi_run :: string
  pi_workspace :: string
  pi_actor_id :: string
  pi_actor_type :: string
  pi_correlation :: string

record preflight_result =
  pf_policiesEnabled :: bool
  pf_requirements :: "policy_requirements option"
  pf_conditions :: TransitionConditions

record 's preflight_store =
  policiesEnabled_of :: "string \<Rightarrow> ('s, exn, bool) op"
  persistRequirements :: "preflight_input \<Rightarrow> policy_requirements \<Rightarrow> ('s, exn, bool) op"
  recordSkipped :: "preflight_input \<Rightarrow> ('s, exn, unit) op"

definition preflight_load ::
  "'s preflight_store \<Rightarrow> (string \<Rightarrow> ('s, exn, policy_requirements) op) \<Rightarrow> snapshot \<Rightarrow> string \<Rightarrow> string \<Rightarrow>
   ('s, exn, preflight_result) op" where
  "preflight_load S policyClient r actorId actorType =
     (let input = \<lparr>pi_run = sn_id r, pi_workspace = sn_workspace r, pi_actor_id = actorId, pi_actor_type = actorType,
                   pi_correlation = sn_correlation r\<rparr> in
      bnd (check (sn_state r = POLICY_LOADED)
             (OtherError (''Policy pre-flight can only run in POLICY_LOADED, not '' @ state_label (sn_state r)))) (\<lambda>_.
      bnd (policiesEnabled_of S (sn_workspace r)) (\<lambda>enabled.
      if \<not> enabled then
        bnd (recordSkipped S input) (\<lambda>_.
        ret \<lparr>pf_policiesEnabled = False, pf_requirements = None,
             pf_conditions = EMPTY_TRANSITION_CONDITIONS\<lparr>policiesEnabled := False, policyRequirementsLoaded := True\<rparr>\<rparr>)
      else
        bnd (policyClient (sn_workspace r)) (\<lambda>requirements.
        bnd (persistRequirements S input requirements) (\<lambda>persisted.
        bnd (check persisted (OtherError (''Policy requirements could not be persisted for run '' @ sn_id r))) (\<lambda>_.
        ret \<lparr>pf_policiesEnabled = True, pf_requirements = Some requirements,
             pf_conditions = EMPTY_TRANSITION_CONDITIONS\<lparr>policiesEnabled := True, policyRequirementsLoaded := True\<rparr>\<rparr>))))))"

section \<open>The contract of a pre-flight store\<close>

text \<open>
  \<open>snapshot_of s i\<close> is the stored requirements of run \<open>i\<close> with the time they were loaded and
  \<open>enabled_in s w\<close> whether workspace \<open>w\<close> has policies enabled, \<open>None\<close> if it does not exist.
\<close>

locale preflight_contract =
  fixes S :: "'s preflight_store"
    and before :: "'s \<Rightarrow> 's"
    and stored :: "policy_requirements \<Rightarrow> json"
    and snapshot_of :: "'s \<Rightarrow> string \<Rightarrow> (json \<times> int option) option"
    and enabled_in :: "'s \<Rightarrow> string \<Rightarrow> bool option"
  assumes enabled: "policiesEnabled_of S w s = (Inr b, t) \<Longrightarrow> t = before s \<and> enabled_in t w = Some b"
    and persisted: "persistRequirements S i q s = (Inr True, t) \<Longrightarrow>
      \<exists>tm. snapshot_of t (pi_run i) = Some (stored q, Some tm)"
    and skipped: "recordSkipped S i s = (Inr u, t) \<Longrightarrow> snapshot_of t = snapshot_of (before s)"
begin

lemma load_evidence:
  assumes "preflight_load S client r actor actorType s = (Inr res, t)"
  shows "sn_state r = POLICY_LOADED \<and> enabled_in (before s) (sn_workspace r) = Some (pf_policiesEnabled res) \<and>
     policyRequirementsLoaded (pf_conditions res) \<and> policiesEnabled (pf_conditions res) = pf_policiesEnabled res \<and>
     (case pf_requirements res of
        Some q \<Rightarrow> pf_policiesEnabled res \<and> (\<exists>tm. snapshot_of t (sn_id r) = Some (stored q, Some tm))
      | None \<Rightarrow> \<not> pf_policiesEnabled res)"
proof -
  from assms obtain b u where b: "sn_state r = POLICY_LOADED" "policiesEnabled_of S (sn_workspace r) s = (Inr b, u)"
    and rest: "\<not> b \<longrightarrow> res = \<lparr>pf_policiesEnabled = False, pf_requirements = None,
             pf_conditions = EMPTY_TRANSITION_CONDITIONS\<lparr>policiesEnabled := False, policyRequirementsLoaded := True\<rparr>\<rparr>"
    "b \<longrightarrow> (\<exists>q v i. persistRequirements S i q v = (Inr True, t) \<and> pi_run i = sn_id r \<and>
        res = \<lparr>pf_policiesEnabled = True, pf_requirements = Some q,
             pf_conditions = EMPTY_TRANSITION_CONDITIONS\<lparr>policiesEnabled := True, policyRequirementsLoaded := True\<rparr>\<rparr>)"
    by (fastforce simp: preflight_load_def Let_def mnd split: if_splits)
  from enabled [OF b(2)] b(1) rest show ?thesis
    by (cases b) (auto dest: persisted)
qed

end

section \<open>The PostgreSQL store\<close>

definition persistencePayload :: "policy_requirements \<Rightarrow> json" where
  "persistencePayload q = JObj
     [(''allowed_regions'', JArr (pr_allowedRegions q)),
      (''max_budget'', case pr_maxBudget q of Some n \<Rightarrow> JNum n | None \<Rightarrow> JNull),
      (''required_tags'', pr_requiredTags q),
      (''prohibited_resource_types'', JArr (pr_prohibitedResourceTypes q)),
      (''required_encryption'', JBool (pr_requiredEncryption q)),
      (''required_backup'', JBool (pr_requiredBackup q))]"

record preflight_audit =
  pa_input :: preflight_input
  pa_event_type :: string
  pa_payload :: json

definition find_workspace :: "string \<Rightarrow> db \<Rightarrow> workspace_row option" where
  "find_workspace w d = List.find (\<lambda>k. wk_id k = w \<and> \<not> wk_deleted k) (workspaces d)"

definition policies_enabled :: "workspace_row \<Rightarrow> bool" where
  "policies_enabled k = (case wk_policies_enabled k of Some b \<Rightarrow> b | None \<Rightarrow> True)"

definition pg_policiesEnabled :: "env \<Rightarrow> string \<Rightarrow> bool act" where
  "pg_policiesEnabled E w =
     bnd (db_query E (find_workspace w)) (\<lambda>row.
     bnd (the_or row (OtherError ''Workspace not found'')) (\<lambda>k. ret (policies_enabled k)))"

definition pg_persistRequirements ::
  "env \<Rightarrow> (preflight_audit \<Rightarrow> audit_writer) \<Rightarrow> preflight_input \<Rightarrow> policy_requirements \<Rightarrow> bool act" where
  "pg_persistRequirements E writer i q = txn E (
     bnd now (\<lambda>t.
     bnd (gets (\<lambda>s. List.find (\<lambda>r. rid r = pi_run i \<and> workspaceId r = pi_workspace i \<and> state r = POLICY_LOADED)
                      (runs (tables s)))) (\<lambda>row. case row of
       None \<Rightarrow> ret False
     | Some r \<Rightarrow>
         bnd (write_run (r\<lparr>policyRequirements := jsonb (base E) (persistencePayload q),
                           policyRequirementsLoadedAt := Some t, updatedAt := t\<rparr>)) (\<lambda>_.
         bnd (write_audit (writer \<lparr>pa_input = i, pa_event_type = ''policy_preflight_loaded'',
                                   pa_payload = persistencePayload q\<rparr>)) (\<lambda>_. ret True)))))"

definition pg_recordSkipped :: "env \<Rightarrow> (preflight_audit \<Rightarrow> audit_writer) \<Rightarrow> preflight_input \<Rightarrow> unit act" where
  "pg_recordSkipped E writer i = txn E (
     write_audit (writer \<lparr>pa_input = i, pa_event_type = ''policy_preflight_skipped'',
                          pa_payload = JObj [(''reason'', JStr ''workspace_policies_disabled'')]\<rparr>))"

definition postgres_preflight_store :: "env \<Rightarrow> (preflight_audit \<Rightarrow> audit_writer) \<Rightarrow> sys preflight_store" where
  "postgres_preflight_store E writer =
     \<lparr>policiesEnabled_of = pg_policiesEnabled E, persistRequirements = pg_persistRequirements E writer,
      recordSkipped = pg_recordSkipped E writer\<rparr>"

definition run_snapshot :: "sys \<Rightarrow> string \<Rightarrow> (json \<times> int option) option" where
  "run_snapshot s i = map_option (\<lambda>r. (policyRequirements r, policyRequirementsLoadedAt r))
     (List.find (\<lambda>r. rid r = i) (runs (tables s)))"

definition workspace_enabled :: "sys \<Rightarrow> string \<Rightarrow> bool option" where
  "workspace_enabled s w = map_option policies_enabled (find_workspace w (tables s))"

lemma find_replace: "rid r \<in> rid ` set (runs d) \<Longrightarrow>
    List.find (\<lambda>x. rid x = rid r) (runs (replace_run r d)) = Some r"
proof -
  have "rid r \<in> rid ` set rs \<Longrightarrow> List.find (\<lambda>x. rid x = rid r) (map (\<lambda>x. if rid x = rid r then r else x) rs) = Some r" for rs
    by (induction rs) auto
  then show "rid r \<in> rid ` set (runs d) \<Longrightarrow> ?thesis" by (simp add: replace_run_def)
qed

lemma pg_persisted:
  assumes "pg_persistRequirements E writer i q s = (Inr True, t)"
  shows "\<exists>tm. run_snapshot t (pi_run i) = Some (jsonb (base E) (persistencePayload q), Some tm)"
proof -
  from assms obtain r tm where r: "r \<in> set (runs (tables (others E s)))" "rid r = pi_run i"
    and t: "runs (tables t) = runs (replace_run (r\<lparr>policyRequirements := jsonb (base E) (persistencePayload q),
                           policyRequirementsLoadedAt := Some tm, updatedAt := tm\<rparr>) (tables (others E s)))"
    by (auto simp: pg_persistRequirements_def txn_Inr write_run_Inr mnd split: option.splits
        dest!: write_audit_Inr find_Some_mem)
  have "run_snapshot t (pi_run i) = Some (jsonb (base E) (persistencePayload q), Some tm)"
    unfolding run_snapshot_def t r(2) [symmetric]
    using find_replace [of "r\<lparr>policyRequirements := jsonb (base E) (persistencePayload q),
                           policyRequirementsLoadedAt := Some tm, updatedAt := tm\<rparr>" "tables (others E s)"] r(1)
    by simp
  then show ?thesis by blast
qed

lemma pg_enabled:
  "pg_policiesEnabled E w s = (Inr b, t) \<Longrightarrow> t = others E s \<and> workspace_enabled t w = Some b"
  by (auto simp: pg_policiesEnabled_def workspace_enabled_def mnd)

lemma pg_skipped: "pg_recordSkipped E writer i s = (Inr u, t) \<Longrightarrow> run_snapshot t = run_snapshot (others E s)"
  by (auto simp: pg_recordSkipped_def txn_Inr run_snapshot_def fun_eq_iff dest: write_audit_Inr)

interpretation pgp: preflight_contract "postgres_preflight_store E writer" "others E"
    "\<lambda>q. jsonb (base E) (persistencePayload q)" run_snapshot workspace_enabled
  for E writer
  by (unfold_locales, unfold postgres_preflight_store_def preflight_store.simps)
    (erule pg_enabled, erule pg_persisted, erule pg_skipped)

section \<open>Properties\<close>

lemma isStringArray_iff: "isStringArray v \<longleftrightarrow> (\<exists>vs. v = JArr vs \<and> list_all (\<lambda>x. js_str x \<noteq> None) vs)"
  by (auto simp: isStringArray_def split: json.splits)

text \<open>
  The policy client never widens a policy: requirements it returns come from an object whose
  fields have their types; the returned region list is empty only when the service sent no
  region rule at all (a rule that allows no region is refused), the budget is the positive
  number the service sent or was not sent, and encryption is required exactly when it said so.
\<close>

theorem read_requirements_sound:
  assumes "read_requirements body = Inr q"
  shows "is_obj body \<and>
    (pr_allowedRegions q = [] \<longleftrightarrow> jget body ''allowed_regions'' = JUndef) \<and>
    (jget body ''allowed_regions'' \<noteq> JUndef \<longrightarrow> jget body ''allowed_regions'' = JArr (pr_allowedRegions q)) \<and>
    list_all (\<lambda>v. js_str v \<noteq> None) (pr_allowedRegions q) \<and>
    (\<forall>n. pr_maxBudget q = Some n \<longrightarrow> 0 < n \<and> jget body ''max_monthly_budget_usd'' = JNum n) \<and>
    (pr_maxBudget q = None \<longrightarrow> nullish (jget body ''max_monthly_budget_usd'')) \<and>
    (pr_requiredEncryption q \<longleftrightarrow> jget body ''required_encryption'' = JBool True)"
proof -
  let ?r = "if jget body ''allowed_regions'' = JUndef then JArr [] else jget body ''allowed_regions''"
  let ?m = "coalesce (jget body ''max_monthly_budget_usd'') JNull"
  from assms have ok: "is_obj body" "isStringArray ?r" "budget_ok ?m"
    "\<not> (jget body ''allowed_regions'' \<noteq> JUndef \<and> elements ?r = [])"
    and q: "pr_allowedRegions q = elements ?r" "pr_maxBudget q = (case ?m of JNum n \<Rightarrow> Some n | _ \<Rightarrow> None)"
      "pr_requiredEncryption q = (coalesce (jget body ''required_encryption'') (JBool False) = JBool True)"
    by (simp_all add: read_requirements_def mnd Let_def split: if_splits) auto
  from ok(2) obtain vs where vs: "?r = JArr vs" "list_all (\<lambda>x. js_str x \<noteq> None) vs" by (auto simp: isStringArray_iff)
  have "pr_maxBudget q = Some n \<Longrightarrow> 0 < n \<and> jget body ''max_monthly_budget_usd'' = JNum n" for n
    using ok(3) q(2) by (auto simp: budget_ok_def coalesce_def nullish_def split: json.splits if_splits)
  moreover have "pr_maxBudget q = None \<Longrightarrow> nullish (jget body ''max_monthly_budget_usd'')"
    using ok(3) q(2) by (auto simp: budget_ok_def coalesce_def nullish_def split: json.splits if_splits)
  ultimately show ?thesis
    using ok(1,4) q(1,3) vs by (auto simp: elements_def coalesce_def nullish_def split: if_splits)
qed

theorem read_requirements_sound_witness:
  "0 < (500 :: rat) \<and> jget (JObj [(''max_monthly_budget_usd'', JNum 500)]) ''max_monthly_budget_usd'' = JNum 500"
proof -
  let ?b = "JObj [(''max_monthly_budget_usd'', JNum 500)]"
  obtain q where "read_requirements ?b = Inr q" "pr_maxBudget q = Some 500"
    by (simp add: read_requirements_def isStringArray_def budget_ok_def coalesce_def nullish_def elements_def)
  from read_requirements_sound [OF this(1)] this(2) show ?thesis by blast
qed

text \<open>
  The evidence of the policy gate is the stored snapshot: a pre-flight that returns ran in
  \<open>POLICY_LOADED\<close> on a workspace that exists and reports whether that workspace has policies
  enabled; when it has, the requirements it returns are in the run's row with the time they were
  loaded, and only when it has not are there none. An unknown workspace is never taken for one
  with policies disabled.
\<close>

theorem preflight_evidence_is_stored:
  assumes "preflight_load (postgres_preflight_store E writer) client r actor actorType s = (Inr res, t)"
  shows "sn_state r = POLICY_LOADED \<and>
     workspace_enabled (others E s) (sn_workspace r) = Some (pf_policiesEnabled res) \<and>
     policyRequirementsLoaded (pf_conditions res) \<and> policiesEnabled (pf_conditions res) = pf_policiesEnabled res \<and>
     (case pf_requirements res of
        Some q \<Rightarrow> pf_policiesEnabled res \<and>
          (\<exists>tm. run_snapshot t (sn_id r) = Some (jsonb (base E) (persistencePayload q), Some tm))
      | None \<Rightarrow> \<not> pf_policiesEnabled res)"
  using assms by (rule pgp.load_evidence)

theorem preflight_evidence_is_stored_witness:
  "workspace_enabled (sample_sys (empty_db\<lparr>workspaces := [\<lparr>wk_id = ''w'', wk_name = ''n'',
     wk_policies_enabled = Some False, wk_deleted = False\<rparr>]\<rparr>)) ''w'' = Some False"
proof -
  let ?s = "sample_sys (empty_db\<lparr>workspaces := [\<lparr>wk_id = ''w'', wk_name = ''n'',
     wk_policies_enabled = Some False, wk_deleted = False\<rparr>]\<rparr>)"
  let ?m = "preflight_load (postgres_preflight_store sample_env (\<lambda>a es. Inr es)) (\<lambda>w. throw db_error)
     (toSnapshot (sample_run\<lparr>state := POLICY_LOADED\<rparr>)) ''u'' ''user'' ?s"
  have "\<exists>res t. ?m = (Inr res, t) \<and> \<not> pf_policiesEnabled res"
    by (simp add: preflight_load_def postgres_preflight_store_def toSnapshot_def sample_run_def Let_def
        pg_policiesEnabled_def find_workspace_def policies_enabled_def pg_recordSkipped_def txn_def write_audit_def bnd_def)
  then obtain res t where "?m = (Inr res, t)" "\<not> pf_policiesEnabled res" by blast
  from preflight_evidence_is_stored [OF this(1)] this(2) show ?thesis by (simp add: toSnapshot_def sample_run_def)
qed

end
