(* ===== verification/Run_Core.thy ===== *)
theory Run_Core
  imports Iac_Contracts Audit_Log Policy
begin

text \<open>
  The core of \<open>state-machine/runs.service.ts\<close>: the columns a request may update, the gates
  computed from a run, the permission checks, and \<open>mutate\<close>, the one transaction through which
  every change of an existing run goes.
\<close>

section \<open>Updates\<close>

datatype upd =
    U_iacArtifactId "string option"
  | U_approvalStatus string
  | U_policyDecision "string option"
  | U_errorCode "string option"
  | U_errorMessage "string option"
  | U_policyRequirements json
  | U_policyRequirementsLoadedAt "int option"
  | U_cloudContext json
  | U_cloudContextLoadedAt "int option"
  | U_agentSessionId "string option"
  | U_agentTurnPending bool
  | U_agentInput "string option"
  | U_currentQuestion json
  | U_clarificationExpiresAt "int option"
  | U_answersHistory "json list"
  | U_manifestValidationAttempts int
  | U_manifestVersion "int option"
  | U_manifestValidatedVersion "int option"
  | U_manifestConfirmedVersion "int option"
  | U_manifestConfirmedAt "int option"

text \<open>\<open>{ ...run, ...updates }\<close>.\<close>

fun apply_upd :: "upd \<Rightarrow> run \<Rightarrow> run" where
  "apply_upd (U_iacArtifactId v) r = r\<lparr>iacArtifactId := v\<rparr>"
| "apply_upd (U_approvalStatus v) r = r\<lparr>approvalStatus := v\<rparr>"
| "apply_upd (U_policyDecision v) r = r\<lparr>policyDecision := v\<rparr>"
| "apply_upd (U_errorCode v) r = r\<lparr>errorCode := v\<rparr>"
| "apply_upd (U_errorMessage v) r = r\<lparr>errorMessage := v\<rparr>"
| "apply_upd (U_policyRequirements v) r = r\<lparr>policyRequirements := v\<rparr>"
| "apply_upd (U_policyRequirementsLoadedAt v) r = r\<lparr>policyRequirementsLoadedAt := v\<rparr>"
| "apply_upd (U_cloudContext v) r = r\<lparr>cloudContext := v\<rparr>"
| "apply_upd (U_cloudContextLoadedAt v) r = r\<lparr>cloudContextLoadedAt := v\<rparr>"
| "apply_upd (U_agentSessionId v) r = r\<lparr>agentSessionId := v\<rparr>"
| "apply_upd (U_agentTurnPending v) r = r\<lparr>agentTurnPending := v\<rparr>"
| "apply_upd (U_agentInput v) r = r\<lparr>agentInput := v\<rparr>"
| "apply_upd (U_currentQuestion v) r = r\<lparr>currentQuestion := v\<rparr>"
| "apply_upd (U_clarificationExpiresAt v) r = r\<lparr>clarificationExpiresAt := v\<rparr>"
| "apply_upd (U_answersHistory v) r = r\<lparr>answersHistory := v\<rparr>"
| "apply_upd (U_manifestValidationAttempts v) r = r\<lparr>manifestValidationAttempts := v\<rparr>"
| "apply_upd (U_manifestVersion v) r = r\<lparr>manifestVersion := v\<rparr>"
| "apply_upd (U_manifestValidatedVersion v) r = r\<lparr>manifestValidatedVersion := v\<rparr>"
| "apply_upd (U_manifestConfirmedVersion v) r = r\<lparr>manifestConfirmedVersion := v\<rparr>"
| "apply_upd (U_manifestConfirmedAt v) r = r\<lparr>manifestConfirmedAt := v\<rparr>"

text \<open>The value a column stores: the four JSON columns are \<open>jsonb\<close>, \<open>null\<close> stays \<open>null\<close>.\<close>

definition store_json :: "world \<Rightarrow> json \<Rightarrow> json" where
  "store_json W v = (if v = JNull then JNull else jsonb W v)"

fun stored_upd :: "world \<Rightarrow> upd \<Rightarrow> upd" where
  "stored_upd W (U_policyRequirements v) = U_policyRequirements (store_json W v)"
| "stored_upd W (U_cloudContext v) = U_cloudContext (store_json W v)"
| "stored_upd W (U_currentQuestion v) = U_currentQuestion (store_json W v)"
| "stored_upd W (U_answersHistory vs) = U_answersHistory (arr_of (jsonb W (JArr vs)))"
| "stored_upd W u = u"

definition apply_all :: "upd list \<Rightarrow> run \<Rightarrow> run" where
  "apply_all us r = fold apply_upd us r"

record run_change =
  ch_state :: "workflow_state option"
  ch_updates :: "upd list"
  ch_event_type :: "string option"
  ch_payload :: json

text \<open>Object literals with the fields left out that the source leaves out.\<close>

definition change :: run_change where
  "change = \<lparr>ch_state = None, ch_updates = [], ch_event_type = None, ch_payload = JUndef\<rparr>"

section \<open>Gates\<close>

definition conditions :: "run \<Rightarrow> TransitionConditions" where
  "conditions r = EMPTY_TRANSITION_CONDITIONS
     \<lparr>policiesEnabled := (jget (policyRequirements r) ''enabled'' \<noteq> JBool False),
      policyRequirementsLoaded := (policyRequirementsLoadedAt r \<noteq> None),
      cloudContextLoaded := (cloudContextLoadedAt r \<noteq> None \<and> truthy (cloudContext r)),
      clarificationCompleted := (\<not> truthy (currentQuestion r) \<and> length (answersHistory r) > 0),
      manifestCreated := (manifestVersion r \<noteq> None),
      manifestValidationPassed := (manifestVersion r \<noteq> None \<and> manifestValidatedVersion r = manifestVersion r),
      manifestConfirmed := (manifestConfirmedVersion r \<noteq> None \<and> manifestConfirmedVersion r = manifestVersion r),
      policyCheckPassed := (policyDecision r \<in> Some ` {''allow'', ''warn'', ''requires_approval''}),
      confirmationCompleted := False,
      approvalRequired := (approvalStatus r \<noteq> ''not_required''),
      approvalCompleted := (approvalStatus r = ''approved'')\<rparr>"

section \<open>Permissions\<close>

definition is_member :: "string \<Rightarrow> string \<Rightarrow> db \<Rightarrow> bool" where
  "is_member w u d = (list_ex (\<lambda>m. mb_workspace m = w \<and> mb_user m = u) (memberships d) \<and>
                      list_ex (\<lambda>k. wk_id k = w \<and> \<not> wk_deleted k) (workspaces d))"

definition assertMembership :: "(unit \<Rightarrow> bool act) \<Rightarrow> unit act" where
  "assertMembership q = bnd (q ()) (\<lambda>b. check b (ForbiddenException ''Workspace membership required''))"

definition assertMembership_pool :: "env \<Rightarrow> string \<Rightarrow> string \<Rightarrow> unit act" where
  "assertMembership_pool E w u = assertMembership (\<lambda>_. db_query E (is_member w u))"

definition assertMembership_client :: "string \<Rightarrow> string \<Rightarrow> unit act" where
  "assertMembership_client w u = assertMembership (\<lambda>_. gets (\<lambda>s. is_member w u (tables s)))"

definition has_role :: "string \<Rightarrow> string \<Rightarrow> string list \<Rightarrow> db \<Rightarrow> bool" where
  "has_role w u roles d =
     list_ex (\<lambda>m. mb_workspace m = w \<and> mb_user m = u \<and> mb_role m \<in> set roles) (memberships d)"

definition assertMutationPermission :: "string \<Rightarrow> string \<Rightarrow> bool \<Rightarrow> unit act" where
  "assertMutationPermission w actorId approval =
     (let roles = (if approval then [''admin'', ''approver''] else [''admin'', ''engineer'']) in
      bnd (gets (\<lambda>s. has_role w actorId roles (tables s))) (\<lambda>b.
        check b (ForbiddenException ''Provisioning permission required'')))"

section \<open>Events\<close>

definition publish :: "env \<Rightarrow> run \<Rightarrow> string \<Rightarrow> json \<Rightarrow> unit act" where
  "publish E r type payload =
     bnd (new_uuid E) (\<lambda>event_id. insert_outbox E (workspaceId r) event_id type (correlationId r) payload)"

definition malformed_event :: exn where
  "malformed_event = OtherError ''Malformed component event''"

definition validate_event_component :: "world \<Rightarrow> json \<Rightarrow> exn + unit" where
  "validate_event_component W v =
     (if \<not> is_object_type v then Inl malformed_event
      else (case (jget v ''type'', jget v ''version'') of
              (JStr type, JStr version) \<Rightarrow> rbind (validateComponent W type (jget v ''data'') version) (\<lambda>_. Inr ())
            | _ \<Rightarrow> Inl malformed_event))"

definition validateSseComponents :: "world \<Rightarrow> string option \<Rightarrow> json \<Rightarrow> exn + unit" where
  "validateSseComponents W eventType payload =
     (let values = (if eventType = Some ''ManifestReadyEvent'' then jget payload ''components''
                    else if eventType \<in> {Some ''ComponentPayloadEvent'', Some ''ClarificationQuestionEvent''}
                    then JArr [jget payload ''component''] else JArr [])
      in (case values of
            JArr vs \<Rightarrow> rbind (mapR (validate_event_component W) vs) (\<lambda>_. Inr ())
          | _ \<Rightarrow> Inl malformed_event))"

section \<open>The transaction\<close>

definition iac_evidence :: "string \<Rightarrow> string \<Rightarrow> int option \<Rightarrow> db \<Rightarrow> (artifact_row \<times> manifest_row) option" where
  "iac_evidence artifact run_id version d =
     List.find (\<lambda>(a, m). mf_id m = ar_manifest_id a \<and> mf_run_id m = ar_run_id a \<and> ar_id a = artifact \<and>
                         ar_run_id a = run_id \<and> Some (mf_version m) = version \<and> ar_type a = ''terraform'')
       (List.product (artifacts d) (manifests d))"

text \<open>The check of generated code when a run with an artifact enters \<open>PLAN_CREATING\<close>.\<close>

definition iac_generated :: "world \<Rightarrow> run \<Rightarrow> json \<Rightarrow> db \<Rightarrow> exn + unit" where
  "iac_generated W candidate payload d =
     rbind (assertConfirmedManifest candidate) (\<lambda>_.
     (case iac_evidence (the (iacArtifactId candidate)) (rid candidate) (manifestVersion candidate) d of
        None \<Rightarrow> Inl invalid_artifact
      | Some (a, m) \<Rightarrow>
          rbind (verifyIacArtifact W (ar_generation a) candidate (mf_id m)) (\<lambda>artifact.
          if jget artifact ''iac_artifact_id'' = JStr (the (iacArtifactId candidate)) \<and>
             jget artifact ''hash'' = JStr (ar_hash a) \<and> ar_key a = iacIdempotencyKey candidate (mf_id m) \<and>
             \<not> (jget payload ''hash'' \<noteq> JUndef \<and> jget payload ''hash'' \<noteq> JStr (ar_hash a))
          then Inr () else Inl invalid_artifact)))"

definition has_artifact :: "run \<Rightarrow> bool" where
  "has_artifact r = (case iacArtifactId r of None \<Rightarrow> False | Some a \<Rightarrow> a \<noteq> [])"

definition check_change :: "world \<Rightarrow> run \<Rightarrow> run_change \<Rightarrow> db \<Rightarrow> exn + unit" where
  "check_change W r c d =
     (case ch_state c of
        None \<Rightarrow> rcheck (\<not> isTerminalWorkflowState (state r)) (ConflictException ''Run is terminal'')
      | Some to \<Rightarrow>
          (let candidate = apply_all (ch_updates c) r; evidence = (to = PLAN_CREATING \<and> has_artifact candidate) in
           rbind (if evidence then iac_generated W candidate (ch_payload c) d else Inr ()) (\<lambda>_.
           (case assertTransition (state r) to (conditions candidate\<lparr>iacGenerated := evidence\<rparr>) of
              Inl e \<Rightarrow> Inl (ConflictException (transition_error_message e))
            | Inr df \<Rightarrow> Inr ()))))"

text \<open>The row the \<open>UPDATE\<close> writes: no \<open>SET\<close> clause but the listed columns and these four.\<close>

definition updated_row :: "world \<Rightarrow> int \<Rightarrow> run_change \<Rightarrow> run \<Rightarrow> run" where
  "updated_row W t c r =
     enter_state (case ch_state c of Some to \<Rightarrow> to | None \<Rightarrow> state r) t
       (apply_all (map (stored_upd W) (ch_updates c)) r)"

definition event_payload :: "run \<Rightarrow> run \<Rightarrow> run_change \<Rightarrow> json" where
  "event_payload r updated c =
     JObj (foldl set_prop [] (
       [(''run_id'', JStr (rid r)), (''from'', JStr (state_label (state r))), (''to'', JStr (state_label (state updated))),
        (''state_version'', jint (stateVersion updated))] @
       (if state updated = FAILED
        then [(''error_code'', jopt (errorCode updated)), (''error_message'', jopt (errorMessage updated))] else []) @
       js_fields (ch_payload c)))"

definition mutation_audit :: "run \<Rightarrow> string \<Rightarrow> string \<Rightarrow> run_change \<Rightarrow> json \<Rightarrow> audit_params" where
  "mutation_audit r workspace actorId c payload =
     \<lparr>ap_workspace = workspace, ap_event_type = (if ch_state c \<noteq> None then ''state_transition'' else ''tool_call''),
      ap_actor_id = actorId, ap_actor_type = (if actorId = ''orchestrator'' then ''system'' else ''user''),
      ap_resource_type = ''provisioning_run'', ap_resource_id = rid r, ap_payload = payload,
      ap_correlation = correlationId r\<rparr>"

definition mutate_body ::
  "env \<Rightarrow> string \<Rightarrow> string \<Rightarrow> int \<Rightarrow> string \<Rightarrow> (run \<Rightarrow> run_change act) \<Rightarrow> run act" where
  "mutate_body E run_id workspace expectedVersion actorId operation =
     bnd (gets (\<lambda>s. find_run run_id workspace (tables s))) (\<lambda>current.
     bnd (the_or current (NotFoundException ''Run not found'')) (\<lambda>r.
     bnd (check (stateVersion r = expectedVersion) (ConflictException ''State version conflict'')) (\<lambda>_.
     bnd (operation r) (\<lambda>c.
     bnd (lift_result (validateSseComponents (base E) (ch_event_type c) (ch_payload c))) (\<lambda>_.
     bnd (if actorId \<noteq> ''orchestrator''
          then assertMutationPermission workspace actorId (state r = APPROVING \<and> ch_state c \<noteq> Some CANCELLED)
          else ret ()) (\<lambda>_.
     bnd (gets tables) (\<lambda>d.
     bnd (lift_result (check_change (base E) r c d)) (\<lambda>_.
     bnd now (\<lambda>t.
     let updated = updated_row (base E) t c r; payload = event_payload r updated c in
     bnd (write_run updated) (\<lambda>_.
     bnd (executeAppend E (mutation_audit r workspace actorId c payload)) (\<lambda>_.
     bnd (publish E updated (case ch_event_type c of Some ty \<Rightarrow> ty | None \<Rightarrow> ''StateChangedEvent'') payload) (\<lambda>_.
     ret updated))))))))))))"

definition mutate ::
  "env \<Rightarrow> string \<Rightarrow> string \<Rightarrow> int \<Rightarrow> string \<Rightarrow> (run \<Rightarrow> run_change act) \<Rightarrow> run act" where
  "mutate E run_id workspace expectedVersion actorId operation =
     txn E (mutate_body E run_id workspace expectedVersion actorId operation)"

definition transitionState :: "env \<Rightarrow> string \<Rightarrow> string \<Rightarrow> int \<Rightarrow> workflow_state \<Rightarrow> string \<Rightarrow> upd list \<Rightarrow> run act" where
  "transitionState E run_id workspace expectedVersion newState actorId updates =
     mutate E run_id workspace expectedVersion actorId
       (\<lambda>_. ret (change\<lparr>ch_state := Some newState, ch_updates := updates\<rparr>))"

end
