(* ===== verification/Runs.thy ===== *)
theory Runs
  imports Run_Core
begin

text \<open>
  The operations a request starts on provisioning runs: creation and reading, cancellation,
  confirmation of a manifest, clarification, revision and the approval event
  (\<open>state-machine/runs.service.ts\<close>).
\<close>

section \<open>Creating and reading\<close>

definition find_key :: "string \<Rightarrow> db \<Rightarrow> run option" where
  "find_key k d = List.find (\<lambda>r. idempotencyKey r = Some k) (runs d)"

definition active_session :: "string \<Rightarrow> string \<Rightarrow> string \<Rightarrow> db \<Rightarrow> bool" where
  "active_session i w u d =
     list_ex (\<lambda>x. cs_id x = i \<and> cs_workspace x = w \<and> cs_user x = u \<and> cs_status x = Active) (sessions d)"

text \<open>A row as the \<open>INSERT\<close> makes it, the other columns at their defaults.\<close>

definition new_run :: "string \<Rightarrow> string \<Rightarrow> string \<Rightarrow> string \<Rightarrow> string \<Rightarrow> string \<Rightarrow> string \<Rightarrow> int \<Rightarrow> run" where
  "new_run i session workspace requester txt correlation key t =
     \<lparr>rid = i, sessionId = session, workspaceId = workspace, requesterId = requester, state = RECEIVED,
      stateVersion = 0, prompt = txt, manifestVersion = None, policyDecision = None,
      approvalStatus = ''not_required'', executionStatus = ''pending'', idempotencyKey = Some key,
      correlationId = correlation, errorCode = None, errorMessage = None, createdAt = t, updatedAt = t,
      completedAt = None, policyRequirements = JNull, policyRequirementsLoadedAt = None, cloudContext = JNull,
      cloudContextLoadedAt = None, agentSessionId = None, agentTurnPending = True, agentInput = None,
      currentQuestion = JNull, clarificationExpiresAt = None, answersHistory = [], manifestValidationAttempts = 0,
      manifestValidatedVersion = None, manifestConfirmedVersion = None, manifestConfirmedAt = None,
      iacArtifactId = None\<rparr>"

text \<open>The unique constraints on \<open>id\<close> and \<open>idempotency_key\<close>.\<close>

definition insert_run :: "run \<Rightarrow> unit act" where
  "insert_run r =
     bnd (gets tables) (\<lambda>d.
     bnd (check (rid r \<notin> rid ` set (runs d) \<and> idempotencyKey r \<notin> idempotencyKey ` set (runs d)) db_error) (\<lambda>_.
     update_db (\<lambda>d. d\<lparr>runs := runs d @ [r]\<rparr>)))"

definition same_request :: "string \<Rightarrow> string \<Rightarrow> string \<Rightarrow> string \<Rightarrow> run \<Rightarrow> bool" where
  "same_request session workspace requester txt r =
     (workspaceId r = workspace \<and> requesterId r = requester \<and> sessionId r = session \<and> prompt r = txt)"

definition key_reused :: exn where
  "key_reused = ConflictException ''Idempotency key already used for a different request''"

definition run_created_audit :: "run \<Rightarrow> audit_params" where
  "run_created_audit r =
     \<lparr>ap_workspace = workspaceId r, ap_event_type = ''run_created'', ap_actor_id = requesterId r, ap_actor_type = ''user'',
      ap_resource_type = ''provisioning_run'', ap_resource_id = rid r,
      ap_payload = JObj [(''sessionId'', JStr (sessionId r))], ap_correlation = correlationId r\<rparr>"

definition insert_created :: "env \<Rightarrow> string \<Rightarrow> string \<Rightarrow> string \<Rightarrow> string \<Rightarrow> string \<Rightarrow> run act" where
  "insert_created E session workspace requester txt key =
     bnd (gets (\<lambda>s. active_session session workspace requester (tables s))) (\<lambda>b.
     bnd (check b (NotFoundException ''Chat session not found'')) (\<lambda>_.
     bnd (new_uuid E) (\<lambda>correlation.
     bnd (new_uuid E) (\<lambda>i.
     bnd now (\<lambda>t.
     let r = new_run i session workspace requester txt correlation key t in
     bnd (insert_run r) (\<lambda>_.
     bnd (executeAppend E (run_created_audit r)) (\<lambda>_.
     bnd (publish E r ''RunCreatedEvent'' (JObj [(''run_id'', JStr (rid r))])) (\<lambda>_.
     ret r))))))))"

definition createRun_body :: "env \<Rightarrow> string \<Rightarrow> string \<Rightarrow> string \<Rightarrow> string \<Rightarrow> string \<Rightarrow> run act" where
  "createRun_body E session workspace requester txt key =
     bnd (assertMembership_client workspace requester) (\<lambda>_.
     bnd (assertMutationPermission workspace requester False) (\<lambda>_.
     bnd (gets (\<lambda>s. find_key key (tables s))) (\<lambda>existing. case existing of
       Some r \<Rightarrow> bnd (check (same_request session workspace requester txt r) key_reused) (\<lambda>_. ret r)
     | None \<Rightarrow> insert_created E session workspace requester txt key)))"

definition createRun :: "env \<Rightarrow> string \<Rightarrow> string \<Rightarrow> string \<Rightarrow> string \<Rightarrow> string option \<Rightarrow> run act" where
  "createRun E session workspace requester txt key =
     bnd (case key of Some k \<Rightarrow> ret k | None \<Rightarrow> new_uuid E) (\<lambda>k.
       txn E (createRun_body E session workspace requester txt k))"

text \<open>\<open>if (actorId) await this.assertMembership(...)\<close>.\<close>

definition as_member :: "env \<Rightarrow> string \<Rightarrow> string option \<Rightarrow> unit act" where
  "as_member E workspace actor =
     (case actor of None \<Rightarrow> ret () | Some u \<Rightarrow> if u = [] then ret () else assertMembership_pool E workspace u)"

definition given :: "string option \<Rightarrow> bool" where
  "given v = (case v of None \<Rightarrow> False | Some s \<Rightarrow> s \<noteq> [])"

definition listRuns ::
  "env \<Rightarrow> string \<Rightarrow> string option \<Rightarrow> string option \<Rightarrow> string option \<Rightarrow> run list act" where
  "listRuns E workspace session status actor =
     bnd (as_member E workspace actor) (\<lambda>_.
     bnd (if given status
          then (case zparse (base E) (ZEnum (map state_label WORKFLOW_STATES)) (JStr (the status)) of
                  Inl issues \<Rightarrow> throw (ZodError issues) | Inr v \<Rightarrow> ret (Some v))
          else ret None) (\<lambda>wanted.
     db_query E (\<lambda>d. take 50 (sort_key (\<lambda>r. - createdAt r)
       (filter (\<lambda>r. workspaceId r = workspace \<and> (given session \<longrightarrow> Some (sessionId r) = session) \<and>
                    (case wanted of None \<Rightarrow> True | Some v \<Rightarrow> JStr (state_label (state r)) = v)) (runs d))))))"

definition getRun :: "env \<Rightarrow> string \<Rightarrow> string \<Rightarrow> string option \<Rightarrow> run act" where
  "getRun E i workspace actor =
     bnd (as_member E workspace actor) (\<lambda>_.
     bnd (db_query E (find_run i workspace)) (\<lambda>row.
     the_or row (NotFoundException ''Run not found'')))"

section \<open>Cancellation and confirmation\<close>

definition cancelRun :: "env \<Rightarrow> string \<Rightarrow> string \<Rightarrow> string \<Rightarrow> run act" where
  "cancelRun E i workspace actor =
     bnd (getRun E i workspace (Some actor)) (\<lambda>r.
     if isTerminalWorkflowState (state r) then ret r
     else transitionState E i workspace (stateVersion r) CANCELLED actor [])"

text \<open>\<open>Number(dto?.manifestVersion?.replace(/^v/, ""))\<close>, kept when it is a positive integer.\<close>

definition drop_v :: "string \<Rightarrow> string" where
  "drop_v s = (case s of c # cs \<Rightarrow> if c = CHR ''v'' then cs else s | [] \<Rightarrow> [])"

definition requested_version :: "string option \<Rightarrow> int option" where
  "requested_version v =
     (case v of None \<Rightarrow> None
      | Some s \<Rightarrow> (case js_number (drop_v s) of None \<Rightarrow> None
                  | Some q \<Rightarrow> if is_int q \<and> 1 \<le> q then Some (floor q) else None))"

definition confirm_change :: "int \<Rightarrow> run \<Rightarrow> run_change act" where
  "confirm_change version r =
     bnd (check (state r = MANIFEST_VALIDATING \<and> manifestVersion r = Some version \<and>
                 manifestValidatedVersion r = Some version)
            (ConflictException ''Only the active validated manifest version can be confirmed'')) (\<lambda>_.
     bnd now (\<lambda>t. ret (change
       \<lparr>ch_state := Some IAC_GENERATING,
        ch_updates := [U_manifestConfirmedVersion (Some version), U_manifestConfirmedAt (Some t)],
        ch_event_type := Some ''ManifestConfirmedEvent'',
        ch_payload := JObj [(''manifest_version'', jint version)]\<rparr>)))"

definition confirmRun :: "env \<Rightarrow> string \<Rightarrow> string \<Rightarrow> string \<Rightarrow> string option \<Rightarrow> run act" where
  "confirmRun E i workspace actor requested =
     bnd (getRun E i workspace (Some actor)) (\<lambda>r.
     bnd (the_or (requested_version requested) (BadRequestException ''A valid manifest version is required'')) (\<lambda>version.
     if manifestConfirmedVersion r = Some version \<and> manifestVersion r = Some version then ret r
     else mutate E i workspace (stateVersion r) actor (confirm_change version)))"

section \<open>Clarification\<close>

definition CLARIFICATION_TTL :: int where
  "CLARIFICATION_TTL = 3600000"

definition suspend_change :: "env \<Rightarrow> string \<Rightarrow> json \<Rightarrow> run_change act" where
  "suspend_change E i question =
     bnd now (\<lambda>t.
     bnd (lift_result (validateComponent (base E) ''clarification_question''
            (JObj [(''id'', JStr i), (''question'', jget question ''question''), (''inputType'', JStr ''text'')])
            COMPONENT_SCHEMA_VERSION)) (\<lambda>d.
     ret (change
       \<lparr>ch_state := Some CLARIFYING,
        ch_updates := [U_currentQuestion question, U_clarificationExpiresAt (Some (t + CLARIFICATION_TTL)),
                       U_agentTurnPending False],
        ch_event_type := Some ''ClarificationQuestionEvent'',
        ch_payload := JObj [(''question'', question),
          (''component'', JObj [(''type'', JStr ''clarification_question''), (''version'', JStr ''1.0.0''),
             (''requestId'', JStr i), (''data'', d)])]\<rparr>)))"

definition parse_or_throw :: "env \<Rightarrow> zod \<Rightarrow> json \<Rightarrow> json act" where
  "parse_or_throw E schema v =
     (case zparse (base E) schema v of Inl issues \<Rightarrow> throw (ZodError issues) | Inr d \<Rightarrow> ret d)"

definition suspendRun :: "env \<Rightarrow> run \<Rightarrow> json \<Rightarrow> run act" where
  "suspendRun E r payload =
     bnd (parse_or_throw E questionSchema payload) (\<lambda>question.
     mutate E (rid r) (workspaceId r) (stateVersion r) ''orchestrator'' (\<lambda>_. suspend_change E (rid r) question))"

definition find_answer :: "string option \<Rightarrow> run \<Rightarrow> json option" where
  "find_answer key r =
     (if given key then List.find (\<lambda>a. jget a ''idempotencyKey'' = JStr (the key)) (answersHistory r) else None)"

definition different_answers :: exn where
  "different_answers = ConflictException ''Idempotency key already used for different answers''"

text \<open>A retry is recognised when the stored answers serialise as the validated new ones.\<close>

definition replay_check :: "env \<Rightarrow> json \<Rightarrow> json \<Rightarrow> exn + unit" where
  "replay_check E entry answers =
     (case validateAnswers (base E) (jget entry ''question'') answers of
        Inl issues \<Rightarrow> Inl different_answers
      | Inr normalized \<Rightarrow>
          rcheck (stringify (num_str (base E)) (jget entry ''answers'') = stringify (num_str (base E)) normalized)
            different_answers)"

definition expired :: "int \<Rightarrow> run \<Rightarrow> bool" where
  "expired t r = (case clarificationExpiresAt r of None \<Rightarrow> False | Some x \<Rightarrow> x \<le> t)"

definition agent_answer :: "env \<Rightarrow> json \<Rightarrow> json \<Rightarrow> string" where
  "agent_answer E question answers =
     stringify (num_str (base E)) (JObj [(''question'', question), (''answers'', answers)])"

definition clarify_change :: "env \<Rightarrow> json \<Rightarrow> string \<Rightarrow> string option \<Rightarrow> run \<Rightarrow> run_change act" where
  "clarify_change E answers input key current =
     bnd now (\<lambda>t.
     bnd (check (state current = CLARIFYING \<and> clarificationExpiresAt current \<noteq> None \<and> \<not> expired t current)
            (ConflictException ''Clarification expired or is no longer pending'')) (\<lambda>_.
     bnd (case key of Some k \<Rightarrow> ret k | None \<Rightarrow> new_uuid E) (\<lambda>k.
     ret (change
       \<lparr>ch_state := Some MANIFEST_CREATING,
        ch_updates := [U_currentQuestion JNull, U_clarificationExpiresAt None,
          U_answersHistory (answersHistory current @
            [JObj [(''question'', currentQuestion current), (''answers'', answers),
                   (''answeredAt'', JStr (to_iso t)), (''idempotencyKey'', JStr k)]]),
          U_agentInput (Some input), U_agentTurnPending True],
        ch_event_type := Some ''ClarificationAnsweredEvent''\<rparr>))))"

text \<open>After a conflict: the answer another request has committed in the meantime.\<close>

definition clarify_conflict :: "env \<Rightarrow> string \<Rightarrow> string \<Rightarrow> string \<Rightarrow> json \<Rightarrow> string option \<Rightarrow> exn \<Rightarrow> run act" where
  "clarify_conflict E i workspace actor answers key e =
     (if \<not> is_conflict e \<or> \<not> given key then throw e
      else bnd (getRun E i workspace (Some actor)) (\<lambda>latest.
           case find_answer key latest of
             None \<Rightarrow> throw e
           | Some committed \<Rightarrow> bnd (lift_result (replay_check E committed answers)) (\<lambda>_. ret latest)))"

definition clarify_pending :: "env \<Rightarrow> string \<Rightarrow> string \<Rightarrow> string \<Rightarrow> json \<Rightarrow> string option \<Rightarrow> run \<Rightarrow> run act" where
  "clarify_pending E i workspace actor answers key r =
     bnd (case validateAnswers (base E) (currentQuestion r) answers of
            Inl issues \<Rightarrow> throw (BadRequestException ''Answers do not match the current question fields'')
          | Inr d \<Rightarrow> ret d) (\<lambda>d.
     let input = agent_answer E (currentQuestion r) d in
     bnd (check (length input \<le> 20000) (BadRequestException ''Clarification answers are too large'')) (\<lambda>_.
     catching (mutate E i workspace (stateVersion r) actor (clarify_change E d input key))
       (clarify_conflict E i workspace actor answers key)))"

definition clarifyRun :: "env \<Rightarrow> string \<Rightarrow> string \<Rightarrow> string \<Rightarrow> json \<Rightarrow> string option \<Rightarrow> run act" where
  "clarifyRun E i workspace actor answers key =
     bnd (getRun E i workspace (Some actor)) (\<lambda>r.
     case find_answer key r of
       Some replay \<Rightarrow> bnd (lift_result (replay_check E replay answers)) (\<lambda>_. ret r)
     | None \<Rightarrow>
         bnd (check (state r = CLARIFYING \<and> truthy (currentQuestion r) \<and> clarificationExpiresAt r \<noteq> None)
                (ConflictException ''Run is not waiting for clarification'')) (\<lambda>_.
         bnd now (\<lambda>t.
         if expired t r then
           bnd (transitionState E i workspace (stateVersion r) CANCELLED ''orchestrator'' []) (\<lambda>_.
           throw (ConflictException ''Clarification expired''))
         else clarify_pending E i workspace actor answers key r)))"

section \<open>Revision and approval\<close>

definition revise_updates :: "string \<Rightarrow> upd list" where
  "revise_updates txt =
     [U_agentInput (Some txt), U_agentTurnPending True, U_manifestConfirmedVersion None, U_manifestConfirmedAt None,
      U_manifestValidatedVersion None, U_manifestValidationAttempts 0]"

definition reviseRun :: "env \<Rightarrow> string \<Rightarrow> string \<Rightarrow> string \<Rightarrow> string \<Rightarrow> run act" where
  "reviseRun E i workspace actor txt =
     bnd (getRun E i workspace (Some actor)) (\<lambda>r.
     bnd (check (state r \<in> {MANIFEST_CREATING, MANIFEST_VALIDATING} \<and> \<not> agentTurnPending r)
            (ConflictException ''Run cannot accept a revision now'')) (\<lambda>_.
     mutate E i workspace (stateVersion r) actor (\<lambda>_. ret (change
       \<lparr>ch_state := (if state r = MANIFEST_VALIDATING then Some MANIFEST_CREATING else None),
        ch_updates := revise_updates txt,
        ch_event_type := Some ''ManifestRevisionRequestedEvent''\<rparr>))))"

datatype decision = Approved | Rejected

definition handleApprovalEvent :: "env \<Rightarrow> string \<Rightarrow> string \<Rightarrow> string \<Rightarrow> decision \<Rightarrow> string option \<Rightarrow> run act" where
  "handleApprovalEvent E i workspace actor dec reason =
     bnd (getRun E i workspace (Some actor)) (\<lambda>r.
     bnd (check (state r = APPROVING) (ConflictException ''Run is not waiting for approval'')) (\<lambda>_.
     bnd (check (\<not> (dec = Rejected \<and> (case reason of None \<Rightarrow> True | Some s \<Rightarrow> trim s = [])))
            (ConflictException ''Reason is required when rejecting an approval'')) (\<lambda>_.
     bnd (check (dec \<noteq> Approved)
            (NotImplementedException (''Execution is not yet available: plan confirmation is not implemented, '' @
               ''so an approved run cannot advance to EXECUTING.''))) (\<lambda>_.
     mutate E i workspace (stateVersion r) actor (\<lambda>_. ret (change
       \<lparr>ch_state := Some MANIFEST_CREATING,
        ch_updates := [U_approvalStatus ''rejected'', U_policyDecision None, U_manifestValidatedVersion None,
          U_manifestConfirmedVersion None, U_manifestConfirmedAt None, U_manifestValidationAttempts 0,
          U_agentInput (Some (''Revise the proposal in response to the approval rejection: '' @ the reason)),
          U_agentTurnPending True],
        ch_event_type := Some ''ApprovalDecisionEvent'',
        ch_payload := JObj [(''decision'', JStr ''rejected''), (''reason'', JStr (the reason))]\<rparr>))))))"

end
