(* ===== verification/Planning_Clients.thy ===== *)
theory Planning_Clients
  imports Runs
begin

text \<open>
  The clients the planning worker uses (\<open>services/planning-clients.ts\<close>): the Terraform
  generator, the cloud context, the planning agent and the manifest tools. The network is the
  field \<open>fetcher\<close> of the environment; requests are built and responses checked as in the source.
\<close>

section \<open>Configuration\<close>

record planning_config =
  agentUrl :: string
  cloudAccountUrl :: string
  policyUrl :: string
  mcpUrl :: string
  manifestUrl :: string
  serviceToken :: string
  policyServiceToken :: "string option"

definition env_or :: "(string \<Rightarrow> string option) \<Rightarrow> string \<Rightarrow> string \<Rightarrow> string" where
  "env_or vars k d = (case vars k of Some v \<Rightarrow> v | None \<Rightarrow> d)"

definition loadPlanningConfig :: "(string \<Rightarrow> string option) \<Rightarrow> exn + planning_config" where
  "loadPlanningConfig vars =
     (if \<not> given (vars ''ORCHESTRATOR_SERVICE_TOKEN'') then Inl (OtherError ''ORCHESTRATOR_SERVICE_TOKEN is required'')
      else Inr \<lparr>agentUrl = env_or vars ''AGENT_URL'' ''http://localhost:5000'',
                cloudAccountUrl = env_or vars ''CLOUD_ACCOUNT_SERVICE_URL'' ''http://localhost:8089'',
                policyUrl = env_or vars ''POLICY_SERVICE_URL'' ''http://localhost:8081'',
                mcpUrl = env_or vars ''MCP_URL'' ''http://localhost:5100'',
                manifestUrl = env_or vars ''STATE_SERVICE_URL'' ''http://localhost:8082'',
                serviceToken = the (vars ''ORCHESTRATOR_SERVICE_TOKEN''),
                policyServiceToken = (if given (vars ''POLICY_SERVICE_SECRET'') then vars ''POLICY_SERVICE_SECRET'' else None)\<rparr>)"

definition PlanningDependencyError :: exn where
  "PlanningDependencyError = OtherError ''A planning service is unavailable. Please try again.''"

section \<open>Terraform generation\<close>

definition generation_context_schema :: zod where
  "generation_context_schema = zobj
     [(''workspace_id'', zuuid), (''user_id'', zuuid), (''permissions'', ZArrAny (ZLit (JStr ''iac:write''))),
      (''request_id'', zuuid), (''correlation_id'', zuuid), (''session_id'', zuuid),
      (''idempotency_key'', ZStr [SMin 1, SMax 255])]"

definition generation_unavailable :: exn where
  "generation_unavailable =
     IacGenerationError ''IAC_DEPENDENCY_UNAVAILABLE'' ''Terraform generation is unavailable. Please try again.''"

text \<open>One byte of the body is one character of \<open>rs_text\<close>.\<close>

definition generateIac_request :: "env \<Rightarrow> planning_config \<Rightarrow> run \<Rightarrow> string \<Rightarrow> json \<Rightarrow> json act" where
  "generateIac_request E C r manifestId context =
     bnd (parse_or_throw E zuuid (JStr manifestId)) (\<lambda>mid.
     bnd (fetcher E
       \<lparr>rq_method = ''POST'', rq_url = drop_slash (mcpUrl C) @ ''/tools/generate_iac'',
        rq_headers = [(''Content-Type'', ''application/json''), (''X-Request-ID'', rid r),
          (''X-Correlation-ID'', correlationId r), (''Idempotency-Key'', iacIdempotencyKey r manifestId),
          (''Authorization'', ''Bearer '' @ serviceToken C)],
        rq_body = Some (JObj [(''context'', context), (''manifest_id'', mid)])\<rparr>) (\<lambda>response.
     bnd (check (response_ok response) generation_unavailable) (\<lambda>_.
     bnd (check (rs_text response \<noteq> [] \<and> length (rs_text response) \<le> 8 * 1024 * 1024) generation_unavailable) (\<lambda>_.
     response_json response))))"

definition client_generateIac :: "env \<Rightarrow> planning_config \<Rightarrow> run \<Rightarrow> string \<Rightarrow> json act" where
  "client_generateIac E C r manifestId =
     bnd (parse_or_throw E generation_context_schema (JObj
       [(''workspace_id'', JStr (workspaceId r)), (''user_id'', JStr (requesterId r)), (''permissions'', jstrs [''iac:write'']),
        (''request_id'', JStr (rid r)), (''correlation_id'', JStr (correlationId r)), (''session_id'', JStr (sessionId r)),
        (''idempotency_key'', JStr (iacIdempotencyKey r manifestId))])) (\<lambda>context.
     catching (generateIac_request E C r manifestId context) (\<lambda>_. throw generation_unavailable))"

section \<open>Requests\<close>

definition planning_request :: "env \<Rightarrow> planning_config \<Rightarrow> string \<Rightarrow> string \<Rightarrow> run \<Rightarrow> json \<Rightarrow> json act" where
  "planning_request E C url path r body =
     bnd (fetcher E
       \<lparr>rq_method = (if body = JUndef then ''GET'' else ''POST''), rq_url = drop_slash url @ path,
        rq_headers = [(''Content-Type'', ''application/json''), (''X-Request-ID'', rid r),
            (''X-Correlation-ID'', correlationId r)] @
          (if url = manifestUrl C \<or> url = agentUrl C \<or> url = cloudAccountUrl C
           then [(''Authorization'', ''Bearer '' @ serviceToken C)] else []),
        rq_body = (if body = JUndef then None else Some body)\<rparr>) (\<lambda>response.
     bnd (check (response_ok response) PlanningDependencyError) (\<lambda>_. response_json response))"

definition run_context :: "run \<Rightarrow> json" where
  "run_context r = JObj
     [(''workspace_id'', JStr (workspaceId r)), (''user_id'', JStr (requesterId r)),
      (''permissions'', jstrs [''manifest:read'', ''manifest:write'']), (''request_id'', JStr (rid r)),
      (''correlation_id'', JStr (correlationId r)), (''session_id'', JStr (sessionId r)),
      (''idempotency_key'', JStr (''manifest:'' @ rid r @ '':'' @ show_int (stateVersion r)))]"

section \<open>Cloud context\<close>

definition capability_schema :: zod where
  "capability_schema = zobj
     [(''workspace_id'', zuuid),
      (''accounts'', ZArrAny (zobj
         [(''id'', zuuid), (''provider'', ZEnum [''aws'', ''azure'', ''gcp'']),
          (''status'', ZEnum [''pending'', ''active'', ''failed'', ''disconnected'']), (''account_alias'', zs),
          (''available_regions'', ZArrAny zs1), (''checked_at'', ZNullable zdatetime), (''execution_ready'', ZBool)]))]"

definition usable_account :: "json \<Rightarrow> bool" where
  "usable_account a = (jget a ''status'' = JStr ''active'' \<and> truthy (jget a ''checked_at'') \<and>
                       arr_of (jget a ''available_regions'') \<noteq> [])"

definition context_account :: "run \<Rightarrow> json \<Rightarrow> json" where
  "context_account r a = JObj
     [(''id'', jget a ''id''), (''workspace_id'', JStr (workspaceId r)), (''provider'', jget a ''provider''),
      (''label'', jget a ''account_alias''), (''status'', JStr ''active''), (''verified_at'', jget a ''checked_at''),
      (''supported_regions'', jget a ''available_regions''), (''resource_counts'', JNull), (''quota_limits'', JNull)]"

definition loadCloudContext :: "env \<Rightarrow> planning_config \<Rightarrow> run \<Rightarrow> json act" where
  "loadCloudContext E C r =
     bnd (planning_request E C (mcpUrl C) ''/tools/get_cloud_account_capabilities'' r
            (JObj [(''context'', spread (run_context r) [(''permissions'', jstrs [''cloud:read''])])])) (\<lambda>raw.
     bnd (parse_or_throw E capability_schema raw) (\<lambda>body.
     bnd (check (jget body ''workspace_id'' = JStr (workspaceId r)) PlanningDependencyError) (\<lambda>_.
     let accounts = map (context_account r) (filter usable_account (arr_of (jget body ''accounts''))) in
     bnd (check (accounts \<noteq> []) NoConnectedProviderError) (\<lambda>_.
     parse_or_throw E cloudContextSchema (JObj
       [(''connected_providers'', JArr (uniq (map (\<lambda>a. jget a ''provider'') accounts))),
        (''active_accounts'', JArr accounts)])))))"

section \<open>Agent\<close>

definition createAgentSession :: "env \<Rightarrow> planning_config \<Rightarrow> run \<Rightarrow> string act" where
  "createAgentSession E C r =
     bnd (planning_request E C (agentUrl C) ''/v1/sessions'' r (JObj
       [(''organization_id'', JStr (workspaceId r)), (''request_id'', JStr (rid r)),
        (''execution_context'', JObj
           [(''workspace_id'', JStr (workspaceId r)), (''user_id'', JStr (requesterId r)),
            (''policy_context'', policyRequirements r), (''cloud_context'', cloudContext r)])])) (\<lambda>raw.
     bnd (parse_or_throw E (zobj [(''session'', zobj [(''session_id'', zuuid)])]) raw) (\<lambda>body.
     ret (str_of (jget (jget body ''session'') ''session_id''))))"

definition agentTurn :: "env \<Rightarrow> planning_config \<Rightarrow> run \<Rightarrow> string \<Rightarrow> json act" where
  "agentTurn E C r message =
     bnd (check (given (agentSessionId r)) PlanningDependencyError) (\<lambda>_.
     bnd (planning_request E C (agentUrl C) (''/v1/sessions/'' @ the (agentSessionId r) @ ''/turns'') r
            (JObj [(''message'', JStr message)])) (\<lambda>raw.
     bnd (parse_or_throw E agentResponseSchema raw) (\<lambda>body.
     let result = jget body ''result'' in
     bnd (check (jget result ''request_id'' = JStr (rid r))
            (OtherError ''Agent response could not be correlated to this run.'')) (\<lambda>_.
     parse_or_throw E agentEnvelopeSchema result))))"

section \<open>Manifests\<close>

definition tool_error_schema :: zod where
  "tool_error_schema = ZUnion [zs,
     ZTrans (zobj [(''field'', zs), (''code'', zs), (''message'', zs), (''allowed_values'', ZNullish (ZArrAny ZUnknown))])
       (\<lambda>e. JStr (str_of (jget e ''field'') @ '': '' @ str_of (jget e ''code'') @ '': '' @ str_of (jget e ''message'')))]"

definition tool_result_schema :: zod where
  "tool_result_schema = ZRefine
     (zobj [(''valid'', ZBool), (''errors'', ZDefault (ZArrAny tool_error_schema) (JArr []))])
     (\<lambda>v. jget v ''valid'' = JBool (arr_of (jget v ''errors'') = []))"

fun validate_with :: "env \<Rightarrow> planning_config \<Rightarrow> run \<Rightarrow> json \<Rightarrow> string list \<Rightarrow> (bool \<times> string list) act" where
  "validate_with E C r manifest [] = ret (True, [])"
| "validate_with E C r manifest (tool # tools) =
     bnd (planning_request E C (mcpUrl C) (''/tools/'' @ tool) r (JObj
       [(''context'', run_context r), (''manifest'', manifest), (''cloud_context'', cloudContext r),
        (''policy_context'', policyRequirements r)])) (\<lambda>raw.
     bnd (parse_or_throw E tool_result_schema raw) (\<lambda>v.
     if jget v ''valid'' = JBool True then validate_with E C r manifest tools
     else ret (False, map str_of (arr_of (jget v ''errors'')))))"

definition validateManifest :: "env \<Rightarrow> planning_config \<Rightarrow> run \<Rightarrow> json \<Rightarrow> (bool \<times> string list) act" where
  "validateManifest E C r manifest = validate_with E C r manifest [''validate_manifest'', ''validate_manifest_schema'']"

definition storeManifest :: "env \<Rightarrow> planning_config \<Rightarrow> run \<Rightarrow> json \<Rightarrow> json act" where
  "storeManifest E C r manifest =
     bnd (planning_request E C (manifestUrl C) ''/v1/manifests'' r (JObj
       [(''context'', run_context r), (''run_id'', JStr (rid r)), (''expected_state_version'', jint (stateVersion r)),
        (''content'', manifest)])) (\<lambda>raw.
     bnd (parse_or_throw E (zobj [(''version'', ZNum [NInt, NPositive])]) raw) (\<lambda>v. ret (jget v ''version'')))"

datatype manifest_result = Valid int | Invalid "string list"

definition created_schema :: zod where
  "created_schema = ZUnion
     [zobj [(''manifest_id'', zuuid), (''version'', ZNum [NInt, NPositive]), (''url'', ZStr [SFormat URL]),
            (''validation'', zobj [(''valid'', ZLit (JBool True))])],
      zobj [(''valid'', ZLit (JBool False)),
            (''errors'', ZDefault (ZArrAny (ZUnion [zs,
               zobj [(''field'', ZOpt zs), (''message'', ZOpt zs), (''code'', ZOpt zs)]])) (JArr []))]]"

definition describe_error :: "json \<Rightarrow> string" where
  "describe_error e = (case e of
     JStr s \<Rightarrow> s
   | _ \<Rightarrow> str_of (coalesce (jget e ''field'') (JStr ''manifest'')) @ '': '' @
         str_of (coalesce (jget e ''message'') (coalesce (jget e ''code'') (JStr ''validation failed''))))"

definition version_of :: "json \<Rightarrow> int" where
  "version_of v = (case v of JNum n \<Rightarrow> \<lfloor>n\<rfloor> | _ \<Rightarrow> 0)"

definition createManifest :: "env \<Rightarrow> planning_config \<Rightarrow> run \<Rightarrow> json \<Rightarrow> manifest_result act" where
  "createManifest E C r output =
     bnd (planning_request E C (mcpUrl C) ''/tools/create_manifest'' r (JObj
       [(''context'', run_context r), (''prompt'', JStr (prompt r)),
        (''policies_enabled'', JBool (jget (policyRequirements r) ''enabled'' = JBool True)),
        (''policy_requirements'', policyRequirements r), (''cloud_context'', cloudContext r),
        (''clarifications'', JArr (answersHistory r)), (''agent_output'', output)])) (\<lambda>raw.
     bnd (parse_or_throw E created_schema raw) (\<lambda>response.
     ret (if ''valid'' \<in> fst ` set (js_fields response)
          then Invalid (map describe_error (arr_of (jget response ''errors'')))
          else Valid (version_of (jget response ''version'')))))"

end
