(* ===== verification/Runs_Worker.thy ===== *)
theory Runs_Worker
  imports Planning_Clients
begin

text \<open>
  The background work on runs (\<open>state-machine/runs.service.ts\<close>): polling, the expiry of
  clarifications, the planning stages up to the agent, the agent's turns with at most three
  drafts, and the generation of Terraform. A \<open>let run\<close> that a \<open>catch\<close> block reads is the
  argument of the handler of each \<open>attempting\<close>.
\<close>

section \<open>Signals\<close>

text \<open>
  \<open>AbortSignal.any([AbortSignal.timeout(...), this.shutdown.signal])\<close>: the timeout is fresh,
  the shutdown signal fires when the module is destroyed.
\<close>

definition new_signal :: "unit act" where
  "new_signal = modify (\<lambda>s. s\<lparr>aborted := False\<rparr>)"

definition signal_aborted :: "bool act" where
  "signal_aborted = gets (\<lambda>s. aborted s \<or> stopping s)"

section \<open>Terraform generation\<close>

definition find_manifest :: "run \<Rightarrow> db \<Rightarrow> string option" where
  "find_manifest r d = map_option mf_id
     (List.find (\<lambda>m. mf_run_id m = rid r \<and> Some (mf_version m) = manifestVersion r \<and>
        list_ex (\<lambda>x. rid x = mf_run_id m \<and> workspaceId x = workspaceId r) (runs d)) (manifests d))"

definition confirmed_manifest :: "env \<Rightarrow> run \<Rightarrow> string act" where
  "confirmed_manifest E r =
     bnd (lift_result (assertConfirmedManifest r)) (\<lambda>_.
     bnd (db_query E (find_manifest r)) (\<lambda>m.
     bnd (check (given m) (IacGenerationError ''IAC_MANIFEST_NOT_FOUND''
            ''The confirmed manifest could not be found for this run.'')) (\<lambda>_. ret (the m))))"

definition jversion :: "int option \<Rightarrow> json" where
  "jversion v = (case v of None \<Rightarrow> JNull | Some i \<Rightarrow> jint i)"

definition iac_progress :: "env \<Rightarrow> run \<Rightarrow> string \<Rightarrow> string \<Rightarrow> string \<Rightarrow> run act" where
  "iac_progress E r manifestId stage message =
     mutate E (rid r) (workspaceId r) (stateVersion r) ''orchestrator'' (\<lambda>_. ret (change
       \<lparr>ch_event_type := Some ''IacProgressEvent'',
        ch_payload := JObj [(''manifest_id'', JStr manifestId), (''manifest_version'', jversion (manifestVersion r)),
                            (''stage'', JStr stage), (''message'', JStr message)]\<rparr>))"

definition generated :: "env \<Rightarrow> planning_config \<Rightarrow> run \<Rightarrow> string \<Rightarrow> json act" where
  "generated E C r manifestId =
     bnd (client_generateIac E C r manifestId) (\<lambda>response.
     bnd signal_aborted (\<lambda>a. bnd (check (\<not> a) (OtherError ''Generation aborted'')) (\<lambda>_. ret response)))"

definition accept_artifact :: "env \<Rightarrow> run \<Rightarrow> string \<Rightarrow> json \<Rightarrow> run act" where
  "accept_artifact E r manifestId response =
     bnd (lift_result (verifyIacArtifact (base E) response r manifestId)) (\<lambda>artifact.
     mutate E (rid r) (workspaceId r) (stateVersion r) ''orchestrator'' (\<lambda>_. ret (change
       \<lparr>ch_state := Some PLAN_CREATING,
        ch_updates := [U_iacArtifactId (Some (str_of (jget artifact ''iac_artifact_id'')))],
        ch_payload := JObj [(''iac_artifact_id'', jget artifact ''iac_artifact_id''), (''manifest_id'', JStr manifestId),
                            (''manifest_version'', jversion (manifestVersion r)), (''hash'', jget artifact ''hash'')]\<rparr>)))"

definition iac_error_code :: "exn \<Rightarrow> string" where
  "iac_error_code e = (case e of IacGenerationError c m \<Rightarrow> c | _ \<Rightarrow> ''IAC_GENERATION_FAILED'')"

definition iac_error_message :: "exn \<Rightarrow> string" where
  "iac_error_message e = (case e of IacGenerationError c m \<Rightarrow> m
     | _ \<Rightarrow> ''Terraform generation could not be completed. Please try again.'')"

definition iac_failed :: "env \<Rightarrow> run \<Rightarrow> exn \<Rightarrow> unit act" where
  "iac_failed E r e =
     bnd (gets stopping) (\<lambda>stopped.
     if stopped \<or> is_conflict e then ret ()
     else bnd (getRun E (rid r) (workspaceId r) None) (\<lambda>current.
       if stateVersion current \<noteq> stateVersion r \<or> state current \<noteq> IAC_GENERATING then ret ()
       else bnd signal_aborted (\<lambda>a.
         catching
           (bnd (transitionState E (rid r) (workspaceId r) (stateVersion r) FAILED ''orchestrator''
              [U_errorCode (Some (if a then ''IAC_TIMEOUT'' else iac_error_code e)),
               U_errorMessage (Some (if a then ''Terraform generation timed out. Please try again.''
                                     else iac_error_message e))]) (\<lambda>_. ret ()))
           (\<lambda>failure. if is_conflict failure then ret () else throw failure))))"

definition generateIac :: "env \<Rightarrow> planning_config \<Rightarrow> run \<Rightarrow> unit act" where
  "generateIac E C r0 =
     bnd new_signal (\<lambda>_.
     attempting (confirmed_manifest E r0) (iac_failed E r0) (\<lambda>manifestId.
     attempting (iac_progress E r0 manifestId ''generation'' ''Generating Terraform templates...'') (iac_failed E r0) (\<lambda>r1.
     attempting (generated E C r1 manifestId) (iac_failed E r1) (\<lambda>response.
     attempting (iac_progress E r1 manifestId ''validation'' ''Validating generated output...'') (iac_failed E r1) (\<lambda>r2.
     attempting (accept_artifact E r2 manifestId response) (iac_failed E r2) (\<lambda>_. ret ()))))))"

section \<open>The agent\<close>

definition context_complete :: "run \<Rightarrow> bool" where
  "context_complete r = (policyRequirementsLoadedAt r \<noteq> None \<and> truthy (policyRequirements r) \<and>
                         cloudContextLoadedAt r \<noteq> None \<and> truthy (cloudContext r))"

definition payload_rejected :: "run \<Rightarrow> string \<Rightarrow> string \<Rightarrow> (string \<times> string) list \<Rightarrow> run_change" where
  "payload_rejected r componentType componentVersion issues =
     (let message = ''The assistant response could not be safely displayed.'' in
      change \<lparr>ch_state := Some FAILED,
        ch_updates := [U_errorCode (Some ''COMPONENT_PAYLOAD_INVALID''), U_errorMessage (Some message)],
        ch_event_type := Some ''ComponentPayloadRejectedEvent'',
        ch_payload := JObj [(''error_code'', JStr ''COMPONENT_PAYLOAD_INVALID''), (''error_message'', JStr message),
          (''component_type'', JStr componentType), (''component_version'', JStr componentVersion),
          (''validation_issues'', JArr (map (\<lambda>(p, c). JObj [(''path'', JStr p), (''code'', JStr c)]) issues))]\<rparr>)"

definition orchestrate :: "env \<Rightarrow> run \<Rightarrow> run_change \<Rightarrow> run act" where
  "orchestrate E r c = mutate E (rid r) (workspaceId r) (stateVersion r) ''orchestrator'' (\<lambda>_. ret c)"

definition agent_failed :: "env \<Rightarrow> run \<Rightarrow> exn \<Rightarrow> unit act" where
  "agent_failed E r e =
     bnd (gets stopping) (\<lambda>stopped.
     if stopped \<or> is_conflict e then ret ()
     else bnd (getRun E (rid r) (workspaceId r) None) (\<lambda>current.
       if stateVersion current \<noteq> stateVersion r \<or> isTerminalWorkflowState (state current) then ret ()
       else (case e of
         ComponentPayloadValidationError ty ver issues \<Rightarrow> bnd (orchestrate E r (payload_rejected r ty ver issues)) (\<lambda>_. ret ())
       | _ \<Rightarrow> bnd signal_aborted (\<lambda>a.
           bnd (transitionState E (rid r) (workspaceId r) (stateVersion r) FAILED ''orchestrator''
             [U_errorCode (Some (if a then ''AGENT_TIMEOUT'' else ''AGENT_FAILED'')),
              U_errorMessage (Some (if a then ''Agent request timed out after 120 seconds.''
                                    else ''The agent could not complete this request. Please try again.''))]) (\<lambda>_. ret ())))))"

definition manifest_ready :: "env \<Rightarrow> run \<Rightarrow> json \<Rightarrow> int \<Rightarrow> run act" where
  "manifest_ready E r output version =
     bnd (lift_result (manifestComponents (base E) (jget output ''manifest'') (rid r) version)) (\<lambda>components.
     orchestrate E r (change
       \<lparr>ch_state := Some MANIFEST_VALIDATING,
        ch_updates := [U_manifestVersion (Some version), U_manifestValidatedVersion (Some version), U_agentTurnPending False,
          U_agentInput None, U_manifestConfirmedVersion None, U_manifestConfirmedAt None],
        ch_event_type := Some ''ManifestReadyEvent'',
        ch_payload := JObj [(''manifest_version'', jint version), (''message'', jget output ''message''),
                            (''components'', JArr components)]\<rparr>))"

definition turn_payload :: "env \<Rightarrow> run \<Rightarrow> string \<Rightarrow> json \<Rightarrow> exn + json" where
  "turn_payload E r type output =
     (if type = ''component_payload''
      then rbind (validateComponent (base E) (str_of (jget output ''component_id'')) (jget output ''payload'')
                    (str_of (jget output ''component_version''))) (\<lambda>d.
           Inr (JObj [(''component'', JObj [(''type'', jget output ''component_id''),
             (''version'', jget output ''component_version''), (''requestId'', JStr (rid r)), (''data'', d)])]))
      else Inr output)"

definition turn_finished :: "env \<Rightarrow> run \<Rightarrow> string \<Rightarrow> json \<Rightarrow> run act" where
  "turn_finished E r type output =
     bnd (lift_result (turn_payload E r type output)) (\<lambda>payload.
     orchestrate E r (change
       \<lparr>ch_updates := [U_agentTurnPending False, U_agentInput None],
        ch_event_type := Some (if type = ''component_payload'' then ''ComponentPayloadEvent'' else ''AssistantMessageEvent''),
        ch_payload := payload\<rparr>))"

definition draft_exhausted :: "env \<Rightarrow> run \<Rightarrow> int \<Rightarrow> run act" where
  "draft_exhausted E r attempts =
     transitionState E (rid r) (workspaceId r) (stateVersion r) FAILED ''orchestrator''
       [U_manifestValidationAttempts attempts, U_errorCode (Some ''MANIFEST_VALIDATION_FAILED''),
        U_errorMessage (Some ''The manifest could not be validated after three attempts.'')]"

definition draft_retry :: "env \<Rightarrow> run \<Rightarrow> int \<Rightarrow> run act" where
  "draft_retry E r attempts =
     orchestrate E r (change
       \<lparr>ch_updates := [U_manifestValidationAttempts attempts],
        ch_event_type := Some ''ManifestValidationFailedEvent''\<rparr>)"

definition revise_message :: "env \<Rightarrow> string list \<Rightarrow> string" where
  "revise_message E errors =
     ''Revise the draft to fix these validation errors: '' @ stringify (num_str (base E)) (jstrs errors)"

text \<open>
  The loop \<open>for (;;)\<close>. It goes round only after \<open>draft_retry\<close>, which counts an attempt, so the
  fuel is the number of attempts left.
\<close>

fun agent_loop :: "env \<Rightarrow> planning_config \<Rightarrow> nat \<Rightarrow> run \<Rightarrow> string \<Rightarrow> unit act" where
  "agent_loop E C 0 r message = throw (OtherError ''out of fuel'')"
| "agent_loop E C (Suc n) r message =
     attempting (agentTurn E C r message) (agent_failed E r) (\<lambda>output.
     let type = str_of (jget output ''type''); content = jget output ''data'' in
     if type = ''clarification_question'' then attempting (suspendRun E r content) (agent_failed E r) (\<lambda>_. ret ())
     else if type = ''error'' then agent_failed E r (OtherError ''Agent returned error'')
     else if type = ''manifest_draft'' then
       attempting (createManifest E C r content) (agent_failed E r) (\<lambda>created.
       case created of
         Invalid errors \<Rightarrow>
           (let attempts = manifestValidationAttempts r + 1 in
            if attempts \<ge> 3 then attempting (draft_exhausted E r attempts) (agent_failed E r) (\<lambda>_. ret ())
            else attempting (draft_retry E r attempts) (agent_failed E r) (\<lambda>r'.
                 agent_loop E C n r' (revise_message E errors)))
       | Valid version \<Rightarrow> attempting (manifest_ready E r content version) (agent_failed E r) (\<lambda>_. ret ()))
     else attempting (turn_finished E r type content) (agent_failed E r) (\<lambda>_. ret ()))"

definition draft_fuel :: "run \<Rightarrow> nat" where
  "draft_fuel r = Suc (nat (2 - manifestValidationAttempts r))"

definition agent_session :: "env \<Rightarrow> planning_config \<Rightarrow> run \<Rightarrow> run act" where
  "agent_session E C r =
     bnd (check (context_complete r) (OtherError ''Run context is incomplete'')) (\<lambda>_.
     if given (agentSessionId r) then ret r
     else bnd (createAgentSession E C r) (\<lambda>session.
       orchestrate E r (change \<lparr>ch_updates := [U_agentSessionId (Some session)],
                                ch_event_type := Some ''AgentSessionLinkedEvent''\<rparr>)))"

definition dispatchAgent :: "env \<Rightarrow> planning_config \<Rightarrow> run \<Rightarrow> unit act" where
  "dispatchAgent E C r0 =
     bnd new_signal (\<lambda>_.
     attempting (agent_session E C r0) (agent_failed E r0) (\<lambda>r.
     agent_loop E C (draft_fuel r) r (case agentInput r of Some m \<Rightarrow> m | None \<Rightarrow> prompt r)))"

section \<open>Planning stages\<close>

definition settings_requirements :: "bool \<Rightarrow> policy_requirements option \<Rightarrow> json" where
  "settings_requirements enabled policy = JObj
     [(''enabled'', JBool enabled),
      (''allowed_regions'', case policy of Some p \<Rightarrow> JArr (pr_allowedRegions p) | None \<Rightarrow> JArr []),
      (''max_budget'', case policy of Some p \<Rightarrow> (case pr_maxBudget p of Some n \<Rightarrow> JNum n | None \<Rightarrow> JNull) | None \<Rightarrow> JNull),
      (''required_tags'', case policy of Some p \<Rightarrow> pr_requiredTags p | None \<Rightarrow> JObj []),
      (''prohibited_resource_types'', case policy of Some p \<Rightarrow> JArr (pr_prohibitedResourceTypes p) | None \<Rightarrow> JArr []),
      (''required_encryption'', case policy of Some p \<Rightarrow> JBool (pr_requiredEncryption p) | None \<Rightarrow> JBool False),
      (''required_backup'', case policy of Some p \<Rightarrow> JBool (pr_requiredBackup p) | None \<Rightarrow> JBool False)]"

definition stage_received :: "env \<Rightarrow> run \<Rightarrow> run act" where
  "stage_received E r =
     (if state r = RECEIVED
      then transitionState E (rid r) (workspaceId r) (stateVersion r) POLICY_LOADED ''orchestrator'' [] else ret r)"

definition stage_policy :: "env \<Rightarrow> planning_config \<Rightarrow> run \<Rightarrow> run act" where
  "stage_policy E C r =
     (if state r = POLICY_LOADED then
        bnd (db_query E (find_workspace (workspaceId r))) (\<lambda>row.
        bnd (the_or row (NotFoundException ''Workspace not found'')) (\<lambda>k.
        bnd (if policies_enabled k
             then bnd (getPolicyRequirements E (policyUrl C) (policyServiceToken C) (workspaceId r)) (\<lambda>p. ret (Some p))
             else ret None) (\<lambda>policy.
        bnd now (\<lambda>t.
        transitionState E (rid r) (workspaceId r) (stateVersion r) CLOUD_CONTEXT_LOADED ''orchestrator''
          [U_policyRequirements (settings_requirements (policies_enabled k) policy),
           U_policyRequirementsLoadedAt (Some t)]))))
      else ret r)"

definition stage_cloud :: "env \<Rightarrow> planning_config \<Rightarrow> run \<Rightarrow> run act" where
  "stage_cloud E C r =
     (if state r = CLOUD_CONTEXT_LOADED then
        bnd (loadCloudContext E C r) (\<lambda>raw.
        bnd (parse_or_throw E cloudContextSchema raw) (\<lambda>context.
        bnd now (\<lambda>t.
        transitionState E (rid r) (workspaceId r) (stateVersion r) MANIFEST_CREATING ''orchestrator''
          [U_cloudContext context, U_cloudContextLoadedAt (Some t)])))
      else ret r)"

definition stage_work :: "env \<Rightarrow> planning_config \<Rightarrow> run \<Rightarrow> unit act" where
  "stage_work E C r =
     bnd (if state r = MANIFEST_CREATING \<and> agentTurnPending r then dispatchAgent E C r else ret ()) (\<lambda>_.
     if state r = IAC_GENERATING then generateIac E C r else ret ())"

definition user_facing :: "exn \<Rightarrow> string option" where
  "user_facing e = (case e of NoConnectedProviderError \<Rightarrow> Some ''PROVIDER_REQUIRED''
     | PolicyDeniesAllRegionsError \<Rightarrow> Some ''POLICY_NO_ALLOWED_REGIONS'' | _ \<Rightarrow> None)"

definition planning_failed :: "env \<Rightarrow> run \<Rightarrow> exn \<Rightarrow> unit act" where
  "planning_failed E r e =
     bnd (gets stopping) (\<lambda>stopped.
     if stopped \<or> is_conflict e then ret ()
     else bnd (getRun E (rid r) (workspaceId r) None) (\<lambda>current.
       if stateVersion current \<noteq> stateVersion r \<or> isTerminalWorkflowState (state current) then ret ()
       else bnd (transitionState E (rid r) (workspaceId r) (stateVersion r) FAILED ''orchestrator''
              [U_errorCode (Some (case user_facing e of Some c \<Rightarrow> c | None \<Rightarrow> ''PLANNING_FAILED'')),
               U_errorMessage (Some (if user_facing e \<noteq> None then exn_message e
                                     else ''Planning could not be completed. Please try again.''))]) (\<lambda>_. ret ())))"

definition advance :: "env \<Rightarrow> planning_config \<Rightarrow> run \<Rightarrow> unit act" where
  "advance E C r0 =
     attempting (stage_received E r0) (planning_failed E r0) (\<lambda>r1.
     attempting (stage_policy E C r1) (planning_failed E r1) (\<lambda>r2.
     attempting (stage_cloud E C r2) (planning_failed E r2) (\<lambda>r3.
     attempting (stage_work E C r3) (planning_failed E r3) (\<lambda>_. ret ()))))"

text \<open>\<open>pg_try_advisory_lock\<close>; \<open>clients\<close> is absent when the service is built without them.\<close>

definition try_lock :: "env \<Rightarrow> string \<Rightarrow> bool act" where
  "try_lock E i = txn E (gets (lock_free E i))"

definition processRun :: "env \<Rightarrow> planning_config option \<Rightarrow> string \<Rightarrow> string \<Rightarrow> unit act" where
  "processRun E clients i workspace =
     bnd (try_lock E i) (\<lambda>locked.
     if \<not> locked then ret ()
     else bnd (getRun E i workspace None) (\<lambda>r.
       if state r = CLARIFYING then
         bnd now (\<lambda>t. if expired t r
           then bnd (transitionState E i workspace (stateVersion r) CANCELLED ''orchestrator'' []) (\<lambda>_. ret ())
           else ret ())
       else (case clients of
           None \<Rightarrow> ret ()
         | Some C \<Rightarrow> if isTerminalWorkflowState (state r) then ret () else advance E C r)))"

section \<open>Polling\<close>

definition pending_work :: "run \<Rightarrow> bool" where
  "pending_work r = (state r \<in> {RECEIVED, POLICY_LOADED, CLOUD_CONTEXT_LOADED, IAC_GENERATING} \<or>
                     (state r = MANIFEST_CREATING \<and> agentTurnPending r))"

fun process_all :: "env \<Rightarrow> planning_config option \<Rightarrow> (string \<times> string) list \<Rightarrow> unit act" where
  "process_all E clients [] = ret ()"
| "process_all E clients ((i, w) # rows) =
     bnd (gets stopping) (\<lambda>stopped.
     if stopped then ret ()
     else bnd (processRun E clients i w) (\<lambda>_. process_all E clients rows))"

definition processPendingRuns :: "env \<Rightarrow> planning_config option \<Rightarrow> unit act" where
  "processPendingRuns E clients =
     bnd (db_query E (\<lambda>d. map (\<lambda>r. (rid r, workspaceId r))
            (take 20 (sort_key updatedAt (filter pending_work (runs d)))))) (process_all E clients)"

fun expire_all :: "env \<Rightarrow> (string \<times> string \<times> int) list \<Rightarrow> unit act" where
  "expire_all E [] = ret ()"
| "expire_all E ((i, w, v) # rows) =
     bnd (gets stopping) (\<lambda>stopped.
     if stopped then ret ()
     else bnd (catching (bnd (transitionState E i w v CANCELLED ''orchestrator'' []) (\<lambda>_. ret ()))
                 (\<lambda>e. if is_conflict e then ret () else throw e)) (\<lambda>_. expire_all E rows))"

definition expireClarifications :: "env \<Rightarrow> unit act" where
  "expireClarifications E =
     bnd (txn E (gets (\<lambda>s. map (\<lambda>r. (rid r, workspaceId r, stateVersion r))
            (take 100 (filter (\<lambda>r. state r = CLARIFYING \<and> expired (clock s) r) (runs (tables s))))))) (expire_all E)"

end
