(* ===== verification/Runs_Machine.thy ===== *)
theory Runs_Machine
  imports Runs_Worker
begin

text \<open>
  What the run service guarantees. \<open>run_step\<close> says how one committed transaction may change the
  run table, every operation of \<open>Runs\<close> and \<open>Runs_Worker\<close> is shown to move along it, and the
  invariants of a run and the identity of a version are carried along the steps.
\<close>

section \<open>The transaction, taken apart\<close>

lemma publish_Inr:
  assumes "publish E r ty p s = (Inr u, t)"
  shows "\<exists>e. tables t = (tables s)\<lparr>outbox := outbox (tables s) @ [e]\<rparr> \<and> se_type e = ty \<and> se_workspace e = workspaceId r \<and>
     se_correlation e = correlationId r \<and> se_status e = Pending \<and> se_payload e = jsonb (base E) p"
  using assms by (auto simp: publish_def insert_outbox_def mnd)

definition mutation_payload :: "world \<Rightarrow> int \<Rightarrow> run \<Rightarrow> run_change \<Rightarrow> json" where
  "mutation_payload W tm r c = event_payload r (updated_row W tm c r) c"

lemma mutate_Inr:
  assumes "mutate E i w v a f s = (Inr r', t)"
  shows "\<exists>r c u e. find_run i w (tables (others E s)) = Some r \<and> stateVersion r = v \<and> f r (others E s) = (Inr c, u) \<and>
     (a \<noteq> ''orchestrator'' \<longrightarrow>
        has_role w a (if state r = APPROVING \<and> ch_state c \<noteq> Some CANCELLED then [''admin'', ''approver'']
                      else [''admin'', ''engineer'']) (tables u)) \<and>
     check_change (base E) r c (tables u) = Inr () \<and> r' = updated_row (base E) (clock u) c r \<and>
     run_constraints (tables u) r' \<and>
     se_type e = (case ch_event_type c of Some ty \<Rightarrow> ty | None \<Rightarrow> ''StateChangedEvent'') \<and> se_status e = Pending \<and>
     tables t = (let d = with_audit (base E) (mutation_audit r w a c (mutation_payload (base E) (clock u) r c))
                           (replace_run r' (tables u)) in d\<lparr>outbox := outbox d @ [e]\<rparr>)"
proof -
  let ?pay = "\<lambda>r c u. event_payload r (updated_row (base E) (clock u) c r) c"
  from assms obtain r c u s1 s2 where f: "find_run i w (tables (others E s)) = Some r" "stateVersion r = v"
      "f r (others E s) = (Inr c, u)"
    and p: "(if a \<noteq> ''orchestrator'' then assertMutationPermission w a (state r = APPROVING \<and> ch_state c \<noteq> Some CANCELLED)
             else ret ()) u = (Inr (), u)"
    and c: "check_change (base E) r c (tables u) = Inr ()"
    and w: "r' = updated_row (base E) (clock u) c r" "write_run r' u = (Inr (), s1)"
    and au: "executeAppend E (mutation_audit r w a c (?pay r c u)) s1 = (Inr (), s2)"
    and pu: "publish E r' (case ch_event_type c of Some ty \<Rightarrow> ty | None \<Rightarrow> ''StateChangedEvent'') (?pay r c u) s2 = (Inr (), t)"
    by (auto simp: mutate_def txn_Inr mutate_body_def mnd Let_def assertMutationPermission_def split: if_splits)
  from publish_Inr [OF pu] obtain e where e: "tables t = (tables s2)\<lparr>outbox := outbox (tables s2) @ [e]\<rparr>"
    "se_type e = (case ch_event_type c of Some ty \<Rightarrow> ty | None \<Rightarrow> ''StateChangedEvent'')" "se_status e = Pending" by blast
  show ?thesis
    using f p c w au e
    by (intro exI [of _ r] exI [of _ c] exI [of _ u] exI [of _ e])
      (auto simp: write_run_Inr executeAppend_Inr Let_def mutation_payload_def assertMutationPermission_def mnd split: if_splits)
qed

lemma mutate_Inl: "mutate E i w v a f s = (Inl e, t) \<Longrightarrow> tables t = tables (others E s)"
  unfolding mutate_def by (rule txn_rollback)

section \<open>Updates and stored columns\<close>

text \<open>The row without its JSON columns, on which stored and requested values agree.\<close>

definition plain :: "run \<Rightarrow> run" where
  "plain r = r\<lparr>policyRequirements := JNull, cloudContext := JNull, currentQuestion := JNull, answersHistory := []\<rparr>"

lemma plain_apply: "plain r = plain r' \<Longrightarrow> plain (apply_upd (stored_upd W u) r) = plain (apply_upd u r')"
  by (cases u; cases r; cases r') (simp_all add: plain_def)

lemma plain_stored: "plain (apply_all (map (stored_upd W) us) r) = plain (apply_all us r)"
proof -
  have "plain r = plain r' \<Longrightarrow> plain (fold apply_upd (map (stored_upd W) us) r) = plain (fold apply_upd us r')" for r r'
    by (induction us arbitrary: r r') (simp_all add: plain_apply)
  then show ?thesis by (simp add: apply_all_def)
qed

lemma plain_eqD:
  "plain r = plain r' \<Longrightarrow> rid r = rid r' \<and> workspaceId r = workspaceId r' \<and> sessionId r = sessionId r' \<and>
     manifestVersion r = manifestVersion r' \<and> manifestValidatedVersion r = manifestValidatedVersion r' \<and>
     manifestConfirmedVersion r = manifestConfirmedVersion r' \<and> manifestConfirmedAt r = manifestConfirmedAt r' \<and>
     iacArtifactId r = iacArtifactId r' \<and> clarificationExpiresAt r = clarificationExpiresAt r' \<and>
     policyRequirementsLoadedAt r = policyRequirementsLoadedAt r' \<and> cloudContextLoadedAt r = cloudContextLoadedAt r' \<and>
     completedAt r = completedAt r' \<and> requesterId r = requesterId r' \<and> prompt r = prompt r' \<and>
     manifestValidationAttempts r = manifestValidationAttempts r' \<and> correlationId r = correlationId r' \<and>
     idempotencyKey r = idempotencyKey r' \<and> createdAt r = createdAt r'"
  by (cases r; cases r') (simp add: plain_def)

text \<open>No update touches identity, state, version or completion.\<close>

definition frame :: "run \<Rightarrow> run" where
  "frame r = r\<lparr>iacArtifactId := None, approvalStatus := [], policyDecision := None, errorCode := None, errorMessage := None,
     policyRequirements := JNull, policyRequirementsLoadedAt := None, cloudContext := JNull, cloudContextLoadedAt := None,
     agentSessionId := None, agentTurnPending := False, agentInput := None, currentQuestion := JNull,
     clarificationExpiresAt := None, answersHistory := [], manifestValidationAttempts := 0, manifestVersion := None,
     manifestValidatedVersion := None, manifestConfirmedVersion := None, manifestConfirmedAt := None\<rparr>"

lemma frame_apply_all: "frame (apply_all us r) = frame r"
proof -
  have "frame (apply_upd u r) = frame r" for u r
    by (cases u; cases r) (simp_all add: frame_def)
  then have "frame (fold apply_upd us r) = frame r"
    by (induction us arbitrary: r) simp_all
  then show ?thesis by (simp add: apply_all_def)
qed

lemma frame_eqD:
  "frame r = frame r' \<Longrightarrow> rid r = rid r' \<and> workspaceId r = workspaceId r' \<and> sessionId r = sessionId r' \<and>
     requesterId r = requesterId r' \<and> prompt r = prompt r' \<and> correlationId r = correlationId r' \<and>
     idempotencyKey r = idempotencyKey r' \<and> createdAt r = createdAt r' \<and> state r = state r' \<and>
     stateVersion r = stateVersion r' \<and> completedAt r = completedAt r'"
  by (cases r; cases r') (simp add: frame_def)

lemmas apply_all_frame = frame_eqD [OF frame_apply_all]

definition next_state :: "run_change \<Rightarrow> run \<Rightarrow> workflow_state" where
  "next_state c r = (case ch_state c of Some to \<Rightarrow> to | None \<Rightarrow> state r)"

lemma updated_row_frame:
  "rid (updated_row W tm c r) = rid r \<and> workspaceId (updated_row W tm c r) = workspaceId r \<and>
   sessionId (updated_row W tm c r) = sessionId r \<and> requesterId (updated_row W tm c r) = requesterId r \<and>
   prompt (updated_row W tm c r) = prompt r \<and> correlationId (updated_row W tm c r) = correlationId r \<and>
   idempotencyKey (updated_row W tm c r) = idempotencyKey r \<and> createdAt (updated_row W tm c r) = createdAt r \<and>
   state (updated_row W tm c r) = next_state c r \<and> stateVersion (updated_row W tm c r) = stateVersion r + 1 \<and>
   completedAt (updated_row W tm c r) = (if isTerminalWorkflowState (next_state c r) then Some tm else completedAt r)"
  using apply_all_frame [of "map (stored_upd W) (ch_updates c)" r]
  by (simp add: updated_row_def next_state_def enter_state_def)

lemma updated_row_simps:
  "rid (updated_row W tm c r) = rid r" "workspaceId (updated_row W tm c r) = workspaceId r"
  "sessionId (updated_row W tm c r) = sessionId r" "state (updated_row W tm c r) = next_state c r"
  "stateVersion (updated_row W tm c r) = stateVersion r + 1"
  "completedAt (updated_row W tm c r) = (if isTerminalWorkflowState (next_state c r) then Some tm else completedAt r)"
  using updated_row_frame [of W tm c r] by simp_all

lemma enter_state_plain:
  "manifestVersion (enter_state st tm r) = manifestVersion r"
  "manifestValidatedVersion (enter_state st tm r) = manifestValidatedVersion r"
  "manifestConfirmedVersion (enter_state st tm r) = manifestConfirmedVersion r"
  "manifestConfirmedAt (enter_state st tm r) = manifestConfirmedAt r"
  "iacArtifactId (enter_state st tm r) = iacArtifactId r"
  "clarificationExpiresAt (enter_state st tm r) = clarificationExpiresAt r"
  "policyRequirementsLoadedAt (enter_state st tm r) = policyRequirementsLoadedAt r"
  "cloudContextLoadedAt (enter_state st tm r) = cloudContextLoadedAt r"
  "manifestValidationAttempts (enter_state st tm r) = manifestValidationAttempts r"
  by (simp_all add: enter_state_def)

lemma updated_row_plain:
  "manifestVersion (updated_row W tm c r) = manifestVersion (apply_all (ch_updates c) r)"
  "manifestValidatedVersion (updated_row W tm c r) = manifestValidatedVersion (apply_all (ch_updates c) r)"
  "manifestConfirmedVersion (updated_row W tm c r) = manifestConfirmedVersion (apply_all (ch_updates c) r)"
  "manifestConfirmedAt (updated_row W tm c r) = manifestConfirmedAt (apply_all (ch_updates c) r)"
  "iacArtifactId (updated_row W tm c r) = iacArtifactId (apply_all (ch_updates c) r)"
  "clarificationExpiresAt (updated_row W tm c r) = clarificationExpiresAt (apply_all (ch_updates c) r)"
  "policyRequirementsLoadedAt (updated_row W tm c r) = policyRequirementsLoadedAt (apply_all (ch_updates c) r)"
  "cloudContextLoadedAt (updated_row W tm c r) = cloudContextLoadedAt (apply_all (ch_updates c) r)"
  "manifestValidationAttempts (updated_row W tm c r) = manifestValidationAttempts (apply_all (ch_updates c) r)"
  using plain_eqD [OF plain_stored [of W "ch_updates c" r]] by (simp_all add: updated_row_def enter_state_plain)

section \<open>Steps of the run table\<close>

text \<open>
  What a change must respect beyond the gates: without a new state it leaves the evidence of a
  run that is generating or has generated code alone; a suspension sets an expiry; the two
  \<open>loaded_at\<close> marks are never cleared.
\<close>

definition evidence :: "run \<Rightarrow> int option \<times> int option \<times> int option \<times> int option \<times> string option" where
  "evidence r = (manifestVersion r, manifestValidatedVersion r, manifestConfirmedVersion r, manifestConfirmedAt r,
                 iacArtifactId r)"

definition lawful :: "run \<Rightarrow> run_change \<Rightarrow> bool" where
  "lawful r c =
     (let r' = apply_all (ch_updates c) r in
      (ch_state c = None \<and> state r \<in> {IAC_GENERATING, PLAN_CREATING} \<longrightarrow> evidence r' = evidence r) \<and>
      (ch_state c = None \<and> state r = CLARIFYING \<longrightarrow> clarificationExpiresAt r' = clarificationExpiresAt r) \<and>
      (ch_state c = Some CLARIFYING \<longrightarrow> clarificationExpiresAt r' \<noteq> None) \<and>
      (policyRequirementsLoadedAt r \<noteq> None \<longrightarrow> policyRequirementsLoadedAt r' \<noteq> None) \<and>
      (cloudContextLoadedAt r \<noteq> None \<longrightarrow> cloudContextLoadedAt r' \<noteq> None))"

definition keyed :: "db \<Rightarrow> bool" where
  "keyed d = distinct (map rid (runs d))"

definition grows :: "db \<Rightarrow> db \<Rightarrow> bool" where
  "grows d d' = (set (manifests d) \<subseteq> set (manifests d') \<and> set (artifacts d) \<subseteq> set (artifacts d'))"

inductive run_step :: "world \<Rightarrow> sys \<Rightarrow> sys \<Rightarrow> bool" for W where
  outside: "runs (tables t) = runs (tables s) \<Longrightarrow> grows (tables s) (tables t) \<Longrightarrow> run_step W s t"
| created: "runs (tables t) = runs (tables s) @ [new_run i ses w u txt cor k tm] \<Longrightarrow> i \<notin> rid ` set (runs (tables s)) \<Longrightarrow>
    Some k \<notin> idempotencyKey ` set (runs (tables s)) \<Longrightarrow> grows (tables s) (tables t) \<Longrightarrow> run_step W s t"
| changed: "r \<in> set (runs (tables s)) \<Longrightarrow> keyed (tables s) \<longrightarrow> lawful r c \<Longrightarrow> check_change W r c (tables s) = Inr () \<Longrightarrow>
    r' = updated_row W tm c r \<Longrightarrow> run_constraints (tables s) r' \<Longrightarrow>
    runs (tables t) = runs (replace_run r' (tables s)) \<Longrightarrow> grows (tables s) (tables t) \<Longrightarrow> run_step W s t"

inductive_cases run_step_E: "run_step W s t"

section \<open>Versions identify rows\<close>

definition same_identity :: "run \<Rightarrow> run \<Rightarrow> bool" where
  "same_identity r r' =
     (rid r' = rid r \<and> workspaceId r' = workspaceId r \<and> sessionId r' = sessionId r \<and> requesterId r' = requesterId r \<and>
      prompt r' = prompt r \<and> correlationId r' = correlationId r \<and> idempotencyKey r' = idempotencyKey r \<and>
      createdAt r' = createdAt r)"

definition succeeds :: "run \<Rightarrow> run \<Rightarrow> bool" where
  "succeeds r r' = (same_identity r r' \<and> (r' = r \<or> stateVersion r < stateVersion r' \<and> \<not> isTerminalWorkflowState (state r)))"

lemma succeeds_refl [simp]: "succeeds r r"
  by (simp add: succeeds_def same_identity_def)

lemma stays: "r \<in> A \<Longrightarrow> \<exists>r' \<in> A. succeeds r r'"
  using succeeds_refl by blast

lemma succeeds_trans: "succeeds a b \<Longrightarrow> succeeds b c \<Longrightarrow> succeeds a c"
  by (auto simp: succeeds_def same_identity_def)

lemma keyed_same: "keyed d \<Longrightarrow> r \<in> set (runs d) \<Longrightarrow> r' \<in> set (runs d) \<Longrightarrow> rid r = rid r' \<Longrightarrow> r = r'"
  by (auto simp: keyed_def distinct_map inj_on_def)

definition follows :: "db \<Rightarrow> db \<Rightarrow> bool" where
  "follows d d' = (keyed d = keyed d' \<and> (keyed d \<longrightarrow> (\<forall>r \<in> set (runs d). \<exists>r' \<in> set (runs d'). succeeds r r')))"

lemma follows_refl [simp]: "follows d d"
  by (auto simp: follows_def intro: stays)

lemma follows_trans: "follows a b \<Longrightarrow> follows b c \<Longrightarrow> follows a c"
  unfolding follows_def by (meson succeeds_trans)

lemma check_change_open: "check_change W r c d = Inr u \<Longrightarrow> \<not> isTerminalWorkflowState (state r)"
  by (auto simp: check_change_def Let_def mnd split: option.splits sum.splits dest: assertTransition_not_terminal)

lemma updated_row_succeeds: "check_change W r c d = Inr u \<Longrightarrow> succeeds r (updated_row W tm c r)"
  using updated_row_frame [of W tm c r] check_change_open [of W r c d u]
  by (simp add: succeeds_def same_identity_def)

lemma replace_succeeds:
  assumes k: "keyed d" and r: "r \<in> set (runs d)" and su: "succeeds r r'" and x: "x \<in> set (runs d)"
  shows "\<exists>x' \<in> set (runs (replace_run r' d)). succeeds x x'"
proof (cases "rid x = rid r'")
  case True
  with keyed_same [OF k x r] su have "x = r" by (simp add: succeeds_def same_identity_def)
  moreover from True x have "rid r' \<in> rid ` set (runs d)" by (metis imageI)
  ultimately show ?thesis using su by (auto simp: set_replace_run intro!: bexI [of _ r'])
next
  case False
  with x show ?thesis by (auto simp: set_replace_run intro!: bexI [of _ x])
qed

lemma step_follows: "run_step W s t \<Longrightarrow> follows (tables s) (tables t)"
proof (induction rule: run_step.induct)
  case (outside t s)
  then show ?case by (auto simp: follows_def keyed_def intro: stays)
next
  case (created t s i ses w u pr cor k tm)
  then show ?case by (auto simp: follows_def keyed_def new_run_def intro: stays)
next
  case (changed r s c r' tm t)
  have su: "succeeds r r'" using changed updated_row_succeeds by blast
  have "keyed (tables s) = keyed (tables t)" using changed(6) by (simp add: keyed_def)
  with su changed(1,6) replace_succeeds show ?case unfolding follows_def by metis
qed

lemma steps_follow: "(run_step W)\<^sup>*\<^sup>* s t \<Longrightarrow> follows (tables s) (tables t)"
  by (induction rule: rtranclp_induct) (auto intro: follows_trans step_follows)

text \<open>Idempotency keys stay unique.\<close>

definition unique_keys :: "db \<Rightarrow> bool" where
  "unique_keys d = distinct (map idempotencyKey (runs d))"

lemma step_unique_keys: "run_step W s t \<Longrightarrow> keyed (tables s) \<Longrightarrow> unique_keys (tables s) \<Longrightarrow> unique_keys (tables t)"
proof (induction rule: run_step.induct)
  case (outside t s)
  then show ?case by (simp add: unique_keys_def)
next
  case (created t s i ses w u pr cor k tm)
  then show ?case by (auto simp: unique_keys_def new_run_def)
next
  case (changed r s c r' tm t)
  have "idempotencyKey (if rid x = rid r' then r' else x) = idempotencyKey x" if "x \<in> set (runs (tables s))" for x
  proof (cases "rid x = rid r'")
    case True
    with changed(4) have "rid x = rid r" by (simp add: updated_row_frame)
    with keyed_same [OF changed(8) that changed(1)] have "x = r" .
    then show ?thesis using changed(4) updated_row_frame by simp
  qed simp
  then have "map idempotencyKey (runs (replace_run r' (tables s))) = map idempotencyKey (runs (tables s))"
    by (simp add: replace_run_def)
  with changed show ?case by (simp add: unique_keys_def)
qed

text \<open>Hence a row seen at some version is the row found later at that version.\<close>

lemma version_identifies:
  assumes "(run_step W)\<^sup>*\<^sup>* s t" and "keyed (tables s)" and "r \<in> set (runs (tables s))"
    and "r' \<in> set (runs (tables t))" and "rid r' = rid r" and "stateVersion r' = stateVersion r"
  shows "r' = r"
proof -
  from steps_follow [OF assms(1)] assms(2,3) obtain x where k: "keyed (tables t)" and x: "x \<in> set (runs (tables t))" "succeeds r x"
    by (auto simp: follows_def)
  from keyed_same [OF k assms(4) x(1)] assms(5) x(2) have "r' = x" by (simp add: succeeds_def same_identity_def)
  with x(2) assms(6) show ?thesis by (auto simp: succeeds_def)
qed

section \<open>The invariant of a run\<close>

definition manifest_bound :: "run \<Rightarrow> bool" where
  "manifest_bound r = (manifestVersion r \<noteq> None \<and> manifestValidatedVersion r = manifestVersion r \<and>
                       manifestConfirmedVersion r = manifestVersion r \<and> manifestConfirmedAt r \<noteq> None)"

definition code_verified :: "world \<Rightarrow> db \<Rightarrow> run \<Rightarrow> bool" where
  "code_verified W d r =
     (\<exists>a \<in> set (artifacts d). \<exists>m \<in> set (manifests d). \<exists>x.
        iacArtifactId r = Some (ar_id a) \<and> ar_run_id a = rid r \<and> ar_manifest_id a = mf_id m \<and> mf_run_id m = rid r \<and>
        manifestVersion r = Some (mf_version m) \<and> ar_type a = ''terraform'' \<and>
        verifyIacArtifact W (ar_generation a) r (mf_id m) = Inr x \<and> jget x ''hash'' = JStr (ar_hash a) \<and>
        ar_key a = iacIdempotencyKey r (mf_id m))"

definition reachable_states :: "workflow_state set" where
  "reachable_states = {RECEIVED, POLICY_LOADED, CLOUD_CONTEXT_LOADED, CLARIFYING, MANIFEST_CREATING, MANIFEST_VALIDATING,
     IAC_GENERATING, PLAN_CREATING, FAILED, CANCELLED}"

definition run_ok :: "world \<Rightarrow> db \<Rightarrow> run \<Rightarrow> bool" where
  "run_ok W d r =
     (state r \<in> reachable_states \<and>
      (state r \<in> {IAC_GENERATING, PLAN_CREATING} \<longrightarrow> manifest_bound r) \<and>
      (state r = PLAN_CREATING \<longrightarrow> code_verified W d r) \<and>
      (state r = CLARIFYING \<longrightarrow> currentQuestion r \<noteq> JNull \<and> clarificationExpiresAt r \<noteq> None) \<and>
      (state r \<in> {MANIFEST_CREATING, MANIFEST_VALIDATING, IAC_GENERATING, PLAN_CREATING} \<longrightarrow>
         policyRequirementsLoadedAt r \<noteq> None) \<and>
      (state r \<in> {CLARIFYING, MANIFEST_CREATING, MANIFEST_VALIDATING, IAC_GENERATING, PLAN_CREATING} \<longrightarrow>
         cloudContextLoadedAt r \<noteq> None) \<and>
      ((completedAt r \<noteq> None) = isTerminalWorkflowState (state r)))"

definition runs_ok :: "world \<Rightarrow> db \<Rightarrow> bool" where
  "runs_ok W d = (\<forall>r \<in> set (runs d). run_ok W d r)"

lemma code_verified_grows: "code_verified W d r \<Longrightarrow> grows d d' \<Longrightarrow> code_verified W d' r"
  unfolding code_verified_def grows_def by blast

lemma run_ok_grows: "run_ok W d r \<Longrightarrow> grows d d' \<Longrightarrow> run_ok W d' r"
  unfolding run_ok_def using code_verified_grows by blast

lemma new_run_ok: "run_ok W d (new_run i ses w u txt cor k tm)"
  by (simp add: run_ok_def new_run_def reachable_states_def isTerminal_iff)

lemma verify_same_run:
  assumes "rid r' = rid r" "workspaceId r' = workspaceId r" "sessionId r' = sessionId r" "manifestVersion r' = manifestVersion r"
  shows "verifyIacArtifact W v r' m = verifyIacArtifact W v r m" "iacIdempotencyKey r' m = iacIdempotencyKey r m"
proof -
  have "ids_match a r' m = ids_match a r m" for a using assms by (simp add: ids_match_def)
  then show "verifyIacArtifact W v r' m = verifyIacArtifact W v r m" by (simp add: verifyIacArtifact_def split: sum.split)
  show "iacIdempotencyKey r' m = iacIdempotencyKey r m" using assms by (simp add: iacIdempotencyKey_def)
qed

lemma code_verified_same:
  assumes "rid r' = rid r" "workspaceId r' = workspaceId r" "sessionId r' = sessionId r" "manifestVersion r' = manifestVersion r"
    "iacArtifactId r' = iacArtifactId r" and "code_verified W d r"
  shows "code_verified W d r'"
  using assms(6) verify_same_run [OF assms(1-4)] assms(1,4,5) by (simp add: code_verified_def)

lemma iac_generated_verified:
  assumes "iac_generated W r payload d = Inr u" and "has_artifact r"
  shows "manifest_bound r \<and> code_verified W d r"
proof -
  from assms(1) obtain a m x where c: "assertConfirmedManifest r = Inr ()"
    and ev: "iac_evidence (the (iacArtifactId r)) (rid r) (manifestVersion r) d = Some (a, m)"
    and x: "verifyIacArtifact W (ar_generation a) r (mf_id m) = Inr x" "jget x ''hash'' = JStr (ar_hash a)"
      "ar_key a = iacIdempotencyKey r (mf_id m)"
    by (auto simp: iac_generated_def mnd split: option.splits if_splits)
  from ev have "(a, m) \<in> set (List.product (artifacts d) (manifests d))" and
    p: "mf_id m = ar_manifest_id a" "mf_run_id m = ar_run_id a" "ar_id a = the (iacArtifactId r)" "ar_run_id a = rid r"
      "Some (mf_version m) = manifestVersion r" "ar_type a = ''terraform''"
    by (auto simp: iac_evidence_def dest!: find_Some_mem)
  then have mem: "a \<in> set (artifacts d)" "m \<in> set (manifests d)" by auto
  from assms(2) p(3) have i: "iacArtifactId r = Some (ar_id a)" by (auto simp: has_artifact_def split: option.splits)
  from c have "manifest_bound r" by (auto simp: assertConfirmedManifest_def manifest_bound_def split: if_splits)
  moreover have "code_verified W d r"
    unfolding code_verified_def using mem p i x by (intro bexI [of _ a] bexI [of _ m] exI [of _ x]) auto
  ultimately show ?thesis ..
qed

section \<open>Preservation\<close>

lemma check_change_gates:
  assumes "check_change W r c d = Inr u" and "ch_state c = Some to"
  shows "\<exists>df b. assertTransition (state r) to (conditions (apply_all (ch_updates c) r)\<lparr>iacGenerated := b\<rparr>) = Inr df \<and>
     (b \<longrightarrow> to = PLAN_CREATING \<and> has_artifact (apply_all (ch_updates c) r) \<and>
            iac_generated W (apply_all (ch_updates c) r) (ch_payload c) d = Inr ())"
proof -
  let ?r = "apply_all (ch_updates c) r"
  let ?b = "to = PLAN_CREATING \<and> has_artifact ?r"
  from assms obtain df where "assertTransition (state r) to (conditions ?r\<lparr>iacGenerated := ?b\<rparr>) = Inr df"
    and "?b \<longrightarrow> iac_generated W ?r (ch_payload c) d = Inr ()"
    by (auto simp: check_change_def Let_def mnd split: sum.splits if_splits)
  then show ?thesis by (intro exI [of _ df] exI [of _ ?b]) simp
qed

lemma into_reachable:
  assumes "assertTransition f to (conditions x\<lparr>iacGenerated := b\<rparr>) = Inr df" and "f \<in> reachable_states"
  shows "to \<in> reachable_states"
proof -
  have "to \<noteq> POLICY_CHECKING"
  proof
    assume "to = POLICY_CHECKING"
    with assms(1) into_policy_checking have "planCreated (conditions x\<lparr>iacGenerated := b\<rparr>)" by blast
    then show False by (simp add: conditions_def EMPTY_TRANSITION_CONDITIONS_def)
  qed
  moreover have "to \<notin> {CONFIRMING, APPROVING, EXECUTING, COMPLETED}"
    using assms into_confirming [of f] into_approving [of f] into_executing [of f] into_completed [of f]
    by (auto simp: reachable_states_def)
  ultimately show ?thesis by (cases to) (auto simp: reachable_states_def)
qed

lemma into_planning:
  assumes "assertTransition f to c = Inr d"
  shows "to = MANIFEST_CREATING \<Longrightarrow> policyRequirementsLoaded c \<and> cloudContextLoaded c"
    and "to = CLARIFYING \<Longrightarrow> f = CLARIFYING \<or> cloudContextLoaded c"
    and "to = MANIFEST_VALIDATING \<Longrightarrow> f = MANIFEST_CREATING"
  using assertTransition_required [OF assms] assertTransition_get [OF assms]
  by (cases f; auto simp: getTransition_def EXIT_TO_FAILURE_OR_CANCELLATION_def)+

text \<open>The clauses of the invariant for the row a change writes.\<close>

lemma updated_bound:
  assumes ok: "run_ok W d r" and law: "lawful r c" and ch: "check_change W r c d = Inr ()"
    and cons: "run_constraints d (updated_row W tm c r)" and st: "next_state c r \<in> {IAC_GENERATING, PLAN_CREATING}"
  shows "manifest_bound (updated_row W tm c r)"
proof (cases "ch_state c")
  case None
  with st have s: "state r \<in> {IAC_GENERATING, PLAN_CREATING}" by (simp add: next_state_def)
  with law None have "evidence (apply_all (ch_updates c) r) = evidence r" by (auto simp: lawful_def Let_def)
  with ok s show ?thesis by (auto simp: run_ok_def manifest_bound_def evidence_def updated_row_plain)
next
  case (Some to)
  then have to: "to \<in> {IAC_GENERATING, PLAN_CREATING}" using st by (simp add: next_state_def)
  from check_change_gates [OF ch Some] obtain df b where
    a: "assertTransition (state r) to (conditions (apply_all (ch_updates c) r)\<lparr>iacGenerated := b\<rparr>) = Inr df"
    and b: "b \<longrightarrow> has_artifact (apply_all (ch_updates c) r) \<and>
              iac_generated W (apply_all (ch_updates c) r) (ch_payload c) d = Inr ()" by blast
  show ?thesis
  proof (cases "to = IAC_GENERATING")
    case True
    with into_iac a have "manifestValidationPassed (conditions (apply_all (ch_updates c) r)\<lparr>iacGenerated := b\<rparr>) \<and>
        manifestConfirmed (conditions (apply_all (ch_updates c) r)\<lparr>iacGenerated := b\<rparr>)" by blast
    with cons show ?thesis
      by (auto simp: conditions_def manifest_bound_def updated_row_plain run_constraints_def)
  next
    case False
    with to into_plan a have b by fastforce
    with b iac_generated_verified have "manifest_bound (apply_all (ch_updates c) r)" by blast
    then show ?thesis by (simp add: manifest_bound_def updated_row_plain)
  qed
qed

lemma updated_verified:
  assumes ok: "run_ok W d r" and law: "lawful r c" and ch: "check_change W r c d = Inr ()"
    and st: "next_state c r = PLAN_CREATING"
  shows "code_verified W d (updated_row W tm c r)"
proof (cases "ch_state c")
  case None
  with st have s: "state r = PLAN_CREATING" by (simp add: next_state_def)
  with law None have "evidence (apply_all (ch_updates c) r) = evidence r" by (auto simp: lawful_def Let_def)
  then have "manifestVersion (updated_row W tm c r) = manifestVersion r" "iacArtifactId (updated_row W tm c r) = iacArtifactId r"
    by (simp_all add: evidence_def updated_row_plain)
  moreover have "code_verified W d r" using ok s by (simp add: run_ok_def)
  ultimately show ?thesis by - (rule code_verified_same [of _ r], simp_all add: updated_row_simps)
next
  case (Some to)
  with st have to: "to = PLAN_CREATING" by (simp add: next_state_def)
  from check_change_gates [OF ch Some] obtain df b where
    a: "assertTransition (state r) to (conditions (apply_all (ch_updates c) r)\<lparr>iacGenerated := b\<rparr>) = Inr df"
    and b: "b \<longrightarrow> has_artifact (apply_all (ch_updates c) r) \<and>
              iac_generated W (apply_all (ch_updates c) r) (ch_payload c) d = Inr ()" by blast
  from to into_plan a have b by fastforce
  with b iac_generated_verified have "code_verified W d (apply_all (ch_updates c) r)" by blast
  then show ?thesis
    using apply_all_frame [of "ch_updates c" r]
    by - (rule code_verified_same [of _ "apply_all (ch_updates c) r"], simp_all add: updated_row_plain updated_row_simps)
qed

lemma updated_suspended:
  assumes ok: "run_ok W d r" and law: "lawful r c" and cons: "run_constraints d (updated_row W tm c r)"
    and st: "next_state c r = CLARIFYING"
  shows "currentQuestion (updated_row W tm c r) \<noteq> JNull \<and> clarificationExpiresAt (updated_row W tm c r) \<noteq> None"
proof -
  have "clarificationExpiresAt (apply_all (ch_updates c) r) \<noteq> None"
    using law st ok by (cases "ch_state c") (auto simp: lawful_def Let_def next_state_def run_ok_def)
  with cons show ?thesis by (simp add: run_constraints_def updated_row_plain)
qed

lemma updated_loaded:
  assumes ok: "run_ok W d r" and law: "lawful r c" and ch: "check_change W r c d = Inr ()"
  shows "next_state c r \<in> {MANIFEST_CREATING, MANIFEST_VALIDATING, IAC_GENERATING, PLAN_CREATING} \<Longrightarrow>
           policyRequirementsLoadedAt (updated_row W tm c r) \<noteq> None"
    and "next_state c r \<in> {CLARIFYING, MANIFEST_CREATING, MANIFEST_VALIDATING, IAC_GENERATING, PLAN_CREATING} \<Longrightarrow>
           cloudContextLoadedAt (updated_row W tm c r) \<noteq> None"
proof -
  let ?r = "apply_all (ch_updates c) r"
  have keep: "policyRequirementsLoadedAt r \<noteq> None \<Longrightarrow> policyRequirementsLoadedAt ?r \<noteq> None"
    "cloudContextLoadedAt r \<noteq> None \<Longrightarrow> cloudContextLoadedAt ?r \<noteq> None"
    using law by (simp_all add: lawful_def Let_def)
  have gate: "(to = MANIFEST_CREATING \<longrightarrow> policyRequirementsLoadedAt ?r \<noteq> None \<and> cloudContextLoadedAt ?r \<noteq> None) \<and>
      (to = CLARIFYING \<longrightarrow> state r = CLARIFYING \<or> cloudContextLoadedAt ?r \<noteq> None) \<and>
      (to = MANIFEST_VALIDATING \<longrightarrow> state r = MANIFEST_CREATING) \<and> (to = IAC_GENERATING \<longrightarrow> state r = MANIFEST_VALIDATING) \<and>
      (to = PLAN_CREATING \<longrightarrow> state r = IAC_GENERATING)" if "ch_state c = Some to" for to
  proof -
    from check_change_gates [OF ch that] obtain df b where
      a: "assertTransition (state r) to (conditions ?r\<lparr>iacGenerated := b\<rparr>) = Inr df" by blast
    from into_planning [OF a] show ?thesis
      using into_iac [of "state r"] into_plan [of "state r"] a by (auto simp: conditions_def)
  qed
  have old: "state r \<in> {MANIFEST_CREATING, MANIFEST_VALIDATING, IAC_GENERATING, PLAN_CREATING} \<Longrightarrow>
      policyRequirementsLoadedAt ?r \<noteq> None"
    "state r \<in> {CLARIFYING, MANIFEST_CREATING, MANIFEST_VALIDATING, IAC_GENERATING, PLAN_CREATING} \<Longrightarrow>
      cloudContextLoadedAt ?r \<noteq> None"
    using ok keep unfolding run_ok_def by blast+
  show "policyRequirementsLoadedAt (updated_row W tm c r) \<noteq> None"
    if "next_state c r \<in> {MANIFEST_CREATING, MANIFEST_VALIDATING, IAC_GENERATING, PLAN_CREATING}"
  proof (cases "ch_state c")
    case None
    with that old(1) show ?thesis by (simp add: next_state_def updated_row_plain)
  next
    case (Some to)
    with that old(1) gate [OF Some] show ?thesis by (auto simp: next_state_def updated_row_plain)
  qed
  show "cloudContextLoadedAt (updated_row W tm c r) \<noteq> None"
    if "next_state c r \<in> {CLARIFYING, MANIFEST_CREATING, MANIFEST_VALIDATING, IAC_GENERATING, PLAN_CREATING}"
  proof (cases "ch_state c")
    case None
    with that old(2) show ?thesis by (simp add: next_state_def updated_row_plain)
  next
    case (Some to)
    with that old(2) gate [OF Some] show ?thesis by (auto simp: next_state_def updated_row_plain)
  qed
qed

lemma updated_ok:
  assumes ok: "run_ok W d r" and law: "lawful r c" and ch: "check_change W r c d = Inr ()"
    and cons: "run_constraints d (updated_row W tm c r)"
  shows "run_ok W d (updated_row W tm c r)"
proof -
  have open_r: "\<not> isTerminalWorkflowState (state r)" using ch by (rule check_change_open)
  have "next_state c r \<in> reachable_states"
  proof (cases "ch_state c")
    case None
    then show ?thesis using ok by (simp add: next_state_def run_ok_def)
  next
    case (Some to)
    from check_change_gates [OF ch Some] obtain df b where
      a: "assertTransition (state r) to (conditions (apply_all (ch_updates c) r)\<lparr>iacGenerated := b\<rparr>) = Inr df" by blast
    have "state r \<in> reachable_states" using ok by (simp add: run_ok_def)
    from into_reachable [OF a this] Some show ?thesis by (simp add: next_state_def)
  qed
  moreover have "(completedAt (updated_row W tm c r) \<noteq> None) = isTerminalWorkflowState (next_state c r)"
    using ok open_r by (simp add: run_ok_def updated_row_simps)
  ultimately show ?thesis
    unfolding run_ok_def updated_row_simps(4)
    using updated_bound [OF ok law ch cons] updated_verified [OF ok law ch]
      updated_suspended [OF ok law cons] updated_loaded [OF ok law ch]
    by (intro conjI impI) blast+
qed

lemma step_runs_ok: "run_step W s t \<Longrightarrow> keyed (tables s) \<Longrightarrow> runs_ok W (tables s) \<Longrightarrow> runs_ok W (tables t)"
proof (induction rule: run_step.induct)
  case (outside t s)
  then show ?case by (auto simp: runs_ok_def intro: run_ok_grows)
next
  case (created t s i ses w u pr cor k tm)
  then show ?case by (auto simp: runs_ok_def new_run_ok intro: run_ok_grows)
next
  case (changed r s c r' tm t)
  then have "run_ok W (tables s) r'" by (auto simp: runs_ok_def intro: updated_ok)
  then have "run_ok W (tables t) r'" using changed(7) by (rule run_ok_grows)
  moreover have "run_ok W (tables t) x" if "x \<in> set (runs (tables s))" for x
    using changed(7,9) that run_ok_grows unfolding runs_ok_def by blast
  ultimately show ?case using changed(6) by (auto simp: runs_ok_def set_replace_run)
qed

definition sys_ok :: "world \<Rightarrow> sys \<Rightarrow> bool" where
  "sys_ok W s = (keyed (tables s) \<and> unique_keys (tables s) \<and> runs_ok W (tables s))"

lemma steps_ok: "(run_step W)\<^sup>*\<^sup>* s t \<Longrightarrow> sys_ok W s \<Longrightarrow> sys_ok W t"
proof (induction rule: rtranclp_induct)
  case (step y z)
  then show ?case
    using step_follows [of W y z] step_unique_keys [of W y z] step_runs_ok [of W y z]
    by (auto simp: sys_ok_def follows_def)
qed

end
