(* ===== verification/Runs_Service.thy ===== *)
theory Runs_Service
  imports Runs_Machine
begin

text \<open>
  Every operation of the run service moves the tables along \<open>run_step\<close>, provided the other
  requests and the external services do (\<open>well_behaved\<close>). From this follow the invariants of the
  whole service, stated over any sequence of requests and polls (\<open>serve\<close>).
\<close>

section \<open>Moves of the building blocks\<close>

definition well_behaved :: "env \<Rightarrow> bool" where
  "well_behaved E \<longleftrightarrow> (\<forall>s. (run_step (base E))\<^sup>*\<^sup>* s (others E s)) \<and> (\<forall>q. along (run_step (base E)) (fetcher E q))"

lemma sample_well_behaved: "well_behaved sample_env"
  by (simp add: well_behaved_def along_throw)

lemma grows_refl [simp]: "grows d d"
  by (simp add: grows_def)

interpretation steps: table_relation "run_step W" for W
  by unfold_locales (rule run_step.outside; simp)

lemma others_move: "well_behaved E \<Longrightarrow> (run_step (base E))\<^sup>*\<^sup>* s (others E s)"
  by (simp add: well_behaved_def)

lemma along_fetcher [along_intros]: "well_behaved E \<Longrightarrow> along (run_step (base E)) (fetcher E q)"
  by (simp add: well_behaved_def)

lemmas along_new_uuid [along_intros] = steps.moves_new_uuid
lemmas along_now [along_intros] = steps.moves_now

lemma along_new_signal [along_intros]: "along (run_step W) new_signal"
  by (rule along_step) (auto simp: new_signal_def intro: steps.same_tables)

lemma along_signal_aborted [along_intros]: "along R signal_aborted"
  by (simp add: signal_aborted_def along_gets)

lemma along_txn_gets [along_intros]: "well_behaved E \<Longrightarrow> along (run_step (base E)) (txn E (gets f))"
  by (rule steps.moves_transaction) (auto intro: others_move)

lemma along_db_query [along_intros]: "well_behaved E \<Longrightarrow> along (run_step (base E)) (db_query E q)"
  by (rule steps.moves_query) (rule others_move)

lemma along_parse [along_intros]: "along R (parse_or_throw E z v)"
  by (simp add: parse_or_throw_def along_throw along_ret split: sum.split)

lemma along_response_json [along_intros]: "along R (response_json r)"
  by (simp add: response_json_def along_the_or)

lemma along_sum [along_intros]:
  "(\<And>x. along R (f x)) \<Longrightarrow> (\<And>y. along R (g y)) \<Longrightarrow> along R (case v of Inl x \<Rightarrow> f x | Inr y \<Rightarrow> g y)"
  by (cases v) simp_all

lemma along_result [along_intros]:
  "(\<And>x. along R (f x)) \<Longrightarrow> (\<And>y. along R (g y)) \<Longrightarrow> along R (case v of Valid x \<Rightarrow> f x | Invalid y \<Rightarrow> g y)"
  by (cases v) simp_all

lemma along_exn [along_intros]:
  "(\<And>ty v i. along R (f ty v i)) \<Longrightarrow> along R g \<Longrightarrow>
   along R (case e of ComponentPayloadValidationError ty v i \<Rightarrow> f ty v i | _ \<Rightarrow> g)"
  by (cases e) simp_all

lemma along_policy [along_intros]: "well_behaved E \<Longrightarrow> along (run_step (base E)) (getPolicyRequirements E u t w)"
  unfolding getPolicyRequirements_def by (intro along_intros)

section \<open>The transaction\<close>

definition lawful_op :: "(run \<Rightarrow> run_change act) \<Rightarrow> bool" where
  "lawful_op f \<longleftrightarrow> (\<forall>r s c t. f r s = (Inr c, t) \<longrightarrow> lawful r c \<and> tables t = tables s)"

lemma write_step:
  assumes r: "find_run i w (tables s) = Some r" and law: "keyed (tables s) \<longrightarrow> lawful r c"
    and ch: "check_change W r c (tables u) = Inr ()" and cons: "run_constraints (tables u) (updated_row W tm c r)"
    and u: "tables u = tables s" and t: "runs (tables t) = runs (replace_run (updated_row W tm c r) (tables s))"
    and g: "grows (tables s) (tables t)"
  shows "run_step W s t"
  by (rule run_step.changed [where r = r and c = c, OF _ law _ refl])
    (use find_run_Some [OF r] ch cons u t g in simp_all)

lemma mutate_moves:
  assumes wb: "well_behaved E" and m: "mutate E i w v a f s = (x, t)"
    and law: "\<forall>r c u. find_run i w (tables (others E s)) = Some r \<longrightarrow> stateVersion r = v \<longrightarrow>
                f r (others E s) = (Inr c, u) \<longrightarrow> (keyed (tables (others E s)) \<longrightarrow> lawful r c) \<and> tables u = tables (others E s)"
  shows "(run_step (base E))\<^sup>*\<^sup>* s t"
proof -
  have o: "(run_step (base E))\<^sup>*\<^sup>* s (others E s)" using wb by (rule others_move)
  have "run_step (base E) (others E s) t"
  proof (cases x)
    case (Inl e)
    with m have "tables t = tables (others E s)" by (auto dest: mutate_Inl)
    then show ?thesis by (rule steps.same_tables)
  next
    case (Inr r')
    with m have m': "mutate E i w v a f s = (Inr r', t)" by simp
    obtain r c u e where h: "find_run i w (tables (others E s)) = Some r" "stateVersion r = v" "f r (others E s) = (Inr c, u)"
      "check_change (base E) r c (tables u) = Inr ()" "r' = updated_row (base E) (clock u) c r"
      "run_constraints (tables u) r'"
      "tables t = (let d = with_audit (base E) (mutation_audit r w a c (mutation_payload (base E) (clock u) r c))
                           (replace_run r' (tables u)) in d\<lparr>outbox := outbox d @ [e]\<rparr>)"
      using mutate_Inr [OF m'] by blast
    with law have u: "keyed (tables (others E s)) \<longrightarrow> lawful r c" "tables u = tables (others E s)" by blast+
    show ?thesis
      by (rule write_step [OF h(1) u(1) h(4) _ u(2)]) (use h u in \<open>simp_all add: Let_def grows_def\<close>)
  qed
  with o show ?thesis by (rule rtranclp.rtrancl_into_rtrancl)
qed

lemma along_mutate [along_intros]:
  assumes "well_behaved E" and "lawful_op f"
  shows "along (run_step (base E)) (mutate E i w v a f)"
  by (rule alongI) (erule mutate_moves [OF assms(1)], use assms(2) in \<open>auto simp: lawful_op_def\<close>)

lemma lawful_ret: "(\<And>r. lawful r c) \<Longrightarrow> lawful_op (\<lambda>r. ret c)"
  by (simp add: lawful_op_def)

lemmas change_evals = lawful_def Let_def change_def apply_all_def evidence_def

text \<open>Changes by the updates they make.\<close>

fun keeps_marks :: "upd \<Rightarrow> bool" where
  "keeps_marks (U_policyRequirementsLoadedAt v) = (v \<noteq> None)"
| "keeps_marks (U_cloudContextLoadedAt v) = (v \<noteq> None)"
| "keeps_marks u = True"

fun harmless :: "upd \<Rightarrow> bool" where
  "harmless (U_agentSessionId v) = True"
| "harmless (U_agentTurnPending v) = True"
| "harmless (U_agentInput v) = True"
| "harmless (U_manifestValidationAttempts v) = True"
| "harmless u = False"

lemma fold_marks:
  assumes "list_all keeps_marks us"
  shows "policyRequirementsLoadedAt r \<noteq> None \<Longrightarrow> policyRequirementsLoadedAt (fold apply_upd us r) \<noteq> None"
    and "cloudContextLoadedAt r \<noteq> None \<Longrightarrow> cloudContextLoadedAt (fold apply_upd us r) \<noteq> None"
proof -
  have "(policyRequirementsLoadedAt r \<noteq> None \<longrightarrow> policyRequirementsLoadedAt (fold apply_upd us r) \<noteq> None) \<and>
        (cloudContextLoadedAt r \<noteq> None \<longrightarrow> cloudContextLoadedAt (fold apply_upd us r) \<noteq> None)"
    using assms
  proof (induction us arbitrary: r)
    case (Cons u us)
    then show ?case by (cases u) auto
  qed simp
  then show "policyRequirementsLoadedAt r \<noteq> None \<Longrightarrow> policyRequirementsLoadedAt (fold apply_upd us r) \<noteq> None"
    "cloudContextLoadedAt r \<noteq> None \<Longrightarrow> cloudContextLoadedAt (fold apply_upd us r) \<noteq> None" by simp_all
qed

lemma fold_harmless:
  "list_all harmless us \<Longrightarrow> evidence (fold apply_upd us r) = evidence r \<and>
     clarificationExpiresAt (fold apply_upd us r) = clarificationExpiresAt r"
proof (induction us arbitrary: r)
  case (Cons u us)
  then show ?case by (cases u) (auto simp: evidence_def)
qed simp

lemma harmless_marks: "harmless u \<Longrightarrow> keeps_marks u"
  by (cases u) simp_all

lemma lawful_keep:
  assumes "ch_state c = None" and "list_all harmless (ch_updates c)"
  shows "lawful r c"
proof -
  have "list_all keeps_marks (ch_updates c)" using assms(2) harmless_marks by (simp add: list_all_iff)
  with fold_marks fold_harmless [OF assms(2)] assms(1) show ?thesis by (simp add: lawful_def Let_def apply_all_def)
qed

lemma lawful_enter:
  assumes "ch_state c = Some to" and "to \<noteq> CLARIFYING" and "list_all keeps_marks (ch_updates c)"
  shows "lawful r c"
  using assms fold_marks by (simp add: lawful_def Let_def apply_all_def)

lemma change_sel [simp]:
  "ch_state change = None" "ch_updates change = []" "ch_event_type change = None" "ch_payload change = JUndef"
  by (simp_all add: change_def)

lemma along_transitionState [along_intros]:
  assumes "well_behaved E" and "to \<noteq> CLARIFYING" and "list_all keeps_marks us"
  shows "along (run_step (base E)) (transitionState E i w v to a us)"
  unfolding transitionState_def
  by (intro along_mutate [OF assms(1)] lawful_ret lawful_enter [OF _ assms(2)]) (simp_all add: assms)

lemma along_orchestrate [along_intros]:
  assumes "well_behaved E"
    and "ch_state c = None \<and> list_all harmless (ch_updates c) \<or>
         (\<exists>to. ch_state c = Some to \<and> to \<noteq> CLARIFYING \<and> list_all keeps_marks (ch_updates c))"
  shows "along (run_step (base E)) (orchestrate E r c)"
  unfolding orchestrate_def
  by (intro along_mutate [OF assms(1)] lawful_ret) (use assms(2) in \<open>auto intro: lawful_keep lawful_enter\<close>)

section \<open>Requests\<close>

lemma along_as_member [along_intros]: "well_behaved E \<Longrightarrow> along (run_step (base E)) (as_member E w a)"
  unfolding as_member_def assertMembership_pool_def assertMembership_def by (intro along_intros)

lemma along_getRun [along_intros]: "well_behaved E \<Longrightarrow> along (run_step (base E)) (getRun E i w a)"
  unfolding getRun_def by (intro along_intros)

lemma along_listRuns: "well_behaved E \<Longrightarrow> along (run_step (base E)) (listRuns E w se st a)"
  unfolding listRuns_def by (intro along_intros)

lemma along_cancelRun: "well_behaved E \<Longrightarrow> along (run_step (base E)) (cancelRun E i w a)"
  unfolding cancelRun_def by (intro along_intros) simp_all

lemma lawful_confirm: "lawful_op (confirm_change v)"
  by (auto simp: lawful_op_def confirm_change_def mnd intro!: lawful_enter)

lemma along_confirmRun: "well_behaved E \<Longrightarrow> along (run_step (base E)) (confirmRun E i w a v)"
  unfolding confirmRun_def by (intro along_intros lawful_confirm)

lemma lawful_suspend: "lawful_op (\<lambda>r. suspend_change E i q)"
  by (auto simp: lawful_op_def suspend_change_def mnd lawful_def Let_def apply_all_def)

lemma along_suspendRun [along_intros]: "well_behaved E \<Longrightarrow> along (run_step (base E)) (suspendRun E r p)"
  unfolding suspendRun_def by (intro along_intros lawful_suspend)

lemma lawful_clarify: "lawful_op (clarify_change E answers input key)"
  by (auto simp: lawful_op_def clarify_change_def mnd split: option.splits intro!: lawful_enter)

lemma along_clarifyRun: "well_behaved E \<Longrightarrow> along (run_step (base E)) (clarifyRun E i w a answers key)"
  unfolding clarifyRun_def clarify_pending_def clarify_conflict_def Let_def
  by (intro along_intros lawful_clarify) simp_all

lemma along_approval: "well_behaved E \<Longrightarrow> along (run_step (base E)) (handleApprovalEvent E i w a d reason)"
  unfolding handleApprovalEvent_def
  by (intro along_intros lawful_ret lawful_enter [where to = MANIFEST_CREATING]) simp_all

lemma getRun_Inr:
  "getRun E i w a s = (Inr r, t) \<Longrightarrow> rid r = i \<and> workspaceId r = w \<and> r \<in> set (runs (tables t)) \<and>
     find_run i w (tables t) = Some r"
  by (auto simp: getRun_def mnd dest: find_run_Some)

text \<open>
  A revision leaves the state to the run it has read; the version ties the row it changes to it.
\<close>

lemma along_reviseRun: "well_behaved E \<Longrightarrow> along (run_step (base E)) (reviseRun E i w a p)"
proof (rule alongI)
  fix s x t
  assume wb: "well_behaved E" and eq: "reviseRun E i w a p s = (x, t)"
  obtain q s1 where g: "getRun E i w (Some a) s = (q, s1)" by force
  have s1: "(run_step (base E))\<^sup>*\<^sup>* s s1" by (rule alongD [OF along_getRun [OF wb] g])
  show "(run_step (base E))\<^sup>*\<^sup>* s t"
  proof (cases q)
    case (Inl e)
    with g eq s1 show ?thesis by (simp add: reviseRun_def)
  next
    case (Inr r)
    let ?ok = "state r \<in> {MANIFEST_CREATING, MANIFEST_VALIDATING} \<and> \<not> agentTurnPending r"
    let ?c = "change\<lparr>ch_state := (if state r = MANIFEST_VALIDATING then Some MANIFEST_CREATING else None),
        ch_updates := revise_updates p, ch_event_type := Some ''ManifestRevisionRequestedEvent''\<rparr>"
    from Inr g have r: "rid r = i" "r \<in> set (runs (tables s1))" by (auto dest: getRun_Inr)
    show ?thesis
    proof (cases ?ok)
      case False
      with Inr g eq s1 show ?thesis by (auto simp: reviseRun_def check_def)
    next
      case True
      then have m: "mutate E i w (stateVersion r) a (\<lambda>_. ret ?c) s1 = (x, t)"
        using Inr g eq by (simp add: reviseRun_def check_def)
      have o: "(run_step (base E))\<^sup>*\<^sup>* s1 (others E s1)" using wb by (rule others_move)
      have "lawful r' ?c" if f: "find_run i w (tables (others E s1)) = Some r'" and v: "stateVersion r' = stateVersion r"
        and k: "keyed (tables (others E s1))" for r'
      proof -
        have k1: "keyed (tables s1)" using steps_follow [OF o] k by (simp add: follows_def)
        from find_run_Some [OF f] r(1) v have "r' = r"
          by (intro version_identifies [OF o k1 r(2)]) auto
        with True show ?thesis
          by (auto simp: revise_updates_def lawful_def Let_def apply_all_def)
      qed
      then have "(run_step (base E))\<^sup>*\<^sup>* s1 t" by (intro mutate_moves [OF wb m]) auto
      with s1 show ?thesis by (rule rtranclp_trans)
    qed
  qed
qed

lemma publish_tables:
  "publish E r ty p s = (Inr u, t) \<Longrightarrow> runs (tables t) = runs (tables s) \<and> manifests (tables t) = manifests (tables s) \<and>
     artifacts (tables t) = artifacts (tables s)"
  by (drule publish_Inr) auto

lemma createRun_body_step:
  assumes "createRun_body E se w u p k s = (Inr r, t)"
  shows "run_step (base E) s t"
proof (cases "find_key k (tables s)")
  case (Some x)
  with assms have "t = s"
    by (auto simp: createRun_body_def assertMembership_client_def assertMembership_def assertMutationPermission_def mnd Let_def)
  then show ?thesis by (simp add: steps.same_tables)
next
  case None
  with assms obtain s1 s2 s3 where new: "r = new_run (uuid_of E (Suc (fresh s))) se w u p (uuid_of E (fresh s)) k (clock s)"
    and ins: "insert_run r s1 = (Inr (), s2)" and s1: "tables s1 = tables s"
    and au: "executeAppend E (run_created_audit r) s2 = (Inr (), s3)"
    and pu: "publish E r ''RunCreatedEvent'' (JObj [(''run_id'', JStr (rid r))]) s3 = (Inr (), t)"
    by (auto simp: createRun_body_def insert_created_def assertMembership_client_def assertMembership_def
        assertMutationPermission_def mnd Let_def)
  from ins s1 have "runs (tables s2) = runs (tables s) @ [r]" "manifests (tables s2) = manifests (tables s)"
    "artifacts (tables s2) = artifacts (tables s)" "rid r \<notin> rid ` set (runs (tables s))"
    "idempotencyKey r \<notin> idempotencyKey ` set (runs (tables s))"
    by (auto simp: insert_run_def mnd)
  with publish_tables [OF pu] au new show ?thesis
    by (intro run_step.created) (auto simp: executeAppend_Inr grows_def new_run_def)
qed

lemma along_createRun: "well_behaved E \<Longrightarrow> along (run_step (base E)) (createRun E se w u p k)"
proof -
  assume wb: "well_behaved E"
  have "along (run_step (base E)) (txn E (createRun_body E se w u p k'))" for k'
    using others_move [OF wb] createRun_body_step by (intro steps.moves_transaction) auto
  then show ?thesis unfolding createRun_def by (intro along_intros)
qed

section \<open>The worker\<close>

lemma along_planning_request [along_intros]:
  "well_behaved E \<Longrightarrow> along (run_step (base E)) (planning_request E C u p r b)"
  unfolding planning_request_def by (intro along_intros)

lemma along_loadCloudContext [along_intros]: "well_behaved E \<Longrightarrow> along (run_step (base E)) (loadCloudContext E C r)"
  unfolding loadCloudContext_def Let_def by (intro along_intros)

lemma along_createAgentSession [along_intros]: "well_behaved E \<Longrightarrow> along (run_step (base E)) (createAgentSession E C r)"
  unfolding createAgentSession_def by (intro along_intros)

lemma along_agentTurn [along_intros]: "well_behaved E \<Longrightarrow> along (run_step (base E)) (agentTurn E C r m)"
  unfolding agentTurn_def Let_def by (intro along_intros)

lemma along_createManifest [along_intros]: "well_behaved E \<Longrightarrow> along (run_step (base E)) (createManifest E C r m)"
  unfolding createManifest_def by (intro along_intros)

lemma along_client_generateIac [along_intros]: "well_behaved E \<Longrightarrow> along (run_step (base E)) (client_generateIac E C r m)"
  unfolding client_generateIac_def generateIac_request_def by (intro along_intros)

lemma along_iac_failed [along_intros]: "well_behaved E \<Longrightarrow> along (run_step (base E)) (iac_failed E r e)"
  unfolding iac_failed_def by (intro along_intros) simp_all

lemma along_generateIac [along_intros]: "well_behaved E \<Longrightarrow> along (run_step (base E)) (generateIac E C r)"
  unfolding generateIac_def confirmed_manifest_def iac_progress_def generated_def accept_artifact_def
  by (intro along_intros lawful_ret) (auto intro: lawful_keep lawful_enter)

lemma along_agent_failed [along_intros]: "well_behaved E \<Longrightarrow> along (run_step (base E)) (agent_failed E r e)"
  unfolding agent_failed_def payload_rejected_def Let_def
  by (intro along_intros) simp_all

lemma along_agent_loop [along_intros]: "well_behaved E \<Longrightarrow> along (run_step (base E)) (agent_loop E C n r m)"
proof (induction n arbitrary: r m)
  case 0
  show ?case unfolding agent_loop.simps by (rule along_throw)
next
  case (Suc n)
  show ?case
    unfolding agent_loop.simps Let_def draft_exhausted_def draft_retry_def manifest_ready_def turn_finished_def
    by (intro along_intros Suc) simp_all
qed

lemma along_dispatchAgent [along_intros]: "well_behaved E \<Longrightarrow> along (run_step (base E)) (dispatchAgent E C r)"
  unfolding dispatchAgent_def agent_session_def by (intro along_intros) simp_all

lemma along_planning_failed [along_intros]: "well_behaved E \<Longrightarrow> along (run_step (base E)) (planning_failed E r e)"
  unfolding planning_failed_def by (intro along_intros) simp_all

lemma along_advance [along_intros]: "well_behaved E \<Longrightarrow> along (run_step (base E)) (advance E C r)"
  unfolding advance_def stage_received_def stage_policy_def stage_cloud_def stage_work_def
  by (intro along_intros) simp_all

lemma along_processRun [along_intros]: "well_behaved E \<Longrightarrow> along (run_step (base E)) (processRun E C i w)"
  unfolding processRun_def try_lock_def by (intro along_intros) simp_all

lemma along_process_all [along_intros]: "well_behaved E \<Longrightarrow> along (run_step (base E)) (process_all E C rows)"
  by (induction E C rows rule: process_all.induct) (auto intro!: along_intros)

lemma along_processPendingRuns: "well_behaved E \<Longrightarrow> along (run_step (base E)) (processPendingRuns E C)"
  unfolding processPendingRuns_def by (intro along_intros)

lemma along_expire_all [along_intros]: "well_behaved E \<Longrightarrow> along (run_step (base E)) (expire_all E rows)"
  by (induction E rows rule: expire_all.induct) (auto intro!: along_intros)

lemma along_expireClarifications: "well_behaved E \<Longrightarrow> along (run_step (base E)) (expireClarifications E)"
  unfolding expireClarifications_def by (intro along_intros)

section \<open>The service as a whole\<close>

datatype service_request =
    CreateRun string string string string "string option"
  | CancelRun string string string
  | ConfirmRun string string string "string option"
  | ClarifyRun string string string json "string option"
  | ReviseRun string string string string
  | ApprovalEvent string string string decision "string option"
  | PollRuns
  | ExpireClarifications

fun handle :: "env \<Rightarrow> planning_config option \<Rightarrow> service_request \<Rightarrow> sys \<Rightarrow> sys" where
  "handle E C (CreateRun se w u p k) s = snd (createRun E se w u p k s)"
| "handle E C (CancelRun i w a) s = snd (cancelRun E i w a s)"
| "handle E C (ConfirmRun i w a v) s = snd (confirmRun E i w a v s)"
| "handle E C (ClarifyRun i w a ans k) s = snd (clarifyRun E i w a ans k s)"
| "handle E C (ReviseRun i w a p) s = snd (reviseRun E i w a p s)"
| "handle E C (ApprovalEvent i w a d r) s = snd (handleApprovalEvent E i w a d r s)"
| "handle E C PollRuns s = snd (processPendingRuns E C s)"
| "handle E C ExpireClarifications s = snd (expireClarifications E s)"

definition serve :: "env \<Rightarrow> planning_config option \<Rightarrow> service_request list \<Rightarrow> sys \<Rightarrow> sys" where
  "serve E C requests s = fold (handle E C) requests s"

lemma along_snd: "along R m \<Longrightarrow> R\<^sup>*\<^sup>* s (snd (m s))"
  by (simp add: along_def)

lemma handle_moves: "well_behaved E \<Longrightarrow> (run_step (base E))\<^sup>*\<^sup>* s (handle E C q s)"
  by (cases q)
    (auto intro!: along_snd along_createRun along_cancelRun along_confirmRun along_clarifyRun along_reviseRun along_approval
      along_processPendingRuns along_expireClarifications)

lemma serve_moves: "well_behaved E \<Longrightarrow> (run_step (base E))\<^sup>*\<^sup>* s (serve E C requests s)"
proof (induction requests arbitrary: s)
  case Nil
  then show ?case by (simp add: serve_def)
next
  case (Cons q qs)
  with handle_moves have "(run_step (base E))\<^sup>*\<^sup>* s (handle E C q s)" by blast
  also from Cons have "(run_step (base E))\<^sup>*\<^sup>* (handle E C q s) (serve E C qs (handle E C q s))" by blast
  finally show ?case by (simp add: serve_def)
qed

section \<open>Properties\<close>

text \<open>
  C2. Whatever requests, polls and expiries are served, in any order and with other requests
  interleaved, every run satisfies its invariant: it is in a state the service can reach (never
  policy checking, confirming, approving, executing or completed); while code is being generated
  or was generated, the manifest version is the one validated and the one the user confirmed;
  while clarifying, a question and its expiry are stored; from manifest creation on, policy
  requirements and cloud context are loaded; and completion is stamped exactly in terminal states.
\<close>

theorem service_keeps_run_invariant:
  assumes "well_behaved E" and "sys_ok (base E) s" and "r \<in> set (runs (tables (serve E C requests s)))"
  shows "state r \<in> reachable_states \<and>
     (state r \<in> {IAC_GENERATING, PLAN_CREATING} \<longrightarrow>
        (\<exists>v. manifestVersion r = Some v \<and> manifestValidatedVersion r = Some v \<and> manifestConfirmedVersion r = Some v) \<and>
        manifestConfirmedAt r \<noteq> None) \<and>
     (state r = CLARIFYING \<longrightarrow> currentQuestion r \<noteq> JNull \<and> clarificationExpiresAt r \<noteq> None) \<and>
     (state r \<in> {MANIFEST_CREATING, MANIFEST_VALIDATING, IAC_GENERATING, PLAN_CREATING} \<longrightarrow>
        policyRequirementsLoadedAt r \<noteq> None \<and> cloudContextLoadedAt r \<noteq> None) \<and>
     (completedAt r \<noteq> None) = isTerminalWorkflowState (state r)"
proof -
  have "run_ok (base E) (tables (serve E C requests s)) r"
    using steps_ok [OF serve_moves [OF assms(1)] assms(2)] assms(3) by (auto simp: sys_ok_def runs_ok_def)
  then show ?thesis unfolding run_ok_def manifest_bound_def by (metis insert_iff not_None_eq)
qed

text \<open>
  C1. A run that has reached plan creation has verified code: a stored Terraform artifact of this
  run, generated for the confirmed manifest version under the run's own idempotency key, whose
  generation record passes verification, so its identifiers are the run's and its files are safe
  and hash to the stored hash.
\<close>

theorem planned_run_has_verified_code:
  assumes "zod_documented fmt (base E)" and "well_behaved E" and "sys_ok (base E) s"
    and "r \<in> set (runs (tables (serve E C requests s)))" and "state r = PLAN_CREATING"
  shows "\<exists>a \<in> set (artifacts (tables (serve E C requests s))). \<exists>m \<in> set (manifests (tables (serve E C requests s))). \<exists>x.
     iacArtifactId r = Some (ar_id a) \<and> mf_id m = ar_manifest_id a \<and> mf_run_id m = rid r \<and>
     manifestConfirmedVersion r = Some (mf_version m) \<and> ar_key a = iacIdempotencyKey r (mf_id m) \<and>
     verifyIacArtifact (base E) (ar_generation a) r (mf_id m) = Inr x \<and>
     ids_match x r (mf_id m) \<and> safe_artifact (base E) x \<and> jget x ''hash'' = JStr (ar_hash a)"
proof -
  let ?d = "tables (serve E C requests s)"
  have "run_ok (base E) ?d r"
    using steps_ok [OF serve_moves [OF assms(2)] assms(3)] assms(4) by (auto simp: sys_ok_def runs_ok_def)
  then have "code_verified (base E) ?d r" "manifest_bound r" using assms(5) by (simp_all add: run_ok_def)
  then obtain a m x where "a \<in> set (artifacts ?d)" "m \<in> set (manifests ?d)" "iacArtifactId r = Some (ar_id a)"
    "mf_id m = ar_manifest_id a" "mf_run_id m = rid r" "manifestConfirmedVersion r = Some (mf_version m)"
    "ar_key a = iacIdempotencyKey r (mf_id m)" "verifyIacArtifact (base E) (ar_generation a) r (mf_id m) = Inr x"
    "jget x ''hash'' = JStr (ar_hash a)"
    by (auto simp: code_verified_def manifest_bound_def)
  with verified_safe [OF assms(1)] show ?thesis by blast
qed

text \<open>
  C3. A state version identifies a row for good. Whatever is served, a run is never lost and keeps
  its identifier, workspace, session, requester, prompt, correlation id and idempotency key; at the
  same version it is the very same row, and a run in a terminal state never changes again.
\<close>

theorem version_identifies_run:
  assumes "well_behaved E" and "keyed (tables s)" and "r \<in> set (runs (tables s))"
  shows "\<exists>r' \<in> set (runs (tables (serve E C requests s))). same_identity r r' \<and> stateVersion r \<le> stateVersion r' \<and>
     (stateVersion r' = stateVersion r \<longrightarrow> r' = r) \<and> (isTerminalWorkflowState (state r) \<longrightarrow> r' = r)"
proof -
  from steps_follow [OF serve_moves [OF assms(1)], of s C requests] assms(2,3)
  obtain r' where "r' \<in> set (runs (tables (serve E C requests s)))" "succeeds r r'"
    unfolding follows_def by blast
  then show ?thesis by (auto simp: succeeds_def intro!: bexI [of _ r'])
qed

definition sample_db :: db where
  "sample_db = empty_db\<lparr>runs := [sample_run],
     memberships := [\<lparr>mb_workspace = ''w'', mb_user = ''u'', mb_role = ''admin''\<rparr>],
     workspaces := [\<lparr>wk_id = ''w'', wk_name = ''W'', wk_policies_enabled = Some True, wk_deleted = False\<rparr>]\<rparr>"

lemma sample_db_ok: "sys_ok W (sample_sys sample_db)"
  by (simp add: sys_ok_def keyed_def unique_keys_def runs_ok_def sample_db_def empty_db_def run_ok_def sample_run_def
      reachable_states_def isTerminal_iff)

lemma sample_run_survives:
  "\<exists>r' \<in> set (runs (tables (serve sample_env None requests (sample_sys sample_db)))). succeeds sample_run r'"
proof -
  have "sample_run \<in> set (runs (tables (sample_sys sample_db)))" by (simp add: sample_db_def)
  moreover have "keyed (tables (sample_sys sample_db))" using sample_db_ok by (simp add: sys_ok_def)
  ultimately show ?thesis
    using steps_follow [OF serve_moves [OF sample_well_behaved]] unfolding follows_def by blast
qed

theorem version_identifies_run_witness:
  "\<exists>r' \<in> set (runs (tables (serve sample_env None [CancelRun ''r'' ''w'' ''u'', PollRuns] (sample_sys sample_db)))).
     same_identity sample_run r' \<and> stateVersion sample_run \<le> stateVersion r'"
proof -
  have "sample_run \<in> set (runs (tables (sample_sys sample_db)))" by (simp add: sample_db_def)
  moreover have "keyed (tables (sample_sys sample_db))" using sample_db_ok by (simp add: sys_ok_def)
  ultimately show ?thesis using version_identifies_run [OF sample_well_behaved] by blast
qed

theorem service_keeps_run_invariant_witness:
  "\<exists>r \<in> set (runs (tables (serve sample_env None [CancelRun ''r'' ''w'' ''u''] (sample_sys sample_db)))).
     state r \<in> reachable_states \<and> (completedAt r \<noteq> None) = isTerminalWorkflowState (state r)"
proof -
  obtain r where r: "r \<in> set (runs (tables (serve sample_env None [CancelRun ''r'' ''w'' ''u''] (sample_sys sample_db))))"
    using sample_run_survives by blast
  from service_keeps_run_invariant [OF sample_well_behaved sample_db_ok r] r show ?thesis by blast
qed

definition planned_run :: run where
  "planned_run = sample_run\<lparr>state := PLAN_CREATING, manifestVersion := Some 1, manifestValidatedVersion := Some 1,
     manifestConfirmedVersion := Some 1, manifestConfirmedAt := Some 0, policyRequirementsLoadedAt := Some 0,
     cloudContextLoadedAt := Some 0, iacArtifactId := Some ''a''\<rparr>"

definition planned_db :: db where
  "planned_db = empty_db\<lparr>runs := [planned_run], manifests := [\<lparr>mf_id = ''m'', mf_run_id = ''r'', mf_version = 1\<rparr>],
     artifacts := [\<lparr>ar_id = ''a'', ar_run_id = ''r'', ar_manifest_id = ''m'', ar_type = ''terraform'',
       ar_hash = replicate 64 (CHR ''a''), ar_key = iacIdempotencyKey planned_run ''m'', ar_generation = sample_artifact\<rparr>]\<rparr>"

lemma planned_db_ok: "sys_ok hashing_world (sample_sys planned_db)"
proof -
  have "verifyIacArtifact hashing_world sample_artifact planned_run ''m'' = Inr sample_artifact"
    using sample_artifact_verified
    by (subst verify_same_run [of _ "sample_run\<lparr>manifestVersion := Some 1\<rparr>"]) (simp_all add: planned_run_def)
  moreover have "jget sample_artifact ''hash'' = JStr (replicate 64 (CHR ''a''))" by (simp add: sample_artifact_def)
  ultimately have "code_verified hashing_world planned_db planned_run"
    by (simp add: code_verified_def planned_db_def) (simp add: planned_run_def sample_run_def)
  moreover have "runs planned_db = [planned_run]" by (simp add: planned_db_def)
  moreover have "manifest_bound planned_run" by (simp add: manifest_bound_def planned_run_def)
  ultimately show ?thesis
    by (simp add: sys_ok_def keyed_def unique_keys_def runs_ok_def run_ok_def reachable_states_def isTerminal_iff)
      (simp add: planned_run_def sample_run_def)
qed

theorem planned_run_has_verified_code_witness:
  "iacArtifactId planned_run = Some ''a'' \<and> safe_artifact hashing_world sample_artifact"
proof -
  let ?E = "sample_env\<lparr>base := hashing_world\<rparr>"
  have wb: "well_behaved ?E" by (simp add: well_behaved_def sample_env_def along_throw)
  have r: "planned_run \<in> set (runs (tables (serve ?E None [] (sample_sys planned_db))))" "state planned_run = PLAN_CREATING"
    by (simp_all add: serve_def planned_db_def planned_run_def)
  have "\<exists>a \<in> set (artifacts planned_db). \<exists>m. \<exists>x. iacArtifactId planned_run = Some (ar_id a) \<and>
      verifyIacArtifact hashing_world (ar_generation a) planned_run m = Inr x \<and> safe_artifact hashing_world x"
    using planned_run_has_verified_code [of "\<lambda>f s. s \<noteq> []" ?E "sample_sys planned_db" planned_run None "[]", OF _ wb _ r]
      hashing_documented planned_db_ok by (simp add: serve_def) blast
  moreover have "verifyIacArtifact hashing_world sample_artifact planned_run m = Inr x \<Longrightarrow> x = sample_artifact" for m x
    by (simp add: verify_Inr zod_Inr [OF hashing_documented] sample_artifact_parses)
  ultimately show ?thesis by (auto simp: planned_db_def)
qed

end
