(* ===== verification/Tenancy.thy ===== *)
theory Tenancy
  imports Runs_Service
begin

text \<open>
  Isolation of the workspaces from each other in the run service: what a request of a user can
  change and see, over all the operations of \<open>state-machine/runs.service.ts\<close> that a request reaches.
\<close>

section \<open>Requests of users\<close>

text \<open>The operation of a request, and the workspace and the user it names; polls have neither.\<close>

fun user_call :: "env \<Rightarrow> service_request \<Rightarrow> run act option" where
  "user_call E (CreateRun se w u p k) = Some (createRun E se w u p k)"
| "user_call E (CancelRun i w a) = Some (cancelRun E i w a)"
| "user_call E (ConfirmRun i w a v) = Some (confirmRun E i w a v)"
| "user_call E (ClarifyRun i w a ans k) = Some (clarifyRun E i w a ans k)"
| "user_call E (ReviseRun i w a p) = Some (reviseRun E i w a p)"
| "user_call E (ApprovalEvent i w a d r) = Some (handleApprovalEvent E i w a d r)"
| "user_call E PollRuns = None"
| "user_call E ExpireClarifications = None"

fun asked_workspace :: "service_request \<Rightarrow> string" where
  "asked_workspace (CreateRun se w u p k) = w"
| "asked_workspace (CancelRun i w a) = w"
| "asked_workspace (ConfirmRun i w a v) = w"
| "asked_workspace (ClarifyRun i w a ans k) = w"
| "asked_workspace (ReviseRun i w a p) = w"
| "asked_workspace (ApprovalEvent i w a d r) = w"
| "asked_workspace _ = []"

fun asking_user :: "service_request \<Rightarrow> string" where
  "asking_user (CreateRun se w u p k) = u"
| "asking_user (CancelRun i w a) = a"
| "asking_user (ConfirmRun i w a v) = a"
| "asking_user (ClarifyRun i w a ans k) = a"
| "asking_user (ReviseRun i w a p) = a"
| "asking_user (ApprovalEvent i w a d r) = a"
| "asking_user _ = []"

section \<open>Other workspaces\<close>

text \<open>The runs of the workspaces other than one stay as they are.\<close>

definition apart :: "string \<Rightarrow> sys \<Rightarrow> sys \<Rightarrow> bool" where
  "apart w s t = (keyed (tables s) \<longrightarrow> keyed (tables t) \<and>
     filter (\<lambda>r. workspaceId r \<noteq> w) (runs (tables t)) = filter (\<lambda>r. workspaceId r \<noteq> w) (runs (tables s)))"

interpretation apart: table_relation "apart w" for w
  by unfold_locales (simp add: apart_def)

lemma apart_trans: "(apart w)\<^sup>*\<^sup>* s t \<Longrightarrow> apart w s t"
  by (induction rule: rtranclp_induct) (auto simp: apart_def)

lemma filter_replaced:
  assumes "distinct (map rid rs)" "r \<in> set rs" "rid r' = rid r" "workspaceId r = w" "workspaceId r' = w"
  shows "filter (\<lambda>r. workspaceId r \<noteq> w) (map (\<lambda>x. if rid x = rid r' then r' else x) rs) = filter (\<lambda>r. workspaceId r \<noteq> w) rs"
proof -
  have "x = r" if "x \<in> set rs" "rid x = rid r" for x using assms(1,2) that by (auto simp: distinct_map inj_on_def)
  then have "\<forall>x \<in> set rs. rid x = rid r' \<longrightarrow> workspaceId x = w" using assms(3,4) by auto
  then show ?thesis using assms(5) by (induction rs) auto
qed

text \<open>An operation on a run that leaves the tables to the transaction around it.\<close>

definition reads_only :: "(run \<Rightarrow> run_change act) \<Rightarrow> bool" where
  "reads_only f \<longleftrightarrow> (\<forall>r s c t. f r s = (Inr c, t) \<longrightarrow> tables t = tables s)"

lemma reads_only_lawful: "lawful_op f \<Longrightarrow> reads_only f"
  by (auto simp: lawful_op_def reads_only_def)

lemma reads_only_ret: "reads_only (\<lambda>r. ret (c r))"
  by (simp add: reads_only_def)

lemma mutate_apart:
  assumes "mutate E i w v a f s = (Inr r', t)" "reads_only f"
  shows "apart w (others E s) t \<and> workspaceId r' = w"
proof -
  obtain r c u e where h: "find_run i w (tables (others E s)) = Some r" "f r (others E s) = (Inr c, u)"
      "check_change (base E) r c (tables u) = Inr ()" "r' = updated_row (base E) (clock u) c r"
    and t: "tables t = (let d = with_audit (base E) (mutation_audit r w a c (mutation_payload (base E) (clock u) r c))
                           (replace_run r' (tables u)) in d\<lparr>outbox := outbox d @ [e]\<rparr>)"
    using mutate_Inr [OF assms(1)] by blast
  have u: "tables u = tables (others E s)" using assms(2) h(2) by (auto simp: reads_only_def)
  have r: "rid r = i" "workspaceId r = w" "r \<in> set (runs (tables (others E s)))" using find_run_Some [OF h(1)] by auto
  have "same_identity r r'" using updated_row_succeeds [OF h(3)] h(4) by (simp add: succeeds_def)
  then have r': "rid r' = rid r" "workspaceId r' = w" using r by (simp_all add: same_identity_def)
  have runs: "runs (tables t) = runs (replace_run r' (tables (others E s)))" using t u by (simp add: Let_def)
  have "keyed (tables (others E s)) \<Longrightarrow> keyed (tables t)" using runs by (simp add: keyed_def)
  moreover have "filter (\<lambda>r. workspaceId r \<noteq> w) (runs (tables t)) = filter (\<lambda>r. workspaceId r \<noteq> w) (runs (tables (others E s)))"
    if "keyed (tables (others E s))"
    using filter_replaced [OF _ r(3) r'(1) r(2) r'(2)] that runs by (simp add: keyed_def replace_run_def)
  ultimately show ?thesis using r'(2) by (simp add: apart_def)
qed

text \<open>The other requests, between the statements of the one that is looked at.\<close>

definition others_apart :: "string \<Rightarrow> env \<Rightarrow> bool" where
  "others_apart w E \<longleftrightarrow> (\<forall>s. apart w s (others E s))"

lemma others_apart_steps: "others_apart w E \<Longrightarrow> (apart w)\<^sup>*\<^sup>* s (others E s)"
  by (auto simp: others_apart_def)

lemma apart_mutate [along_intros]:
  assumes "others_apart w E" "reads_only f"
  shows "along (apart w) (mutate E i w v a f)"
proof (rule alongI)
  fix s r t
  assume m: "mutate E i w v a f s = (r, t)"
  have "apart w (others E s) t"
  proof (cases r)
    case (Inl e)
    with m show ?thesis by (auto dest: mutate_Inl intro: apart.same_tables)
  next
    case (Inr x)
    with m mutate_apart assms(2) show ?thesis by blast
  qed
  with others_apart_steps [OF assms(1), of s] show "(apart w)\<^sup>*\<^sup>* s t" by (rule rtranclp.rtrancl_into_rtrancl)
qed

lemmas apart_new_uuid [along_intros] = apart.moves_new_uuid
lemmas apart_now [along_intros] = apart.moves_now

lemma apart_query [along_intros]: "others_apart w E \<Longrightarrow> along (apart w) (db_query E q)"
  by (rule apart.moves_query) (rule others_apart_steps)

lemma apart_getRun [along_intros]: "others_apart w E \<Longrightarrow> along (apart w) (getRun E i w a)"
  unfolding getRun_def as_member_def assertMembership_pool_def assertMembership_def by (intro along_intros)

lemma apart_transitionState [along_intros]:
  "others_apart w E \<Longrightarrow> along (apart w) (transitionState E i w v to a us)"
  unfolding transitionState_def by (intro apart_mutate reads_only_ret)

lemma createRun_body_apart:
  assumes "createRun_body E se w u p k s = (Inr r, t)"
  shows "apart w s t \<and> workspaceId r = w"
proof (cases "find_key k (tables s)")
  case (Some x)
  with assms have "t = s" "workspaceId r = w"
    by (auto simp: createRun_body_def assertMembership_client_def assertMembership_def assertMutationPermission_def mnd
        Let_def same_request_def)
  then show ?thesis by (simp add: apart_def)
next
  case None
  with assms obtain s1 s2 s3 where new: "r = new_run (uuid_of E (Suc (fresh s))) se w u p (uuid_of E (fresh s)) k (clock s)"
    and ins: "insert_run r s1 = (Inr (), s2)" and s1: "tables s1 = tables s"
    and au: "executeAppend E (run_created_audit r) s2 = (Inr (), s3)"
    and pu: "publish E r ''RunCreatedEvent'' (JObj [(''run_id'', JStr (rid r))]) s3 = (Inr (), t)"
    by (auto simp: createRun_body_def insert_created_def assertMembership_client_def assertMembership_def
        assertMutationPermission_def mnd Let_def)
  from ins s1 have "runs (tables s2) = runs (tables s) @ [r]" "rid r \<notin> rid ` set (runs (tables s))"
    by (auto simp: insert_run_def mnd)
  with publish_tables [OF pu] au new show ?thesis by (auto simp: executeAppend_Inr new_run_def apart_def keyed_def)
qed

lemma apart_createRun: "others_apart w E \<Longrightarrow> along (apart w) (createRun E se w u p k)"
proof -
  assume o: "others_apart w E"
  have "along (apart w) (txn E (createRun_body E se w u p k'))" for k'
    using others_apart_steps [OF o] createRun_body_apart by (intro apart.moves_transaction) blast+
  then show ?thesis unfolding createRun_def by (intro along_intros)
qed

lemma apart_cancelRun: "others_apart w E \<Longrightarrow> along (apart w) (cancelRun E i w a)"
  unfolding cancelRun_def by (intro along_intros)

lemma apart_confirmRun: "others_apart w E \<Longrightarrow> along (apart w) (confirmRun E i w a v)"
  unfolding confirmRun_def by (intro along_intros reads_only_lawful lawful_confirm)

lemma apart_clarifyRun: "others_apart w E \<Longrightarrow> along (apart w) (clarifyRun E i w a answers key)"
  unfolding clarifyRun_def clarify_pending_def clarify_conflict_def Let_def
  by (intro along_intros reads_only_lawful lawful_clarify)

lemma apart_reviseRun: "others_apart w E \<Longrightarrow> along (apart w) (reviseRun E i w a p)"
  unfolding reviseRun_def by (intro along_intros reads_only_ret)

lemma apart_approval: "others_apart w E \<Longrightarrow> along (apart w) (handleApprovalEvent E i w a d reason)"
  unfolding handleApprovalEvent_def by (intro along_intros reads_only_ret)

lemma apart_call: "user_call E q = Some m \<Longrightarrow> others_apart (asked_workspace q) E \<Longrightarrow> along (apart (asked_workspace q)) m"
  by (cases q)
    (auto intro: apart_createRun apart_cancelRun apart_confirmRun apart_clarifyRun apart_reviseRun apart_approval)

section \<open>What a request returns\<close>

definition returns :: "('a \<Rightarrow> bool) \<Rightarrow> 'a act \<Rightarrow> bool" where
  "returns P m \<longleftrightarrow> (\<forall>s x t. m s = (Inr x, t) \<longrightarrow> P x)"

named_theorems returns_intros

lemma returns_bnd [returns_intros]: "(\<And>x. returns P (g x)) \<Longrightarrow> returns P (bnd m g)"
  unfolding returns_def bnd_Inr_iff by blast

lemma returns_known: "returns Q m \<Longrightarrow> (\<And>x. Q x \<Longrightarrow> returns P (g x)) \<Longrightarrow> returns P (bnd m g)"
  unfolding returns_def bnd_Inr_iff by blast

lemma returns_ret: "P x \<Longrightarrow> returns P (ret x)"
  by (simp add: returns_def)

lemma returns_throw [returns_intros]: "returns P (throw e)"
  by (simp add: returns_def)

lemma returns_if [returns_intros]: "(b \<Longrightarrow> returns P m) \<Longrightarrow> (\<not> b \<Longrightarrow> returns P n) \<Longrightarrow> returns P (if b then m else n)"
  by simp

lemma returns_option [returns_intros]:
  "(v = None \<Longrightarrow> returns P m) \<Longrightarrow> (\<And>x. returns P (f x)) \<Longrightarrow> returns P (case v of None \<Rightarrow> m | Some x \<Rightarrow> f x)"
  by (cases v) simp_all

lemma returns_catching [returns_intros]:
  "returns P m \<Longrightarrow> (\<And>e. returns P (h e)) \<Longrightarrow> returns P (catching m h)"
  by (auto simp: returns_def catching_def split: prod.splits sum.splits)

abbreviation in_workspace :: "string \<Rightarrow> run act \<Rightarrow> bool" where
  "in_workspace w \<equiv> returns (\<lambda>r. workspaceId r = w)"

lemma in_workspace_mutate [returns_intros]: "reads_only f \<Longrightarrow> in_workspace w (mutate E i w v a f)"
  using mutate_apart unfolding returns_def by blast

lemma in_workspace_transition [returns_intros]: "in_workspace w (transitionState E i w v to a us)"
  unfolding transitionState_def by (intro returns_intros reads_only_ret)

lemma in_workspace_getRun: "in_workspace w (getRun E i w a)"
  by (auto simp: returns_def dest: getRun_Inr)

lemmas after_getRun = returns_known [OF in_workspace_getRun]

lemma in_workspace_call: "user_call E q = Some m \<Longrightarrow> in_workspace (asked_workspace q) m"
proof (cases q)
  case (CreateRun se w u p k)
  moreover have "in_workspace w (createRun E se w u p k)"
    using createRun_body_apart unfolding createRun_def by (intro returns_intros) (auto simp: returns_def txn_Inr)
  ultimately show "user_call E q = Some m \<Longrightarrow> ?thesis" by auto
next
  case (CancelRun i w a)
  moreover have "in_workspace w (cancelRun E i w a)"
    unfolding cancelRun_def by (intro after_getRun returns_intros returns_ret)
  ultimately show "user_call E q = Some m \<Longrightarrow> ?thesis" by auto
next
  case (ConfirmRun i w a v)
  moreover have "in_workspace w (confirmRun E i w a v)"
    unfolding confirmRun_def by (intro after_getRun returns_intros returns_ret reads_only_lawful lawful_confirm)
  ultimately show "user_call E q = Some m \<Longrightarrow> ?thesis" by auto
next
  case (ClarifyRun i w a ans k)
  moreover have "in_workspace w (clarifyRun E i w a ans k)"
    unfolding clarifyRun_def clarify_pending_def clarify_conflict_def Let_def
    by (intro after_getRun returns_intros returns_ret reads_only_lawful lawful_clarify)
  ultimately show "user_call E q = Some m \<Longrightarrow> ?thesis" by auto
next
  case (ReviseRun i w a p)
  moreover have "in_workspace w (reviseRun E i w a p)"
    unfolding reviseRun_def by (intro after_getRun returns_intros reads_only_ret)
  ultimately show "user_call E q = Some m \<Longrightarrow> ?thesis" by auto
next
  case (ApprovalEvent i w a d r)
  moreover have "in_workspace w (handleApprovalEvent E i w a d r)"
    unfolding handleApprovalEvent_def by (intro after_getRun returns_intros reads_only_ret)
  ultimately show "user_call E q = Some m \<Longrightarrow> ?thesis" by auto
qed simp_all

section \<open>Strangers\<close>

text \<open>Not a member of the workspace when the statement that looks for the membership runs.\<close>

definition stranger :: "env \<Rightarrow> string \<Rightarrow> string \<Rightarrow> sys \<Rightarrow> bool" where
  "stranger E w u s \<longleftrightarrow> u \<noteq> [] \<and> (\<forall>s'. tables s' = tables s \<longrightarrow> \<not> is_member w u (tables (others E s')))"

definition turned_away :: "env \<Rightarrow> 'a act \<Rightarrow> sys \<Rightarrow> bool" where
  "turned_away E m s \<longleftrightarrow> fst (m s) = Inl (ForbiddenException ''Workspace membership required'') \<and>
     (\<exists>s'. tables s' = tables s \<and> tables (snd (m s)) = tables (others E s'))"

lemma getRun_turns_away:
  assumes "stranger E w u s"
  shows "turned_away E (bnd (getRun E i w (Some u)) g) s"
proof -
  from assms have "u \<noteq> []" "\<not> is_member w u (tables (others E s))" by (auto simp: stranger_def)
  then show ?thesis
    by (auto simp: turned_away_def getRun_def as_member_def assertMembership_pool_def assertMembership_def bnd_def check_def
        throw_def ret_def)
qed

lemma createRun_turns_away:
  assumes "stranger E w u s"
  shows "turned_away E (createRun E se w u p k) s"
proof -
  have body: "createRun_body E se w u p k' v = (Inl (ForbiddenException ''Workspace membership required''), v)"
    if "\<not> is_member w u (tables v)" for v k'
    using that by (simp add: createRun_body_def assertMembership_client_def assertMembership_def bnd_def check_def throw_def
        gets_def)
  obtain k' s' where k: "(case k of Some k \<Rightarrow> ret k | None \<Rightarrow> new_uuid E) s = (Inr k', s')" and s': "tables s' = tables s"
    by (cases k) (auto simp: ret_def)
  from assms s' have "\<not> is_member w u (tables (others E s'))" by (simp add: stranger_def)
  then have "txn E (createRun_body E se w u p k') s' =
      (Inl (ForbiddenException ''Workspace membership required''), others E s')"
    by (simp add: txn_def Let_def body)
  with k s' show ?thesis by (auto simp: turned_away_def createRun_def bnd_def)
qed

section \<open>Properties\<close>





end
