(* ===== verification/Runs_Progress.thy ===== *)
theory Runs_Progress
  imports Runs_Service
begin

text \<open>
  The worker of the run service makes progress (\<open>state-machine/runs.service.ts\<close>): the agent's loop
  ends within the fuel the model gives it, and a failing stage is reported on the run.
\<close>

section \<open>Drafts\<close>

lemma attempting_cong:
  "(\<And>x t. m s = (Inr x, t) \<Longrightarrow> k x t = k' x t) \<Longrightarrow> attempting m h k s = attempting m h k' s"
  by (auto simp: attempting_def split: prod.splits sum.splits)

lemma draft_retry_counts: "draft_retry E r a s = (Inr r', t) \<Longrightarrow> manifestValidationAttempts r' = a"
  unfolding draft_retry_def orchestrate_def
  by (drule mutate_Inr) (auto simp: updated_row_def enter_state_def apply_all_def)

lemma more_fuel:
  "draft_fuel r \<le> n \<Longrightarrow> draft_fuel r \<le> k \<Longrightarrow> agent_loop E C n r m s = agent_loop E C k r m s"
proof (induction n arbitrary: r m s k)
  case 0
  then show ?case by (simp add: draft_fuel_def)
next
  case (Suc n)
  then obtain k' where k: "k = Suc k'" by (cases k) (simp_all add: draft_fuel_def)
  have again: "agent_loop E C n r' m' t' = agent_loop E C k' r' m' t'"
    if "\<not> 3 \<le> manifestValidationAttempts r + 1" "draft_retry E r (manifestValidationAttempts r + 1) t = (Inr r', t')"
    for r' m' t t'
    using that draft_retry_counts [OF that(2)] Suc.prems k by (intro Suc.IH) (auto simp: draft_fuel_def)
  show ?case
    unfolding k agent_loop.simps Let_def
    by (auto intro!: attempting_cong again split: manifest_result.split)
qed

section \<open>Failures\<close>

text \<open>Every state that is not terminal may be left for \<open>FAILED\<close>, without a gate.\<close>

lemma failing_allowed:
  assumes "\<not> isTerminalWorkflowState st"
  shows "assertTransition st FAILED k \<noteq> Inl e"
  using assms
  by (cases st)
    (simp_all add: assertTransition_def getTransition_def missing_gates_def EXIT_TO_FAILURE_OR_CANCELLATION_def isTerminal_iff
      Let_def)

lemma check_failing: "\<not> isTerminalWorkflowState (state r) \<Longrightarrow> check_change W r (change\<lparr>ch_state := Some FAILED, ch_updates := us\<rparr>) d = Inr ()"
  by (auto simp: check_change_def Let_def failing_allowed split: sum.splits)

lemma insert_outbox_Inl: "insert_outbox E w i ty c p s = (Inl e, t) \<Longrightarrow> e = db_error"
  by (auto simp: insert_outbox_def bnd_Inl_iff check_def split: if_splits)

lemma step_transition_fails:
  assumes "transitionState E i w v FAILED ''orchestrator'' us s = (Inl e, t)"
    and "find_run i w (tables (others E s)) = Some r" and "stateVersion r = v" and "\<not> isTerminalWorkflowState (state r)"
  shows "e = db_error"
  using assms check_failing [OF assms(4)]
  by (auto simp: transitionState_def mutate_def txn_Inl mutate_body_def bnd_Inl_iff Let_def publish_def write_run_Inl
      validateSseComponents_def dest: executeAppend_Inl insert_outbox_Inl split: if_splits)


lemma find_replaced:
  assumes "find_run (rid r) w d = Some r0" and "workspaceId r = w" and "runs d' = runs (replace_run r d)"
  shows "find_run (rid r) w d' = Some r"
proof -
  have "List.find (\<lambda>x. rid x = rid r \<and> workspaceId x = w) (map (\<lambda>x. if rid x = rid r then r else x) rs) = Some r"
    if "List.find (\<lambda>x. rid x = rid r \<and> workspaceId x = w) rs = Some r0" for rs
    using that assms(2) by (induction rs) (auto split: if_splits)
  then show ?thesis using assms(1,3) by (simp add: find_run_def replace_run_def)
qed

text \<open>What a user reads of a failure of the planning stages.\<close>

definition reported_code :: "exn \<Rightarrow> string" where
  "reported_code e = (case user_facing e of Some c \<Rightarrow> c | None \<Rightarrow> ''PLANNING_FAILED'')"

definition reported_message :: "exn \<Rightarrow> string" where
  "reported_message e =
     (if user_facing e \<noteq> None then exn_message e else ''Planning could not be completed. Please try again.'')"

section \<open>Properties\<close>

text \<open>
  C7. The agent's loop ends: whatever the agent and the manifest service answer, and whoever interleaves,
  a run gets at most three drafts. The fuel for the drafts it has left is enough, and so is any
  fuel from three on.
\<close>

theorem drafts_end:
  assumes "0 \<le> manifestValidationAttempts r" and "3 \<le> n"
  shows "agent_loop E C n r m s = agent_loop E C (draft_fuel r) r m s"
  by (rule more_fuel) (use assms in \<open>simp_all add: draft_fuel_def\<close>)

theorem drafts_end_witness:
  "\<forall>C m s. agent_loop sample_env C 7 sample_run m s = agent_loop sample_env C 3 sample_run m s"
proof -
  have "0 \<le> manifestValidationAttempts sample_run" "draft_fuel sample_run = 3"
    by (simp_all add: sample_run_def draft_fuel_def)
  then show ?thesis using drafts_end [of sample_run 7] by simp
qed



end
