(* ===== verification/Run_Scheduler.thy ===== *)
theory Run_Scheduler
  imports Prelude
begin

text \<open>
  The life of the planning worker (\<open>RunsService\<close>, \<open>orchestrator/src/state-machine/runs.service.ts\<close>): the
  timer of \<open>onModuleInit\<close>, the two polls it starts, the shutdown of \<open>onModuleDestroy\<close>, and the session lock
  that serializes the processing of a run over all instances of the service. A poll in flight is its next
  \<open>await\<close>; what happens while the lock is held is \<open>advance\<close> of \<open>Runs_Worker\<close>. The events are the answers of
  the database and the calls of the framework; an event that cannot happen has no result. Connections are
  numbers; the pool of an instance is the list of its idle ones. \<open>h\<close> is the hash of the database, and
  PostgreSQL's session locks are reentrant and end with their session.
\<close>

section \<open>The database's session locks\<close>

record lock_db =
  held :: "(nat \<times> int) list"
  next_conn :: nat

definition pg_try_advisory_lock :: "nat \<Rightarrow> int \<Rightarrow> lock_db \<Rightarrow> bool \<times> lock_db" where
  "pg_try_advisory_lock c k D =
     (if list_ex (\<lambda>(c', k'). k' = k \<and> c' \<noteq> c) (held D) then (False, D) else (True, D\<lparr>held := (c, k) # held D\<rparr>))"

definition pg_advisory_unlock :: "nat \<Rightarrow> int \<Rightarrow> lock_db \<Rightarrow> lock_db" where
  "pg_advisory_unlock c k D = D\<lparr>held := remove1 (c, k) (held D)\<rparr>"

definition end_sessions :: "(nat \<Rightarrow> bool) \<Rightarrow> lock_db \<Rightarrow> lock_db" where
  "end_sessions P D = D\<lparr>held := filter (\<lambda>(c, k). \<not> P c) (held D)\<rparr>"

section \<open>An instance of the service\<close>

text \<open>A row of the planning poll is a run with its workspace, one of the expiry poll has its version too.\<close>

type_synonym plan_row = "string \<times> string"
type_synonym expiry_row = "string \<times> string \<times> int"

datatype planning =
    Querying
  | Connecting plan_row "plan_row list"
  | Asking nat plan_row "plan_row list"
  | Working nat plan_row "plan_row list"
  | Unlocking nat plan_row "plan_row list" bool

datatype expiry = ExpiryQuerying | Expiring expiry_row "expiry_row list"

record inst =
  si_timer :: bool
  si_processing :: "nat option"
  si_expiring :: "nat option"
  si_stopping :: bool
  si_awaiting :: "(nat option \<times> nat option) option"
  si_destroyed :: bool
  si_polls :: "(nat \<times> planning) list"
  si_expiries :: "(nat \<times> expiry) list"
  si_pool :: "nat list"
  si_next :: nat
  si_dispatched :: "plan_row list"
  si_cancelled :: "expiry_row list"
  si_errors :: "string list"
  si_crashed :: bool

definition new_inst :: inst where
  "new_inst = \<lparr>si_timer = False, si_processing = None, si_expiring = None, si_stopping = False, si_awaiting = None,
     si_destroyed = False, si_polls = [], si_expiries = [], si_pool = [], si_next = 0, si_dispatched = [],
     si_cancelled = [], si_errors = [], si_crashed = False\<rparr>"

definition start_expiry :: "inst \<Rightarrow> inst" where
  "start_expiry I =
     (if \<not> si_stopping I \<and> si_expiring I = None
      then I\<lparr>si_expiring := Some (si_next I), si_expiries := si_expiries I @ [(si_next I, ExpiryQuerying)], si_next := si_next I + 1\<rparr>
      else I)"

definition start_planning :: "inst \<Rightarrow> inst" where
  "start_planning I =
     (if si_processing I \<noteq> None \<or> si_stopping I then I
      else I\<lparr>si_processing := Some (si_next I), si_polls := si_polls I @ [(si_next I, Querying)], si_next := si_next I + 1\<rparr>)"

definition timer_tick :: "inst \<Rightarrow> inst" where
  "timer_tick I = start_planning (start_expiry I)"

definition onModuleInit :: "bool \<Rightarrow> inst \<Rightarrow> inst" where
  "onModuleInit clients I = (if \<not> clients then I else I\<lparr>si_timer := True\<rparr>)"

definition onModuleDestroy :: "inst \<Rightarrow> inst" where
  "onModuleDestroy I =
     I\<lparr>si_stopping := True, si_timer := False, si_awaiting := Some (si_processing I, si_expiring I)\<rparr>"

text \<open>The end of a poll: the \<open>catch\<close> and the \<open>finally\<close> of its promise.\<close>

definition end_planning :: "nat \<Rightarrow> bool \<Rightarrow> inst \<Rightarrow> inst" where
  "end_planning n good I =
     I\<lparr>si_polls := filter (\<lambda>q. fst q \<noteq> n) (si_polls I), si_processing := None,
       si_errors := si_errors I @ (if good then [] else [''Planning worker could not poll durable runs''])\<rparr>"

definition end_expiry :: "nat \<Rightarrow> bool \<Rightarrow> inst \<Rightarrow> inst" where
  "end_expiry n good I =
     I\<lparr>si_expiries := filter (\<lambda>q. fst q \<noteq> n) (si_expiries I), si_expiring := None,
       si_errors := si_errors I @ (if good \<or> si_stopping I then [] else [''Clarification expiry poll failed''])\<rparr>"

definition set_planning :: "nat \<Rightarrow> planning \<Rightarrow> inst \<Rightarrow> inst" where
  "set_planning n p I = I\<lparr>si_polls := map (\<lambda>q. if fst q = n then (n, p) else q) (si_polls I)\<rparr>"

definition set_expiry :: "nat \<Rightarrow> expiry \<Rightarrow> inst \<Rightarrow> inst" where
  "set_expiry n p I = I\<lparr>si_expiries := map (\<lambda>q. if fst q = n then (n, p) else q) (si_expiries I)\<rparr>"

text \<open>The loops over the rows: the next run is dispatched unless the service is stopping.\<close>

definition next_planning :: "nat \<Rightarrow> plan_row list \<Rightarrow> inst \<Rightarrow> inst" where
  "next_planning n rows I =
     (case rows of
        [] \<Rightarrow> end_planning n True I
      | r # rest \<Rightarrow>
          if si_stopping I then end_planning n True I
          else set_planning n (Connecting r rest) (I\<lparr>si_dispatched := si_dispatched I @ [r]\<rparr>))"

definition next_expiry :: "nat \<Rightarrow> expiry_row list \<Rightarrow> inst \<Rightarrow> inst" where
  "next_expiry n rows I =
     (case rows of
        [] \<Rightarrow> end_expiry n True I
      | r # rest \<Rightarrow>
          if si_stopping I then end_expiry n True I
          else set_expiry n (Expiring r rest) (I\<lparr>si_cancelled := si_cancelled I @ [r]\<rparr>))"

definition release :: "nat \<Rightarrow> inst \<Rightarrow> inst" where
  "release c I = I\<lparr>si_pool := c # si_pool I\<rparr>"

section \<open>The events\<close>

text \<open>
  \<open>PlanRows\<close>, \<open>ExpiryRows\<close>: the rows of a poll, or \<open>None\<close> when the query fails. \<open>ConnectionGiven n c\<close>: the pool
  gives an idle connection, or opens one (\<open>None\<close>). \<open>LockFailed n broken\<close>: the query for the lock fails, which
  takes no lock; a broken connection does not return to the pool. \<open>WorkOver n good\<close>: what was done under the
  lock has returned or thrown. \<open>UnlockAnswered n good\<close>: a failed unlock destroys the connection.
  \<open>CancelAnswered n good\<close>: the transition is made, or lost to a conflict, or (not \<open>good\<close>) fails otherwise.
\<close>

datatype worker_event =
    Init
  | Tick
  | Shutdown
  | Drained
  | Crash
  | PlanRows nat "plan_row list option"
  | ConnectionGiven nat "nat option"
  | ConnectionRefused nat
  | LockAnswered nat
  | LockFailed nat bool
  | WorkOver nat bool
  | UnlockAnswered nat bool
  | ExpiryRows nat "expiry_row list option"
  | CancelAnswered nat bool

definition poll_at :: "inst \<Rightarrow> nat \<Rightarrow> planning option" where
  "poll_at I n = map_of (si_polls I) n"

definition expiry_at :: "inst \<Rightarrow> nat \<Rightarrow> expiry option" where
  "expiry_at I n = map_of (si_expiries I) n"

definition settled_polls :: "inst \<Rightarrow> nat option \<Rightarrow> nat option \<Rightarrow> bool" where
  "settled_polls I p e =
     ((case p of None \<Rightarrow> True | Some n \<Rightarrow> poll_at I n = None) \<and> (case e of None \<Rightarrow> True | Some n \<Rightarrow> expiry_at I n = None))"

definition conn_of :: "planning \<Rightarrow> nat option" where
  "conn_of p =
     (case p of Asking c r rest \<Rightarrow> Some c | Working c r rest \<Rightarrow> Some c | Unlocking c r rest good \<Rightarrow> Some c | _ \<Rightarrow> None)"

definition owns :: "inst \<Rightarrow> nat \<Rightarrow> bool" where
  "owns I c \<longleftrightarrow> c \<in> set (si_pool I) \<or> list_ex (\<lambda>q. conn_of (snd q) = Some c) (si_polls I)"

definition crashed_inst :: "inst \<Rightarrow> inst" where
  "crashed_inst I =
     I\<lparr>si_timer := False, si_processing := None, si_expiring := None, si_polls := [], si_expiries := [], si_pool := [], si_crashed := True\<rparr>"

definition connected :: "nat \<Rightarrow> nat option \<Rightarrow> inst \<Rightarrow> lock_db \<Rightarrow> (inst \<times> lock_db) option" where
  "connected n c I D =
     (case poll_at I n of
        Some (Connecting r rest) \<Rightarrow>
          (case c of
             None \<Rightarrow> Some (set_planning n (Asking (next_conn D) r rest) I, D\<lparr>next_conn := next_conn D + 1\<rparr>)
           | Some c' \<Rightarrow>
               if c' \<in> set (si_pool I)
               then Some (set_planning n (Asking c' r rest) (I\<lparr>si_pool := remove1 c' (si_pool I)\<rparr>), D) else None)
      | _ \<Rightarrow> None)"

definition lock_answered :: "(string \<Rightarrow> int) \<Rightarrow> nat \<Rightarrow> inst \<Rightarrow> lock_db \<Rightarrow> (inst \<times> lock_db) option" where
  "lock_answered h n I D =
     (case poll_at I n of
        Some (Asking c r rest) \<Rightarrow>
          (case pg_try_advisory_lock c (h (fst r)) D of
             (locked, D') \<Rightarrow> Some (if locked then set_planning n (Working c r rest) I else next_planning n rest (release c I), D'))
      | _ \<Rightarrow> None)"

definition lock_failed :: "nat \<Rightarrow> bool \<Rightarrow> inst \<Rightarrow> lock_db \<Rightarrow> (inst \<times> lock_db) option" where
  "lock_failed n broken I D =
     (case poll_at I n of
        Some (Asking c r rest) \<Rightarrow>
          Some (end_planning n False (if broken then I else release c I), if broken then end_sessions ((=) c) D else D)
      | _ \<Rightarrow> None)"

definition unlock_answered :: "(string \<Rightarrow> int) \<Rightarrow> nat \<Rightarrow> bool \<Rightarrow> inst \<Rightarrow> lock_db \<Rightarrow> (inst \<times> lock_db) option" where
  "unlock_answered h n good I D =
     (case poll_at I n of
        Some (Unlocking c r rest worked) \<Rightarrow>
          Some (if good
            then ((if worked then next_planning n rest (release c I) else end_planning n False (release c I)), pg_advisory_unlock c (h (fst r)) D)
            else (end_planning n False I, end_sessions ((=) c) D))
      | _ \<Rightarrow> None)"

fun worker_step :: "bool \<Rightarrow> (string \<Rightarrow> int) \<Rightarrow> worker_event \<Rightarrow> inst \<Rightarrow> lock_db \<Rightarrow> (inst \<times> lock_db) option" where
  "worker_step clients h Init I D = (if si_timer I \<or> si_stopping I then None else Some (onModuleInit clients I, D))"
| "worker_step clients h Tick I D = (if si_timer I then Some (timer_tick I, D) else None)"
| "worker_step clients h Shutdown I D = (if si_stopping I then None else Some (onModuleDestroy I, D))"
| "worker_step clients h Drained I D =
     (case si_awaiting I of
        Some (p, e) \<Rightarrow> if settled_polls I p e \<and> \<not> si_destroyed I then Some (I\<lparr>si_destroyed := True\<rparr>, D) else None
      | None \<Rightarrow> None)"
| "worker_step clients h Crash I D = Some (crashed_inst I, end_sessions (owns I) D)"
| "worker_step clients h (PlanRows n rows) I D =
     (case poll_at I n of
        Some Querying \<Rightarrow> Some (case rows of None \<Rightarrow> end_planning n False I | Some rs \<Rightarrow> next_planning n rs I, D)
      | _ \<Rightarrow> None)"
| "worker_step clients h (ConnectionGiven n c) I D = connected n c I D"
| "worker_step clients h (ConnectionRefused n) I D =
     (case poll_at I n of Some (Connecting r rest) \<Rightarrow> Some (end_planning n False I, D) | _ \<Rightarrow> None)"
| "worker_step clients h (LockAnswered n) I D = lock_answered h n I D"
| "worker_step clients h (LockFailed n broken) I D = lock_failed n broken I D"
| "worker_step clients h (WorkOver n good) I D =
     (case poll_at I n of
        Some (Working c r rest) \<Rightarrow> Some (set_planning n (Unlocking c r rest good) I, D)
      | _ \<Rightarrow> None)"
| "worker_step clients h (UnlockAnswered n good) I D = unlock_answered h n good I D"
| "worker_step clients h (ExpiryRows n rows) I D =
     (case expiry_at I n of
        Some ExpiryQuerying \<Rightarrow> Some (case rows of None \<Rightarrow> end_expiry n False I | Some rs \<Rightarrow> next_expiry n rs I, D)
      | _ \<Rightarrow> None)"
| "worker_step clients h (CancelAnswered n good) I D =
     (case expiry_at I n of
        Some (Expiring r rest) \<Rightarrow> Some (if good then next_expiry n rest I else end_expiry n False I, D)
      | _ \<Rightarrow> None)"

section \<open>All instances\<close>

record cluster =
  insts :: "nat \<Rightarrow> inst"
  locks :: lock_db

definition new_cluster :: cluster where
  "new_cluster = \<lparr>insts = (\<lambda>i. new_inst), locks = \<lparr>held = [], next_conn = 0\<rparr>\<rparr>"

definition cluster_step :: "bool \<Rightarrow> (string \<Rightarrow> int) \<Rightarrow> nat \<times> worker_event \<Rightarrow> cluster \<Rightarrow> cluster option" where
  "cluster_step clients h ie s =
     (if si_crashed (insts s (fst ie)) then None
      else map_option (\<lambda>(I, D). s\<lparr>insts := (insts s)(fst ie := I), locks := D\<rparr>)
        (worker_step clients h (snd ie) (insts s (fst ie)) (locks s)))"

inductive cluster_runs :: "bool \<Rightarrow> (string \<Rightarrow> int) \<Rightarrow> cluster \<Rightarrow> (nat \<times> worker_event) list \<Rightarrow> cluster \<Rightarrow> bool" for clients h s where
  start: "cluster_runs clients h s [] s"
| step: "cluster_runs clients h s es t \<Longrightarrow> cluster_step clients h e t = Some u \<Longrightarrow> cluster_runs clients h s (es @ [e]) u"

inductive_simps cluster_runs_Nil [simp]: "cluster_runs clients h s [] t"
inductive_cases cluster_runs_snocE: "cluster_runs clients h s (es @ [e]) u"

text \<open>The run an instance works on under its lock.\<close>

definition at_work :: "inst \<Rightarrow> plan_row \<Rightarrow> bool" where
  "at_work I r \<longleftrightarrow> (\<exists>q\<in>set (si_polls I). case snd q of Working c r' rest \<Rightarrow> r' = r | Unlocking c r' rest good \<Rightarrow> r' = r | _ \<Rightarrow> False)"

section \<open>One poll of a kind\<close>

definition slot_ok :: "nat option \<Rightarrow> (nat \<times> 'a) list \<Rightarrow> bool" where
  "slot_ok f xs \<longleftrightarrow> (case f of None \<Rightarrow> xs = [] | Some n \<Rightarrow> map fst xs = [n])"

definition awaits_ok :: "bool \<Rightarrow> bool \<Rightarrow> nat option \<Rightarrow> nat option \<Rightarrow> (nat option \<times> nat option) option \<Rightarrow> bool" where
  "awaits_ok stopped gone p e a \<longleftrightarrow>
     (case a of None \<Rightarrow> \<not> stopped \<and> \<not> gone | Some (p', e') \<Rightarrow> stopped \<and> p \<in> {None, p'} \<and> e \<in> {None, e'})"

definition inst_ok :: "inst \<Rightarrow> bool" where
  "inst_ok I \<longleftrightarrow>
     slot_ok (si_processing I) (si_polls I) \<and> slot_ok (si_expiring I) (si_expiries I) \<and> (si_timer I \<longrightarrow> \<not> si_stopping I) \<and>
     awaits_ok (si_stopping I) (si_destroyed I) (si_processing I) (si_expiring I) (si_awaiting I) \<and>
     (si_destroyed I \<longrightarrow> si_polls I = [] \<and> si_expiries I = [])"

lemma slot_None [simp]: "slot_ok None xs \<longleftrightarrow> xs = []" by (simp add: slot_ok_def)
lemma slot_Some [simp]: "slot_ok (Some n) xs \<longleftrightarrow> map fst xs = [n]" by (simp add: slot_ok_def)

lemma awaits_ok_ended:
  "awaits_ok stopped gone p e a \<Longrightarrow> awaits_ok stopped gone None e a"
  "awaits_ok stopped gone p e a \<Longrightarrow> awaits_ok stopped gone p None a"
  by (auto simp: awaits_ok_def split: option.splits)

lemma awaits_ok_crash: "awaits_ok stopped gone p e a \<Longrightarrow> awaits_ok stopped gone None None a"
  by (auto simp: awaits_ok_def split: option.splits)

lemma awaits_ok_live: "awaits_ok False gone p e a \<longleftrightarrow> a = None \<and> \<not> gone"
  by (auto simp: awaits_ok_def split: option.splits)

lemma slot_filled [simp]: "map fst xs = [n] \<Longrightarrow> map_of xs n \<noteq> None"
  by (auto simp: map_eq_Cons_conv)

lemma slot_lookup: "slot_ok f xs \<Longrightarrow> map_of xs n = Some p \<Longrightarrow> f = Some n \<and> xs = [(n, p)]"
  by (cases f) (auto simp: map_eq_Cons_conv split: if_splits)

lemma poll_alone: "inst_ok I \<Longrightarrow> poll_at I n = Some p \<Longrightarrow> si_processing I = Some n \<and> si_polls I = [(n, p)]"
  using slot_lookup [of "si_processing I" "si_polls I" n p] by (simp add: inst_ok_def poll_at_def)

lemma expiry_alone: "inst_ok I \<Longrightarrow> expiry_at I n = Some p \<Longrightarrow> si_expiring I = Some n \<and> si_expiries I = [(n, p)]"
  using slot_lookup [of "si_expiring I" "si_expiries I" n p] by (simp add: inst_ok_def expiry_at_def)

text \<open>The operations on a poll keep the invariant; \<open>steps_defs\<close> are the operations that move polls.\<close>

lemmas poll_defs = end_planning_def end_expiry_def set_planning_def set_expiry_def next_planning_def next_expiry_def release_def
lemmas step_defs = connected_def lock_answered_def lock_failed_def unlock_answered_def

lemma inst_ok_planning:
  assumes "inst_ok I" "si_processing I = Some n" "si_polls I = [(n, p)]"
  shows "inst_ok (end_planning n good I)" "inst_ok (set_planning n q I)" "inst_ok (next_planning n rows I)"
proof -
  have a: "awaits_ok (si_stopping I) False (Some n) (si_expiring I) (si_awaiting I)" "\<not> si_destroyed I"
    "slot_ok (si_expiring I) (si_expiries I)" "si_timer I \<longrightarrow> \<not> si_stopping I"
    using assms by (auto simp: inst_ok_def)
  show "inst_ok (end_planning n good I)" "inst_ok (set_planning n q I)" "inst_ok (next_planning n rows I)"
    using a awaits_ok_ended(1) [OF a(1)] assms by (cases "si_stopping I"; simp add: inst_ok_def poll_defs split: list.split)+
qed

lemma inst_ok_expiry:
  assumes "inst_ok I" "si_expiring I = Some n" "si_expiries I = [(n, p)]"
  shows "inst_ok (end_expiry n good I)" "inst_ok (set_expiry n q I)" "inst_ok (next_expiry n rows I)"
proof -
  have a: "awaits_ok (si_stopping I) False (si_processing I) (Some n) (si_awaiting I)" "\<not> si_destroyed I"
    "slot_ok (si_processing I) (si_polls I)" "si_timer I \<longrightarrow> \<not> si_stopping I"
    using assms by (auto simp: inst_ok_def)
  show "inst_ok (end_expiry n good I)" "inst_ok (set_expiry n q I)" "inst_ok (next_expiry n rows I)"
    using a awaits_ok_ended(2) [OF a(1)] assms by (cases "si_stopping I"; simp add: inst_ok_def poll_defs split: list.split)+
qed

lemma release_fields [simp]: "si_processing (release c I) = si_processing I" "si_polls (release c I) = si_polls I"
  by (simp_all add: release_def)

lemma inst_ok_pool [simp]: "inst_ok (I\<lparr>si_pool := cs\<rparr>) = inst_ok I"
  by (simp add: inst_ok_def)

lemma inst_ok_release [simp]: "inst_ok (release c I) = inst_ok I"
  by (simp add: release_def)

lemma inst_ok_tick: "inst_ok I \<Longrightarrow> si_timer I \<Longrightarrow> inst_ok (timer_tick I)"
  by (auto simp: inst_ok_def timer_tick_def start_planning_def start_expiry_def awaits_ok_live)

lemma settled_idle:
  assumes "inst_ok I" "si_awaiting I = Some (p, e)" "settled_polls I p e"
  shows "si_polls I = [] \<and> si_expiries I = []"
proof
  show "si_polls I = []"
  proof (cases "si_processing I")
    case (Some n)
    then have "p = Some n" "poll_at I n \<noteq> None" using assms by (auto simp: inst_ok_def awaits_ok_def poll_at_def)
    then show ?thesis using assms by (simp add: settled_polls_def)
  qed (use assms in \<open>simp add: inst_ok_def\<close>)
  show "si_expiries I = []"
  proof (cases "si_expiring I")
    case (Some n)
    then have "e = Some n" "expiry_at I n \<noteq> None" using assms by (auto simp: inst_ok_def awaits_ok_def expiry_at_def)
    then show ?thesis using assms by (simp add: settled_polls_def)
  qed (use assms in \<open>simp add: inst_ok_def\<close>)
qed

lemma inst_ok_step:
  assumes ok: "inst_ok I" and step: "worker_step clients h e I D = Some (J, E)"
  shows "inst_ok J"
proof (cases e)
  case Init
  then show ?thesis using assms by (auto simp: inst_ok_def onModuleInit_def split: if_splits)
next
  case Tick
  then show ?thesis using assms inst_ok_tick by (auto split: if_splits)
next
  case Shutdown
  then show ?thesis using assms by (auto simp: inst_ok_def onModuleDestroy_def awaits_ok_def split: if_splits option.splits)
next
  case Drained
  then show ?thesis using assms settled_idle [OF ok] by (auto simp: inst_ok_def awaits_ok_def split: if_splits option.splits)
next
  case Crash
  then show ?thesis using assms by (auto simp: inst_ok_def crashed_inst_def dest: awaits_ok_crash)
next
  case (PlanRows n rows)
  then show ?thesis using assms poll_alone [OF ok] inst_ok_planning [OF ok]
    by (auto split: option.splits planning.splits)
next
  case (ConnectionGiven n c)
  then show ?thesis using assms poll_alone [OF ok]
    by (auto simp: connected_def inst_ok_planning split: option.splits planning.splits if_splits)
next
  case (ExpiryRows n rows)
  then show ?thesis using assms expiry_alone [OF ok] inst_ok_expiry [OF ok] by (auto split: option.splits expiry.splits)
next
  case (CancelAnswered n good)
  then show ?thesis using assms expiry_alone [OF ok] inst_ok_expiry [OF ok] by (auto split: option.splits expiry.splits if_splits)
qed (use assms poll_alone [OF ok] in
    \<open>auto simp: step_defs inst_ok_planning split: option.splits planning.splits if_splits prod.splits\<close>)

section \<open>The lock protocol\<close>

text \<open>
  What the locks see of an instance: the idle connections, and the connection of the run in work with whether
  it holds the run's lock. The moves of this view are the abstract protocol, which the instances refine.
\<close>

type_synonym lock_view = "nat list \<times> (nat \<times> bool \<times> string) option"

definition planning_view :: "planning \<Rightarrow> (nat \<times> bool \<times> string) option" where
  "planning_view p =
     (case p of
        Asking c r rest \<Rightarrow> Some (c, False, fst r)
      | Working c r rest \<Rightarrow> Some (c, True, fst r)
      | Unlocking c r rest good \<Rightarrow> Some (c, True, fst r)
      | _ \<Rightarrow> None)"

definition view :: "inst \<Rightarrow> lock_view" where
  "view I = (si_pool I, case si_polls I of [] \<Rightarrow> None | q # qs \<Rightarrow> planning_view (snd q))"

definition conns :: "lock_view \<Rightarrow> nat set" where
  "conns v = set (fst v) \<union> fst ` set_option (snd v)"

inductive lock_move :: "(string \<Rightarrow> int) \<Rightarrow> lock_view \<Rightarrow> lock_db \<Rightarrow> lock_view \<Rightarrow> lock_db \<Rightarrow> bool" for h where
  stay: "lock_move h v D v D"
| opened: "lock_move h (P, None) D (P, Some (next_conn D, False, r)) (D\<lparr>next_conn := next_conn D + 1\<rparr>)"
| reused: "c \<in> set P \<Longrightarrow> lock_move h (P, None) D (remove1 c P, Some (c, False, r)) D"
| locked: "\<forall>c'. (c', h r) \<in> set (held D) \<longrightarrow> c' = c \<Longrightarrow>
    lock_move h (P, Some (c, False, r)) D (P, Some (c, True, r)) (D\<lparr>held := (c, h r) # held D\<rparr>)"
| refused: "lock_move h (P, Some (c, False, r)) D (c # P, None) D"
| unlocked: "lock_move h (P, Some (c, True, r)) D (c # P, None) (pg_advisory_unlock c (h r) D)"
| broken: "lock_move h (P, Some (c, b, r)) D (P, None) (end_sessions ((=) c) D)"
| crashed: "lock_move h v D ([], None) (end_sessions (\<lambda>c. c \<in> conns v) D)"

definition conns_ok :: "(nat \<Rightarrow> lock_view) \<Rightarrow> lock_db \<Rightarrow> bool" where
  "conns_ok V D \<longleftrightarrow>
     (\<forall>i. distinct (fst (V i)) \<and> set (fst (V i)) \<inter> fst ` set_option (snd (V i)) = {} \<and> (\<forall>c\<in>conns (V i). c < next_conn D)) \<and>
     (\<forall>i j c. c \<in> conns (V i) \<longrightarrow> c \<in> conns (V j) \<longrightarrow> i = j)"

definition held_ok :: "(string \<Rightarrow> int) \<Rightarrow> (nat \<Rightarrow> lock_view) \<Rightarrow> lock_db \<Rightarrow> bool" where
  "held_ok h V D \<longleftrightarrow>
     distinct (held D) \<and> (\<forall>c k. (c, k) \<in> set (held D) \<longleftrightarrow> (\<exists>i r. snd (V i) = Some (c, True, r) \<and> h r = k)) \<and>
     (\<forall>c c' k. (c, k) \<in> set (held D) \<longrightarrow> (c', k) \<in> set (held D) \<longrightarrow> c = c')"

lemma conns_simps [simp]:
  "conns (P, None) = set P" "conns (P, Some (c, b, r)) = insert c (set P)"
  by (simp_all add: conns_def)

lemma locks_fields [simp]:
  "next_conn (pg_advisory_unlock c k D) = next_conn D" "next_conn (end_sessions X D) = next_conn D"
  "held (pg_advisory_unlock c k D) = remove1 (c, k) (held D)" "held (end_sessions X D) = filter (\<lambda>(c, k). \<not> X c) (held D)"
  by (simp_all add: pg_advisory_unlock_def end_sessions_def)

text \<open>A move keeps the connections apart: it gains at most the one that is opened.\<close>

lemma lock_move_conns:
  "lock_move h v D w E \<Longrightarrow>
     distinct (fst v) \<Longrightarrow> set (fst v) \<inter> fst ` set_option (snd v) = {} \<Longrightarrow> \<forall>c\<in>conns v. c < next_conn D \<Longrightarrow>
     distinct (fst w) \<and> set (fst w) \<inter> fst ` set_option (snd w) = {} \<and> next_conn D \<le> next_conn E \<and>
     (\<forall>c\<in>conns w. c \<in> conns v \<or> c = next_conn D \<and> next_conn D < next_conn E)"
  by (induction rule: lock_move.induct) auto

lemma conns_ok_move:
  assumes ok: "conns_ok V D" and move: "lock_move h (V i) D w E"
  shows "conns_ok (V(i := w)) E"
proof -
  have vi: "distinct (fst (V i))" "set (fst (V i)) \<inter> fst ` set_option (snd (V i)) = {}"
    "\<forall>c\<in>conns (V i). c < next_conn D"
    using ok by (simp_all add: conns_ok_def)
  note w = lock_move_conns [OF move vi]
  have below: "c < next_conn D" if "c \<in> conns (V j)" for c j
    using ok that by (simp add: conns_ok_def)
  have one: "a = b" if "c \<in> conns (V a)" "c \<in> conns (V b)" for a b c
    using ok that by (simp add: conns_ok_def)
  have apart: "c \<notin> conns (V j)" if "c \<in> conns w" "j \<noteq> i" for c j
    using w that below [of c j] one [of c i j] by auto
  have "c < next_conn E" if "c \<in> conns ((V(i := w)) j)" for c j
  proof (cases "j = i")
    case True
    then show ?thesis using that w below [of c i] by auto
  next
    case False
    then show ?thesis using that w below [of c j] by simp
  qed
  moreover have "a = b" if "c \<in> conns ((V(i := w)) a)" "c \<in> conns ((V(i := w)) b)" for a b c
    using that apart [of c a] apart [of c b] one [of c a b] by (simp split: if_splits)
  moreover have "distinct (fst ((V(i := w)) j)) \<and> set (fst ((V(i := w)) j)) \<inter> fst ` set_option (snd ((V(i := w)) j)) = {}" for j
    using ok w by (simp add: conns_ok_def)
  ultimately show ?thesis unfolding conns_ok_def by blast
qed

text \<open>
  A move keeps the table of locks, which tells who works under a lock, and a lock has one holder: the move
  leaves the table alone, or it ends the sessions of a set of connections that nobody else uses.
\<close>

lemma held_same:
  assumes "held_ok h V D" "held E = held D" "\<And>c r. snd (V i) \<noteq> Some (c, True, r)" "\<And>c r. snd w \<noteq> Some (c, True, r)"
  shows "held_ok h (V(i := w)) E"
proof -
  have "(\<exists>j r. snd ((V(i := w)) j) = Some (c, True, r) \<and> h r = k) \<longleftrightarrow> (\<exists>j r. snd (V j) = Some (c, True, r) \<and> h r = k)" for c k
    using assms(3,4) by (metis fun_upd_apply)
  then show ?thesis using assms(1,2) unfolding held_ok_def by simp
qed

lemma held_dropped:
  assumes ok: "held_ok h V D" and gone: "distinct (held E)" "set (held E) = {p \<in> set (held D). fst p \<notin> C}" "snd w = None"
    and mine: "\<And>c b r. snd (V i) = Some (c, b, r) \<Longrightarrow> c \<in> C"
    and others: "\<And>j c b r. snd (V j) = Some (c, b, r) \<Longrightarrow> c \<in> C \<Longrightarrow> j = i"
  shows "held_ok h (V(i := w)) E"
proof -
  have same: "(\<exists>j r. snd ((V(i := w)) j) = Some (c, True, r) \<and> h r = k) \<longleftrightarrow>
        (\<exists>j r. snd (V j) = Some (c, True, r) \<and> h r = k) \<and> c \<notin> C" for c k
  proof
    assume "\<exists>j r. snd ((V(i := w)) j) = Some (c, True, r) \<and> h r = k"
    then obtain j r where j: "snd ((V(i := w)) j) = Some (c, True, r)" "h r = k" by blast
    with gone(3) have "j \<noteq> i" by auto
    with j have v: "snd (V j) = Some (c, True, r)" by simp
    with others \<open>j \<noteq> i\<close> have "c \<notin> C" by blast
    with v j show "(\<exists>j r. snd (V j) = Some (c, True, r) \<and> h r = k) \<and> c \<notin> C" by blast
  next
    assume "(\<exists>j r. snd (V j) = Some (c, True, r) \<and> h r = k) \<and> c \<notin> C"
    then obtain j r where j: "snd (V j) = Some (c, True, r)" "h r = k" "c \<notin> C" by blast
    with mine have "j \<noteq> i" by blast
    with j have "snd ((V(i := w)) j) = Some (c, True, r) \<and> h r = k" by simp
    then show "\<exists>j r. snd ((V(i := w)) j) = Some (c, True, r) \<and> h r = k" by blast
  qed
  have "(c, k) \<in> set (held E) \<longleftrightarrow> (\<exists>j r. snd ((V(i := w)) j) = Some (c, True, r) \<and> h r = k)" for c k
    unfolding same gone(2) using ok by (simp add: held_ok_def)
  moreover have "x = y" if "(x, k) \<in> set (held E)" "(y, k) \<in> set (held E)" for x y k
    using that ok gone(2) unfolding held_ok_def by blast
  ultimately show ?thesis unfolding held_ok_def using gone(1) by blast
qed

text \<open>Taking a lock that nobody else holds.\<close>

lemma held_taken:
  assumes ok: "held_ok h V D" and free: "\<And>c'. (c', h r) \<in> set (held D) \<Longrightarrow> c' = c" and new: "(c, h r) \<notin> set (held D)"
    and V: "\<And>c r. snd (V i) \<noteq> Some (c, True, r)" and w: "snd w = Some (c, True, r)"
  shows "held_ok h (V(i := w)) (D\<lparr>held := (c, h r) # held D\<rparr>)"
proof -
  have "(\<exists>j q. snd ((V(i := w)) j) = Some (d, True, q) \<and> h q = k) \<longleftrightarrow>
        (\<exists>j q. snd (V j) = Some (d, True, q) \<and> h q = k) \<or> d = c \<and> k = h r" for d k
  proof
    assume "\<exists>j q. snd ((V(i := w)) j) = Some (d, True, q) \<and> h q = k"
    then obtain j q where j: "snd ((V(i := w)) j) = Some (d, True, q)" "h q = k" by blast
    with w show "(\<exists>j q. snd (V j) = Some (d, True, q) \<and> h q = k) \<or> d = c \<and> k = h r"
      by (cases "j = i") auto
  next
    assume "(\<exists>j q. snd (V j) = Some (d, True, q) \<and> h q = k) \<or> d = c \<and> k = h r"
    then show "\<exists>j q. snd ((V(i := w)) j) = Some (d, True, q) \<and> h q = k"
    proof
      assume "\<exists>j q. snd (V j) = Some (d, True, q) \<and> h q = k"
      then obtain j q where j: "snd (V j) = Some (d, True, q)" "h q = k" by blast
      with V have "j \<noteq> i" by blast
      with j have "snd ((V(i := w)) j) = Some (d, True, q) \<and> h q = k" by simp
      then show ?thesis by blast
    next
      assume "d = c \<and> k = h r"
      with w have "snd ((V(i := w)) i) = Some (d, True, r) \<and> h r = k" by simp
      then show ?thesis by blast
    qed
  qed
  moreover have "x = y" if "(x, k) \<in> insert (c, h r) (set (held D))" "(y, k) \<in> insert (c, h r) (set (held D))" for x y k
    using that free ok unfolding held_ok_def by blast
  ultimately show ?thesis using ok new by (auto simp: held_ok_def)
qed

lemma held_ok_move:
  assumes ok: "conns_ok V D" "held_ok h V D" and move: "lock_move h (V i) D w E"
  shows "held_ok h (V(i := w)) E"
proof -
  have d: "distinct (held D)" using ok(2) by (simp add: held_ok_def)
  have holds: "\<exists>j r. snd (V j) = Some (c, True, r) \<and> h r = k" if "(c, k) \<in> set (held D)" for c k
    using ok(2) that unfolding held_ok_def by blast
  have other: "j = i" if "snd (V j) = Some (c, b, r)" "c \<in> conns (V i)" for j c b r
  proof -
    have "c \<in> conns (V j)" using that(1) by (force simp: conns_def)
    with that(2) ok(1) show ?thesis unfolding conns_ok_def by blast
  qed
  from move show ?thesis
  proof cases
    case stay
    then show ?thesis using ok(2) by simp
  next
    case (opened P r)
    then show ?thesis by (intro held_same [OF ok(2)]) simp_all
  next
    case (reused c P r)
    then show ?thesis by (intro held_same [OF ok(2)]) simp_all
  next
    case (locked r c P)
    have new: "(c, h r) \<notin> set (held D)"
    proof
      assume "(c, h r) \<in> set (held D)"
      then obtain j q where j: "snd (V j) = Some (c, True, q)" using holds by blast
      with other locked(1) have "j = i" by simp
      with j locked(1) show False by simp
    qed
    show ?thesis unfolding locked(3) by (rule held_taken [OF ok(2)]) (use locked new in auto)
  next
    case (refused P c r)
    then show ?thesis by (intro held_same [OF ok(2)]) simp_all
  next
    case (unlocked P c r)
    have mine: "k = h r" if m: "(c, k) \<in> set (held D)" for k
    proof -
      obtain j q where j: "snd (V j) = Some (c, True, q)" "h q = k" using holds [OF m] by blast
      with other unlocked(1) have "j = i" by simp
      with j unlocked(1) show ?thesis by simp
    qed
    have "set (remove1 (c, h r) (held D)) = {p \<in> set (held D). fst p \<notin> {c}}"
      by (auto simp: set_remove1_eq [OF d] dest: mine)
    then show ?thesis
      by (intro held_dropped [OF ok(2), where C = "{c}"]) (use unlocked d other in simp_all)
  next
    case (broken P c b r)
    show ?thesis by (rule held_dropped [OF ok(2), where C = "{c}"]) (use broken d other in auto)
  next
    case crashed
    have "c \<in> conns (V i)" if "snd (V i) = Some (c, b, r)" for c b r using that by (force simp: conns_def)
    then show ?thesis
      by (intro held_dropped [OF ok(2), where C = "conns (V i)"]) (use crashed d other in auto)
  qed
qed

section \<open>The instances refine the protocol\<close>

lemma view_planning:
  assumes "si_polls I = [(n, p)]"
  shows "view (end_planning n good I) = (si_pool I, None)" "view (set_planning n q I) = (si_pool I, planning_view q)"
    "view (next_planning n rows I) = (si_pool I, None)" "view I = (si_pool I, planning_view p)"
  using assms by (simp_all add: view_def poll_defs planning_view_def split: list.split)

lemma view_expiry [simp]:
  "view (end_expiry n good I) = view I" "view (set_expiry n q I) = view I" "view (next_expiry n rows I) = view I"
  by (cases rows; simp add: view_def poll_defs)+

lemma view_tick: "inst_ok I \<Longrightarrow> view (timer_tick I) = view I"
  by (auto simp: inst_ok_def view_def timer_tick_def start_planning_def start_expiry_def planning_view_def)

lemma owns_conns: "inst_ok I \<Longrightarrow> owns I c \<longleftrightarrow> c \<in> conns (view I)"
  by (cases "si_processing I")
    (auto simp: inst_ok_def owns_def view_def conns_def conn_of_def planning_view_def map_eq_Cons_conv split: planning.splits)

lemma pool_release [simp]: "si_pool (release c I) = c # si_pool I"
  by (simp add: release_def)

lemma worker_step_moves:
  assumes ok: "inst_ok I" and step: "worker_step clients h e I D = Some (J, E)"
  shows "lock_move h (view I) D (view J) E"
proof (cases e)
  case Init
  then show ?thesis using step lock_move.stay by (auto simp: onModuleInit_def view_def split: if_splits)
next
  case Tick
  then show ?thesis using step lock_move.stay view_tick [OF ok] by (auto split: if_splits)
next
  case Shutdown
  then show ?thesis using step lock_move.stay by (auto simp: onModuleDestroy_def view_def split: if_splits)
next
  case Drained
  then show ?thesis using step lock_move.stay by (auto simp: view_def split: if_splits option.splits)
next
  case Crash
  have "owns I = (\<lambda>c. c \<in> conns (view I))" using owns_conns [OF ok] by auto
  then show ?thesis using step Crash lock_move.crashed [of h "view I" D] by (auto simp: view_def crashed_inst_def)
next
  case (PlanRows n rows)
  then have p: "poll_at I n = Some Querying" using step by (auto split: option.splits planning.splits)
  note v = view_planning [OF conjunct2 [OF poll_alone [OF ok p]]]
  show ?thesis using step PlanRows p lock_move.stay by (auto simp: v planning_view_def split: option.splits)
next
  case (ConnectionGiven n c)
  then obtain r rest where p: "poll_at I n = Some (Connecting r rest)"
    using step by (auto simp: connected_def split: option.splits planning.splits)
  note q = conjunct2 [OF poll_alone [OF ok p]]
  show ?thesis using step ConnectionGiven p lock_move.opened [of h "si_pool I" D "fst r"] lock_move.reused [of _ "si_pool I" h D "fst r"]
    by (auto simp: connected_def view_planning [OF q] view_planning [of "I\<lparr>si_pool := _\<rparr>" n "Connecting r rest"] q planning_view_def split: option.splits if_splits)
next
  case (ConnectionRefused n)
  then obtain r rest where p: "poll_at I n = Some (Connecting r rest)" using step by (auto split: option.splits planning.splits)
  note v = view_planning [OF conjunct2 [OF poll_alone [OF ok p]]]
  show ?thesis using step ConnectionRefused p lock_move.stay by (auto simp: v planning_view_def)
next
  case (LockAnswered n)
  then obtain c r rest where p: "poll_at I n = Some (Asking c r rest)"
    using step by (auto simp: lock_answered_def split: option.splits planning.splits)
  note q = conjunct2 [OF poll_alone [OF ok p]]
  have "lock_move h (si_pool I, Some (c, False, fst r)) D (si_pool I, Some (c, True, fst r)) (D\<lparr>held := (c, h (fst r)) # held D\<rparr>)"
    if "\<not> list_ex (\<lambda>(c', k'). k' = h (fst r) \<and> c' \<noteq> c) (held D)"
    using that by (intro lock_move.locked) (auto simp: list_ex_iff)
  then show ?thesis using step LockAnswered p lock_move.refused [of h "si_pool I" c "fst r" D]
    by (auto simp: lock_answered_def pg_try_advisory_lock_def view_planning [OF q] view_planning [of "release c I" n "Asking c r rest"] q planning_view_def
        split: if_splits)
next
  case (LockFailed n broken)
  then obtain c r rest where p: "poll_at I n = Some (Asking c r rest)"
    using step by (auto simp: lock_failed_def split: option.splits planning.splits)
  note q = conjunct2 [OF poll_alone [OF ok p]]
  show ?thesis using step LockFailed p lock_move.refused [of h "si_pool I" c "fst r" D] lock_move.broken [of h "si_pool I" c False "fst r" D]
    by (auto simp: lock_failed_def view_planning [OF q] view_planning [of "release c I" n "Asking c r rest"] q planning_view_def split: if_splits)
next
  case (WorkOver n good)
  then obtain c r rest where p: "poll_at I n = Some (Working c r rest)" using step by (auto split: option.splits planning.splits)
  note v = view_planning [OF conjunct2 [OF poll_alone [OF ok p]]]
  show ?thesis using step WorkOver p lock_move.stay by (auto simp: v planning_view_def)
next
  case (UnlockAnswered n good)
  then obtain c r rest worked where p: "poll_at I n = Some (Unlocking c r rest worked)"
    using step by (auto simp: unlock_answered_def split: option.splits planning.splits)
  note q = conjunct2 [OF poll_alone [OF ok p]]
  show ?thesis using step UnlockAnswered p lock_move.unlocked [of h "si_pool I" c "fst r" D] lock_move.broken [of h "si_pool I" c True "fst r" D]
    by (auto simp: unlock_answered_def view_planning [OF q] view_planning [of "release c I" n "Unlocking c r rest worked"] q planning_view_def
        split: if_splits)
next
  case (ExpiryRows n rows)
  then show ?thesis using step lock_move.stay [of h "view I" D] by (auto split: option.splits expiry.splits)
next
  case (CancelAnswered n good)
  then show ?thesis using step lock_move.stay [of h "view I" D] by (auto split: option.splits expiry.splits if_splits)
qed

section \<open>Every history\<close>

definition cluster_ok :: "(string \<Rightarrow> int) \<Rightarrow> cluster \<Rightarrow> bool" where
  "cluster_ok h s \<longleftrightarrow>
     (\<forall>i. inst_ok (insts s i)) \<and> conns_ok (\<lambda>i. view (insts s i)) (locks s) \<and> held_ok h (\<lambda>i. view (insts s i)) (locks s)"

lemma cluster_step_Some:
  "cluster_step clients h (i, e) s = Some t \<longleftrightarrow>
     \<not> si_crashed (insts s i) \<and>
     (\<exists>J E. worker_step clients h e (insts s i) (locks s) = Some (J, E) \<and> t = s\<lparr>insts := (insts s)(i := J), locks := E\<rparr>)"
  by (auto simp: cluster_step_def)

lemma cluster_ok_step:
  assumes ok: "cluster_ok h s" and step: "cluster_step clients h (i, e) s = Some t"
  shows "cluster_ok h t"
proof -
  obtain J E where w: "worker_step clients h e (insts s i) (locks s) = Some (J, E)"
    and t: "t = s\<lparr>insts := (insts s)(i := J), locks := E\<rparr>"
    using step by (auto simp: cluster_step_Some)
  let ?V = "\<lambda>i. view (insts s i)"
  have i: "inst_ok (insts s i)" and c: "conns_ok ?V (locks s)" and g: "held_ok h ?V (locks s)"
    using ok by (simp_all add: cluster_ok_def)
  have move: "lock_move h (?V i) (locks s) (view J) E" by (rule worker_step_moves [OF i w])
  have V: "(\<lambda>j. view (insts t j)) = ?V(i := view J)" by (auto simp: t)
  show ?thesis
    using ok inst_ok_step [OF i w] conns_ok_move [OF c move] held_ok_move [OF c g move] V by (simp add: cluster_ok_def t)
qed

lemma cluster_runs_ok: "cluster_runs clients h s es t \<Longrightarrow> cluster_ok h s \<Longrightarrow> cluster_ok h t"
  by (induction rule: cluster_runs.induct) (metis cluster_ok_step surj_pair)+

lemma new_cluster_ok: "cluster_ok h new_cluster"
  by (simp add: cluster_ok_def new_cluster_def new_inst_def inst_ok_def conns_ok_def held_ok_def view_def awaits_ok_def)

lemma at_work_view:
  "inst_ok I \<Longrightarrow> at_work I r \<Longrightarrow> \<exists>c. snd (view I) = Some (c, True, fst r)"
  by (cases "si_processing I")
    (auto simp: inst_ok_def at_work_def view_def planning_view_def map_eq_Cons_conv split: planning.splits)

lemma view_at_work:
  "snd (view I) = Some (c, True, r) \<Longrightarrow> \<exists>w. at_work I (r, w)"
  by (auto simp: at_work_def view_def planning_view_def split: list.splits planning.splits)

lemma at_work_one: "inst_ok I \<Longrightarrow> at_work I r \<Longrightarrow> at_work I q \<Longrightarrow> r = q"
  by (cases "si_processing I") (auto simp: inst_ok_def at_work_def map_eq_Cons_conv split: planning.splits)


section \<open>Shutdown\<close>

text \<open>How many answers an instance that is stopping still waits for at most.\<close>

fun planning_rank :: "planning \<Rightarrow> nat" where
  "planning_rank Querying = 1"
| "planning_rank (Connecting r rest) = 4"
| "planning_rank (Asking c r rest) = 3"
| "planning_rank (Working c r rest) = 2"
| "planning_rank (Unlocking c r rest good) = 1"

definition inst_rank :: "inst \<Rightarrow> nat" where
  "inst_rank I =
     sum_list (map (\<lambda>q. planning_rank (snd q)) (si_polls I)) + length (si_expiries I) + (if si_destroyed I then 0 else 1)"

definition quiet :: "inst \<Rightarrow> inst \<Rightarrow> bool" where
  "quiet I J \<longleftrightarrow>
     si_stopping J \<and> si_dispatched J = si_dispatched I \<and> si_cancelled J = si_cancelled I \<and> inst_rank J \<le> inst_rank I"

lemma rank_planning:
  assumes "si_polls I = [(n, p)]" "si_stopping I"
  shows "quiet I (end_planning n good I) \<and> inst_rank (end_planning n good I) < inst_rank I"
    "quiet I (next_planning n rows I) \<and> inst_rank (next_planning n rows I) < inst_rank I"
    "planning_rank q < planning_rank p \<Longrightarrow> quiet I (set_planning n q I) \<and> inst_rank (set_planning n q I) < inst_rank I"
  using assms by (cases p; simp add: quiet_def inst_rank_def poll_defs split: list.split)+

lemma rank_expiry:
  assumes "si_expiries I = [(n, p)]" "si_stopping I"
  shows "quiet I (end_expiry n good I) \<and> inst_rank (end_expiry n good I) < inst_rank I"
    "quiet I (next_expiry n rows I) \<and> inst_rank (next_expiry n rows I) < inst_rank I"
  using assms by (simp add: quiet_def inst_rank_def poll_defs split: list.split)+

lemma quiet_pool [simp]:
  "quiet (I\<lparr>si_pool := cs\<rparr>) J = quiet I J" "inst_rank (I\<lparr>si_pool := cs\<rparr>) = inst_rank I"
  "quiet (release c I) J = quiet I J" "inst_rank (release c I) = inst_rank I" "si_stopping (release c I) = si_stopping I"
  by (simp_all add: quiet_def inst_rank_def release_def)

lemma stopping_step:
  assumes ok: "inst_ok I" and stop: "si_stopping I" and step: "worker_step clients h e I D = Some (J, E)"
  shows "quiet I J \<and> (e \<noteq> Crash \<longrightarrow> inst_rank J < inst_rank I)"
proof -
  have timer: "\<not> si_timer I" using ok stop by (simp add: inst_ok_def)
  note p = poll_alone [OF ok, THEN conjunct2]
  note x = expiry_alone [OF ok, THEN conjunct2]
  show ?thesis
  proof (cases e)
    case Drained
    then show ?thesis using step stop by (auto simp: quiet_def inst_rank_def split: option.splits if_splits)
  next
    case Crash
    then show ?thesis using step stop by (auto simp: quiet_def inst_rank_def crashed_inst_def)
  next
    case (PlanRows n rows)
    then show ?thesis using step stop by (auto dest!: p simp: rank_planning split: option.splits planning.splits)
  next
    case (ConnectionGiven n c)
    then show ?thesis using step stop rank_planning(3) [of "I\<lparr>si_pool := _\<rparr>" n]
      by (auto dest!: p simp: rank_planning connected_def split: option.splits planning.splits if_splits)
  next
    case (LockAnswered n)
    then show ?thesis using step stop rank_planning(2) [of "release _ I" n]
      by (auto dest!: p simp: rank_planning lock_answered_def split: option.splits planning.splits if_splits prod.splits)
  next
    case (LockFailed n broken)
    then show ?thesis using step stop rank_planning(1) [of "release _ I" n]
      by (auto dest!: p simp: rank_planning lock_failed_def split: option.splits planning.splits if_splits)
  next
    case (UnlockAnswered n good)
    then show ?thesis using step stop rank_planning(1,2) [of "release _ I" n]
      by (auto dest!: p simp: rank_planning unlock_answered_def split: option.splits planning.splits if_splits)
  next
    case (ExpiryRows n rows)
    then show ?thesis using step stop by (auto dest!: x simp: rank_expiry split: option.splits expiry.splits)
  next
    case (CancelAnswered n good)
    then show ?thesis using step stop by (auto dest!: x simp: rank_expiry split: option.splits expiry.splits if_splits)
  qed (use step stop timer in \<open>auto dest!: p simp: rank_planning split: option.splits planning.splits\<close>)
qed

text \<open>An instance that is stopping is not stuck: it waits for an answer, or its shutdown returns.\<close>

lemma stopping_not_stuck:
  assumes ok: "inst_ok I" and stop: "si_stopping I" and live: "\<not> si_destroyed I"
  shows "\<exists>e. e \<noteq> Crash \<and> worker_step clients h e I D \<noteq> None"
proof (cases "si_processing I")
  case (Some n)
  then obtain p where p: "poll_at I n = Some p" using ok by (auto simp: inst_ok_def poll_at_def map_eq_Cons_conv)
  let ?e = "case p of Querying \<Rightarrow> PlanRows n None | Connecting r rest \<Rightarrow> ConnectionRefused n | Asking c r rest \<Rightarrow> LockFailed n False
       | Working c r rest \<Rightarrow> WorkOver n True | Unlocking c r rest good \<Rightarrow> UnlockAnswered n True"
  have "?e \<noteq> Crash \<and> worker_step clients h ?e I D \<noteq> None"
    using p by (cases p) (simp_all add: lock_failed_def unlock_answered_def)
  then show ?thesis by (rule exI)
next
  case None
  show ?thesis
  proof (cases "si_expiring I")
    case (Some n)
    then obtain p where p: "expiry_at I n = Some p" using ok by (auto simp: inst_ok_def expiry_at_def map_eq_Cons_conv)
    let ?e = "case p of ExpiryQuerying \<Rightarrow> ExpiryRows n None | Expiring r rest \<Rightarrow> CancelAnswered n True"
    have "?e \<noteq> Crash \<and> worker_step clients h ?e I D \<noteq> None"
      using p by (cases p) simp_all
    then show ?thesis by (rule exI)
  next
    case e: None
    obtain a where "si_awaiting I = Some a" using ok stop by (auto simp: inst_ok_def awaits_ok_def split: option.splits)
    moreover have "poll_at I n = None" "expiry_at I n = None" for n
      using ok None e by (simp_all add: inst_ok_def poll_at_def expiry_at_def)
    ultimately have "worker_step clients h Drained I D \<noteq> None"
      using live by (simp add: settled_polls_def split: prod.split option.split)
    then show ?thesis by blast
  qed
qed

lemma rank_bound:
  assumes "inst_ok I"
  shows "inst_rank I \<le> 6"
proof -
  have "planning_rank p \<le> 4" for p by (cases p) simp_all
  then have "sum_list (map (\<lambda>q. planning_rank (snd q)) (si_polls I)) \<le> 4"
    using assms by (cases "si_processing I") (auto simp: inst_ok_def map_eq_Cons_conv)
  moreover have "length (si_expiries I) \<le> 1"
    using assms by (cases "si_expiring I") (auto simp: inst_ok_def map_eq_Cons_conv)
  ultimately show ?thesis by (simp add: inst_rank_def)
qed

text \<open>The answers that arrive at an instance.\<close>

definition answers_at :: "nat \<Rightarrow> (nat \<times> worker_event) list \<Rightarrow> (nat \<times> worker_event) list" where
  "answers_at i es = filter (\<lambda>ie. fst ie = i \<and> snd ie \<noteq> Crash) es"

lemma stopping_run:
  "cluster_runs clients h s es t \<Longrightarrow> cluster_ok h s \<Longrightarrow> si_stopping (insts s i) \<Longrightarrow>
     cluster_ok h t \<and> quiet (insts s i) (insts t i) \<and> inst_rank (insts t i) + length (answers_at i es) \<le> inst_rank (insts s i)"
proof (induction rule: cluster_runs.induct)
  case start
  then show ?case by (simp add: quiet_def answers_at_def)
next
  case (step es t e u)
  then have ih: "cluster_ok h t" "quiet (insts s i) (insts t i)"
    "inst_rank (insts t i) + length (answers_at i es) \<le> inst_rank (insts s i)" by blast+
  obtain j f where e: "e = (j, f)" by (cases e)
  obtain J E where w: "worker_step clients h f (insts t j) (locks t) = Some (J, E)"
    and u: "u = t\<lparr>insts := (insts t)(j := J), locks := E\<rparr>"
    using step.hyps(2) by (auto simp: e cluster_step_Some)
  have ok: "cluster_ok h u" using cluster_ok_step [OF ih(1)] step.hyps(2) by (simp add: e)
  show ?case
  proof (cases "j = i")
    case True
    have "inst_ok (insts t i)" "si_stopping (insts t i)" using ih by (simp_all add: cluster_ok_def quiet_def)
    from stopping_step [OF this w [unfolded True]] ok ih True show ?thesis
      by (auto simp: u e answers_at_def quiet_def)
  next
    case False
    then show ?thesis using ih ok by (auto simp: u e answers_at_def)
  qed
qed

text \<open>
  C9. A shutdown is clean. At most one poll of a kind is in flight in an instance. Once \<open>onModuleDestroy\<close> is
  called, whatever is answered afterwards, the instance dispatches no further run and cancels no further
  clarification; and when \<open>onModuleDestroy\<close> has returned, no poll is in flight and none of the instance's
  connections holds a lock.
\<close>

theorem shutdown_is_clean:
  assumes "cluster_runs clients h new_cluster es s"
  shows "length (si_polls (insts s i)) \<le> 1 \<and> length (si_expiries (insts s i)) \<le> 1 \<and>
    (si_stopping (insts s i) \<longrightarrow> cluster_runs clients h s es' t \<longrightarrow>
       si_dispatched (insts t i) = si_dispatched (insts s i) \<and> si_cancelled (insts t i) = si_cancelled (insts s i) \<and>
       (si_destroyed (insts t i) \<longrightarrow> si_polls (insts t i) = [] \<and> si_expiries (insts t i) = [] \<and>
          (\<forall>(c, k)\<in>set (held (locks t)). \<not> owns (insts t i) c)))"
proof -
  have ok: "cluster_ok h s" using cluster_runs_ok [OF assms new_cluster_ok] .
  then have i: "inst_ok (insts s i)" by (simp add: cluster_ok_def)
  have "length (si_polls (insts s i)) \<le> 1" "length (si_expiries (insts s i)) \<le> 1"
    using i by (cases "si_processing (insts s i)"; cases "si_expiring (insts s i)"; auto simp: inst_ok_def map_eq_Cons_conv)+
  moreover have "si_polls (insts t i) = [] \<and> si_expiries (insts t i) = [] \<and> (\<forall>(c, k)\<in>set (held (locks t)). \<not> owns (insts t i) c)"
    if t: "cluster_ok h t" and gone: "si_destroyed (insts t i)"
  proof -
    have it: "inst_ok (insts t i)" using t by (simp add: cluster_ok_def)
    then have none: "si_polls (insts t i) = []" "si_expiries (insts t i) = []" using gone by (simp_all add: inst_ok_def)
    have "\<not> owns (insts t i) c" if m: "(c, k) \<in> set (held (locks t))" for c k
    proof
      assume "owns (insts t i) c"
      then have c: "c \<in> conns (view (insts t i))" using owns_conns [OF it] by simp
      obtain j r where j: "snd (view (insts t j)) = Some (c, True, r)"
        using t m unfolding cluster_ok_def held_ok_def by blast
      then have "c \<in> conns (view (insts t j))" by (force simp: conns_def)
      with c t have "i = j" unfolding cluster_ok_def conns_ok_def by blast
      with j none show False by (simp add: view_def)
    qed
    with none show ?thesis by blast
  qed
  ultimately show ?thesis using stopping_run [of clients h s es' t i] ok by (auto simp: quiet_def)
qed

text \<open>
  C10. A shutdown ends. After \<open>onModuleDestroy\<close> an instance takes at most six more answers, however many runs
  its polls had found, and until it has returned or crashed the instance is not stuck: some answer is due.
\<close>

theorem shutdown_ends:
  assumes "cluster_runs clients h new_cluster es s" and "si_stopping (insts s i)" and "cluster_runs clients h s es' t"
  shows "length (answers_at i es') \<le> 6 \<and>
    (si_destroyed (insts t i) \<or> si_crashed (insts t i) \<or> (\<exists>e. e \<noteq> Crash \<and> cluster_step clients h (i, e) t \<noteq> None))"
proof -
  have ok: "cluster_ok h s" using cluster_runs_ok [OF assms(1) new_cluster_ok] .
  note t = stopping_run [OF assms(3) ok assms(2)]
  have "inst_rank (insts s i) \<le> 6" using ok rank_bound by (simp add: cluster_ok_def)
  moreover have "\<exists>e. e \<noteq> Crash \<and> worker_step clients h e (insts t i) (locks t) \<noteq> None" if "\<not> si_destroyed (insts t i)"
    using t that by (intro stopping_not_stuck) (simp_all add: cluster_ok_def quiet_def)
  ultimately show ?thesis using t by (auto simp: cluster_step_def)
qed

section \<open>Two instances at work\<close>

fun cluster_exec :: "bool \<Rightarrow> (string \<Rightarrow> int) \<Rightarrow> (nat \<times> worker_event) list \<Rightarrow> cluster \<Rightarrow> cluster option" where
  "cluster_exec clients h [] s = Some s"
| "cluster_exec clients h (e # es) s =
     (case cluster_step clients h e s of None \<Rightarrow> None | Some t \<Rightarrow> cluster_exec clients h es t)"

lemma exec_runs:
  "cluster_runs clients h s es t \<Longrightarrow> cluster_exec clients h es' t = Some u \<Longrightarrow> cluster_runs clients h s (es @ es') u"
proof (induction es' arbitrary: es t)
  case (Cons e es')
  from Cons.prems(2) obtain t' where t': "cluster_step clients h e t = Some t'" "cluster_exec clients h es' t' = Some u"
    by (auto split: option.splits)
  from Cons.IH [OF cluster_runs.step [OF Cons.prems(1) t'(1)] t'(2)] show ?case by simp
qed simp

text \<open>The instances 0 and 1 find the same two runs; 0 gets the lock, 1 goes on without it. Then 0 is shut down.\<close>

definition both_poll :: "(nat \<times> worker_event) list" where
  "both_poll = [(0, Init), (1, Init), (0, Tick), (1, Tick),
     (0, PlanRows 1 (Some [(''r'', ''w''), (''q'', ''w'')])), (1, PlanRows 1 (Some [(''r'', ''w'')])),
     (0, ConnectionGiven 1 None), (1, ConnectionGiven 1 None), (0, LockAnswered 1), (1, LockAnswered 1)]"

definition shut_down :: "(nat \<times> worker_event) list" where
  "shut_down = [(0, WorkOver 1 True), (0, UnlockAnswered 1 True), (0, ExpiryRows 0 (Some [])), (0, Drained)]"

definition both_polled :: cluster where
  "both_polled = the (cluster_exec True (\<lambda>x. 7) both_poll new_cluster)"

definition stopping_one :: cluster where
  "stopping_one = the (cluster_exec True (\<lambda>x. 7) (both_poll @ [(0, Shutdown)]) new_cluster)"

definition stopped_one :: cluster where
  "stopped_one = the (cluster_exec True (\<lambda>x. 7) shut_down stopping_one)"

lemma both_polled_runs: "cluster_runs True (\<lambda>x. 7) new_cluster both_poll both_polled"
proof -
  have "cluster_exec True (\<lambda>x. 7) both_poll new_cluster \<noteq> None" by code_simp
  then have "cluster_exec True (\<lambda>x. 7) both_poll new_cluster = Some both_polled" by (auto simp: both_polled_def)
  from exec_runs [OF cluster_runs.start this] show ?thesis by simp
qed

lemma stopping_one_runs: "cluster_runs True (\<lambda>x. 7) new_cluster (both_poll @ [(0, Shutdown)]) stopping_one"
proof -
  have "cluster_exec True (\<lambda>x. 7) (both_poll @ [(0, Shutdown)]) new_cluster \<noteq> None" by code_simp
  then have "cluster_exec True (\<lambda>x. 7) (both_poll @ [(0, Shutdown)]) new_cluster = Some stopping_one"
    by (auto simp: stopping_one_def)
  from exec_runs [OF cluster_runs.start this] show ?thesis by simp
qed

lemma stopped_one_runs: "cluster_runs True (\<lambda>x. 7) stopping_one shut_down stopped_one"
proof -
  have "cluster_exec True (\<lambda>x. 7) shut_down stopping_one \<noteq> None" by code_simp
  then have "cluster_exec True (\<lambda>x. 7) shut_down stopping_one = Some stopped_one" by (auto simp: stopped_one_def)
  from exec_runs [OF cluster_runs.start this] show ?thesis by simp
qed

lemma sample_facts:
  "at_work (insts both_polled 0) (''r'', ''w'')" "si_stopping (insts stopping_one 0)"
  "si_dispatched (insts stopping_one 0) = [(''r'', ''w'')]" "si_destroyed (insts stopped_one 0)"
  by code_simp+


theorem shutdown_is_clean_witness:
  "si_destroyed (insts stopped_one 0) \<and> si_polls (insts stopped_one 0) = [] \<and> si_dispatched (insts stopped_one 0) = [(''r'', ''w'')]"
  using shutdown_is_clean [OF stopping_one_runs, of 0 shut_down stopped_one] stopped_one_runs sample_facts by simp

theorem shutdown_ends_witness:
  "length (answers_at 0 shut_down) = 4 \<and> length (answers_at 0 shut_down) \<le> 6"
  using shutdown_ends [OF stopping_one_runs sample_facts(2) stopped_one_runs] by (simp add: shut_down_def answers_at_def)

end
