(* ===== verification/Upstream.thy ===== *)
theory Upstream
  imports Planning_Clients
begin

text \<open>
  The HTTP adapter for the internal services (\<open>services/upstream-client.ts\<close>), the context a
  gateway route forwards and the reply it sends (\<open>routes/gateway-request.ts\<close>), the gateway's
  configuration (\<open>services/gateway-config.ts\<close>), the two service adapters built on it
  (\<open>services/workspace-service.client.ts\<close>, \<open>services/cloud-accounts.client.ts\<close>), and the
  permission check of every workspace route (\<open>services/workspace-access.service.ts\<close>).
  The state of an operation is arbitrary, so that it can carry a log of the requests made.
\<close>

section \<open>Requests\<close>

record upstream_result =
  up_status :: nat
  up_body :: json

record upstream_options =
  uo_method :: string
  uo_query :: "(string \<times> string option) list"
  uo_body :: json
  uo_headers :: "(string \<times> string option) list"

text \<open>
  The client: its base URL, the platform's URL parser followed by its serialiser (\<open>None\<close> if the
  string is no URL), the fetcher (a timeout is a throw), and the reading of a response's body,
  which may fail after the head of the response has arrived. The base URL has neither a query
  nor a fragment.
\<close>

record 's upstream =
  uc_base :: string
  uc_href :: "string \<Rightarrow> string option"
  uc_fetch :: "http_request \<Rightarrow> ('s, exn, http_response) op"
  uc_read :: "http_response \<Rightarrow> ('s, exn, unit) op"

text \<open>\<open>URLSearchParams\<close>: the form encoding of a character and of the list of parameters.\<close>

definition form_char :: "char \<Rightarrow> string" where
  "form_char c = (if is_alnum c \<or> c \<in> set ''*-._'' then [c] else if c = CHR '' '' then ''+''
                  else if code_unit c < 128 then pct (code_unit c)
                  else pct (192 + code_unit c div 64) @ pct (128 + code_unit c mod 64))"

definition form_encode :: "string \<Rightarrow> string" where
  "form_encode s = concat (map form_char s)"

definition search_params :: "(string \<times> string) list \<Rightarrow> string" where
  "search_params kvs = join ''&'' (map (\<lambda>(k, v). form_encode k @ ''='' @ form_encode v) kvs)"

definition given_params :: "(string \<times> string option) list \<Rightarrow> (string \<times> string) list" where
  "given_params query =
     foldl (\<lambda>acc (k, v). case v of Some w \<Rightarrow> if w \<noteq> [] then AList.update k w acc else acc | None \<Rightarrow> acc) [] query"

definition buildUrl :: "'s upstream \<Rightarrow> string \<Rightarrow> (string \<times> string option) list \<Rightarrow> exn + string" where
  "buildUrl C path query =
     (case uc_href C (drop_slash (uc_base C) @ path) of
        None \<Rightarrow> Inl (OtherError ''Invalid URL'')
      | Some url \<Rightarrow> (let ps = given_params query in Inr (url @ (if ps = [] then [] else ''?'' @ search_params ps))))"

definition upstream_headers :: "upstream_options \<Rightarrow> (string \<times> string) list" where
  "upstream_headers opts =
     foldl (\<lambda>acc (k, v). case v of Some w \<Rightarrow> AList.update k w acc | None \<Rightarrow> acc)
       ([(''Accept'', ''application/json'')] @
        (if uo_body opts \<noteq> JUndef then [(''Content-Type'', ''application/json'')] else []))
       (uo_headers opts)"

definition upstream_request :: "string \<Rightarrow> upstream_options \<Rightarrow> http_request" where
  "upstream_request url opts =
     \<lparr>rq_method = uo_method opts, rq_url = url, rq_headers = upstream_headers opts,
      rq_body = (if uo_body opts = JUndef then None else Some (uo_body opts))\<rparr>"

definition tryParse :: "http_response \<Rightarrow> json" where
  "tryParse response =
     (if rs_text response = [] then JUndef else case rs_json response of Some v \<Rightarrow> v | None \<Rightarrow> JUndef)"

definition parse_body :: "http_response \<Rightarrow> exn + json" where
  "parse_body response =
     (if rs_text response = [] then Inr JUndef
      else if tryParse response = JUndef then Inl (DependencyError ''An internal service returned an unreadable response.'')
      else Inr (tryParse response))"

definition nonempty_string :: "json \<Rightarrow> string \<Rightarrow> string" where
  "nonempty_string v d = (case v of JStr s \<Rightarrow> if s \<noteq> [] then s else d | _ \<Rightarrow> d)"

definition upstream_error :: "http_response \<Rightarrow> exn" where
  "upstream_error response =
     (let upstream = tryParse response in
      UpstreamError (rs_status response) (nonempty_string (jget upstream ''error'') ''upstream_error'')
        (nonempty_string (jget upstream ''message'') ''An internal service rejected the request.''))"

definition service_unavailable :: exn where
  "service_unavailable = DependencyError ''An internal service is unavailable. Please try again.''"

definition request :: "'s upstream \<Rightarrow> string \<Rightarrow> upstream_options \<Rightarrow> ('s, exn, upstream_result) op" where
  "request C path opts =
     bnd (lift_result (buildUrl C path (uo_query opts))) (\<lambda>url.
     bnd (catching (uc_fetch C (upstream_request url opts)) (\<lambda>_. throw service_unavailable)) (\<lambda>response.
     bnd (uc_read C response) (\<lambda>_.
     bnd (check (response_ok response) (upstream_error response)) (\<lambda>_.
     bnd (lift_result (parse_body response)) (\<lambda>v. ret \<lparr>up_status = rs_status response, up_body = v\<rparr>)))))"

section \<open>The context of a gateway request\<close>

record request_user =
  us_id :: string
  us_clerk :: string
  us_email :: "string option"
  us_workspaces :: "string list"
  us_roles :: "(string \<times> string) list"

record gateway_context =
  gx_request :: string
  gx_correlation :: string
  gx_user :: string
  gx_key :: "string option"

record res_locals =
  lc_request :: json
  lc_correlation :: json

definition string_or :: "json \<Rightarrow> string \<Rightarrow> string" where
  "string_or v d = (case v of JStr s \<Rightarrow> s | _ \<Rightarrow> d)"

definition gatewayContext :: "res_locals \<Rightarrow> request_user \<Rightarrow> string option \<Rightarrow> gateway_context" where
  "gatewayContext locals user key =
     \<lparr>gx_request = string_or (lc_request locals) ''unknown'', gx_correlation = string_or (lc_correlation locals) ''unknown'',
      gx_user = us_id user, gx_key = (if given key then key else None)\<rparr>"

text \<open>The reply: status and JSON body, \<open>JUndef\<close> for none.\<close>

definition sendUpstream :: "upstream_result \<Rightarrow> upstream_result" where
  "sendUpstream r = (if up_status r = 204 \<or> up_body r = JUndef then r\<lparr>up_body := JUndef\<rparr> else r)"

section \<open>Configuration\<close>

record gateway_config =
  workspaceServiceUrl :: string
  cloudAccountServiceUrl :: string
  gc_serviceToken :: string
  timeoutMs :: rat

definition loadGatewayConfig :: "(string \<Rightarrow> string option) \<Rightarrow> exn + gateway_config" where
  "loadGatewayConfig vars =
     (let token = (case vars ''ORCHESTRATOR_SERVICE_TOKEN'' of Some t \<Rightarrow> Some t
                   | None \<Rightarrow> if vars ''NODE_ENV'' = Some ''test'' then Some ''test-token'' else None)
      in if \<not> given token then Inl (OtherError ''ORCHESTRATOR_SERVICE_TOKEN is required'')
         else Inr \<lparr>workspaceServiceUrl = env_or vars ''WORKSPACE_SERVICE_URL'' ''http://localhost:8088'',
                   cloudAccountServiceUrl = env_or vars ''CLOUD_ACCOUNT_SERVICE_URL'' ''http://localhost:8089'',
                   gc_serviceToken = the token,
                   timeoutMs = (case js_parse_int (env_or vars ''GATEWAY_TIMEOUT_MS'' ''15000'') of
                                  Some n \<Rightarrow> if 0 < n then n else 15000 | None \<Rightarrow> 15000)\<rparr>)"

section \<open>The workspace service\<close>

definition context_headers :: "gateway_context \<Rightarrow> (string \<times> string option) list" where
  "context_headers ctx = [(''X-Request-ID'', Some (gx_request ctx)), (''X-Correlation-ID'', Some (gx_correlation ctx))]"

definition workspace_headers :: "gateway_context \<Rightarrow> bool \<Rightarrow> (string \<times> string option) list" where
  "workspace_headers ctx withIdempotency =
     context_headers ctx @ (if withIdempotency \<and> gx_key ctx \<noteq> None then [(''Idempotency-Key'', gx_key ctx)] else [])"

definition ws_call ::
  "'s upstream \<Rightarrow> string \<Rightarrow> string \<Rightarrow> (string \<times> string option) list \<Rightarrow> json \<Rightarrow> (string \<times> string option) list \<Rightarrow>
   ('s, exn, upstream_result) op" where
  "ws_call C method path query v headers =
     request C path \<lparr>uo_method = method, uo_query = query, uo_body = v, uo_headers = headers\<rparr>"

definition members_path :: "string \<Rightarrow> string" where
  "members_path w = ''/workspaces/'' @ encode_uri_component w @ ''/members''"

definition listMembers :: "'s upstream \<Rightarrow> string \<Rightarrow> string option \<Rightarrow> gateway_context \<Rightarrow> ('s, exn, upstream_result) op" where
  "listMembers C w role ctx =
     ws_call C ''GET'' (members_path w) [(''role'', role)] JUndef (workspace_headers ctx False)"

definition addMember :: "'s upstream \<Rightarrow> string \<Rightarrow> json \<Rightarrow> gateway_context \<Rightarrow> ('s, exn, upstream_result) op" where
  "addMember C w input ctx = ws_call C ''POST'' (members_path w) [] input (workspace_headers ctx True)"

definition updateMemberRole ::
  "'s upstream \<Rightarrow> string \<Rightarrow> string \<Rightarrow> json \<Rightarrow> gateway_context \<Rightarrow> ('s, exn, upstream_result) op" where
  "updateMemberRole C w u input ctx =
     ws_call C ''PATCH'' (members_path w @ ''/'' @ encode_uri_component u) [] input (workspace_headers ctx True)"

definition removeMember :: "'s upstream \<Rightarrow> string \<Rightarrow> string \<Rightarrow> gateway_context \<Rightarrow> ('s, exn, upstream_result) op" where
  "removeMember C w u ctx =
     ws_call C ''DELETE'' (members_path w @ ''/'' @ encode_uri_component u) [] JUndef (workspace_headers ctx True)"

definition invitations_path :: "string \<Rightarrow> string" where
  "invitations_path w = ''/workspaces/'' @ encode_uri_component w @ ''/invitations''"

definition listInvitations :: "'s upstream \<Rightarrow> string \<Rightarrow> gateway_context \<Rightarrow> ('s, exn, upstream_result) op" where
  "listInvitations C w ctx = ws_call C ''GET'' (invitations_path w) [] JUndef (workspace_headers ctx False)"

definition createInvitation :: "'s upstream \<Rightarrow> string \<Rightarrow> json \<Rightarrow> gateway_context \<Rightarrow> ('s, exn, upstream_result) op" where
  "createInvitation C w input ctx = ws_call C ''POST'' (invitations_path w) [] input (workspace_headers ctx True)"

definition getInvitation :: "'s upstream \<Rightarrow> string \<Rightarrow> string \<Rightarrow> gateway_context \<Rightarrow> ('s, exn, upstream_result) op" where
  "getInvitation C w i ctx =
     ws_call C ''GET'' (invitations_path w @ ''/'' @ encode_uri_component i) [] JUndef (workspace_headers ctx False)"

definition revokeInvitation :: "'s upstream \<Rightarrow> string \<Rightarrow> string \<Rightarrow> gateway_context \<Rightarrow> ('s, exn, upstream_result) op" where
  "revokeInvitation C w i ctx =
     ws_call C ''POST'' (invitations_path w @ ''/'' @ encode_uri_component i @ ''/revoke'') [] JUndef (workspace_headers ctx True)"

definition getInvitationByCode :: "'s upstream \<Rightarrow> string \<Rightarrow> gateway_context \<Rightarrow> ('s, exn, upstream_result) op" where
  "getInvitationByCode C code ctx =
     ws_call C ''GET'' ''/invitations'' [(''code'', Some code)] JUndef (workspace_headers ctx False)"

definition acceptInvitation :: "'s upstream \<Rightarrow> string \<Rightarrow> json \<Rightarrow> gateway_context \<Rightarrow> ('s, exn, upstream_result) op" where
  "acceptInvitation C code input ctx =
     ws_call C ''POST'' ''/invitations/accept'' [(''code'', Some code)] input (workspace_headers ctx True)"

definition checkPermission :: "'s upstream \<Rightarrow> json \<Rightarrow> gateway_context \<Rightarrow> ('s, exn, upstream_result) op" where
  "checkPermission C input ctx = ws_call C ''POST'' ''/permissions/check'' [] input (workspace_headers ctx False)"

definition checkBatch :: "'s upstream \<Rightarrow> json list \<Rightarrow> gateway_context \<Rightarrow> ('s, exn, upstream_result) op" where
  "checkBatch C checks ctx =
     ws_call C ''POST'' ''/permissions/check-batch'' [] (JObj [(''checks'', JArr checks)]) (workspace_headers ctx False)"

section \<open>The cloud account service\<close>

definition cloud_headers :: "string \<Rightarrow> gateway_context \<Rightarrow> bool \<Rightarrow> bool \<Rightarrow> (string \<times> string option) list" where
  "cloud_headers token ctx withServiceToken withIdempotency =
     context_headers ctx @
     (if withServiceToken then [(''Authorization'', Some (''Bearer '' @ token))] else []) @
     (if withIdempotency \<and> gx_key ctx \<noteq> None then [(''Idempotency-Key'', gx_key ctx)] else [])"

definition account_path :: "string \<Rightarrow> string" where
  "account_path a = ''/v1/cloud-accounts/'' @ encode_uri_component a"

definition cloud_list :: "'s upstream \<Rightarrow> string \<Rightarrow> string \<Rightarrow> gateway_context \<Rightarrow> ('s, exn, upstream_result) op" where
  "cloud_list C token w ctx = request C ''/v1/cloud-accounts''
     \<lparr>uo_method = ''GET'', uo_query = [(''workspace_id'', Some w)], uo_body = JUndef,
      uo_headers = cloud_headers token ctx False False\<rparr>"

definition cloud_get :: "'s upstream \<Rightarrow> string \<Rightarrow> string \<Rightarrow> string \<Rightarrow> gateway_context \<Rightarrow> ('s, exn, upstream_result) op" where
  "cloud_get C token w a ctx = request C (account_path a)
     \<lparr>uo_method = ''GET'', uo_query = [(''workspace_id'', Some w)], uo_body = JUndef,
      uo_headers = cloud_headers token ctx False False\<rparr>"

definition cloud_create :: "'s upstream \<Rightarrow> string \<Rightarrow> string \<Rightarrow> json \<Rightarrow> gateway_context \<Rightarrow> ('s, exn, upstream_result) op" where
  "cloud_create C token w input ctx = request C ''/v1/cloud-accounts''
     \<lparr>uo_method = ''POST'', uo_query = [], uo_body = spread input [(''workspace_id'', JStr w)],
      uo_headers = cloud_headers token ctx False True\<rparr>"

definition cloud_remove :: "'s upstream \<Rightarrow> string \<Rightarrow> string \<Rightarrow> string \<Rightarrow> gateway_context \<Rightarrow> ('s, exn, upstream_result) op" where
  "cloud_remove C token w a ctx = request C (account_path a)
     \<lparr>uo_method = ''DELETE'', uo_query = [(''workspace_id'', Some w)], uo_body = JUndef,
      uo_headers = cloud_headers token ctx False True\<rparr>"

definition cloud_verify ::
  "'s upstream \<Rightarrow> string \<Rightarrow> string \<Rightarrow> string \<Rightarrow> json \<Rightarrow> gateway_context \<Rightarrow> ('s, exn, upstream_result) op" where
  "cloud_verify C token w a externalId ctx = request C (account_path a @ ''/verify'')
     \<lparr>uo_method = ''POST'', uo_query = [(''workspace_id'', Some w)], uo_body = JObj [(''external_id'', externalId)],
      uo_headers = cloud_headers token ctx False True\<rparr>"

definition rejects_credentials :: "exn \<Rightarrow> bool" where
  "rejects_credentials e = (case e of ProvError p \<Rightarrow> pe_name p = ''UpstreamError'' \<and> (pe_status p = 401 \<or> pe_status p = 403)
                            | _ \<Rightarrow> False)"

definition cloud_capabilities :: "'s upstream \<Rightarrow> string \<Rightarrow> string \<Rightarrow> gateway_context \<Rightarrow> ('s, exn, upstream_result) op" where
  "cloud_capabilities C token w ctx =
     catching (request C (''/v1/workspaces/'' @ encode_uri_component w @ ''/cloud-capabilities'')
       \<lparr>uo_method = ''GET'', uo_query = [], uo_body = JUndef, uo_headers = cloud_headers token ctx True False\<rparr>)
     (\<lambda>e. throw (if rejects_credentials e
                 then DependencyError ''Cloud capability service rejected the gateway credentials.'' else e))"

section \<open>The permission check\<close>

definition permissionResultSchema :: zod where
  "permissionResultSchema = zobj [(''allowed'', ZBool), (''reason'', ZOpt zs)]"

definition permission_input :: "string \<Rightarrow> string \<Rightarrow> string \<Rightarrow> string \<Rightarrow> json" where
  "permission_input u w resource action = JObj
     [(''user_id'', JStr u), (''workspace_id'', JStr w), (''resource_type'', JStr resource), (''action'', JStr action)]"

definition assertAllowed ::
  "world \<Rightarrow> 's upstream \<Rightarrow> string \<Rightarrow> string \<Rightarrow> string \<Rightarrow> string \<Rightarrow> gateway_context \<Rightarrow> ('s, exn, unit) op" where
  "assertAllowed W C u w resource action ctx =
     bnd (checkPermission C (permission_input u w resource action) ctx) (\<lambda>r.
     case zparse W permissionResultSchema (up_body r) of
       Inl issues \<Rightarrow> throw (DependencyError ''Permission service returned an unreadable response.'')
     | Inr d \<Rightarrow> check (jget d ''allowed'' = JBool True) (ForbiddenError (js_str (jget d ''reason''))))"

end
