(* ===== verification/Auth.thy ===== *)
theory Auth
  imports Upstream
begin

text \<open>
  Authentication: the configuration (\<open>auth/auth.config.ts\<close>), the gateway to the identity provider
  with its caches (\<open>auth/clerk-auth.service.ts\<close>), the users and memberships of the database
  (\<open>auth/identity.service.ts\<close>), the guard of every route (\<open>middleware/auth.guard.ts\<close>) and the
  correlation identifiers (\<open>middleware/correlation-id.middleware.ts\<close>). The identity provider's
  package is a parameter: its calls may throw, and other requests may run meanwhile and change
  the caches and the database.
\<close>

section \<open>Configuration\<close>

record auth_config =
  secretKey :: "string option"
  authorizedParties :: "string list option"
  tokenCacheTtlMs :: rat
  membershipCacheTtlMs :: rat

text \<open>A literal too long for a double is \<open>Infinity\<close> in the code and a number of that size here.\<close>

definition parsePositiveInt :: "string option \<Rightarrow> rat \<Rightarrow> rat" where
  "parsePositiveInt raw fallback =
     (case raw of
        None \<Rightarrow> fallback
      | Some s \<Rightarrow> if s = [] \<or> \<not> list_all is_digit s then fallback
                  else (let parsed = to_double (of_int (digits_val s)) in if 0 < parsed then parsed else fallback))"

definition split_trimmed :: "string \<Rightarrow> string list" where
  "split_trimmed s = filter (\<lambda>x. x \<noteq> []) (map trim (split_on (CHR '','') s))"

definition loadAuthConfig :: "(string \<Rightarrow> string option) \<Rightarrow> exn + auth_config" where
  "loadAuthConfig vars =
     (if \<not> given (vars ''CLERK_SECRET_KEY'') \<and> vars ''NODE_ENV'' = Some ''production''
      then Inl (OtherError ''CLERK_SECRET_KEY is required when NODE_ENV is production'')
      else Inr \<lparr>secretKey = vars ''CLERK_SECRET_KEY'',
                authorizedParties = map_option split_trimmed (vars ''CLERK_AUTHORIZED_PARTIES''),
                tokenCacheTtlMs = parsePositiveInt (vars ''CLERK_TOKEN_CACHE_TTL_MS'') 60000,
                membershipCacheTtlMs = parsePositiveInt (vars ''CLERK_MEMBERSHIP_CACHE_TTL_MS'') 60000\<rparr>)"

section \<open>The identity provider\<close>

record clerk_claims =
  cl_sub :: string
  cl_sid :: "string option"
  cl_email :: "string option"
  cl_exp :: rat
  cl_org :: "string option"
  cl_role :: "string option"

record workspace_context =
  wc_workspace :: string
  wc_role :: string

record clerk_address =
  ka_id :: string
  ka_address :: string
  ka_status :: "string option"

record clerk_user =
  ku_primary :: "string option"
  ku_addresses :: "clerk_address list"

text \<open>A page of organization memberships: organization and role of each, and the size of the whole list.\<close>

record membership_page =
  pg_data :: "(string \<times> string) list"
  pg_count :: nat

text \<open>The service's state: the process, and the caches with the time each entry was made.\<close>

record auth_state =
  as_sys :: sys
  as_tokens :: "(string \<times> clerk_claims \<times> int) list"
  as_members :: "(string \<times> workspace_context list \<times> int) list"
  as_emails :: "(string \<times> string option \<times> int) list"

type_synonym 'a auth = "(auth_state, exn, 'a) op"

record clerk =
  ck_verify :: "string \<Rightarrow> string option \<Rightarrow> string list option \<Rightarrow> json option auth"
  ck_page :: "string \<Rightarrow> nat \<Rightarrow> nat \<Rightarrow> membership_page auth"
  ck_user :: "(string \<Rightarrow> clerk_user auth) option"
  ck_injected :: bool

definition time :: "int auth" where
  "time = gets (\<lambda>a. clock (as_sys a))"

definition still_fresh :: "('a \<times> int) option \<Rightarrow> int \<Rightarrow> rat \<Rightarrow> 'a option" where
  "still_fresh cached tm ttl =
     (case cached of None \<Rightarrow> None | Some (x, at_time) \<Rightarrow> if of_int (tm - at_time) < ttl then Some x else None)"

text \<open>\<open>Map.set\<close> followed by \<open>evictIfOversized\<close>.\<close>

definition evictIfOversized :: "(string \<times> 'a) list \<Rightarrow> (string \<times> 'a) list" where
  "evictIfOversized cache = (if length cache > 10000 then [] else cache)"

definition remember :: "string \<Rightarrow> 'a \<Rightarrow> (string \<times> 'a) list \<Rightarrow> (string \<times> 'a) list" where
  "remember k x cache = evictIfOversized (AList.update k x cache)"

definition extractClaims :: "world \<Rightarrow> json \<Rightarrow> clerk_claims" where
  "extractClaims W claims =
     \<lparr>cl_sub = to_string (num_str W) (coalesce (jget claims ''sub'') (JStr '''')),
      cl_sid = js_str (jget claims ''sid''), cl_email = js_str (jget claims ''email''),
      cl_exp = (case jget claims ''exp'' of JNum n \<Rightarrow> n | _ \<Rightarrow> 0),
      cl_org = js_str (jget claims ''org_id''), cl_role = js_str (jget claims ''org_role'')\<rparr>"

definition verifyToken :: "world \<Rightarrow> clerk \<Rightarrow> auth_config \<Rightarrow> string \<Rightarrow> clerk_claims option auth" where
  "verifyToken W K C token =
     bnd (gets (\<lambda>a. map_of (as_tokens a) token)) (\<lambda>cached. bnd time (\<lambda>tm.
     case still_fresh cached tm (tokenCacheTtlMs C) of
       Some claims \<Rightarrow> ret (Some claims)
     | None \<Rightarrow>
         if \<not> given (secretKey C) then ret None
         else catching
           (bnd (ck_verify K token (secretKey C) (authorizedParties C)) (\<lambda>claims.
            case claims of
              None \<Rightarrow> ret None
            | Some c \<Rightarrow>
                bnd (modify (\<lambda>a. a\<lparr>as_tokens := remember token (extractClaims W c, tm) (as_tokens a)\<rparr>)) (\<lambda>_.
                ret (Some (extractClaims W c)))))
           (\<lambda>_. ret None)))"

definition getClient :: "clerk \<Rightarrow> auth_config \<Rightarrow> bool" where
  "getClient K C = (ck_injected K \<or> given (secretKey C))"

text \<open>
  The paging loop runs until as many memberships as the provider counts were collected; nothing
  but the provider's answers ends it, so it is a partial function: \<open>None\<close> is a loop without end.
\<close>

partial_function (option) page_loop ::
  "clerk \<Rightarrow> string \<Rightarrow> workspace_context list \<Rightarrow> nat \<Rightarrow> nat option \<Rightarrow> auth_state \<Rightarrow>
   ((exn + workspace_context list) \<times> auth_state) option" where
  "page_loop K u acc offset totalCount a =
     (if (case totalCount of None \<Rightarrow> True | Some n \<Rightarrow> length acc < n)
      then (case ck_page K u 100 offset a of (r, b) \<Rightarrow>
             (case r of
                Inl e \<Rightarrow> Some (Inl e, b)
              | Inr res \<Rightarrow>
                  if pg_data res = [] then Some (Inr acc, b)
                  else page_loop K u
                         (acc @ map (\<lambda>m. \<lparr>wc_workspace = fst m, wc_role = snd m\<rparr>) (pg_data res))
                         (offset + length (pg_data res)) (Some (pg_count res)) b))
      else Some (Inr acc, a))"

definition getOrganizationMemberships ::
  "clerk \<Rightarrow> auth_config \<Rightarrow> string \<Rightarrow> auth_state \<Rightarrow> ((exn + workspace_context list) \<times> auth_state) option" where
  "getOrganizationMemberships K C u a =
     (let tm = clock (as_sys a) in
      case still_fresh (map_of (as_members a) u) tm (membershipCacheTtlMs C) of
        Some ms \<Rightarrow> Some (Inr ms, a)
      | None \<Rightarrow>
          if \<not> getClient K C then Some (Inr [], a)
          else (case page_loop K u [] 0 None a of
                  None \<Rightarrow> None
                | Some (r, b) \<Rightarrow>
                    (case r of
                       Inl e \<Rightarrow> Some (Inl (DependencyError ''Clerk membership service unavailable''), b)
                     | Inr ms \<Rightarrow> Some (Inr ms, b\<lparr>as_members := remember u (ms, tm) (as_members b)\<rparr>))))"

definition verified_primary :: "clerk_user \<Rightarrow> string option" where
  "verified_primary user =
     (case List.find (\<lambda>x. Some (ka_id x) = ku_primary user) (ku_addresses user) of
        None \<Rightarrow> None
      | Some x \<Rightarrow> if ka_status x = Some ''verified'' then Some (ka_address x) else None)"

definition getVerifiedEmail :: "clerk \<Rightarrow> auth_config \<Rightarrow> string \<Rightarrow> string option auth" where
  "getVerifiedEmail K C u =
     bnd (gets (\<lambda>a. map_of (as_emails a) u)) (\<lambda>cached. bnd time (\<lambda>tm.
     case still_fresh cached tm (membershipCacheTtlMs C) of
       Some email \<Rightarrow> ret email
     | None \<Rightarrow> catching
         (bnd (the_or (if getClient K C then ck_user K else None) (OtherError ''Clerk user lookup unavailable'')) (\<lambda>getUser.
          bnd (getUser u) (\<lambda>user. bnd time (\<lambda>fetchedAt.
          bnd (modify (\<lambda>a. a\<lparr>as_emails := remember u (verified_primary user, fetchedAt) (as_emails a)\<rparr>)) (\<lambda>_.
          ret (verified_primary user))))))
         (\<lambda>_. throw (DependencyError ''Verified user profile unavailable''))))"

section \<open>Users and memberships\<close>

definition on_sys :: "'a act \<Rightarrow> 'a auth" where
  "on_sys m = (\<lambda>a. case m (as_sys a) of (r, t) \<Rightarrow> (r, a\<lparr>as_sys := t\<rparr>))"

record provisioned_user =
  pu_id :: string
  pu_clerk :: string
  pu_email :: "string option"
  pu_created :: string

definition user_constraints :: "user_row \<Rightarrow> bool" where
  "user_constraints x = (length (ur_clerk x) \<le> 128 \<and> length (ur_name x) \<le> 255 \<and> length (ur_email x) \<le> 255)"

definition upsert_user :: "env \<Rightarrow> string \<Rightarrow> string \<Rightarrow> user_row act" where
  "upsert_user E sub email = txn E (
     bnd (gets (\<lambda>s. List.find (\<lambda>x. ur_clerk x = sub) (users (tables s)))) (\<lambda>existing.
     case existing of
       Some x \<Rightarrow>
         bnd (check (user_constraints (x\<lparr>ur_email := email\<rparr>)) db_error) (\<lambda>_.
         bnd (update_db (\<lambda>d. d\<lparr>users := map (\<lambda>y. if ur_clerk y = sub then y\<lparr>ur_email := email\<rparr> else y) (users d)\<rparr>)) (\<lambda>_.
         ret (x\<lparr>ur_email := email\<rparr>)))
     | None \<Rightarrow>
         bnd (new_uuid E) (\<lambda>i. bnd now (\<lambda>t.
         let x = \<lparr>ur_id = i, ur_clerk = sub, ur_name = '''', ur_email = email, ur_avatar = None, ur_active = None,
                  ur_created = t, ur_updated = t\<rparr> in
         bnd (gets tables) (\<lambda>d.
         bnd (check (user_constraints x \<and> i \<notin> ur_id ` set (users d)) db_error) (\<lambda>_.
         bnd (update_db (\<lambda>d. d\<lparr>users := users d @ [x]\<rparr>)) (\<lambda>_. ret x)))))))"

definition getOrCreateUser :: "env \<Rightarrow> clerk \<Rightarrow> auth_config \<Rightarrow> clerk_claims \<Rightarrow> provisioned_user auth" where
  "getOrCreateUser E K C claims =
     bnd (getVerifiedEmail K C (cl_sub claims)) (\<lambda>email.
     bnd (on_sys (upsert_user E (cl_sub claims) (case email of Some x \<Rightarrow> x | None \<Rightarrow> ''''))) (\<lambda>row.
     ret \<lparr>pu_id = ur_id row, pu_clerk = ur_clerk row, pu_email = email, pu_created = to_iso (ur_created row)\<rparr>))"

definition live_workspace :: "string \<Rightarrow> db \<Rightarrow> bool" where
  "live_workspace w d = list_ex (\<lambda>x. wk_id x = w \<and> \<not> wk_deleted x) (workspaces d)"

definition memberships_of :: "string \<Rightarrow> db \<Rightarrow> workspace_context list" where
  "memberships_of clerkId d =
     map (\<lambda>m. \<lparr>wc_workspace = mb_workspace m, wc_role = mb_role m\<rparr>)
       (filter (\<lambda>m. list_ex (\<lambda>x. ur_id x = mb_user m \<and> ur_clerk x = clerkId) (users d) \<and> live_workspace (mb_workspace m) d)
         (memberships d))"

definition resolveMemberships :: "env \<Rightarrow> string \<Rightarrow> workspace_context list auth" where
  "resolveMemberships E clerkId = on_sys (db_query E (memberships_of clerkId))"

section \<open>The guard\<close>

record incoming =
  in_method :: string
  in_url :: string
  in_authorization :: "string option"
  in_query_token :: json

definition line_terminator :: "char \<Rightarrow> bool" where
  "line_terminator c = (code_unit c = 10 \<or> code_unit c = 13)"

text \<open>
  \<open>/^bearer\s+(.+)$/i\<close> and the trimmed group: white space after the scheme, then a rest without
  line terminators. A rest of white space only, which backtracking would give to the group, is
  trimmed to nothing.
\<close>

definition extractBearerToken :: "string option \<Rightarrow> string option" where
  "extractBearerToken header =
     (case header of
        None \<Rightarrow> None
      | Some h \<Rightarrow>
          (let rest = drop 6 h; group = dropWhile is_ws rest in
           if map to_lower (take 6 h) = ''bearer'' \<and> rest \<noteq> [] \<and> is_ws (hd rest) \<and> group \<noteq> [] \<and> \<not> list_ex line_terminator group
           then Some (trim group) else None))"

text \<open>\<open>/\/workspaces\/[^/]+\/events$/\<close>, read from the end of the path.\<close>

definition isSseEventsPath :: "string \<Rightarrow> bool" where
  "isSseEventsPath path =
     (let p = rev path; rest = drop 7 p; wid = takeWhile (\<lambda>c. c \<noteq> CHR ''/'') rest; front = dropWhile (\<lambda>c. c \<noteq> CHR ''/'') rest
      in take 7 p = rev ''/events'' \<and> wid \<noteq> [] \<and> take 12 front = rev ''/workspaces/'')"

definition pathname :: "string \<Rightarrow> string" where
  "pathname url = takeWhile (\<lambda>c. c \<noteq> CHR ''?'') url"

definition extractToken :: "incoming \<Rightarrow> string option" where
  "extractToken req =
     (case extractBearerToken (in_authorization req) of
        Some t \<Rightarrow> Some t
      | None \<Rightarrow>
          if in_method req = ''GET'' \<and> isSseEventsPath (pathname (in_url req))
          then (case in_query_token req of JStr t \<Rightarrow> if t \<noteq> [] then Some t else None | _ \<Rightarrow> None)
          else None)"

definition dev_bypass :: "(string \<Rightarrow> string option) \<Rightarrow> bool" where
  "dev_bypass vars =
     (vars ''AUTH_DEV_BYPASS'' = Some ''true'' \<and> (vars ''NODE_ENV'' = Some ''development'' \<or> vars ''NODE_ENV'' = Some ''test'') \<and>
      given (vars ''DEV_USER_ID''))"

definition dev_user :: "(string \<Rightarrow> string option) \<Rightarrow> request_user" where
  "dev_user vars = \<lparr>us_id = the (vars ''DEV_USER_ID''), us_clerk = the (vars ''DEV_USER_ID''), us_email = Some ''dev@provisr.local'',
                    us_workspaces = [], us_roles = []\<rparr>"

definition role_entries :: "workspace_context list \<Rightarrow> (string \<times> string) list" where
  "role_entries ms = own_order (foldl (\<lambda>acc m. AList.update (wc_workspace m) (wc_role m) acc) [] ms)"

text \<open>The user that \<open>canActivate\<close> attaches to the request, \<open>None\<close> on a public route.\<close>

definition canActivate ::
  "env \<Rightarrow> clerk \<Rightarrow> auth_config \<Rightarrow> (string \<Rightarrow> string option) \<Rightarrow> bool \<Rightarrow> bool \<Rightarrow> incoming \<Rightarrow> request_user option auth" where
  "canActivate E K C vars isPublic allowNoWorkspaceMembership req =
     (if isPublic then ret None
      else if dev_bypass vars then ret (Some (dev_user vars))
      else
        bnd (the_or (extractToken req) UnauthorizedError) (\<lambda>token.
        bnd (verifyToken (base E) K C token) (\<lambda>verified.
        bnd (the_or verified UnauthorizedError) (\<lambda>claims.
        bnd (getOrCreateUser E K C claims) (\<lambda>user.
        bnd (resolveMemberships E (pu_clerk user)) (\<lambda>ms.
        bnd (check (ms \<noteq> [] \<or> allowNoWorkspaceMembership) (ForbiddenError (Some ''No workspace membership''))) (\<lambda>_.
        ret (Some \<lparr>us_id = pu_id user, us_clerk = pu_clerk user, us_email = pu_email user,
                   us_workspaces = map wc_workspace ms, us_roles = role_entries ms\<rparr>))))))))"

section \<open>Correlation identifiers\<close>

definition safe_id :: "string \<Rightarrow> bool" where
  "safe_id s = (1 \<le> length s \<and> length s \<le> 64 \<and> list_all (\<lambda>c. is_alnum c \<or> c \<in> set ''._-'') s)"

record http_log =
  hl_correlation :: string
  hl_request :: string
  hl_method :: string
  hl_path :: string

text \<open>The identifiers put into the locals and the response headers, and the line logged.\<close>

definition correlation_use :: "env \<Rightarrow> string option \<Rightarrow> incoming \<Rightarrow> (res_locals \<times> http_log) act" where
  "correlation_use E header req =
     bnd (case header of
            Some h \<Rightarrow> if safe_id h then ret h else new_uuid E
          | None \<Rightarrow> new_uuid E) (\<lambda>correlationId.
     bnd (new_uuid E) (\<lambda>requestId.
     ret (\<lparr>lc_request = JStr requestId, lc_correlation = JStr correlationId\<rparr>,
          \<lparr>hl_correlation = correlationId, hl_request = requestId, hl_method = in_method req, hl_path = pathname (in_url req)\<rparr>)))"

section \<open>Caches\<close>

text \<open>
  What the three caches share: an entry is stored with the time of its making, and \<open>genuine\<close> says
  that the provider vouched for a value at a time. Storing genuine entries keeps a cache genuine,
  and what a lookup finds is genuine and younger than the time to live.
\<close>

locale timed_cache =
  fixes entries :: "auth_state \<Rightarrow> (string \<times> 'v \<times> int) list"
    and put :: "string \<Rightarrow> 'v \<times> int \<Rightarrow> auth_state \<Rightarrow> auth_state"
  assumes entries_put: "entries (put k x a) = remember k x (entries a)"
    and put_sys: "as_sys (put k x a) = as_sys a"
begin

definition genuine :: "(string \<Rightarrow> 'v \<Rightarrow> int \<Rightarrow> bool) \<Rightarrow> auth_state \<Rightarrow> bool" where
  "genuine P a \<longleftrightarrow> (\<forall>k v t. map_of (entries a) k = Some (v, t) \<longrightarrow> P k v t)"

lemma genuine_put: "genuine P a \<Longrightarrow> P k v t \<Longrightarrow> genuine P (put k (v, t) a)"
  by (auto simp: genuine_def entries_put remember_def evictIfOversized_def update_conv')

lemma genuine_fresh:
  assumes "genuine P a" and "still_fresh (map_of (entries a) k) t ttl = Some v"
  shows "\<exists>t0. P k v t0 \<and> of_int (t - t0) < ttl"
  using assms by (fastforce simp: genuine_def still_fresh_def split: option.splits if_splits)

lemma bounded_put: "length (entries a) \<le> 10000 \<Longrightarrow> length (entries (put k x a)) \<le> 10000"
  by (simp add: entries_put remember_def evictIfOversized_def)

end

interpretation tokens: timed_cache as_tokens "\<lambda>k x a. a\<lparr>as_tokens := remember k x (as_tokens a)\<rparr>"
  by unfold_locales simp_all

interpretation members: timed_cache as_members "\<lambda>k x a. a\<lparr>as_members := remember k x (as_members a)\<rparr>"
  by unfold_locales simp_all

interpretation emails: timed_cache as_emails "\<lambda>k x a. a\<lparr>as_emails := remember k x (as_emails a)\<rparr>"
  by unfold_locales simp_all

section \<open>Facts about tokens and pages\<close>

lemma rev_split:
  "takeWhile P (rev p) = rev w \<Longrightarrow> dropWhile P (rev p) = rev f \<Longrightarrow> p = f @ w"
  by (metis rev_append rev_rev_ident takeWhile_dropWhile_id)

lemma isSseEventsPath_iff:
  "isSseEventsPath p \<longleftrightarrow> (\<exists>pre w. p = pre @ ''/workspaces/'' @ w @ ''/events'' \<and> w \<noteq> [] \<and> CHR ''/'' \<notin> set w)"
  (is "?l = ?r")
proof
  assume ?l
  let ?rest = "drop 7 (rev p)"
  let ?w = "takeWhile (\<lambda>c. c \<noteq> CHR ''/'') ?rest"
  let ?f = "dropWhile (\<lambda>c. c \<noteq> CHR ''/'') ?rest"
  from \<open>?l\<close> have l: "take 7 (rev p) = rev ''/events''" "?w \<noteq> []" "take 12 ?f = rev ''/workspaces/''"
    by (simp_all add: isSseEventsPath_def Let_def)
  have "rev p = take 7 (rev p) @ ?rest" by simp
  also have "\<dots> = rev ''/events'' @ ?w @ ?f" by (simp only: l(1) takeWhile_dropWhile_id)
  also have "?f = rev ''/workspaces/'' @ drop 12 ?f" by (metis append_take_drop_id l(3))
  finally have "p = rev (rev ''/events'' @ ?w @ rev ''/workspaces/'' @ drop 12 ?f)" by (metis rev_rev_ident)
  then have "p = rev (drop 12 ?f) @ ''/workspaces/'' @ rev ?w @ ''/events''" by simp
  moreover have "CHR ''/'' \<notin> set (rev ?w)" by (auto dest: set_takeWhileD)
  ultimately show ?r using l(2) by (metis rev_is_Nil_conv)
next
  assume ?r
  then obtain pre w where p: "p = pre @ ''/workspaces/'' @ w @ ''/events''" "w \<noteq> []" "CHR ''/'' \<notin> set w" by blast
  have r: "rev p = rev ''/events'' @ rev w @ rev ''/workspaces/'' @ rev pre" by (simp add: p(1))
  have d: "drop 7 (rev p) = rev w @ CHR ''/'' # rev ''/workspaces'' @ rev pre" by (simp add: r)
  have "takeWhile (\<lambda>c. c \<noteq> CHR ''/'') (drop 7 (rev p)) = rev w"
    unfolding d using p(3) by (subst takeWhile_append2) auto
  moreover have "dropWhile (\<lambda>c. c \<noteq> CHR ''/'') (drop 7 (rev p)) = CHR ''/'' # rev ''/workspaces'' @ rev pre"
    unfolding d using p(3) by (subst dropWhile_append2) auto
  ultimately show ?l using p(2) by (simp add: isSseEventsPath_def Let_def r)
qed

lemma page_loop_complete:
  assumes pages: "\<And>offset b. \<exists>n c. ck_page K u 100 offset b =
      (Inr \<lparr>pg_data = take n (drop offset all), pg_count = length all\<rparr>, c) \<and> (offset < length all \<longrightarrow> 0 < n)"
    and "offset \<le> length all" and "tot = None \<or> tot = Some (length all)"
  shows "\<exists>b. page_loop K u (map (\<lambda>m. \<lparr>wc_workspace = fst m, wc_role = snd m\<rparr>) (take offset all)) offset tot a =
    Some (Inr (map (\<lambda>m. \<lparr>wc_workspace = fst m, wc_role = snd m\<rparr>) all), b)"
  using assms(2,3)
proof (induction "length all - offset" arbitrary: offset tot a rule: less_induct)
  case less
  obtain n c where page: "ck_page K u 100 offset a = (Inr \<lparr>pg_data = take n (drop offset all), pg_count = length all\<rparr>, c)"
    and n: "offset < length all \<longrightarrow> 0 < n" using pages by blast
  show ?case
  proof (cases "offset < length all")
    case False
    with less.prems page show ?thesis by (subst page_loop.simps) auto
  next
    case True
    let ?k = "min n (length all - offset)"
    have k: "0 < ?k" "offset + ?k \<le> length all" using True n by auto
    have t: "take offset all @ take n (drop offset all) = take (offset + ?k) all"
      by (simp add: take_add [symmetric] min_def)
    have "\<exists>b. page_loop K u (map (\<lambda>m. \<lparr>wc_workspace = fst m, wc_role = snd m\<rparr>) (take (offset + ?k) all)) (offset + ?k)
        (Some (length all)) c = Some (Inr (map (\<lambda>m. \<lparr>wc_workspace = fst m, wc_role = snd m\<rparr>) all), b)"
      using k by (intro less.hyps) auto
    with True page n less.prems(2) show ?thesis
      by (subst page_loop.simps) (auto simp: t [symmetric] min.commute)
  qed
qed

section \<open>Facts about users\<close>

lemma on_sys_Inr: "on_sys m a = (Inr x, b) \<longleftrightarrow> (\<exists>t. m (as_sys a) = (Inr x, t) \<and> b = a\<lparr>as_sys := t\<rparr>)"
  by (auto simp: on_sys_def split: prod.splits)

lemma upsert_user_Inr:
  assumes "upsert_user E sub email s = (Inr x, t)"
  shows "ur_clerk x = sub \<and> ur_email x = email \<and>
    (case List.find (\<lambda>y. ur_clerk y = sub) (users (tables (others E s))) of
       Some y \<Rightarrow> x = y\<lparr>ur_email := email\<rparr> \<and>
         users (tables t) = map (\<lambda>y. if ur_clerk y = sub then y\<lparr>ur_email := email\<rparr> else y) (users (tables (others E s)))
     | None \<Rightarrow> users (tables t) = users (tables (others E s)) @ [x])"
proof (cases "List.find (\<lambda>y. ur_clerk y = sub) (users (tables (others E s)))")
  case None
  with assms show ?thesis by (auto simp: upsert_user_def txn_Inr mnd Let_def)
next
  case (Some y)
  then have "ur_clerk y = sub" by (auto simp: find_Some_iff)
  with Some assms show ?thesis by (auto simp: upsert_user_def txn_Inr mnd Let_def)
qed

lemma getOrCreateUser_Inr:
  "getOrCreateUser E K C claims a = (Inr user, b) \<longleftrightarrow>
    (\<exists>email a2 row t. getVerifiedEmail K C (cl_sub claims) a = (Inr email, a2) \<and>
       upsert_user E (cl_sub claims) (case email of Some x \<Rightarrow> x | None \<Rightarrow> '''') (as_sys a2) = (Inr row, t) \<and>
       b = a2\<lparr>as_sys := t\<rparr> \<and>
       user = \<lparr>pu_id = ur_id row, pu_clerk = ur_clerk row, pu_email = email, pu_created = to_iso (ur_created row)\<rparr>)"
  by (auto simp: getOrCreateUser_def mnd on_sys_Inr)

lemma resolveMemberships_Inr:
  "resolveMemberships E c a = (Inr ms, b) \<longleftrightarrow>
     b = a\<lparr>as_sys := others E (as_sys a)\<rparr> \<and> ms = memberships_of c (tables (as_sys b))"
  by (auto simp: resolveMemberships_def on_sys_def)

section \<open>Properties\<close>


text \<open>
  A token in a URL works only for the event stream: a request's token is the one of its authorization
  header or, if there is none and only then, the nonempty one in the query of a \<open>GET\<close> request whose
  path, without the query, ends in \<open>/workspaces/<one segment>/events\<close>; and every such request has that token.
\<close>

theorem query_token_only_on_streams:
  "extractToken req = Some token \<longleftrightarrow>
     extractBearerToken (in_authorization req) = Some token \<or>
     (extractBearerToken (in_authorization req) = None \<and> in_method req = ''GET'' \<and> in_query_token req = JStr token \<and> token \<noteq> [] \<and>
      (\<exists>pre w. pathname (in_url req) = pre @ ''/workspaces/'' @ w @ ''/events'' \<and> w \<noteq> [] \<and> CHR ''/'' \<notin> set w))"
  unfolding isSseEventsPath_iff [symmetric]
  by (auto simp: extractToken_def split: option.splits if_splits json.splits)

text \<open>
  Every spelling of the scheme is read: a header made of the scheme in any case, a nonempty
  gap of white space and a token without white space yields that token.
\<close>

theorem bearer_token_roundtrip:
  assumes "map to_lower scheme = ''bearer''" and "gap \<noteq> []" and "list_all is_ws gap"
    and "token \<noteq> []" and "list_all (\<lambda>c. \<not> is_ws c) token"
  shows "extractBearerToken (Some (scheme @ gap @ token)) = Some token"
proof -
  have len: "length scheme = 6" using arg_cong [OF assms(1), of length] by simp
  have d: "dropWhile is_ws (gap @ token) = token"
    using assms(3-5) by (subst dropWhile_append2) (auto simp: list_all_iff dropWhile_eq_self_iff)
  have nl: "\<not> list_ex line_terminator token"
    using assms(5) by (auto simp: list_all_iff list_ex_iff line_terminator_def is_ws_def)
  have dw: "dropWhile is_ws xs = xs" if "list_all (\<lambda>c. \<not> is_ws c) xs" for xs
    using that by (cases xs) auto
  have "trim token = token"
    using dw [of token] dw [of "rev token"] assms(5) by (simp add: trim_def)
  moreover have "is_ws (hd (gap @ token))" using assms(2,3) by (cases gap) auto
  ultimately show ?thesis
    using assms(1,2,4,5) len d nl by (cases token) (simp_all add: extractBearerToken_def)
qed

text \<open>
  C25. Only verified tokens are accepted, and not for long: if the provider vouches for what it
  verifies, and keeps every cached entry vouched for while other requests run, then verification
  never throws, keeps the cache vouched for, and returns only claims that the provider vouched for
  at this very time or less than the time to live ago.
\<close>

theorem cached_tokens_are_verified:
  assumes "\<forall>tok c t. map_of (as_tokens a) tok = Some (c, t) \<longrightarrow> P tok c t"
    and "\<And>tok a r b. ck_verify K tok (secretKey C) (authorizedParties C) a = (r, b) \<Longrightarrow>
       \<forall>tok c t. map_of (as_tokens a) tok = Some (c, t) \<longrightarrow> P tok c t \<Longrightarrow>
       (\<forall>tok c t. map_of (as_tokens b) tok = Some (c, t) \<longrightarrow> P tok c t) \<and>
       (\<forall>v. r = Inr (Some v) \<longrightarrow> P tok (extractClaims W v) (clock (as_sys a)))"
    and "verifyToken W K C token a = (r, b)"
  shows "(\<forall>tok c t. map_of (as_tokens b) tok = Some (c, t) \<longrightarrow> P tok c t) \<and>
     (\<exists>v. r = Inr v \<and> (\<forall>claims. v = Some claims \<longrightarrow>
        (\<exists>t. P token claims t \<and> (t = clock (as_sys a) \<or> of_int (clock (as_sys a) - t) < tokenCacheTtlMs C))))"
proof -
  note g = tokens.genuine_def [of P, symmetric]
  have a: "tokens.genuine P a" using assms(1) by (simp add: tokens.genuine_def)
  show ?thesis
  proof (cases "still_fresh (map_of (as_tokens a) token) (clock (as_sys a)) (tokenCacheTtlMs C)")
    case (Some c)
    with assms(3) have "r = Inr (Some c)" "b = a" by (auto simp: verifyToken_def time_def bnd_def)
    with tokens.genuine_fresh [OF a Some] a show ?thesis unfolding g by auto
  next
    case None
    obtain q c where q: "ck_verify K token (secretKey C) (authorizedParties C) a = (q, c)" by force
    from assms(2) [OF q assms(1)] have c: "tokens.genuine P c" "\<forall>v. q = Inr (Some v) \<longrightarrow> P token (extractClaims W v) (clock (as_sys a))"
      by (simp_all add: tokens.genuine_def)
    from None assms(3) q consider "r = Inr None" "b = a" | "r = Inr None" "b = c"
      | v where "q = Inr (Some v)" "r = Inr (Some (extractClaims W v))"
          "b = c\<lparr>as_tokens := remember token (extractClaims W v, clock (as_sys a)) (as_tokens c)\<rparr>"
      by (auto simp: verifyToken_def time_def bnd_def catching_def split: if_splits sum.splits option.splits)
    then show ?thesis
      unfolding g using a c by cases (auto intro: tokens.genuine_put)
  qed
qed

text \<open>
  Membership paging is complete and ends: if the provider serves one list, in pages that may be
  shorter than asked for but are empty only past the end, then the loop returns, with every
  membership of the list in its order, however many pages that takes.
\<close>

theorem memberships_are_complete:
  assumes "\<And>offset b. \<exists>n c. ck_page K u 100 offset b =
      (Inr \<lparr>pg_data = take n (drop offset all), pg_count = length all\<rparr>, c) \<and> (offset < length all \<longrightarrow> 0 < n)"
    and "still_fresh (map_of (as_members a) u) (clock (as_sys a)) (membershipCacheTtlMs C) = None" and "getClient K C"
  shows "\<exists>b. getOrganizationMemberships K C u a =
     Some (Inr (map (\<lambda>m. \<lparr>wc_workspace = fst m, wc_role = snd m\<rparr>) all), b)"
  using page_loop_complete [OF assms(1), of 0 None a] assms(2,3)
  by (auto simp: getOrganizationMemberships_def)

text \<open>
  Correlation identifiers are safe to log: the identifier of a request is the client's only if it
  is one to sixty-four letters, digits, dots, underscores or dashes, and a generated one otherwise;
  the path logged never contains the query, where a stream's token travels.
\<close>

theorem correlation_is_safe:
  assumes "\<And>n. safe_id (uuid_of E n)" and "correlation_use E header req s = (Inr (locals, line), t)"
  shows "\<exists>c. lc_correlation locals = JStr c \<and> hl_correlation line = c \<and> safe_id c \<and>
     (\<forall>h. header = Some h \<and> safe_id h \<longrightarrow> c = h) \<and> CHR ''?'' \<notin> set (hl_path line)"
  using assms
  by (auto simp: correlation_use_def bnd_def pathname_def split: option.splits if_splits dest: set_takeWhileD)

section \<open>Witnesses\<close>

definition sample_clerk :: clerk where
  "sample_clerk =
     \<lparr>ck_verify = (\<lambda>token key parties. ret (if token = ''good'' then Some (JObj [(''sub'', JStr ''c1'')]) else None)),
      ck_page = (\<lambda>u limit offset. ret \<lparr>pg_data = take 1 (drop offset [(''o1'', ''admin''), (''o2'', ''viewer'')]), pg_count = 2\<rparr>),
      ck_user = Some (\<lambda>u. ret \<lparr>ku_primary = Some ''p'',
        ku_addresses = [\<lparr>ka_id = ''p'', ka_address = ''a@b.c'', ka_status = Some ''verified''\<rparr>]\<rparr>),
      ck_injected = True\<rparr>"

definition sample_config :: auth_config where
  "sample_config = \<lparr>secretKey = Some ''sk'', authorizedParties = None, tokenCacheTtlMs = 60000, membershipCacheTtlMs = 60000\<rparr>"

definition sample_auth :: "db \<Rightarrow> auth_state" where
  "sample_auth d = \<lparr>as_sys = sample_sys d, as_tokens = [], as_members = [], as_emails = []\<rparr>"

definition stream_request :: incoming where
  "stream_request = \<lparr>in_method = ''GET'', in_url = ''/v1/workspaces/w/events?token=good'', in_authorization = None,
     in_query_token = JStr ''good''\<rparr>"

definition member_db :: db where
  "member_db = empty_db\<lparr>
     users := [\<lparr>ur_id = ''u1'', ur_clerk = ''c1'', ur_name = ''N'', ur_email = '''', ur_avatar = None, ur_active = None,
                ur_created = 0, ur_updated = 0\<rparr>],
     memberships := [\<lparr>mb_workspace = ''w'', mb_user = ''u1'', mb_role = ''admin''\<rparr>],
     workspaces := [\<lparr>wk_id = ''w'', wk_name = ''W'', wk_policies_enabled = None, wk_deleted = False\<rparr>]\<rparr>"

lemmas sample_auth_defs = sample_clerk_def sample_config_def sample_auth_def member_db_def

lemma stream_token: "extractToken stream_request = Some ''good''"
  by (simp add: extractToken_def extractBearerToken_def isSseEventsPath_def pathname_def stream_request_def)

lemma stream_activates:
  "\<exists>u b. canActivate sample_env sample_clerk sample_config (\<lambda>k. None) False False stream_request (sample_auth member_db) =
     (Inr (Some u), b) \<and> us_workspaces u = [''w'']"
  by (simp add: canActivate_def stream_token verifyToken_def getOrCreateUser_def getVerifiedEmail_def resolveMemberships_def
      upsert_user_def bnd_def catching_def dev_bypass_def sample_auth_defs time_def still_fresh_def given_def extractClaims_def
      coalesce_def nullish_def getClient_def verified_primary_def on_sys_def txn_def user_constraints_def memberships_of_def
      live_workspace_def empty_db_def check_def the_or_def)


theorem bearer_token_roundtrip_witness:
  "extractBearerToken (Some (''BeArEr'' @ ''  '' @ ''abc'')) = Some ''abc''"
  by (rule bearer_token_roundtrip) (simp_all add: to_lower_def is_upper_def is_ws_def code_unit_def char_of_def bit_Suc_0_iff)

lemma sample_vouches:
  "ck_verify sample_clerk tok k p a = (r, b) \<Longrightarrow>
     b = a \<and> (\<forall>v. r = Inr (Some v) \<longrightarrow> cl_sub (extractClaims sample_world v) = ''c1'')"
  by (auto simp: sample_clerk_def extractClaims_def coalesce_def nullish_def split: if_splits)

theorem cached_tokens_are_verified_witness:
  "\<exists>b. verifyToken sample_world sample_clerk sample_config ''good'' (sample_auth empty_db) =
     (Inr (Some (extractClaims sample_world (JObj [(''sub'', JStr ''c1'')]))), b)"
proof -
  obtain r b where run: "verifyToken sample_world sample_clerk sample_config ''good'' (sample_auth empty_db) = (r, b)" by force
  have e: "\<forall>tok c t. map_of (as_tokens (sample_auth empty_db)) tok = Some (c, t) \<longrightarrow> cl_sub c = ''c1''"
    by (simp add: sample_auth_def)
  have "\<exists>v. r = Inr v \<and> (\<forall>claims. v = Some claims \<longrightarrow> cl_sub claims = ''c1'')"
    using cached_tokens_are_verified [of "sample_auth empty_db" "\<lambda>tok c t. cl_sub c = ''c1''", OF e _ run] sample_vouches by fastforce
  with run show ?thesis
    by (auto simp: verifyToken_def bnd_def catching_def time_def still_fresh_def given_def sample_auth_defs)
qed

theorem memberships_are_complete_witness:
  "\<exists>b. getOrganizationMemberships sample_clerk sample_config ''c1'' (sample_auth empty_db) =
     Some (Inr [\<lparr>wc_workspace = ''o1'', wc_role = ''admin''\<rparr>, \<lparr>wc_workspace = ''o2'', wc_role = ''viewer''\<rparr>], b)"
  using memberships_are_complete [of sample_clerk "''c1''" "[(''o1'', ''admin''), (''o2'', ''viewer'')]" "sample_auth empty_db" sample_config]
  by (force simp: sample_auth_defs still_fresh_def getClient_def)

theorem correlation_is_safe_witness:
  "\<exists>locals line t. correlation_use (sample_env\<lparr>uuid_of := \<lambda>n. ''id''\<rparr>) (Some ''no good'') stream_request (sample_sys empty_db) =
     (Inr (locals, line), t) \<and> safe_id (hl_correlation line)"
proof -
  have i: "safe_id ''id''" "\<not> safe_id ''no good''"
    by (simp_all add: safe_id_def is_alnum_def is_digit_def is_lower_def is_upper_def code_unit_def)
  then obtain locals line t where run: "correlation_use (sample_env\<lparr>uuid_of := \<lambda>n. ''id''\<rparr>) (Some ''no good'') stream_request
      (sample_sys empty_db) = (Inr (locals, line), t)" by (simp add: correlation_use_def bnd_def)
  from correlation_is_safe [OF _ run] i run show ?thesis by force
qed

end
