(* ===== verification/Bootstrap.thy ===== *)
theory Bootstrap
  imports Auth
begin

text \<open>
  Workspace listing, creation and selection (\<open>services/workspace-bootstrap.service.ts\<close>), the
  schemas of the workspace and user routes (\<open>routes/workspaces.controller.ts\<close>,
  \<open>routes/users.controller.ts\<close>) and the allowed origins (\<open>app.builder.ts\<close>).
\<close>

section \<open>Schemas\<close>

definition workspaceSchema :: zod where
  "workspaceSchema = ZObj Passthrough
     [(''id'', zuuid), (''name'', zs), (''slug'', zs), (''environment'', ZEnum [''dev'', ''staging'', ''prod''])]"

definition workspaceListSchema :: zod where
  "workspaceListSchema = ZArrAny (zextend workspaceSchema
     [(''role'', ZEnum [''admin'', ''engineer'', ''approver'', ''auditor'', ''viewer''])])"

definition environments :: "json \<Rightarrow> json" where
  "environments v = (if v = JStr ''development'' then JStr ''dev'' else if v = JStr ''staging'' then JStr ''staging''
                     else if v = JStr ''production'' then JStr ''prod'' else JUndef)"

definition public_environment :: "json \<Rightarrow> json" where
  "public_environment v = (if v = JStr ''dev'' then JStr ''development'' else if v = JStr ''prod'' then JStr ''production''
                           else JStr ''staging'')"

definition workspace_error_schema :: zod where
  "workspace_error_schema = zobj [(''error'', zs), (''message'', zs)]"

section \<open>Listing and creating\<close>

definition bounded_key :: "string option \<Rightarrow> bool" where
  "bounded_key key = (case key of None \<Rightarrow> False | Some k \<Rightarrow> trim k \<noteq> [] \<and> length k \<le> 128)"

definition workspaces_request :: "string \<Rightarrow> request_user \<Rightarrow> json option \<Rightarrow> string option \<Rightarrow> http_request" where
  "workspaces_request backendUrl user input key =
     \<lparr>rq_method = (if input \<noteq> None then ''POST'' else ''GET''),
      rq_url = backendUrl @ (if input \<noteq> None then ''/workspaces'' else ''/workspaces?user_id='' @ encode_uri_component (us_id user)),
      rq_headers = (''Content-Type'', ''application/json'') # (if input \<noteq> None then [(''Idempotency-Key'', the key)] else []),
      rq_body = map_option (\<lambda>v. spread v [(''environment'', environments (jget v ''environment'')), (''creator_id'', JStr (us_id user))]) input\<rparr>"

text \<open>A response that is not successful: the service's own error below 500, else a dependency failure.\<close>

definition workspace_failure :: "world \<Rightarrow> nat \<Rightarrow> json \<Rightarrow> exn" where
  "workspace_failure W status v =
     (case zparse W workspace_error_schema v of
        Inl issues \<Rightarrow> DependencyError ''Workspace service unavailable''
      | Inr d \<Rightarrow> if status \<ge> 500 then DependencyError ''Workspace service unavailable''
                 else HttpException status (JObj [(''message'', jget d ''message''), (''code'', jget d ''error'')])
                        (str_of (jget d ''message'')))"

definition workspaces_result :: "json option \<Rightarrow> json \<Rightarrow> json" where
  "workspaces_result input d =
     (if input \<noteq> None \<and> js_arr d = None
      then spread d [(''environment'', public_environment (jget d ''environment''))] else d)"

definition workspaces_of :: "env \<Rightarrow> string \<Rightarrow> request_user \<Rightarrow> json option \<Rightarrow> string option \<Rightarrow> json act" where
  "workspaces_of E backendUrl user input key =
     bnd (check (input = None \<or> bounded_key key) (ValidationError ''A bounded Idempotency-Key is required'' None)) (\<lambda>_.
     bnd (catching (fetcher E (workspaces_request backendUrl user input key))
            (\<lambda>_. throw (DependencyError ''Workspace service unavailable''))) (\<lambda>response.
     bnd (the_or (rs_json response) (DependencyError ''Workspace service returned an unreadable response'')) (\<lambda>v.
     bnd (check (response_ok response) (workspace_failure (base E) (rs_status response) v)) (\<lambda>_.
     case zparse (base E) (if input \<noteq> None then workspaceSchema else workspaceListSchema) v of
       Inl issues \<Rightarrow> throw (DependencyError ''Workspace service returned an unreadable response'')
     | Inr d \<Rightarrow> ret (workspaces_result input d)))))"

section \<open>Selecting the active workspace\<close>

record ensure_input =
  ei_name :: "string option"
  ei_avatar :: "string option"
  ei_workspace :: "string option"

record ensured =
  en_id :: string
  en_workspace :: "string option"

definition live_membership :: "string \<Rightarrow> string \<Rightarrow> db \<Rightarrow> bool" where
  "live_membership u w d = (list_ex (\<lambda>m. mb_user m = u \<and> mb_workspace m = w) (memberships d) \<and> live_workspace w d)"

text \<open>\<open>input.workspaceId || current.active_workspace_id || null\<close>.\<close>

definition wanted_workspace :: "ensure_input \<Rightarrow> user_row option \<Rightarrow> string option" where
  "wanted_workspace input current =
     (if given (ei_workspace input) then ei_workspace input
      else case current of None \<Rightarrow> None | Some x \<Rightarrow> if given (ur_active x) then ur_active x else None)"

definition selected_workspace :: "request_user \<Rightarrow> ensure_input \<Rightarrow> user_row option \<Rightarrow> db \<Rightarrow> exn + string option" where
  "selected_workspace user input current d =
     (case wanted_workspace input current of
        None \<Rightarrow> Inr None
      | Some w \<Rightarrow> if live_membership (us_id user) w d then Inr (Some w)
                  else if given (ei_workspace input) then Inl (ForbiddenError (Some ''Workspace membership required''))
                  else Inr None)"

definition ensured_row :: "request_user \<Rightarrow> ensure_input \<Rightarrow> string option \<Rightarrow> int \<Rightarrow> user_row \<Rightarrow> user_row" where
  "ensured_row user input w t x = x\<lparr>
     ur_name := (case ei_name input of Some n \<Rightarrow> n | None \<Rightarrow> ur_name x),
     ur_email := (case us_email user of Some e \<Rightarrow> e | None \<Rightarrow> ''''),
     ur_avatar := (case ei_avatar input of Some v \<Rightarrow> Some v | None \<Rightarrow> ur_avatar x),
     ur_active := w, ur_updated := t\<rparr>"

definition selection_audit :: "request_user \<Rightarrow> string \<Rightarrow> string option \<Rightarrow> string \<Rightarrow> audit_params" where
  "selection_audit user auditWorkspace w correlation =
     \<lparr>ap_workspace = auditWorkspace, ap_event_type = ''state_transition'', ap_actor_id = us_id user, ap_actor_type = ''user'',
      ap_resource_type = ''user'', ap_resource_id = us_id user,
      ap_payload = JObj [(''action'', JStr ''active_workspace_selected''), (''workspace_id'', jopt w)],
      ap_correlation = correlation\<rparr>"

definition audit_selection :: "env \<Rightarrow> request_user \<Rightarrow> user_row option \<Rightarrow> string option \<Rightarrow> string \<Rightarrow> unit act" where
  "audit_selection E user current w correlation =
     (let active = (case current of None \<Rightarrow> None | Some x \<Rightarrow> ur_active x); auditWorkspace = (case w of Some x \<Rightarrow> Some x | None \<Rightarrow> active) in
      if given auditWorkspace \<and> w \<noteq> active then executeAppend E (selection_audit user (the auditWorkspace) w correlation) else ret ())"

definition ensure_body :: "env \<Rightarrow> request_user \<Rightarrow> ensure_input \<Rightarrow> string \<Rightarrow> ensured act" where
  "ensure_body E user input correlation =
     bnd (gets (\<lambda>s. List.find (\<lambda>x. ur_id x = us_id user) (users (tables s)))) (\<lambda>current.
     bnd (gets tables) (\<lambda>d.
     bnd (lift_result (selected_workspace user input current d)) (\<lambda>w.
     bnd now (\<lambda>t.
     bnd (check (list_all (\<lambda>x. ur_id x = us_id user \<longrightarrow> user_constraints (ensured_row user input w t x)) (users d)) db_error) (\<lambda>_.
     bnd (update_db (\<lambda>d. d\<lparr>users := map (\<lambda>x. if ur_id x = us_id user then ensured_row user input w t x else x) (users d)\<rparr>)) (\<lambda>_.
     bnd (audit_selection E user current w correlation) (\<lambda>_.
     ret \<lparr>en_id = us_id user, en_workspace = w\<rparr>)))))))"

definition ensure :: "env \<Rightarrow> request_user \<Rightarrow> ensure_input \<Rightarrow> string option \<Rightarrow> string \<Rightarrow> ensured act" where
  "ensure E user input key correlation =
     bnd (check (key = Some (us_clerk user)) (ValidationError ''Idempotency-Key must match authenticated subject'' None)) (\<lambda>_.
     txn E (ensure_body E user input correlation))"

section \<open>Origins\<close>

definition corsOrigins :: "(string \<Rightarrow> string option) \<Rightarrow> exn + string list" where
  "corsOrigins vars =
     (if vars ''NODE_ENV'' = Some ''production'' \<and> \<not> given (vars ''CORS_ORIGINS'')
      then Inl (OtherError ''CORS_ORIGINS must be set in production'')
      else Inr (split_trimmed (env_or vars ''CORS_ORIGINS'' ''http://localhost:3000'')))"

section \<open>Facts\<close>

lemma audit_selection_Inr:
  "audit_selection E user current w c s = (Inr u, t) \<Longrightarrow> users (tables t) = users (tables s)"
  by (auto simp: audit_selection_def Let_def executeAppend_Inr with_audit_def split: if_splits)

lemma ensure_Inr:
  assumes "ensure E user input key c s = (Inr r, t)"
  shows "key = Some (us_clerk user) \<and> en_id r = us_id user \<and>
     selected_workspace user input (List.find (\<lambda>x. ur_id x = us_id user) (users (tables (others E s)))) (tables (others E s)) =
       Inr (en_workspace r) \<and>
     users (tables t) = map (\<lambda>x. if ur_id x = us_id user
       then ensured_row user input (en_workspace r) (clock (others E s)) x else x) (users (tables (others E s)))"
  using assms by (auto simp: ensure_def ensure_body_def txn_Inr mnd dest!: audit_selection_Inr)

section \<open>Properties\<close>

text \<open>
  C26. Only a workspace of one's own is selected. When the selection returns, the workspace it
  reports, if any, is not deleted and the user is a member of it, and it is the one asked for if
  one was asked for; exactly the user's own row has changed, its email is the one the identity
  provider verified, never the client's, and its identifiers and subject are kept. When it
  throws, no table has changed.
\<close>

theorem selection_stays_within_membership:
  assumes "ensure E user input key c s = (r, t)"
  shows "case r of
     Inl e \<Rightarrow> tables t = tables s \<or> tables t = tables (others E s)
   | Inr x \<Rightarrow> key = Some (us_clerk user) \<and>
       (\<forall>w. en_workspace x = Some w \<longrightarrow> live_membership (us_id user) w (tables (others E s))) \<and>
       (given (ei_workspace input) \<longrightarrow> en_workspace x = ei_workspace input) \<and>
       list_all2 (\<lambda>old new. if ur_id old = us_id user
           then new = old\<lparr>ur_name := ur_name new, ur_email := (case us_email user of Some e \<Rightarrow> e | None \<Rightarrow> ''''),
                  ur_avatar := ur_avatar new, ur_active := en_workspace x, ur_updated := clock (others E s)\<rparr>
           else new = old) (users (tables (others E s))) (users (tables t))"
proof (cases r)
  case (Inl e)
  with assms show ?thesis by (auto simp: ensure_def bnd_Inl_iff check_def dest: txn_rollback split: if_splits)
next
  case (Inr x)
  note e = ensure_Inr [OF assms [unfolded Inr]]
  then have "(\<forall>w. en_workspace x = Some w \<longrightarrow> live_membership (us_id user) w (tables (others E s))) \<and>
      (given (ei_workspace input) \<longrightarrow> en_workspace x = ei_workspace input)"
    by (auto simp: selected_workspace_def wanted_workspace_def given_def split: option.splits if_splits)
  moreover have "list_all2 (\<lambda>old new. if ur_id old = us_id user
           then new = old\<lparr>ur_name := ur_name new, ur_email := (case us_email user of Some e \<Rightarrow> e | None \<Rightarrow> ''''),
                  ur_avatar := ur_avatar new, ur_active := en_workspace x, ur_updated := clock (others E s)\<rparr>
           else new = old) (users (tables (others E s))) (users (tables t))"
    using e by (simp add: list_all2_map2 list.rel_refl ensured_row_def)
  ultimately show ?thesis using Inr e by simp
qed

section \<open>Witnesses\<close>

definition member_user :: request_user where
  "member_user = \<lparr>us_id = ''u1'', us_clerk = ''c1'', us_email = Some ''a@b.c'', us_workspaces = [''w''], us_roles = []\<rparr>"

theorem selection_stays_within_membership_witness:
  "\<exists>x t. ensure sample_env member_user \<lparr>ei_name = None, ei_avatar = None, ei_workspace = Some ''w''\<rparr> (Some ''c1'') ''q''
     (sample_sys member_db) = (Inr x, t) \<and> en_workspace x = Some ''w''"
proof -
  obtain r t where run: "ensure sample_env member_user \<lparr>ei_name = None, ei_avatar = None, ei_workspace = Some ''w''\<rparr> (Some ''c1'') ''q''
     (sample_sys member_db) = (r, t)" by force
  then have "\<not> isl r"
    by (auto simp: ensure_def ensure_body_def txn_def bnd_def Let_def member_user_def member_db_def empty_db_def selected_workspace_def
        wanted_workspace_def given_def live_membership_def live_workspace_def user_constraints_def ensured_row_def check_def
        audit_selection_def executeAppend_def)
  then obtain x where x: "r = Inr x" by (cases r) auto
  with selection_stays_within_membership [OF run] have "en_workspace x = Some ''w''" by (simp add: given_def)
  with run x show ?thesis by blast
qed

end
