(* ===== verification/Chat.thy ===== *)
theory Chat
  imports Runs
begin

text \<open>
  Chat sessions and turns (\<open>services/chat-persistence.service.ts\<close>), the per-workspace event
  log with its sequence numbers (\<open>services/chat-events.service.ts\<close>), and the live event stream
  of a workspace (\<open>routes/sse.controller.ts\<close>).
\<close>

section \<open>Chat events\<close>

record durable_event =
  de_id :: string
  de_type :: string
  de_sequence :: nat
  de_payload :: json
  de_created :: int

definition toEvent :: "chat_event \<Rightarrow> durable_event" where
  "toEvent row = \<lparr>de_id = ce_id row, de_type = ce_type row, de_sequence = ce_sequence row, de_payload = ce_payload row,
                  de_created = ce_created row\<rparr>"

text \<open>\<open>INSERT ... VALUES ($1, 2) ON CONFLICT DO UPDATE ... RETURNING next_sequence - 1\<close>.\<close>

definition next_sequence :: "string \<Rightarrow> db \<Rightarrow> nat" where
  "next_sequence w d = (case map_of (event_sequences d) w of None \<Rightarrow> 1 | Some n \<Rightarrow> n)"

definition take_sequence :: "string \<Rightarrow> nat act" where
  "take_sequence w =
     bnd (gets (\<lambda>s. next_sequence w (tables s))) (\<lambda>n.
     bnd (update_db (\<lambda>d. d\<lparr>event_sequences := AList.update w (Suc n) (event_sequences d)\<rparr>)) (\<lambda>_. ret n))"

text \<open>The constraints of \<open>chat_events\<close>: unique sequence, existing session and turn.\<close>

definition chat_event_ok :: "db \<Rightarrow> chat_event \<Rightarrow> bool" where
  "chat_event_ok d e =
     ((ce_workspace e, ce_sequence e) \<notin> (\<lambda>x. (ce_workspace x, ce_sequence x)) ` set (chat_events d) \<and>
      ce_id e \<notin> ce_id ` set (chat_events d) \<and> 0 < ce_sequence e \<and>
      list_ex (\<lambda>x. cs_id x = ce_session e \<and> cs_workspace x = ce_workspace e) (sessions d) \<and>
      (case ce_turn e of None \<Rightarrow> True
       | Some i \<Rightarrow> list_ex (\<lambda>x. ct_id x = i \<and> ct_session x = ce_session e \<and> ct_workspace x = ce_workspace e) (turns d)))"

definition events_append :: "env \<Rightarrow> string \<Rightarrow> string \<Rightarrow> string option \<Rightarrow> string \<Rightarrow> json \<Rightarrow> durable_event act" where
  "events_append E session workspace turn type payload =
     bnd (take_sequence workspace) (\<lambda>n.
     bnd (new_uuid E) (\<lambda>i. bnd now (\<lambda>t.
     let e = \<lparr>ce_id = i, ce_session = session, ce_workspace = workspace, ce_turn = turn, ce_sequence = n, ce_type = type,
              ce_payload = jsonb (base E) (if payload = JUndef then JObj [] else payload), ce_created = t\<rparr> in
     bnd (gets tables) (\<lambda>d.
     bnd (check (chat_event_ok d e) db_error) (\<lambda>_.
     bnd (update_db (\<lambda>d. d\<lparr>chat_events := chat_events d @ [e]\<rparr>)) (\<lambda>_. ret (toEvent e)))))))"

definition member_of :: "string \<Rightarrow> string \<Rightarrow> db \<Rightarrow> bool" where
  "member_of w u d = list_ex (\<lambda>m. mb_workspace m = w \<and> mb_user m = u) (memberships d)"

definition listWorkspaceEvents :: "env \<Rightarrow> string \<Rightarrow> string \<Rightarrow> nat \<Rightarrow> durable_event list act" where
  "listWorkspaceEvents E w u after =
     bnd (db_query E (member_of w u)) (\<lambda>m.
     bnd (check m (NotFoundError ''workspace membership'')) (\<lambda>_.
     db_query E (\<lambda>d. map toEvent (take 250 (sort_key ce_sequence
       (filter (\<lambda>e. ce_workspace e = w \<and> after < ce_sequence e) (chat_events d)))))))"

section \<open>Sessions\<close>

record chat_session =
  ss_id :: string
  ss_workspace :: string
  ss_user :: string
  ss_title :: string
  ss_status :: session_status
  ss_runs :: "string list"
  ss_created :: int
  ss_updated :: int

definition toSession :: "session_row \<Rightarrow> string list \<Rightarrow> chat_session" where
  "toSession row rs = \<lparr>ss_id = cs_id row, ss_workspace = cs_workspace row, ss_user = cs_user row, ss_title = cs_title row,
     ss_status = cs_status row, ss_runs = rs, ss_created = cs_created row, ss_updated = cs_updated row\<rparr>"

definition with_runs :: "db \<Rightarrow> session_row \<Rightarrow> chat_session" where
  "with_runs d row = toSession row (map rid (filter (\<lambda>r. sessionId r = cs_id row) (runs d)))"

definition own_session :: "string \<Rightarrow> string \<Rightarrow> session_row \<Rightarrow> bool" where
  "own_session w u x = (cs_workspace x = w \<and> cs_user x = u \<and> cs_status x = Active)"

definition listSessions :: "env \<Rightarrow> string \<Rightarrow> string \<Rightarrow> nat \<Rightarrow> nat \<Rightarrow> chat_session list act" where
  "listSessions E w u limit offset =
     db_query E (\<lambda>d. map (with_runs d)
       (take limit (drop offset (sort_key (\<lambda>x. - cs_updated x) (filter (own_session w u) (sessions d))))))"

definition assert_chat_member :: "(unit \<Rightarrow> bool act) \<Rightarrow> unit act" where
  "assert_chat_member q = bnd (q ()) (\<lambda>b. check b (NotFoundError ''workspace membership''))"

definition session_title :: "string option \<Rightarrow> string" where
  "session_title v = (case v of None \<Rightarrow> ''New request'' | Some s \<Rightarrow> if trim s = [] then ''New request'' else trim s)"

definition createSession :: "env \<Rightarrow> string \<Rightarrow> string \<Rightarrow> string option \<Rightarrow> chat_session act" where
  "createSession E w u title =
     bnd (assert_chat_member (\<lambda>_. db_query E (member_of w u))) (\<lambda>_.
     txn E (bnd (new_uuid E) (\<lambda>i. bnd now (\<lambda>t.
       let row = \<lparr>cs_id = i, cs_workspace = w, cs_user = u, cs_title = session_title title, cs_status = Active,
                  cs_created = t, cs_updated = t\<rparr> in
       bnd (gets tables) (\<lambda>d.
       bnd (check (i \<notin> cs_id ` set (sessions d)) db_error) (\<lambda>_.
       bnd (update_db (\<lambda>d. d\<lparr>sessions := sessions d @ [row]\<rparr>)) (\<lambda>_. ret (toSession row []))))))))"

definition getSession :: "env \<Rightarrow> string \<Rightarrow> string \<Rightarrow> string \<Rightarrow> chat_session act" where
  "getSession E i w u =
     bnd (db_query E (\<lambda>d. map_option (with_runs d) (List.find (\<lambda>x. cs_id x = i \<and> own_session w u x) (sessions d)))) (\<lambda>row.
     the_or row (NotFoundError ''chat session''))"

definition assertSessionOwner :: "string \<Rightarrow> string \<Rightarrow> string \<Rightarrow> unit act" where
  "assertSessionOwner i w u =
     bnd (gets (\<lambda>s. active_session i w u (tables s))) (\<lambda>b. check b (NotFoundError ''chat session''))"

definition open_runs :: "string \<Rightarrow> string \<Rightarrow> db \<Rightarrow> run list" where
  "open_runs i w d = filter (\<lambda>r. sessionId r = i \<and> workspaceId r = w \<and> \<not> isTerminalWorkflowState (state r)) (runs d)"

definition deleteSession :: "env \<Rightarrow> string \<Rightarrow> string \<Rightarrow> string \<Rightarrow> unit act" where
  "deleteSession E i w u = txn E (
     bnd (assertSessionOwner i w u) (\<lambda>_.
     bnd (gets (\<lambda>s. open_runs i w (tables s))) (\<lambda>rs.
     bnd (check (rs = []) (ConflictError ''Cannot delete session with active runs'')) (\<lambda>_.
     bnd now (\<lambda>t.
     bnd (gets (\<lambda>s. length (filter (\<lambda>x. cs_id x = i \<and> own_session w u x) (sessions (tables s))))) (\<lambda>n.
     bnd (check (n = 1) (NotFoundError ''chat session'')) (\<lambda>_.
     update_db (\<lambda>d. d\<lparr>sessions := map (\<lambda>x. if cs_id x = i \<and> own_session w u x
       then x\<lparr>cs_status := Deleted, cs_updated := t\<rparr> else x) (sessions d)\<rparr>))))))))"

section \<open>Messages\<close>

record chat_message =
  ms_id :: string
  ms_turn :: string
  ms_role :: string
  ms_content :: string
  ms_components :: "json list"
  ms_created :: int

definition to_message :: "message_row \<Rightarrow> chat_message" where
  "to_message row = \<lparr>ms_id = cm_id row, ms_turn = cm_turn row, ms_role = cm_role row, ms_content = cm_content row,
     ms_components = cm_components row, ms_created = cm_created row\<rparr>"

definition session_messages :: "string \<Rightarrow> string \<Rightarrow> db \<Rightarrow> message_row list" where
  "session_messages i w d = sort_key cm_created (sort_key cm_id
     (filter (\<lambda>m. cm_session m = i \<and> cm_workspace m = w) (messages d)))"

definition listMessages :: "env \<Rightarrow> string \<Rightarrow> string \<Rightarrow> string \<Rightarrow> chat_message list act" where
  "listMessages E i w u =
     bnd (getSession E i w u) (\<lambda>_. db_query E (\<lambda>d. map to_message (session_messages i w d)))"

text \<open>The five last messages: the query takes them in descending order and the code reverses it.\<close>

definition getMessagePreview :: "env \<Rightarrow> string \<Rightarrow> string \<Rightarrow> string \<Rightarrow> chat_message list act" where
  "getMessagePreview E i w u =
     bnd (getSession E i w u) (\<lambda>_. db_query E (\<lambda>d. map to_message (rev (take 5 (rev (session_messages i w d))))))"

section \<open>Turns\<close>

record turn_params =
  tp_session :: string
  tp_workspace :: string
  tp_user :: string
  tp_prompt :: string
  tp_client_message :: string
  tp_key :: string

record turn_result =
  tr_turn :: string
  tr_run :: string
  tr_replayed :: bool

definition hash_json :: "world \<Rightarrow> json \<Rightarrow> string" where
  "hash_json W v = sha256_hex W (stringify (num_str W) v)"

definition turn_fingerprint :: "world \<Rightarrow> turn_params \<Rightarrow> string" where
  "turn_fingerprint W p = hash_json W (JObj
     [(''sessionId'', JStr (tp_session p)), (''workspaceId'', JStr (tp_workspace p)), (''userId'', JStr (tp_user p)),
      (''prompt'', JStr (tp_prompt p)), (''clientMessageId'', JStr (tp_client_message p))])"

definition turn_run_key :: "world \<Rightarrow> turn_params \<Rightarrow> string" where
  "turn_run_key W p = hash_json W (JObj
     [(''sessionId'', JStr (tp_session p)), (''workspaceId'', JStr (tp_workspace p)), (''userId'', JStr (tp_user p)),
      (''prompt'', JStr (tp_prompt p)), (''clientMessageId'', JStr (tp_client_message p)),
      (''idempotencyKey'', JStr (tp_key p)), (''fingerprint'', JStr (turn_fingerprint W p))])"

definition find_turn :: "turn_params \<Rightarrow> db \<Rightarrow> turn_row option" where
  "find_turn p d = List.find (\<lambda>x. ct_workspace x = tp_workspace p \<and> ct_requester x = tp_user p \<and> ct_key x = tp_key p) (turns d)"

definition key_used :: exn where
  "key_used = ConflictError ''idempotency key was already used for a different request''"

definition replayed_turn :: "world \<Rightarrow> turn_params \<Rightarrow> turn_row \<Rightarrow> turn_result act" where
  "replayed_turn W p x =
     bnd (check (ct_fingerprint x = turn_fingerprint W p) key_used) (\<lambda>_.
       ret \<lparr>tr_turn = ct_id x, tr_run = ct_run x, tr_replayed = True\<rparr>)"

text \<open>The unique constraints of \<open>chat_turns\<close>.\<close>

definition insert_turn :: "turn_row \<Rightarrow> unit act" where
  "insert_turn x =
     bnd (gets (\<lambda>s. turns (tables s))) (\<lambda>xs.
     bnd (check (list_all (\<lambda>y. ct_id y \<noteq> ct_id x \<and> \<not> (ct_session y = ct_session x \<and> ct_client_message y = ct_client_message x) \<and>
                   \<not> (ct_workspace y = ct_workspace x \<and> ct_requester y = ct_requester x \<and> ct_key y = ct_key x) \<and>
                   ct_run y \<noteq> ct_run x) xs) db_error) (\<lambda>_.
     update_db (\<lambda>d. d\<lparr>turns := turns d @ [x]\<rparr>)))"

definition insert_message :: "message_row \<Rightarrow> unit act" where
  "insert_message m =
     bnd (gets (\<lambda>s. messages (tables s))) (\<lambda>ms.
     bnd (check (cm_id m \<notin> cm_id ` set ms) db_error) (\<lambda>_. update_db (\<lambda>d. d\<lparr>messages := messages d @ [m]\<rparr>)))"

definition new_turn :: "env \<Rightarrow> turn_params \<Rightarrow> turn_result act" where
  "new_turn E p =
     bnd (assertSessionOwner (tp_session p) (tp_workspace p) (tp_user p)) (\<lambda>_.
     bnd (new_uuid E) (\<lambda>correlation.
     bnd (new_uuid E) (\<lambda>run_id.
     bnd now (\<lambda>t.
     let r = new_run run_id (tp_session p) (tp_workspace p) (tp_user p) (tp_prompt p) correlation (turn_run_key (base E) p) t in
     bnd (insert_run r) (\<lambda>_.
     bnd (executeAppend E (run_created_audit r)) (\<lambda>_.
     bnd (new_uuid E) (\<lambda>turn_id.
     bnd (insert_turn \<lparr>ct_id = turn_id, ct_session = tp_session p, ct_workspace = tp_workspace p, ct_requester = tp_user p,
            ct_client_message = tp_client_message p, ct_key = tp_key p, ct_fingerprint = turn_fingerprint (base E) p,
            ct_input = jsonb (base E) (JObj [(''kind'', JStr ''text''), (''text'', JStr (tp_prompt p))]),
            ct_correlation = correlation, ct_run = run_id\<rparr>) (\<lambda>_.
     bnd (new_uuid E) (\<lambda>message_id.
     bnd (insert_message \<lparr>cm_id = message_id, cm_session = tp_session p, cm_workspace = tp_workspace p, cm_turn = turn_id,
            cm_role = ''user'', cm_content = tp_prompt p, cm_components = [], cm_created = t\<rparr>) (\<lambda>_.
     bnd (events_append E (tp_session p) (tp_workspace p) (Some turn_id) ''turn.accepted'' (JObj [(''runId'', JStr run_id)])) (\<lambda>_.
     bnd (update_db (\<lambda>d. d\<lparr>sessions := map (\<lambda>x. if cs_id x = tp_session p then x\<lparr>cs_updated := t\<rparr> else x) (sessions d)\<rparr>)) (\<lambda>_.
     ret \<lparr>tr_turn = turn_id, tr_run = run_id, tr_replayed = False\<rparr>))))))))))))"

definition assert_chat_permission :: "string \<Rightarrow> string \<Rightarrow> unit act" where
  "assert_chat_permission w u =
     bnd (gets (\<lambda>s. has_role w u [''admin'', ''engineer''] (tables s))) (\<lambda>b.
     check b (ForbiddenError (Some ''Provisioning permission required'')))"

definition submit_body :: "env \<Rightarrow> turn_params \<Rightarrow> turn_result act" where
  "submit_body E p =
     bnd (assert_chat_member (\<lambda>_. gets (\<lambda>s. member_of (tp_workspace p) (tp_user p) (tables s)))) (\<lambda>_.
     bnd (assert_chat_permission (tp_workspace p) (tp_user p)) (\<lambda>_.
     bnd (gets (\<lambda>s. find_turn p (tables s))) (\<lambda>existing. case existing of
       Some x \<Rightarrow> replayed_turn (base E) p x
     | None \<Rightarrow> new_turn E p)))"

text \<open>After a failure that is no verdict on the request: another submission may have won the race.\<close>

definition submit_failed :: "env \<Rightarrow> turn_params \<Rightarrow> exn \<Rightarrow> turn_result act" where
  "submit_failed E p e =
     (if is_prov_class ''ConflictError'' e \<or> is_prov_class ''ForbiddenError'' e then throw e
      else bnd (db_query E (find_turn p)) (\<lambda>fallback. case fallback of
        Some x \<Rightarrow> replayed_turn (base E) p x
      | None \<Rightarrow> throw e))"

definition submitPlanningTurn :: "env \<Rightarrow> turn_params \<Rightarrow> turn_result act" where
  "submitPlanningTurn E p = catching (txn E (submit_body E p)) (submit_failed E p)"

section \<open>The live stream\<close>

text \<open>
  \<open>stream_sequence\<close> is a serial column: rows are numbered in the order of insertion, and the
  rows of a workspace are inserted under its advisory lock. It is the position in the table here.
\<close>

record sse_message =
  sm_id :: "string option"
  sm_type :: string
  sm_data :: json

definition stream_rows :: "string \<Rightarrow> nat \<Rightarrow> db \<Rightarrow> (nat \<times> sse_event) list" where
  "stream_rows w cursor d =
     take 250 (filter (\<lambda>(n, e). se_workspace e = w \<and> cursor < n) (enumerate 1 (outbox d)))"

definition start_cursor :: "env \<Rightarrow> (string \<Rightarrow> bool) \<Rightarrow> string \<Rightarrow> string \<Rightarrow> string option \<Rightarrow> nat act" where
  "start_cursor E is_uuid w u last_event_id =
     bnd (db_query E (member_of w u)) (\<lambda>m.
     bnd (check m (ForbiddenException ''Workspace membership required'')) (\<lambda>_.
     if \<not> given last_event_id then ret 0
     else bnd (check (is_uuid (the last_event_id)) (BadRequestException ''Invalid event cursor'')) (\<lambda>_.
       bnd (db_query E (\<lambda>d. List.find (\<lambda>(n, e). Some (se_event_id e) = last_event_id \<and> se_workspace e = w)
              (enumerate 1 (outbox d)))) (\<lambda>row.
       bnd (the_or row (BadRequestException ''Unknown event cursor'')) (\<lambda>x. ret (fst x))))))"

definition keepalive :: "string \<Rightarrow> sse_message" where
  "keepalive w = \<lparr>sm_id = None, sm_type = ''keepalive'', sm_data = JObj [(''workspaceId'', JStr w)]\<rparr>"

definition row_message :: "nat \<times> sse_event \<Rightarrow> sse_message" where
  "row_message x = \<lparr>sm_id = Some (se_event_id (snd x)), sm_type = se_type (snd x), sm_data = se_payload (snd x)\<rparr>"

text \<open>One tick of the timer: the messages sent and the cursor for the next tick.\<close>

definition stream_tick :: "env \<Rightarrow> string \<Rightarrow> nat \<Rightarrow> (sse_message list \<times> nat) act" where
  "stream_tick E w cursor =
     bnd (db_query E (stream_rows w cursor)) (\<lambda>rows.
     ret (if rows = [] then ([keepalive w], cursor) else (map row_message rows, fst (last rows))))"

fun stream_ticks :: "env \<Rightarrow> string \<Rightarrow> nat \<Rightarrow> nat \<Rightarrow> (sse_message list \<times> nat) act" where
  "stream_ticks E w 0 cursor = ret ([], cursor)"
| "stream_ticks E w (Suc k) cursor =
     bnd (stream_tick E w cursor) (\<lambda>(ms, c). bnd (stream_ticks E w k c) (\<lambda>(rest, c'). ret (ms @ rest, c')))"

section \<open>Facts about the stream\<close>

text \<open>What the stream sends of a row, and which rows lie between two cursors.\<close>

definition core :: "sse_event \<Rightarrow> string \<times> sse_message" where
  "core e = (se_workspace e, \<lparr>sm_id = Some (se_event_id e), sm_type = se_type e, sm_data = se_payload e\<rparr>)"

definition between :: "string \<Rightarrow> nat \<Rightarrow> nat \<Rightarrow> (string \<times> sse_message) list \<Rightarrow> sse_message list" where
  "between w c c' es = map (\<lambda>x. snd (snd x)) (filter (\<lambda>x. fst (snd x) = w \<and> c < fst x \<and> fst x \<le> c') (enumerate 1 es))"

definition only_appends :: "env \<Rightarrow> bool" where
  "only_appends E \<longleftrightarrow> (\<forall>s. \<exists>es. map core (outbox (tables (others E s))) = map core (outbox (tables s)) @ es)"

lemma enumerate_bounds: "x \<in> set (enumerate n xs) \<Longrightarrow> n \<le> fst x \<and> fst x < n + length xs"
  by (auto simp: in_set_enumerate_eq)

lemma between_append:
  "c' \<le> length es \<Longrightarrow> between w c c' (es @ fs) = between w c c' es"
  by (auto simp: between_def enumerate_append_eq filter_empty_conv dest: enumerate_bounds)

lemma enumerate_map: "enumerate n (map f xs) = map (map_prod id f) (enumerate n xs)"
  by (induction xs arbitrary: n) simp_all

lemma sorted_split:
  fixes as bs :: "(nat \<times> 'a) list"
  assumes "sorted_wrt (\<lambda>a b. fst a < fst b) (as @ bs)" and "as \<noteq> []"
  shows "filter (\<lambda>x. fst x \<le> fst (last as)) (as @ bs) = as"
proof -
  from assms have "\<forall>x \<in> set as. fst x \<le> fst (last as)"
    by (induction as rule: rev_induct) (auto simp: sorted_wrt_append)
  moreover have "\<forall>x \<in> set bs. \<not> fst x \<le> fst (last as)"
    using assms last_in_set [OF assms(2)] by (auto simp: sorted_wrt_append not_le)
  ultimately show ?thesis by (auto simp: filter_id_conv filter_empty_conv)
qed

lemma sorted_enumerate: "sorted_wrt (\<lambda>a b. fst a < fst b) (enumerate n xs)"
  by (induction xs arbitrary: n) (auto dest: enumerate_bounds)

lemma stream_rows_between:
  assumes "stream_rows w c d \<noteq> []"
  shows "map row_message (stream_rows w c d) = between w c (fst (last (stream_rows w c d))) (map core (outbox d))"
    and "c \<le> fst (last (stream_rows w c d))" and "fst (last (stream_rows w c d)) \<le> length (outbox d)"
proof -
  let ?L = "filter (\<lambda>(n, e). se_workspace e = w \<and> c < n) (enumerate 1 (outbox d))"
  have rows: "stream_rows w c d = take 250 ?L" by (simp add: stream_rows_def)
  have "sorted_wrt (\<lambda>a b. fst a < fst b) ?L" by (rule sorted_wrt_filter [OF sorted_enumerate])
  then have "sorted_wrt (\<lambda>a b. fst a < fst b) (take 250 ?L @ drop 250 ?L)" by simp
  from sorted_split [OF this] assms rows
  have f: "filter (\<lambda>x. fst x \<le> fst (last (stream_rows w c d))) ?L = stream_rows w c d" by simp
  then have "map row_message (stream_rows w c d) =
      map row_message (filter (\<lambda>x. fst x \<le> fst (last (stream_rows w c d))) ?L)" by simp
  also have "\<dots> = between w c (fst (last (stream_rows w c d))) (map core (outbox d))"
    by (simp add: between_def enumerate_map filter_map comp_def core_def row_message_def split_beta conj_commute conj_left_commute)
  finally show "map row_message (stream_rows w c d) = between w c (fst (last (stream_rows w c d))) (map core (outbox d))" .
  have "last (stream_rows w c d) \<in> set ?L" using assms last_in_set rows by (metis in_set_takeD)
  then show "c \<le> fst (last (stream_rows w c d))" "fst (last (stream_rows w c d)) \<le> length (outbox d)"
    by (auto dest: enumerate_bounds)
qed

lemma between_trans:
  assumes "c \<le> c1" and "c1 \<le> c2"
  shows "between w c c1 es @ between w c1 c2 es = between w c c2 es"
proof -
  have *: "filter (\<lambda>x. P x \<and> c < fst x \<and> fst x \<le> c1) (enumerate n es) @
        filter (\<lambda>x. P x \<and> c1 < fst x \<and> fst x \<le> c2) (enumerate n es) =
        filter (\<lambda>x. P x \<and> c < fst x \<and> fst x \<le> c2) (enumerate n es)" for n P
  proof (induction es arbitrary: n)
    case (Cons e es)
    show ?case
    proof (cases "n \<le> c1")
      case True
      with Cons [of "Suc n"] assms show ?thesis by auto
    next
      case False
      then have "filter (\<lambda>x. P x \<and> c < fst x \<and> fst x \<le> c1) (enumerate (Suc n) es) = []"
        by (auto simp: filter_empty_conv dest: enumerate_bounds)
      with Cons [of "Suc n"] False assms show ?thesis by auto
    qed
  qed simp
  show ?thesis unfolding between_def map_append [symmetric] using * [where P = "\<lambda>x. fst (snd x) = w"] by simp
qed

lemma between_same [simp]: "between w c c es = []"
  by (auto simp: between_def filter_empty_conv)

definition sent :: "sse_message list \<Rightarrow> sse_message list" where
  "sent ms = filter (\<lambda>m. sm_id m \<noteq> None) ms"

lemma stream_tick_sends:
  assumes "stream_tick E w c s = (r, t)"
  shows "t = others E s \<and> (\<exists>ms c'. r = Inr (ms, c') \<and> c \<le> c' \<and> (c \<le> length (outbox (tables t)) \<longrightarrow> c' \<le> length (outbox (tables t))) \<and>
    sent ms = between w c c' (map core (outbox (tables t))))"
proof (cases "stream_rows w c (tables (others E s)) = []")
  case True
  with assms show ?thesis by (auto simp: stream_tick_def mnd sent_def keepalive_def)
next
  case False
  let ?rows = "stream_rows w c (tables (others E s))"
  have "sent (map row_message ?rows) = map row_message ?rows"
    by (simp add: sent_def filter_map row_message_def comp_def)
  then have "sent (map row_message ?rows) = between w c (fst (last ?rows)) (map core (outbox (tables (others E s))))"
    by (simp only: stream_rows_between(1) [OF False])
  moreover from assms False have "r = Inr (map row_message ?rows, fst (last ?rows))" "t = others E s"
    by (auto simp: stream_tick_def)
  ultimately show ?thesis using stream_rows_between(2,3) [OF False] by auto
qed

lemma stream_ticks_send:
  assumes "only_appends E"
  shows "stream_ticks E w k c s = (r, t) \<Longrightarrow> c \<le> length (outbox (tables s)) \<Longrightarrow>
    (\<exists>ms c' es. r = Inr (ms, c') \<and> c \<le> c' \<and> c' \<le> length (outbox (tables t)) \<and>
      map core (outbox (tables t)) = map core (outbox (tables s)) @ es \<and>
      sent ms = between w c c' (map core (outbox (tables t))))"
proof (induction k arbitrary: c s r t)
  case 0
  then have "r = Inr ([], c)" "t = s" by auto
  with 0 show ?case by (simp add: sent_def)
next
  case (Suc k)
  obtain q u where tick: "stream_tick E w c s = (q, u)" by force
  from assms obtain es where es: "map core (outbox (tables u)) = map core (outbox (tables s)) @ es"
    using stream_tick_sends [OF tick] unfolding only_appends_def by blast
  then have len: "c \<le> length (outbox (tables u))" using Suc.prems(2) by (metis le_add1 length_append length_map le_trans)
  with stream_tick_sends [OF tick] obtain ms c1 where
    q: "q = Inr (ms, c1)" "c \<le> c1" "c1 \<le> length (outbox (tables u))" "sent ms = between w c c1 (map core (outbox (tables u)))"
    by blast
  obtain r' t' where rest: "stream_ticks E w k c1 u = (r', t')" by force
  from Suc.IH [OF rest q(3)] obtain ms2 c2 es2 where
    r: "r' = Inr (ms2, c2)" "c1 \<le> c2" "c2 \<le> length (outbox (tables t'))"
      "map core (outbox (tables t')) = map core (outbox (tables u)) @ es2" "sent ms2 = between w c1 c2 (map core (outbox (tables t')))"
    by blast
  have "sent ms = between w c c1 (map core (outbox (tables t')))"
    using q(3,4) r(4) between_append [of c1 "map core (outbox (tables u))"] by simp
  then have "sent (ms @ ms2) = between w c c2 (map core (outbox (tables t')))"
    using between_trans [OF q(2) r(2)] r(5) by (simp add: sent_def)
  moreover have "stream_ticks E w (Suc k) c s = (Inr (ms @ ms2, c2), t')"
    using tick q(1) rest r(1) by simp
  ultimately show ?case using Suc.prems(1) r q es by auto
qed

section \<open>Facts about sequences\<close>

definition sequenced :: "db \<Rightarrow> string \<Rightarrow> bool" where
  "sequenced d w = (0 < next_sequence w d \<and>
     map ce_sequence (filter (\<lambda>e. ce_workspace e = w) (chat_events d)) = [1..<next_sequence w d])"

lemma filter_upt: "filter (\<lambda>k. a < k) [1..<n] = [Suc a..<n]"
  by (induction n) auto

lemma next_sequence_update:
  "next_sequence w (d\<lparr>event_sequences := AList.update w' n (event_sequences d)\<rparr>) = (if w = w' then n else next_sequence w d)"
  by (simp add: next_sequence_def update_conv')

lemma events_append_Inr:
  assumes "events_append E ses w tu ty p s = (Inr e, t)"
  shows "\<exists>row. tables t = (tables s)\<lparr>event_sequences := AList.update w (Suc (next_sequence w (tables s))) (event_sequences (tables s)),
       chat_events := chat_events (tables s) @ [row]\<rparr> \<and> ce_workspace row = w \<and> ce_session row = ses \<and>
       ce_sequence row = next_sequence w (tables s) \<and> e = toEvent row"
  using assms by (auto simp: events_append_def take_sequence_def mnd Let_def)

section \<open>Facts about turns\<close>

lemma find_append_None: "List.find P xs = None \<Longrightarrow> List.find P (xs @ ys) = List.find P ys"
  by (induction xs) (auto split: if_splits)

lemma executeAppend_turns: "executeAppend E p s = (Inr u, t) \<Longrightarrow> turns (tables t) = turns (tables s)"
  by (auto simp: executeAppend_Inr)

lemma new_turn_found:
  assumes "new_turn E p s = (Inr a, t)" and "find_turn p (tables s) = None"
  shows "\<exists>x. find_turn p (tables t) = Some x \<and> ct_id x = tr_turn a \<and> ct_run x = tr_run a \<and>
             ct_fingerprint x = turn_fingerprint (base E) p \<and> \<not> tr_replayed a"
proof -
  from assms(1) obtain x where t: "turns (tables t) = turns (tables s) @ [x]"
    and x: "ct_workspace x = tp_workspace p" "ct_requester x = tp_user p" "ct_key x = tp_key p"
      "ct_fingerprint x = turn_fingerprint (base E) p" "ct_id x = tr_turn a" "ct_run x = tr_run a" and r: "\<not> tr_replayed a"
    by (auto simp: new_turn_def Let_def mnd assertSessionOwner_def insert_run_def insert_turn_def insert_message_def
        executeAppend_Inr dest!: events_append_Inr)
  have "find_turn p (tables t) = Some x"
    using assms(2) x by (simp add: find_turn_def t find_append_None)
  with x r show ?thesis by blast
qed

lemma new_turn_members: "new_turn E p s = (Inr a, t) \<Longrightarrow> memberships (tables t) = memberships (tables s)"
  by (auto simp: new_turn_def Let_def mnd assertSessionOwner_def insert_run_def insert_turn_def insert_message_def
      executeAppend_Inr dest!: events_append_Inr)

lemma replayed_turn_Inr:
  "replayed_turn W p x s = (Inr a, t) \<longleftrightarrow>
     ct_fingerprint x = turn_fingerprint W p \<and> t = s \<and> a = \<lparr>tr_turn = ct_id x, tr_run = ct_run x, tr_replayed = True\<rparr>"
  by (auto simp: replayed_turn_def mnd)

lemma submitted_turn_found:
  assumes "submitPlanningTurn E p s = (Inr a, t)"
  shows "\<exists>x. find_turn p (tables t) = Some x \<and> ct_id x = tr_turn a \<and> ct_run x = tr_run a \<and>
             ct_fingerprint x = turn_fingerprint (base E) p"
proof -
  obtain q u where q: "txn E (submit_body E p) s = (q, u)" by force
  show ?thesis
  proof (cases q)
    case (Inr b)
    with q have "submit_body E p (others E s) = (Inr b, u)" by (simp add: txn_Inr)
    moreover from q Inr assms have "b = a" "u = t" by (auto simp: submitPlanningTurn_def)
    ultimately show ?thesis
      by (auto simp: submit_body_def assert_chat_member_def assert_chat_permission_def mnd replayed_turn_Inr
          split: option.splits dest: new_turn_found)
  next
    case (Inl e)
    with q assms have "submit_failed E p e u = (Inr a, t)" by (simp add: submitPlanningTurn_def)
    then show ?thesis
      by (auto simp: submit_failed_def mnd replayed_turn_Inr split: if_splits option.splits)
  qed
qed

section \<open>Properties\<close>

text \<open>
  C19. A live stream loses and repeats nothing. As long as other requests only append to the
  event table, any number of ticks from a cursor never throws, and the messages sent, heartbeats
  aside, are exactly the workspace's events after that cursor up to the new one, in their order;
  so a client that resumes from the cursor of the last message continues seamlessly.
\<close>

theorem sse_stream_is_exact:
  assumes "only_appends E" and "c \<le> length (outbox (tables s))" and "stream_ticks E w k c s = (r, t)"
  shows "\<exists>ms c'. r = Inr (ms, c') \<and> c \<le> c' \<and>
     filter (\<lambda>m. sm_id m \<noteq> None) ms =
       map (\<lambda>x. row_message x) (filter (\<lambda>x. se_workspace (snd x) = w \<and> c < fst x \<and> fst x \<le> c') (enumerate 1 (outbox (tables t))))"
proof -
  have "between w c c' (map core es) =
      map row_message (filter (\<lambda>x. se_workspace (snd x) = w \<and> c < fst x \<and> fst x \<le> c') (enumerate 1 es))" for c' es
    by (simp add: between_def enumerate_map filter_map comp_def core_def row_message_def split_beta)
  with stream_ticks_send [OF assms(1,3,2)] show ?thesis by (auto simp: sent_def)
qed


text \<open>
  C21. Submitting a turn is idempotent. Once a submission has returned, whoever of the same user
  repeats its key in the same workspace, while the turn is still stored and the user still may
  provision, creates nothing: the same request gets the same turn and run back, marked as
  replayed, and a different request gets a conflict; no table changes.
\<close>

theorem turn_submission_is_idempotent:
  assumes "submitPlanningTurn E p s = (Inr a, t)"
    and "tp_workspace q = tp_workspace p" and "tp_user q = tp_user p" and "tp_key q = tp_key p"
    and "find_turn p (tables (others E t)) = find_turn p (tables t)"
    and "member_of (tp_workspace p) (tp_user p) (tables (others E t))"
    and "has_role (tp_workspace p) (tp_user p) [''admin'', ''engineer''] (tables (others E t))"
  shows "submitPlanningTurn E q t =
    (if turn_fingerprint (base E) q = turn_fingerprint (base E) p
     then (Inr (a\<lparr>tr_replayed := True\<rparr>), others E t) else (Inl key_used, others E t))"
proof -
  from submitted_turn_found [OF assms(1)] obtain x where
    x: "find_turn p (tables t) = Some x" "ct_id x = tr_turn a" "ct_run x = tr_run a"
      "ct_fingerprint x = turn_fingerprint (base E) p" by blast
  have "find_turn q (tables (others E t)) = Some x" using x(1) assms(2-5) by (simp add: find_turn_def)
  then have b: "submit_body E q (others E t) = replayed_turn (base E) q x (others E t)"
    using assms(2,3,6,7) by (simp add: submit_body_def assert_chat_member_def assert_chat_permission_def)
  show ?thesis
  proof (cases "turn_fingerprint (base E) q = turn_fingerprint (base E) p")
    case True
    have "a\<lparr>tr_replayed := True\<rparr> = \<lparr>tr_turn = ct_id x, tr_run = ct_run x, tr_replayed = True\<rparr>" using x by (cases a) simp
    with True b x(4) show ?thesis by (simp add: submitPlanningTurn_def txn_def replayed_turn_def)
  next
    case False
    have "submit_body E q (others E t) = (Inl key_used, others E t)"
      using False x(4) by (simp add: b replayed_turn_def check_def bnd_def)
    moreover have "is_prov_class ''ConflictError'' key_used" by (simp add: key_used_def typed_errors is_prov_class_def)
    ultimately show ?thesis using False by (simp add: submitPlanningTurn_def txn_def submit_failed_def)
  qed
qed

text \<open>
  A session with open runs is never deleted: a deletion that returns found no run of the
  session outside the terminal states and has marked the user's session, and only it, deleted; a
  deletion that throws has changed no table.
\<close>

theorem delete_spares_open_runs:
  assumes "deleteSession E i w u s = (r, t)"
  shows "case r of
     Inl e \<Rightarrow> tables t = tables (others E s)
   | Inr x \<Rightarrow> open_runs i w (tables (others E s)) = [] \<and> runs (tables t) = runs (tables (others E s)) \<and>
       length (sessions (tables t)) = length (sessions (tables (others E s))) \<and>
       (\<forall>n < length (sessions (tables t)).
          let old = sessions (tables (others E s)) ! n; new = sessions (tables t) ! n in
          if cs_id old = i \<and> own_session w u old then new = old\<lparr>cs_status := Deleted, cs_updated := clock (others E s)\<rparr>
          else new = old)"
proof (cases r)
  case (Inl e)
  with assms show ?thesis unfolding deleteSession_def by (auto dest: txn_rollback)
next
  case (Inr x)
  with assms show ?thesis by (auto simp: deleteSession_def txn_Inr assertSessionOwner_def mnd Let_def)
qed

section \<open>Witnesses\<close>

lemma sample_only_appends: "only_appends sample_env"
  by (simp add: only_appends_def)

theorem sse_stream_is_exact_witness:
  "\<exists>ms c'. fst (stream_ticks sample_env ''w'' 2 0 (sample_sys (empty_db\<lparr>outbox := [sample_event]\<rparr>))) = Inr (ms, c')"
proof -
  obtain r t where rt: "stream_ticks sample_env ''w'' 2 0 (sample_sys (empty_db\<lparr>outbox := [sample_event]\<rparr>)) = (r, t)" by force
  from sse_stream_is_exact [OF sample_only_appends _ rt] rt show ?thesis by auto
qed

definition chat_db :: db where
  "chat_db = empty_db\<lparr>memberships := [\<lparr>mb_workspace = ''w'', mb_user = ''u'', mb_role = ''admin''\<rparr>],
     sessions := [\<lparr>cs_id = ''s'', cs_workspace = ''w'', cs_user = ''u'', cs_title = ''T'', cs_status = Active,
                   cs_created = 0, cs_updated = 0\<rparr>]\<rparr>"

definition sample_params :: turn_params where
  "sample_params = \<lparr>tp_session = ''s'', tp_workspace = ''w'', tp_user = ''u'', tp_prompt = ''p'', tp_client_message = ''m'',
     tp_key = ''k''\<rparr>"


theorem delete_spares_open_runs_witness:
  "isl (fst (deleteSession sample_env ''s'' ''w'' ''u'' (sample_sys (chat_db\<lparr>runs := [sample_run]\<rparr>))))"
proof -
  obtain r t where rt: "deleteSession sample_env ''s'' ''w'' ''u'' (sample_sys (chat_db\<lparr>runs := [sample_run]\<rparr>)) = (r, t)" by force
  have "open_runs ''s'' ''w'' (chat_db\<lparr>runs := [sample_run]\<rparr>) \<noteq> []"
    by (simp add: open_runs_def sample_run_def isTerminal_iff)
  with delete_spares_open_runs [OF rt] rt show ?thesis by (cases r) auto
qed

lemma sample_submission:
  "\<exists>a t. submitPlanningTurn sample_env sample_params (sample_sys chat_db) = (Inr a, t) \<and>
     memberships (tables t) = memberships chat_db"
proof -
  let ?s = "sample_sys chat_db"
  have f: "submit_body sample_env sample_params ?s = new_turn sample_env sample_params ?s"
    by (simp add: submit_body_def assert_chat_member_def assert_chat_permission_def member_of_def has_role_def find_turn_def
        chat_db_def sample_params_def empty_db_def)
  have "\<not> isl (fst (new_turn sample_env sample_params ?s))"
    by (simp add: new_turn_def assertSessionOwner_def active_session_def insert_run_def insert_turn_def insert_message_def
        executeAppend_def events_append_def take_sequence_def bnd_def Let_def chat_event_ok_def next_sequence_def
        chat_db_def sample_params_def empty_db_def sample_sys_def check_def)
  then obtain a t where at: "new_turn sample_env sample_params ?s = (Inr a, t)"
    by (metis isl_def prod.collapse sum.collapse(2))
  with f have "submitPlanningTurn sample_env sample_params ?s = (Inr a, t)"
    by (simp add: submitPlanningTurn_def txn_def)
  with new_turn_members [OF at] show ?thesis by auto
qed

lemma sample_fingerprints:
  "turn_fingerprint sample_world (sample_params\<lparr>tp_prompt := ''q''\<rparr>) \<noteq> turn_fingerprint sample_world sample_params"
  by (simp add: turn_fingerprint_def hash_json_def sample_params_def quote_def esc_char_def code_unit_def)

theorem turn_submission_is_idempotent_witness:
  "\<exists>a t. submitPlanningTurn sample_env sample_params (sample_sys chat_db) = (Inr a, t) \<and>
     submitPlanningTurn sample_env sample_params t = (Inr (a\<lparr>tr_replayed := True\<rparr>), t) \<and>
     submitPlanningTurn sample_env (sample_params\<lparr>tp_prompt := ''q''\<rparr>) t = (Inl key_used, t)"
proof -
  from sample_submission obtain a t where at: "submitPlanningTurn sample_env sample_params (sample_sys chat_db) = (Inr a, t)"
    and m: "memberships (tables t) = memberships chat_db" by blast
  have p: "member_of (tp_workspace sample_params) (tp_user sample_params) (tables (others sample_env t))"
    "has_role (tp_workspace sample_params) (tp_user sample_params) [''admin'', ''engineer''] (tables (others sample_env t))"
    by (simp_all add: member_of_def has_role_def m) (simp_all add: chat_db_def sample_params_def)
  have "submitPlanningTurn sample_env sample_params t = (Inr (a\<lparr>tr_replayed := True\<rparr>), t)"
    using turn_submission_is_idempotent [OF at refl refl refl _ p] by simp
  moreover have "submitPlanningTurn sample_env (sample_params\<lparr>tp_prompt := ''q''\<rparr>) t = (Inl key_used, t)"
    using turn_submission_is_idempotent [OF at _ _ _ _ p, of "sample_params\<lparr>tp_prompt := ''q''\<rparr>"] sample_fingerprints by simp
  ultimately show ?thesis using at by blast
qed

end
