(* ===== verification/Gateway.thy ===== *)
theory Gateway
  imports Upstream
begin

text \<open>
  The gateway routes that proxy to the workspace and cloud account services
  (\<open>routes/members.controller.ts\<close>, \<open>routes/invitations.controller.ts\<close>,
  \<open>routes/permissions.controller.ts\<close>, \<open>routes/cloud-accounts.controller.ts\<close>). Every route takes
  its parameters as they arrive; the pipes are part of the handler. When several parameters are
  invalid the framework reports one of them, the model the first.
\<close>

section \<open>Schemas\<close>

definition workspaceRoleSchema :: zod where
  "workspaceRoleSchema = ZEnum [''admin'', ''engineer'', ''approver'', ''auditor'', ''viewer'']"

definition addMemberSchema :: zod where
  "addMemberSchema = ZObj Strict [(''user_id'', zuuid), (''role'', workspaceRoleSchema)]"

definition updateMemberRoleSchema :: zod where
  "updateMemberRoleSchema = ZObj Strict [(''role'', workspaceRoleSchema)]"

definition roleFilterSchema :: zod where
  "roleFilterSchema = ZOpt workspaceRoleSchema"

definition createInvitationSchema :: zod where
  "createInvitationSchema = ZObj Strict [(''email'', ZStr [STrim, SFormat EMAIL, SMax 320]), (''role'', workspaceRoleSchema)]"

definition acceptInvitationSchema :: zod where
  "acceptInvitationSchema = ZObj Strict [(''name'', ZStr [STrim, SMin 1, SMax 255])]"

definition invitationCodeSchema :: zod where
  "invitationCodeSchema = ZStr [STrim, SMin 1, SMax 128]"

definition permissionCheckSchema :: zod where
  "permissionCheckSchema = ZObj Strict
     [(''workspace_id'', zuuid), (''resource_type'', ZStr [STrim, SMin 1, SMax 100]), (''action'', ZStr [STrim, SMin 1, SMax 100]),
      (''resource_id'', ZOpt (ZStr [STrim, SMin 1, SMax 255]))]"

definition permissionCheckBatchSchema :: zod where
  "permissionCheckBatchSchema = ZObj Strict [(''checks'', ZArr permissionCheckSchema (Some 1) (Some 100))]"

definition cloudAccountProviderSchema :: zod where
  "cloudAccountProviderSchema = ZEnum [''aws'', ''azure'', ''gcp'']"

definition createCloudAccountSchema :: zod where
  "createCloudAccountSchema = ZObj Strict
     [(''provider'', cloudAccountProviderSchema), (''label'', ZStr [STrim, SMin 1, SMax 255]),
      (''external_account_id'', ZOpt (ZStr [STrim, SMin 1, SMax 255])), (''metadata'', ZDefault (ZRec ZUnknown) (JObj []))]"

definition verifyCloudAccountSchema :: zod where
  "verifyCloudAccountSchema = ZObj Strict [(''external_id'', ZStr [STrim, SMin 1, SMax 1024])]"

definition accountListSchema :: zod where
  "accountListSchema = zobj [(''accounts'', ZArrAny (zobj [(''id'', zs1), (''provider'', zs)]))]"

section \<open>The gateway\<close>

record 's gateway =
  gw_world :: world
  gw_is_uuid :: "string \<Rightarrow> bool"
  gw_workspace :: "'s upstream"
  gw_cloud :: "'s upstream"
  gw_token :: string

definition parse_uuid :: "'s gateway \<Rightarrow> string \<Rightarrow> ('s, exn, string) op" where
  "parse_uuid G v = bnd (check (gw_is_uuid G v) (BadRequestException ''Validation failed (uuid is expected)'')) (\<lambda>_. ret v)"

definition body_pipe :: "'s gateway \<Rightarrow> zod \<Rightarrow> json \<Rightarrow> ('s, exn, json) op" where
  "body_pipe G schema v = lift_result (pipe_transform (gw_world G) schema None (Some ''body'') v)"

definition query_pipe :: "'s gateway \<Rightarrow> zod \<Rightarrow> string \<Rightarrow> json \<Rightarrow> ('s, exn, json) op" where
  "query_pipe G schema name v = lift_result (pipe_transform (gw_world G) schema (Some name) (Some ''query'') v)"

definition allow :: "'s gateway \<Rightarrow> request_user \<Rightarrow> string \<Rightarrow> string \<Rightarrow> string \<Rightarrow> gateway_context \<Rightarrow> ('s, exn, unit) op" where
  "allow G user w resource action ctx = assertAllowed (gw_world G) (gw_workspace G) (us_id user) w resource action ctx"

definition send :: "('s, exn, upstream_result) op \<Rightarrow> ('s, exn, upstream_result) op" where
  "send m = bnd m (\<lambda>r. ret (sendUpstream r))"

section \<open>Members\<close>

definition members_list :: "'s gateway \<Rightarrow> res_locals \<Rightarrow> request_user \<Rightarrow> string \<Rightarrow> json \<Rightarrow> ('s, exn, upstream_result) op" where
  "members_list G locals user w role =
     bnd (parse_uuid G w) (\<lambda>w. bnd (query_pipe G roleFilterSchema ''role'' role) (\<lambda>role.
     let ctx = gatewayContext locals user None in
     bnd (allow G user w ''member'' ''list'' ctx) (\<lambda>_. send (listMembers (gw_workspace G) w (js_str role) ctx))))"

definition members_add ::
  "'s gateway \<Rightarrow> res_locals \<Rightarrow> request_user \<Rightarrow> string \<Rightarrow> json \<Rightarrow> string option \<Rightarrow> ('s, exn, upstream_result) op" where
  "members_add G locals user w v key =
     bnd (parse_uuid G w) (\<lambda>w. bnd (body_pipe G addMemberSchema v) (\<lambda>dto.
     let ctx = gatewayContext locals user key in
     bnd (allow G user w ''member'' ''add'' ctx) (\<lambda>_. send (addMember (gw_workspace G) w dto ctx))))"

definition members_updateRole ::
  "'s gateway \<Rightarrow> res_locals \<Rightarrow> request_user \<Rightarrow> string \<Rightarrow> string \<Rightarrow> json \<Rightarrow> string option \<Rightarrow> ('s, exn, upstream_result) op" where
  "members_updateRole G locals user w u v key =
     bnd (parse_uuid G w) (\<lambda>w. bnd (parse_uuid G u) (\<lambda>u. bnd (body_pipe G updateMemberRoleSchema v) (\<lambda>dto.
     let ctx = gatewayContext locals user key in
     bnd (allow G user w ''member'' ''update_role'' ctx) (\<lambda>_. send (updateMemberRole (gw_workspace G) w u dto ctx)))))"

definition members_remove ::
  "'s gateway \<Rightarrow> res_locals \<Rightarrow> request_user \<Rightarrow> string \<Rightarrow> string \<Rightarrow> string option \<Rightarrow> ('s, exn, upstream_result) op" where
  "members_remove G locals user w u key =
     bnd (parse_uuid G w) (\<lambda>w. bnd (parse_uuid G u) (\<lambda>u.
     let ctx = gatewayContext locals user key in
     bnd (allow G user w ''member'' ''remove'' ctx) (\<lambda>_. send (removeMember (gw_workspace G) w u ctx))))"

section \<open>Invitations\<close>

definition invitations_create ::
  "'s gateway \<Rightarrow> res_locals \<Rightarrow> request_user \<Rightarrow> string \<Rightarrow> json \<Rightarrow> string option \<Rightarrow> ('s, exn, upstream_result) op" where
  "invitations_create G locals user w v key =
     bnd (parse_uuid G w) (\<lambda>w. bnd (body_pipe G createInvitationSchema v) (\<lambda>dto.
     let ctx = gatewayContext locals user key in
     bnd (allow G user w ''invitation'' ''create'' ctx) (\<lambda>_. send (createInvitation (gw_workspace G) w dto ctx))))"

definition invitations_list :: "'s gateway \<Rightarrow> res_locals \<Rightarrow> request_user \<Rightarrow> string \<Rightarrow> ('s, exn, upstream_result) op" where
  "invitations_list G locals user w =
     bnd (parse_uuid G w) (\<lambda>w.
     let ctx = gatewayContext locals user None in
     bnd (allow G user w ''invitation'' ''list'' ctx) (\<lambda>_. send (listInvitations (gw_workspace G) w ctx)))"

definition invitations_get ::
  "'s gateway \<Rightarrow> res_locals \<Rightarrow> request_user \<Rightarrow> string \<Rightarrow> string \<Rightarrow> ('s, exn, upstream_result) op" where
  "invitations_get G locals user w i =
     bnd (parse_uuid G w) (\<lambda>w. bnd (parse_uuid G i) (\<lambda>i.
     let ctx = gatewayContext locals user None in
     bnd (allow G user w ''invitation'' ''view'' ctx) (\<lambda>_. send (getInvitation (gw_workspace G) w i ctx))))"

definition invitations_revoke ::
  "'s gateway \<Rightarrow> res_locals \<Rightarrow> request_user \<Rightarrow> string \<Rightarrow> string \<Rightarrow> string option \<Rightarrow> ('s, exn, upstream_result) op" where
  "invitations_revoke G locals user w i key =
     bnd (parse_uuid G w) (\<lambda>w. bnd (parse_uuid G i) (\<lambda>i.
     let ctx = gatewayContext locals user key in
     bnd (allow G user w ''invitation'' ''revoke'' ctx) (\<lambda>_. send (revokeInvitation (gw_workspace G) w i ctx))))"

definition invitations_lookupByCode ::
  "'s gateway \<Rightarrow> res_locals \<Rightarrow> request_user \<Rightarrow> json \<Rightarrow> ('s, exn, upstream_result) op" where
  "invitations_lookupByCode G locals user code =
     bnd (query_pipe G invitationCodeSchema ''code'' code) (\<lambda>code.
     send (getInvitationByCode (gw_workspace G) (str_of code) (gatewayContext locals user None)))"

definition invitations_accept ::
  "'s gateway \<Rightarrow> res_locals \<Rightarrow> request_user \<Rightarrow> json \<Rightarrow> json \<Rightarrow> string option \<Rightarrow> ('s, exn, upstream_result) op" where
  "invitations_accept G locals user code v key =
     bnd (query_pipe G invitationCodeSchema ''code'' code) (\<lambda>code. bnd (body_pipe G acceptInvitationSchema v) (\<lambda>dto.
     bnd (check (given (us_email user)) (ForbiddenError (Some ''Your account has no email address to match the invitation''))) (\<lambda>_.
     send (acceptInvitation (gw_workspace G) (str_of code)
       (JObj [(''user_id'', JStr (us_id user)), (''name'', jget dto ''name''), (''email'', JStr (the (us_email user)))])
       (gatewayContext locals user key)))))"

section \<open>Permissions\<close>

definition with_user :: "request_user \<Rightarrow> json \<Rightarrow> json" where
  "with_user user v = spread v [(''user_id'', JStr (us_id user))]"

definition permissions_check :: "'s gateway \<Rightarrow> res_locals \<Rightarrow> request_user \<Rightarrow> json \<Rightarrow> ('s, exn, upstream_result) op" where
  "permissions_check G locals user v =
     bnd (body_pipe G permissionCheckSchema v) (\<lambda>dto.
     send (checkPermission (gw_workspace G) (with_user user dto) (gatewayContext locals user None)))"

definition permissions_checkBatch :: "'s gateway \<Rightarrow> res_locals \<Rightarrow> request_user \<Rightarrow> json \<Rightarrow> ('s, exn, upstream_result) op" where
  "permissions_checkBatch G locals user v =
     bnd (body_pipe G permissionCheckBatchSchema v) (\<lambda>dto.
     send (checkBatch (gw_workspace G) (map (with_user user) (arr_of (jget dto ''checks''))) (gatewayContext locals user None)))"

section \<open>Cloud accounts\<close>

definition PROVIDERS :: "string list" where
  "PROVIDERS = [''aws'', ''azure'', ''gcp'']"

definition asProvider :: "string \<Rightarrow> string option" where
  "asProvider segment = (if segment \<in> set PROVIDERS then Some segment else None)"

definition cloud_accounts_list :: "'s gateway \<Rightarrow> res_locals \<Rightarrow> request_user \<Rightarrow> string \<Rightarrow> ('s, exn, upstream_result) op" where
  "cloud_accounts_list G locals user w =
     bnd (parse_uuid G w) (\<lambda>w.
     let ctx = gatewayContext locals user None in
     bnd (allow G user w ''cloud_account'' ''view'' ctx) (\<lambda>_. send (cloud_list (gw_cloud G) (gw_token G) w ctx)))"

definition cloud_accounts_get ::
  "'s gateway \<Rightarrow> res_locals \<Rightarrow> request_user \<Rightarrow> string \<Rightarrow> string \<Rightarrow> ('s, exn, upstream_result) op" where
  "cloud_accounts_get G locals user w a =
     bnd (parse_uuid G w) (\<lambda>w. bnd (parse_uuid G a) (\<lambda>a.
     let ctx = gatewayContext locals user None in
     bnd (allow G user w ''cloud_account'' ''view'' ctx) (\<lambda>_. send (cloud_get (gw_cloud G) (gw_token G) w a ctx))))"

definition cloud_account_input :: "json \<Rightarrow> json" where
  "cloud_account_input dto = JObj
     ([(''provider'', jget dto ''provider''), (''label'', jget dto ''label''), (''metadata'', jget dto ''metadata'')] @
      (if jget dto ''external_account_id'' \<noteq> JUndef then [(''external_account_id'', jget dto ''external_account_id'')] else []))"

definition cloud_accounts_create ::
  "'s gateway \<Rightarrow> res_locals \<Rightarrow> request_user \<Rightarrow> string \<Rightarrow> json \<Rightarrow> string option \<Rightarrow> ('s, exn, upstream_result) op" where
  "cloud_accounts_create G locals user w v key =
     bnd (parse_uuid G w) (\<lambda>w. bnd (body_pipe G createCloudAccountSchema v) (\<lambda>dto.
     let ctx = gatewayContext locals user key in
     bnd (allow G user w ''cloud_account'' ''create'' ctx) (\<lambda>_.
     send (cloud_create (gw_cloud G) (gw_token G) w (cloud_account_input dto) ctx))))"

definition cloud_accounts_remove ::
  "'s gateway \<Rightarrow> res_locals \<Rightarrow> request_user \<Rightarrow> string \<Rightarrow> string \<Rightarrow> string option \<Rightarrow> ('s, exn, upstream_result) op" where
  "cloud_accounts_remove G locals user w a key =
     bnd (parse_uuid G w) (\<lambda>w. bnd (parse_uuid G a) (\<lambda>a.
     let ctx = gatewayContext locals user key in
     bnd (allow G user w ''cloud_account'' ''delete'' ctx) (\<lambda>_. send (cloud_remove (gw_cloud G) (gw_token G) w a ctx))))"

definition resolveProviderAccount :: "'s gateway \<Rightarrow> string \<Rightarrow> string \<Rightarrow> gateway_context \<Rightarrow> ('s, exn, string) op" where
  "resolveProviderAccount G w provider ctx =
     bnd (check (provider = ''aws'') (NotImplementedError (provider @ '' account verification''))) (\<lambda>_.
     bnd (cloud_list (gw_cloud G) (gw_token G) w ctx) (\<lambda>r.
     case zparse (gw_world G) accountListSchema (up_body r) of
       Inl issues \<Rightarrow> throw (DependencyError ''Cloud account service returned an unreadable response.'')
     | Inr d \<Rightarrow>
         bnd (the_or (List.find (\<lambda>c. jget c ''provider'' = JStr ''aws'') (arr_of (jget d ''accounts'')))
               (NotFoundError ''No AWS account is connected to this workspace'')) (\<lambda>account.
         ret (str_of (jget account ''id'')))))"

definition account_to_verify :: "'s gateway \<Rightarrow> string \<Rightarrow> string \<Rightarrow> gateway_context \<Rightarrow> ('s, exn, string) op" where
  "account_to_verify G w idOrProvider ctx =
     (case asProvider idOrProvider of
        Some provider \<Rightarrow> resolveProviderAccount G w provider ctx
      | None \<Rightarrow> (case zparse (gw_world G) zuuid (JStr idOrProvider) of
            Inl issues \<Rightarrow> throw (ValidationError ''account id must be a valid UUID'' None)
          | Inr d \<Rightarrow> ret (str_of d)))"

definition verify_key_ok :: "string option \<Rightarrow> bool" where
  "verify_key_ok key = (case key of None \<Rightarrow> False | Some k \<Rightarrow> trim k \<noteq> [] \<and> length k \<le> 255)"

definition cloud_accounts_verify ::
  "'s gateway \<Rightarrow> res_locals \<Rightarrow> request_user \<Rightarrow> string \<Rightarrow> string \<Rightarrow> json \<Rightarrow> string option \<Rightarrow> ('s, exn, upstream_result) op" where
  "cloud_accounts_verify G locals user w idOrProvider v key =
     bnd (parse_uuid G w) (\<lambda>w. bnd (body_pipe G verifyCloudAccountSchema v) (\<lambda>dto.
     bnd (check (verify_key_ok key) (ValidationError ''A nonblank Idempotency-Key of at most 255 characters is required'' None)) (\<lambda>_.
     let ctx = gatewayContext locals user key in
     bnd (allow G user w ''cloud_account'' ''update'' ctx) (\<lambda>_.
     bnd (account_to_verify G w idOrProvider ctx) (\<lambda>a.
     send (cloud_verify (gw_cloud G) (gw_token G) w a (jget dto ''external_id'') ctx))))))"

definition cloud_accounts_template ::
  "'s gateway \<Rightarrow> res_locals \<Rightarrow> request_user \<Rightarrow> string \<Rightarrow> string \<Rightarrow> ('s, exn, upstream_result) op" where
  "cloud_accounts_template G locals user w a =
     bnd (parse_uuid G w) (\<lambda>w. bnd (parse_uuid G a) (\<lambda>a.
     let ctx = gatewayContext locals user None in
     bnd (allow G user w ''cloud_account'' ''view'' ctx) (\<lambda>_.
     throw (NotImplementedError ''CloudFormation template generation''))))"

definition capabilities_get :: "'s gateway \<Rightarrow> res_locals \<Rightarrow> request_user \<Rightarrow> string \<Rightarrow> ('s, exn, upstream_result) op" where
  "capabilities_get G locals user w =
     bnd (parse_uuid G w) (\<lambda>w.
     let ctx = gatewayContext locals user None in
     bnd (allow G user w ''cloud_account'' ''view'' ctx) (\<lambda>_. send (cloud_capabilities (gw_cloud G) (gw_token G) w ctx)))"

section \<open>The routes together\<close>

datatype gateway_call =
    MembersList string json
  | MembersAdd string json "string option"
  | MembersUpdateRole string string json "string option"
  | MembersRemove string string "string option"
  | InvitationsCreate string json "string option"
  | InvitationsList string
  | InvitationsGet string string
  | InvitationsRevoke string string "string option"
  | InvitationsLookup json
  | InvitationsAccept json json "string option"
  | PermissionsCheck json
  | PermissionsCheckBatch json
  | AccountsList string
  | AccountsGet string string
  | AccountsCreate string json "string option"
  | AccountsRemove string string "string option"
  | AccountsVerify string string json "string option"
  | AccountsTemplate string string
  | Capabilities string

fun gateway_handle :: "'s gateway \<Rightarrow> res_locals \<Rightarrow> request_user \<Rightarrow> gateway_call \<Rightarrow> ('s, exn, upstream_result) op" where
  "gateway_handle G l u (MembersList w role) = members_list G l u w role"
| "gateway_handle G l u (MembersAdd w v k) = members_add G l u w v k"
| "gateway_handle G l u (MembersUpdateRole w m v k) = members_updateRole G l u w m v k"
| "gateway_handle G l u (MembersRemove w m k) = members_remove G l u w m k"
| "gateway_handle G l u (InvitationsCreate w v k) = invitations_create G l u w v k"
| "gateway_handle G l u (InvitationsList w) = invitations_list G l u w"
| "gateway_handle G l u (InvitationsGet w i) = invitations_get G l u w i"
| "gateway_handle G l u (InvitationsRevoke w i k) = invitations_revoke G l u w i k"
| "gateway_handle G l u (InvitationsLookup c) = invitations_lookupByCode G l u c"
| "gateway_handle G l u (InvitationsAccept c v k) = invitations_accept G l u c v k"
| "gateway_handle G l u (PermissionsCheck v) = permissions_check G l u v"
| "gateway_handle G l u (PermissionsCheckBatch v) = permissions_checkBatch G l u v"
| "gateway_handle G l u (AccountsList w) = cloud_accounts_list G l u w"
| "gateway_handle G l u (AccountsGet w a) = cloud_accounts_get G l u w a"
| "gateway_handle G l u (AccountsCreate w v k) = cloud_accounts_create G l u w v k"
| "gateway_handle G l u (AccountsRemove w a k) = cloud_accounts_remove G l u w a k"
| "gateway_handle G l u (AccountsVerify w a v k) = cloud_accounts_verify G l u w a v k"
| "gateway_handle G l u (AccountsTemplate w a) = cloud_accounts_template G l u w a"
| "gateway_handle G l u (Capabilities w) = capabilities_get G l u w"

end
