(* ===== verification/Gateway_Access.thy ===== *)
theory Gateway_Access
  imports Gateway
begin

text \<open>
  What the gateway does on the wire: a log of the requests it makes, the contract of the
  permission check as the locale \<open>access_contract\<close> with its interpretation on
  \<open>assertAllowed\<close>, and the properties of every route.
\<close>

section \<open>The log\<close>

definition logged :: "'s upstream \<Rightarrow> ('s \<times> http_request list) upstream" where
  "logged C =
     \<lparr>uc_base = uc_base C, uc_href = uc_href C,
      uc_fetch = (\<lambda>q (s, l). case uc_fetch C q s of (r, t) \<Rightarrow> (r, (t, l @ [q]))),
      uc_read = (\<lambda>p (s, l). case uc_read C p s of (r, t) \<Rightarrow> (r, (t, l)))\<rparr>"

definition logged_gateway :: "'s gateway \<Rightarrow> ('s \<times> http_request list) gateway" where
  "logged_gateway G =
     \<lparr>gw_world = gw_world G, gw_is_uuid = gw_is_uuid G, gw_workspace = logged (gw_workspace G),
      gw_cloud = logged (gw_cloud G), gw_token = gw_token G\<rparr>"

lemma logged_simps [simp]:
  "uc_base (logged C) = uc_base C" "uc_href (logged C) = uc_href C"
  "uc_fetch (logged C) q (s, l) = (case uc_fetch C q s of (r, t) \<Rightarrow> (r, (t, l @ [q])))"
  "uc_read (logged C) p (s, l) = (case uc_read C p s of (r, t) \<Rightarrow> (r, (t, l)))"
  by (simp_all add: logged_def)

lemma logged_gateway_simps [simp]:
  "gw_world (logged_gateway G) = gw_world G" "gw_is_uuid (logged_gateway G) = gw_is_uuid G"
  "gw_workspace (logged_gateway G) = logged (gw_workspace G)" "gw_cloud (logged_gateway G) = logged (gw_cloud G)"
  "gw_token (logged_gateway G) = gw_token G"
  by (simp_all add: logged_gateway_def)

text \<open>An operation that only adds requests allowed by \<open>P\<close> to the log.\<close>

definition sends :: "(http_request \<Rightarrow> bool) \<Rightarrow> ('s \<times> http_request list, exn, 'a) op \<Rightarrow> bool" where
  "sends P m \<longleftrightarrow> (\<forall>s l r t l'. m (s, l) = (r, (t, l')) \<longrightarrow> (\<exists>qs. l' = l @ qs \<and> list_all P qs))"

named_theorems sends_intros \<open>rules that compose the requests an operation sends\<close>

lemma sendsI: "(\<And>s l r t l'. m (s, l) = (r, (t, l')) \<Longrightarrow> \<exists>qs. l' = l @ qs \<and> list_all P qs) \<Longrightarrow> sends P m"
  by (simp add: sends_def)

lemma sendsD: "sends P m \<Longrightarrow> m (s, l) = (r, (t, l')) \<Longrightarrow> \<exists>qs. l' = l @ qs \<and> list_all P qs"
  by (simp add: sends_def)

lemma sends_ret [sends_intros]: "sends P (ret x)"
  by (rule sendsI) simp

lemma sends_throw [sends_intros]: "sends P (throw e)"
  by (rule sendsI) simp

lemma sends_check [sends_intros]: "sends P (check b e)"
  by (rule sendsI) (auto simp: check_def split: if_splits)

lemma sends_the_or [sends_intros]: "sends P (the_or v e)"
  by (rule sendsI) (auto simp: the_or_def split: option.splits)

lemma sends_lift [sends_intros]: "sends P (lift_result r)"
  by (rule sendsI) simp

lemma sends_bnd [sends_intros]:
  assumes m: "sends P m" and f: "\<And>x. sends P (f x)"
  shows "sends P (bnd m f)"
proof (rule sendsI)
  fix s l r t l'
  assume eq: "bnd m f (s, l) = (r, (t, l'))"
  obtain q u k where q: "m (s, l) = (q, (u, k))" by (metis prod_cases3)
  with sendsD [OF m] obtain qs where qs: "k = l @ qs" "list_all P qs" by blast
  show "\<exists>qs. l' = l @ qs \<and> list_all P qs"
  proof (cases q)
    case (Inl e)
    with eq q qs show ?thesis by auto
  next
    case (Inr x)
    with eq q have "f x (u, k) = (r, (t, l'))" by simp
    with sendsD [OF f] obtain ps where "l' = k @ ps" "list_all P ps" by blast
    with qs show ?thesis by auto
  qed
qed

lemma sends_catching [sends_intros]:
  assumes m: "sends P m" and h: "\<And>e. sends P (h e)"
  shows "sends P (catching m h)"
proof (rule sendsI)
  fix s l r t l'
  assume eq: "catching m h (s, l) = (r, (t, l'))"
  obtain q u k where q: "m (s, l) = (q, (u, k))" by (metis prod_cases3)
  with sendsD [OF m] obtain qs where qs: "k = l @ qs" "list_all P qs" by blast
  show "\<exists>qs. l' = l @ qs \<and> list_all P qs"
  proof (cases q)
    case (Inr x)
    with eq q qs show ?thesis by auto
  next
    case (Inl e)
    with eq q have "h e (u, k) = (r, (t, l'))" by simp
    with sendsD [OF h] obtain ps where "l' = k @ ps" "list_all P ps" by blast
    with qs show ?thesis by auto
  qed
qed

lemma sends_read [sends_intros]: "sends P (uc_read (logged C) p)"
  by (rule sendsI) (auto split: prod.splits)

lemma sends_request [sends_intros]:
  assumes "\<And>url. P (upstream_request url opts)"
  shows "sends P (request (logged C) path opts)"
proof -
  have "sends P (uc_fetch (logged C) (upstream_request url opts))" for url
    by (rule sendsI) (use assms in \<open>auto split: prod.splits\<close>)
  then show ?thesis unfolding request_def by (intro sends_intros)
qed

lemma sends_send [sends_intros]: "sends P m \<Longrightarrow> sends P (send m)"
  unfolding send_def by (rule sends_bnd) (auto intro: sends_intros)

lemma sends_uuid [sends_intros]: "sends P (parse_uuid G w)"
  unfolding parse_uuid_def by (intro sends_intros)

lemma sends_pipes [sends_intros]: "sends P (body_pipe G z v)" "sends P (query_pipe G z n v)"
  by (simp_all add: body_pipe_def query_pipe_def sends_lift)

section \<open>The contract of the permission check\<close>

text \<open>
  \<open>question\<close> is the one request the check makes, \<open>None\<close> when the URL cannot be built; a check
  that cannot ask denies.
\<close>

locale access_contract =
  fixes checks :: "string \<Rightarrow> string \<Rightarrow> string \<Rightarrow> string \<Rightarrow> gateway_context \<Rightarrow> ('s \<times> http_request list, exn, unit) op"
    and question :: "string \<Rightarrow> string \<Rightarrow> string \<Rightarrow> string \<Rightarrow> gateway_context \<Rightarrow> http_request option"
    and allowed :: "string \<Rightarrow> string \<Rightarrow> string \<Rightarrow> string \<Rightarrow> gateway_context \<Rightarrow> 's \<Rightarrow> bool"
  assumes asks: "checks u w rt a x (s, l) = (r, (t, l')) \<Longrightarrow> l' = l @ (case question u w rt a x of None \<Rightarrow> [] | Some q \<Rightarrow> [q])"
    and permits: "checks u w rt a x (s, l) = (Inr y, (t, l')) \<Longrightarrow> question u w rt a x \<noteq> None \<and> allowed u w rt a x s"
begin

text \<open>A route whose steps before the check send nothing.\<close>

lemma guarded:
  assumes "bnd (checks u w rt a x) k (s, l) = (r, (t, l'))"
    and k: "\<And>y. sends (\<lambda>q. True) (k y)"
  shows "(l' = l \<and> isl r) \<or> (\<exists>q rest. question u w rt a x = Some q \<and> l' = l @ q # rest \<and>
           (rest \<noteq> [] \<or> \<not> isl r \<longrightarrow> allowed u w rt a x s))"
proof -
  obtain p v m where p: "checks u w rt a x (s, l) = (p, (v, m))" by (metis prod_cases3)
  show ?thesis
  proof (cases p)
    case (Inl e)
    with p assms(1) have "r = Inl e" "l' = m" by auto
    with asks [OF p] show ?thesis by (auto split: option.splits)
  next
    case (Inr y)
    with p assms(1) have "k y (v, m) = (r, (t, l'))" by simp
    with sendsD [OF k] obtain rest where "l' = m @ rest" by blast
    moreover from p Inr permits have "question u w rt a x \<noteq> None \<and> allowed u w rt a x s" by blast
    ultimately show ?thesis using asks [OF p] by auto
  qed
qed

end

definition permission_options :: "string \<Rightarrow> string \<Rightarrow> string \<Rightarrow> string \<Rightarrow> gateway_context \<Rightarrow> upstream_options" where
  "permission_options u w rt a ctx =
     \<lparr>uo_method = ''POST'', uo_query = [], uo_body = permission_input u w rt a, uo_headers = workspace_headers ctx False\<rparr>"

definition permission_question ::
  "'s upstream \<Rightarrow> string \<Rightarrow> string \<Rightarrow> string \<Rightarrow> string \<Rightarrow> gateway_context \<Rightarrow> http_request option" where
  "permission_question C u w rt a ctx =
     (case buildUrl C ''/permissions/check'' [] of
        Inl e \<Rightarrow> None | Inr url \<Rightarrow> Some (upstream_request url (permission_options u w rt a ctx)))"

text \<open>The permission service answered with \<open>allowed: true\<close>, in a readable response.\<close>

definition permission_granted ::
  "world \<Rightarrow> 's upstream \<Rightarrow> string \<Rightarrow> string \<Rightarrow> string \<Rightarrow> string \<Rightarrow> gateway_context \<Rightarrow> 's \<Rightarrow> bool" where
  "permission_granted W C u w rt a ctx s =
     (case permission_question C u w rt a ctx of
        None \<Rightarrow> False
      | Some q \<Rightarrow> (case fst (uc_fetch C q s) of
            Inl e \<Rightarrow> False
          | Inr response \<Rightarrow> response_ok response \<and>
              (\<exists>d. zparse W permissionResultSchema (tryParse response) = Inr d \<and> jget d ''allowed'' = JBool True)))"

lemma buildUrl_logged [simp]: "buildUrl (logged C) p q = buildUrl C p q"
  by (simp add: buildUrl_def)

lemma request_log:
  assumes "request (logged C) path opts (s, l) = (r, (t, l'))"
  shows "l' = l @ (case buildUrl C path (uo_query opts) of Inl e \<Rightarrow> [] | Inr url \<Rightarrow> [upstream_request url opts])"
proof (cases "buildUrl C path (uo_query opts)")
  case (Inl e)
  with assms show ?thesis by (simp add: request_def)
next
  case (Inr url)
  obtain f u where f: "uc_fetch C (upstream_request url opts) s = (f, u)" by force
  show ?thesis
  proof (cases f)
    case (Inl e)
    with f Inr assms show ?thesis by (simp add: request_def bnd_def catching_def)
  next
    case (Inr response)
    obtain g v where g: "uc_read C response u = (g, v)" by force
    with f Inr \<open>buildUrl C path (uo_query opts) = Inr url\<close> assms show ?thesis
      by (auto simp: request_def bnd_def catching_def check_def split: sum.splits if_splits)
  qed
qed

lemma request_Inr:
  assumes "request (logged C) path opts (s, l) = (Inr v, (t, l'))"
  shows "\<exists>url response u. buildUrl C path (uo_query opts) = Inr url \<and>
     uc_fetch C (upstream_request url opts) s = (Inr response, u) \<and> response_ok response \<and>
     up_status v = rs_status response \<and> up_body v = tryParse response"
proof (cases "buildUrl C path (uo_query opts)")
  case (Inl e)
  with assms show ?thesis by (simp add: request_def)
next
  case (Inr url)
  obtain f u where f: "uc_fetch C (upstream_request url opts) s = (f, u)" by force
  show ?thesis
  proof (cases f)
    case (Inl e)
    with f Inr assms show ?thesis by (simp add: request_def bnd_def catching_def)
  next
    case (Inr response)
    obtain g z where g: "uc_read C response u = (g, z)" by force
    with f Inr \<open>buildUrl C path (uo_query opts) = Inr url\<close> assms
    have "response_ok response \<and> parse_body response = Inr (up_body v) \<and> up_status v = rs_status response"
      by (auto simp: request_def bnd_def catching_def check_def split: sum.splits if_splits)
    with f Inr \<open>buildUrl C path (uo_query opts) = Inr url\<close> show ?thesis
      by (auto simp: parse_body_def tryParse_def split: if_splits)
  qed
qed

lemma assertAllowed_asks:
  assumes "assertAllowed W (logged C) u w rt a ctx (s, l) = (r, (t, l'))"
  shows "l' = l @ (case permission_question C u w rt a ctx of None \<Rightarrow> [] | Some q \<Rightarrow> [q])"
proof -
  obtain v u' m where m: "checkPermission (logged C) (permission_input u w rt a) ctx (s, l) = (v, (u', m))" by (metis prod_cases3)
  have "l' = m"
    using assms m by (auto simp: assertAllowed_def bnd_def check_def split: sum.splits if_splits)
  with request_log m show ?thesis
    by (fastforce simp: checkPermission_def ws_call_def permission_question_def permission_options_def split: sum.splits)
qed

lemma assertAllowed_permits:
  assumes "assertAllowed W (logged C) u w rt a ctx (s, l) = (Inr y, (t, l'))"
  shows "permission_question C u w rt a ctx \<noteq> None \<and> permission_granted W C u w rt a ctx s"
proof -
  from assms obtain v u' m d where v: "checkPermission (logged C) (permission_input u w rt a) ctx (s, l) = (Inr v, (u', m))"
    and d: "zparse W permissionResultSchema (up_body v) = Inr d" "jget d ''allowed'' = JBool True"
    by (cases "zparse W permissionResultSchema (up_body (projr (fst (checkPermission (logged C) (permission_input u w rt a) ctx (s, l)))))")
      (auto simp: assertAllowed_def bnd_Inr_iff check_Inr_iff)
  from v have "request (logged C) ''/permissions/check'' (permission_options u w rt a ctx) (s, l) = (Inr v, (u', m))"
    by (simp add: checkPermission_def ws_call_def permission_options_def)
  from request_Inr [OF this] d show ?thesis
    by (auto simp: permission_question_def permission_granted_def permission_options_def)
qed

interpretation access: access_contract
  "assertAllowed W (logged C)" "permission_question C" "permission_granted W C" for W C
  by unfold_locales (blast intro: assertAllowed_asks, blast dest: assertAllowed_permits)

section \<open>Guarded routes\<close>

text \<open>
  A route is guarded by a question if it fails before it has sent anything, or sends the question
  first and sends more, or succeeds, only if the answer grants the permission.
\<close>

definition guarded_by :: "http_request option \<Rightarrow> ('s \<Rightarrow> bool) \<Rightarrow> ('s \<times> http_request list, exn, 'a) op \<Rightarrow> bool" where
  "guarded_by question granted m \<longleftrightarrow> (\<forall>s l r t l'. m (s, l) = (r, (t, l')) \<longrightarrow>
     (l' = l \<and> isl r) \<or>
     (\<exists>q rest. question = Some q \<and> l' = l @ q # rest \<and> (rest \<noteq> [] \<or> \<not> isl r \<longrightarrow> granted s)))"

lemma guarded_allow:
  assumes "\<And>y. sends (\<lambda>q. True) (k y)"
  shows "guarded_by (permission_question (gw_workspace G) (us_id u) w rt a ctx)
           (permission_granted (gw_world G) (gw_workspace G) (us_id u) w rt a ctx)
           (bnd (allow (logged_gateway G) u w rt a ctx) k)"
  unfolding guarded_by_def allow_def logged_gateway_simps
  by (intro allI impI) (erule access.guarded [OF _ assms])

lemma guarded_uuid: "guarded_by q g (f w) \<Longrightarrow> guarded_by q g (bnd (parse_uuid G w) f)"
  by (auto simp: guarded_by_def parse_uuid_def bnd_def check_def split: if_splits)

lemma guarded_lift: "(\<And>x. guarded_by q g (f x)) \<Longrightarrow> guarded_by q g (bnd (lift_result p) f)"
  by (cases p) (simp_all add: guarded_by_def bnd_def)

lemma guarded_check: "guarded_by q g (f ()) \<Longrightarrow> guarded_by q g (bnd (check b e) f)"
  by (cases b) (simp_all add: guarded_by_def bnd_def)

lemma guarded_pipes:
  "(\<And>x. guarded_by q g (f x)) \<Longrightarrow> guarded_by q g (bnd (body_pipe G z v) f)"
  "(\<And>x. guarded_by q g (f x)) \<Longrightarrow> guarded_by q g (bnd (query_pipe G z n v) f)"
  by (simp_all add: body_pipe_def query_pipe_def guarded_lift)

lemmas client_defs = listMembers_def addMember_def updateMemberRole_def removeMember_def listInvitations_def createInvitation_def
  getInvitation_def revokeInvitation_def getInvitationByCode_def acceptInvitation_def checkPermission_def checkBatch_def
  ws_call_def cloud_list_def cloud_get_def cloud_create_def cloud_remove_def cloud_verify_def cloud_capabilities_def

lemmas scoped_route_defs = members_list_def members_add_def members_updateRole_def members_remove_def invitations_create_def
  invitations_list_def invitations_get_def invitations_revoke_def cloud_accounts_list_def cloud_accounts_get_def
  cloud_accounts_create_def cloud_accounts_remove_def cloud_accounts_verify_def cloud_accounts_template_def capabilities_get_def

lemma sends_resolve: "(\<And>q. P q) \<Longrightarrow> sends P (resolveProviderAccount (logged_gateway G) w p ctx)"
  by (auto simp: resolveProviderAccount_def client_defs intro!: sends_intros split: sum.split)

lemma sends_account: "(\<And>q. P q) \<Longrightarrow> sends P (account_to_verify (logged_gateway G) w p ctx)"
  by (auto simp: account_to_verify_def intro!: sends_intros sends_resolve split: sum.split option.split)

text \<open>The permission each workspace route needs, and the idempotency key it forwards.\<close>

fun required_permission :: "gateway_call \<Rightarrow> (string \<times> string \<times> string \<times> string option) option" where
  "required_permission (MembersList w role) = Some (w, ''member'', ''list'', None)"
| "required_permission (MembersAdd w v k) = Some (w, ''member'', ''add'', k)"
| "required_permission (MembersUpdateRole w m v k) = Some (w, ''member'', ''update_role'', k)"
| "required_permission (MembersRemove w m k) = Some (w, ''member'', ''remove'', k)"
| "required_permission (InvitationsCreate w v k) = Some (w, ''invitation'', ''create'', k)"
| "required_permission (InvitationsList w) = Some (w, ''invitation'', ''list'', None)"
| "required_permission (InvitationsGet w i) = Some (w, ''invitation'', ''view'', None)"
| "required_permission (InvitationsRevoke w i k) = Some (w, ''invitation'', ''revoke'', k)"
| "required_permission (InvitationsLookup c) = None"
| "required_permission (InvitationsAccept c v k) = None"
| "required_permission (PermissionsCheck v) = None"
| "required_permission (PermissionsCheckBatch v) = None"
| "required_permission (AccountsList w) = Some (w, ''cloud_account'', ''view'', None)"
| "required_permission (AccountsGet w a) = Some (w, ''cloud_account'', ''view'', None)"
| "required_permission (AccountsCreate w v k) = Some (w, ''cloud_account'', ''create'', k)"
| "required_permission (AccountsRemove w a k) = Some (w, ''cloud_account'', ''delete'', k)"
| "required_permission (AccountsVerify w a v k) = Some (w, ''cloud_account'', ''update'', k)"
| "required_permission (AccountsTemplate w a) = Some (w, ''cloud_account'', ''view'', None)"
| "required_permission (Capabilities w) = Some (w, ''cloud_account'', ''view'', None)"

lemma scoped_route_guarded:
  assumes "required_permission c = Some (w, rt, a, k)"
  shows "guarded_by (permission_question (gw_workspace G) (us_id u) w rt a (gatewayContext locals u k))
           (permission_granted (gw_world G) (gw_workspace G) (us_id u) w rt a (gatewayContext locals u k))
           (gateway_handle (logged_gateway G) locals u c)"
  using assms
  by (cases c)
    (auto simp: scoped_route_defs Let_def client_defs
      intro!: guarded_uuid guarded_check guarded_pipes guarded_allow sends_intros sends_account)

section \<open>Whose identity the requests carry\<close>

text \<open>A request body that names no user, or only \<open>u\<close>, itself and in every element of its batch.\<close>

definition names_only :: "string \<Rightarrow> http_request \<Rightarrow> bool" where
  "names_only u q = (case rq_body q of None \<Rightarrow> True
     | Some v \<Rightarrow> jget v ''user_id'' \<in> {JUndef, JStr u} \<and>
         list_all (\<lambda>x. jget x ''user_id'' = JStr u) (arr_of (jget v ''checks'')))"

lemma names_upstream:
  "names_only u (upstream_request url opts) \<longleftrightarrow>
     jget (uo_body opts) ''user_id'' \<in> {JUndef, JStr u} \<and>
     list_all (\<lambda>x. jget x ''user_id'' = JStr u) (arr_of (jget (uo_body opts) ''checks''))"
  by (auto simp: names_only_def upstream_request_def arr_of_def)

lemma zdoc_strict_absent:
  assumes "zdoc fmt (ZObj Strict fs) v = Some w" and "k \<notin> fst ` set fs"
  shows "jget w k = JUndef"
proof -
  from assms(1) obtain kvs out where out: "shape_fields (map (map_prod id (zdoc fmt)) fs) kvs = Some out" "w = JObj out"
    by (auto simp: zdoc.simps object_doc_def Let_def split: json.splits option.splits if_splits)
  then have "fst ` set out \<subseteq> fst ` set fs"
    by (force simp: shape_fields_def dest: set_zip_leftD)
  with assms(2) have "map_of out k = None" by (auto simp: map_of_eq_None_iff)
  with out(2) show ?thesis by simp
qed

lemma with_user_id [simp]: "jget (with_user u v) ''user_id'' = JStr (us_id u)"
  by (cases v) (simp_all add: with_user_def spread_def set_prop_def update_conv')

lemma sends_body:
  assumes "zod_documented fmt (gw_world G)" and "\<And>x. zdoc fmt z v = Some x \<Longrightarrow> sends P (f x)"
  shows "sends P (bnd (body_pipe G z v) f)"
proof (cases "zparse (gw_world G) z v")
  case (Inl e)
  then have "bnd (body_pipe G z v) f = (\<lambda>s. (Inl (case pipe_transform (gw_world G) z None (Some ''body'') v of Inl e \<Rightarrow> e | Inr x \<Rightarrow> undefined), s))"
    by (auto simp: body_pipe_def bnd_def pipe_transform_def)
  then show ?thesis by (auto intro: sendsI)
next
  case (Inr x)
  then have "bnd (body_pipe G z v) f = f x"
    by (auto simp: body_pipe_def bnd_def pipe_transform_def)
  moreover have "zdoc fmt z v = Some x" using Inr assms(1) by (simp add: zod_Inr)
  ultimately show ?thesis using assms(2) by simp
qed

lemma names_check [simp]: "arr_of JUndef = []"
  by (simp add: arr_of_def)

lemma spread_other: "k \<noteq> n \<Longrightarrow> jget (spread v [(n, x)]) k = jget v k"
  by (cases v) (simp_all add: spread_def set_prop_def update_conv')

lemma sends_allow: "sends (names_only (us_id u)) (allow (logged_gateway G) u w rt a ctx)"
  unfolding allow_def assertAllowed_def checkPermission_def ws_call_def
  by (rule sends_bnd)
    (auto simp: names_upstream permission_input_def intro!: sends_intros split: sum.split)

lemma sends_account_names: "sends (names_only u) (account_to_verify (logged_gateway G) w p ctx)"
  by (auto simp: account_to_verify_def resolveProviderAccount_def client_defs names_upstream intro!: sends_intros
      split: sum.split option.split)

lemmas sends_rules = sends_uuid sends_allow sends_account_names sends_send sends_bnd [OF sends_uuid] sends_bnd [OF sends_allow]
  sends_bnd [OF sends_account_names] sends_bnd [OF sends_check]

lemma strict_update: "zdoc fmt updateMemberRoleSchema v = Some x \<Longrightarrow> k \<noteq> ''role'' \<Longrightarrow> jget x k = JUndef"
  unfolding updateMemberRoleSchema_def by (erule zdoc_strict_absent) simp

lemma strict_invitation: "zdoc fmt createInvitationSchema v = Some x \<Longrightarrow> k \<notin> {''role'', ''email''} \<Longrightarrow> jget x k = JUndef"
  unfolding createInvitationSchema_def by (erule zdoc_strict_absent) simp

lemma strict_check:
  "zdoc fmt permissionCheckSchema v = Some x \<Longrightarrow> k \<notin> {''workspace_id'', ''resource_type'', ''action'', ''resource_id''} \<Longrightarrow> jget x k = JUndef"
  unfolding permissionCheckSchema_def by (erule zdoc_strict_absent) simp

lemma with_user_other: "k \<noteq> ''user_id'' \<Longrightarrow> jget (with_user u v) k = jget v k"
  by (simp add: with_user_def spread_other)

lemma route_names_caller:
  assumes z: "zod_documented fmt (gw_world G)" and c: "\<And>w v k. c \<noteq> MembersAdd w v k"
  shows "sends (names_only (us_id u)) (gateway_handle (logged_gateway G) locals u c)"
proof -
  have z': "zod_documented fmt (gw_world (logged_gateway G))" using z by simp
  show ?thesis
    using c
    by (cases c)
      (auto simp: scoped_route_defs invitations_lookupByCode_def invitations_accept_def permissions_check_def permissions_checkBatch_def
        Let_def client_defs names_upstream strict_update strict_invitation strict_check with_user_other arr_of_def list_all_iff
        spread_other cloud_account_input_def
        intro!: sends_rules sends_body [OF z'] sends_bnd [OF sends_pipes(2)] sends_intros)
qed

section \<open>Properties\<close>

text \<open>
  C22. Permission comes first on the wire. A route of a workspace either fails before it has made any
  request, or its first request asks the permission service whether the authenticated user may
  perform the route's action in the workspace of the path; it makes a further request, or
  succeeds, only if the answer was a readable grant. Nothing else lets a request through: an
  unavailable or unreadable answer denies.
\<close>

theorem permission_checked_first:
  assumes "required_permission c = Some (w, resource, action, key)"
    and "gateway_handle (logged_gateway G) locals u c (s, []) = (r, (t, wire))"
  shows "(wire = [] \<and> isl r) \<or>
     (\<exists>q rest. wire = q # rest \<and> rq_method q = ''POST'' \<and>
        rq_body q = Some (permission_input (us_id u) w resource action) \<and>
        (rest \<noteq> [] \<or> \<not> isl r \<longrightarrow>
         permission_granted (gw_world G) (gw_workspace G) (us_id u) w resource action (gatewayContext locals u key) s))"
proof -
  have "permission_question C x w resource action ctx = Some q \<Longrightarrow>
      rq_method q = ''POST'' \<and> rq_body q = Some (permission_input x w resource action)" for C :: "'a upstream" and x ctx q
    by (auto simp: permission_question_def upstream_request_def permission_options_def permission_input_def split: sum.splits)
  with scoped_route_guarded [OF assms(1), of G u locals] assms(2) show ?thesis
    unfolding guarded_by_def by fastforce
qed

text \<open>
  C23. A caller speaks only for itself: apart from the one route that adds another user as a member,
  no request the gateway sends on behalf of a user names any other user, neither in its own body
  nor in the elements of a batch of permission checks, whatever the client put into its payload.
\<close>

theorem requests_speak_for_caller:
  assumes "zod_documented fmt (gw_world G)" and "\<And>w v k. c \<noteq> MembersAdd w v k"
    and "gateway_handle (logged_gateway G) locals u c (s, []) = (r, (t, wire))"
  shows "list_all (names_only (us_id u)) wire"
  using sendsD [OF route_names_caller [OF assms(1,2)] assms(3)] by simp

text \<open>
  An upstream failure keeps its status and its slug and nothing else: a response that is not
  successful becomes an exception whose body, as the exception filter builds it, has the
  upstream's status, the upstream's \<open>error\<close> slug or \<open>upstream_error\<close>, the upstream's \<open>message\<close>
  string or a fixed text, and no details.
\<close>

theorem upstream_failure_is_forwarded:
  assumes "buildUrl C path (uo_query opts) = Inr url"
    and "uc_fetch C (upstream_request url opts) s = (Inr response, t)" and "uc_read C response t = (Inr (), v)"
    and "\<not> response_ok response"
  shows "\<exists>e. request C path opts s = (Inl e, v) \<and>
     toErrorBody W status_name e i =
       \<lparr>eb_error = ''UpstreamError'',
        eb_message = nonempty_string (jget (tryParse response) ''message'') ''An internal service rejected the request.'',
        eb_status = rs_status response, eb_request_id = i,
        eb_code = Some (nonempty_string (jget (tryParse response) ''error'') ''upstream_error''), eb_details = None\<rparr>"
  using assms
  by (auto simp: request_def bnd_def catching_def check_def upstream_error_def Let_def toErrorBody_def typed_errors)

text \<open>
  A rejected service token never looks like a signed-out user: whatever the cloud capability
  service or the network does, the exception of the capabilities call is answered with neither 401
  nor 403, provided that reading a response fails only with errors of the platform.
\<close>

theorem capabilities_never_unauthorized:
  assumes "\<And>p s e t. uc_read C p s = (Inl e, t) \<Longrightarrow> \<exists>m. e = OtherError m"
    and "cloud_capabilities C token w ctx s = (Inl e, t)"
  shows "eb_status (toErrorBody W status_name e i) \<notin> {401, 403}"
proof -
  let ?path = "''/v1/workspaces/'' @ encode_uri_component w @ ''/cloud-capabilities''"
  let ?o = "\<lparr>uo_method = ''GET'', uo_query = [], uo_body = JUndef, uo_headers = cloud_headers token ctx True False\<rparr>"
  obtain e' where e': "request C ?path ?o s = (Inl e', t)"
    and e: "e = (if rejects_credentials e'
       then DependencyError ''Cloud capability service rejected the gateway credentials.'' else e')"
    using assms(2) by (auto simp: cloud_capabilities_def catching_def split: prod.splits sum.splits)
  from e' have "(\<exists>m. e' = OtherError m) \<or> e' = service_unavailable \<or> (\<exists>p. e' = upstream_error p) \<or>
      e' = DependencyError ''An internal service returned an unreadable response.''"
    by (auto simp: request_def bnd_Inl_iff buildUrl_def catching_def check_def parse_body_def Let_def dest: assms(1)
        split: option.splits if_splits prod.splits sum.splits)
  with e show ?thesis
    by (auto simp: toErrorBody_def typed_errors service_unavailable_def upstream_error_def rejects_credentials_def Let_def)
qed

section \<open>Witnesses\<close>

definition sample_response :: "nat \<Rightarrow> json \<Rightarrow> http_response" where
  "sample_response status v = \<lparr>rs_status = status, rs_text = ''x'', rs_json = Some v\<rparr>"

definition sample_upstream :: "nat \<Rightarrow> json \<Rightarrow> unit upstream" where
  "sample_upstream status v =
     \<lparr>uc_base = ''http://service'', uc_href = (\<lambda>u. Some u), uc_fetch = (\<lambda>q s. (Inr (sample_response status v), s)),
      uc_read = (\<lambda>p. ret ())\<rparr>"

definition sample_gateway :: "nat \<Rightarrow> json \<Rightarrow> unit gateway" where
  "sample_gateway status v =
     \<lparr>gw_world = sample_world, gw_is_uuid = (\<lambda>u. True), gw_workspace = sample_upstream status v,
      gw_cloud = sample_upstream status v, gw_token = ''t''\<rparr>"

definition sample_user :: request_user where
  "sample_user = \<lparr>us_id = ''u'', us_clerk = ''c'', us_email = Some ''e'', us_workspaces = [], us_roles = []\<rparr>"

definition sample_locals :: res_locals where
  "sample_locals = \<lparr>lc_request = JStr ''q'', lc_correlation = JUndef\<rparr>"

lemma sample_upstream_simps [simp]:
  "uc_base (sample_upstream n v) = ''http://service''" "uc_href (sample_upstream n v) u = Some u"
  "uc_fetch (sample_upstream n v) q s = (Inr (sample_response n v), s)" "uc_read (sample_upstream n v) p = ret ()"
  by (simp_all add: sample_upstream_def)

lemma sample_gateway_simps [simp]:
  "gw_world (sample_gateway n v) = sample_world" "gw_is_uuid (sample_gateway n v) u" "gw_workspace (sample_gateway n v) = sample_upstream n v"
  "gw_cloud (sample_gateway n v) = sample_upstream n v" "gw_token (sample_gateway n v) = ''t''"
  by (simp_all add: sample_gateway_def)

lemma sample_response_simps [simp]:
  "tryParse (sample_response n v) = v" "response_ok (sample_response n v) = (200 \<le> n \<and> n \<le> 299)" "rs_status (sample_response n v) = n"
  "parse_body (sample_response n v) =
     (if v = JUndef then Inl (DependencyError ''An internal service returned an unreadable response.'') else Inr v)"
  by (simp_all add: tryParse_def sample_response_def response_ok_def parse_body_def)

lemma sample_request:
  "request (logged (sample_upstream 200 v)) path opts ((), l) =
     (if v = JUndef then Inl (DependencyError ''An internal service returned an unreadable response.'')
      else Inr \<lparr>up_status = 200, up_body = v\<rparr>, ((), l @ [upstream_request (projr (buildUrl (sample_upstream 200 v) path (uo_query opts))) opts]))"
  by (simp add: request_def bnd_def catching_def buildUrl_def Let_def)

definition granted :: json where
  "granted = JObj [(''allowed'', JBool True)]"

lemma granted_parses: "zdoc fmt permissionResultSchema granted = Some granted"
  by (simp add: granted_def permissionResultSchema_def zdoc.simps object_doc_def shape_fields_def)

lemma granted_simps [simp]: "granted \<noteq> JUndef" "jget granted ''allowed'' = JBool True"
  by (simp_all add: granted_def)

theorem permission_checked_first_witness:
  "permission_granted sample_world (sample_upstream 200 granted) ''u'' ''w'' ''invitation'' ''list''
     (gatewayContext sample_locals sample_user None) ()"
proof -
  obtain r t wire where run: "gateway_handle (logged_gateway (sample_gateway 200 granted)) sample_locals sample_user
      (InvitationsList ''w'') ((), []) = (r, (t, wire))" by (metis prod_cases3)
  then have "\<not> isl r"
    by (auto simp: invitations_list_def parse_uuid_def allow_def assertAllowed_def checkPermission_def ws_call_def sample_request
        listInvitations_def send_def bnd_def Let_def sample_parse_def granted_parses)
  with permission_checked_first [OF _ run] show ?thesis by (auto simp: sample_user_def)
qed

theorem requests_speak_for_caller_witness:
  "\<exists>r t wire. gateway_handle (logged_gateway (sample_gateway 200 granted)) sample_locals sample_user
      (PermissionsCheck (JObj [(''user_id'', JStr ''victim'')])) ((), []) = (r, (t, wire)) \<and> list_all (names_only ''u'') wire"
proof -
  obtain r t wire where run: "gateway_handle (logged_gateway (sample_gateway 200 granted)) sample_locals sample_user
      (PermissionsCheck (JObj [(''user_id'', JStr ''victim'')])) ((), []) = (r, (t, wire))" by (metis prod_cases3)
  from requests_speak_for_caller [OF _ _ run] sample_documented run show ?thesis by (auto simp: sample_user_def)
qed

theorem upstream_failure_is_forwarded_witness:
  "\<exists>e. request (sample_upstream 409 (JObj [(''error'', JStr ''slug'')])) ''/p'' (permission_options ''u'' ''w'' ''r'' ''a''
       (gatewayContext sample_locals sample_user None)) () = (Inl e, ()) \<and>
     eb_status (toErrorBody sample_world (\<lambda>n. None) e ''i'') = 409 \<and> eb_code (toErrorBody sample_world (\<lambda>n. None) e ''i'') = Some ''slug''"
  using upstream_failure_is_forwarded [of "sample_upstream 409 (JObj [(''error'', JStr ''slug'')])" "''/p''"
      "permission_options ''u'' ''w'' ''r'' ''a'' (gatewayContext sample_locals sample_user None)" "''http://service/p''" "()"
      "sample_response 409 (JObj [(''error'', JStr ''slug'')])" "()" "()" sample_world "\<lambda>n. None" "''i''"]
  by (auto simp: buildUrl_def permission_options_def drop_slash_def given_params_def nonempty_string_def)

theorem capabilities_never_unauthorized_witness:
  "\<exists>e. cloud_capabilities (sample_upstream 401 JNull) ''t'' ''w'' (gatewayContext sample_locals sample_user None) () = (Inl e, ()) \<and>
     eb_status (toErrorBody sample_world (\<lambda>n. None) e ''i'') \<noteq> 401"
proof -
  obtain e where e: "cloud_capabilities (sample_upstream 401 JNull) ''t'' ''w'' (gatewayContext sample_locals sample_user None) () = (Inl e, ())"
    by (simp add: cloud_capabilities_def request_def bnd_def catching_def buildUrl_def Let_def check_def)
  from capabilities_never_unauthorized [OF _ e] e show ?thesis by fastforce
qed

end
