(* ===== verification/Routes.thy ===== *)
theory Routes
  imports Bootstrap Chat Gateway_Access
begin

text \<open>
  The routes on top of the orchestrator's own services: runs
  (\<open>routes/provisioning-runs.controller.ts\<close>), sessions (\<open>routes/sessions.controller.ts\<close>),
  workspaces (\<open>routes/workspaces.controller.ts\<close>), users (\<open>routes/users.controller.ts\<close>), and those
  that are not implemented yet (\<open>routes/approvals.controller.ts\<close>, \<open>routes/artifacts.controller.ts\<close>).
  The parameter pipes are part of each handler; of several invalid parameters the model reports
  the first.
\<close>

section \<open>Parameters\<close>

definition uuid_param :: "(string \<Rightarrow> bool) \<Rightarrow> string \<Rightarrow> string act" where
  "uuid_param is_uuid v = bnd (check (is_uuid v) (BadRequestException ''Validation failed (uuid is expected)'')) (\<lambda>_. ret v)"

definition body_param :: "env \<Rightarrow> zod \<Rightarrow> json \<Rightarrow> json act" where
  "body_param E schema v = lift_result (pipe_transform (base E) schema None (Some ''body'') v)"

definition query_param :: "env \<Rightarrow> zod \<Rightarrow> string \<Rightarrow> json \<Rightarrow> json act" where
  "query_param E schema name v = lift_result (pipe_transform (base E) schema (Some name) (Some ''query'') v)"

definition workspaceIdQuerySchema :: zod where
  "workspaceIdQuerySchema = zuuid"

definition workspace_param :: "env \<Rightarrow> json \<Rightarrow> string act" where
  "workspace_param E w = bnd (query_param E workspaceIdQuerySchema ''workspaceId'' w) (\<lambda>v. ret (str_of v))"

section \<open>Runs\<close>

definition createRunSchema :: zod where
  "createRunSchema = ZObj Strict
     [(''sessionId'', zuuid), (''prompt'', ZStr [SMin 1, SMax 20000]), (''idempotencyKey'', ZOpt (ZStr [SMin 1, SMax 255]))]"

definition confirmRunSchema :: zod where
  "confirmRunSchema = ZObj Strict [(''manifestVersion'', zs1), (''planVersion'', ZOpt zs1)]"

definition clarifyRunSchema :: zod where
  "clarifyRunSchema = ZObj Strict [(''answers'', ZRec ZUnknown), (''idempotencyKey'', ZOpt (ZStr [SMin 1, SMax 255]))]"

definition reviseRunSchema :: zod where
  "reviseRunSchema = ZObj Strict [(''prompt'', ZStr [STrim, SMin 1, SMax 20000])]"

definition sessionIdQuerySchema :: zod where
  "sessionIdQuerySchema = ZOpt zuuid"

definition runStatusQuerySchema :: zod where
  "runStatusQuerySchema = ZOpt (ZEnum (map state_label WORKFLOW_STATES))"

definition runs_create :: "env \<Rightarrow> request_user \<Rightarrow> json \<Rightarrow> json \<Rightarrow> run act" where
  "runs_create E user w v =
     bnd (workspace_param E w) (\<lambda>w. bnd (body_param E createRunSchema v) (\<lambda>dto.
     createRun E (str_of (jget dto ''sessionId'')) w (us_id user) (str_of (jget dto ''prompt'')) (js_str (jget dto ''idempotencyKey''))))"

definition runs_list :: "env \<Rightarrow> request_user \<Rightarrow> json \<Rightarrow> json \<Rightarrow> json \<Rightarrow> run list act" where
  "runs_list E user w session status =
     bnd (workspace_param E w) (\<lambda>w.
     bnd (query_param E sessionIdQuerySchema ''sessionId'' session) (\<lambda>session.
     bnd (query_param E runStatusQuerySchema ''status'' status) (\<lambda>status.
     listRuns E w (js_str session) (js_str status) (Some (us_id user)))))"

definition runs_get :: "env \<Rightarrow> (string \<Rightarrow> bool) \<Rightarrow> request_user \<Rightarrow> json \<Rightarrow> string \<Rightarrow> run act" where
  "runs_get E is_uuid user w i =
     bnd (workspace_param E w) (\<lambda>w. bnd (uuid_param is_uuid i) (\<lambda>i. getRun E i w (Some (us_id user))))"

definition runs_cancel :: "env \<Rightarrow> (string \<Rightarrow> bool) \<Rightarrow> request_user \<Rightarrow> json \<Rightarrow> string \<Rightarrow> run act" where
  "runs_cancel E is_uuid user w i =
     bnd (workspace_param E w) (\<lambda>w. bnd (uuid_param is_uuid i) (\<lambda>i. cancelRun E i w (us_id user)))"

definition runs_confirm :: "env \<Rightarrow> (string \<Rightarrow> bool) \<Rightarrow> request_user \<Rightarrow> json \<Rightarrow> string \<Rightarrow> json \<Rightarrow> run act" where
  "runs_confirm E is_uuid user w i v =
     bnd (workspace_param E w) (\<lambda>w. bnd (uuid_param is_uuid i) (\<lambda>i. bnd (body_param E confirmRunSchema v) (\<lambda>dto.
     confirmRun E i w (us_id user) (js_str (jget dto ''manifestVersion'')))))"

text \<open>The key of the header wins over the key of the body, and the merged body is validated again.\<close>

definition with_key :: "json \<Rightarrow> string option \<Rightarrow> json" where
  "with_key dto header =
     (let key = (case header of Some k \<Rightarrow> JStr k | None \<Rightarrow> jget dto ''idempotencyKey'')
      in if key = JUndef then spread dto [] else spread dto [(''idempotencyKey'', key)])"

definition runs_clarify :: "env \<Rightarrow> (string \<Rightarrow> bool) \<Rightarrow> request_user \<Rightarrow> json \<Rightarrow> string \<Rightarrow> json \<Rightarrow> string option \<Rightarrow> run act" where
  "runs_clarify E is_uuid user w i v header =
     bnd (workspace_param E w) (\<lambda>w. bnd (uuid_param is_uuid i) (\<lambda>i. bnd (body_param E clarifyRunSchema v) (\<lambda>dto.
     bnd (body_param E clarifyRunSchema (with_key dto header)) (\<lambda>validated.
     clarifyRun E i w (us_id user) (jget validated ''answers'') (js_str (jget validated ''idempotencyKey''))))))"

definition runs_revise :: "env \<Rightarrow> (string \<Rightarrow> bool) \<Rightarrow> request_user \<Rightarrow> json \<Rightarrow> string \<Rightarrow> json \<Rightarrow> run act" where
  "runs_revise E is_uuid user w i v =
     bnd (workspace_param E w) (\<lambda>w. bnd (uuid_param is_uuid i) (\<lambda>i. bnd (body_param E reviseRunSchema v) (\<lambda>dto.
     reviseRun E i w (us_id user) (str_of (jget dto ''prompt'')))))"

section \<open>Sessions\<close>

definition createSessionSchema :: zod where
  "createSessionSchema = ZObj Strict [(''workspaceId'', zuuid), (''title'', ZOpt (ZStr [SMin 1, SMax 200]))]"

definition paginationSchema :: zod where
  "paginationSchema = zobj
     [(''limit'', ZDefault (ZOpt (ZCoerceNum [NMin 1, NMax 100])) (JNum 50)),
      (''offset'', ZDefault (ZOpt (ZCoerceNum [NMin 0])) (JNum 0))]"

definition json_number :: "json \<Rightarrow> rat" where
  "json_number v = (case v of JNum n \<Rightarrow> n | _ \<Rightarrow> 0)"

text \<open>\<open>LIMIT\<close> and \<open>OFFSET\<close> take integers of 64 bits; the statement fails on any other number.\<close>

definition row_count_ok :: "rat \<Rightarrow> bool" where
  "row_count_ok n = (is_int n \<and> n < 2 ^ 63)"

definition sessions_list :: "env \<Rightarrow> request_user \<Rightarrow> json \<Rightarrow> json \<Rightarrow> chat_session list act" where
  "sessions_list E user w query =
     bnd (workspace_param E w) (\<lambda>w. bnd (lift_result (pipe_transform (base E) paginationSchema None (Some ''query'') query)) (\<lambda>page.
     let limit = json_number (jget page ''limit''); offset = json_number (jget page ''offset'') in
     bnd (check (row_count_ok limit \<and> row_count_ok offset) db_error) (\<lambda>_.
     listSessions E w (us_id user) (nat \<lfloor>limit\<rfloor>) (nat \<lfloor>offset\<rfloor>))))"

definition sessions_create :: "env \<Rightarrow> request_user \<Rightarrow> json \<Rightarrow> chat_session act" where
  "sessions_create E user v =
     bnd (body_param E createSessionSchema v) (\<lambda>dto.
     createSession E (str_of (jget dto ''workspaceId'')) (us_id user) (js_str (jget dto ''title'')))"

definition sessions_messages :: "env \<Rightarrow> (string \<Rightarrow> bool) \<Rightarrow> request_user \<Rightarrow> string \<Rightarrow> json \<Rightarrow> chat_message list act" where
  "sessions_messages E is_uuid user i w =
     bnd (uuid_param is_uuid i) (\<lambda>i. bnd (workspace_param E w) (\<lambda>w. listMessages E i w (us_id user)))"

definition sessions_get :: "env \<Rightarrow> (string \<Rightarrow> bool) \<Rightarrow> request_user \<Rightarrow> string \<Rightarrow> json \<Rightarrow> (chat_session \<times> chat_message list) act" where
  "sessions_get E is_uuid user i w =
     bnd (uuid_param is_uuid i) (\<lambda>i. bnd (workspace_param E w) (\<lambda>w.
     bnd (getSession E i w (us_id user)) (\<lambda>session.
     bnd (getMessagePreview E i w (us_id user)) (\<lambda>preview. ret (session, preview)))))"

definition sessions_remove :: "env \<Rightarrow> (string \<Rightarrow> bool) \<Rightarrow> request_user \<Rightarrow> string \<Rightarrow> json \<Rightarrow> unit act" where
  "sessions_remove E is_uuid user i w =
     bnd (uuid_param is_uuid i) (\<lambda>i. bnd (workspace_param E w) (\<lambda>w. deleteSession E i w (us_id user)))"

section \<open>Workspaces and users\<close>

text \<open>The avatars are pictographs beyond the characters of the model: no string of the model is one.\<close>

definition createWorkspaceSchema :: zod where
  "createWorkspaceSchema = ZObj Strict
     [(''name'', ZStr [SMin 3, SMax 64]), (''description'', ZOpt (ZStr [SMax 500])), (''avatar'', ZOpt (ZEnum [])),
      (''providers'', ZOpt (ZArr (ZEnum [''aws'', ''azure'', ''gcp'']) None (Some 3))),
      (''environment'', ZDefault (ZEnum [''development'', ''staging'', ''production'']) (JStr ''development''))]"

definition updateWorkspaceSchema :: zod where
  "updateWorkspaceSchema = ZObj Strict
     (map (map_prod id ZOpt) (filter (\<lambda>f. fst f \<notin> {''avatar'', ''providers''}) (zshape createWorkspaceSchema)))"

definition workspaces_list :: "env \<Rightarrow> string \<Rightarrow> request_user \<Rightarrow> json act" where
  "workspaces_list E backendUrl user = workspaces_of E backendUrl user None None"

definition workspaces_create :: "env \<Rightarrow> string \<Rightarrow> request_user \<Rightarrow> json \<Rightarrow> string option \<Rightarrow> json act" where
  "workspaces_create E backendUrl user v key =
     bnd (body_param E createWorkspaceSchema v) (\<lambda>dto. workspaces_of E backendUrl user (Some dto) key)"

definition workspaces_get :: "(string \<Rightarrow> bool) \<Rightarrow> string \<Rightarrow> unit act" where
  "workspaces_get is_uuid i = bnd (uuid_param is_uuid i) (\<lambda>_. throw (NotImplementedError ''Workspace retrieval''))"

definition workspaces_update :: "env \<Rightarrow> (string \<Rightarrow> bool) \<Rightarrow> string \<Rightarrow> json \<Rightarrow> unit act" where
  "workspaces_update E is_uuid i v =
     bnd (uuid_param is_uuid i) (\<lambda>_. bnd (body_param E updateWorkspaceSchema v) (\<lambda>_. throw (NotImplementedError ''Workspace update'')))"

definition workspaces_remove :: "(string \<Rightarrow> bool) \<Rightarrow> string \<Rightarrow> unit act" where
  "workspaces_remove is_uuid i = bnd (uuid_param is_uuid i) (\<lambda>_. throw (NotImplementedError ''Workspace deletion''))"

definition ensureSchema :: zod where
  "ensureSchema = ZObj Strict
     [(''name'', ZNullish (ZStr [SMax 255])), (''email'', ZNullish (ZStr [SMax 255])),
      (''avatarUrl'', ZNullish (ZStr [SMax 2048])), (''workspaceId'', ZNullish zuuid)]"

definition users_ensure :: "env \<Rightarrow> request_user \<Rightarrow> json \<Rightarrow> string option \<Rightarrow> json \<Rightarrow> ensured act" where
  "users_ensure E user v key correlation =
     bnd (body_param E ensureSchema v) (\<lambda>d.
     ensure E user \<lparr>ei_name = js_str (jget d ''name''), ei_avatar = js_str (jget d ''avatarUrl''),
                    ei_workspace = js_str (jget d ''workspaceId'')\<rparr> key
       (to_string (num_str (base E)) (coalesce correlation (JStr ''unknown''))))"

section \<open>Routes without an implementation\<close>

definition decideApprovalSchema :: zod where
  "decideApprovalSchema = ZRefine
     (ZObj Strict [(''decision'', ZEnum [''approved'', ''rejected'']), (''reason'', ZOpt (ZStr [STrim, SMin 1, SMax 1000]))])
     (\<lambda>v. \<not> (jget v ''decision'' = JStr ''rejected'' \<and> \<not> truthy (jget v ''reason'')))"

definition approvals_get :: "(string \<Rightarrow> bool) \<Rightarrow> string \<Rightarrow> unit act" where
  "approvals_get is_uuid i = bnd (uuid_param is_uuid i) (\<lambda>_. throw (NotImplementedError ''Approval ticket retrieval''))"

definition approvals_decide :: "env \<Rightarrow> (string \<Rightarrow> bool) \<Rightarrow> string \<Rightarrow> json \<Rightarrow> unit act" where
  "approvals_decide E is_uuid i v =
     bnd (uuid_param is_uuid i) (\<lambda>_. bnd (body_param E decideApprovalSchema v) (\<lambda>_. throw (NotImplementedError ''Approval decision'')))"

definition artifacts_list :: "(string \<Rightarrow> bool) \<Rightarrow> string \<Rightarrow> unit act" where
  "artifacts_list is_uuid i = bnd (uuid_param is_uuid i) (\<lambda>_. throw (NotImplementedError ''Artifact listing''))"

definition artifacts_download :: "(string \<Rightarrow> bool) \<Rightarrow> string \<Rightarrow> string \<Rightarrow> unit act" where
  "artifacts_download is_uuid i a =
     bnd (uuid_param is_uuid i) (\<lambda>_. bnd (uuid_param is_uuid a) (\<lambda>_. throw (NotImplementedError ''Artifact download'')))"

section \<open>Facts\<close>

lemma body_param_Inr:
  "body_param E z v s = (Inr d, t) \<longleftrightarrow> zparse (base E) z v = Inr d \<and> t = s"
  by (auto simp: body_param_def pipe_transform_def split: sum.splits)

lemma coerced_bound:
  assumes "zdoc fmt (ZDefault (ZOpt (ZCoerceNum cs)) (JNum d)) v = Some w" and "list_all (\<lambda>c. number_ok c d) cs"
  shows "list_all (\<lambda>c. number_ok c (json_number w)) cs"
  using assms by (auto simp: zdoc.simps json_number_def split: if_splits option.splits)

lemma page_bounds:
  assumes "zdoc fmt paginationSchema v = Some w"
  shows "1 \<le> json_number (jget w ''limit'') \<and> json_number (jget w ''limit'') \<le> 100 \<and> 0 \<le> json_number (jget w ''offset'')"
proof -
  have "zdoc fmt (ZDefault (ZOpt (ZCoerceNum [NMin 1, NMax 100])) (JNum 50)) (jget v ''limit'') = Some (jget w ''limit'')"
    "zdoc fmt (ZDefault (ZOpt (ZCoerceNum [NMin 0])) (JNum 0)) (jget v ''offset'') = Some (jget w ''offset'')"
    using assms unfolding paginationSchema_def by (auto elim!: zdoc_field)
  from coerced_bound [OF this(1)] coerced_bound [OF this(2)] show ?thesis by (simp add: number_ok_def)
qed

section \<open>Properties\<close>

text \<open>
  A page of sessions is bounded and private: whatever the query asks for, the route returns at
  most a hundred sessions, and every one of them is active and
  belongs to the caller in the workspace of the query.
\<close>

theorem session_page_is_bounded:
  assumes "zod_documented fmt (base E)" and "sessions_list E user w query s = (Inr xs, t)"
  shows "length xs \<le> 100 \<and>
     (\<forall>x \<in> set xs. ss_user x = us_id user \<and> JStr (ss_workspace x) = w \<and> ss_status x = Active)"
proof -
  from assms(2) obtain v page where v: "zparse (base E) zuuid w = Inr v" "zparse (base E) paginationSchema query = Inr page"
    and xs: "xs = map (with_runs (tables t)) (take (nat \<lfloor>json_number (jget page ''limit'')\<rfloor>) (drop (nat \<lfloor>json_number (jget page ''offset'')\<rfloor>)
        (sort_key (\<lambda>x. - cs_updated x) (filter (own_session (str_of v) (us_id user)) (sessions (tables t))))))"
    by (auto simp: sessions_list_def workspace_param_def query_param_def workspaceIdQuerySchema_def pipe_transform_def listSessions_def
        mnd Let_def split: sum.splits)
  from v assms(1) have "zdoc fmt paginationSchema query = Some page" "zdoc fmt zuuid w = Some v" by (simp_all add: zod_Inr)
  then have n: "json_number (jget page ''limit'') \<le> 100" and w: "w = v" "\<exists>x. v = JStr x"
    by (auto dest: page_bounds simp: zdoc.simps split: json.splits if_splits)
  from n have "nat \<lfloor>json_number (jget page ''limit'')\<rfloor> \<le> 100" by (simp add: nat_le_iff floor_le_iff)
  then have "length xs \<le> 100" by (simp add: xs)
  then show ?thesis
    using w by (auto simp: xs with_runs_def toSession_def own_session_def str_of_def dest!: in_set_takeD in_set_dropD)
qed

section \<open>Witnesses\<close>

theorem session_page_is_bounded_witness:
  "\<exists>xs t. sessions_list sample_env (sample_user\<lparr>us_id := ''u''\<rparr>) (JStr ''w'') (JObj [(''limit'', JNum 1)]) (sample_sys chat_db) = (Inr xs, t) \<and>
     length xs = 1 \<and> (\<forall>x \<in> set xs. ss_user x = ''u'')"
proof -
  let ?u = "sample_user\<lparr>us_id := ''u''\<rparr>"
  have p: "zdoc fmt paginationSchema (JObj [(''limit'', JNum 1)]) = Some (JObj [(''limit'', JNum 1), (''offset'', JNum 0)])" for fmt
    by (simp add: paginationSchema_def zdoc.simps object_doc_def shape_fields_def number_ok_def)
  have u: "zdoc (\<lambda>f s. s \<noteq> []) zuuid (JStr ''w'') = Some (JStr ''w'')" by (simp add: zdoc.simps)
  obtain r t where run: "sessions_list sample_env ?u (JStr ''w'') (JObj [(''limit'', JNum 1)]) (sample_sys chat_db) = (r, t)" by force
  then have "\<exists>xs. r = Inr xs \<and> length xs = 1"
    by (auto simp: sessions_list_def workspace_param_def query_param_def workspaceIdQuerySchema_def pipe_transform_def sample_parse_def
        p u bnd_def Let_def json_number_def row_count_ok_def is_int_def listSessions_def check_def chat_db_def own_session_def str_of_def sample_user_def)
  then obtain xs where xs: "r = Inr xs" "length xs = 1" by blast
  with session_page_is_bounded [of "\<lambda>f s. s \<noteq> []" sample_env ?u "JStr ''w''"] sample_documented run show ?thesis by force
qed

text \<open>
  A clarification posted without the query parameter \<open>workspaceId\<close> never reaches the run: the pipe refuses the
  request whatever its body. The web application posts its answers that way.
\<close>

theorem clarification_without_workspace_refused:
  assumes "zod_documented fmt (base E)"
  shows "\<exists>e. runs_clarify E is_uuid user JUndef i v header s = (Inl e, s)"
proof -
  have "zdoc fmt workspaceIdQuerySchema JUndef = None"
    by (simp add: workspaceIdQuerySchema_def zdoc.simps)
  then obtain issues where "zparse (base E) workspaceIdQuerySchema JUndef = Inl issues"
    using zod_None [OF assms] by blast
  then show ?thesis
    by (simp add: runs_clarify_def workspace_param_def query_param_def pipe_transform_def bnd_def)
qed

theorem clarification_without_workspace_refused_witness:
  "\<exists>e. runs_clarify sample_env (\<lambda>i. True) sample_user JUndef ''r'' (JObj []) None
     (sample_sys empty_db) = (Inl e, sample_sys empty_db)"
  by (rule clarification_without_workspace_refused) (simp, rule sample_documented)

end
