(* ===== verification/Live_Client.thy ===== *)
theory Live_Client
  imports Upstream
begin

text \<open>
  The browser's side of the event stream: the event types (\<open>frontend/lib/sse/types.ts\<close>), the event
  bus (\<open>frontend/lib/sse/event-bus.ts\<close>), the client with its reconnection
  (\<open>frontend/lib/sse/sse-client.ts\<close>) and its base URL (\<open>frontend/lib/orchestration/base-url.ts\<close>).
  The client is a state machine over the events of the platform: the calls of the application,
  the end of a wait for the token, the events of an event source, and the firing of a timer. Any
  interleaving of them is a run, that of several waits for a token included.
\<close>

section \<open>Events and the bus\<close>

definition SSE_EVENT_TYPES :: "string list" where
  "SSE_EVENT_TYPES =
     [''assistant_message'', ''component_payload'', ''run_state_changed'', ''tool_call_summary'', ''clarification_question'',
      ''error'', ''run_completed'', ''keepalive'']"

definition isSSEEventType :: "string option \<Rightarrow> bool" where
  "isSSEEventType v = (case v of Some t \<Rightarrow> t \<in> set SSE_EVENT_TYPES | None \<Rightarrow> False)"

record bus_event =
  be_type :: string
  be_id :: "string option"
  be_data :: json

text \<open>Handlers are numbered; those of a type form a set in order of registration.\<close>

type_synonym event_bus = "(string \<times> nat list) list"

definition bus_handlers :: "event_bus \<Rightarrow> string \<Rightarrow> nat list" where
  "bus_handlers bus t = (case map_of bus t of Some hs \<Rightarrow> hs | None \<Rightarrow> [])"

definition bus_on :: "string \<Rightarrow> nat \<Rightarrow> event_bus \<Rightarrow> event_bus" where
  "bus_on t h bus = AList.update t (List.insert h (bus_handlers bus t)) bus"

definition bus_off :: "string \<Rightarrow> nat \<Rightarrow> event_bus \<Rightarrow> event_bus" where
  "bus_off t h bus = AList.update t (removeAll h (bus_handlers bus t)) bus"

definition bus_emit :: "event_bus \<Rightarrow> bus_event \<Rightarrow> (nat \<times> bus_event) list" where
  "bus_emit bus e = map (\<lambda>h. (h, e)) (bus_handlers bus (be_type e))"

section \<open>Configuration\<close>

definition orchestrationBaseUrl :: "(string \<Rightarrow> string option) \<Rightarrow> exn + string" where
  "orchestrationBaseUrl vars =
     (if given (vars ''NEXT_PUBLIC_ORCHESTRATION_API_URL'') then Inr (the (vars ''NEXT_PUBLIC_ORCHESTRATION_API_URL''))
      else if vars ''NODE_ENV'' = Some ''development'' then Inr ''http://localhost:4000''
      else Inl (OtherError ''NEXT_PUBLIC_ORCHESTRATION_API_URL must be configured for client execution''))"

definition INITIAL_BACKOFF_MS :: nat where
  "INITIAL_BACKOFF_MS = 1000"

definition MAX_BACKOFF_MS :: nat where
  "MAX_BACKOFF_MS = 30000"

record sse_options =
  so_workspace :: string
  so_base :: "string option"
  so_vars :: "string \<Rightarrow> string option"
  so_initial :: nat
  so_max :: nat

section \<open>The client's state\<close>

datatype sse_status = Connecting | Connected | Reconnecting | Disconnected

record sse_snapshot =
  sn_status :: sse_status
  sn_last :: "string option"

text \<open>
  The fields of the class, then what the platform keeps for it: the waits for a token that
  \<open>openConnection\<close> has started and not finished, the event sources created and not closed with
  their URLs, the timers set and neither cleared nor fired with their delays, the next number for
  either; and what has come out: the events given to the bus and the snapshots given to listeners.
\<close>

record sse_client =
  c_es :: "nat option"
  c_timer :: "nat option"
  c_attempt :: nat
  c_stopped :: bool
  c_status :: sse_status
  c_last :: "string option"
  c_listeners :: "nat list"
  c_waiting :: nat
  c_sources :: "(nat \<times> string) list"
  c_timers :: "(nat \<times> nat) list"
  c_next :: nat
  c_emitted :: "bus_event list"
  c_notified :: "(nat \<times> sse_snapshot) list"

definition new_client :: sse_client where
  "new_client = \<lparr>c_es = None, c_timer = None, c_attempt = 0, c_stopped = True, c_status = Disconnected, c_last = None,
     c_listeners = [], c_waiting = 0, c_sources = [], c_timers = [], c_next = 0, c_emitted = [], c_notified = []\<rparr>"

definition getSnapshot :: "sse_client \<Rightarrow> sse_snapshot" where
  "getSnapshot c = \<lparr>sn_status = c_status c, sn_last = c_last c\<rparr>"

definition notify :: "sse_client \<Rightarrow> sse_client" where
  "notify c = c\<lparr>c_notified := c_notified c @ map (\<lambda>l. (l, getSnapshot c)) (c_listeners c)\<rparr>"

definition setStatus :: "sse_status \<Rightarrow> sse_client \<Rightarrow> sse_client" where
  "setStatus st c = (if c_status c = st then c else notify (c\<lparr>c_status := st\<rparr>))"

definition setLastEventId :: "string \<Rightarrow> sse_client \<Rightarrow> sse_client" where
  "setLastEventId i c = (if c_last c = Some i then c else notify (c\<lparr>c_last := Some i\<rparr>))"

definition subscribe :: "nat \<Rightarrow> sse_client \<Rightarrow> sse_client" where
  "subscribe l c = c\<lparr>c_listeners := (if l \<in> set (c_listeners c) then c_listeners c else c_listeners c @ [l]),
                    c_notified := c_notified c @ [(l, getSnapshot c)]\<rparr>"

definition unsubscribe :: "nat \<Rightarrow> sse_client \<Rightarrow> sse_client" where
  "unsubscribe l c = c\<lparr>c_listeners := removeAll l (c_listeners c)\<rparr>"

section \<open>Connecting\<close>

definition close_source :: "nat \<Rightarrow> sse_client \<Rightarrow> sse_client" where
  "close_source n c = c\<lparr>c_sources := filter (\<lambda>x. fst x \<noteq> n) (c_sources c)\<rparr>"

definition clear_timer :: "sse_client \<Rightarrow> sse_client" where
  "clear_timer c = (case c_timer c of None \<Rightarrow> c
     | Some n \<Rightarrow> c\<lparr>c_timer := None, c_timers := filter (\<lambda>x. fst x \<noteq> n) (c_timers c)\<rparr>)"

definition backoff :: "sse_options \<Rightarrow> nat \<Rightarrow> nat" where
  "backoff opts attempt = min (so_initial opts * 2 ^ min attempt 30) (so_max opts)"

definition scheduleReconnect :: "sse_options \<Rightarrow> sse_client \<Rightarrow> sse_client" where
  "scheduleReconnect opts c =
     (let c = setStatus Reconnecting c in
      c\<lparr>c_attempt := Suc (c_attempt c), c_timer := Some (c_next c),
        c_timers := c_timers c @ [(c_next c, backoff opts (c_attempt c))], c_next := Suc (c_next c)\<rparr>)"

text \<open>\<open>openConnection\<close> up to its wait for the token, and from there.\<close>

definition openConnection :: "sse_client \<Rightarrow> sse_client" where
  "openConnection c = (if c_stopped c then c else c\<lparr>c_waiting := Suc (c_waiting c)\<rparr>)"

definition sse_buildUrl :: "sse_options \<Rightarrow> string option \<Rightarrow> string \<Rightarrow> exn + string" where
  "sse_buildUrl opts last_id token =
     rbind (case so_base opts of Some u \<Rightarrow> Inr u | None \<Rightarrow> orchestrationBaseUrl (so_vars opts)) (\<lambda>u.
     Inr (u @ ''/v1/workspaces/'' @ encode_uri_component (so_workspace opts) @ ''/events?'' @
       search_params ([(''token'', token)] @ (if given last_id then [(''lastEventId'', the last_id)] else []))))"

text \<open>
  What ended the wait: a rejection, or a token or none; \<open>created\<close> tells whether the constructor of
  the event source returns.
\<close>

datatype token_outcome = TokenFailed | TokenReady "string option" bool

definition token_arrived :: "sse_options \<Rightarrow> token_outcome \<Rightarrow> sse_client \<Rightarrow> sse_client" where
  "token_arrived opts outcome c =
     (case outcome of
        TokenFailed \<Rightarrow> if c_stopped c then c else scheduleReconnect opts c
      | TokenReady token created \<Rightarrow>
          if c_stopped c then c
          else if \<not> given token then setStatus Disconnected (c\<lparr>c_stopped := True, c_attempt := 0\<rparr>)
          else (case sse_buildUrl opts (c_last c) (the token) of
                  Inl e \<Rightarrow> scheduleReconnect opts c
                | Inr url \<Rightarrow>
                    if \<not> created then scheduleReconnect opts c
                    else c\<lparr>c_es := Some (c_next c), c_sources := c_sources c @ [(c_next c, url)], c_next := Suc (c_next c)\<rparr>))"

definition sse_connect :: "sse_client \<Rightarrow> sse_client" where
  "sse_connect c = (if \<not> c_stopped c then c else openConnection (setStatus Connecting (c\<lparr>c_stopped := False\<rparr>)))"

definition sse_disconnect :: "sse_client \<Rightarrow> sse_client" where
  "sse_disconnect c =
     (let c = clear_timer (c\<lparr>c_stopped := True\<rparr>); c = c\<lparr>c_attempt := 0\<rparr>;
          c = (case c_es c of None \<Rightarrow> c | Some n \<Rightarrow> (close_source n c)\<lparr>c_es := None\<rparr>)
      in setStatus Disconnected c)"

section \<open>Messages\<close>

text \<open>A message of the platform; \<open>ev_json\<close> is the parsed data, \<open>None\<close> if it is no JSON.\<close>

record message_event =
  ev_type :: string
  ev_json :: "json option"
  ev_last_id :: string

definition has_key :: "json \<Rightarrow> string \<Rightarrow> bool" where
  "has_key v k = (k \<in> fst ` set (js_fields v))"

definition resolveEventType :: "message_event \<Rightarrow> json \<Rightarrow> string option" where
  "resolveEventType evt parsed =
     (if ev_type evt \<noteq> [] \<and> ev_type evt \<noteq> ''message'' then Some (ev_type evt)
      else if has_key parsed ''type'' then js_str (jget parsed ''type'') else None)"

definition unwrapData :: "json \<Rightarrow> json" where
  "unwrapData parsed = (if has_key parsed ''data'' then jget parsed ''data'' else parsed)"

definition parseSequenceId :: "string \<Rightarrow> int option" where
  "parseSequenceId raw = (case js_number raw of
     Some q \<Rightarrow> if is_int q \<and> \<bar>q\<bar> \<le> 2 ^ 53 - 1 then Some \<lfloor>q\<rfloor> else None | None \<Rightarrow> None)"

definition isDuplicateOrOld :: "string option \<Rightarrow> string \<Rightarrow> bool" where
  "isDuplicateOrOld last_id i =
     (if \<not> given last_id then False
      else if last_id = Some i then True
      else (case (parseSequenceId i, parseSequenceId (the last_id)) of
              (Some incoming, Some previous) \<Rightarrow> incoming \<le> previous | _ \<Rightarrow> False))"

definition emit :: "bus_event \<Rightarrow> sse_client \<Rightarrow> sse_client" where
  "emit e c = c\<lparr>c_emitted := c_emitted c @ [e]\<rparr>"

definition handleMessage :: "message_event \<Rightarrow> sse_client \<Rightarrow> sse_client" where
  "handleMessage evt c =
     (case ev_json evt of
        None \<Rightarrow> c
      | Some parsed \<Rightarrow>
          (let ty = resolveEventType evt parsed; i = (if ev_last_id evt \<noteq> [] then Some (ev_last_id evt) else None) in
           if \<not> isSSEEventType ty then c
           else if ty \<noteq> Some ''keepalive'' \<and> i \<noteq> None then
             (if isDuplicateOrOld (c_last c) (the i) then c
              else emit \<lparr>be_type = the ty, be_id = i, be_data = unwrapData parsed\<rparr> (setLastEventId (the i) c))
           else emit \<lparr>be_type = the ty, be_id = i, be_data = unwrapData parsed\<rparr> c))"

definition handleError :: "sse_options \<Rightarrow> nat \<Rightarrow> sse_client \<Rightarrow> sse_client" where
  "handleError opts n c =
     (let c = close_source n c; c = (if c_es c = Some n then c\<lparr>c_es := None\<rparr> else c)
      in if c_stopped c then c else scheduleReconnect opts c)"

section \<open>Runs\<close>

datatype client_event =
    Connect
  | Disconnect
  | Subscribe nat
  | Unsubscribe nat
  | TokenArrives token_outcome
  | SourceOpen nat
  | SourceMessage nat message_event
  | SourceError nat
  | TimerFires nat

text \<open>The handlers of \<open>onopen\<close>, \<open>onmessage\<close>, \<open>onerror\<close> and of the timer, and the methods.\<close>

fun client_handle :: "sse_options \<Rightarrow> client_event \<Rightarrow> sse_client \<Rightarrow> sse_client" where
  "client_handle opts Connect c = sse_connect c"
| "client_handle opts Disconnect c = sse_disconnect c"
| "client_handle opts (Subscribe l) c = subscribe l c"
| "client_handle opts (Unsubscribe l) c = unsubscribe l c"
| "client_handle opts (TokenArrives r) c = token_arrived opts r (c\<lparr>c_waiting := c_waiting c - 1\<rparr>)"
| "client_handle opts (SourceOpen n) c =
     (if c_es c \<noteq> Some n \<or> c_stopped c then c else setStatus Connected (c\<lparr>c_attempt := 0\<rparr>))"
| "client_handle opts (SourceMessage n evt) c =
     (if c_es c \<noteq> Some n \<or> c_stopped c then c else handleMessage evt c)"
| "client_handle opts (SourceError n) c = (if c_es c \<noteq> Some n then c else handleError opts n c)"
| "client_handle opts (TimerFires n) c =
     openConnection (c\<lparr>c_timer := None, c_timers := filter (\<lambda>x. fst x \<noteq> n) (c_timers c)\<rparr>)"

text \<open>What the platform can deliver: a closed source is silent and a cleared timer does not fire.\<close>

fun enabled :: "client_event \<Rightarrow> sse_client \<Rightarrow> bool" where
  "enabled (TokenArrives r) c = (0 < c_waiting c)"
| "enabled (SourceOpen n) c = (n \<in> fst ` set (c_sources c))"
| "enabled (SourceMessage n evt) c = (n \<in> fst ` set (c_sources c))"
| "enabled (SourceError n) c = (n \<in> fst ` set (c_sources c))"
| "enabled (TimerFires n) c = (n \<in> fst ` set (c_timers c))"
| "enabled _ c = True"

inductive client_runs :: "sse_options \<Rightarrow> client_event list \<Rightarrow> sse_client \<Rightarrow> bool" for opts where
  start: "client_runs opts [] new_client"
| step: "client_runs opts es c \<Longrightarrow> enabled e c \<Longrightarrow> client_runs opts (es @ [e]) (client_handle opts e c)"

inductive_cases client_runs_snocE: "client_runs opts (es @ [e]) c"
inductive_simps client_runs_Nil: "client_runs opts [] c"

section \<open>Invariants of every run\<close>

text \<open>The operations in terms of the fields: what \<open>setStatus\<close> and \<open>setLastEventId\<close> leave alone.\<close>

lemma setStatus_fields [simp]:
  "c_status (setStatus st c) = st" "c_es (setStatus st c) = c_es c" "c_stopped (setStatus st c) = c_stopped c"
  "c_attempt (setStatus st c) = c_attempt c" "c_timers (setStatus st c) = c_timers c" "c_timer (setStatus st c) = c_timer c"
  "c_sources (setStatus st c) = c_sources c" "c_last (setStatus st c) = c_last c" "c_emitted (setStatus st c) = c_emitted c"
  "c_next (setStatus st c) = c_next c" "c_waiting (setStatus st c) = c_waiting c"
  by (simp_all add: setStatus_def notify_def)

lemma setLastEventId_fields [simp]:
  "c_last (setLastEventId i c) = Some i" "c_status (setLastEventId i c) = c_status c" "c_es (setLastEventId i c) = c_es c"
  "c_stopped (setLastEventId i c) = c_stopped c" "c_attempt (setLastEventId i c) = c_attempt c"
  "c_timers (setLastEventId i c) = c_timers c" "c_timer (setLastEventId i c) = c_timer c"
  "c_sources (setLastEventId i c) = c_sources c" "c_emitted (setLastEventId i c) = c_emitted c"
  by (simp_all add: setLastEventId_def notify_def)

lemma handleMessage_fields [simp]:
  "c_status (handleMessage evt c) = c_status c" "c_es (handleMessage evt c) = c_es c"
  "c_stopped (handleMessage evt c) = c_stopped c" "c_attempt (handleMessage evt c) = c_attempt c"
  "c_timers (handleMessage evt c) = c_timers c" "c_timer (handleMessage evt c) = c_timer c"
  "c_sources (handleMessage evt c) = c_sources c"
  by (simp_all add: handleMessage_def emit_def Let_def split: option.split)

lemma openConnection_fields [simp]:
  "c_status (openConnection c) = c_status c" "c_es (openConnection c) = c_es c"
  "c_stopped (openConnection c) = c_stopped c" "c_attempt (openConnection c) = c_attempt c"
  "c_timers (openConnection c) = c_timers c" "c_timer (openConnection c) = c_timer c"
  "c_sources (openConnection c) = c_sources c" "c_emitted (openConnection c) = c_emitted c" "c_last (openConnection c) = c_last c"
  by (simp_all add: openConnection_def)

lemma scheduleReconnect_fields [simp]:
  "c_status (scheduleReconnect opts c) = Reconnecting" "c_es (scheduleReconnect opts c) = c_es c"
  "c_stopped (scheduleReconnect opts c) = c_stopped c" "c_attempt (scheduleReconnect opts c) = Suc (c_attempt c)"
  "c_timers (scheduleReconnect opts c) = c_timers c @ [(c_next c, backoff opts (c_attempt c))]"
  "c_timer (scheduleReconnect opts c) = Some (c_next c)" "c_sources (scheduleReconnect opts c) = c_sources c"
  "c_emitted (scheduleReconnect opts c) = c_emitted c" "c_last (scheduleReconnect opts c) = c_last c"
  by (simp_all add: scheduleReconnect_def)

lemma subscribe_fields [simp]:
  "c_status (subscribe l c) = c_status c" "c_es (subscribe l c) = c_es c" "c_stopped (subscribe l c) = c_stopped c"
  "c_attempt (subscribe l c) = c_attempt c" "c_timers (subscribe l c) = c_timers c" "c_timer (subscribe l c) = c_timer c"
  "c_sources (subscribe l c) = c_sources c" "c_emitted (subscribe l c) = c_emitted c" "c_last (subscribe l c) = c_last c"
  by (simp_all add: subscribe_def)

lemma unsubscribe_fields [simp]:
  "c_status (unsubscribe l c) = c_status c" "c_es (unsubscribe l c) = c_es c" "c_stopped (unsubscribe l c) = c_stopped c"
  "c_attempt (unsubscribe l c) = c_attempt c" "c_timers (unsubscribe l c) = c_timers c" "c_timer (unsubscribe l c) = c_timer c"
  "c_sources (unsubscribe l c) = c_sources c" "c_emitted (unsubscribe l c) = c_emitted c" "c_last (unsubscribe l c) = c_last c"
  by (simp_all add: unsubscribe_def)

text \<open>The effect of a disconnection, and of an error of the current source.\<close>

lemma sse_disconnect_fields [simp]:
  "c_status (sse_disconnect c) = Disconnected" "c_es (sse_disconnect c) = None" "c_stopped (sse_disconnect c)"
  "c_attempt (sse_disconnect c) = 0" "c_timer (sse_disconnect c) = None" "c_emitted (sse_disconnect c) = c_emitted c"
  "c_last (sse_disconnect c) = c_last c"
  "c_sources (sse_disconnect c) = filter (\<lambda>x. c_es c \<noteq> Some (fst x)) (c_sources c)"
  "c_timers (sse_disconnect c) = filter (\<lambda>x. c_timer c \<noteq> Some (fst x)) (c_timers c)"
  by (auto simp: sse_disconnect_def clear_timer_def close_source_def Let_def split: option.split intro: filter_cong)

lemma handleError_fields:
  assumes "c_es c = Some n"
  shows "handleError opts n c = (let d = (close_source n c)\<lparr>c_es := None\<rparr> in if c_stopped c then d else scheduleReconnect opts d)"
  using assms by (simp add: handleError_def close_source_def Let_def)

definition client_ok :: "sse_options \<Rightarrow> sse_client \<Rightarrow> bool" where
  "client_ok opts c =
     ((c_stopped c \<longleftrightarrow> c_status c = Disconnected) \<and>
      (c_status c = Connected \<longrightarrow> c_es c \<noteq> None) \<and>
      (c_stopped c \<longrightarrow> c_attempt c = 0) \<and>
      (\<forall>n. c_es c = Some n \<longrightarrow> n \<in> fst ` set (c_sources c)) \<and>
      (\<forall>n. c_timer c = Some n \<longrightarrow> n \<in> fst ` set (c_timers c)) \<and>
      (\<forall>(n, d) \<in> set (c_timers c). min (so_initial opts) (so_max opts) \<le> d \<and> d \<le> so_max opts))"

lemma backoff_bounds: "min (so_initial opts) (so_max opts) \<le> backoff opts k \<and> backoff opts k \<le> so_max opts"
proof -
  have "so_initial opts * 1 \<le> so_initial opts * 2 ^ min k 30" by (rule mult_le_mono2) simp
  then show ?thesis by (simp add: backoff_def min_le_iff_disj)
qed

lemma client_ok_new: "client_ok opts new_client"
  by (simp add: client_ok_def new_client_def)

lemma client_ok_scheduleReconnect:
  assumes "client_ok opts c" "\<not> c_stopped c"
  shows "client_ok opts (scheduleReconnect opts c)"
  using assms backoff_bounds [of opts "c_attempt c"] by (auto simp: client_ok_def)

lemma client_ok_token_arrived:
  assumes "client_ok opts c"
  shows "client_ok opts (token_arrived opts r c)"
proof (cases "c_stopped c")
  case True
  then show ?thesis using assms by (simp add: token_arrived_def split: token_outcome.split)
next
  case False
  have new: "client_ok opts (c\<lparr>c_es := Some (c_next c), c_sources := c_sources c @ [(c_next c, url)], c_next := Suc (c_next c)\<rparr>)" for url
    using assms by (auto simp: client_ok_def)
  have off: "client_ok opts (setStatus Disconnected (c\<lparr>c_stopped := True, c_attempt := 0\<rparr>))"
    using assms by (auto simp: client_ok_def)
  show ?thesis using False new off client_ok_scheduleReconnect [OF assms False]
    by (simp add: token_arrived_def split: token_outcome.split sum.split)
qed

lemma client_ok_handleError:
  assumes "client_ok opts c" "c_es c = Some n"
  shows "client_ok opts (handleError opts n c)"
  using assms backoff_bounds [of opts "c_attempt c"]
  by (auto simp: handleError_fields client_ok_def close_source_def Let_def)

lemma client_ok_handle:
  assumes "client_ok opts c"
  shows "client_ok opts (client_handle opts e c)"
proof (cases e)
  case Connect
  then show ?thesis using assms by (auto simp: sse_connect_def client_ok_def)
next
  case Disconnect
  then show ?thesis using assms by (auto simp: client_ok_def)
next
  case (Subscribe l)
  then show ?thesis using assms by (simp add: client_ok_def)
next
  case (Unsubscribe l)
  then show ?thesis using assms by (simp add: client_ok_def)
next
  case (TokenArrives r)
  have "client_ok opts (c\<lparr>c_waiting := c_waiting c - 1\<rparr>)" using assms by (simp add: client_ok_def)
  then show ?thesis using TokenArrives client_ok_token_arrived by simp
next
  case (SourceOpen n)
  then show ?thesis using assms by (auto simp: client_ok_def)
next
  case (SourceMessage n evt)
  then show ?thesis using assms by (auto simp: client_ok_def)
next
  case (SourceError n)
  then show ?thesis using assms client_ok_handleError by simp
next
  case (TimerFires n)
  then show ?thesis using assms by (auto simp: client_ok_def)
qed

lemma client_runs_ok: "client_runs opts es c \<Longrightarrow> client_ok opts c"
  by (induction rule: client_runs.induct) (simp_all add: client_ok_new client_ok_handle)

section \<open>Sequence numbers\<close>

text \<open>The sequence numbers of the events emitted so far, keep-alives and events without an id left out.\<close>

definition sequence_numbers :: "bus_event list \<Rightarrow> int list" where
  "sequence_numbers es =
     map (\<lambda>e. the (parseSequenceId (the (be_id e)))) (filter (\<lambda>e. be_type e \<noteq> ''keepalive'' \<and> be_id e \<noteq> None) es)"

lemma sequence_numbers_snoc:
  "sequence_numbers (es @ [e]) =
     sequence_numbers es @ (if be_type e \<noteq> ''keepalive'' \<and> be_id e \<noteq> None then [the (parseSequenceId (the (be_id e)))] else [])"
  by (simp add: sequence_numbers_def)

definition sequence_ok :: "sse_client \<Rightarrow> bool" where
  "sequence_ok c =
     (sorted_wrt (<) (sequence_numbers (c_emitted c)) \<and>
      (case c_last c of None \<Rightarrow> sequence_numbers (c_emitted c) = []
       | Some l \<Rightarrow> l \<noteq> [] \<and> (\<exists>m. parseSequenceId l = Some m \<and> (\<forall>k \<in> set (sequence_numbers (c_emitted c)). k \<le> m))))"

definition numbered :: "client_event \<Rightarrow> bool" where
  "numbered e = (case e of SourceMessage n evt \<Rightarrow> ev_last_id evt \<noteq> [] \<longrightarrow> parseSequenceId (ev_last_id evt) \<noteq> None | _ \<Rightarrow> True)"

lemma token_arrived_emits_nothing [simp]:
  "c_emitted (token_arrived opts r c) = c_emitted c" "c_last (token_arrived opts r c) = c_last c"
  by (simp_all add: token_arrived_def split: token_outcome.split sum.split)

lemma handleError_emits_nothing [simp]:
  "c_emitted (handleError opts n c) = c_emitted c" "c_last (handleError opts n c) = c_last c"
  by (simp_all add: handleError_def close_source_def Let_def)

lemma handle_emits_only_messages:
  assumes "\<And>n evt. e \<noteq> SourceMessage n evt"
  shows "c_emitted (client_handle opts e c) = c_emitted c" "c_last (client_handle opts e c) = c_last c"
  using assms by (cases e; simp add: sse_connect_def)+

lemma sequence_ok_snoc:
  assumes "sequence_ok c" "parseSequenceId i = Some m" "i \<noteq> []" "\<not> isDuplicateOrOld (c_last c) i"
    "ty \<noteq> ''keepalive''"
  shows "sequence_ok (emit \<lparr>be_type = ty, be_id = Some i, be_data = v\<rparr> (setLastEventId i c))"
proof -
  have "\<forall>k \<in> set (sequence_numbers (c_emitted c)). k < m"
  proof (cases "c_last c")
    case None
    then show ?thesis using assms(1) by (simp add: sequence_ok_def)
  next
    case (Some l)
    then obtain p where p: "l \<noteq> []" "parseSequenceId l = Some p" "\<forall>k \<in> set (sequence_numbers (c_emitted c)). k \<le> p"
      using assms(1) by (auto simp: sequence_ok_def)
    then have "p < m" using assms(2,4) Some by (simp add: isDuplicateOrOld_def given_def split: if_splits)
    then show ?thesis using p(3) by fastforce
  qed
  then show ?thesis using assms by (auto simp: sequence_ok_def emit_def sequence_numbers_snoc sorted_wrt_append)
qed

lemma sequence_ok_handleMessage:
  assumes "sequence_ok c" "ev_last_id evt \<noteq> [] \<longrightarrow> parseSequenceId (ev_last_id evt) \<noteq> None"
  shows "sequence_ok (handleMessage evt c)"
proof (cases "ev_json evt")
  case None
  then show ?thesis using assms(1) by (simp add: handleMessage_def)
next
  case (Some v)
  show ?thesis
  proof (cases "isSSEEventType (resolveEventType evt v)")
    case False
    then show ?thesis using assms(1) Some by (simp add: handleMessage_def Let_def)
  next
    case True
    then obtain ty where ty: "resolveEventType evt v = Some ty" by (auto simp: isSSEEventType_def split: option.splits)
    show ?thesis
    proof (cases "ty \<noteq> ''keepalive'' \<and> ev_last_id evt \<noteq> []")
      case True
      then obtain m where "parseSequenceId (ev_last_id evt) = Some m" using assms(2) by auto
      then show ?thesis using True ty \<open>isSSEEventType _\<close> Some assms(1) sequence_ok_snoc [of c "ev_last_id evt" m ty "unwrapData v"]
        by (simp add: handleMessage_def Let_def)
    next
      case False
      then show ?thesis using ty \<open>isSSEEventType _\<close> Some assms(1)
        by (auto simp: handleMessage_def Let_def emit_def sequence_ok_def sequence_numbers_snoc split: option.splits)
    qed
  qed
qed

lemma sequence_ok_handle:
  assumes "sequence_ok c" "numbered e"
  shows "sequence_ok (client_handle opts e c)"
proof (cases "\<exists>n evt. e = SourceMessage n evt")
  case True
  then show ?thesis using assms sequence_ok_handleMessage [of c] by (auto simp: numbered_def)
next
  case False
  then have "c_emitted (client_handle opts e c) = c_emitted c" "c_last (client_handle opts e c) = c_last c"
    using handle_emits_only_messages [of e opts c] by auto
  then show ?thesis using assms(1) by (simp only: sequence_ok_def)
qed

lemma client_runs_sequence_ok:
  "client_runs opts es c \<Longrightarrow> \<forall>e \<in> set es. numbered e \<Longrightarrow> sequence_ok c"
proof (induction rule: client_runs.induct)
  case start
  show ?case by (simp add: sequence_ok_def new_client_def sequence_numbers_def)
next
  case (step es c e)
  then show ?case using sequence_ok_handle by simp
qed

section \<open>The life cycle\<close>

text \<open>
  What the status promises a component that shows it: which events may move it, and where. The
  automaton knows nothing of sources, timers and tokens.
\<close>

inductive life :: "sse_status \<Rightarrow> client_event \<Rightarrow> sse_status \<Rightarrow> bool" where
  idle: "e \<noteq> Disconnect \<Longrightarrow> s = Disconnected \<longrightarrow> e \<noteq> Connect \<Longrightarrow> life s e s"
| connect: "life Disconnected Connect Connecting"
| disconnect: "life s Disconnect Disconnected"
| opened: "s \<noteq> Disconnected \<Longrightarrow> life s (SourceOpen n) Connected"
| broken: "s \<noteq> Disconnected \<Longrightarrow> life s (SourceError n) Reconnecting"
| refused: "s \<noteq> Disconnected \<Longrightarrow> life s (TokenArrives r) Reconnecting"
| signed_out: "s \<noteq> Disconnected \<Longrightarrow> \<not> given token \<Longrightarrow> life s (TokenArrives (TokenReady token created)) Disconnected"

inductive life_runs :: "client_event list \<Rightarrow> sse_status \<Rightarrow> bool" where
  life_start: "life_runs [] Disconnected"
| life_step: "life_runs es s \<Longrightarrow> life s e s' \<Longrightarrow> life_runs (es @ [e]) s'"

lemma life_token_arrived:
  assumes "client_ok opts c"
  shows "life (c_status c) (TokenArrives r) (c_status (token_arrived opts r c))"
proof (cases "c_stopped c")
  case True
  then have "token_arrived opts r c = c" by (simp add: token_arrived_def split: token_outcome.split)
  then show ?thesis by (simp add: life.idle)
next
  case False
  then have s: "c_status c \<noteq> Disconnected" using assms by (simp add: client_ok_def)
  show ?thesis
  proof (cases r)
    case TokenFailed
    then show ?thesis using False s by (simp add: token_arrived_def life.refused)
  next
    case (TokenReady token created)
    then show ?thesis using False s
      by (simp add: token_arrived_def life.refused life.signed_out life.idle split: sum.split)
  qed
qed

lemma life_handle:
  assumes "client_ok opts c"
  shows "life (c_status c) e (c_status (client_handle opts e c))"
proof (cases e)
  case Connect
  then show ?thesis using assms life.connect life.idle [of Connect "c_status c"] by (auto simp: sse_connect_def client_ok_def)
next
  case (TokenArrives r)
  have "client_ok opts (c\<lparr>c_waiting := c_waiting c - 1\<rparr>)" using assms by (simp add: client_ok_def)
  then show ?thesis using TokenArrives life_token_arrived by fastforce
next
  case (SourceOpen n)
  then show ?thesis using assms by (auto simp: client_ok_def intro: life.opened life.idle)
next
  case (SourceError n)
  then show ?thesis using assms
    by (auto simp: client_ok_def handleError_fields close_source_def Let_def intro: life.broken life.idle)
qed (auto intro: life.intros)

lemma client_runs_life: "client_runs opts es c \<Longrightarrow> life_runs es (c_status c)"
proof (induction rule: client_runs.induct)
  case start
  show ?case by (simp add: new_client_def life_start)
next
  case (step es c e)
  then show ?case using life_step life_handle client_runs_ok by blast
qed

section \<open>After a disconnection, and after an error\<close>

definition handle_all :: "sse_options \<Rightarrow> client_event list \<Rightarrow> sse_client \<Rightarrow> sse_client" where
  "handle_all opts es c = fold (client_handle opts) es c"

primrec possible :: "sse_options \<Rightarrow> client_event list \<Rightarrow> sse_client \<Rightarrow> bool" where
  "possible opts [] c = True"
| "possible opts (e # es) c = (enabled e c \<and> possible opts es (client_handle opts e c))"

lemma client_runs_append:
  "client_runs opts es c \<Longrightarrow> possible opts fs c \<Longrightarrow> client_runs opts (es @ fs) (handle_all opts fs c)"
proof (induction fs arbitrary: es c)
  case Nil
  then show ?case by (simp add: handle_all_def)
next
  case (Cons f fs)
  have "client_runs opts (es @ [f]) (client_handle opts f c)" using Cons.prems by (auto intro: client_runs.step)
  from Cons.IH [OF this] show ?case using Cons.prems(2) by (simp add: handle_all_def)
qed

lemma handle_while_stopped:
  assumes "c_stopped c" "c_status c = Disconnected" "c_es c = None" "e \<noteq> Connect"
  shows "c_stopped (client_handle opts e c) \<and> c_status (client_handle opts e c) = Disconnected \<and>
         c_es (client_handle opts e c) = None \<and> c_emitted (client_handle opts e c) = c_emitted c \<and>
         set (c_sources (client_handle opts e c)) \<subseteq> set (c_sources c)"
  using assms by (cases e) (auto simp: token_arrived_def split: token_outcome.split)

lemma handle_all_while_stopped:
  assumes "c_stopped c" "c_status c = Disconnected" "c_es c = None" "Connect \<notin> set es"
  shows "c_stopped (handle_all opts es c) \<and> c_status (handle_all opts es c) = Disconnected \<and>
         c_es (handle_all opts es c) = None \<and> c_emitted (handle_all opts es c) = c_emitted c \<and>
         set (c_sources (handle_all opts es c)) \<subseteq> set (c_sources c)"
  using assms
proof (induction es rule: rev_induct)
  case Nil
  then show ?case by (simp add: handle_all_def)
next
  case (snoc e es)
  then show ?case using handle_while_stopped [of "handle_all opts es c" e opts] by (auto simp: handle_all_def)
qed

text \<open>The events that lead from an error of the current source to a new connection.\<close>

definition recovery :: "nat \<Rightarrow> string \<Rightarrow> sse_client \<Rightarrow> client_event list" where
  "recovery n token c =
     [SourceError n, TimerFires (c_next c), TokenArrives (TokenReady (Some token) True), SourceOpen (Suc (c_next c))]"

section \<open>Properties\<close>

text \<open>
  C28. The sequence numbers of the events handed to the application strictly increase, whatever
  reconnections, replays and overlapping waits occur, if every message that has an id has a number for
  its id (a \<open>keepalive\<close> is no event of the conversation). No event is handled twice, or late.
\<close>
theorem sequence_numbers_increase:
  assumes "client_runs opts es c" "\<forall>e \<in> set es. numbered e"
  shows "sorted_wrt (<) (sequence_numbers (c_emitted c))"
  using client_runs_sequence_ok [OF assms] by (simp add: sequence_ok_def)

text \<open>
  C29. The client refines its life cycle: every run of it, over all its timers, sources and
  overlapping waits, shows statuses that the automaton \<open>life\<close> allows for the same events.
\<close>
theorem client_follows_life_cycle:
  assumes "client_runs opts es c"
  shows "life_runs es (c_status c)"
  using assms by (rule client_runs_life)


text \<open>
  After \<open>disconnect\<close>, and until the next \<open>connect\<close>, no interleaving of late tokens, timers and messages
  emits an event, opens an event source or leaves the status \<open>Disconnected\<close>.
\<close>
theorem disconnected_client_is_silent:
  assumes "client_runs opts es c" "Connect \<notin> set fs"
  shows "let d = handle_all opts (Disconnect # fs) c in
         c_status d = Disconnected \<and> c_emitted d = c_emitted c \<and> set (c_sources d) \<subseteq> set (c_sources c)"
proof -
  have "set (c_sources (sse_disconnect c)) \<subseteq> set (c_sources c)" by auto
  then show ?thesis using handle_all_while_stopped [of "sse_disconnect c" fs opts] assms(2)
    by (auto simp: handle_all_def Let_def)
qed


section \<open>Witnesses\<close>

definition sample_options :: sse_options where
  "sample_options = \<lparr>so_workspace = ''w'', so_base = Some ''http://h'', so_vars = (\<lambda>_. None),
     so_initial = INITIAL_BACKOFF_MS, so_max = MAX_BACKOFF_MS\<rparr>"

definition sample_message :: "string \<Rightarrow> message_event" where
  "sample_message i = \<lparr>ev_type = ''message'',
     ev_json = Some (JObj [(''type'', JStr ''assistant_message''), (''data'', JStr ''hi'')]), ev_last_id = i\<rparr>"

definition sample_events :: "client_event list" where
  "sample_events = [Connect, TokenArrives (TokenReady (Some ''t'') True), SourceOpen 0, SourceMessage 0 (sample_message ''7''),
     SourceMessage 0 (sample_message ''7'')]"

lemmas client_defs = handle_all_def new_client_def sse_connect_def openConnection_def token_arrived_def
  sse_buildUrl_def given_def

lemma runs_if_possible:
  assumes "possible opts es new_client"
  shows "client_runs opts es (handle_all opts es new_client)"
  using client_runs_append [OF client_runs.start assms] by simp

lemma seven: "parseSequenceId ''7'' = Some 7"
  by code_simp

lemma sample_possible: "possible sample_options sample_events new_client"
  by (simp add: sample_events_def client_defs sample_options_def)

lemma sample_run: "client_runs sample_options sample_events (handle_all sample_options sample_events new_client)"
  by (rule runs_if_possible) (rule sample_possible)

lemma sample_numbered: "\<forall>e \<in> set sample_events. numbered e"
  using seven by (simp add: sample_events_def numbered_def sample_message_def)

lemma sample_emitted: "sequence_numbers (c_emitted (handle_all sample_options sample_events new_client)) = [7]"
  by (simp add: sample_events_def client_defs sample_options_def sample_message_def handleMessage_def resolveEventType_def
        isSSEEventType_def SSE_EVENT_TYPES_def isDuplicateOrOld_def emit_def has_key_def sequence_numbers_def
        seven Let_def)

theorem sequence_numbers_increase_witness:
  "sorted_wrt (<) (sequence_numbers (c_emitted (handle_all sample_options sample_events new_client))) \<and>
   sequence_numbers (c_emitted (handle_all sample_options sample_events new_client)) = [7]"
  using sequence_numbers_increase [OF sample_run sample_numbered] sample_emitted by simp

theorem client_follows_life_cycle_witness:
  "life_runs sample_events (c_status (handle_all sample_options sample_events new_client))"
  by (rule client_follows_life_cycle [OF sample_run])

theorem disconnected_client_is_silent_witness:
  "let c = handle_all sample_options sample_events new_client;
       d = handle_all sample_options [Disconnect, TokenArrives (TokenReady (Some ''t'') True)] c
   in c_status d = Disconnected \<and> c_emitted d = c_emitted c \<and> set (c_sources d) \<subseteq> set (c_sources c)"
  using disconnected_client_is_silent [OF sample_run, of "[TokenArrives (TokenReady (Some ''t'') True)]"]
  by (simp add: Let_def)

lemma broken_run:
  "client_runs sample_options [Connect, TokenArrives TokenFailed]
     (handle_all sample_options [Connect, TokenArrives TokenFailed] new_client)"
  by (rule runs_if_possible) (simp add: client_defs)



section \<open>A leak\<close>

text \<open>
  Two connections overlap when the application disconnects and connects again while the first
  still waits for its token. Both waits then create a source, \<open>this.es\<close> keeps the second only, and
  the first stays open after the last \<open>disconnect\<close>: nothing refers to it any more.
\<close>

definition overlap :: "client_event list" where
  "overlap = [Connect, Disconnect, Connect, TokenArrives (TokenReady (Some ''t'') True),
     TokenArrives (TokenReady (Some ''t'') True), Disconnect]"

lemma superseded_source_leaks:
  "\<exists>c. client_runs sample_options overlap c \<and> c_stopped c \<and> c_es c = None \<and> c_sources c \<noteq> []"
proof -
  have "possible sample_options overlap new_client" by (simp add: overlap_def client_defs sample_options_def sse_disconnect_def clear_timer_def Let_def)
  moreover have "c_stopped (handle_all sample_options overlap new_client) \<and> c_es (handle_all sample_options overlap new_client) = None \<and>
      c_sources (handle_all sample_options overlap new_client) \<noteq> []"
    by (simp add: overlap_def client_defs sample_options_def sse_disconnect_def clear_timer_def close_source_def Let_def)
  ultimately show ?thesis using runs_if_possible by blast
qed

end
