(* ===== verification/Frontend_Shell.thy ===== *)
theory Frontend_Shell
  imports Live_Client
begin

text \<open>
  The shell of the web application: roles and the screens they reach
  (\<open>frontend/components/layout/permissions.ts\<close>), navigation (\<open>frontend/components/layout/nav-config.ts\<close>,
  \<open>frontend/components/layout/dashboard-shell.tsx\<close>), the redirections of the middleware
  (\<open>frontend/middleware.ts\<close>), and the registry of chat components with the resolution of a payload to
  one of them (\<open>frontend/components/registry/registry.ts\<close>, \<open>frontend/components/registry/dispatch.ts\<close>).
\<close>

section \<open>Roles and screens\<close>

datatype workspace_role = Admin | Engineer | Approver | Auditor | Viewer

definition role_text :: "workspace_role \<Rightarrow> string" where
  "role_text r = (case r of Admin \<Rightarrow> ''admin'' | Engineer \<Rightarrow> ''engineer'' | Approver \<Rightarrow> ''approver'' | Auditor \<Rightarrow> ''auditor''
                  | Viewer \<Rightarrow> ''viewer'')"

definition WORKSPACE_ROLES :: "workspace_role list" where
  "WORKSPACE_ROLES = [Admin, Engineer, Approver, Auditor, Viewer]"

datatype nav_screen = Chat | Dashboard | Cloud_Accounts | Team | Policy | Approvals | Resources | Audit | Billing

text \<open>\<open>None\<close> stands for \<open>"all"\<close>.\<close>

definition SCREEN_ACCESS :: "nav_screen \<Rightarrow> workspace_role list option" where
  "SCREEN_ACCESS s = (case s of
     Chat \<Rightarrow> Some [Engineer, Viewer] | Dashboard \<Rightarrow> None | Cloud_Accounts \<Rightarrow> Some [Engineer] | Team \<Rightarrow> Some [] | Policy \<Rightarrow> Some []
   | Approvals \<Rightarrow> Some [Approver] | Resources \<Rightarrow> Some [Engineer, Auditor] | Audit \<Rightarrow> Some [Auditor] | Billing \<Rightarrow> Some [])"

text \<open>\<open>isWorkspaceRole\<close> returns the role it has recognised.\<close>

definition isWorkspaceRole :: "json \<Rightarrow> workspace_role option" where
  "isWorkspaceRole v = (case v of JStr s \<Rightarrow> List.find (\<lambda>r. role_text r = s) WORKSPACE_ROLES | _ \<Rightarrow> None)"

definition canAccessScreen :: "workspace_role option \<Rightarrow> nav_screen \<Rightarrow> bool" where
  "canAccessScreen role screen =
     (case role of
        None \<Rightarrow> screen = Dashboard
      | Some r \<Rightarrow> if r = Admin then True
                  else (case SCREEN_ACCESS screen of None \<Rightarrow> True | Some allowed \<Rightarrow> r \<in> set allowed))"

section \<open>Navigation\<close>

record nav_item =
  ni_label :: string
  ni_href :: string
  ni_screen :: nav_screen
  ni_match :: "string list option"

definition nav_entry :: "string \<Rightarrow> string \<Rightarrow> nav_screen \<Rightarrow> nav_item" where
  "nav_entry label href screen = \<lparr>ni_label = label, ni_href = href, ni_screen = screen, ni_match = None\<rparr>"

definition PRIMARY_NAV :: "nav_item list" where
  "PRIMARY_NAV =
     [nav_entry ''Chat'' ''/chat'' Chat, nav_entry ''Dashboard'' ''/dashboard'' Dashboard,
      nav_entry ''Cloud Accounts'' ''/workspace/cloud-accounts'' Cloud_Accounts, nav_entry ''Team'' ''/workspace/team'' Team,
      nav_entry ''Policy'' ''/policy'' Policy]"

definition SECONDARY_NAV :: "nav_item list" where
  "SECONDARY_NAV =
     [nav_entry ''Approvals'' ''/approvals'' Approvals, nav_entry ''Resources'' ''/resources'' Resources,
      nav_entry ''Audit'' ''/audit'' Audit, nav_entry ''Billing'' ''/workspace/billing'' Billing]"

definition ALL_NAV_ITEMS :: "nav_item list" where
  "ALL_NAV_ITEMS = PRIMARY_NAV @ SECONDARY_NAV"

definition isNavItemActive :: "nav_item \<Rightarrow> string \<Rightarrow> bool" where
  "isNavItemActive i pathname =
     list_ex (\<lambda>p. if ni_href i = ''/dashboard'' \<or> ni_href i = ''/chat'' then pathname = p
                  else pathname = p \<or> starts_with (p @ ''/'') pathname)
       (case ni_match i of Some ps \<Rightarrow> ps | None \<Rightarrow> [ni_href i])"

definition visible_nav :: "workspace_role option \<Rightarrow> nav_item list" where
  "visible_nav role = filter (\<lambda>i. canAccessScreen role (ni_screen i)) PRIMARY_NAV @
                      filter (\<lambda>i. canAccessScreen role (ni_screen i)) SECONDARY_NAV"

section \<open>The middleware\<close>

text \<open>
  The route matchers come from a library: parameters that tell of a path whether it is public and
  whether it belongs to onboarding. A session is absent or has its claims.
\<close>

datatype page_outcome = Proceed | ToSignIn | RedirectTo string

record page_routes =
  pr_public :: "string \<Rightarrow> bool"
  pr_onboarding :: "string \<Rightarrow> bool"

definition has_workspace :: "json \<Rightarrow> bool" where
  "has_workspace claims = truthy (jget (jget claims ''metadata'') ''workspaceId'')"

definition with_clerk :: "page_routes \<Rightarrow> json option \<Rightarrow> string \<Rightarrow> page_outcome" where
  "with_clerk R session pathname =
     (if starts_with ''/api'' pathname then Proceed
      else case session of
        None \<Rightarrow> if \<not> pr_public R pathname then ToSignIn else Proceed
      | Some claims \<Rightarrow>
          if \<not> has_workspace claims \<and> \<not> pr_onboarding R pathname \<and> \<not> pr_public R pathname then RedirectTo ''/onboarding''
          else if has_workspace claims \<and> starts_with ''/onboarding'' pathname then RedirectTo ''/dashboard''
          else Proceed)"

definition middleware :: "(string \<Rightarrow> string option) \<Rightarrow> page_routes \<Rightarrow> json option \<Rightarrow> string \<Rightarrow> page_outcome" where
  "middleware vars R session pathname =
     (if \<not> given (vars ''NEXT_PUBLIC_CLERK_PUBLISHABLE_KEY'') \<or> \<not> given (vars ''CLERK_SECRET_KEY'') then Proceed
      else with_clerk R session pathname)"

section \<open>The component registry\<close>

text \<open>
  A component is what its entry says: a schema, a version, a React component (any value here) and
  perhaps a migration, which throws an \<open>Error\<close> with a message or something else.
\<close>

record 'c registry_entry =
  rg_type :: string
  rg_version :: string
  rg_schema :: zod
  rg_component :: 'c
  rg_migrate :: "(json \<Rightarrow> string \<Rightarrow> string option + json) option"

type_synonym 'c registry = "(string \<times> 'c registry_entry) list"

definition registry_get :: "'c registry \<Rightarrow> string \<Rightarrow> 'c registry_entry option" where
  "registry_get entries t = map_of entries t"

definition registry_has :: "'c registry \<Rightarrow> string \<Rightarrow> bool" where
  "registry_has entries t = (map_of entries t \<noteq> None)"

definition in_quotes :: "string \<Rightarrow> string" where
  "in_quotes s = [char_of (34 :: nat)] @ s @ [char_of (34 :: nat)]"

definition registry_register :: "'c registry_entry \<Rightarrow> 'c registry \<Rightarrow> exn + 'c registry" where
  "registry_register entry entries =
     (if registry_has entries (rg_type entry)
      then Inl (OtherError (''Component type '' @ in_quotes (rg_type entry) @ '' is already registered.''))
      else Inr (entries @ [(rg_type entry, entry)]))"

section \<open>The resolution of a payload\<close>

record payload_issue =
  pi_field :: string
  pi_message :: string

datatype invalid_reason = BadSchema | BadVersion

datatype 'c dispatch_result =
    Unknown string
  | Invalid string invalid_reason "payload_issue list"
  | Render string 'c json

definition componentPayloadEnvelopeSchema :: zod where
  "componentPayloadEnvelopeSchema = zobj [(''type'', zs1), (''version'', zs1), (''requestId'', zs1), (''data'', ZUnknown)]"

definition payload_issues :: "world \<Rightarrow> zissue list \<Rightarrow> payload_issue list" where
  "payload_issues W issues = map (\<lambda>i. let f = join_values (num_str W) ''.'' (zpath i) in
     \<lparr>pi_field = (if f \<noteq> [] then f else ''(root)''), pi_message = zmessage i\<rparr>) issues"

definition raw_type :: "world \<Rightarrow> json \<Rightarrow> string" where
  "raw_type W rawPayload =
     (if has_key rawPayload ''type'' \<and> truthy (jget rawPayload ''type'')
      then to_string (num_str W) (jget rawPayload ''type'') else ''unknown'')"

text \<open>\<open>/^\d+\.\d+$/\<close>.\<close>

definition short_version :: "string \<Rightarrow> bool" where
  "short_version v = (case split_on (CHR ''.'') v of
     [a, b] \<Rightarrow> a \<noteq> [] \<and> b \<noteq> [] \<and> list_all is_digit a \<and> list_all is_digit b | _ \<Rightarrow> False)"

definition same_version :: "string \<Rightarrow> string \<Rightarrow> bool" where
  "same_version expected received = (received = expected \<or> short_version expected \<and> received = expected @ ''.0'')"

definition render_parsed :: "world \<Rightarrow> 'c registry_entry \<Rightarrow> string \<Rightarrow> json \<Rightarrow> 'c dispatch_result" where
  "render_parsed W entry t v =
     (case zparse W (rg_schema entry) v of
        Inl issues \<Rightarrow> Invalid t BadSchema (payload_issues W issues)
      | Inr d \<Rightarrow> Render t (rg_component entry) d)"

definition resolvePayload :: "world \<Rightarrow> 'c registry \<Rightarrow> json \<Rightarrow> 'c dispatch_result" where
  "resolvePayload W entries rawPayload =
     (case zparse W componentPayloadEnvelopeSchema rawPayload of
        Inl issues \<Rightarrow> Invalid (raw_type W rawPayload) BadSchema (payload_issues W issues)
      | Inr payload \<Rightarrow>
          (let t = str_of (jget payload ''type''); received = str_of (jget payload ''version'') in
           case registry_get entries t of
             None \<Rightarrow> Unknown t
           | Some entry \<Rightarrow>
               if same_version (rg_version entry) received then render_parsed W entry t (jget payload ''data'')
               else (case rg_migrate entry of
                  None \<Rightarrow> Invalid t BadVersion [\<lparr>pi_field = ''version'', pi_message =
                    ''Expected version '' @ in_quotes (rg_version entry) @ '', received '' @ in_quotes received @ ''.''\<rparr>]
                | Some migrate \<Rightarrow>
                    (case migrate (jget payload ''data'') received of
                       Inl msg \<Rightarrow> Invalid t BadVersion [\<lparr>pi_field = ''migration'', pi_message =
                         (case msg of Some m \<Rightarrow> m | None \<Rightarrow> ''Migration failed'')\<rparr>]
                     | Inr migrated \<Rightarrow> render_parsed W entry t migrated))))"

section \<open>Facts\<close>

lemma isWorkspaceRole_iff: "isWorkspaceRole v = Some r \<longleftrightarrow> v = JStr (role_text r)"
  by (cases v; cases r) (auto simp: isWorkspaceRole_def WORKSPACE_ROLES_def role_text_def)

lemma render_parsed_Render:
  "zod_documented fmt W \<Longrightarrow> render_parsed W entry t v = Render u cmp d \<Longrightarrow>
   u = t \<and> cmp = rg_component entry \<and> zdoc fmt (rg_schema entry) v = Some d"
  by (auto simp: render_parsed_def zod_Inr split: sum.splits)

lemma registry_register_get:
  "registry_register entry entries = Inr entries' \<Longrightarrow>
   registry_get entries' t = (if t = rg_type entry then Some entry else registry_get entries t)"
  by (auto simp: registry_register_def registry_has_def registry_get_def map_add_def split: if_splits option.splits)

inductive registered :: "'c registry \<Rightarrow> bool" where
  empty_registry: "registered []"
| register: "registered es \<Longrightarrow> registry_register entry es = Inr es' \<Longrightarrow> registered es'"

lemma registered_type: "registered es \<Longrightarrow> registry_get es t = Some entry \<Longrightarrow> rg_type entry = t"
proof (induction rule: registered.induct)
  case empty_registry
  then show ?case by (simp add: registry_get_def)
next
  case (register es e es')
  then show ?case by (auto simp: registry_register_get [OF register.hyps(2)] split: if_splits)
qed

lemma envelope_fields:
  assumes "zdoc fmt componentPayloadEnvelopeSchema raw = Some payload"
  shows "jget payload ''type'' = jget raw ''type'' \<and> jget payload ''version'' = jget raw ''version'' \<and>
         jget payload ''data'' = jget raw ''data'' \<and>
         (\<exists>t v. jget raw ''type'' = JStr t \<and> jget raw ''version'' = JStr v \<and> t \<noteq> [] \<and> v \<noteq> [])"
proof -
  have f: "zdoc fmt s (jget raw k) = Some (jget payload k)"
    if "(k, s) \<in> set [(''type'', zs1), (''version'', zs1), (''requestId'', zs1), (''data'', ZUnknown)]" for k s
    using assms that zdoc_field [of fmt Strip] by (fastforce simp: componentPayloadEnvelopeSchema_def)
  have t: "zdoc fmt zs1 (jget raw ''type'') = Some (jget payload ''type'')" by (rule f) simp
  have v: "zdoc fmt zs1 (jget raw ''version'') = Some (jget payload ''version'')" by (rule f) simp
  have d: "zdoc fmt ZUnknown (jget raw ''data'') = Some (jget payload ''data'')" by (rule f) simp
  show ?thesis using t v d by (auto simp: zdoc.simps split: json.splits if_splits)
qed

section \<open>Properties\<close>

text \<open>
  C27. A component only ever sees data that its schema accepts: when a payload renders, its type is
  the payload's, registered, and shown by the component registered under it, and the data is what the
  entry's schema makes of the payload's own data, if the versions agree (a version \<open>a.b\<close> also agrees
  with \<open>a.b.0\<close>), or else of what the entry's migration makes of it for the received version.
\<close>
theorem rendered_payload_is_valid:
  assumes "zod_documented fmt W" "registered entries" "resolvePayload W entries raw = Render t cmp d"
  shows "\<exists>entry received v. jget raw ''type'' = JStr t \<and> registry_get entries t = Some entry \<and> rg_type entry = t \<and>
     cmp = rg_component entry \<and> jget raw ''version'' = JStr received \<and> zdoc fmt (rg_schema entry) v = Some d \<and>
     (if same_version (rg_version entry) received then v = jget raw ''data''
      else \<exists>migrate. rg_migrate entry = Some migrate \<and> migrate (jget raw ''data'') received = Inr v)"
proof -
  obtain payload where p: "zparse W componentPayloadEnvelopeSchema raw = Inr payload"
    using assms(3) by (auto simp: resolvePayload_def split: sum.splits)
  then have e: "zdoc fmt componentPayloadEnvelopeSchema raw = Some payload" by (simp add: zod_Inr [OF assms(1)])
  from envelope_fields [OF this] obtain t' received where f: "jget payload ''type'' = JStr t'" "jget payload ''version'' = JStr received"
    "jget payload ''data'' = jget raw ''data''" "jget raw ''type'' = JStr t'" "jget raw ''version'' = JStr received" by auto
  then obtain entry where g: "registry_get entries t' = Some entry"
    using assms(3) p by (auto simp: resolvePayload_def str_of_def split: option.splits)
  have r: "(if same_version (rg_version entry) received then render_parsed W entry t' (jget payload ''data'')
      else (case rg_migrate entry of
          None \<Rightarrow> Invalid t' BadVersion [\<lparr>pi_field = ''version'', pi_message =
            ''Expected version '' @ in_quotes (rg_version entry) @ '', received '' @ in_quotes received @ ''.''\<rparr>]
        | Some migrate \<Rightarrow> (case migrate (jget payload ''data'') received of
            Inl msg \<Rightarrow> Invalid t' BadVersion [\<lparr>pi_field = ''migration'', pi_message =
              (case msg of Some m \<Rightarrow> m | None \<Rightarrow> ''Migration failed'')\<rparr>]
          | Inr migrated \<Rightarrow> render_parsed W entry t' migrated))) = Render t cmp d"
    using assms(3) p f g by (simp add: resolvePayload_def str_of_def)
  from r [unfolded f(3)] obtain v where v: "render_parsed W entry t' v = Render t cmp d"
    "if same_version (rg_version entry) received then v = jget raw ''data''
      else \<exists>migrate. rg_migrate entry = Some migrate \<and> migrate (jget raw ''data'') received = Inr v"
    by (auto split: if_splits option.splits sum.splits)
  show ?thesis using render_parsed_Render [OF assms(1) v(1)] v(2) f g registered_type [OF assms(2) g] by auto
qed

text \<open>
  Pages are for signed-in members, and redirections settle: with authentication configured, a
  page that is neither public nor an API route proceeds only with a session, and outside onboarding only with
  a workspace; and where the middleware redirects, the page it redirects to proceeds for the same
  session, so no session is sent in a circle.
\<close>
theorem pages_are_guarded:
  assumes "given (vars ''NEXT_PUBLIC_CLERK_PUBLISHABLE_KEY'')" "given (vars ''CLERK_SECRET_KEY'')"
    "pr_onboarding R ''/onboarding''"
  shows "(middleware vars R session p = Proceed \<and> \<not> starts_with ''/api'' p \<and> \<not> pr_public R p \<longrightarrow>
      (\<exists>claims. session = Some claims \<and> (has_workspace claims \<or> pr_onboarding R p))) \<and>
    (\<forall>q. middleware vars R session p = RedirectTo q \<longrightarrow> middleware vars R session q = Proceed)"
  using assms
  by (auto simp: middleware_def with_clerk_def starts_with_def split: option.splits if_splits)

section \<open>Witnesses\<close>

definition sample_entry :: "nat registry_entry" where
  "sample_entry = \<lparr>rg_type = ''note'', rg_version = ''1.0'', rg_schema = zobj [(''text'', zs)], rg_component = 3, rg_migrate = None\<rparr>"

definition sample_payload :: json where
  "sample_payload = JObj [(''type'', JStr ''note''), (''version'', JStr ''1.0.0''), (''requestId'', JStr ''r''),
     (''data'', JObj [(''text'', JStr ''hi''), (''extra'', JNull)])]"

lemma sample_registered: "registered [(''note'', sample_entry)]"
  by (rule register [OF empty_registry, of sample_entry]) (simp add: registry_register_def registry_has_def sample_entry_def)

lemma sample_resolved:
  "resolvePayload sample_world [(''note'', sample_entry)] sample_payload = Render ''note'' 3 (JObj [(''text'', JStr ''hi'')])"
  by code_simp

theorem rendered_payload_is_valid_witness:
  "\<exists>entry. registry_get [(''note'', sample_entry)] ''note'' = Some entry \<and> (3 :: nat) = rg_component entry"
  using rendered_payload_is_valid [OF sample_documented sample_registered sample_resolved] by auto

definition sample_pages :: page_routes where
  "sample_pages = \<lparr>pr_public = (\<lambda>p. p = ''/''), pr_onboarding = (\<lambda>p. p = ''/onboarding'')\<rparr>"

theorem pages_are_guarded_witness:
  "middleware (\<lambda>_. Some ''k'') sample_pages (Some JNull) ''/chat'' = RedirectTo ''/onboarding'' \<and>
   middleware (\<lambda>_. Some ''k'') sample_pages (Some JNull) ''/onboarding'' = Proceed"
proof -
  have "middleware (\<lambda>_. Some ''k'') sample_pages (Some JNull) ''/chat'' = RedirectTo ''/onboarding''"
    by code_simp
  then show ?thesis
    using pages_are_guarded [of "\<lambda>_. Some ''k''" sample_pages "Some JNull" "''/chat''"] by (simp add: given_def sample_pages_def)
qed

end
