(* ===== verification/Frontend_Accounts.thy ===== *)
theory Frontend_Accounts
  imports Frontend_Shell "HOL-Library.Word"
begin

text \<open>
  Cloud accounts in the web application: the card of an account and the errors
  (\<open>frontend/lib/cloud-accounts/types.ts\<close>), the browser's client (\<open>frontend/lib/cloud-accounts/client.ts\<close>),
  the server's proxy to the orchestrator (\<open>frontend/lib/cloud-accounts/server.ts\<close>) with its routes
  (\<open>frontend/app/api/cloud-accounts\<close>), and the AWS onboarding helpers
  (\<open>frontend/lib/cloud-accounts/aws-template.ts\<close>).
\<close>

section \<open>Accounts\<close>

datatype card_state = CardActive | CardPending | CardFailed | CardDisconnected | CardNotConnected

text \<open>The account's \<open>status\<close>, of any backend; no account is \<open>None\<close>.\<close>

definition cardStateFor :: "string option \<Rightarrow> card_state" where
  "cardStateFor status =
     (case status of
        None \<Rightarrow> CardNotConnected
      | Some s \<Rightarrow> if s = ''active'' then CardActive else if s = ''pending'' then CardPending
                  else if s = ''failed'' then CardFailed else if s = ''disconnected'' then CardDisconnected else CardPending)"

record provider_meta =
  pm_id :: string
  pm_name :: string
  pm_description :: string
  pm_connectable :: bool
  pm_coming_soon :: "string option"

definition PROVIDER_META :: "(string \<times> provider_meta) list" where
  "PROVIDER_META =
     [(''aws'', \<lparr>pm_id = ''aws'', pm_name = ''Amazon Web Services'',
        pm_description = ''Connect an AWS account using a delegated IAM role.'', pm_connectable = True, pm_coming_soon = None\<rparr>),
      (''azure'', \<lparr>pm_id = ''azure'', pm_name = ''Microsoft Azure'',
        pm_description = ''Connect an Azure subscription using a managed application.'', pm_connectable = False,
        pm_coming_soon = Some ''Coming soon''\<rparr>),
      (''gcp'', \<lparr>pm_id = ''gcp'', pm_name = ''Google Cloud'',
        pm_description = ''Connect a GCP project using workload identity federation.'', pm_connectable = False,
        pm_coming_soon = Some ''Coming soon''\<rparr>)]"

definition CLOUD_PROVIDERS :: "string list" where
  "CLOUD_PROVIDERS = [''aws'', ''azure'', ''gcp'']"

section \<open>The browser's client\<close>

datatype client_error =
    CloudAccountError string nat "string option"
  | ErrorObject string
  | OtherThrown

definition isCloudAccountError :: "client_error \<Rightarrow> bool" where
  "isCloudAccountError e = (case e of CloudAccountError m st c \<Rightarrow> True | _ \<Rightarrow> False)"

definition isActiveRunsError :: "client_error \<Rightarrow> bool" where
  "isActiveRunsError e = (case e of CloudAccountError m st c \<Rightarrow> c = Some ''active_runs_exist'' | _ \<Rightarrow> False)"

definition errorMessage :: "client_error \<Rightarrow> string" where
  "errorMessage e = (case e of CloudAccountError m st c \<Rightarrow> m | ErrorObject m \<Rightarrow> m | OtherThrown \<Rightarrow> ''Something went wrong.'')"

text \<open>
  The platform of the browser: \<open>fetch\<close>, the reading of a body (which may fail), \<open>crypto.randomUUID\<close>
  where there is one, the clock, and \<open>Math.random().toString(16)\<close>.
\<close>

record 's browser =
  br_fetch :: "http_request \<Rightarrow> ('s, client_error, http_response) op"
  br_read :: "http_response \<Rightarrow> ('s, client_error, unit) op"
  br_uuid :: "('s, client_error, string) op option"
  br_clock :: "('s, client_error, int) op"
  br_random :: "('s, client_error, string) op"

definition newIdempotencyKey :: "'s browser \<Rightarrow> ('s, client_error, string) op" where
  "newIdempotencyKey B =
     (case br_uuid B of
        Some u \<Rightarrow> u
      | None \<Rightarrow> bnd (br_clock B) (\<lambda>t. bnd (br_random B) (\<lambda>r. ret (''idem-'' @ show_int t @ ''-'' @ drop 2 r))))"

definition first_string :: "json list \<Rightarrow> string option" where
  "first_string vs = first_some (map (\<lambda>v. case v of JStr s \<Rightarrow> if s \<noteq> [] then Some s else None | _ \<Rightarrow> None) vs)"

definition toError :: "nat \<Rightarrow> json \<Rightarrow> client_error" where
  "toError status v =
     CloudAccountError
       (case first_string [jget v ''message'', jget v ''error''] of
          Some m \<Rightarrow> m | None \<Rightarrow> ''Request failed ('' @ show_nat status @ '').'')
       status
       (first_string [jget v ''code'', jget v ''error''])"

text \<open>The body of a response: nothing, the JSON it holds, or its text as the message of an error.\<close>

definition body_or_message :: "http_response \<Rightarrow> json" where
  "body_or_message response =
     (if rs_text response = [] then JNull
      else case rs_json response of Some v \<Rightarrow> v | None \<Rightarrow> JObj [(''message'', JStr (rs_text response))])"

definition requestJson ::
  "'s browser \<Rightarrow> string \<Rightarrow> string \<Rightarrow> (string \<times> string) list \<Rightarrow> json option \<Rightarrow> ('s, client_error, json) op" where
  "requestJson B method path headers v =
     bnd (br_fetch B \<lparr>rq_method = method, rq_url = ''/api/cloud-accounts'' @ path,
            rq_headers = (if v \<noteq> None then [(''Content-Type'', ''application/json'')] else []) @ headers, rq_body = v\<rparr>) (\<lambda>response.
     if rs_status response = 204 then ret JUndef
     else bnd (br_read B response) (\<lambda>_.
       if \<not> response_ok response then throw (toError (rs_status response) (body_or_message response))
       else ret (body_or_message response)))"

text \<open>\<open>body.accounts\<close> throws on \<open>null\<close> and \<open>undefined\<close>.\<close>

definition listCloudAccounts :: "'s browser \<Rightarrow> ('s, client_error, json) op" where
  "listCloudAccounts B =
     bnd (requestJson B ''GET'' [] [] None) (\<lambda>v.
     if nullish v then throw (ErrorObject ''Cannot read properties of null or undefined'')
     else ret (coalesce (jget v ''accounts'') (JArr [])))"

definition getCloudAccount :: "'s browser \<Rightarrow> string \<Rightarrow> ('s, client_error, json) op" where
  "getCloudAccount B a = requestJson B ''GET'' (''/'' @ encode_uri_component a) [] None"

definition listCapabilities :: "'s browser \<Rightarrow> ('s, client_error, json) op" where
  "listCapabilities B = requestJson B ''GET'' ''/capabilities'' [] None"

record create_account_input =
  ca_provider :: string
  ca_label :: string
  ca_external :: "string option"
  ca_metadata :: json

definition create_account_body :: "create_account_input \<Rightarrow> json" where
  "create_account_body i = JObj ([(''provider'', JStr (ca_provider i)), (''label'', JStr (ca_label i))] @
     (if given (ca_external i) then [(''external_account_id'', JStr (the (ca_external i)))] else []) @
     [(''metadata'', coalesce (ca_metadata i) (JObj []))])"

definition mutating ::
  "'s browser \<Rightarrow> string \<Rightarrow> string \<Rightarrow> json option \<Rightarrow> ('s, client_error, json) op" where
  "mutating B method path v = bnd (newIdempotencyKey B) (\<lambda>k. requestJson B method path [(''Idempotency-Key'', k)] v)"

definition createCloudAccount :: "'s browser \<Rightarrow> create_account_input \<Rightarrow> ('s, client_error, json) op" where
  "createCloudAccount B i = mutating B ''POST'' [] (Some (create_account_body i))"

definition verifyCloudAccount :: "'s browser \<Rightarrow> string \<Rightarrow> string \<Rightarrow> ('s, client_error, json) op" where
  "verifyCloudAccount B a externalId =
     mutating B ''POST'' (''/'' @ encode_uri_component a @ ''/verify'') (Some (JObj [(''external_id'', JStr externalId)]))"

definition deleteCloudAccount :: "'s browser \<Rightarrow> string \<Rightarrow> ('s, client_error, unit) op" where
  "deleteCloudAccount B a = bnd (mutating B ''DELETE'' (''/'' @ encode_uri_component a) None) (\<lambda>_. ret ())"

section \<open>The proxy\<close>

text \<open>
  The platform of the server: variables, the session that \<open>auth.protect\<close> returns (it throws for
  callers that are signed out), its token, \<open>fetch\<close> and the reading of a body.
\<close>

record session =
  ss_user :: string
  ss_claims :: json

record 's server =
  sv_vars :: "string \<Rightarrow> string option"
  sv_protect :: "('s, exn, session) op"
  sv_token :: "('s, exn, string option) op"
  sv_fetch :: "http_request \<Rightarrow> ('s, exn, http_response) op"
  sv_read :: "http_response \<Rightarrow> ('s, exn, unit) op"

text \<open>What a route replies: status and JSON body, \<open>JUndef\<close> for none.\<close>

record web_reply =
  wr_status :: nat
  wr_body :: json

definition claimed_workspace :: "json \<Rightarrow> json" where
  "claimed_workspace claims = jget (jget claims ''metadata'') ''workspaceId''"

definition workspaceIdFromClaims :: "json \<Rightarrow> string option" where
  "workspaceIdFromClaims claims =
     (case claimed_workspace claims of JStr s \<Rightarrow> if trim s \<noteq> [] then Some s else None | _ \<Rightarrow> None)"

text \<open>Token and workspace; without either, \<open>{ workspaceId: null }\<close>.\<close>

definition gatewayAuth :: "'s server \<Rightarrow> ('s, exn, (string \<times> string) option) op" where
  "gatewayAuth S =
     bnd (sv_protect S) (\<lambda>session.
     bnd (sv_token S) (\<lambda>token.
     ret (if \<not> given token then None else map_option (Pair (the token)) (workspaceIdFromClaims (ss_claims session)))))"

definition orchestrationApiUrl :: "(string \<Rightarrow> string option) \<Rightarrow> exn + string" where
  "orchestrationApiUrl vars =
     (if \<not> given (vars ''ORCHESTRATION_API_URL'') then Inl (OtherError ''ORCHESTRATION_API_URL must be configured'')
      else Inr (drop_slashes (the (vars ''ORCHESTRATION_API_URL''))))"

definition forward_headers :: "string \<Rightarrow> json option \<Rightarrow> string option \<Rightarrow> (string \<times> string) list" where
  "forward_headers token v key =
     [(''Authorization'', ''Bearer '' @ token)] @
     (if v \<noteq> None then [(''Content-Type'', ''application/json'')] else []) @
     (if given key then [(''Idempotency-Key'', the key)] else [])"

definition forward ::
  "'s server \<Rightarrow> string \<Rightarrow> string \<Rightarrow> string \<Rightarrow> json option \<Rightarrow> string option \<Rightarrow> ('s, exn, web_reply) op" where
  "forward S token method path v key =
     bnd (lift_result (orchestrationApiUrl (sv_vars S))) (\<lambda>url.
     bnd (sv_fetch S \<lparr>rq_method = method, rq_url = url @ path, rq_headers = forward_headers token v key, rq_body = v\<rparr>) (\<lambda>response.
     if rs_status response = 204 then ret \<lparr>wr_status = 204, wr_body = JNull\<rparr>
     else bnd (sv_read S response) (\<lambda>_. ret \<lparr>wr_status = rs_status response, wr_body = body_or_message response\<rparr>)))"

text \<open>\<open>Response.json\<close> throws for the statuses that allow no body.\<close>

definition jsonResult :: "web_reply \<Rightarrow> exn + web_reply" where
  "jsonResult r =
     (if wr_status r = 204 then Inr \<lparr>wr_status = 204, wr_body = JUndef\<rparr>
      else if wr_status r \<in> {101, 103, 205, 304} then Inl (OtherError ''Response with null body status cannot have body'')
      else Inr \<lparr>wr_status = wr_status r, wr_body = coalesce (wr_body r) (JObj [])\<rparr>)"

definition noWorkspaceResponse :: web_reply where
  "noWorkspaceResponse = \<lparr>wr_status = 409, wr_body = JObj [(''error'', JStr ''no_workspace''),
     (''message'', JStr ''No workspace is associated with this session.'')]\<rparr>"

section \<open>The proxy's routes\<close>

text \<open>A request of the browser: its JSON body, \<open>None\<close> if it is none, and its idempotency key.\<close>

record web_request =
  wq_json :: "json option"
  wq_key :: "string option"

definition with_gateway ::
  "'s server \<Rightarrow> (string \<Rightarrow> string \<Rightarrow> ('s, exn, web_reply) op) \<Rightarrow> ('s, exn, web_reply) op" where
  "with_gateway S f =
     bnd (gatewayAuth S) (\<lambda>a. case a of None \<Rightarrow> ret noWorkspaceResponse | Some (token, w) \<Rightarrow> f token w)"

definition relay ::
  "'s server \<Rightarrow> string \<Rightarrow> string \<Rightarrow> string \<Rightarrow> json option \<Rightarrow> string option \<Rightarrow> ('s, exn, web_reply) op" where
  "relay S token method path v key = bnd (forward S token method path v key) (\<lambda>r. lift_result (jsonResult r))"

definition accounts_path :: "string \<Rightarrow> string" where
  "accounts_path w = ''/v1/workspaces/'' @ w @ ''/cloud-accounts''"

definition one_account_path :: "string \<Rightarrow> string \<Rightarrow> string" where
  "one_account_path w a = accounts_path w @ ''/'' @ encode_uri_component a"

definition invalid_body :: web_reply where
  "invalid_body = \<lparr>wr_status = 400, wr_body = JObj [(''error'', JStr ''invalid_body'')]\<rparr>"

definition accounts_GET :: "'s server \<Rightarrow> ('s, exn, web_reply) op" where
  "accounts_GET S = with_gateway S (\<lambda>token w. relay S token ''GET'' (accounts_path w) None None)"

definition accounts_POST :: "'s server \<Rightarrow> web_request \<Rightarrow> ('s, exn, web_reply) op" where
  "accounts_POST S q = with_gateway S (\<lambda>token w.
     case wq_json q of None \<Rightarrow> ret invalid_body
     | Some v \<Rightarrow> relay S token ''POST'' (accounts_path w) (Some v) (wq_key q))"

definition account_GET :: "'s server \<Rightarrow> string \<Rightarrow> ('s, exn, web_reply) op" where
  "account_GET S a = with_gateway S (\<lambda>token w. relay S token ''GET'' (one_account_path w a) None None)"

definition account_DELETE :: "'s server \<Rightarrow> string \<Rightarrow> web_request \<Rightarrow> ('s, exn, web_reply) op" where
  "account_DELETE S a q = with_gateway S (\<lambda>token w. relay S token ''DELETE'' (one_account_path w a) None (wq_key q))"

definition account_verify_POST :: "'s server \<Rightarrow> string \<Rightarrow> web_request \<Rightarrow> ('s, exn, web_reply) op" where
  "account_verify_POST S a q = with_gateway S (\<lambda>token w.
     case wq_json q of None \<Rightarrow> ret invalid_body
     | Some v \<Rightarrow> relay S token ''POST'' (one_account_path w a @ ''/verify'') (Some v) (wq_key q))"

definition account_template_GET :: "'s server \<Rightarrow> string \<Rightarrow> ('s, exn, web_reply) op" where
  "account_template_GET S a = with_gateway S (\<lambda>token w. relay S token ''GET'' (one_account_path w a @ ''/template'') None None)"

definition capabilities_GET :: "'s server \<Rightarrow> ('s, exn, web_reply) op" where
  "capabilities_GET S = with_gateway S (\<lambda>token w.
     relay S token ''GET'' (''/v1/workspaces/'' @ w @ ''/cloud-capabilities'') None None)"

section \<open>The AWS template\<close>

text \<open>
  \<open>randomHex\<close> of the bytes that the platform's generator fills the array with; a byte prints as
  two hexadecimal digits in lower case.
\<close>

definition byte_hex :: "8 word \<Rightarrow> string" where
  "byte_hex b = [to_lower (hex_digit (unat (b div 16))), to_lower (hex_digit (unat (b mod 16)))]"

definition randomHex :: "8 word list \<Rightarrow> string" where
  "randomHex array = concat (map byte_hex array)"

definition generateExternalId :: "string \<Rightarrow> 8 word list \<Rightarrow> string" where
  "generateExternalId provider array = ''prv'' @ ''_'' @ provider @ ''_'' @ randomHex array"

record template_input =
  ti_external :: string
  ti_workspace :: string
  ti_label :: "string option"
  ti_principal :: "string option"

text \<open>The one exception type, \<open>TemplateInputError\<close>, is its message.\<close>

definition account_number :: "string \<Rightarrow> bool" where
  "account_number s = (length s = 12 \<and> list_all is_digit s)"

definition template_line :: "string \<Rightarrow> string" where
  "template_line s = s @ [char_of (10 :: nat)]"

definition template_lines :: "string \<Rightarrow> string \<Rightarrow> string \<Rightarrow> string \<Rightarrow> string list" where
  "template_lines externalId ws accountLabel principalAccount =
     [''AWSTemplateFormatVersion: '' @ in_quotes ''2010-09-09'',
      ''Description: >-'',
      ''  Provisr delegated execution role for '' @ ws @ ''.'',
      ''  Grants Provisr scoped access to provision resources in this account.'',
      ''  RoleName: ProvisrExecutionRole (label: '' @ accountLabel @ '').'',
      '''',
      ''Parameters:'',
      ''  ExternalId:'',
      ''    Type: String'',
      ''    Description: External id generated by Provisr. Must match the value shown in the connect panel.'',
      ''    Default: '' @ externalId,
      '''',
      ''Resources:'',
      ''  ProvisrExecutionRole:'',
      ''    Type: AWS::IAM::Role'',
      ''    Properties:'',
      ''      RoleName: ProvisrExecutionRole'',
      ''      Description: Scoped execution role assumed by Provisr for workspace '' @ ws @ ''.'',
      ''      AssumeRolePolicyDocument:'',
      ''        Version: '' @ in_quotes ''2012-10-17'',
      ''        Statement:'',
      ''          - Effect: Allow'',
      ''            Principal:'',
      ''              AWS: arn:aws:iam::'' @ principalAccount @ '':root'',
      ''            Action: sts:AssumeRole'',
      ''            Condition:'',
      ''              StringEquals:'',
      ''                sts:ExternalId: !Ref ExternalId'',
      ''      Policies:'',
      ''        - PolicyName: ProvisrProvisioning'',
      ''          PolicyDocument:'',
      ''            Version: '' @ in_quotes ''2012-10-17'',
      ''            Statement:'',
      ''              - Effect: Allow'',
      ''                Action:'',
      ''                  - ec2:Describe*'',
      ''                  - rds:Describe*'',
      ''                  - s3:ListAllMyBuckets'',
      ''                  - s3:GetBucketLocation'',
      ''                  - sts:GetCallerIdentity'',
      ''                Resource: '' @ in_quotes ''*'',
      ''              - Effect: Allow'',
      ''                Action:'',
      ''                  - iam:SimulatePrincipalPolicy'',
      ''                Resource: '' @ in_quotes ''*'',
      '''',
      ''Outputs:'',
      ''  RoleArn:'',
      ''    Description: Role ARN to paste back into Provisr to verify the connection.'',
      ''    Value: !GetAtt ProvisrExecutionRole.Arn'']"

definition template_text :: "string \<Rightarrow> string \<Rightarrow> string \<Rightarrow> string \<Rightarrow> string" where
  "template_text externalId ws accountLabel principalAccount =
     concat (map template_line (template_lines externalId ws accountLabel principalAccount))"

definition buildCloudFormationTemplate :: "template_input \<Rightarrow> string + string" where
  "buildCloudFormationTemplate i =
     (let externalId = trim (ti_external i); ws = trim (ti_workspace i);
          label = trim (case ti_label i of Some l \<Rightarrow> l | None \<Rightarrow> ''Provisr execution'');
          principal = (case ti_principal i of Some p \<Rightarrow> trim p | None \<Rightarrow> '''') in
      if externalId = [] then Inl ''An external id is required to render the template.''
      else if ws = [] then Inl ''A workspace id is required to render the template.''
      else if \<not> account_number principal then Inl ''A configured 12-digit Provisr AWS account ID is required.''
      else Inr (template_text externalId ws (if label = [] then ''Provisr execution'' else label) principal))"

text \<open>
  \<open>maskAccountId\<close>; \<open>None\<close> stands for the dash shown for a missing identifier, which is beyond the
  characters of the model.
\<close>

definition maskAccountId :: "string option \<Rightarrow> string option" where
  "maskAccountId accountId =
     (let v = trim (case accountId of Some a \<Rightarrow> a | None \<Rightarrow> []) in
      if v = [] then None
      else if length v \<le> 4 then Some (replicate (length v) (CHR ''*''))
      else Some (replicate (length v - 4) (CHR ''*'') @ drop (length v - 4) v))"

section \<open>Errors from end to end\<close>

text \<open>
  The JSON of an error body as the filter sends it, without what is undefined; and a response
  that carries a status and a value.
\<close>

definition error_body_json :: "error_body \<Rightarrow> json" where
  "error_body_json b = JObj ([(''error'', JStr (eb_error b)), (''message'', JStr (eb_message b)), (''status'', jnat (eb_status b))] @
     (case eb_code b of Some c \<Rightarrow> [(''code'', JStr c)] | None \<Rightarrow> []) @ [(''request_id'', JStr (eb_request_id b))] @
     (case eb_details b of Some ds \<Rightarrow> [(''details'', JArr ds)] | None \<Rightarrow> []))"

definition carries :: "http_response \<Rightarrow> nat \<Rightarrow> json \<Rightarrow> bool" where
  "carries response status v = (rs_status response = status \<and> rs_text response \<noteq> [] \<and> rs_json response = Some v)"

lemma carries_body: "carries r st v \<Longrightarrow> body_or_message r = v \<and> rs_status r = st"
  by (simp add: carries_def body_or_message_def)

text \<open>What the relay returns for a response it has fetched and read.\<close>

lemma relay_Inr:
  assumes "relay S token method path v key s = (Inr reply, t)" "\<And>q. fst (sv_fetch S q s) = Inr r" "carries r st w" "\<not> nullish w"
    "st \<noteq> 204"
  shows "reply = \<lparr>wr_status = st, wr_body = w\<rparr>"
proof -
  from assms(1) obtain p u where f: "forward S token method path v key s = (Inr p, u)" "jsonResult p = Inr reply"
    unfolding relay_def bnd_Inr_iff by auto
  then obtain url q x y where x: "sv_fetch S q s = (Inr x, y)"
    "(if rs_status x = 204 then ret \<lparr>wr_status = 204, wr_body = JNull\<rparr>
      else bnd (sv_read S x) (\<lambda>_. ret \<lparr>wr_status = rs_status x, wr_body = body_or_message x\<rparr>)) y = (Inr p, u)"
    unfolding forward_def bnd_Inr_iff by auto
  have "x = r" using assms(2) [of q] x(1) by simp
  then have "p = \<lparr>wr_status = st, wr_body = w\<rparr>"
    using x(2) assms(5) carries_body [OF assms(3)] by (auto simp: bnd_Inr_iff)
  then show ?thesis using f(2) assms(4,5) by (auto simp: jsonResult_def coalesce_def split: if_splits)
qed

lemma requestJson_error:
  assumes "\<And>q. fst (br_fetch B q s) = Inr r" "\<And>x u. fst (br_read B x u) = Inr ()" "\<not> response_ok r" "rs_status r \<noteq> 204"
  shows "fst (requestJson B method path headers v s) = Inl (toError (rs_status r) (body_or_message r))"
proof -
  obtain u where "br_fetch B \<lparr>rq_method = method, rq_url = ''/api/cloud-accounts'' @ path,
      rq_headers = (if v \<noteq> None then [(''Content-Type'', ''application/json'')] else []) @ headers, rq_body = v\<rparr> s = (Inr r, u)"
    using assms(1) by (metis prod.collapse)
  moreover obtain u' where "br_read B r u = (Inr (), u')" using assms(2) by (metis prod.collapse)
  ultimately show ?thesis using assms(3,4) by (simp add: requestJson_def bnd_def throw_def)
qed

text \<open>The filter's answer to a domain error, and what the browser makes of that JSON.\<close>

lemma upstream_error_body:
  "error_body_json (toErrorBody W names (UpstreamError st code msg) req) =
     JObj [(''error'', JStr ''UpstreamError''), (''message'', JStr msg), (''status'', jnat st), (''code'', JStr code),
           (''request_id'', JStr req)]"
  by (simp add: error_body_json_def toErrorBody_def UpstreamError_def prov_def)

lemma toError_domain:
  "code \<noteq> [] \<Longrightarrow> msg \<noteq> [] \<Longrightarrow>
   toError st (error_body_json (toErrorBody W names (UpstreamError st code msg) req)) = CloudAccountError msg st (Some code)"
  by (simp add: upstream_error_body toError_def first_string_def)

section \<open>External identifiers and templates\<close>

definition external_id_char :: "char \<Rightarrow> bool" where
  "external_id_char c = (is_digit c \<or> is_lower c \<or> c = CHR ''_'')"

lemma hex_digit_lower:
  assumes "n < 16"
  shows "is_digit (to_lower (hex_digit n)) \<or> is_lower (to_lower (hex_digit n))"
proof (cases "n < 10")
  case True
  then have "code_unit (hex_digit n) = 48 + n" by (simp add: hex_digit_def code_unit_def)
  then show ?thesis using True by (simp add: to_lower_def is_upper_def is_digit_def)
next
  case False
  then have "code_unit (hex_digit n) = 55 + n" using assms by (simp add: hex_digit_def code_unit_def)
  then have "to_lower (hex_digit n) = char_of (87 + n)" using False assms by (simp add: to_lower_def is_upper_def)
  then show ?thesis using False assms by (simp add: is_lower_def code_unit_def)
qed

lemma byte_hex_chars: "list_all (\<lambda>c. is_digit c \<or> is_lower c) (byte_hex b) \<and> length (byte_hex b) = 2"
proof -
  have "unat b < 2 ^ LENGTH(8)" by (rule unsigned_less)
  then have "unat b < 256" by simp
  then have "unat (b div 16) < 16" "unat (b mod 16) < 16" by (simp_all add: unat_div unat_mod)
  then show ?thesis using hex_digit_lower by (simp add: byte_hex_def)
qed

lemma randomHex_chars: "list_all (\<lambda>c. is_digit c \<or> is_lower c) (randomHex array) \<and> length (randomHex array) = 2 * length array"
  using byte_hex_chars by (induction array) (simp_all add: randomHex_def)

lemma external_id_word: "list_all external_id_char provider \<Longrightarrow> list_all external_id_char (generateExternalId provider array)"
  using randomHex_chars [of array]
  by (auto simp: generateExternalId_def list_all_iff external_id_char_def is_digit_def is_lower_def code_unit_def)

lemma external_id_not_ws: "external_id_char c \<Longrightarrow> \<not> is_ws c"
  by (auto simp: external_id_char_def is_digit_def is_lower_def is_ws_def code_unit_def)

lemma trim_word: "list_all (\<lambda>c. \<not> is_ws c) s \<Longrightarrow> trim s = s"
proof -
  have d: "dropWhile is_ws s = s" if "\<forall>c \<in> set s. \<not> is_ws c" for s using that by (cases s) simp_all
  show "list_all (\<lambda>c. \<not> is_ws c) s \<Longrightarrow> trim s = s" using d [of s] d [of "rev s"] by (simp add: trim_def list_all_iff)
qed

text \<open>The lines of a rendered template that bind the role: the external id and who may assume it.\<close>

lemma template_text_lines:
  "\<exists>pre mid post. template_text e w l p =
     pre @ template_line (''    Default: '' @ e) @ mid @ template_line (''              AWS: arn:aws:iam::'' @ p @ '':root'') @ post"
proof -
  let ?l = "template_lines e w l p"
  have len: "length ?l = 50" by (simp add: template_lines_def)
  have n: "?l ! 10 = ''    Default: '' @ e" "?l ! 23 = ''              AWS: arn:aws:iam::'' @ p @ '':root''"
    by (simp_all add: template_lines_def)
  have "?l = take 10 ?l @ ?l ! 10 # take 12 (drop 11 ?l) @ ?l ! 23 # drop 24 ?l"
    using id_take_nth_drop [of 10 ?l] id_take_nth_drop [of 12 "drop 11 ?l"] len by simp
  from arg_cong [OF this, of "\<lambda>x. concat (map template_line x)"] show ?thesis
    unfolding template_text_def n by (simp only: map_append list.map concat_append concat.simps) blast
qed

section \<open>Properties\<close>

text \<open>
  The code of a domain error travels unchanged from the service to the browser. If a service rejects
  a request of the orchestrator's adapter with a code and a message, the orchestrator's
  filter answers the adapter's error, the web server relays that answer, and the browser's client
  reads the relayed reply, then the client throws a \<open>CloudAccountError\<close> with the service's own
  status, code and message, so that a test such as the one for active runs decides on what the service said.
\<close>
theorem domain_error_reaches_browser:
  assumes service: "tryParse d = JObj kvs" "map_of kvs ''error'' = Some (JStr code)" "map_of kvs ''message'' = Some (JStr msg)"
      "code \<noteq> []" "msg \<noteq> []" "\<not> response_ok d" "rs_status d \<noteq> 204"
    and orchestrator: "carries r (eb_status b) (error_body_json b)" "b = toErrorBody W names (upstream_error d) req"
    and proxy: "\<And>q. fst (sv_fetch S q s) = Inr r" "relay S token m p v k s = (Inr reply, t)"
    and browser: "carries r' (wr_status reply) (wr_body reply)" "\<And>q. fst (br_fetch B q s') = Inr r'"
      "\<And>x u. fst (br_read B x u) = Inr ()"
  shows "fst (requestJson B method path headers v' s') = Inl (CloudAccountError msg (rs_status d) (Some code)) \<and>
    (isActiveRunsError (CloudAccountError msg (rs_status d) (Some code)) \<longleftrightarrow> code = ''active_runs_exist'')"
proof -
  have e: "upstream_error d = UpstreamError (rs_status d) code msg"
    using service by (simp add: upstream_error_def nonempty_string_def)
  have b: "eb_status b = rs_status d" "\<not> nullish (error_body_json b)"
    using e orchestrator(2) by (simp_all add: toErrorBody_def UpstreamError_def prov_def nullish_def error_body_json_def)
  have reply: "reply = \<lparr>wr_status = rs_status d, wr_body = error_body_json b\<rparr>"
    using relay_Inr [OF proxy(2) proxy(1) orchestrator(1) b(2)] b(1) service(7) by simp
  have r': "body_or_message r' = error_body_json b" "rs_status r' = rs_status d"
    using carries_body [OF browser(1)] reply by simp_all
  have "\<not> response_ok r'" using service(6) r'(2) by (simp add: response_ok_def)
  then have "fst (requestJson B method path headers v' s') = Inl (CloudAccountError msg (rs_status d) (Some code))"
    using requestJson_error [OF browser(2,3)] r' service(7) toError_domain [OF service(4,5)] e orchestrator(2) by simp
  then show ?thesis by (simp add: isActiveRunsError_def)
qed

text \<open>
  A generated external identifier is safe to embed and does reach the trust policy: it consists of
  lower case letters, digits and underscores, ends in two hexadecimal digits per random byte, and the template
  rendered with it, for any workspace and a configured account number of twelve digits, has it as the
  default of its parameter, unchanged, and lets only the configured account assume the role.
\<close>
theorem template_binds_generated_id:
  assumes "provider \<in> set CLOUD_PROVIDERS" "length array = 24" "trim w \<noteq> []" "account_number account"
  shows "let e = generateExternalId provider array in
    list_all external_id_char e \<and> length e = length provider + 53 \<and>
    (\<exists>template pre mid post. buildCloudFormationTemplate
        \<lparr>ti_external = e, ti_workspace = w, ti_label = label, ti_principal = Some account\<rparr> = Inr template \<and>
       template = pre @ template_line (''    Default: '' @ e) @ mid @
         template_line (''              AWS: arn:aws:iam::'' @ account @ '':root'') @ post)"
proof -
  let ?e = "generateExternalId provider array"
  have word: "list_all external_id_char ?e"
    by (rule external_id_word) (use assms(1) in \<open>auto simp: CLOUD_PROVIDERS_def external_id_char_def is_lower_def code_unit_def\<close>)
  have len: "length ?e = length provider + 53" using randomHex_chars [of array] assms(2) by (simp add: generateExternalId_def)
  have e: "trim ?e = ?e" by (rule trim_word) (use word external_id_not_ws in \<open>auto simp: list_all_iff\<close>)
  have a: "trim account = account"
    by (rule trim_word) (use assms(4) in \<open>auto simp: account_number_def list_all_iff is_digit_def is_ws_def\<close>)
  have ne: "?e \<noteq> []" using len by auto
  show ?thesis using word len ne e a assms(3,4) template_text_lines
    by (simp add: buildCloudFormationTemplate_def Let_def)
qed

section \<open>Witnesses\<close>

definition sample_domain_response :: http_response where
  "sample_domain_response = \<lparr>rs_status = 409, rs_text = ''t'',
     rs_json = Some (JObj [(''error'', JStr ''active_runs_exist''), (''message'', JStr ''busy'')])\<rparr>"

definition json_response :: "nat \<Rightarrow> json \<Rightarrow> http_response" where
  "json_response st v = \<lparr>rs_status = st, rs_text = ''t'', rs_json = Some v\<rparr>"

definition sample_error_json :: json where
  "sample_error_json = error_body_json (toErrorBody sample_world (\<lambda>_. None) (upstream_error sample_domain_response) ''r'')"

definition sample_server :: "unit server" where
  "sample_server = \<lparr>sv_vars = (\<lambda>_. Some ''u''), sv_protect = ret \<lparr>ss_user = ''u'', ss_claims = JNull\<rparr>, sv_token = ret None,
     sv_fetch = (\<lambda>q. ret (json_response 409 sample_error_json)), sv_read = (\<lambda>_. ret ())\<rparr>"

definition sample_browser :: "unit browser" where
  "sample_browser = \<lparr>br_fetch = (\<lambda>q. ret (json_response 409 sample_error_json)), br_read = (\<lambda>_. ret ()), br_uuid = Some (ret ''k''),
     br_clock = ret 0, br_random = ret ''0.1''\<rparr>"

lemma carries_json: "carries (json_response st v) st v"
  by (simp add: carries_def json_response_def)

lemma sample_relay:
  "relay sample_server ''t'' ''GET'' ''/p'' None None () = (Inr \<lparr>wr_status = 409, wr_body = sample_error_json\<rparr>, ())"
  by (simp add: relay_def forward_def sample_server_def orchestrationApiUrl_def given_def bnd_def json_response_def jsonResult_def
      body_or_message_def coalesce_def nullish_def sample_error_json_def error_body_json_def)

theorem domain_error_reaches_browser_witness:
  "fst (requestJson sample_browser ''DELETE'' ''/a'' [] None ()) = Inl (CloudAccountError ''busy'' 409 (Some ''active_runs_exist''))"
proof -
  let ?d = sample_domain_response
  let ?b = "toErrorBody sample_world (\<lambda>_. None) (upstream_error ?d) ''r''"
  have d: "tryParse ?d = JObj [(''error'', JStr ''active_runs_exist''), (''message'', JStr ''busy'')]" "rs_status ?d = 409"
    by (simp_all add: tryParse_def sample_domain_response_def)
  then have "upstream_error ?d = UpstreamError 409 ''active_runs_exist'' ''busy''" by (simp add: upstream_error_def nonempty_string_def)
  then have b: "eb_status ?b = 409" by (simp add: toErrorBody_def UpstreamError_def prov_def)
  have "carries (json_response 409 sample_error_json) (eb_status ?b) (error_body_json ?b)"
    using b carries_json by (simp add: sample_error_json_def)
  from domain_error_reaches_browser [OF d(1) _ _ _ _ _ _ this refl _ sample_relay, of "''active_runs_exist''" "''busy''"
      "json_response 409 sample_error_json" sample_browser "()"]
  show ?thesis using d(2) carries_json by (simp add: response_ok_def sample_server_def sample_browser_def)
qed

theorem template_binds_generated_id_witness:
  "list_all external_id_char (generateExternalId ''aws'' (replicate 24 0))"
  using template_binds_generated_id [of "''aws''" "replicate 24 0" "''w''" "''123456789012''"]
  by (simp add: CLOUD_PROVIDERS_def trim_def is_ws_def code_unit_def account_number_def is_digit_def Let_def)

end
