(* ===== verification/Frontend_Workspaces.thy ===== *)
theory Frontend_Workspaces
  imports Frontend_Accounts
begin

text \<open>
  Workspaces in the web application: the requests to the orchestrator
  (\<open>frontend/lib/orchestration/workspaces.ts\<close>, \<open>frontend/lib/orchestration/users.ts\<close>), the session's metadata
  (\<open>frontend/lib/orchestration/metadata.ts\<close>), the routes that create, claim and list workspaces
  (\<open>frontend/app/api/workspace\<close>), and the submission of clarification answers
  (\<open>frontend/lib/clarification/submit.ts\<close>).
\<close>

section \<open>The platform\<close>

record current_clerk_user =
  cu_email :: "string option"
  cu_first :: "string option"
  cu_last :: "string option"
  cu_image :: "string option"

text \<open>
  Beside the server's platform: whether an exception is a \<open>TimeoutError\<close>, the current user, and the
  update of a user's public metadata.
\<close>

record 's workspace_server = "'s server" +
  wv_timed_out :: "exn \<Rightarrow> bool"
  wv_current_user :: "('s, exn, current_clerk_user option) op"
  wv_update :: "string \<Rightarrow> json \<Rightarrow> ('s, exn, unit) op"

text \<open>\<open>res.json()\<close> and \<open>res.text()\<close>.\<close>

definition read_json :: "('s, 'z) server_scheme \<Rightarrow> http_response \<Rightarrow> ('s, exn, json) op" where
  "read_json S r = bnd (sv_read (server.truncate S) r) (\<lambda>_. the_or (rs_json r) (OtherError ''Unexpected token in JSON''))"

text \<open>\<open>===\<close> between values of which at most one is an object that came from JSON.\<close>

definition strictly_equal :: "json \<Rightarrow> json \<Rightarrow> bool" where
  "strictly_equal a b = (a = b \<and> \<not> is_object_type a)"

definition api_url :: "(string \<Rightarrow> string option) \<Rightarrow> string" where
  "api_url vars = (case vars ''ORCHESTRATION_API_URL'' of Some u \<Rightarrow> u | None \<Rightarrow> ''undefined'')"

definition bearer :: "string \<Rightarrow> string \<times> string" where
  "bearer token = (''Authorization'', ''Bearer '' @ token)"

section \<open>Creating a workspace\<close>

datatype create_error =
    WorkspaceCreateError nat string string
  | OtherFailure exn

definition widen :: "('s, exn, 'a) op \<Rightarrow> ('s, create_error, 'a) op" where
  "widen m s = (case m s of (Inl e, t) \<Rightarrow> (Inl (OtherFailure e), t) | (Inr x, t) \<Rightarrow> (Inr x, t))"

definition codeForStatus :: "nat \<Rightarrow> json \<Rightarrow> string" where
  "codeForStatus status v =
     (if status = 409 then
        (let code = (case jget v ''code'' of JStr c \<Rightarrow> JStr c | _ \<Rightarrow> jget v ''error'') in
         if code = JStr ''slug_taken'' then ''slug_taken''
         else if code = JStr ''duplicate_idempotency_key'' then ''duplicate_idempotency_key'' else ''conflict'')
      else if status = 400 then ''validation_error''
      else if status = 401 then ''unauthorized''
      else if status = 403 then ''forbidden''
      else ''workspace_create_failed'')"

definition readErrorBody :: "('s, 'z) server_scheme \<Rightarrow> http_response \<Rightarrow> ('s, create_error, json) op" where
  "readErrorBody S r s =
     (case read_json S r s of (Inl e, t) \<Rightarrow> (Inr JNull, t) | (Inr v, t) \<Rightarrow> (Inr (if is_obj v then v else JNull), t))"

definition create_request :: "(string \<Rightarrow> string option) \<Rightarrow> string \<Rightarrow> json \<Rightarrow> string \<Rightarrow> http_request" where
  "create_request vars token input key =
     \<lparr>rq_method = ''POST'', rq_url = api_url vars @ ''/v1/workspaces'',
      rq_headers = [(''Content-Type'', ''application/json''), bearer token, (''Idempotency-Key'', key)], rq_body = Some input\<rparr>"

definition create_failed :: "exn \<Rightarrow> bool \<Rightarrow> create_error" where
  "create_failed e timed_out =
     (if timed_out then WorkspaceCreateError 504 ''workspace_create_failed'' ''createWorkspace timed out after 5000ms''
      else OtherFailure e)"

definition createWorkspace :: "'s workspace_server \<Rightarrow> string \<Rightarrow> json \<Rightarrow> string \<Rightarrow> ('s, create_error, json) op" where
  "createWorkspace S token input key =
     bnd (catching (widen (sv_fetch S (create_request (sv_vars S) token input key)))
            (\<lambda>f. case f of OtherFailure e \<Rightarrow> throw (create_failed e (wv_timed_out S e)) | _ \<Rightarrow> throw f)) (\<lambda>r.
     if \<not> response_ok r then
       bnd (readErrorBody S r) (\<lambda>v.
       throw (WorkspaceCreateError (rs_status r) (codeForStatus (rs_status r) v)
         (case jget v ''message'' of JStr m \<Rightarrow> m | _ \<Rightarrow> ''createWorkspace failed: '' @ show_nat (rs_status r))))
     else widen (read_json S r))"

section \<open>Listing workspaces\<close>

record workspace_membership =
  wm_id :: string
  wm_name :: string
  wm_slug :: string
  wm_environment :: string
  wm_description :: "string option"
  wm_created :: "string option"
  wm_updated :: "string option"
  wm_role :: workspace_role

definition string_field :: "(rat \<Rightarrow> string) \<Rightarrow> json \<Rightarrow> string \<Rightarrow> string" where
  "string_field num i k = to_string num (coalesce (jget i k) (JStr []))"

definition to_membership :: "(rat \<Rightarrow> string) \<Rightarrow> json \<Rightarrow> workspace_membership" where
  "to_membership num i =
     \<lparr>wm_id = string_field num i ''id'', wm_name = string_field num i ''name'', wm_slug = string_field num i ''slug'',
      wm_environment = string_field num i ''environment'', wm_description = js_str (jget i ''description''),
      wm_created = js_str (jget i ''created_at''), wm_updated = js_str (jget i ''updated_at''),
      wm_role = (case isWorkspaceRole (jget i ''role'') of Some r \<Rightarrow> r | None \<Rightarrow> Viewer)\<rparr>"

definition timeout_as :: "string \<Rightarrow> ('s, 'z) workspace_server_scheme \<Rightarrow> exn \<Rightarrow> exn" where
  "timeout_as what S e = (if wv_timed_out S e then OtherError (what @ '' timed out after 5000ms'') else e)"

definition listWorkspaces :: "(rat \<Rightarrow> string) \<Rightarrow> 's workspace_server \<Rightarrow> string \<Rightarrow> ('s, exn, workspace_membership list) op" where
  "listWorkspaces num S token =
     bnd (catching (sv_fetch S \<lparr>rq_method = ''GET'', rq_url = api_url (sv_vars S) @ ''/v1/workspaces'',
            rq_headers = [bearer token], rq_body = None\<rparr>) (\<lambda>e. throw (timeout_as ''listWorkspaces'' S e))) (\<lambda>r.
     bnd (check (response_ok r) (OtherError (''listWorkspaces failed: '' @ show_nat (rs_status r)))) (\<lambda>_.
     bnd (read_json S r) (\<lambda>v.
     bnd (the_or (js_arr v) (OtherError ''listWorkspaces returned an unexpected payload'')) (\<lambda>vs.
     ret (map (to_membership num) (filter is_object_type vs))))))"

section \<open>The user's record\<close>

record ensure_user_input =
  eu_email :: "string option"
  eu_name :: "string option"
  eu_avatar :: "string option"
  eu_workspace :: json

definition ensure_user_json :: "ensure_user_input \<Rightarrow> json" where
  "ensure_user_json i = JObj ([(''email'', jopt (eu_email i)), (''name'', jopt (eu_name i)), (''avatarUrl'', jopt (eu_avatar i))] @
     (if eu_workspace i \<noteq> JUndef then [(''workspaceId'', eu_workspace i)] else []))"

text \<open>The body of a successful answer is read outside the \<open>try\<close>: its exceptions are not renamed.\<close>

definition ensureUser :: "'s workspace_server \<Rightarrow> string \<Rightarrow> ensure_user_input \<Rightarrow> string \<Rightarrow> ('s, exn, json) op" where
  "ensureUser S token i key =
     bnd (catching (sv_fetch S \<lparr>rq_method = ''POST'', rq_url = api_url (sv_vars S) @ ''/v1/users/ensure'',
            rq_headers = [(''Content-Type'', ''application/json''), bearer token, (''Idempotency-Key'', key)],
            rq_body = Some (ensure_user_json i)\<rparr>) (\<lambda>e. throw (timeout_as ''ensureUser'' S e))) (\<lambda>r.
     if response_ok r then read_json S r
     else bnd (catching (sv_read S r) (\<lambda>e. throw (timeout_as ''ensureUser'' S e))) (\<lambda>_.
       throw (OtherError (''ensureUser failed: '' @ show_nat (rs_status r) @ '' '' @ rs_text r))))"

definition reconcileWorkspaceMetadata ::
  "'s workspace_server \<Rightarrow> string \<Rightarrow> json \<Rightarrow> json \<Rightarrow> json list option \<Rightarrow> ('s, exn, unit) op" where
  "reconcileWorkspaceMetadata S userId backendWorkspaceId claimedWorkspaceId requested =
     (if strictly_equal backendWorkspaceId claimedWorkspaceId \<and> requested = None then ret ()
      else wv_update S userId (JObj ((''workspaceId'', backendWorkspaceId) #
        (case requested of Some ps \<Rightarrow> [(''workspaceProviders'', JArr ps)] | None \<Rightarrow> []))))"

definition profile :: "current_clerk_user \<Rightarrow> json \<Rightarrow> ensure_user_input" where
  "profile u w =
     (let n = join '' '' (filter (\<lambda>s. s \<noteq> []) (map (\<lambda>v. case v of Some s \<Rightarrow> s | None \<Rightarrow> []) [cu_first u, cu_last u]))
      in \<lparr>eu_email = cu_email u, eu_name = (if n = [] then None else Some n), eu_avatar = cu_image u, eu_workspace = w\<rparr>)"

section \<open>The route that creates a workspace\<close>

definition error_reply :: "nat \<Rightarrow> string \<Rightarrow> web_reply" where
  "error_reply status e = \<lparr>wr_status = status, wr_body = JObj [(''error'', JStr e)]\<rparr>"

definition ENVIRONMENTS :: "string list" where
  "ENVIRONMENTS = [''development'', ''staging'', ''production'']"

definition name_ok :: "json \<Rightarrow> bool" where
  "name_ok v = (case v of JStr s \<Rightarrow> 3 \<le> length (trim s) \<and> length (trim s) \<le> 64 | _ \<Rightarrow> False)"

definition environment_ok :: "json \<Rightarrow> bool" where
  "environment_ok v = (case v of JStr s \<Rightarrow> s \<in> set ENVIRONMENTS | _ \<Rightarrow> False)"

definition trimmed_description :: "json \<Rightarrow> string option" where
  "trimmed_description v = (case v of JStr s \<Rightarrow> if trim s \<noteq> [] then Some (take 500 (trim s)) else None | _ \<Rightarrow> None)"

definition selected_providers :: "json \<Rightarrow> json list" where
  "selected_providers v = (case v of JArr vs \<Rightarrow> filter (\<lambda>x. x \<in> JStr ` set CLOUD_PROVIDERS) vs | _ \<Rightarrow> [])"

definition usable_key :: "string option \<Rightarrow> string option" where
  "usable_key key = (case key of None \<Rightarrow> None
     | Some k \<Rightarrow> if trim k = [] \<or> 128 < length (trim k) then None else Some (trim k))"

text \<open>The input of \<open>createWorkspace\<close> for a body that has been checked.\<close>

definition create_input :: "json \<Rightarrow> json" where
  "create_input v = JObj
     ([(''name'', JStr (trim (str_of (jget v ''name''))))] @
      (case trimmed_description (jget v ''description'') of
         Some d \<Rightarrow> if d \<noteq> [] then [(''description'', JStr d)] else [] | None \<Rightarrow> []) @
      [(''environment'', jget v ''environment''), (''providers'', JArr (selected_providers (jget v ''providers'')))] @
      (case jget v ''avatar'' of JStr s \<Rightarrow> [(''avatar'', JStr s)] | _ \<Rightarrow> []))"

text \<open>
  The three steps after the checks: the workspace, the user's link to it, the session's metadata. A
  failure of the first is reported as what it was, of the others as a failed creation.
\<close>

definition create_failed_reply :: web_reply where
  "create_failed_reply = error_reply 502 ''workspace_create_failed''"

definition create_error_reply :: "create_error \<Rightarrow> web_reply" where
  "create_error_reply f = (case f of
     WorkspaceCreateError status code msg \<Rightarrow>
       \<lparr>wr_status = (if code = ''slug_taken'' then 409 else status), wr_body = JObj [(''error'', JStr msg), (''code'', JStr code)]\<rparr>
   | OtherFailure e \<Rightarrow> create_failed_reply)"

definition link_user :: "'s workspace_server \<Rightarrow> string \<Rightarrow> current_clerk_user \<Rightarrow> string \<Rightarrow> json \<Rightarrow> ('s, exn, bool) op" where
  "link_user S token user userId workspace =
     (if nullish workspace then throw (OtherError ''Cannot read properties of null'')
      else bnd (ensureUser S token (profile user (jget workspace ''id'')) userId) (\<lambda>record_json.
        if nullish record_json then throw (OtherError ''Cannot read properties of null'')
        else ret (strictly_equal (jget record_json ''workspaceId'') (jget workspace ''id''))))"

definition created_reply :: "json \<Rightarrow> web_reply" where
  "created_reply workspace = \<lparr>wr_status = 201, wr_body = JObj (filter (\<lambda>kv. snd kv \<noteq> JUndef)
     [(''workspaceId'', jget workspace ''id''), (''slug'', jget workspace ''slug''), (''environment'', jget workspace ''environment'')])\<rparr>"

definition after_create ::
  "'s workspace_server \<Rightarrow> session \<Rightarrow> current_clerk_user \<Rightarrow> string \<Rightarrow> json list \<Rightarrow> json \<Rightarrow> ('s, exn, web_reply) op" where
  "after_create S session user token chosen workspace =
     catching
       (bnd (link_user S token user (ss_user session) workspace) (\<lambda>linked.
        if \<not> linked then ret create_failed_reply
        else bnd (reconcileWorkspaceMetadata S (ss_user session) (jget workspace ''id'') (claimed_workspace (ss_claims session)) (Some chosen))
          (\<lambda>_. ret (created_reply workspace))))
       (\<lambda>_. ret create_failed_reply)"

definition create_checked ::
  "'s workspace_server \<Rightarrow> session \<Rightarrow> current_clerk_user \<Rightarrow> json \<Rightarrow> string option \<Rightarrow> ('s, exn, web_reply) op" where
  "create_checked S session user v key =
     bnd (sv_token S) (\<lambda>token.
     if \<not> given token then ret (error_reply 401 ''unauthorized'')
     else (case usable_key key of
        None \<Rightarrow> ret (error_reply 400 ''invalid_idempotency_key'')
      | Some k \<Rightarrow> (\<lambda>s. case createWorkspace S (the token) (create_input v) k s of
          (Inl f, t) \<Rightarrow> lift_result (jsonResult (create_error_reply f)) t
        | (Inr workspace, t) \<Rightarrow>
            after_create S session user (the token) (selected_providers (jget v ''providers'')) workspace t)))"

definition workspace_create_POST :: "'s workspace_server \<Rightarrow> web_request \<Rightarrow> ('s, exn, web_reply) op" where
  "workspace_create_POST S q =
     bnd (sv_protect S) (\<lambda>session.
     bnd (wv_current_user S) (\<lambda>current.
     case current of
       None \<Rightarrow> ret (error_reply 401 ''unauthorized'')
     | Some user \<Rightarrow>
         (case wq_json q of
            None \<Rightarrow> ret invalid_body
          | Some v \<Rightarrow>
              if \<not> is_obj v then ret invalid_body
              else if \<not> name_ok (jget v ''name'') then ret (error_reply 400 ''name must be between 3 and 64 characters'')
              else if \<not> environment_ok (jget v ''environment'')
              then ret (error_reply 400 ''environment must be development, staging, or production'')
              else create_checked S session user v (wq_key q))))"

section \<open>The routes that claim and list\<close>

definition workspace_claim_POST :: "'s workspace_server \<Rightarrow> web_request \<Rightarrow> ('s, exn, web_reply) op" where
  "workspace_claim_POST S q =
     bnd (sv_protect S) (\<lambda>session.
     bnd (wv_current_user S) (\<lambda>current.
     case current of
       None \<Rightarrow> ret (error_reply 401 ''unauthorized'')
     | Some user \<Rightarrow>
         bnd (sv_token S) (\<lambda>token.
         if \<not> given token then ret (error_reply 401 ''unauthorized'')
         else (case wq_json q of
            None \<Rightarrow> ret invalid_body
          | Some v \<Rightarrow>
              if \<not> is_obj v then ret invalid_body
              else (case jget v ''workspaceId'' of
                 JStr w \<Rightarrow>
                   if trim w = [] then ret (error_reply 400 ''missing_workspace_id'')
                   else bnd (ensureUser S (the token) (profile user (JStr w)) (ss_user session)) (\<lambda>r.
                     if nullish r then throw (OtherError ''Cannot read properties of null'')
                     else bnd (reconcileWorkspaceMetadata S (ss_user session) (jget r ''workspaceId'')
                                 (claimed_workspace (ss_claims session)) None) (\<lambda>_.
                       ret \<lparr>wr_status = 200, wr_body = JObj (filter (\<lambda>kv. snd kv \<noteq> JUndef)
                              [(''workspaceId'', jget r ''workspaceId'')])\<rparr>))
               | _ \<Rightarrow> ret (error_reply 400 ''missing_workspace_id''))))))"

record listing =
  li_workspaces :: "workspace_membership list"
  li_active :: json
  li_degraded :: bool

definition workspace_list_GET :: "(rat \<Rightarrow> string) \<Rightarrow> 's workspace_server \<Rightarrow> ('s, exn, listing) op" where
  "workspace_list_GET num S =
     bnd (sv_protect S) (\<lambda>session.
     let active = coalesce (claimed_workspace (ss_claims session)) JNull in
     bnd (sv_token S) (\<lambda>token.
     if \<not> given token then ret \<lparr>li_workspaces = [], li_active = active, li_degraded = True\<rparr>
     else attempting (listWorkspaces num S (the token))
       (\<lambda>_. ret \<lparr>li_workspaces = [], li_active = active, li_degraded = True\<rparr>)
       (\<lambda>ws. ret \<lparr>li_workspaces = ws, li_active = (if list_ex (\<lambda>w. strictly_equal (JStr (wm_id w)) active) ws then active else JNull),
                  li_degraded = False\<rparr>)))"

section \<open>Clarifications\<close>

definition clarify_request :: "string \<Rightarrow> string \<Rightarrow> string \<Rightarrow> json \<Rightarrow> string \<Rightarrow> http_request" where
  "clarify_request url runId questionId answers token =
     \<lparr>rq_method = ''POST'', rq_url = url @ ''/v1/runs/'' @ runId @ ''/clarify'',
      rq_headers = [(''Content-Type'', ''application/json''), bearer token, (''Idempotency-Key'', ''clarify:'' @ runId @ '':'' @ questionId)],
      rq_body = Some answers\<rparr>"

definition submitClarification ::
  "'s server \<Rightarrow> string \<Rightarrow> string \<Rightarrow> json \<Rightarrow> string \<Rightarrow> ('s, exn, unit) op" where
  "submitClarification S runId questionId answers token =
     bnd (lift_result (orchestrationBaseUrl (sv_vars S))) (\<lambda>url.
     bnd (sv_fetch S (clarify_request url runId questionId answers token)) (\<lambda>r.
     if response_ok r then ret ()
     else bnd (sv_read S r) (\<lambda>_.
       throw (OtherError (''submitClarification failed: '' @ show_nat (rs_status r) @ '' '' @ rs_text r)))))"

section \<open>Facts\<close>

lemma widen_Inr: "widen m s = (Inr x, t) \<longleftrightarrow> m s = (Inr x, t)"
  by (auto simp: widen_def split: prod.splits sum.splits)

lemma jsonResult_status: "jsonResult r = Inr r' \<Longrightarrow> wr_status r' = wr_status r"
  by (auto simp: jsonResult_def split: if_splits)

text \<open>No failure of the creation is reported as a success.\<close>

lemma createWorkspace_Inl:
  assumes "createWorkspace S token input key s = (Inl (WorkspaceCreateError st code msg), t)"
  shows "st = 504 \<or> \<not> response_ok \<lparr>rs_status = st, rs_text = [], rs_json = None\<rparr>"
  using assms
  by (auto simp: createWorkspace_def bnd_def catching_def widen_def create_failed_def readErrorBody_def response_ok_def
      split: prod.splits sum.splits if_splits)

lemma create_error_reply_status:
  assumes "createWorkspace S token input key s = (Inl f, t)" "jsonResult (create_error_reply f) = Inr reply"
  shows "wr_status reply \<noteq> 201"
proof (cases f)
  case (WorkspaceCreateError st code msg)
  have "st = 504 \<or> \<not> response_ok \<lparr>rs_status = st, rs_text = [], rs_json = None\<rparr>"
    by (rule createWorkspace_Inl [OF assms(1) [unfolded WorkspaceCreateError]])
  then show ?thesis using jsonResult_status [OF assms(2)] WorkspaceCreateError
    by (auto simp: create_error_reply_def response_ok_def)
next
  case (OtherFailure e)
  then show ?thesis using jsonResult_status [OF assms(2)]
    by (simp add: create_error_reply_def create_failed_reply_def error_reply_def)
qed

lemma link_user_Inr:
  "link_user S token user uid workspace s = (Inr True, t) \<longleftrightarrow>
     \<not> nullish workspace \<and> (\<exists>r. ensureUser S token (profile user (jget workspace ''id'')) uid s = (Inr r, t) \<and> \<not> nullish r \<and>
       strictly_equal (jget r ''workspaceId'') (jget workspace ''id''))"
  by (auto simp: link_user_def bnd_Inr_iff)

lemma after_create_201:
  assumes "after_create S session user token chosen workspace s = (Inr reply, t)" "wr_status reply = 201"
  shows "\<exists>r u. ensureUser S token (profile user (jget workspace ''id'')) (ss_user session) s = (Inr r, u) \<and>
     strictly_equal (jget r ''workspaceId'') (jget workspace ''id'') \<and>
     reconcileWorkspaceMetadata S (ss_user session) (jget workspace ''id'') (claimed_workspace (ss_claims session)) (Some chosen) u =
       (Inr (), t) \<and> reply = created_reply workspace"
proof -
  have no: "wr_status create_failed_reply = 502" by (simp add: create_failed_reply_def error_reply_def)
  show ?thesis
  proof (cases "link_user S token user (ss_user session) workspace s")
    case (Pair r u)
    show ?thesis
    proof (cases "r = Inr True")
      case False
      then show ?thesis using assms Pair no by (cases r) (auto simp: after_create_def)
    next
      case True
      then have l: "link_user S token user (ss_user session) workspace s = (Inr True, u)" using Pair by simp
      obtain x v where x: "reconcileWorkspaceMetadata S (ss_user session) (jget workspace ''id'')
          (claimed_workspace (ss_claims session)) (Some chosen) u = (x, v)" by fastforce
      then have "x = Inr () \<and> v = t \<and> reply = created_reply workspace"
        using assms l no by (cases x) (auto simp: after_create_def)
      then show ?thesis using l x by (auto simp: link_user_Inr)
    qed
  qed
qed

section \<open>Properties\<close>

text \<open>
  The application says that a workspace is created only when everything that makes it usable has
  happened: a reply of 201 means that the caller is signed in and has a token, the body names the workspace
  in three to sixty-four characters and a known environment, the orchestrator created the
  workspace for exactly the checked fields under the caller's own key, the user's record confirmed
  that workspace and no other, and the session's metadata was updated to it.
\<close>
theorem created_workspace_is_linked:
  assumes "workspace_create_POST S q s = (Inr reply, t)" "wr_status reply = 201"
  shows "\<exists>(session :: session) user v token k workspace r s1 s2 s3.
     wq_json q = Some v \<and> name_ok (jget v ''name'') \<and> environment_ok (jget v ''environment'') \<and>
     usable_key (wq_key q) = Some k \<and> given (Some token) \<and>
     createWorkspace S token (create_input v) k s1 = (Inr workspace, s2) \<and>
     ensureUser S token (profile user (jget workspace ''id'')) (ss_user session) s2 = (Inr r, s3) \<and>
     strictly_equal (jget r ''workspaceId'') (jget workspace ''id'') \<and>
     wv_update S (ss_user session) (JObj [(''workspaceId'', jget workspace ''id''),
       (''workspaceProviders'', JArr (selected_providers (jget v ''providers'')))]) s3 = (Inr (), t) \<and>
     reply = created_reply workspace"
proof -
  from assms(1) obtain session s0 current s1 where
    "(case current of None \<Rightarrow> ret (error_reply 401 ''unauthorized'')
      | Some user \<Rightarrow> (case wq_json q of None \<Rightarrow> ret invalid_body
          | Some v \<Rightarrow> if \<not> is_obj v then ret invalid_body
              else if \<not> name_ok (jget v ''name'') then ret (error_reply 400 ''name must be between 3 and 64 characters'')
              else if \<not> environment_ok (jget v ''environment'')
              then ret (error_reply 400 ''environment must be development, staging, or production'')
              else create_checked S session user v (wq_key q))) s1 = (Inr reply, t)"
    unfolding workspace_create_POST_def bnd_Inr_iff by blast
  then obtain user v where v: "wq_json q = Some v" "name_ok (jget v ''name'')" "environment_ok (jget v ''environment'')"
    and c: "create_checked S session user v (wq_key q) s1 = (Inr reply, t)"
    using assms(2) by (cases current; cases "wq_json q") (auto simp: error_reply_def invalid_body_def split: if_splits)
  from c obtain token s2 where
    "(if \<not> given token then ret (error_reply 401 ''unauthorized'')
      else (case usable_key (wq_key q) of None \<Rightarrow> ret (error_reply 400 ''invalid_idempotency_key'')
      | Some k \<Rightarrow> (\<lambda>s. case createWorkspace S (the token) (create_input v) k s of
          (Inl f, t) \<Rightarrow> lift_result (jsonResult (create_error_reply f)) t
        | (Inr workspace, t) \<Rightarrow>
            after_create S session user (the token) (selected_providers (jget v ''providers'')) workspace t))) s2 = (Inr reply, t)"
    unfolding create_checked_def bnd_Inr_iff by blast
  then obtain k where k: "given token" "usable_key (wq_key q) = Some k"
    and w: "(case createWorkspace S (the token) (create_input v) k s2 of
          (Inl f, t) \<Rightarrow> lift_result (jsonResult (create_error_reply f)) t
        | (Inr workspace, t) \<Rightarrow>
            after_create S session user (the token) (selected_providers (jget v ''providers'')) workspace t) = (Inr reply, t)"
    using assms(2) by (cases "given token"; cases "usable_key (wq_key q)") (auto simp: error_reply_def)
  obtain workspace s3 where ws: "createWorkspace S (the token) (create_input v) k s2 = (Inr workspace, s3)"
    "after_create S session user (the token) (selected_providers (jget v ''providers'')) workspace s3 = (Inr reply, t)"
    using w create_error_reply_status [of S "the token" "create_input v" k s2] assms(2) by (auto split: prod.splits sum.splits)
  obtain r s4 where r: "ensureUser S (the token) (profile user (jget workspace ''id'')) (ss_user session) s3 = (Inr r, s4)"
    "strictly_equal (jget r ''workspaceId'') (jget workspace ''id'')" "reply = created_reply workspace"
    "wv_update S (ss_user session) (JObj [(''workspaceId'', jget workspace ''id''),
       (''workspaceProviders'', JArr (selected_providers (jget v ''providers'')))]) s4 = (Inr (), t)"
    using after_create_201 [OF ws(2) assms(2)] by (auto simp: reconcileWorkspaceMetadata_def)
  have "given (Some (the token))" using k(1) by (auto simp: given_def split: option.splits)
  then show ?thesis using v k(2) ws(1) r by blast
qed

text \<open>
  A malformed listing never widens what the shell shows: whatever the orchestrator answers, the roles of
  the workspaces listed reach no screen beyond those of the role each item names or, where it names
  none that is known, of a viewer; and the active workspace of an undegraded listing is one of those
  listed or none, while a degraded listing shows no workspace.
\<close>
theorem listing_never_widens_access:
  assumes "workspace_list_GET num S s = (Inr l, t)"
  shows "(if li_degraded l then li_workspaces l = []
     else li_active l = JNull \<or> (\<exists>w \<in> set (li_workspaces l). li_active l = JStr (wm_id w))) \<and>
    (\<exists>items. li_workspaces l = map (to_membership num) items \<and>
      (\<forall>i \<in> set items. \<forall>screen. canAccessScreen (Some (wm_role (to_membership num i))) screen \<longrightarrow>
         (\<exists>r. jget i ''role'' = JStr (role_text r) \<and> canAccessScreen (Some r) screen) \<or> canAccessScreen (Some Viewer) screen))"
proof -
  have role: "canAccessScreen (Some (wm_role (to_membership num i))) screen \<Longrightarrow>
      (\<exists>r. jget i ''role'' = JStr (role_text r) \<and> canAccessScreen (Some r) screen) \<or> canAccessScreen (Some Viewer) screen" for i screen
    using isWorkspaceRole_iff [of "jget i ''role''"]
    by (cases "isWorkspaceRole (jget i ''role'')") (auto simp: to_membership_def)
  have items: "\<exists>items. ws = map (to_membership num) items" if "listWorkspaces num S token u = (Inr ws, u')" for token u ws u'
    using that by (auto simp: listWorkspaces_def bnd_Inr_iff the_or_Inr_iff)
  from assms obtain session active token u where
    l: "(if \<not> given token then ret \<lparr>li_workspaces = [], li_active = active, li_degraded = True\<rparr>
     else attempting (listWorkspaces num S (the token))
       (\<lambda>_. ret \<lparr>li_workspaces = [], li_active = active, li_degraded = True\<rparr>)
       (\<lambda>ws. ret \<lparr>li_workspaces = ws, li_active = (if list_ex (\<lambda>w. strictly_equal (JStr (wm_id w)) active) ws then active else JNull),
                  li_degraded = False\<rparr>)) u = (Inr l, t)"
    unfolding workspace_list_GET_def bnd_Inr_iff Let_def by blast
  obtain r v where r: "listWorkspaces num S (the token) u = (r, v)" by fastforce
  show ?thesis
  proof (cases "given token \<and> isl r = False")
    case False
    then have "l = \<lparr>li_workspaces = [], li_active = active, li_degraded = True\<rparr>" using l r by (cases "given token"; cases r) auto
    then show ?thesis by simp
  next
    case True
    then obtain ws where ws: "r = Inr ws" by (cases r) auto
    have w: "li_workspaces l = ws" "\<not> li_degraded l"
      "li_active l = (if list_ex (\<lambda>w. strictly_equal (JStr (wm_id w)) active) ws then active else JNull)"
      using l r True ws by auto
    then have "li_active l = JNull \<or> (\<exists>w \<in> set ws. li_active l = JStr (wm_id w))" by (auto simp: strictly_equal_def list_ex_iff)
    moreover obtain items where "ws = map (to_membership num) items" using items r ws by blast
    ultimately show ?thesis using w role by auto
  qed
qed

section \<open>Witnesses\<close>

definition sample_workspace_json :: json where
  "sample_workspace_json = JObj [(''id'', JStr ''w1''), (''slug'', JStr ''s''), (''environment'', JStr ''staging''), (''role'', JStr ''owner'')]"

definition sample_fetch :: "http_request \<Rightarrow> http_response" where
  "sample_fetch q = json_response 200
     (if rq_url q = ''u/v1/users/ensure'' then JObj [(''workspaceId'', JStr ''w1'')]
      else if rq_method q = ''GET'' then JArr [sample_workspace_json] else sample_workspace_json)"

definition sample_workspace_server :: "unit workspace_server" where
  "sample_workspace_server = \<lparr>sv_vars = (\<lambda>_. Some ''u''), sv_protect = ret \<lparr>ss_user = ''c1'', ss_claims = JNull\<rparr>, sv_token = ret (Some ''t''),
     sv_fetch = (\<lambda>q. ret (sample_fetch q)), sv_read = (\<lambda>_. ret ()), wv_timed_out = (\<lambda>_. False),
     wv_current_user = ret (Some \<lparr>cu_email = None, cu_first = None, cu_last = None, cu_image = None\<rparr>), wv_update = (\<lambda>_ _. ret ())\<rparr>"

definition sample_create :: web_request where
  "sample_create = \<lparr>wq_json = Some (JObj [(''name'', JStr ''abc''), (''environment'', JStr ''staging'')]), wq_key = Some ''k''\<rparr>"

lemma sample_created:
  "workspace_create_POST sample_workspace_server sample_create () = (Inr (created_reply sample_workspace_json), ())"
proof -
  have c: "createWorkspace sample_workspace_server ''t'' v ''k'' () = (Inr sample_workspace_json, ())" for v
    by (simp add: createWorkspace_def create_request_def sample_workspace_server_def sample_fetch_def api_url_def widen_def bnd_def
        catching_def response_ok_def read_json_def server.defs json_response_def)
  have e: "ensureUser sample_workspace_server ''t'' i ''c1'' () = (Inr (JObj [(''workspaceId'', JStr ''w1'')]), ())" for i
    by (simp add: ensureUser_def sample_workspace_server_def sample_fetch_def api_url_def bnd_def catching_def response_ok_def
        read_json_def server.defs json_response_def)
  have t: "trim ''abc'' = ''abc''" "trim ''k'' = ''k''" by (simp_all add: trim_def is_ws_def code_unit_def)
  show ?thesis
    using c e t by (simp add: workspace_create_POST_def create_checked_def after_create_def link_user_def reconcileWorkspaceMetadata_def
        sample_create_def bnd_def catching_def name_ok_def environment_ok_def ENVIRONMENTS_def given_def usable_key_def
        strictly_equal_def sample_workspace_server_def sample_workspace_json_def nullish_def)
qed

theorem created_workspace_is_linked_witness:
  "\<exists>k. usable_key (wq_key sample_create) = Some k"
  using created_workspace_is_linked [OF sample_created] by (auto simp: created_reply_def)

lemma sample_listed:
  "\<exists>l. workspace_list_GET (\<lambda>_. []) sample_workspace_server () = (Inr l, ()) \<and> \<not> li_degraded l"
  by (simp add: workspace_list_GET_def listWorkspaces_def sample_workspace_server_def sample_fetch_def given_def bnd_def attempting_def
      catching_def response_ok_def read_json_def server.defs json_response_def check_def Let_def)

theorem listing_never_widens_access_witness:
  "\<exists>l. workspace_list_GET (\<lambda>_. []) sample_workspace_server () = (Inr l, ()) \<and>
     (li_active l = JNull \<or> (\<exists>w \<in> set (li_workspaces l). li_active l = JStr (wm_id w)))"
proof -
  obtain l where l: "workspace_list_GET (\<lambda>_. []) sample_workspace_server () = (Inr l, ())" "\<not> li_degraded l"
    using sample_listed by blast
  then show ?thesis using listing_never_widens_access [OF l(1)] by auto
qed

end
