(* ===== verification/Frontend_Stubs.thy ===== *)
theory Frontend_Stubs
  imports Frontend_Workspaces
begin

text \<open>
  The stand-ins for the orchestrator that the web application serves outside production
  (\<open>frontend/app/api/dev/orchestration/v1/workspaces/route.ts\<close>,
  \<open>frontend/app/api/dev/orchestration/v1/users/ensure/route.ts\<close>). They keep their state in memory: workspaces,
  slugs in use and idempotency keys, and the users' records.
\<close>

section \<open>State\<close>

record stub_workspace =
  sw_id :: string
  sw_name :: string
  sw_slug :: string
  sw_environment :: string
  sw_description :: "string option"
  sw_created :: string
  sw_updated :: string

record stub_entry =
  se_record :: stub_workspace
  se_owner :: string
  se_canonical :: string

text \<open>The maps and the set of the modules, in order of insertion, and the number of UUIDs drawn so far.\<close>

record stub_state =
  st_workspaces :: "(string \<times> stub_entry) list"
  st_slugs :: "string list"
  st_keys :: "(string \<times> string) list"
  st_users :: "(json \<times> (string \<times> json)) list"
  st_uuids :: nat

definition empty_stub :: stub_state where
  "empty_stub = \<lparr>st_workspaces = [], st_slugs = [], st_keys = [], st_users = [], st_uuids = 0\<rparr>"

text \<open>
  The platform: whether this is a production build, the verification of a token (\<open>None\<close> if it throws), the
  UUIDs in the order they are drawn, the clock, and the rendering of numbers.
\<close>

record stub_platform =
  sp_production :: bool
  sp_verify :: "string \<Rightarrow> json option"
  sp_uuid :: "nat \<Rightarrow> string"
  sp_now :: string
  sp_num :: "rat \<Rightarrow> string"

text \<open>A request with the headers and the query parameter that the routes read.\<close>

record stub_request =
  sq_authorization :: "string option"
  sq_key :: "string option"
  sq_json :: "json option"
  sq_query_workspace :: "string option"
  sq_header_workspace :: "string option"

section \<open>Workspaces\<close>

definition slug_char :: "char \<Rightarrow> bool" where
  "slug_char c = (is_lower c \<or> is_digit c \<or> c = CHR ''-'')"

definition strip_dashes :: "string \<Rightarrow> string" where
  "strip_dashes s = rev (dropWhile (\<lambda>c. c = CHR ''-'') (rev (dropWhile (\<lambda>c. c = CHR ''-'') s)))"

definition slugify :: "string \<Rightarrow> string" where
  "slugify name =
     (let slug = filter slug_char (map (\<lambda>c. if c = CHR '' '' then CHR ''-'' else c) (map to_lower name));
          slug = strip_dashes (take 64 slug)
      in if slug = [] then ''workspace'' else slug)"

definition authenticate :: "stub_platform \<Rightarrow> stub_request \<Rightarrow> string option" where
  "authenticate P q =
     (case sq_authorization q of
        None \<Rightarrow> None
      | Some h \<Rightarrow> if \<not> starts_with ''Bearer '' h then None
                  else (case sp_verify P (drop 7 h) of
                     None \<Rightarrow> None
                   | Some claims \<Rightarrow> (case jget claims ''sub'' of JStr s \<Rightarrow> if trim s \<noteq> [] then Some s else None | _ \<Rightarrow> None)))"

definition not_found :: web_reply where
  "not_found = \<lparr>wr_status = 404, wr_body = JUndef\<rparr>"

definition stub_error :: "nat \<Rightarrow> string \<Rightarrow> string \<Rightarrow> web_reply" where
  "stub_error status e m = \<lparr>wr_status = status, wr_body = JObj [(''error'', JStr e), (''message'', JStr m), (''status'', jnat status)]\<rparr>"

definition stub_workspace_json :: "stub_workspace \<Rightarrow> json" where
  "stub_workspace_json w = JObj
     [(''id'', JStr (sw_id w)), (''name'', JStr (sw_name w)), (''slug'', JStr (sw_slug w)), (''environment'', JStr (sw_environment w)),
      (''description'', jopt (sw_description w)), (''created_at'', JStr (sw_created w)), (''updated_at'', JStr (sw_updated w))]"

definition stub_workspaces_GET :: "stub_platform \<Rightarrow> stub_request \<Rightarrow> stub_state \<Rightarrow> web_reply" where
  "stub_workspaces_GET P q s =
     (if sp_production P then not_found
      else case authenticate P q of
        None \<Rightarrow> error_reply 401 ''unauthorized''
      | Some subject \<Rightarrow> \<lparr>wr_status = 200, wr_body = JArr (map (\<lambda>e. spread (stub_workspace_json (se_record e)) [(''role'', JStr ''admin'')])
          (filter (\<lambda>e. se_owner e = subject) (map snd (st_workspaces s))))\<rparr>)"

definition description_ok :: "json \<Rightarrow> bool" where
  "description_ok v = (v = JUndef \<or> (case v of JStr s \<Rightarrow> length s \<le> 500 | _ \<Rightarrow> False))"

definition stub_name_ok :: "json \<Rightarrow> bool" where
  "stub_name_ok v = (case v of JStr s \<Rightarrow> 3 \<le> length s \<and> length s \<le> 64 | _ \<Rightarrow> False)"

text \<open>The first of the checks that fails, if one does.\<close>

definition stub_invalid :: "json \<Rightarrow> web_reply option" where
  "stub_invalid v =
     (if \<not> is_obj v then Some (stub_error 400 ''invalid_json'' ''request body is not valid JSON'')
      else if \<not> stub_name_ok (jget v ''name'') then Some (stub_error 400 ''validation_error'' ''name must be between 3 and 64 characters'')
      else if \<not> environment_ok (jget v ''environment'')
      then Some (stub_error 400 ''validation_error'' ''environment must be development, staging, or production'')
      else if \<not> description_ok (jget v ''description'')
      then Some (stub_error 400 ''validation_error'' ''description must be at most 500 characters'')
      else None)"

definition canonical_payload :: "(rat \<Rightarrow> string) \<Rightarrow> json \<Rightarrow> string" where
  "canonical_payload num v = stringify num (JObj [(''name'', jget v ''name''), (''environment'', jget v ''environment''),
     (''description'', coalesce (jget v ''description'') JNull)])"

definition scoped_key :: "(rat \<Rightarrow> string) \<Rightarrow> string \<Rightarrow> string \<Rightarrow> string" where
  "scoped_key num subject key = stringify num (JArr [JStr subject, JStr key])"

definition find_replay :: "string \<Rightarrow> stub_state \<Rightarrow> stub_entry option" where
  "find_replay k s =
     (case map_of (st_keys s) k of None \<Rightarrow> None | Some i \<Rightarrow> if i \<noteq> [] then map_of (st_workspaces s) i else None)"

definition new_stub_workspace :: "stub_platform \<Rightarrow> json \<Rightarrow> string \<Rightarrow> nat \<Rightarrow> stub_workspace" where
  "new_stub_workspace P v base_slug n =
     \<lparr>sw_id = sp_uuid P n, sw_name = str_of (jget v ''name''),
      sw_slug = base_slug @ ''-'' @ take 8 (filter (\<lambda>c. c \<noteq> CHR ''-'') (sp_uuid P (Suc n))),
      sw_environment = str_of (jget v ''environment''), sw_description = js_str (jget v ''description''),
      sw_created = sp_now P, sw_updated = sp_now P\<rparr>"

definition stub_create :: "stub_platform \<Rightarrow> string \<Rightarrow> string \<Rightarrow> json \<Rightarrow> stub_state \<Rightarrow> web_reply \<times> stub_state" where
  "stub_create P subject key v s =
     (let payload = canonical_payload (sp_num P) v; k = scoped_key (sp_num P) subject key in
      case find_replay k s of
        Some e \<Rightarrow>
          (if se_canonical e \<noteq> payload
           then stub_error 409 ''duplicate_idempotency_key'' ''Idempotency-Key was already used for another request''
           else \<lparr>wr_status = 201, wr_body = stub_workspace_json (se_record e)\<rparr>, s)
      | None \<Rightarrow>
          (let base_slug = slugify (str_of (jget v ''name'')) in
           if base_slug \<in> set (st_slugs s)
           then (stub_error 409 ''slug_taken'' (''slug '' @ in_quotes base_slug @ '' is already taken''), s)
           else let w = new_stub_workspace P v base_slug (st_uuids s) in
             (\<lparr>wr_status = 201, wr_body = stub_workspace_json w\<rparr>,
              s\<lparr>st_workspaces := AList.update (sw_id w) \<lparr>se_record = w, se_owner = subject, se_canonical = payload\<rparr> (st_workspaces s),
                st_slugs := st_slugs s @ [base_slug], st_keys := AList.update k (sw_id w) (st_keys s),
                st_uuids := st_uuids s + 2\<rparr>)))"

definition stub_workspaces_POST :: "stub_platform \<Rightarrow> stub_request \<Rightarrow> stub_state \<Rightarrow> web_reply \<times> stub_state" where
  "stub_workspaces_POST P q s =
     (if sp_production P then (not_found, s)
      else case authenticate P q of
        None \<Rightarrow> (error_reply 401 ''unauthorized'', s)
      | Some subject \<Rightarrow>
          (let key = (case sq_key q of Some k \<Rightarrow> trim k | None \<Rightarrow> []) in
           if key = []
           then (stub_error 400 ''idempotency_key_required'' ''Idempotency-Key header is required for mutations'', s)
           else case sq_json q of
             None \<Rightarrow> (stub_error 400 ''invalid_json'' ''request body is not valid JSON'', s)
           | Some v \<Rightarrow> (case stub_invalid v of Some r \<Rightarrow> (r, s) | None \<Rightarrow> stub_create P subject key v s)))"

section \<open>Users\<close>

definition stub_user_json :: "string \<times> json \<Rightarrow> json" where
  "stub_user_json r = JObj (filter (\<lambda>kv. snd kv \<noteq> JUndef) [(''id'', JStr (fst r)), (''workspaceId'', snd r)])"

definition chosen_workspace :: "stub_request \<Rightarrow> json" where
  "chosen_workspace q =
     (case sq_query_workspace q of
        Some w \<Rightarrow> if w \<noteq> [] then JStr w else JNull
      | None \<Rightarrow> (case sq_header_workspace q of Some w \<Rightarrow> if w \<noteq> [] then JStr w else JNull | None \<Rightarrow> JNull))"

definition token_subject :: "stub_platform \<Rightarrow> stub_request \<Rightarrow> json option" where
  "token_subject P q =
     (case sq_authorization q of
        None \<Rightarrow> None
      | Some h \<Rightarrow> if \<not> starts_with ''Bearer '' h then None
                  else (case sp_verify P (drop 7 h) of None \<Rightarrow> None
                        | Some claims \<Rightarrow> if truthy (jget claims ''sub'') then Some (jget claims ''sub'') else None))"

definition stub_ensure :: "stub_request \<Rightarrow> json \<Rightarrow> json \<Rightarrow> string \<Rightarrow> stub_state \<Rightarrow> web_reply \<times> stub_state" where
  "stub_ensure q sub v i s =
     (let w = jget v ''workspaceId'' in
      case map_of (st_users s) sub of
        Some r \<Rightarrow>
          (if truthy w \<and> \<not> strictly_equal (snd r) w
           then (\<lparr>wr_status = 200, wr_body = stub_user_json (fst r, w)\<rparr>, s\<lparr>st_users := AList.update sub (fst r, w) (st_users s)\<rparr>)
           else (\<lparr>wr_status = 200, wr_body = stub_user_json r\<rparr>, s))
      | None \<Rightarrow>
          (let r = (i, coalesce w (chosen_workspace q)) in
           (\<lparr>wr_status = 200, wr_body = stub_user_json r\<rparr>,
            s\<lparr>st_users := AList.update sub r (st_users s), st_uuids := Suc (st_uuids s)\<rparr>)))"

definition stub_ensure_POST :: "stub_platform \<Rightarrow> stub_request \<Rightarrow> stub_state \<Rightarrow> web_reply \<times> stub_state" where
  "stub_ensure_POST P q s =
     (if sp_production P then (not_found, s)
      else case token_subject P q of
        None \<Rightarrow> (error_reply 401 ''unauthorized'', s)
      | Some sub \<Rightarrow>
          (case sq_json q of
             None \<Rightarrow> (error_reply 400 ''invalid_body'', s)
           | Some v \<Rightarrow> if \<not> is_obj v then (error_reply 400 ''invalid_body'', s) else stub_ensure q sub v (sp_uuid P (st_uuids s)) s))"

section \<open>Slugs\<close>

lemma strip_dashes_facts:
  "set (strip_dashes s) \<subseteq> set s" "length (strip_dashes s) \<le> length s"
  "strip_dashes s \<noteq> [] \<Longrightarrow> hd (strip_dashes s) \<noteq> CHR ''-'' \<and> last (strip_dashes s) \<noteq> CHR ''-''"
proof -
  define u where "u = dropWhile (\<lambda>c. c = CHR ''-'') s"
  define v where "v = dropWhile (\<lambda>c. c = CHR ''-'') (rev u)"
  have s: "strip_dashes s = rev v" by (simp add: strip_dashes_def u_def v_def)
  have "set v \<subseteq> set (rev u)" "set u \<subseteq> set s" unfolding u_def v_def by (auto dest: set_dropWhileD)
  then show "set (strip_dashes s) \<subseteq> set s" using s by auto
  have "length v \<le> length (rev u)" "length u \<le> length s" unfolding u_def v_def by (rule length_dropWhile_le)+
  then show "length (strip_dashes s) \<le> length s" using s by simp
  assume "strip_dashes s \<noteq> []"
  then have v: "v \<noteq> []" using s by simp
  then have "u \<noteq> []" by (auto simp: v_def)
  then have "hd u \<noteq> CHR ''-''" using hd_dropWhile [of "\<lambda>c. c = CHR ''-''" s] by (simp add: u_def)
  moreover have "last v = hd u"
  proof -
    have "rev u = takeWhile (\<lambda>c. c = CHR ''-'') (rev u) @ v" by (simp add: v_def)
    then have "last (rev u) = last v" using v by (metis last_appendR)
    then show ?thesis using \<open>u \<noteq> []\<close> by (simp add: last_rev)
  qed
  moreover have "hd v \<noteq> CHR ''-''" using hd_dropWhile [of "\<lambda>c. c = CHR ''-''" "rev u"] v by (simp add: v_def)
  ultimately show "hd (strip_dashes s) \<noteq> CHR ''-'' \<and> last (strip_dashes s) \<noteq> CHR ''-''"
    using s v by (simp add: hd_rev last_rev)
qed

lemma slug_char_simps: "slug_char c \<Longrightarrow> to_lower c = c \<and> c \<noteq> CHR '' ''"
  by (auto simp: slug_char_def is_lower_def is_digit_def to_lower_def is_upper_def code_unit_def)

lemma strip_dashes_id: "s \<noteq> [] \<Longrightarrow> hd s \<noteq> CHR ''-'' \<Longrightarrow> last s \<noteq> CHR ''-'' \<Longrightarrow> strip_dashes s = s"
proof -
  have d: "t \<noteq> [] \<Longrightarrow> hd t \<noteq> CHR ''-'' \<Longrightarrow> dropWhile (\<lambda>c. c = CHR ''-'') t = t" for t by (cases t) simp_all
  assume "s \<noteq> []" "hd s \<noteq> CHR ''-''" "last s \<noteq> CHR ''-''"
  then show ?thesis using d [of s] d [of "rev s"] by (simp add: strip_dashes_def hd_rev)
qed

lemma slug_fixed:
  assumes "s \<noteq> []" "length s \<le> 64" "list_all slug_char s" "hd s \<noteq> CHR ''-''" "last s \<noteq> CHR ''-''"
  shows "slugify s = s"
proof -
  have c: "to_lower c = c" "(if c = CHR '' '' then CHR ''-'' else c) = c" if "c \<in> set s" for c
    using that assms(3) slug_char_simps [of c] by (simp_all add: list_all_iff)
  have "map to_lower s = s" by (rule map_idI) (rule c(1))
  moreover have "map (\<lambda>c. if c = CHR '' '' then CHR ''-'' else c) s = s" by (rule map_idI) (rule c(2))
  moreover have "filter slug_char s = s" using assms(3) by (simp add: list_all_iff)
  ultimately show ?thesis using assms strip_dashes_id by (simp add: slugify_def Let_def)
qed

section \<open>Invariants\<close>

definition stub_ok :: "stub_platform \<Rightarrow> stub_state \<Rightarrow> bool" where
  "stub_ok P s =
     (distinct (st_slugs s) \<and>
      (\<forall>i e. map_of (st_workspaces s) i = Some e \<longrightarrow> i = sw_id (se_record e) \<and> (\<exists>n < st_uuids s. i = sp_uuid P n)) \<and>
      (\<forall>k i. map_of (st_keys s) k = Some i \<longrightarrow>
         (\<exists>e key. map_of (st_workspaces s) i = Some e \<and> k = scoped_key (sp_num P) (se_owner e) key)))"

definition stub_grows :: "stub_state \<Rightarrow> stub_state \<Rightarrow> bool" where
  "stub_grows s t = (map_of (st_keys s) \<subseteq>\<^sub>m map_of (st_keys t) \<and> map_of (st_workspaces s) \<subseteq>\<^sub>m map_of (st_workspaces t))"

datatype stub_call = PostWorkspace stub_request | PostEnsure stub_request

definition stub_handle :: "stub_platform \<Rightarrow> stub_call \<Rightarrow> stub_state \<Rightarrow> stub_state" where
  "stub_handle P c s = (case c of PostWorkspace q \<Rightarrow> snd (stub_workspaces_POST P q s) | PostEnsure q \<Rightarrow> snd (stub_ensure_POST P q s))"

definition stub_run :: "stub_platform \<Rightarrow> stub_call list \<Rightarrow> stub_state \<Rightarrow> stub_state" where
  "stub_run P cs s = fold (stub_handle P) cs s"

definition fresh_uuids :: "stub_platform \<Rightarrow> bool" where
  "fresh_uuids P = (inj (sp_uuid P) \<and> (\<forall>n. sp_uuid P n \<noteq> []))"

lemma stub_grows_refl: "stub_grows s s"
  by (simp add: stub_grows_def)

lemma stub_grows_trans: "stub_grows s t \<Longrightarrow> stub_grows t u \<Longrightarrow> stub_grows s u"
  by (auto simp: stub_grows_def intro: map_le_trans)

lemma find_replay_grows: "stub_grows s t \<Longrightarrow> find_replay k s = Some e \<Longrightarrow> find_replay k t = Some e"
  by (auto simp: find_replay_def stub_grows_def map_le_def dom_def split: option.splits if_splits)

lemma find_replay_None:
  assumes "stub_ok P s" "fresh_uuids P" "find_replay k s = None"
  shows "map_of (st_keys s) k = None"
proof (rule ccontr)
  assume "map_of (st_keys s) k \<noteq> None"
  then obtain i e where i: "map_of (st_keys s) k = Some i" "map_of (st_workspaces s) i = Some e"
    using assms(1) unfolding stub_ok_def by blast
  then obtain n where "i = sp_uuid P n" using assms(1) unfolding stub_ok_def by blast
  then show False using i assms(2,3) by (simp add: find_replay_def fresh_uuids_def)
qed

text \<open>The state after a creation that is no replay.\<close>

definition stub_added :: "stub_platform \<Rightarrow> string \<Rightarrow> string \<Rightarrow> json \<Rightarrow> stub_state \<Rightarrow> stub_state" where
  "stub_added P subject key v s =
     (let base_slug = slugify (str_of (jget v ''name'')); w = new_stub_workspace P v base_slug (st_uuids s) in
      s\<lparr>st_workspaces := AList.update (sw_id w)
          \<lparr>se_record = w, se_owner = subject, se_canonical = canonical_payload (sp_num P) v\<rparr> (st_workspaces s),
        st_slugs := st_slugs s @ [base_slug], st_keys := AList.update (scoped_key (sp_num P) subject key) (sw_id w) (st_keys s),
        st_uuids := st_uuids s + 2\<rparr>)"

lemma stub_create_cases:
  "snd (stub_create P subject key v s) = s \<or>
   (find_replay (scoped_key (sp_num P) subject key) s = None \<and> slugify (str_of (jget v ''name'')) \<notin> set (st_slugs s) \<and>
    stub_create P subject key v s =
      (\<lparr>wr_status = 201, wr_body = stub_workspace_json (new_stub_workspace P v (slugify (str_of (jget v ''name''))) (st_uuids s))\<rparr>,
       stub_added P subject key v s))"
  by (simp add: stub_create_def stub_added_def Let_def split: option.split)

lemma fresh_id:
  assumes "stub_ok P s" "fresh_uuids P"
  shows "map_of (st_workspaces s) (sp_uuid P (st_uuids s)) = None"
proof (rule ccontr)
  assume "\<not> ?thesis"
  then obtain n where "n < st_uuids s" "sp_uuid P (st_uuids s) = sp_uuid P n" using assms(1) unfolding stub_ok_def by blast
  then show False using assms(2) by (auto simp: fresh_uuids_def dest: injD)
qed

lemma stub_added_ok:
  assumes "stub_ok P s" "fresh_uuids P" "find_replay (scoped_key (sp_num P) subject key) s = None"
    "slugify (str_of (jget v ''name'')) \<notin> set (st_slugs s)"
  shows "stub_ok P (stub_added P subject key v s) \<and> stub_grows s (stub_added P subject key v s)"
proof
  let ?w = "new_stub_workspace P v (slugify (str_of (jget v ''name''))) (st_uuids s)"
  have i: "sw_id ?w = sp_uuid P (st_uuids s)" by (simp add: new_stub_workspace_def)
  have new: "map_of (st_workspaces s) (sw_id ?w) = None" using fresh_id [OF assms(1,2)] i by simp
  have k: "map_of (st_keys s) (scoped_key (sp_num P) subject key) = None" by (rule find_replay_None [OF assms(1-3)])
  show "stub_grows s (stub_added P subject key v s)"
    using new k by (auto simp: stub_grows_def stub_added_def Let_def AList.update_conv' map_le_def)
  have "\<exists>n < st_uuids s + 2. sw_id ?w = sp_uuid P n" using i by (intro exI [of _ "st_uuids s"]) simp
  then show "stub_ok P (stub_added P subject key v s)"
    using assms(1,4) new unfolding stub_ok_def stub_added_def Let_def
    by (auto simp: AList.update_conv' split: if_splits) (metis less_SucI add_2_eq_Suc' option.distinct(1))+
qed

lemma stub_handle_ok:
  assumes "stub_ok P s" "fresh_uuids P"
  shows "stub_ok P (stub_handle P c s) \<and> stub_grows s (stub_handle P c s)"
proof (cases c)
  case (PostWorkspace q)
  have "snd (stub_workspaces_POST P q s) = s \<or>
      (\<exists>subject key v. snd (stub_workspaces_POST P q s) = snd (stub_create P subject key v s))"
    by (auto simp: stub_workspaces_POST_def Let_def split: option.split)
  then show ?thesis
  proof
    assume "snd (stub_workspaces_POST P q s) = s"
    then show ?thesis using assms PostWorkspace by (simp add: stub_handle_def stub_grows_refl)
  next
    assume "\<exists>subject key v. snd (stub_workspaces_POST P q s) = snd (stub_create P subject key v s)"
    then obtain subject key v where "snd (stub_workspaces_POST P q s) = snd (stub_create P subject key v s)" by blast
    then show ?thesis using PostWorkspace stub_create_cases [of P subject key v s] stub_added_ok [OF assms, of subject key v] assms
      by (auto simp: stub_handle_def stub_grows_refl)
  qed
next
  case (PostEnsure q)
  have "st_workspaces (snd (stub_ensure q sub v i s)) = st_workspaces s \<and> st_keys (snd (stub_ensure q sub v i s)) = st_keys s \<and>
      st_slugs (snd (stub_ensure q sub v i s)) = st_slugs s \<and> st_uuids s \<le> st_uuids (snd (stub_ensure q sub v i s))" for sub v i
    by (auto simp: stub_ensure_def Let_def split: option.split)
  then have "let t = snd (stub_ensure_POST P q s) in st_workspaces t = st_workspaces s \<and> st_keys t = st_keys s \<and>
      st_slugs t = st_slugs s \<and> st_uuids s \<le> st_uuids t"
    by (auto simp: stub_ensure_POST_def Let_def split: option.split)
  then show ?thesis using assms(1) PostEnsure unfolding stub_ok_def stub_grows_def stub_handle_def Let_def
    by auto (meson order_less_le_trans)
qed

lemma stub_run_ok:
  "stub_ok P s \<Longrightarrow> fresh_uuids P \<Longrightarrow> stub_ok P (stub_run P cs s) \<and> stub_grows s (stub_run P cs s)"
proof (induction cs arbitrary: s)
  case Nil
  then show ?case by (simp add: stub_run_def stub_grows_refl)
next
  case (Cons c cs)
  then have "stub_ok P (stub_handle P c s)" "stub_grows s (stub_handle P c s)" using stub_handle_ok by auto
  moreover have "stub_run P (c # cs) s = stub_run P cs (stub_handle P c s)" by (simp add: stub_run_def)
  ultimately show ?case using Cons stub_grows_trans by metis
qed

lemma empty_stub_ok: "stub_ok P empty_stub"
  by (simp add: stub_ok_def empty_stub_def)

lemma scoped_key_inj: "scoped_key num s k = scoped_key num s' k' \<Longrightarrow> s = s' \<and> k = k'"
  using join_quote_inj [of "[s, k]" "[s', k']"] by (simp add: scoped_key_def)

text \<open>A creation that succeeds can be replayed: its entry, the caller's own, is found under its key.\<close>

lemma stub_create_replayable:
  assumes "stub_ok P s" "fresh_uuids P" "stub_create P subject key v s = (r, t)" "wr_status r = 201"
  shows "\<exists>e. find_replay (scoped_key (sp_num P) subject key) t = Some e \<and> se_canonical e = canonical_payload (sp_num P) v \<and>
     se_owner e = subject \<and> r = \<lparr>wr_status = 201, wr_body = stub_workspace_json (se_record e)\<rparr>"
proof (cases "find_replay (scoped_key (sp_num P) subject key) s")
  case (Some e)
  obtain i where i: "map_of (st_keys s) (scoped_key (sp_num P) subject key) = Some i" "map_of (st_workspaces s) i = Some e"
    using Some by (auto simp: find_replay_def split: option.splits if_splits)
  then obtain key' where "scoped_key (sp_num P) subject key = scoped_key (sp_num P) (se_owner e) key'"
    using assms(1) unfolding stub_ok_def by fastforce
  then have "se_owner e = subject" using scoped_key_inj by blast
  moreover have "se_canonical e = canonical_payload (sp_num P) v" "t = s" "r = \<lparr>wr_status = 201, wr_body = stub_workspace_json (se_record e)\<rparr>"
    using assms(3,4) Some by (auto simp: stub_create_def Let_def stub_error_def split: if_splits)
  ultimately show ?thesis using Some by simp
next
  case None
  then have t: "r = \<lparr>wr_status = 201, wr_body = stub_workspace_json (new_stub_workspace P v (slugify (str_of (jget v ''name''))) (st_uuids s))\<rparr>"
    "t = stub_added P subject key v s"
    using assms(3,4) by (auto simp: stub_create_def stub_added_def Let_def stub_error_def split: if_splits)
  have "sp_uuid P (st_uuids s) \<noteq> []" using assms(2) by (simp add: fresh_uuids_def)
  then show ?thesis unfolding t
    by (simp add: find_replay_def stub_added_def Let_def AList.update_conv' new_stub_workspace_def)
qed

section \<open>Properties\<close>

text \<open>
  C40. A slug is a well-formed path segment for every name: one to sixty-four lower case letters, digits and
  dashes that neither starts nor ends with a dash; and a slug is its own slug.
\<close>
theorem slug_is_well_formed:
  "slugify name \<noteq> [] \<and> length (slugify name) \<le> 64 \<and> list_all slug_char (slugify name) \<and>
   hd (slugify name) \<noteq> CHR ''-'' \<and> last (slugify name) \<noteq> CHR ''-'' \<and> slugify (slugify name) = slugify name"
proof -
  define u where "u = filter slug_char (map (\<lambda>c. if c = CHR '' '' then CHR ''-'' else c) (map to_lower name))"
  have s: "slugify name = (if strip_dashes (take 64 u) = [] then ''workspace'' else strip_dashes (take 64 u))"
    by (simp add: slugify_def u_def Let_def)
  have "set (strip_dashes (take 64 u)) \<subseteq> {c. slug_char c}" "length (strip_dashes (take 64 u)) \<le> 64"
    using strip_dashes_facts(1,2) [of "take 64 u"] by (auto simp: u_def dest!: in_set_takeD)
  moreover have "list_all slug_char ''workspace''" by (simp add: slug_char_def is_lower_def code_unit_def)
  ultimately have "slugify name \<noteq> [] \<and> length (slugify name) \<le> 64 \<and> list_all slug_char (slugify name) \<and>
      hd (slugify name) \<noteq> CHR ''-'' \<and> last (slugify name) \<noteq> CHR ''-''"
    using strip_dashes_facts(3) [of "take 64 u"] by (auto simp: s list_all_iff)
  then show ?thesis using slug_fixed by blast
qed

text \<open>
  The creation of a workspace is idempotent and private: after any calls, when a request has been answered
  with 201, then after any further calls, of any callers, the same request is answered with the same reply
  and changes nothing, and the workspace in the reply is stored as the caller's.
\<close>
theorem stub_creation_is_idempotent:
  assumes "fresh_uuids P" "stub_workspaces_POST P q (stub_run P before empty_stub) = (r, t)" "wr_status r = 201"
  shows "stub_workspaces_POST P q (stub_run P after t) = (r, stub_run P after t) \<and>
     (\<exists>subject i e. authenticate P q = Some subject \<and> map_of (st_workspaces t) i = Some e \<and> se_owner e = subject \<and>
        wr_body r = stub_workspace_json (se_record e))"
proof -
  let ?s = "stub_run P before empty_stub"
  have ok: "stub_ok P ?s" using stub_run_ok [OF empty_stub_ok assms(1)] by blast
  have inv: "stub_invalid w = Some x \<Longrightarrow> wr_status x = 400" for w x by (auto simp: stub_invalid_def stub_error_def split: if_splits)
  obtain subject key v where q: "\<not> sp_production P" "authenticate P q = Some subject" "key \<noteq> []" "sq_json q = Some v" "stub_invalid v = None"
    "(case sq_key q of Some k \<Rightarrow> trim k | None \<Rightarrow> []) = key"
    and c: "stub_create P subject key v ?s = (r, t)"
    using assms(2,3) inv
    by (auto simp: stub_workspaces_POST_def Let_def not_found_def error_reply_def stub_error_def split: if_splits option.splits)
  have post: "stub_workspaces_POST P q u = stub_create P subject key v u" for u
    using q by (simp add: stub_workspaces_POST_def Let_def)
  have t: "t = stub_handle P (PostWorkspace q) ?s" using assms(2) by (simp add: stub_handle_def)
  have grows: "stub_grows t (stub_run P after t)" using stub_run_ok [OF _ assms(1)] stub_handle_ok [OF ok assms(1)] t by metis
  obtain e where e: "find_replay (scoped_key (sp_num P) subject key) t = Some e" "se_canonical e = canonical_payload (sp_num P) v"
    "se_owner e = subject" "r = \<lparr>wr_status = 201, wr_body = stub_workspace_json (se_record e)\<rparr>"
    using stub_create_replayable [OF ok assms(1) c assms(3)] by blast
  have "stub_create P subject key v (stub_run P after t) = (r, stub_run P after t)"
    using find_replay_grows [OF grows e(1)] e by (simp add: stub_create_def Let_def)
  moreover have "\<exists>i. map_of (st_workspaces t) i = Some e" using e(1) by (auto simp: find_replay_def split: option.splits if_splits)
  ultimately show ?thesis using post q(2) e(3,4) by auto
qed

section \<open>Witnesses\<close>

definition sample_stub_platform :: stub_platform where
  "sample_stub_platform = \<lparr>sp_production = False, sp_verify = (\<lambda>t. Some (JObj [(''sub'', JStr t)])), sp_uuid = (\<lambda>n. replicate (Suc n) (CHR ''a'')),
     sp_now = ''now'', sp_num = (\<lambda>_. ''0'')\<rparr>"

definition sample_stub_request :: stub_request where
  "sample_stub_request = \<lparr>sq_authorization = Some ''Bearer t'', sq_key = Some ''k'',
     sq_json = Some (JObj [(''name'', JStr ''abc''), (''environment'', JStr ''staging'')]), sq_query_workspace = None, sq_header_workspace = None\<rparr>"

lemma sample_uuids: "fresh_uuids sample_stub_platform"
proof -
  have "inj (\<lambda>n. replicate (Suc n) (CHR ''a''))" by (rule injI) (metis Suc_inject length_replicate)
  then show ?thesis by (simp add: fresh_uuids_def sample_stub_platform_def)
qed

lemma sample_stub_created: "wr_status (fst (stub_workspaces_POST sample_stub_platform sample_stub_request (stub_run sample_stub_platform [] empty_stub))) = 201"
  by code_simp

theorem stub_creation_is_idempotent_witness:
  "let (r, t) = stub_workspaces_POST sample_stub_platform sample_stub_request (stub_run sample_stub_platform [] empty_stub)
   in wr_status r = 201 \<and> stub_workspaces_POST sample_stub_platform sample_stub_request t = (r, t)"
proof -
  obtain r t where rt: "stub_workspaces_POST sample_stub_platform sample_stub_request (stub_run sample_stub_platform [] empty_stub) = (r, t)"
    by fastforce
  moreover have "wr_status r = 201" using sample_stub_created rt by simp
  moreover have "stub_run sample_stub_platform [] t = t" by (simp add: stub_run_def)
  ultimately show ?thesis using stub_creation_is_idempotent [OF sample_uuids rt, of "[]"] by simp
qed

end
