(* ===== verification/Interactive.thy ===== *)
theory Interactive
  imports Main
begin

text \<open>
  The interface between an interactive component and what is shown of it. A component is a state with a
  step for every event and a list of the requests it has sent. Its provider promises that an invariant is
  kept and that every step only appends requests that are good; the clients get the same for every sequence
  of events, from the lemmas proved here once. The cards of questions and the page of policies provide it.
\<close>

locale interactive =
  fixes step :: "'s \<Rightarrow> 'e \<Rightarrow> 's"
    and inv :: "'s \<Rightarrow> bool"
    and sent :: "'s \<Rightarrow> 'r list"
    and good :: "'r \<Rightarrow> bool"
  assumes inv_step: "inv s \<Longrightarrow> inv (step s e)"
    and sent_step: "inv s \<Longrightarrow> \<exists>new. sent (step s e) = sent s @ new \<and> list_all good new"
begin

lemma run_inv: "inv s \<Longrightarrow> inv (foldl step s es)"
  by (induction es arbitrary: s) (simp_all add: inv_step)

lemma run_sent: "inv s \<Longrightarrow> \<exists>new. sent (foldl step s es) = sent s @ new \<and> list_all good new"
proof (induction es arbitrary: s)
  case Nil
  then show ?case by simp
next
  case (Cons e es)
  obtain new where new: "sent (step s e) = sent s @ new" "list_all good new" using sent_step [OF Cons.prems] by blast
  obtain rest where "sent (foldl step (step s e) es) = sent (step s e) @ rest" "list_all good rest"
    using Cons.IH [OF inv_step [OF Cons.prems]] by blast
  with new show ?case by (intro exI [of _ "new @ rest"]) simp
qed

lemma run_good: "inv s \<Longrightarrow> sent s = [] \<Longrightarrow> list_all good (sent (foldl step s es))"
  using run_sent [of s es] by auto

end

text \<open>A component that, once it has sent something, sends nothing else.\<close>

locale repeating = interactive +
  assumes repeats: "inv s \<Longrightarrow> r \<in> set (sent s) \<Longrightarrow> r' \<in> set (sent s) \<Longrightarrow> r = r'"
begin

lemma run_repeats:
  "inv s \<Longrightarrow> r \<in> set (sent (foldl step s es)) \<Longrightarrow> r' \<in> set (sent (foldl step s es)) \<Longrightarrow> r = r'"
  using repeats run_inv by blast

end

end
