(* ===== verification/Dashboard.thy ===== *)
theory Dashboard
  imports Frontend_Workspaces Interactive
begin

text \<open>
  The shell around every screen (\<open>frontend/components/layout/dashboard-shell.tsx\<close>) as a machine over presses,
  keys and answers: the listing of workspaces with its attempts, the change of workspace, the search panel and the
  width that survives a reload; the switcher of workspaces (\<open>workspace-switcher.tsx\<close>), the toggle of the
  theme (\<open>theme-toggle.tsx\<close>) and the menu of the user (\<open>user-menu.tsx\<close>). What the shell asks and hears of
  the server is logged, and the log is shown to be one of an abstract switcher of workspaces.
\<close>

section \<open>Theme and user\<close>

datatype theme = Dark | Light

definition theme_text :: "theme \<Rightarrow> string" where
  "theme_text t = (case t of Dark \<Rightarrow> ''dark'' | Light \<Rightarrow> ''light'')"

text \<open>The two effects of a mounted toggle: what was stored is read, and what is shown is stored.\<close>

definition stored_theme :: "string option \<Rightarrow> theme" where
  "stored_theme stored =
     (if stored = Some ''light'' then Light else if stored = Some ''dark'' then Dark else Dark)"

definition toggle_theme :: "theme \<Rightarrow> theme" where
  "toggle_theme t = (if t = Dark then Light else Dark)"

text \<open>\<open>split(/\s+/)\<close> with the empty parts left out.\<close>

fun blank_parts :: "string \<Rightarrow> string \<Rightarrow> string list" where
  "blank_parts part [] = [part]"
| "blank_parts part (c # cs) = (if is_ws c then part # blank_parts [] cs else blank_parts (part @ [c]) cs)"

definition name_parts :: "string \<Rightarrow> string list" where
  "name_parts n = filter (\<lambda>p. p \<noteq> []) (blank_parts [] (trim n))"

definition initials :: "string \<Rightarrow> string" where
  "initials n =
     (case name_parts n of
        [] \<Rightarrow> ''?''
      | [p] \<Rightarrow> map to_upper (take 1 p)
      | p # ps \<Rightarrow> map to_upper (take 1 p @ take 1 (last ps)))"

definition account_name :: "string option \<Rightarrow> string option \<Rightarrow> string option \<Rightarrow> string" where
  "account_name full user_name email =
     (if given full then the full else if given user_name then the user_name
      else if given email then the email else ''Account'')"

text \<open>The menu: whether it is open, and whether signing out was asked for. Its listeners exist while it is open.\<close>

datatype menu_event = PressMenu | PressOutside | MenuKey string | PressSettings | PressSignOut

fun menu_step :: "bool \<times> bool \<Rightarrow> menu_event \<Rightarrow> bool \<times> bool" where
  "menu_step (opened, leaving) PressMenu = (\<not> opened, leaving)"
| "menu_step (opened, leaving) PressOutside = (False, leaving)"
| "menu_step (opened, leaving) (MenuKey key) = (opened \<and> key \<noteq> ''Escape'', leaving)"
| "menu_step (opened, leaving) PressSettings = (False, leaving)"
| "menu_step (opened, leaving) PressSignOut = (if opened then (False, True) else (opened, leaving))"

section \<open>State\<close>

datatype list_status = ListLoading | ListReady | ListFailed

text \<open>The body of a listing: workspaces if they are an array, the active one or nothing, and the flag.\<close>

record list_body =
  lb_workspaces :: "workspace_membership list option"
  lb_active :: json
  lb_degraded :: bool

text \<open>An answer is lost (no connection, no JSON, a timeout), or it has an \<open>ok\<close> and a body.\<close>

type_synonym 'b fetched = "(bool \<times> 'b) option"

datatype shell_entry =
    Listed "string list" json
  | Unlisted
  | AsksClaim string
  | Answered "json fetched"
  | LeavesFor string

record shell =
  sh_collapsed :: bool
  sh_stored :: "string option"
  sh_switcher :: bool
  sh_search :: bool
  sh_workspaces :: "workspace_membership list"
  sh_active :: json
  sh_attempt :: nat
  sh_status :: list_status
  sh_switching :: bool
  sh_claim :: "string option"
  sh_error :: "string option"
  sh_log :: "shell_entry list"

definition shell_initial :: shell where
  "shell_initial =
     \<lparr>sh_collapsed = False, sh_stored = None, sh_switcher = False, sh_search = False, sh_workspaces = [], sh_active = JNull,
      sh_attempt = 0, sh_status = ListLoading, sh_switching = False, sh_claim = None, sh_error = None, sh_log = []\<rparr>"

text \<open>Both effects on the stored width: it is read once and written whenever it has changed.\<close>

definition restore_collapsed :: "string option \<Rightarrow> shell \<Rightarrow> shell" where
  "restore_collapsed stored s = (if stored = Some ''true'' then s\<lparr>sh_collapsed := True\<rparr> else s)"

definition persist_collapsed :: "shell \<Rightarrow> shell" where
  "persist_collapsed s = s\<lparr>sh_stored := Some (if sh_collapsed s then ''true'' else ''false'')\<rparr>"

definition shell_start :: "string option \<Rightarrow> shell" where
  "shell_start stored = persist_collapsed (restore_collapsed stored (persist_collapsed shell_initial))"

definition activeWorkspace :: "shell \<Rightarrow> workspace_membership option" where
  "activeWorkspace s = List.find (\<lambda>w. strictly_equal (JStr (wm_id w)) (sh_active s)) (sh_workspaces s)"

definition shell_role :: "shell \<Rightarrow> workspace_role option" where
  "shell_role s = map_option wm_role (activeWorkspace s)"

definition shell_nav :: "shell \<Rightarrow> nav_item list" where
  "shell_nav s = visible_nav (shell_role s)"

text \<open>The switcher: the name it shows with its initial, and which entry of the menu is marked.\<close>

definition workspaceInitial :: "string \<Rightarrow> string" where
  "workspaceInitial n = (let i = map to_upper (take 1 (trim n)) in if i = [] then ''W'' else i)"

definition activeName :: "shell \<Rightarrow> string" where
  "activeName s = (case activeWorkspace s of Some w \<Rightarrow> wm_name w | None \<Rightarrow> ''No workspace'')"

definition switcher_menu :: "shell \<Rightarrow> (string \<times> bool) list" where
  "switcher_menu s =
     map (\<lambda>w. (wm_id w, map_option wm_id (activeWorkspace s) = Some (wm_id w))) (sh_workspaces s)"

section \<open>Listing and switching\<close>

definition list_retry :: "shell \<Rightarrow> shell" where
  "list_retry s = (if sh_status s = ListFailed then s\<lparr>sh_attempt := sh_attempt s + 1, sh_status := ListLoading\<rparr> else s)"

text \<open>The answer to an attempt; one to an earlier attempt is cancelled.\<close>

definition list_checked :: "list_body fetched \<Rightarrow> (workspace_membership list \<times> json) option" where
  "list_checked a =
     (case a of
        None \<Rightarrow> None
      | Some (ok, body) \<Rightarrow>
          if \<not> ok then None
          else if lb_degraded body then None
          else map_option (\<lambda>ws. (ws, coalesce (lb_active body) JNull)) (lb_workspaces body))"

definition list_done :: "nat \<Rightarrow> list_body fetched \<Rightarrow> shell \<Rightarrow> shell" where
  "list_done attempt a s =
     (if attempt \<noteq> sh_attempt s \<or> sh_status s \<noteq> ListLoading then s
      else case list_checked a of
        Some (ws, active) \<Rightarrow>
          s\<lparr>sh_workspaces := ws, sh_active := active, sh_status := ListReady, sh_log := sh_log s @ [Listed (map wm_id ws) active]\<rparr>
      | None \<Rightarrow> s\<lparr>sh_workspaces := [], sh_active := JNull, sh_status := ListFailed, sh_log := sh_log s @ [Unlisted]\<rparr>)"

definition selectWorkspace :: "string \<Rightarrow> shell \<Rightarrow> shell" where
  "selectWorkspace w s =
     (if sh_switching s \<or> strictly_equal (JStr w) (sh_active s) then s
      else if \<not> list_ex (\<lambda>m. wm_id m = w) (sh_workspaces s) then s
      else s\<lparr>sh_switching := True, sh_error := None, sh_claim := Some w, sh_log := sh_log s @ [AsksClaim w]\<rparr>)"

definition claim_confirmed :: "string \<Rightarrow> json fetched \<Rightarrow> bool" where
  "claim_confirmed w a = (case a of Some (ok, body) \<Rightarrow> ok \<and> jget body ''workspaceId'' = JStr w | None \<Rightarrow> False)"

definition claim_done :: "json fetched \<Rightarrow> shell \<Rightarrow> shell" where
  "claim_done a s =
     (case sh_claim s of
        None \<Rightarrow> s
      | Some w \<Rightarrow>
          (let s = s\<lparr>sh_claim := None, sh_log := sh_log s @ [Answered a]\<rparr> in
           if claim_confirmed w a then s\<lparr>sh_log := sh_log s @ [LeavesFor ''/post-auth'']\<rparr>
           else s\<lparr>sh_error := Some ''Could not switch workspace. Please retry.'', sh_switching := False\<rparr>))"

text \<open>What happens to the shell; a key comes with its name and whether a modifier is down.\<close>

datatype shell_event =
    ListAnswer nat "list_body fetched"
  | PressRetryList
  | PressSwitcher
  | PressWorkspace string
  | ClaimAnswer "json fetched"
  | KeyDown string bool
  | PressCollapse
  | PressSearch
  | PressBackdrop

definition on_key :: "string \<Rightarrow> bool \<Rightarrow> shell \<Rightarrow> shell" where
  "on_key key modified s =
     (let s = (if modified \<and> map to_lower key = ''k'' then s\<lparr>sh_search := \<not> sh_search s\<rparr> else s) in
      if key = ''Escape'' then s\<lparr>sh_search := False, sh_switcher := False\<rparr> else s)"

text \<open>An entry of the open menu selects its workspace and closes the menu; both buttons are disabled while switching.\<close>

definition press_workspace :: "string \<Rightarrow> shell \<Rightarrow> shell" where
  "press_workspace w s =
     (if \<not> sh_switcher s \<or> sh_switching s \<or> w \<notin> fst ` set (switcher_menu s) then s
      else (selectWorkspace w s)\<lparr>sh_switcher := False\<rparr>)"

fun shell_handle :: "shell \<Rightarrow> shell_event \<Rightarrow> shell" where
  "shell_handle s (ListAnswer n a) = list_done n a s"
| "shell_handle s PressRetryList = list_retry s"
| "shell_handle s PressSwitcher = (if sh_switching s then s else s\<lparr>sh_switcher := \<not> sh_switcher s\<rparr>)"
| "shell_handle s (PressWorkspace w) = press_workspace w s"
| "shell_handle s (ClaimAnswer a) = claim_done a s"
| "shell_handle s (KeyDown key modified) = on_key key modified s"
| "shell_handle s PressCollapse = s\<lparr>sh_collapsed := \<not> sh_collapsed s\<rparr>"
| "shell_handle s PressSearch = s\<lparr>sh_search := True\<rparr>"
| "shell_handle s PressBackdrop = s\<lparr>sh_search := False\<rparr>"

definition shell_step :: "shell \<Rightarrow> shell_event \<Rightarrow> shell" where
  "shell_step s e = persist_collapsed (shell_handle s e)"

definition shell_run :: "string option \<Rightarrow> shell_event list \<Rightarrow> shell" where
  "shell_run stored es = foldl shell_step (shell_start stored) es"

section \<open>The abstract switcher\<close>

text \<open>
  What the log may be: the workspaces listed last with the active one, and a phase. A claim is asked for in
  the idle phase only, for a listed workspace that is not active; its answer is awaited, and the shell leaves
  after a confirmation of this workspace and never otherwise. \<open>None\<close> is a log the contract does not allow.
\<close>

datatype switch_phase = Idle | Claiming string | Accepted | Gone

type_synonym switcher = "string list \<times> json \<times> switch_phase"

fun switch_next :: "switcher \<Rightarrow> shell_entry \<Rightarrow> switcher option" where
  "switch_next (ids, active, phase) (Listed ids' active') = Some (ids', active', phase)"
| "switch_next (ids, active, phase) Unlisted = Some ([], JNull, phase)"
| "switch_next (ids, active, phase) (AsksClaim w) =
     (if phase = Idle \<and> w \<in> set ids \<and> active \<noteq> JStr w then Some (ids, active, Claiming w) else None)"
| "switch_next (ids, active, phase) (Answered a) =
     (case phase of
        Claiming w \<Rightarrow> Some (ids, active, 
          if (case a of Some (ok, body) \<Rightarrow> ok \<and> jget body ''workspaceId'' = JStr w | None \<Rightarrow> False) then Accepted else Idle)
      | _ \<Rightarrow> None)"
| "switch_next (ids, active, phase) (LeavesFor path) =
     (if phase = Accepted \<and> path = ''/post-auth'' then Some (ids, active, Gone) else None)"

definition switch_log :: "shell_entry list \<Rightarrow> switcher option" where
  "switch_log entries = foldl (\<lambda>r e. Option.bind r (\<lambda>x. switch_next x e)) (Some ([], JNull, Idle)) entries"

lemma switch_log_snoc: "switch_log (entries @ [e]) = Option.bind (switch_log entries) (\<lambda>x. switch_next x e)"
  by (simp add: switch_log_def)

text \<open>The abstraction of a state of the shell.\<close>

definition shell_switcher :: "shell \<Rightarrow> switcher" where
  "shell_switcher s =
     (map wm_id (sh_workspaces s), sh_active s,
      case sh_claim s of Some w \<Rightarrow> Claiming w | None \<Rightarrow> if sh_switching s then Gone else Idle)"

definition shell_ok :: "shell \<Rightarrow> bool" where
  "shell_ok s \<longleftrightarrow> (sh_claim s \<noteq> None \<longrightarrow> sh_switching s) \<and> switch_log (sh_log s) = Some (shell_switcher s)"

lemma strictly_equal_text: "strictly_equal (JStr w) v \<longleftrightarrow> v = JStr w"
  by (cases v) (auto simp: strictly_equal_def)

lemma shell_start_ok: "shell_ok (shell_start stored)"
  by (simp add: shell_ok_def shell_switcher_def shell_start_def persist_collapsed_def restore_collapsed_def shell_initial_def switch_log_def)

lemma list_done_ok: "shell_ok s \<Longrightarrow> shell_ok (list_done n a s)"
  by (auto simp: shell_ok_def shell_switcher_def list_done_def switch_log_snoc split: option.split)

lemma selectWorkspace_ok: "shell_ok s \<Longrightarrow> shell_ok (selectWorkspace w s)"
  by (auto simp: shell_ok_def shell_switcher_def selectWorkspace_def switch_log_snoc strictly_equal_text list_ex_iff split: option.splits)

lemma claim_done_ok:
  assumes "shell_ok s"
  shows "shell_ok (claim_done a s)"
proof (cases "sh_claim s")
  case None
  with assms show ?thesis by (simp add: claim_done_def)
next
  case (Some w)
  with assms show ?thesis
    by (simp add: claim_done_def Let_def shell_ok_def shell_switcher_def switch_log_snoc [of "sh_log s"]
        switch_log_snoc [of "sh_log s @ [Answered a]", simplified] claim_confirmed_def)
qed

lemma shell_ok_view:
  "shell_ok (s\<lparr>sh_switcher := b\<rparr>) = shell_ok s" "shell_ok (s\<lparr>sh_search := b\<rparr>) = shell_ok s"
  "shell_ok (s\<lparr>sh_collapsed := b\<rparr>) = shell_ok s" "shell_ok (s\<lparr>sh_stored := o'\<rparr>) = shell_ok s"
  "shell_ok (s\<lparr>sh_attempt := n, sh_status := st\<rparr>) = shell_ok s"
  by (simp_all add: shell_ok_def shell_switcher_def)

lemma shell_handle_ok: "shell_ok s \<Longrightarrow> shell_ok (shell_handle s e)"
  by (cases e)
    (simp_all add: list_done_ok claim_done_ok selectWorkspace_ok shell_ok_view list_retry_def press_workspace_def on_key_def Let_def)

lemma shell_run_ok: "shell_ok (shell_run stored es)"
proof -
  have "shell_ok s \<Longrightarrow> shell_ok (foldl shell_step s es)" for s
    by (induction es arbitrary: s) (simp_all add: shell_step_def persist_collapsed_def shell_ok_view shell_handle_ok)
  then show ?thesis by (simp add: shell_run_def shell_start_ok)
qed

text \<open>
  C33. The shell refines the abstract switcher of workspaces. Whatever is pressed and answered in which order, and
  however often a listing is retried, what the shell asks and hears is a log of the switcher, and its state
  is that of the switcher: a claim is asked for one listed workspace at a time that is not the active one, and the
  shell leaves for the hand-over exactly when the answer confirms the workspace that was asked for.
\<close>

theorem shell_refines_switcher:
  "switch_log (sh_log (shell_run stored es)) = Some (shell_switcher (shell_run stored es))"
  using shell_run_ok by (simp add: shell_ok_def)

text \<open>Two claims: the first is answered for another workspace, the second is confirmed.\<close>

definition sample_member :: "string \<Rightarrow> workspace_role \<Rightarrow> workspace_membership" where
  "sample_member i r = \<lparr>wm_id = i, wm_name = i, wm_slug = i, wm_environment = ''staging'', wm_description = None, wm_created = None,
     wm_updated = None, wm_role = r\<rparr>"

definition sample_switching :: "shell_event list" where
  "sample_switching =
     [ListAnswer 0 None, PressRetryList, ListAnswer 0 None,
      ListAnswer 1 (Some (True, \<lparr>lb_workspaces = Some [sample_member ''a'' Viewer, sample_member ''b'' Approver],
        lb_active = JStr ''a'', lb_degraded = False\<rparr>)),
      PressSwitcher, PressWorkspace ''b'', ClaimAnswer (Some (True, JObj [(''workspaceId'', JStr ''a'')])),
      PressSwitcher, PressWorkspace ''b'', ClaimAnswer (Some (True, JObj [(''workspaceId'', JStr ''b'')]))]"

lemma sample_switching_log:
  "sh_log (shell_run (Some ''true'') sample_switching) =
     [Unlisted, Listed [''a'', ''b''] (JStr ''a''), AsksClaim ''b'', Answered (Some (True, JObj [(''workspaceId'', JStr ''a'')])),
      AsksClaim ''b'', Answered (Some (True, JObj [(''workspaceId'', JStr ''b'')])), LeavesFor ''/post-auth'']"
  by code_simp

text \<open>The width survives a reload.\<close>

lemma width_survives_reload:
  "sh_collapsed (shell_start (sh_stored (shell_run stored es))) = sh_collapsed (shell_run stored es)"
proof -
  have "sh_stored (shell_run stored es) = Some (if sh_collapsed (shell_run stored es) then ''true'' else ''false'')"
    by (cases es rule: rev_cases) (simp_all add: shell_run_def shell_step_def shell_start_def persist_collapsed_def)
  then show ?thesis by (simp add: shell_start_def persist_collapsed_def restore_collapsed_def shell_initial_def)
qed

lemma theme_survives_reload: "stored_theme (Some (theme_text t)) = t"
  by (cases t) (simp_all add: stored_theme_def theme_text_def)

section \<open>Navigation is what the service grants\<close>

text \<open>The reply of the route, as the shell reads it, and what an item of the orchestrator's list is.\<close>

definition list_reply :: "listing \<Rightarrow> list_body" where
  "list_reply l = \<lparr>lb_workspaces = Some (li_workspaces l), lb_active = li_active l, lb_degraded = li_degraded l\<rparr>"

definition answered_item :: "'s workspace_server \<Rightarrow> json \<Rightarrow> bool" where
  "answered_item S item \<longleftrightarrow>
     (\<exists>token u r u' items. sv_fetch S \<lparr>rq_method = ''GET'', rq_url = api_url (sv_vars S) @ ''/v1/workspaces'',
        rq_headers = [bearer token], rq_body = None\<rparr> u = (Inr r, u') \<and> response_ok r \<and> rs_json r = Some (JArr items) \<and> item \<in> set items)"

lemma listed_item_answered:
  assumes "listWorkspaces num S token u = (Inr ws, t)" and "w \<in> set ws"
  shows "\<exists>item. answered_item S item \<and> w = to_membership num item"
proof -
  from assms(1) obtain r u' v vs where r: "catching (sv_fetch S \<lparr>rq_method = ''GET'', rq_url = api_url (sv_vars S) @ ''/v1/workspaces'',
        rq_headers = [bearer token], rq_body = None\<rparr>) (\<lambda>e. throw (timeout_as ''listWorkspaces'' S e)) u = (Inr r, u')"
    and ok: "response_ok r" and v: "rs_json r = Some v" "js_arr v = Some vs" "ws = map (to_membership num) (filter is_object_type vs)"
    unfolding listWorkspaces_def by (auto simp: bnd_Inr_iff check_Inr_iff the_or_Inr_iff read_json_def ret_def)
  from r have f: "sv_fetch S \<lparr>rq_method = ''GET'', rq_url = api_url (sv_vars S) @ ''/v1/workspaces'',
        rq_headers = [bearer token], rq_body = None\<rparr> u = (Inr r, u')"
    by (auto simp: catching_def throw_def split: prod.splits sum.splits)
  from v assms(2) obtain item where item: "item \<in> set vs" "w = to_membership num item" by auto
  have "v = JArr vs" using v(2) by (cases v) auto
  with f ok v item show ?thesis unfolding answered_item_def by blast
qed

lemma replied_item_answered:
  assumes "workspace_list_GET num S s = (Inr l, t)" and "w \<in> set (li_workspaces l)"
  shows "\<exists>item. answered_item S item \<and> w = to_membership num item"
proof -
  from assms(1) obtain active token u where
    l: "(if \<not> given token then ret \<lparr>li_workspaces = [], li_active = active, li_degraded = True\<rparr>
     else attempting (listWorkspaces num S (the token))
       (\<lambda>_. ret \<lparr>li_workspaces = [], li_active = active, li_degraded = True\<rparr>)
       (\<lambda>ws. ret \<lparr>li_workspaces = ws, li_active = (if list_ex (\<lambda>w. strictly_equal (JStr (wm_id w)) active) ws then active else JNull),
                  li_degraded = False\<rparr>)) u = (Inr l, t)"
    unfolding workspace_list_GET_def bnd_Inr_iff Let_def by blast
  obtain r v where r: "listWorkspaces num S (the token) u = (r, v)" by fastforce
  from l r assms(2) obtain ws where "r = Inr ws" "w \<in> set ws" by (cases "given token"; cases r) (auto simp: ret_def)
  then show ?thesis using listed_item_answered [of num S "the token" u ws v w] r by simp
qed

definition honest_answer :: "(rat \<Rightarrow> string) \<Rightarrow> 's workspace_server \<Rightarrow> shell_event \<Rightarrow> bool" where
  "honest_answer num S e \<longleftrightarrow>
     (\<forall>n body. e = ListAnswer n (Some (True, body)) \<longrightarrow> (\<exists>s l t. workspace_list_GET num S s = (Inr l, t) \<and> body = list_reply l))"

definition members_answered :: "(rat \<Rightarrow> string) \<Rightarrow> 's workspace_server \<Rightarrow> shell \<Rightarrow> bool" where
  "members_answered num S s \<longleftrightarrow> (\<forall>w\<in>set (sh_workspaces s). \<exists>item. answered_item S item \<and> w = to_membership num item)"

lemma list_checked_Some: "list_checked a = Some (ws, active) \<longleftrightarrow>
    (\<exists>body. a = Some (True, body) \<and> \<not> lb_degraded body \<and> lb_workspaces body = Some ws \<and> active = coalesce (lb_active body) JNull)"
  by (auto simp: list_checked_def split: option.splits if_splits)

lemma list_done_members:
  assumes "members_answered num S s" and "honest_answer num S (ListAnswer n a)"
  shows "members_answered num S (list_done n a s)"
proof (cases "list_checked a")
  case None
  with assms(1) show ?thesis by (simp add: list_done_def members_answered_def)
next
  case (Some x)
  then obtain ws active body where x: "x = (ws, active)" and a: "a = Some (True, body)" and ws: "lb_workspaces body = Some ws"
    by (cases x) (auto simp: list_checked_Some)
  from assms(2) a obtain u l t where l: "workspace_list_GET num S u = (Inr l, t)" "body = list_reply l"
    by (auto simp: honest_answer_def)
  then have "ws = li_workspaces l" using ws by (simp add: list_reply_def)
  then have "\<forall>w\<in>set ws. \<exists>item. answered_item S item \<and> w = to_membership num item"
    using replied_item_answered [OF l(1)] by blast
  with Some x assms(1) show ?thesis by (simp add: list_done_def members_answered_def)
qed

lemma same_workspaces:
  "sh_workspaces (selectWorkspace w s) = sh_workspaces s" "sh_workspaces (claim_done r s) = sh_workspaces s"
  by (simp_all add: selectWorkspace_def claim_done_def Let_def split: option.split)

lemma shell_step_members:
  assumes "members_answered num S s" and "honest_answer num S e"
  shows "members_answered num S (shell_step s e)"
proof (cases "\<exists>n a. e = ListAnswer n a")
  case True
  then obtain n a where e: "e = ListAnswer n a" by blast
  have "members_answered num S (list_done n a s)" using assms unfolding e by (rule list_done_members)
  then show ?thesis by (simp add: e shell_step_def persist_collapsed_def members_answered_def)
next
  case False
  then have "sh_workspaces (shell_handle s e) = sh_workspaces s"
    by (cases e) (simp_all add: list_retry_def press_workspace_def on_key_def Let_def same_workspaces)
  then have "sh_workspaces (shell_step s e) = sh_workspaces s" by (simp add: shell_step_def persist_collapsed_def)
  with assms(1) show ?thesis by (simp add: members_answered_def)
qed

text \<open>
  C34. The shell offers no screen the service does not grant. If the answers the shell reads are replies of the
  route, then in every run each entry of the navigation is the dashboard, or its screen is open to the role
  that an item of the orchestrator's own list gives for the active workspace; an item without a known
  role counts as that of a viewer.
\<close>

theorem navigation_is_granted_by_service:
  assumes "\<forall>e\<in>set es. honest_answer num S e" and "i \<in> set (shell_nav (shell_run stored es))"
  shows "ni_screen i = Dashboard \<or>
    (\<exists>item. answered_item S item \<and> sh_active (shell_run stored es) = JStr (string_field num item ''id'') \<and>
       canAccessScreen (Some (case isWorkspaceRole (jget item ''role'') of Some r \<Rightarrow> r | None \<Rightarrow> Viewer)) (ni_screen i))"
proof -
  let ?s = "shell_run stored es"
  have "members_answered num S s \<Longrightarrow> \<forall>e\<in>set es. honest_answer num S e \<Longrightarrow> members_answered num S (foldl shell_step s es)" for s
    by (induction es arbitrary: s) (simp_all add: shell_step_members)
  moreover have "members_answered num S (shell_start stored)"
    by (simp add: members_answered_def shell_start_def persist_collapsed_def restore_collapsed_def shell_initial_def)
  ultimately have m: "members_answered num S ?s" using assms(1) by (simp add: shell_run_def)
  have i: "canAccessScreen (shell_role ?s) (ni_screen i)" using assms(2) by (auto simp: shell_nav_def visible_nav_def)
  show ?thesis
  proof (cases "activeWorkspace ?s")
    case None
    with i show ?thesis by (simp add: shell_role_def canAccessScreen_def)
  next
    case (Some w)
    then have w: "w \<in> set (sh_workspaces ?s)" "sh_active ?s = JStr (wm_id w)"
      unfolding activeWorkspace_def strictly_equal_text by (auto dest: find_SomeD)
    then obtain item where item: "answered_item S item" "w = to_membership num item" using m unfolding members_answered_def by blast
    have "canAccessScreen (Some (wm_role w)) (ni_screen i)" using i Some by (simp add: shell_role_def)
    with item w(2) show ?thesis by (auto simp: to_membership_def)
  qed
qed

text \<open>A session with a claim, and a list whose item names no known role.\<close>

definition sample_shell_server :: "unit workspace_server" where
  "sample_shell_server = sample_workspace_server\<lparr>sv_protect :=
     ret \<lparr>ss_user = ''c1'', ss_claims = JObj [(''metadata'', JObj [(''workspaceId'', JStr ''w1'')])]\<rparr>\<rparr>"

theorem navigation_is_granted_by_service_witness:
  "\<exists>l i item. workspace_list_GET (\<lambda>_. []) sample_shell_server () = (Inr l, ()) \<and>
     i \<in> set (shell_nav (shell_run None [ListAnswer 0 (Some (True, list_reply l))])) \<and> ni_screen i = Chat \<and>
     answered_item sample_shell_server item \<and> string_field (\<lambda>_. []) item ''id'' = ''w1''"
proof -
  let ?l = "\<lparr>li_workspaces = [to_membership (\<lambda>_. []) sample_workspace_json], li_active = JStr ''w1'', li_degraded = False\<rparr>"
  let ?run = "shell_run None [ListAnswer 0 (Some (True, list_reply ?l))]"
  have l: "workspace_list_GET (\<lambda>_. []) sample_shell_server () = (Inr ?l, ())"
    by (simp add: workspace_list_GET_def listWorkspaces_def sample_shell_server_def sample_workspace_server_def sample_fetch_def
        given_def bnd_def attempting_def catching_def response_ok_def read_json_def server.defs json_response_def check_def Let_def
        claimed_workspace_def sample_workspace_json_def to_membership_def string_field_def strictly_equal_def coalesce_def nullish_def)
  have member: "to_membership (\<lambda>_. []) sample_workspace_json = (sample_member ''w1'' Viewer)\<lparr>wm_name := [], wm_slug := ''s''\<rparr>"
    by code_simp
  have run: "ni_screen (hd (shell_nav ?run)) = Chat" "hd (shell_nav ?run) \<in> set (shell_nav ?run)" "sh_active ?run = JStr ''w1''"
    unfolding member by code_simp+
  have "\<forall>e\<in>set [ListAnswer 0 (Some (True, list_reply ?l))]. honest_answer (\<lambda>_. []) sample_shell_server e"
    using l by (auto simp: honest_answer_def)
  from navigation_is_granted_by_service [OF this run(2)] run(1,3)
  obtain item where "answered_item sample_shell_server item" "string_field (\<lambda>_. []) item ''id'' = ''w1''" by auto
  with l run show ?thesis by blast
qed

end
