(* ===== verification/Resource_Table.thy ===== *)
theory Resource_Table
  imports Js "HOL-Library.Sublist" "HOL-Library.Multiset"
begin

text \<open>
  The table of cloud resources (\<open>frontend/components/ui/resource-table.tsx\<close>, with the types of
  \<open>frontend/lib/resources/types.ts\<close> and the counts of \<open>frontend/lib/resources/mock-data.ts\<close>): search, filters and sorting of its rows,
  and the comparison of the planned with the actual state of a resource that has drifted, a
  longest common subsequence of lines by dynamic programming. Collation (\<open>localeCompare\<close>) is a
  parameter; markup and style classes are not modelled.
\<close>

section \<open>Resources\<close>

datatype cloud = Aws | Azure | Gcp

datatype resource_status = Running | Stopped | Terminated | Unknown

record resource_item =
  ri_id :: string
  ri_name :: string
  ri_type :: string
  ri_provider :: cloud
  ri_region :: string
  ri_status :: resource_status
  ri_drift :: bool
  ri_owner_run :: "string option"
  ri_last_synced :: string
  ri_tags :: "(string \<times> string) list"
  ri_metadata :: json
  ri_expected :: "json option"
  ri_actual :: "json option"

definition driftCount :: "resource_item list \<Rightarrow> nat" where
  "driftCount resources = length (filter ri_drift resources)"

definition providerCounts :: "resource_item list \<Rightarrow> (cloud \<times> nat) list" where
  "providerCounts resources =
     filter (\<lambda>entry. snd entry > 0)
       (map (\<lambda>provider. (provider, length (filter (\<lambda>r. ri_provider r = provider) resources))) [Aws, Azure, Gcp])"

fun statusLabel :: "resource_status \<Rightarrow> string" where
  "statusLabel Running = ''Running''"
| "statusLabel Stopped = ''Stopped''"
| "statusLabel Terminated = ''Terminated''"
| "statusLabel Unknown = ''Unknown''"

text \<open>\<open>s.includes(t)\<close>.\<close>

fun js_includes :: "string \<Rightarrow> string \<Rightarrow> bool" where
  "js_includes t [] = (t = [])"
| "js_includes t (c # s) = (starts_with t (c # s) \<or> js_includes t s)"

datatype type_icon = DatabaseIcon | NetworkIcon | HardDriveIcon | ServerStackIcon

definition typeIcon :: "string \<Rightarrow> type_icon" where
  "typeIcon t =
     (if js_includes ''rds'' t \<or> js_includes ''database'' t \<or> js_includes ''postgres'' t then DatabaseIcon
      else if js_includes ''lb'' t \<or> js_includes ''load_balancer'' t \<or> js_includes ''vnet'' t \<or> js_includes ''network'' t then NetworkIcon
      else if js_includes ''storage'' t \<or> js_includes ''bucket'' t \<or> js_includes ''volume'' t then HardDriveIcon
      else ServerStackIcon)"

section \<open>Rows\<close>

text \<open>\<open>toLowerCase\<close> on the code units up to 255.\<close>

definition lower_unit :: "char \<Rightarrow> char" where
  "lower_unit c =
     (let n = code_unit c in
      if is_upper c \<or> (192 \<le> n \<and> n \<le> 222 \<and> n \<noteq> 215) then char_of (n + 32) else c)"

definition lower_case :: "string \<Rightarrow> string" where
  "lower_case s = map lower_unit s"

datatype drift_filter = AllDrift | OnlyDrift | OnlyClean

datatype sort_column = ByName | ByRegion | ByLastSynced

datatype sort_dir = Ascending | Descending

record table_view =
  tv_search :: string
  tv_provider :: "cloud option"
  tv_drift :: drift_filter
  tv_sort :: "(sort_column \<times> sort_dir) option"
  tv_expanded :: "string option"

definition initial_view :: table_view where
  "initial_view = \<lparr>tv_search = [], tv_provider = None, tv_drift = AllDrift, tv_sort = Some (ByName, Ascending), tv_expanded = None\<rparr>"

definition row_shown :: "table_view \<Rightarrow> resource_item \<Rightarrow> bool" where
  "row_shown v r =
     (let query = lower_case (trim (tv_search v)) in
      if query \<noteq> [] \<and> \<not> js_includes query (lower_case (ri_name r @ '' '' @ ri_type r @ '' '' @ ri_region r)) then False
      else if tv_provider v \<noteq> None \<and> Some (ri_provider r) \<noteq> tv_provider v then False
      else if tv_drift v = OnlyDrift \<and> \<not> ri_drift r then False
      else if tv_drift v = OnlyClean \<and> ri_drift r then False
      else True)"

fun sort_field :: "sort_column \<Rightarrow> resource_item \<Rightarrow> string" where
  "sort_field ByName r = ri_name r"
| "sort_field ByRegion r = ri_region r"
| "sort_field ByLastSynced r = ri_last_synced r"

text \<open>
  \<open>Array.prototype.sort\<close> with a comparator is a stable sort when the comparator is consistent;
  here by insertion, an element going before the first that it is less than.
\<close>

fun sorted_insert :: "('a \<Rightarrow> 'a \<Rightarrow> int) \<Rightarrow> 'a \<Rightarrow> 'a list \<Rightarrow> 'a list" where
  "sorted_insert cmp x [] = [x]"
| "sorted_insert cmp x (y # ys) = (if cmp x y \<le> 0 then x # y # ys else y # sorted_insert cmp x ys)"

definition js_sort :: "('a \<Rightarrow> 'a \<Rightarrow> int) \<Rightarrow> 'a list \<Rightarrow> 'a list" where
  "js_sort cmp xs = foldr (sorted_insert cmp) xs []"

definition compare_rows :: "(string \<Rightarrow> string \<Rightarrow> int) \<Rightarrow> sort_column \<times> sort_dir \<Rightarrow> resource_item \<Rightarrow> resource_item \<Rightarrow> int" where
  "compare_rows collate s a b =
     (let c = collate (sort_field (fst s) a) (sort_field (fst s) b) in if snd s = Ascending then c else - c)"

definition table_rows :: "(string \<Rightarrow> string \<Rightarrow> int) \<Rightarrow> table_view \<Rightarrow> resource_item list \<Rightarrow> resource_item list" where
  "table_rows collate v resources =
     (let filtered = filter (row_shown v) resources in
      case tv_sort v of None \<Rightarrow> filtered | Some s \<Rightarrow> js_sort (compare_rows collate s) filtered)"

definition toggleSort :: "sort_column \<Rightarrow> table_view \<Rightarrow> table_view" where
  "toggleSort key v =
     v\<lparr>tv_sort := (case tv_sort v of
         Some (k, d) \<Rightarrow> if k = key then Some (key, if d = Ascending then Descending else Ascending) else Some (key, Ascending)
       | None \<Rightarrow> Some (key, Ascending))\<rparr>"

definition hasFilters :: "table_view \<Rightarrow> bool" where
  "hasFilters v = (tv_search v \<noteq> [] \<or> tv_provider v \<noteq> None \<or> tv_drift v \<noteq> AllDrift)"

definition clear_filters :: "table_view \<Rightarrow> table_view" where
  "clear_filters v = v\<lparr>tv_search := [], tv_provider := None, tv_drift := AllDrift\<rparr>"

definition toggle_row :: "string \<Rightarrow> table_view \<Rightarrow> table_view" where
  "toggle_row i v = v\<lparr>tv_expanded := (if tv_expanded v = Some i then None else Some i)\<rparr>"

section \<open>Lines of a value\<close>

text \<open>\<open>JSON.stringify(v, null, 2)\<close>.\<close>

definition nl :: char where
  "nl = char_of (10 :: nat)"

definition bracketed :: "char \<Rightarrow> char \<Rightarrow> nat \<Rightarrow> string list \<Rightarrow> string" where
  "bracketed opening closing ind items =
     (if items = [] then [opening, closing]
      else [opening, nl] @ replicate (ind + 2) CHR '' '' @ join ([CHR '','', nl] @ replicate (ind + 2) CHR '' '') items @
           [nl] @ replicate ind CHR '' '' @ [closing])"

fun pretty :: "(rat \<Rightarrow> string) \<Rightarrow> nat \<Rightarrow> json \<Rightarrow> string" where
  "pretty num ind JUndef = ''null''"
| "pretty num ind JNull = ''null''"
| "pretty num ind (JBool b) = (if b then ''true'' else ''false'')"
| "pretty num ind (JNum n) = num n"
| "pretty num ind (JStr s) = quote s"
| "pretty num ind (JArr vs) = bracketed (CHR ''['') (CHR '']'') ind (map (pretty num (ind + 2)) vs)"
| "pretty num ind (JObj kvs) =
     bracketed (CHR ''{'') (CHR ''}'') ind
       (map (\<lambda>kv. quote (fst kv) @ '': '' @ pretty num (ind + 2) (snd kv)) (filter (\<lambda>kv. snd kv \<noteq> JUndef) kvs))"

definition json_lines :: "(rat \<Rightarrow> string) \<Rightarrow> json \<Rightarrow> string list" where
  "json_lines num v = split_on nl (pretty num 0 (coalesce v (JObj [])))"

section \<open>Comparison of lines\<close>

text \<open>The table, an array of rows, filled cell by cell.\<close>

definition lcs_cell :: "string list \<Rightarrow> string list \<Rightarrow> nat \<Rightarrow> nat \<Rightarrow> nat list list \<Rightarrow> nat list list" where
  "lcs_cell L R i j dp =
     dp[i := (dp ! i)[j := (if L ! (i - 1) = R ! (j - 1) then dp ! (i - 1) ! (j - 1) + 1
                            else max (dp ! (i - 1) ! j) (dp ! i ! (j - 1)))]]"

definition lcs_row :: "string list \<Rightarrow> string list \<Rightarrow> nat \<Rightarrow> nat list list \<Rightarrow> nat list list" where
  "lcs_row L R i dp = fold (lcs_cell L R i) [1..<Suc (length R)] dp"

definition lcs_table :: "string list \<Rightarrow> string list \<Rightarrow> nat list list" where
  "lcs_table L R =
     fold (lcs_row L R) [1..<Suc (length L)] (replicate (Suc (length L)) (replicate (Suc (length R)) 0))"

text \<open>The way back, which marks the lines that match.\<close>

fun backtrack :: "nat list list \<Rightarrow> string list \<Rightarrow> string list \<Rightarrow> nat \<Rightarrow> nat \<Rightarrow> bool list \<times> bool list \<Rightarrow> bool list \<times> bool list" where
  "backtrack dp L R (Suc i) (Suc j) (lm, rm) =
     (if L ! i = R ! j then backtrack dp L R i j (lm[i := True], rm[j := True])
      else if dp ! i ! Suc j \<ge> dp ! Suc i ! j then backtrack dp L R i (Suc j) (lm, rm)
      else backtrack dp L R (Suc i) j (lm, rm))"
| "backtrack dp L R i j ms = ms"

definition diff_flags :: "string list \<Rightarrow> string list \<Rightarrow> string list \<times> string list" where
  "diff_flags L R =
     (let (lm, rm) = backtrack (lcs_table L R) L R (length L) (length R)
                       (replicate (length L) False, replicate (length R) False);
          flag = (\<lambda>b. if b then [] else ''changed'')
      in (map flag lm, map flag rm))"

definition diffLines :: "(rat \<Rightarrow> string) \<Rightarrow> json \<Rightarrow> json \<Rightarrow> string list \<times> string list" where
  "diffLines num left right = diff_flags (json_lines num left) (json_lines num right)"

definition hasConflict :: "resource_item \<Rightarrow> bool" where
  "hasConflict r = (ri_drift r \<and> ri_expected r \<noteq> None \<and> ri_actual r \<noteq> None)"

section \<open>The table holds longest common subsequences\<close>

fun lcs :: "'a list \<Rightarrow> 'a list \<Rightarrow> nat \<Rightarrow> nat \<Rightarrow> nat" where
  "lcs L R (Suc i) (Suc j) = (if L ! i = R ! j then lcs L R i j + 1 else max (lcs L R i (Suc j)) (lcs L R (Suc i) j))"
| "lcs L R i j = 0"

lemma lcs_zero [simp]: "lcs L R 0 j = 0" "lcs L R i 0 = 0"
  by (cases i; simp)+

text \<open>No common subsequence of two prefixes is longer.\<close>

lemma subseq_snoc: "subseq zs (ys @ [y]) \<longleftrightarrow> subseq zs ys \<or> (\<exists>us. zs = us @ [y] \<and> subseq us ys)"
proof
  assume "subseq zs (ys @ [y])"
  then obtain us vs where zs: "zs = us @ vs" "subseq us ys" "subseq vs [y]" by (auto simp: subseq_append_iff)
  then have "vs = [] \<or> vs = [y]" by (cases vs) (auto split: if_splits)
  with zs show "subseq zs ys \<or> (\<exists>us. zs = us @ [y] \<and> subseq us ys)" by auto
qed auto

lemma subseq_snocs: "subseq (us @ [y]) (xs @ [x]) \<Longrightarrow> subseq us xs"
proof -
  assume "subseq (us @ [y]) (xs @ [x])"
  then have "subseq (us @ [y]) xs \<or> subseq us xs" by (auto simp: subseq_snoc)
  moreover have "subseq us (us @ [y])" by (simp add: subseq_rev_drop_many)
  ultimately show ?thesis using subseq_order.order_trans by blast
qed

lemma lcs_upper:
  "i \<le> length L \<Longrightarrow> j \<le> length R \<Longrightarrow> subseq zs (take i L) \<Longrightarrow> subseq zs (take j R) \<Longrightarrow> length zs \<le> lcs L R i j"
proof (induction L R i j arbitrary: zs rule: lcs.induct)
  case (1 L R i j)
  then have l: "take (Suc i) L = take i L @ [L ! i]" and r: "take (Suc j) R = take j R @ [R ! j]"
    by (simp_all add: take_Suc_conv_app_nth)
  show ?case
  proof (cases "L ! i = R ! j")
    case True
    show ?thesis
    proof (cases zs rule: rev_cases)
      case (snoc us y)
      with 1(6) l have "subseq us (take i L)" by (auto intro: subseq_snocs)
      moreover from 1(7) r snoc have "subseq us (take j R)" by (auto intro: subseq_snocs)
      ultimately have "length us \<le> lcs L R i j" using 1(1) [OF True] 1(4,5) by simp
      with True snoc show ?thesis by simp
    qed simp
  next
    case False
    then have "subseq zs (take i L) \<or> subseq zs (take j R)"
      using 1(6,7) l r by (auto simp: subseq_snoc)
    then have "length zs \<le> lcs L R i (Suc j) \<or> length zs \<le> lcs L R (Suc i) j"
      using 1(2,3) [OF False] 1(4-7) by auto
    with False show ?thesis by auto
  qed
qed auto

text \<open>The loops fill the table with these lengths.\<close>

definition table_shape :: "string list \<Rightarrow> string list \<Rightarrow> nat list list \<Rightarrow> bool" where
  "table_shape L R dp \<longleftrightarrow> length dp = Suc (length L) \<and> (\<forall>i \<le> length L. length (dp ! i) = Suc (length R) \<and> dp ! i ! 0 = 0)"

definition row_filled :: "string list \<Rightarrow> string list \<Rightarrow> nat list list \<Rightarrow> nat \<Rightarrow> nat \<Rightarrow> bool" where
  "row_filled L R dp i k \<longleftrightarrow> (\<forall>j \<le> k. dp ! i ! j = lcs L R i j)"

lemma cell_step:
  assumes "table_shape L R dp" and "i < length L" and "k < length R"
    and "row_filled L R dp i (length R)" and "row_filled L R dp (Suc i) k"
  shows "table_shape L R (lcs_cell L R (Suc i) (Suc k) dp)" and "row_filled L R (lcs_cell L R (Suc i) (Suc k) dp) (Suc i) (Suc k)"
    and "\<And>r. r \<noteq> Suc i \<Longrightarrow> lcs_cell L R (Suc i) (Suc k) dp ! r = dp ! r"
  using assms by (auto simp: table_shape_def row_filled_def lcs_cell_def nth_list_update le_Suc_eq)

lemma row_step:
  assumes "table_shape L R dp" and "i < length L" and "row_filled L R dp i (length R)" and "k \<le> length R"
  shows "let d = fold (lcs_cell L R (Suc i)) [1..<Suc k] dp in
    table_shape L R d \<and> row_filled L R d (Suc i) k \<and> (\<forall>r. r \<noteq> Suc i \<longrightarrow> d ! r = dp ! r)"
  using assms(4)
proof (induction k)
  case 0
  with assms show ?case by (simp add: row_filled_def table_shape_def Let_def)
next
  case (Suc k)
  let ?d = "fold (lcs_cell L R (Suc i)) [1..<Suc k] dp"
  from Suc have d: "table_shape L R ?d" "row_filled L R ?d (Suc i) k" "\<forall>r. r \<noteq> Suc i \<longrightarrow> ?d ! r = dp ! r"
    by (simp_all add: Let_def)
  then have "row_filled L R ?d i (length R)" using assms(3) by (simp add: row_filled_def)
  from cell_step [OF d(1) assms(2) _ this d(2)] Suc.prems d(3) show ?case by (simp add: Let_def)
qed

lemma table_filled:
  "m \<le> length L \<Longrightarrow> let d = fold (lcs_row L R) [1..<Suc m] (replicate (Suc (length L)) (replicate (Suc (length R)) 0)) in
    table_shape L R d \<and> (\<forall>i \<le> m. row_filled L R d i (length R))"
proof (induction m)
  case 0
  show ?case by (simp add: Let_def table_shape_def row_filled_def nth_Cons split: nat.split)
next
  case (Suc m)
  let ?d = "fold (lcs_row L R) [1..<Suc m] (replicate (Suc (length L)) (replicate (Suc (length R)) 0))"
  from Suc have d: "table_shape L R ?d" "\<forall>i \<le> m. row_filled L R ?d i (length R)" by (simp_all add: Let_def)
  have "fold (lcs_row L R) [1..<Suc (Suc m)] (replicate (Suc (length L)) (replicate (Suc (length R)) 0)) =
      fold (lcs_cell L R (Suc m)) [1..<Suc (length R)] ?d"
    by (simp add: lcs_row_def)
  with row_step [OF d(1), of m "length R"] d(2) Suc.prems show ?case
    by (auto simp: Let_def row_filled_def le_Suc_eq)
qed

lemma lcs_table_correct: "i \<le> length L \<Longrightarrow> j \<le> length R \<Longrightarrow> lcs_table L R ! i ! j = lcs L R i j"
  using table_filled [of "length L" L R] by (simp add: lcs_table_def Let_def row_filled_def)

section \<open>The marked lines\<close>

definition marked :: "'a list \<Rightarrow> bool list \<Rightarrow> 'a list" where
  "marked xs bs = map fst (filter snd (zip xs bs))"

lemma marked_subseq: "length bs = length xs \<Longrightarrow> subseq (marked xs bs) xs"
  unfolding marked_def by (metis map_fst_zip subseq_filter_left subseq_map)

lemma marked_none: "(\<And>k. k < length bs \<Longrightarrow> \<not> bs ! k) \<Longrightarrow> marked xs bs = []"
  by (auto simp: marked_def filter_empty_conv set_zip)

lemma marked_Nil [simp]: "marked xs [] = []"
  by (simp add: marked_def)

lemma marked_take_Suc:
  "i < length xs \<Longrightarrow> length bs = length xs \<Longrightarrow>
   marked (take (Suc i) xs) (take (Suc i) bs) = marked (take i xs) (take i bs) @ (if bs ! i then [xs ! i] else [])"
  by (simp add: marked_def take_Suc_conv_app_nth zip_append)

lemma backtrack_marks:
  assumes "\<forall>i \<le> length L. \<forall>j \<le> length R. dp ! i ! j = lcs L R i j"
    and "length (fst ms) = length L" "length (snd ms) = length R" "i \<le> length L" "j \<le> length R"
    and "\<forall>k < i. \<not> fst ms ! k" "\<forall>k < j. \<not> snd ms ! k"
    and "backtrack dp L R i j ms = (lm, rm)"
  shows "length lm = length L \<and> length rm = length R \<and> (\<forall>k \<ge> i. lm ! k = fst ms ! k) \<and> (\<forall>k \<ge> j. rm ! k = snd ms ! k) \<and>
    marked (take j R) (take j rm) = marked (take i L) (take i lm) \<and>
    length (marked (take i L) (take i lm)) = lcs L R i j"
  using assms
proof (induction dp L R i j ms arbitrary: lm rm rule: backtrack.induct)
  case (1 dp L R i j l r)
  note dp = 1(4) and prems = 1(5-10)
  have ij: "i < length L" "j < length R" using prems by simp_all
  consider (eq) "L ! i = R ! j" | (up) "L ! i \<noteq> R ! j" "dp ! i ! Suc j \<ge> dp ! Suc i ! j"
    | (left) "L ! i \<noteq> R ! j" "\<not> dp ! i ! Suc j \<ge> dp ! Suc i ! j" by blast
  then show ?case
  proof cases
    case eq
    have "backtrack dp L R i j (l[i := True], r[j := True]) = (lm, rm)" using eq 1(11) by simp
    from 1(1) [OF eq dp _ _ _ _ _ _ this] prems ij
    have ih: "length lm = length L" "length rm = length R" "\<forall>k \<ge> i. lm ! k = l[i := True] ! k" "\<forall>k \<ge> j. rm ! k = r[j := True] ! k"
      "marked (take j R) (take j rm) = marked (take i L) (take i lm)" "length (marked (take i L) (take i lm)) = lcs L R i j"
      by simp_all
    then have "lm ! i" "rm ! j" using prems ij by simp_all
    with ih eq ij show ?thesis by (simp add: marked_take_Suc)
  next
    case up
    have "backtrack dp L R i (Suc j) (l, r) = (lm, rm)" using up 1(11) by simp
    from 1(2) [OF up dp _ _ _ _ _ _ this] prems ij
    have ih: "length lm = length L" "length rm = length R" "\<forall>k \<ge> i. lm ! k = l ! k" "\<forall>k \<ge> Suc j. rm ! k = r ! k"
      "marked (take (Suc j) R) (take (Suc j) rm) = marked (take i L) (take i lm)"
      "length (marked (take i L) (take i lm)) = lcs L R i (Suc j)"
      by simp_all
    moreover have "\<not> lm ! i" using ih(3) prems by simp
    ultimately show ?thesis using up dp ij by (simp add: marked_take_Suc)
  next
    case left
    have "backtrack dp L R (Suc i) j (l, r) = (lm, rm)" using left 1(11) by simp
    from 1(3) [OF left dp _ _ _ _ _ _ this] prems ij
    have ih: "length lm = length L" "length rm = length R" "\<forall>k \<ge> Suc i. lm ! k = l ! k" "\<forall>k \<ge> j. rm ! k = r ! k"
      "marked (take j R) (take j rm) = marked (take (Suc i) L) (take (Suc i) lm)"
      "length (marked (take (Suc i) L) (take (Suc i) lm)) = lcs L R (Suc i) j"
      by simp_all
    moreover have "\<not> rm ! j" using ih(4) prems by simp
    ultimately show ?thesis using left dp ij by (simp add: marked_take_Suc)
  qed
qed (auto intro!: marked_none marked_none [symmetric])

text \<open>The lines without a flag.\<close>

definition unflagged :: "string list \<Rightarrow> string list \<Rightarrow> string list" where
  "unflagged xs flags = map fst (filter (\<lambda>xf. snd xf = []) (zip xs flags))"

lemma unflagged_marked: "unflagged xs (map (\<lambda>b. if b then [] else ''changed'') bs) = marked xs bs"
  by (simp add: unflagged_def marked_def zip_map2 filter_map comp_def split_beta)

lemma diff_flags_correct:
  assumes "diff_flags L R = (fl, fr)"
  shows "length fl = length L \<and> length fr = length R \<and> unflagged L fl = unflagged R fr \<and>
    subseq (unflagged L fl) L \<and> length (unflagged L fl) = lcs L R (length L) (length R)"
proof -
  obtain lm rm where bt: "backtrack (lcs_table L R) L R (length L) (length R)
      (replicate (length L) False, replicate (length R) False) = (lm, rm)" by force
  with assms have f: "fl = map (\<lambda>b. if b then [] else ''changed'') lm" "fr = map (\<lambda>b. if b then [] else ''changed'') rm"
    by (auto simp: diff_flags_def Let_def)
  from backtrack_marks [OF _ _ _ _ _ _ _ bt] lcs_table_correct
  have "length lm = length L" "length rm = length R" "marked R rm = marked L lm"
    "length (marked L lm) = lcs L R (length L) (length R)"
    by auto
  with f marked_subseq [of lm L] show ?thesis by (simp add: unflagged_marked)
qed

section \<open>Sorting\<close>

text \<open>What a collation promises: signs that fit together.\<close>

definition collation :: "(string \<Rightarrow> string \<Rightarrow> int) \<Rightarrow> bool" where
  "collation c \<longleftrightarrow> (\<forall>a b. sgn (c b a) = - sgn (c a b)) \<and> (\<forall>a b d. c a b \<le> 0 \<longrightarrow> c b d \<le> 0 \<longrightarrow> c a d \<le> 0)"

text \<open>Comparators and the fields they look at, as the sort of a list needs them.\<close>

locale consistent_comparator =
  fixes cmp :: "'a \<Rightarrow> 'a \<Rightarrow> int" and field :: "'a \<Rightarrow> 'b"
  assumes antisym: "sgn (cmp b a) = - sgn (cmp a b)"
    and trans: "cmp a b \<le> 0 \<Longrightarrow> cmp b c \<le> 0 \<Longrightarrow> cmp a c \<le> 0"
    and same_field: "field a = field b \<Longrightarrow> cmp a b = 0"
begin

lemma flip: "\<not> cmp a b \<le> 0 \<Longrightarrow> cmp b a \<le> 0"
  using antisym [of a b] by (auto simp: sgn_if split: if_splits)

lemma insert_mset: "mset (sorted_insert cmp x ys) = add_mset x (mset ys)"
  by (induction ys) auto

lemma insert_sorted:
  assumes "sorted_wrt (\<lambda>a b. cmp a b \<le> 0) ys"
  shows "sorted_wrt (\<lambda>a b. cmp a b \<le> 0) (sorted_insert cmp x ys)"
  using assms
proof (induction ys)
  case (Cons y ys)
  have set: "set (sorted_insert cmp x ys) = insert x (set ys)" using insert_mset by (metis set_mset_add_mset_insert set_mset_mset)
  from Cons show ?case by (auto simp: set intro: trans flip)
qed simp

lemma insert_stable:
  "filter (\<lambda>a. field a = k) (sorted_insert cmp x ys) = filter (\<lambda>a. field a = k) (x # ys)"
  by (induction ys) (auto simp: same_field)

lemma sort_mset: "mset (js_sort cmp xs) = mset xs"
  by (induction xs) (auto simp: js_sort_def insert_mset)

lemma sort_sorted: "sorted_wrt (\<lambda>a b. cmp a b \<le> 0) (js_sort cmp xs)"
  by (induction xs) (auto simp: js_sort_def insert_sorted)

lemma sort_stable: "filter (\<lambda>a. field a = k) (js_sort cmp xs) = filter (\<lambda>a. field a = k) xs"
proof (induction xs)
  case (Cons x xs)
  then show ?case by (simp add: js_sort_def insert_stable)
qed (simp add: js_sort_def)

end

text \<open>The comparison of two rows, by either direction of a collation.\<close>

definition lawful_collation :: "(string \<Rightarrow> string \<Rightarrow> int) \<Rightarrow> string \<Rightarrow> string \<Rightarrow> int" where
  "lawful_collation c = (if collation c then c else (\<lambda>a b. 0))"

lemma collation_same: "collation c \<Longrightarrow> c a a = 0"
  unfolding collation_def by (metis equal_neg_zero sgn_0_0)

lemma collationD:
  "collation c \<Longrightarrow> sgn (c b a) = - sgn (c a b)"
  "collation c \<Longrightarrow> c a b \<le> 0 \<Longrightarrow> c b d \<le> 0 \<Longrightarrow> c a d \<le> 0"
  unfolding collation_def by blast+

lemma lawful_collation_laws:
  "sgn (lawful_collation c b a) = - sgn (lawful_collation c a b)"
  "lawful_collation c a b \<le> 0 \<Longrightarrow> lawful_collation c b d \<le> 0 \<Longrightarrow> lawful_collation c a d \<le> 0"
  "lawful_collation c a a = 0"
proof -
  have lawful: "lawful_collation c = c" if "collation c" using that by (simp add: lawful_collation_def)
  have trivial: "lawful_collation c x y = 0" if "\<not> collation c" for x y using that by (simp add: lawful_collation_def)
  show "sgn (lawful_collation c b a) = - sgn (lawful_collation c a b)"
    by (cases "collation c") (simp only: lawful, rule collationD(1), assumption, simp add: trivial)
  show "lawful_collation c a b \<le> 0 \<Longrightarrow> lawful_collation c b d \<le> 0 \<Longrightarrow> lawful_collation c a d \<le> 0"
    by (cases "collation c") (simp only: lawful, rule collationD(2), assumption+, simp add: trivial)
  show "lawful_collation c a a = 0"
    by (cases "collation c") (simp_all add: lawful trivial collation_same)
qed

lemma lawful_collation_flip: "0 \<le> lawful_collation c a b \<longleftrightarrow> lawful_collation c b a \<le> 0"
proof -
  have "0 \<le> x \<longleftrightarrow> y \<le> 0" if "sgn y = - sgn x" for x y :: int
    using that by (auto simp: sgn_if split: if_splits)
  then show ?thesis using lawful_collation_laws(1) by blast
qed

lemma lawful_collation_flipped:
  assumes "0 \<le> lawful_collation c a b" and "0 \<le> lawful_collation c b d"
  shows "0 \<le> lawful_collation c a d"
  using assms lawful_collation_laws(2) [of c d b a] unfolding lawful_collation_flip [of c a] lawful_collation_flip [of c b] by blast

interpretation by_column: consistent_comparator "compare_rows (lawful_collation c) s" "sort_field (fst s)" for c s
proof
  fix a b d
  show "sgn (compare_rows (lawful_collation c) s b a) = - sgn (compare_rows (lawful_collation c) s a b)"
    by (simp add: compare_rows_def Let_def sgn_minus
        lawful_collation_laws(1) [of c "sort_field (fst s) b" "sort_field (fst s) a"])
  show "compare_rows (lawful_collation c) s a b \<le> 0 \<Longrightarrow> compare_rows (lawful_collation c) s b d \<le> 0 \<Longrightarrow>
      compare_rows (lawful_collation c) s a d \<le> 0"
    by (auto simp: compare_rows_def Let_def intro: lawful_collation_laws(2) lawful_collation_flipped split: if_splits)
  show "sort_field (fst s) a = sort_field (fst s) b \<Longrightarrow> compare_rows (lawful_collation c) s a b = 0"
    by (simp add: compare_rows_def lawful_collation_laws(3))
qed

section \<open>Properties\<close>

text \<open>
  C39. The comparison of the planned with the actual state flags as few lines as possible. One
  flag is computed per line of either side; the lines left without a flag are the same on both sides, in the
  same order, and no list of lines that both sides contain in order is longer: the dynamic
  program over the table, with the way back, computes a longest common subsequence.
\<close>

theorem diff_keeps_longest_common_subsequence:
  assumes "diffLines num left right = (fl, fr)"
    and "subseq zs (json_lines num left)" and "subseq zs (json_lines num right)"
  shows "length fl = length (json_lines num left) \<and> length fr = length (json_lines num right) \<and>
    unflagged (json_lines num left) fl = unflagged (json_lines num right) fr \<and>
    subseq (unflagged (json_lines num left) fl) (json_lines num left) \<and>
    length zs \<le> length (unflagged (json_lines num left) fl)"
  using diff_flags_correct [OF assms(1) [unfolded diffLines_def]]
    lcs_upper [of "length (json_lines num left)" "json_lines num left" "length (json_lines num right)" "json_lines num right" zs]
    assms(2,3)
  by auto

theorem diff_keeps_longest_common_subsequence_witness:
  "\<exists>fl fr. diffLines (\<lambda>n. []) (JObj [(''a'', JBool True)]) (JObj [(''a'', JBool False)]) = (fl, fr) \<and>
     2 \<le> length (unflagged (json_lines (\<lambda>n. []) (JObj [(''a'', JBool True)])) fl)"
proof -
  let ?l = "JObj [(''a'', JBool True)]" and ?r = "JObj [(''a'', JBool False)]"
  obtain fl fr where d: "diffLines (\<lambda>n. []) ?l ?r = (fl, fr)" by force
  have "subseq [''{'', ''}''] (json_lines (\<lambda>n. []) ?l)" by code_simp
  moreover have "subseq [''{'', ''}''] (json_lines (\<lambda>n. []) ?r)" by code_simp
  ultimately have "length [''{'', ''}''] \<le> length (unflagged (json_lines (\<lambda>n. []) ?l) fl)"
    using diff_keeps_longest_common_subsequence [OF d] by blast
  with d show ?thesis by auto
qed

text \<open>
  The rows of the table are exactly the resources that pass the search and the filters,
  each as often as it is given; with a sort they are in the order of the column, ascending or
  descending, and resources with the same text in the column stay in the order they were given in.
\<close>

theorem rows_are_filtered_and_sorted:
  assumes "collation collate" and "tv_sort v = Some s"
  shows "mset (table_rows collate v rs) = mset (filter (row_shown v) rs) \<and>
    sorted_wrt (\<lambda>a b. compare_rows collate s a b \<le> 0) (table_rows collate v rs) \<and>
    filter (\<lambda>r. sort_field (fst s) r = k) (table_rows collate v rs) =
      filter (\<lambda>r. sort_field (fst s) r = k \<and> row_shown v r) rs"
proof -
  have "lawful_collation collate = collate" using assms(1) by (simp add: lawful_collation_def)
  then have "table_rows collate v rs = js_sort (compare_rows (lawful_collation collate) s) (filter (row_shown v) rs)"
    and c: "compare_rows collate s = compare_rows (lawful_collation collate) s"
    using assms(2) by (simp_all add: table_rows_def Let_def)
  then show ?thesis
    using by_column.sort_mset by_column.sort_sorted by_column.sort_stable by (simp add: conj_commute)
qed

definition sample_item :: resource_item where
  "sample_item = \<lparr>ri_id = ''i'', ri_name = ''web'', ri_type = ''aws_ecs'', ri_provider = Aws, ri_region = ''us-east-1'',
     ri_status = Running, ri_drift = False, ri_owner_run = None, ri_last_synced = ''2026'', ri_tags = [], ri_metadata = JObj [],
     ri_expected = None, ri_actual = None\<rparr>"

theorem rows_are_filtered_and_sorted_witness:
  "mset (table_rows (\<lambda>a b. int (length a) - int (length b)) initial_view [sample_item, sample_item\<lparr>ri_name := ''db''\<rparr>]) =
     {#sample_item, sample_item\<lparr>ri_name := ''db''\<rparr>#}"
proof -
  have "collation (\<lambda>a b. int (length a) - int (length b))" by (simp add: collation_def sgn_if)
  moreover have "tv_sort initial_view = Some (ByName, Ascending)" by (simp add: initial_view_def)
  moreover have "row_shown initial_view r" for r
    by (simp add: row_shown_def initial_view_def lower_case_def trim_def)
  ultimately show ?thesis using rows_are_filtered_and_sorted by simp
qed

end
