(* ===== verification/Onboarding.thy ===== *)
theory Onboarding
  imports Frontend_Workspaces Resource_Table
begin

text \<open>
  The set-up of a workspace in the browser: the wizard that creates it
  (\<open>frontend/components/onboarding/workspace-onboarding-wizard.tsx\<close>), the older flow over
  organizations (\<open>frontend/components/onboarding/onboarding-flow.tsx\<close>), and the hand-over to the session that knows
  the new workspace (\<open>frontend/components/auth/post-auth-handoff.tsx\<close>, \<open>frontend/app/post-auth/page.tsx\<close>). The
  components are state machines over what the user does and what arrives; an
  \<open>await\<close> splits a handler in two events. Markup is not modelled.
\<close>

section \<open>Slugs\<close>

text \<open>\<open>s.replace(/[^a-z0-9]+/g, "-")\<close>: the flag says that a run has just been replaced.\<close>

definition slug_unit :: "char \<Rightarrow> bool" where
  "slug_unit c = (is_lower c \<or> is_digit c)"

fun dash_runs :: "bool \<Rightarrow> string \<Rightarrow> string" where
  "dash_runs b [] = []"
| "dash_runs b (c # cs) =
     (if slug_unit c then c # dash_runs False cs
      else if b then dash_runs True cs
      else CHR ''-'' # dash_runs True cs)"

text \<open>\<open>s.replace(/^-+|-+$/g, "")\<close>.\<close>

definition trim_dashes :: "string \<Rightarrow> string" where
  "trim_dashes s = rev (dropWhile (\<lambda>c. c = CHR ''-'') (rev (dropWhile (\<lambda>c. c = CHR ''-'') s)))"

definition normalizeSlug :: "string \<Rightarrow> string" where
  "normalizeSlug value = take 48 (trim_dashes (dash_runs False (trim (map to_lower value))))"

definition deriveSlug :: "string \<Rightarrow> string" where
  "deriveSlug name =
     (let slug = take 48 (trim_dashes (dash_runs False (trim (map to_lower name)))) in
      if slug \<noteq> [] then slug else ''your-workspace'')"

section \<open>The wizard\<close>

datatype wizard_environment = Development | Staging | Production

fun environment_id :: "wizard_environment \<Rightarrow> string" where
  "environment_id Development = ''development''"
| "environment_id Staging = ''staging''"
| "environment_id Production = ''production''"

fun cloud_id :: "cloud \<Rightarrow> string" where
  "cloud_id Aws = ''aws''"
| "cloud_id Azure = ''azure''"
| "cloud_id Gcp = ''gcp''"

definition wizard_steps :: "string list" where
  "wizard_steps = [''Create workspace'', ''Set environment'', ''Connect intent'']"

definition NAME_MIN :: nat where
  "NAME_MIN = 3"

definition NAME_MAX :: nat where
  "NAME_MAX = 64"

text \<open>
  The state and the references of the component: \<open>wz_payload\<close> is \<open>submittedPayload\<close>, \<open>wz_in_flight\<close> is
  \<open>submitInFlight\<close>, \<open>wz_retrying\<close> is \<open>retryingUnknownOutcome\<close> of the submission in flight. \<open>wz_keys\<close>
  counts the idempotency keys created, and \<open>wz_sent\<close> logs the key and the body of every request.
\<close>

record wizard =
  wz_step :: nat
  wz_name :: string
  wz_description :: string
  wz_avatar :: "string option"
  wz_environment :: wizard_environment
  wz_providers :: "cloud list"
  wz_name_error :: "string option"
  wz_submit_error :: "string option"
  wz_submitting :: bool
  wz_locked :: bool
  wz_created :: "string option"
  wz_key :: string
  wz_payload :: "string option"
  wz_in_flight :: bool
  wz_retrying :: bool
  wz_keys :: nat
  wz_sent :: "(string \<times> string) list"

definition wizard_start :: "(nat \<Rightarrow> string) \<Rightarrow> wizard" where
  "wizard_start key_of =
     \<lparr>wz_step = 0, wz_name = [], wz_description = [], wz_avatar = None, wz_environment = Development, wz_providers = [],
      wz_name_error = None, wz_submit_error = None, wz_submitting = False, wz_locked = False, wz_created = None,
      wz_key = key_of 0, wz_payload = None, wz_in_flight = False, wz_retrying = False, wz_keys = 1, wz_sent = []\<rparr>"

definition name_problem :: "string \<Rightarrow> string option" where
  "name_problem trimmed =
     (if length trimmed = 0 then Some ''Enter a workspace name.''
      else if length trimmed < NAME_MIN then Some (''Workspace name must be at least '' @ show_nat NAME_MIN @ '' characters.'')
      else if length trimmed > NAME_MAX then Some (''Workspace name must be at most '' @ show_nat NAME_MAX @ '' characters.'')
      else None)"

text \<open>\<open>validateName\<close>: the state with the error set or cleared; it returns whether there is none.\<close>

definition validateName :: "wizard \<Rightarrow> wizard" where
  "validateName z = z\<lparr>wz_name_error := name_problem (trim (wz_name z))\<rparr>"

definition name_valid :: "wizard \<Rightarrow> bool" where
  "name_valid z = (name_problem (trim (wz_name z)) = None)"

definition toggleProvider :: "cloud \<Rightarrow> wizard \<Rightarrow> wizard" where
  "toggleProvider p z =
     (if wz_payload z \<noteq> None then z
      else z\<lparr>wz_providers := (if p \<in> set (wz_providers z) then filter (\<lambda>x. x \<noteq> p) (wz_providers z) else wz_providers z @ [p])\<rparr>)"

definition wizard_payload :: "wizard \<Rightarrow> string" where
  "wizard_payload z = stringify (\<lambda>n. []) (JObj
     ([(''name'', JStr (trim (wz_name z)))] @
      (if trim (wz_description z) \<noteq> [] then [(''description'', JStr (trim (wz_description z)))] else []) @
      [(''environment'', JStr (environment_id (wz_environment z))),
       (''providers'', jstrs (map cloud_id (wz_providers z)))] @
      (if given (wz_avatar z) then [(''avatar'', JStr (the (wz_avatar z)))] else [])))"

text \<open>\<open>submit\<close> up to its \<open>await fetch\<close>.\<close>

definition send_payload :: "wizard \<Rightarrow> wizard" where
  "send_payload z =
     (let body = (case wz_payload z of Some p \<Rightarrow> p | None \<Rightarrow> wizard_payload z) in
      z\<lparr>wz_retrying := (wz_payload z \<noteq> None), wz_in_flight := True, wz_payload := Some body, wz_locked := True,
        wz_submitting := True, wz_submit_error := None, wz_sent := wz_sent z @ [(wz_key z, body)]\<rparr>)"

definition submit :: "wizard \<Rightarrow> wizard" where
  "submit z =
     (if wz_in_flight z then z
      else if wz_payload z = None
      then (if name_valid z then send_payload (validateName z) else (validateName z)\<lparr>wz_step := 0\<rparr>)
      else send_payload z)"

text \<open>
  The rest of \<open>submit\<close>: an answer with its status and its JSON body, \<open>JNull\<close> when the body
  cannot be read, or no answer at all.
\<close>

datatype wizard_answer = Answer nat json | NoAnswer

definition settled :: "wizard \<Rightarrow> wizard" where
  "settled z = z\<lparr>wz_in_flight := False, wz_submitting := False\<rparr>"

definition definitive_failure :: "nat \<Rightarrow> json \<Rightarrow> bool" where
  "definitive_failure status body =
     (jget body ''code'' \<noteq> JStr ''duplicate_idempotency_key'' \<and>
      (status \<in> {400, 401, 403, 422} \<or> jget body ''code'' = JStr ''slug_taken''))"

definition answer_refused :: "(nat \<Rightarrow> string) \<Rightarrow> nat \<Rightarrow> json \<Rightarrow> wizard \<Rightarrow> wizard" where
  "answer_refused key_of status body z =
     (let z = (if definitive_failure status body \<and> \<not> wz_retrying z
               then z\<lparr>wz_payload := None, wz_locked := False, wz_key := key_of (wz_keys z), wz_keys := wz_keys z + 1\<rparr>
               else z)
      in if jget body ''code'' = JStr ''slug_taken'' \<and> \<not> wz_retrying z
         then z\<lparr>wz_name_error := Some ''That workspace name is already taken. Try a different one.'', wz_step := 0\<rparr>
         else z\<lparr>wz_submit_error := Some ''We couldn't finish workspace setup. Please try again in a moment.''\<rparr>)"

fun answered :: "(nat \<Rightarrow> string) \<Rightarrow> wizard_answer \<Rightarrow> wizard \<Rightarrow> wizard" where
  "answered key_of NoAnswer z =
     settled (z\<lparr>wz_submit_error := Some ''We couldn't reach Provisr. Check your connection and try again.''\<rparr>)"
| "answered key_of (Answer status body) z =
     settled
       (if \<not> (200 \<le> status \<and> status < 300) then answer_refused key_of status body z
        else if \<not> truthy (jget body ''workspaceId'')
        then z\<lparr>wz_submit_error := Some ''We couldn't finish workspace setup. Please try again.''\<rparr>
        else z\<lparr>wz_created := Some (str_of (jget body ''workspaceId''))\<rparr>)"

definition goNext :: "wizard \<Rightarrow> wizard" where
  "goNext z =
     (if wz_payload z \<noteq> None then submit z
      else if wz_step z = 0 \<and> \<not> name_valid z then validateName z
      else (let z = (if wz_step z = 0 then validateName z else z)\<lparr>wz_submit_error := None\<rparr> in
            if wz_step z < length wizard_steps - 1 then z\<lparr>wz_step := wz_step z + 1\<rparr> else submit z))"

definition goBack :: "wizard \<Rightarrow> wizard" where
  "goBack z = (if wz_payload z \<noteq> None then z else z\<lparr>wz_submit_error := None, wz_step := wz_step z - 1\<rparr>)"

datatype wizard_event =
    TypeName string | LeaveName | TypeDescription string | PickAvatar string | PickEnvironment wizard_environment
  | ToggleProvider cloud | PressNext | PressBack | PressSkip | Arrive wizard_answer

text \<open>
  One event. Once the workspace is created the form is gone; an answer arrives only while a request is in
  flight. The disabled buttons are no guards here: the handlers have their own.
\<close>

fun wizard_handle :: "(nat \<Rightarrow> string) \<Rightarrow> wizard_event \<Rightarrow> wizard \<Rightarrow> wizard" where
  "wizard_handle key_of (TypeName s) z = (if wz_payload z \<noteq> None then z else z\<lparr>wz_name := s, wz_name_error := None\<rparr>)"
| "wizard_handle key_of LeaveName z = validateName z"
| "wizard_handle key_of (TypeDescription s) z = (if wz_payload z = None then z\<lparr>wz_description := s\<rparr> else z)"
| "wizard_handle key_of (PickAvatar a) z =
     (if wz_payload z = None then z\<lparr>wz_avatar := (if wz_avatar z = Some a then None else Some a)\<rparr> else z)"
| "wizard_handle key_of (PickEnvironment e) z = (if wz_payload z = None then z\<lparr>wz_environment := e\<rparr> else z)"
| "wizard_handle key_of (ToggleProvider p) z = toggleProvider p z"
| "wizard_handle key_of PressNext z = goNext z"
| "wizard_handle key_of PressBack z = goBack z"
| "wizard_handle key_of PressSkip z = submit z"
| "wizard_handle key_of (Arrive a) z = (if wz_in_flight z then answered key_of a z else z)"

definition wizard_step :: "(nat \<Rightarrow> string) \<Rightarrow> wizard \<Rightarrow> wizard_event \<Rightarrow> wizard" where
  "wizard_step key_of z e = (if wz_created z \<noteq> None then z else wizard_handle key_of e z)"

definition wizard_run :: "(nat \<Rightarrow> string) \<Rightarrow> wizard_event list \<Rightarrow> wizard" where
  "wizard_run key_of es = foldl (wizard_step key_of) (wizard_start key_of) es"

text \<open>Where the hand-over goes once the workspace exists.\<close>

definition handoff_target :: "wizard \<Rightarrow> string" where
  "handoff_target z = (if Aws \<in> set (wz_providers z) then ''/workspace/cloud-accounts?connect=aws'' else ''/dashboard'')"

section \<open>The flow over organizations\<close>

datatype flow_step = AccountStep | WorkspaceStep | TeamStep | PoliciesStep | CloudStep | ReviewStep

definition flow_steps :: "(flow_step \<times> string \<times> string) list" where
  "flow_steps =
     [(AccountStep, ''Your account'', ''Account''), (WorkspaceStep, ''Create workspace'', ''Workspace''),
      (TeamStep, ''Invite your team'', ''Team''), (PoliciesStep, ''Policy blueprint'', ''Policies''),
      (CloudStep, ''Connect cloud'', ''Cloud''), (ReviewStep, ''Review setup'', ''Review'')]"

datatype flow_role = Admin | Engineer | Approver | Auditor

record invite =
  in_email :: string
  in_id :: int
  in_role :: flow_role

record blueprint =
  bp_accent :: string
  bp_description :: string
  bp_id :: string
  bp_name :: string
  bp_rules :: "string list"
  bp_tag :: "string option"

definition policyBlueprints :: "blueprint list" where
  "policyBlueprints =
     [\<lparr>bp_accent = ''violet'',
       bp_description = ''A balanced foundation for most teams building production cloud infrastructure.'',
       bp_id = ''secure-baseline'', bp_name = ''Secure baseline'',
       bp_rules = [''Encryption by default'', ''Private networking'', ''7-day backups''], bp_tag = Some ''Recommended''\<rparr>,
      \<lparr>bp_accent = ''blue'',
       bp_description = ''Essential security and spend controls with a lighter approval path.'',
       bp_id = ''startup-velocity'', bp_name = ''Startup velocity'',
       bp_rules = [''Encryption by default'', ''Spend warnings'', ''Fast-track dev''], bp_tag = None\<rparr>,
      \<lparr>bp_accent = ''magenta'',
       bp_description = ''Stricter production controls for regulated and audit-heavy workloads.'',
       bp_id = ''regulated-production'', bp_name = ''Regulated production'',
       bp_rules = [''CIS-aligned controls'', ''Two-person approval'', ''30-day evidence''], bp_tag = None\<rparr>]"

text \<open>Description, identifier, name and label of the set-up.\<close>

definition cloudProviders :: "(string \<times> cloud \<times> string \<times> string) list" where
  "cloudProviders =
     [(''Connect an AWS account using a delegated IAM role.'', Aws, ''Amazon Web Services'', ''CloudFormation stack''),
      (''Connect an Azure subscription using a managed application.'', Azure, ''Microsoft Azure'', ''Azure deployment''),
      (''Connect a GCP project using workload identity federation.'', Gcp, ''Google Cloud'', ''GCP deployment'')]"

datatype connection = Idle | Guidance | Connected

text \<open>The state of \<open>FlowExperience\<close>; \<open>fl_calls\<close> logs the calls of \<open>onCreateOrganization\<close>, \<open>fl_opened\<close> the route pushed.\<close>

record flow =
  fl_index :: nat
  fl_blueprint :: string
  fl_budget :: string
  fl_connection :: connection
  fl_environment :: wizard_environment
  fl_region :: string
  fl_invites :: "invite list"
  fl_block_public :: bool
  fl_approval :: bool
  fl_encryption :: bool
  fl_provider :: cloud
  fl_slug :: string
  fl_workspace :: string
  fl_created :: bool
  fl_creating :: bool
  fl_error :: string
  fl_loaded :: bool
  fl_signed_in :: bool
  fl_calls :: "(string \<times> string) list"
  fl_opened :: "string option"

definition possessive :: "string \<Rightarrow> string" where
  "possessive user = user @ char_of (39 :: nat) # ''s workspace''"

definition flow_start :: "string option \<Rightarrow> bool \<Rightarrow> bool \<Rightarrow> flow" where
  "flow_start userName loaded signedIn =
     \<lparr>fl_index = 0, fl_blueprint = ''secure-baseline'', fl_budget = ''2,500'', fl_connection = Idle,
      fl_environment = Development, fl_region = ''us-east-1'', fl_invites = [], fl_block_public = True, fl_approval = True,
      fl_encryption = True, fl_provider = Aws,
      fl_slug = (if given userName then normalizeSlug (the userName @ ''-workspace'') else []),
      fl_workspace = (if given userName then possessive (the userName) else []),
      fl_created = False, fl_creating = False, fl_error = [], fl_loaded = loaded, fl_signed_in = signedIn, fl_calls = [],
      fl_opened = None\<rparr>"

definition activeStep :: "flow \<Rightarrow> flow_step" where
  "activeStep f = (if fl_index f < length flow_steps then fst (flow_steps ! fl_index f) else AccountStep)"

text \<open>The effect on the user's name.\<close>

definition user_named :: "string \<Rightarrow> flow \<Rightarrow> flow" where
  "user_named userName f =
     (if userName = [] \<or> fl_workspace f \<noteq> [] \<or> fl_slug f \<noteq> [] then f
      else f\<lparr>fl_slug := normalizeSlug (userName @ ''-workspace''), fl_workspace := possessive userName\<rparr>)"

definition canContinue :: "bool \<Rightarrow> flow \<Rightarrow> bool" where
  "canContinue clerk f =
     (case activeStep f of
        AccountStep \<Rightarrow> \<not> clerk \<or> (fl_loaded f \<and> fl_signed_in f)
      | WorkspaceStep \<Rightarrow> length (trim (fl_workspace f)) \<ge> 2 \<and> length (fl_slug f) \<ge> 2
      | PoliciesStep \<Rightarrow> list_ex (\<lambda>b. bp_id b = fl_blueprint f) policyBlueprints
      | _ \<Rightarrow> True)"

definition advance_flow :: "flow \<Rightarrow> flow" where
  "advance_flow f = f\<lparr>fl_index := min (fl_index f + 1) (length flow_steps - 1)\<rparr>"

text \<open>\<open>continueFlow\<close> up to its \<open>await\<close>, which is there when organizations can be created.\<close>

definition continueFlow :: "bool \<Rightarrow> bool \<Rightarrow> flow \<Rightarrow> flow" where
  "continueFlow clerk creates f =
     (if \<not> canContinue clerk f \<or> fl_index f \<ge> length flow_steps - 1 then f
      else if activeStep f = WorkspaceStep \<and> creates \<and> \<not> fl_created f
      then f\<lparr>fl_creating := True, fl_error := [], fl_calls := fl_calls f @ [(trim (fl_workspace f), fl_slug f)]\<rparr>
      else advance_flow f)"

datatype creation = Returned bool | Threw "string option"

fun creation_done :: "creation \<Rightarrow> flow \<Rightarrow> flow" where
  "creation_done (Returned created) f = advance_flow (f\<lparr>fl_created := created, fl_creating := False\<rparr>)"
| "creation_done (Threw message) f =
     f\<lparr>fl_error := (case message of Some m \<Rightarrow> m
         | None \<Rightarrow> ''We could not create this workspace. Check your Clerk organization settings and try again.''),
       fl_creating := False\<rparr>"

definition addInvite :: "string \<Rightarrow> flow_role \<Rightarrow> int \<Rightarrow> invite list \<Rightarrow> invite list" where
  "addInvite email role t invites =
     (if trim email = [] \<or> CHR ''@'' \<notin> set (trim email) then invites
      else invites @ [\<lparr>in_email = trim email, in_id = t, in_role = role\<rparr>])"

definition choose_provider :: "cloud \<Rightarrow> flow \<Rightarrow> flow" where
  "choose_provider p f = f\<lparr>fl_connection := (if p = fl_provider f then fl_connection f else Idle), fl_provider := p\<rparr>"

text \<open>
  \<open>createWorkspace\<close>, what the flow calls: organization, activation, claim. The platform's two functions are
  absent while it is loading.
\<close>

record 's organizations =
  or_create :: "(string \<Rightarrow> string \<Rightarrow> ('s, exn, string) op) option"
  or_activate :: "(string \<Rightarrow> ('s, exn, unit) op) option"
  or_fetch :: "http_request \<Rightarrow> ('s, exn, http_response) op"

definition claim_request :: "string \<Rightarrow> http_request" where
  "claim_request organization =
     \<lparr>rq_method = ''POST'', rq_url = ''/api/workspace/claim'', rq_headers = [(''Content-Type'', ''application/json'')],
      rq_body = Some (JObj [(''workspaceId'', JStr organization)])\<rparr>"

definition create_organization :: "'s organizations \<Rightarrow> string \<Rightarrow> string \<Rightarrow> ('s, exn, bool) op" where
  "create_organization G name slug =
     (case (or_create G, or_activate G) of
        (Some create, Some activate) \<Rightarrow>
          bnd (create name slug) (\<lambda>organization.
          bnd (activate organization) (\<lambda>_.
          bnd (or_fetch G (claim_request organization)) (\<lambda>res.
          bnd (check (response_ok res)
                 (OtherError ''We created your workspace but couldn't finish claiming it. Please try again.'')) (\<lambda>_.
          ret True))))
      | _ \<Rightarrow> throw (OtherError ''Clerk Organizations is still loading. Please try again.''))"

text \<open>Success means that the claim was accepted; a refused claim fails after the organization has been created.\<close>

lemma create_organization_Inr:
  "create_organization G name slug s = (Inr b, t) \<Longrightarrow>
     b \<and> (\<exists>create i u v res. or_create G = Some create \<and> create name slug s = (Inr i, u) \<and>
            or_fetch G (claim_request i) v = (Inr res, t) \<and> response_ok res)"
  by (auto simp: create_organization_def mnd split: option.splits)

datatype flow_event =
    AuthChanged bool bool | UserNamed string
  | ChangeName string | ChangeSlug string | ChangeEnvironment wizard_environment | ChangeRegion string
  | AddInvite string flow_role int | RemoveInvite int
  | ChooseBlueprint string | SetEncryption bool | SetApproval bool | SetBlockPublic bool | ChangeBudget string
  | ChooseProvider cloud | StartGuidance | VerifyConnection
  | PressContinue | CreationDone creation | FlowBack | SelectStep nat | OpenDashboard

text \<open>\<open>updateState\<close> of a field clears the error.\<close>

definition updateState :: "(flow \<Rightarrow> flow) \<Rightarrow> flow \<Rightarrow> flow" where
  "updateState g f = (g f)\<lparr>fl_error := []\<rparr>"

text \<open>A control of a step is there while the step is active, and a disabled button cannot be pressed.\<close>

definition shown :: "flow_step \<Rightarrow> (flow \<Rightarrow> flow) \<Rightarrow> flow \<Rightarrow> flow" where
  "shown st g f = (if activeStep f = st then updateState g f else f)"

fun flow_handle :: "bool \<Rightarrow> bool \<Rightarrow> flow_event \<Rightarrow> flow \<Rightarrow> flow" where
  "flow_handle clerk creates (AuthChanged l s) f = f\<lparr>fl_loaded := l, fl_signed_in := s\<rparr>"
| "flow_handle clerk creates (UserNamed u) f = user_named u f"
| "flow_handle clerk creates (ChangeName s) f = shown WorkspaceStep (\<lambda>f. f\<lparr>fl_slug := normalizeSlug s, fl_workspace := s\<rparr>) f"
| "flow_handle clerk creates (ChangeSlug s) f = shown WorkspaceStep (\<lambda>f. f\<lparr>fl_slug := normalizeSlug s\<rparr>) f"
| "flow_handle clerk creates (ChangeEnvironment e) f = shown WorkspaceStep (\<lambda>f. f\<lparr>fl_environment := e\<rparr>) f"
| "flow_handle clerk creates (ChangeRegion s) f = shown WorkspaceStep (\<lambda>f. f\<lparr>fl_region := s\<rparr>) f"
| "flow_handle clerk creates (AddInvite e r t) f =
     (if addInvite e r t (fl_invites f) = fl_invites f then f
      else shown TeamStep (\<lambda>f. f\<lparr>fl_invites := addInvite e r t (fl_invites f)\<rparr>) f)"
| "flow_handle clerk creates (RemoveInvite i) f =
     shown TeamStep (\<lambda>f. f\<lparr>fl_invites := filter (\<lambda>v. in_id v \<noteq> i) (fl_invites f)\<rparr>) f"
| "flow_handle clerk creates (ChooseBlueprint b) f = shown PoliciesStep (\<lambda>f. f\<lparr>fl_blueprint := b\<rparr>) f"
| "flow_handle clerk creates (SetEncryption b) f = shown PoliciesStep (\<lambda>f. f\<lparr>fl_encryption := b\<rparr>) f"
| "flow_handle clerk creates (SetApproval b) f = shown PoliciesStep (\<lambda>f. f\<lparr>fl_approval := b\<rparr>) f"
| "flow_handle clerk creates (SetBlockPublic b) f = shown PoliciesStep (\<lambda>f. f\<lparr>fl_block_public := b\<rparr>) f"
| "flow_handle clerk creates (ChangeBudget s) f = shown PoliciesStep (\<lambda>f. f\<lparr>fl_budget := s\<rparr>) f"
| "flow_handle clerk creates (ChooseProvider p) f = shown CloudStep (choose_provider p) f"
| "flow_handle clerk creates StartGuidance f =
     (if fl_connection f = Idle then shown CloudStep (\<lambda>f. f\<lparr>fl_connection := Guidance\<rparr>) f else f)"
| "flow_handle clerk creates VerifyConnection f =
     (if fl_connection f = Guidance then shown CloudStep (\<lambda>f. f\<lparr>fl_connection := Connected\<rparr>) f else f)"
| "flow_handle clerk creates PressContinue f =
     (if activeStep f = ReviewStep \<or> \<not> canContinue clerk f \<or> fl_creating f then f else continueFlow clerk creates f)"
| "flow_handle clerk creates (CreationDone c) f = (if fl_creating f then creation_done c f else f)"
| "flow_handle clerk creates FlowBack f = f\<lparr>fl_index := fl_index f - 1\<rparr>"
| "flow_handle clerk creates (SelectStep i) f = (if i > fl_index f then f else f\<lparr>fl_index := i\<rparr>)"
| "flow_handle clerk creates OpenDashboard f =
     (if activeStep f \<noteq> ReviewStep \<or> \<not> fl_created f \<or> fl_creating f then f
      else f\<lparr>fl_opened := Some (if fl_provider f = Aws then ''/post-auth?connect=aws'' else ''/post-auth'')\<rparr>)"

definition flow_run :: "bool \<Rightarrow> bool \<Rightarrow> flow \<Rightarrow> flow_event list \<Rightarrow> flow" where
  "flow_run clerk creates f es = foldl (\<lambda>f e. flow_handle clerk creates e f) f es"

section \<open>The hand-over to the new session\<close>

text \<open>
  \<open>atob\<close>: white space is dropped, then padding; what is not base64 throws (\<open>None\<close>), else each
  byte is one code unit.
\<close>

definition b64_value :: "char \<Rightarrow> nat option" where
  "b64_value c =
     (let n = code_unit c in
      if is_upper c then Some (n - 65) else if is_lower c then Some (n - 71) else if is_digit c then Some (n + 4)
      else if c = CHR ''+'' then Some 62 else if c = CHR ''/'' then Some 63 else None)"

fun b64_bytes :: "nat list \<Rightarrow> nat list option" where
  "b64_bytes [] = Some []"
| "b64_bytes [a] = None"
| "b64_bytes [a, b] = Some [4 * a + b div 16]"
| "b64_bytes [a, b, c] = Some [4 * a + b div 16, 16 * (b mod 16) + c div 4]"
| "b64_bytes (a # b # c # d # ns) =
     map_option (\<lambda>bs. (4 * a + b div 16) # (16 * (b mod 16) + c div 4) # (64 * (c mod 4) + d) # bs) (b64_bytes ns)"

definition drop_padding :: "string \<Rightarrow> string" where
  "drop_padding s =
     (if length s mod 4 \<noteq> 0 then s
      else if drop (length s - 2) s = ''=='' then take (length s - 2) s
      else if drop (length s - 1) s = ''='' then take (length s - 1) s
      else s)"

definition atob :: "string \<Rightarrow> string option" where
  "atob s =
     (let values = map b64_value (drop_padding (filter (\<lambda>c. code_unit c \<notin> {9, 10, 12, 13, 32}) s)) in
      if None \<in> set values then None else map_option (map char_of) (b64_bytes (map the values)))"

text \<open>
  The platform: a fresh token (\<open>getToken({ skipCache: true })\<close>), \<open>user?.reload()\<close>, \<open>JSON.parse\<close>
  (\<open>None\<close> when it throws), and whether the effect has been cancelled.
\<close>

record 's handoff_platform =
  hp_token :: "('s, exn, string option) op"
  hp_reload :: "('s, exn, unit) op"
  hp_parse :: "string \<Rightarrow> json option"
  hp_cancelled :: "'s \<Rightarrow> bool"

definition url_safe :: "char \<Rightarrow> char" where
  "url_safe c = (if c = CHR ''-'' then CHR ''+'' else if c = CHR ''_'' then CHR ''/'' else c)"

definition decodeWorkspaceId :: "(string \<Rightarrow> json option) \<Rightarrow> string \<Rightarrow> json" where
  "decodeWorkspaceId parse token =
     (case split_on (CHR ''.'') token of
        _ # segment # _ \<Rightarrow>
          if segment = [] then JUndef
          else (case atob (map url_safe segment) of
             None \<Rightarrow> JUndef
           | Some text \<Rightarrow> (case parse text of
                None \<Rightarrow> JUndef
              | Some payload \<Rightarrow> jget (jget payload ''metadata'') ''workspaceId''))
      | _ \<Rightarrow> JUndef)"

text \<open>\<open>refreshed\<close> and \<open>matchesExpected\<close>.\<close>

definition claim_matches :: "'s handoff_platform \<Rightarrow> string option \<Rightarrow> string \<Rightarrow> bool" where
  "claim_matches P expected token = (coalesce (decodeWorkspaceId (hp_parse P) token) JNull = jopt expected)"

definition probe :: "'s handoff_platform \<Rightarrow> string option \<Rightarrow> ('s, exn, bool \<times> bool) op" where
  "probe P expected =
     bnd (hp_token P) (\<lambda>token.
       if given token then ret (True, claim_matches P expected (the token)) else ret (False, False))"

datatype handoff = Replaced string | RefreshFailed | Abandoned

definition handoff_try :: "'s handoff_platform \<Rightarrow> string \<Rightarrow> string option \<Rightarrow> ('s, exn, handoff option) op" where
  "handoff_try P target expected =
     bnd (probe P expected) (\<lambda>first.
     bnd (if fst first \<and> \<not> snd first then bnd (hp_reload P) (\<lambda>_. probe P expected) else ret first) (\<lambda>result.
     bnd (gets (hp_cancelled P)) (\<lambda>cancelled.
     ret (if cancelled then Some Abandoned else if fst result \<and> snd result then Some (Replaced target) else None))))"

definition post_auth_handoff :: "'s handoff_platform \<Rightarrow> string \<Rightarrow> string option \<Rightarrow> ('s, exn, handoff) op" where
  "post_auth_handoff P target expected =
     bnd (catching (handoff_try P target expected) (\<lambda>e. ret None)) (\<lambda>outcome.
     case outcome of
       Some h \<Rightarrow> ret h
     | None \<Rightarrow> bnd (gets (hp_cancelled P)) (\<lambda>cancelled. ret (if cancelled then Abandoned else RefreshFailed)))"

text \<open>The page that leads there: a redirection, or the hand-over with its target and the workspace expected.\<close>

datatype post_auth = RedirectTo string | HandOver string json

definition post_auth_target :: "json \<Rightarrow> string option \<Rightarrow> string" where
  "post_auth_target workspace connect =
     (if truthy workspace
      then (if connect = Some ''aws'' then ''/workspace/cloud-accounts?connect=aws'' else ''/dashboard'')
      else ''/onboarding'')"

definition post_auth_page :: "'s workspace_server \<Rightarrow> string option \<Rightarrow> ('s, exn, post_auth) op" where
  "post_auth_page S connect =
     bnd (sv_protect S) (\<lambda>session.
     bnd (wv_current_user S) (\<lambda>current.
     case current of
       None \<Rightarrow> ret (RedirectTo ''/sign-in'')
     | Some user \<Rightarrow>
         bnd (sv_token S) (\<lambda>token.
         if \<not> given token then ret (RedirectTo ''/sign-in'')
         else bnd (ensureUser S (the token) (profile user JUndef) (ss_user session)) (\<lambda>record_json.
              if nullish record_json then throw (OtherError ''Cannot read properties of null'')
              else bnd (reconcileWorkspaceMetadata S (ss_user session) (jget record_json ''workspaceId'')
                          (claimed_workspace (ss_claims session)) None) (\<lambda>_.
                   ret (HandOver (post_auth_target (jget record_json ''workspaceId'') connect)
                          (jget record_json ''workspaceId'')))))))"

section \<open>What the wizard sends\<close>

text \<open>The part of the state that requests depend on, and what holds of it.\<close>

definition ledger :: "wizard \<Rightarrow> string \<times> string option \<times> nat \<times> (string \<times> string) list" where
  "ledger z = (wz_key z, wz_payload z, wz_keys z, wz_sent z)"

definition valid_payload :: "string \<Rightarrow> bool" where
  "valid_payload b \<longleftrightarrow> (\<exists>f. 3 \<le> length (trim (wz_name (f :: wizard))) \<and> length (trim (wz_name f)) \<le> 64 \<and> b = wizard_payload f)"

definition ledger_ok :: "(nat \<Rightarrow> string) \<Rightarrow> wizard \<Rightarrow> bool" where
  "ledger_ok key_of z \<longleftrightarrow>
     (\<exists>n. wz_keys z = Suc n \<and> wz_key z = key_of n) \<and>
     (\<forall>(k, b) \<in> set (wz_sent z). (\<exists>n < wz_keys z. k = key_of n) \<and> valid_payload b \<and>
        (k = wz_key z \<longrightarrow> wz_payload z = Some b)) \<and>
     (\<forall>(k, b) \<in> set (wz_sent z). \<forall>(k', b') \<in> set (wz_sent z). k = k' \<longrightarrow> b = b') \<and>
     (\<forall>p. wz_payload z = Some p \<longrightarrow> valid_payload p)"

lemma ledger_ok_cong: "ledger z' = ledger z \<Longrightarrow> ledger_ok key_of z' = ledger_ok key_of z"
  by (simp add: ledger_def ledger_ok_def)

lemma name_valid_bounds: "name_valid z \<longleftrightarrow> 3 \<le> length (trim (wz_name z)) \<and> length (trim (wz_name z)) \<le> 64"
  by (auto simp: name_valid_def name_problem_def NAME_MIN_def NAME_MAX_def)

lemma name_valid_validateName [simp]: "name_valid (validateName z) = name_valid z"
  by (simp add: name_valid_def validateName_def)

lemma ledger_simps [simp]: "ledger (validateName z) = ledger z" "ledger (settled z) = ledger z"
  by (simp_all add: ledger_def validateName_def settled_def)

lemma ledger_ok_send:
  assumes z: "ledger_ok key_of z" and b: "valid_payload b" and p: "wz_payload z = None \<or> wz_payload z = Some b"
    and l: "ledger z' = (wz_key z, Some b, wz_keys z, wz_sent z @ [(wz_key z, b)])"
  shows "ledger_ok key_of z'"
proof -
  have z': "wz_key z' = wz_key z" "wz_payload z' = Some b" "wz_keys z' = wz_keys z" "wz_sent z' = wz_sent z @ [(wz_key z, b)]"
    using l by (simp_all add: ledger_def)
  obtain n where n: "wz_keys z = Suc n" "wz_key z = key_of n" using z by (auto simp: ledger_ok_def)
  have old: "\<exists>n < wz_keys z. k = key_of n" "valid_payload c" "k = wz_key z \<Longrightarrow> c = b" if "(k, c) \<in> set (wz_sent z)" for k c
    using z p that by (auto simp: ledger_ok_def)
  have fn: "c = d" if "(k, c) \<in> set (wz_sent z)" "(k, d) \<in> set (wz_sent z)" for k c d
    using z that unfolding ledger_ok_def by fast
  show ?thesis unfolding ledger_ok_def z'
  proof (intro conjI)
    show "\<exists>m. wz_keys z = Suc m \<and> wz_key z = key_of m" using n by blast
    show "\<forall>(k, c) \<in> set (wz_sent z @ [(wz_key z, b)]).
        (\<exists>m < wz_keys z. k = key_of m) \<and> valid_payload c \<and> (k = wz_key z \<longrightarrow> Some b = Some c)"
      using old b n by auto
    show "\<forall>(k, c) \<in> set (wz_sent z @ [(wz_key z, b)]). \<forall>(k', c') \<in> set (wz_sent z @ [(wz_key z, b)]). k = k' \<longrightarrow> c = c'"
      using old(3) fn by auto
    show "\<forall>q. Some b = Some q \<longrightarrow> valid_payload q" using b by simp
  qed
qed

lemma send_payload_ok:
  assumes "ledger_ok key_of z" and "wz_payload z = None \<Longrightarrow> name_valid z"
  shows "ledger_ok key_of (send_payload z)"
proof (cases "wz_payload z")
  case None
  have "valid_payload (wizard_payload z)" using assms(2) [OF None] by (auto simp: valid_payload_def name_valid_bounds)
  then show ?thesis using None by (intro ledger_ok_send [OF assms(1)]) (auto simp: send_payload_def ledger_def Let_def)
next
  case (Some p)
  then have "valid_payload p" using assms(1) by (simp add: ledger_ok_def)
  then show ?thesis using Some by (intro ledger_ok_send [OF assms(1)]) (auto simp: send_payload_def ledger_def Let_def)
qed

lemma submit_ok: "ledger_ok key_of z \<Longrightarrow> ledger_ok key_of (submit z)"
proof -
  assume z: "ledger_ok key_of z"
  then have v: "ledger_ok key_of (validateName z)" by (simp add: ledger_ok_cong [of "validateName z" z])
  moreover have "ledger ((validateName z)\<lparr>wz_step := 0\<rparr>) = ledger z" by (simp add: ledger_def validateName_def)
  ultimately show ?thesis
    using z send_payload_ok [OF z] send_payload_ok [OF v] by (auto simp: submit_def dest: ledger_ok_cong)
qed

lemma new_key_ok:
  assumes "inj key_of" and "ledger_ok key_of z"
  shows "ledger_ok key_of (z\<lparr>wz_payload := None, wz_locked := False, wz_key := key_of (wz_keys z), wz_keys := wz_keys z + 1\<rparr>)"
  using assms by (fastforce simp: ledger_ok_def inj_eq less_Suc_eq)

lemma answered_ok:
  assumes "inj key_of" and "ledger_ok key_of z"
  shows "ledger_ok key_of (answered key_of a z)"
proof -
  let ?fresh = "z\<lparr>wz_payload := None, wz_locked := False, wz_key := key_of (wz_keys z), wz_keys := wz_keys z + 1\<rparr>"
  have "ledger (answered key_of a z) \<in> {ledger z, ledger ?fresh}"
    by (cases a) (auto simp: answer_refused_def Let_def ledger_def settled_def)
  with assms(2) new_key_ok [OF assms] show ?thesis by (auto dest: ledger_ok_cong)
qed

lemma goNext_ledger: "goNext z = submit z \<or> goNext z = submit (z\<lparr>wz_submit_error := None\<rparr>) \<or>
    goNext z = submit ((validateName z)\<lparr>wz_submit_error := None\<rparr>) \<or> ledger (goNext z) = ledger z"
  by (auto simp: goNext_def Let_def ledger_def validateName_def)

lemma wizard_step_ok:
  assumes "inj key_of" and "ledger_ok key_of z"
  shows "ledger_ok key_of (wizard_step key_of z e)"
proof -
  have same: "ledger_ok key_of z'" if "ledger z' = ledger z" for z' using assms(2) that ledger_ok_cong by blast
  have sub: "ledger_ok key_of (submit z')" if "ledger z' = ledger z" for z' using submit_ok same that by blast
  have "ledger_ok key_of (wizard_handle key_of e z)"
  proof (cases e)
    case PressNext
    with goNext_ledger [of z] same sub show ?thesis by (auto simp: ledger_def validateName_def)
  next
    case PressSkip
    with sub show ?thesis by simp
  next
    case (Arrive a)
    with answered_ok [OF assms] assms(2) show ?thesis by simp
  qed (auto intro!: same simp: ledger_def validateName_def toggleProvider_def goBack_def)
  with assms(2) show ?thesis by (simp add: wizard_step_def)
qed

lemma wizard_run_ok: "inj key_of \<Longrightarrow> ledger_ok key_of (wizard_run key_of es)"
proof (induction es rule: rev_induct)
  case Nil
  show ?case by (simp add: wizard_run_def wizard_start_def ledger_ok_def)
next
  case (snoc e es)
  then show ?case using wizard_step_ok [OF snoc(2) snoc(1) [OF snoc(2)]] by (simp add: wizard_run_def)
qed

text \<open>The choices the user has made.\<close>

definition choices :: "wizard \<Rightarrow> string \<times> string \<times> string option \<times> wizard_environment \<times> cloud list" where
  "choices z = (wz_name z, wz_description z, wz_avatar z, wz_environment z, wz_providers z)"

text \<open>A request whose outcome is unknown: it has been sent before, and now waits or is sent again.\<close>

definition outstanding :: "string \<Rightarrow> wizard \<Rightarrow> bool" where
  "outstanding p z \<longleftrightarrow> wz_payload z = Some p \<and> (wz_in_flight z \<longrightarrow> wz_retrying z)"

definition repeats :: "wizard \<Rightarrow> wizard \<Rightarrow> bool" where
  "repeats z z' \<longleftrightarrow> choices z' = choices z \<and> wz_key z' = wz_key z \<and>
     (\<exists>n. wz_sent z' = wz_sent z @ replicate n (wz_key z, the (wz_payload z)))"

lemma submit_repeats:
  assumes "outstanding p z"
  shows "outstanding p (submit z) \<and> repeats z (submit z)"
proof (cases "wz_in_flight z")
  case True
  with assms show ?thesis by (auto simp: submit_def repeats_def intro: exI [of _ 0])
next
  case False
  with assms show ?thesis
    by (auto simp: submit_def send_payload_def outstanding_def repeats_def choices_def Let_def intro!: exI [of _ 1])
qed

lemma wizard_step_repeats:
  assumes "outstanding p z"
  shows "outstanding p (wizard_step key_of z e) \<and> repeats z (wizard_step key_of z e)"
proof -
  have same: "outstanding p z' \<and> repeats z z'"
    if "choices z' = choices z" "ledger z' = ledger z" "wz_in_flight z' \<longrightarrow> wz_in_flight z \<and> wz_retrying z' = wz_retrying z" for z'
    using assms that by (auto simp: outstanding_def repeats_def ledger_def intro: exI [of _ 0])
  show ?thesis
  proof (cases "wz_created z")
    case (Some w)
    then show ?thesis using same [of z] by (simp add: wizard_step_def)
  next
    case None
    have p: "wz_payload z = Some p" using assms by (simp add: outstanding_def)
    show ?thesis
    proof (cases e)
      case (Arrive a)
      show ?thesis
      proof (cases "wz_in_flight z")
        case True
        then have "wz_retrying z" using assms by (simp add: outstanding_def)
        then have "choices (answered key_of a z) = choices z \<and> ledger (answered key_of a z) = ledger z \<and>
            \<not> wz_in_flight (answered key_of a z)"
          by (cases a) (auto simp: answer_refused_def Let_def choices_def ledger_def settled_def)
        with Arrive None True same [of "answered key_of a z"] show ?thesis by (simp add: wizard_step_def)
      next
        case False
        with Arrive None same [of z] show ?thesis by (simp add: wizard_step_def)
      qed
    next
      case LeaveName
      with None same [of "validateName z"] show ?thesis
        by (simp add: wizard_step_def validateName_def choices_def ledger_def)
    next
      case PressNext
      with None p submit_repeats [OF assms] show ?thesis by (simp add: wizard_step_def goNext_def)
    next
      case PressSkip
      with None submit_repeats [OF assms] show ?thesis by (simp add: wizard_step_def)
    qed (use None p same [of z] in \<open>simp_all add: wizard_step_def toggleProvider_def goBack_def\<close>)
  qed
qed

lemma repeats_trans: "repeats z z1 \<Longrightarrow> repeats z1 z2 \<Longrightarrow> wz_payload z1 = wz_payload z \<Longrightarrow> repeats z z2"
  unfolding repeats_def by (metis append_assoc replicate_add)

lemma wizard_run_repeats:
  "outstanding p z \<Longrightarrow> outstanding p (foldl (wizard_step key_of) z es) \<and> repeats z (foldl (wizard_step key_of) z es)"
proof (induction es rule: rev_induct)
  case Nil
  then show ?case by (auto simp: repeats_def intro: exI [of _ 0])
next
  case (snoc e es)
  let ?u = "foldl (wizard_step key_of) z es"
  have u: "outstanding p ?u" "repeats z ?u" using snoc by simp_all
  with wizard_step_repeats [OF u(1), of key_of e] snoc(2) show ?case
    by (auto simp: outstanding_def intro: repeats_trans)
qed

section \<open>What the flow asks for\<close>

lemma dash_runs_chars: "c \<in> set (dash_runs b s) \<Longrightarrow> slug_unit c \<or> c = CHR ''-''"
  by (induction b s rule: dash_runs.induct) (auto split: if_splits)

lemma trim_dashes_set: "set (trim_dashes s) \<subseteq> set s"
  by (auto simp: trim_dashes_def dest!: set_dropWhileD)

lemma trim_dashes_hd: "trim_dashes s \<noteq> [] \<Longrightarrow> hd (trim_dashes s) \<noteq> CHR ''-''"
proof -
  let ?dash = "\<lambda>c. c = CHR ''-''"
  let ?t = "dropWhile ?dash s"
  assume ne: "trim_dashes s \<noteq> []"
  have "prefix (trim_dashes s) ?t"
    unfolding trim_dashes_def by (metis rev_rev_ident suffix_dropWhile suffix_to_prefix)
  then obtain u where u: "?t = trim_dashes s @ u" by (auto elim: prefixE)
  with ne have "?t \<noteq> []" "hd ?t = hd (trim_dashes s)" by auto
  with hd_dropWhile [of ?dash s] show ?thesis by auto
qed

text \<open>What every slug of the flow is.\<close>

definition slug_ok :: "string \<Rightarrow> bool" where
  "slug_ok s \<longleftrightarrow> length s \<le> 48 \<and> list_all (\<lambda>c. slug_unit c \<or> c = CHR ''-'') s \<and> (s \<noteq> [] \<longrightarrow> hd s \<noteq> CHR ''-'')"

lemma normalizeSlug_ok: "slug_ok (normalizeSlug v)"
proof -
  let ?s = "trim_dashes (dash_runs False (trim (map to_lower v)))"
  have "set (take 48 ?s) \<subseteq> set (dash_runs False (trim (map to_lower v)))"
    using trim_dashes_set set_take_subset by (metis order_trans)
  then have "list_all (\<lambda>c. slug_unit c \<or> c = CHR ''-'') (take 48 ?s)"
    unfolding list_all_iff using dash_runs_chars by blast
  moreover have "take 48 ?s \<noteq> [] \<longrightarrow> hd (take 48 ?s) \<noteq> CHR ''-''" using trim_dashes_hd by auto
  ultimately show ?thesis by (simp add: slug_ok_def normalizeSlug_def)
qed

text \<open>The cut after forty-eight characters comes last and may leave a dash at the end.\<close>

lemma normalizeSlug_may_end_in_dash: "last (normalizeSlug (replicate 47 CHR ''a'' @ '' b'')) = CHR ''-''"
  by code_simp

definition call_ok :: "string \<times> string \<Rightarrow> bool" where
  "call_ok c \<longleftrightarrow> 2 \<le> length (fst c) \<and> trim (fst c) = fst c \<and> 2 \<le> length (snd c) \<and> slug_ok (snd c)"

definition flow_ok :: "flow \<Rightarrow> bool" where
  "flow_ok f \<longleftrightarrow> slug_ok (fl_slug f) \<and> list_all call_ok (fl_calls f)"

lemma dropWhile_ws_hd: "s = [] \<or> \<not> is_ws (hd s) \<Longrightarrow> dropWhile is_ws s = s"
  by (cases s) auto

lemma trim_trim [simp]: "trim (trim s) = trim s"
proof -
  let ?d = "dropWhile is_ws s"
  have "prefix (trim s) ?d"
    unfolding trim_def by (metis rev_rev_ident suffix_dropWhile suffix_to_prefix)
  then obtain u where u: "?d = trim s @ u" by (auto elim: prefixE)
  have "trim s = [] \<or> \<not> is_ws (hd (trim s))"
    using u hd_dropWhile [of is_ws s] by (cases "trim s") auto
  then have "dropWhile is_ws (trim s) = trim s" by (rule dropWhile_ws_hd)
  moreover have "dropWhile is_ws (rev (trim s)) = rev (trim s)"
    unfolding trim_def by (simp add: dropWhile_idem)
  ultimately show ?thesis by (subst trim_def) simp
qed

lemma continueFlow_ok: "flow_ok f \<Longrightarrow> flow_ok (continueFlow clerk creates f)"
  by (auto simp: continueFlow_def canContinue_def flow_ok_def advance_flow_def call_ok_def)

lemma flow_handle_ok: "flow_ok f \<Longrightarrow> flow_ok (flow_handle clerk creates e f)"
proof (cases e)
  case PressContinue
  assume "flow_ok f"
  with PressContinue continueFlow_ok show ?thesis by simp
next
  case (CreationDone c)
  assume "flow_ok f"
  with CreationDone show ?thesis by (cases c) (auto simp: flow_ok_def advance_flow_def)
qed (auto simp: flow_ok_def shown_def updateState_def normalizeSlug_ok user_named_def choose_provider_def)

lemma flow_run_ok: "flow_ok f \<Longrightarrow> flow_ok (flow_run clerk creates f es)"
proof (induction es arbitrary: f)
  case (Cons e es)
  with flow_handle_ok show ?case by (simp add: flow_run_def)
qed (simp add: flow_run_def)

lemma flow_start_ok: "flow_ok (flow_start u l s)"
  using normalizeSlug_ok by (simp add: flow_ok_def flow_start_def slug_ok_def)

text \<open>The dashboard opens only over a workspace that the platform has reported as created.\<close>

definition progress_of :: "flow \<Rightarrow> bool \<times> bool \<times> string option" where
  "progress_of f = (fl_creating f, fl_created f, fl_opened f)"

lemma progress_simps [simp]:
  "progress_of (updateState g f) = progress_of (g f)"
  "(\<And>x. progress_of (g x) = progress_of x) \<Longrightarrow> progress_of (shown st g f) = progress_of f"
  "progress_of (user_named u f) = progress_of f" "progress_of (choose_provider p f) = progress_of f"
  "progress_of (advance_flow f) = progress_of f"
  by (simp_all add: progress_of_def updateState_def shown_def user_named_def choose_provider_def advance_flow_def)

lemma flow_handle_progress:
  assumes "progress_of (flow_handle clerk creates e f) = (c', d', r')" and "progress_of f = (c, False, None)"
    and "e \<noteq> CreationDone (Returned True) \<or> \<not> c"
  shows "(c' \<longrightarrow> c \<or> creates) \<and> \<not> d' \<and> r' = None"
proof (cases e)
  case PressContinue
  with assms show ?thesis by (auto simp: continueFlow_def progress_of_def advance_flow_def split: if_splits)
next
  case (CreationDone x)
  with assms show ?thesis by (cases x) (auto simp: progress_of_def advance_flow_def split: if_splits)
next
  case OpenDashboard
  with assms show ?thesis by (auto simp: progress_of_def split: if_splits)
qed (use assms in \<open>auto simp: progress_of_def shown_def updateState_def user_named_def choose_provider_def split: if_splits\<close>)

lemma flow_created:
  "progress_of (flow_run clerk creates f es) = (c', d', r') \<Longrightarrow> d' \<or> r' \<noteq> None \<Longrightarrow> progress_of f = (c, False, None) \<Longrightarrow>
   CreationDone (Returned True) \<in> set es \<and> (c \<or> creates)"
proof (induction es arbitrary: f c)
  case Nil
  then show ?case by (simp add: flow_run_def)
next
  case (Cons e es)
  obtain c1 d1 r1 where g: "progress_of (flow_handle clerk creates e f) = (c1, d1, r1)" by (cases "progress_of (flow_handle clerk creates e f)")
  show ?case
  proof (cases "e = CreationDone (Returned True) \<and> c")
    case True
    then show ?thesis by simp
  next
    case False
    with flow_handle_progress [OF g Cons.prems(3)] have "c1 \<longrightarrow> c \<or> creates" "\<not> d1" "r1 = None" by auto
    with Cons.IH [of "flow_handle clerk creates e f" c1] Cons.prems(1,2) g show ?thesis by (auto simp: flow_run_def)
  qed
qed

section \<open>What the hand-over waits for\<close>

lemma probe_matches:
  "probe P expected s = (Inr (r, True), t) \<Longrightarrow> \<exists>token. hp_token P s = (Inr (Some token), t) \<and> claim_matches P expected token"
  by (auto simp: probe_def bnd_Inr_iff given_def split: if_splits option.splits)

lemma handoff_try_Replaced:
  assumes "handoff_try P target expected s = (Inr (Some (Replaced target')), t)"
  shows "target' = target \<and> (\<exists>u v token. hp_token P u = (Inr (Some token), v) \<and> claim_matches P expected token)"
proof -
  from assms obtain first u result v where p: "probe P expected s = (Inr first, u)"
    and r: "(if fst first \<and> \<not> snd first then bnd (hp_reload P) (\<lambda>_. probe P expected) else ret first) u = (Inr result, v)"
    and h: "target' = target" "fst result" "snd result"
    by (auto simp: handoff_try_def bnd_Inr_iff split: if_splits)
  have "\<exists>u v. probe P expected u = (Inr result, v)"
    using p r by (auto simp: bnd_Inr_iff split: if_splits)
  moreover obtain a b where "result = (a, b)" by force
  ultimately show ?thesis using h probe_matches by force
qed

section \<open>Properties\<close>


text \<open>A request without an answer, and its repetition.\<close>

definition interrupted :: "wizard_event list" where
  "interrupted = [TypeName ''Acme'', PressNext, PressSkip, Arrive NoAnswer, TypeName ''Other'', PressNext]"

definition count_key :: "nat \<Rightarrow> string" where
  "count_key n = replicate n CHR ''k''"

lemma count_key_inj: "inj count_key"
  by (auto simp: inj_def count_key_def dest: arg_cong [where f = length])

lemma interrupted_sent:
  "map fst (wz_sent (wizard_run count_key interrupted)) = [[], []]"
  by code_simp


text \<open>
  While the outcome of a request is unknown the wizard only repeats it: from a state with an
  outstanding request on, whatever happens, the choices of the user stay as they are, the key too, and
  all that is sent is the same body under the same key.
\<close>

theorem unknown_outcome_is_repeated:
  assumes "wz_payload z = Some p" and "\<not> wz_in_flight z"
  shows "choices (foldl (wizard_step key_of) z es) = choices z \<and>
    (\<exists>n. wz_sent (foldl (wizard_step key_of) z es) = wz_sent z @ replicate n (wz_key z, p))"
  using wizard_run_repeats [of p z key_of es] assms by (auto simp: outstanding_def repeats_def)

theorem unknown_outcome_is_repeated_witness:
  "\<exists>p. choices (foldl (wizard_step count_key) ((wizard_start count_key)\<lparr>wz_payload := Some p\<rparr>) [ToggleProvider Aws, PressSkip]) =
     choices (wizard_start count_key)"
proof -
  let ?z = "(wizard_start count_key)\<lparr>wz_payload := Some ''p''\<rparr>"
  have "wz_payload ?z = Some ''p''" "\<not> wz_in_flight ?z" "choices ?z = choices (wizard_start count_key)"
    by (simp_all add: wizard_start_def choices_def)
  with unknown_outcome_is_repeated [of ?z "''p''" count_key "[ToggleProvider Aws, PressSkip]"] show ?thesis by metis
qed

text \<open>
  The older flow asks only for well-formed organizations, and opens the dashboard only over one: in every run
  each name asked for is trimmed and has at least two characters, each slug has between two and
  forty-eight lower case letters, digits and dashes and does not start with a dash; and when a
  route is pushed, organizations can be created and a creation has reported success.
\<close>

theorem flow_asks_for_well_formed_organizations:
  assumes "f = flow_run clerk creates (flow_start u l si) es"
  shows "list_all (\<lambda>(name, slug). 2 \<le> length name \<and> trim name = name \<and> 2 \<le> length slug \<and> length slug \<le> 48 \<and>
      list_all (\<lambda>c. slug_unit c \<or> c = CHR ''-'') slug \<and> hd slug \<noteq> CHR ''-'') (fl_calls f) \<and>
    (fl_opened f \<noteq> None \<longrightarrow> creates \<and> CreationDone (Returned True) \<in> set es)"
proof -
  have "flow_ok f" unfolding assms by (intro flow_run_ok flow_start_ok)
  then have "list_all call_ok (fl_calls f)" by (simp add: flow_ok_def)
  then have "list_all (\<lambda>(name, slug). 2 \<le> length name \<and> trim name = name \<and> 2 \<le> length slug \<and> length slug \<le> 48 \<and>
      list_all (\<lambda>c. slug_unit c \<or> c = CHR ''-'') slug \<and> hd slug \<noteq> CHR ''-'') (fl_calls f)"
    by (rule list.pred_mono_strong) (auto simp: call_ok_def slug_ok_def)
  moreover have "progress_of (flow_start u l si) = (False, False, None)" by (simp add: progress_of_def flow_start_def)
  then have "fl_opened f \<noteq> None \<longrightarrow> creates \<and> CreationDone (Returned True) \<in> set es"
    using flow_created [of clerk creates "flow_start u l si" es] unfolding assms by (auto simp: progress_of_def)
  ultimately show ?thesis by simp
qed

theorem flow_asks_for_well_formed_organizations_witness:
  "fl_opened (flow_run True True (flow_start None True True)
     [PressContinue, ChangeName ''Acme'', PressContinue, CreationDone (Threw None), OpenDashboard]) = None"
  using flow_asks_for_well_formed_organizations [of _ True True None True True
      "[PressContinue, ChangeName ''Acme'', PressContinue, CreationDone (Threw None), OpenDashboard]", OF refl]
  by auto

text \<open>
  The hand-over waits for the claim: it always comes to an end, whatever the platform
  throws, and it leads to its target only if a freshly fetched token claims exactly the
  workspace expected, none included.
\<close>

theorem handoff_waits_for_claim:
  assumes "post_auth_handoff P target expected s = (r, t)"
  shows "(\<exists>h. r = Inr h) \<and> (\<forall>target'. r = Inr (Replaced target') \<longrightarrow> target' = target \<and>
     (\<exists>u v token. hp_token P u = (Inr (Some token), v) \<and> coalesce (decodeWorkspaceId (hp_parse P) token) JNull = jopt expected))"
proof -
  obtain q u where q: "handoff_try P target expected s = (q, u)" by force
  show ?thesis
  proof (cases q)
    case (Inl e)
    with q assms show ?thesis by (auto simp: post_auth_handoff_def bnd_def split: if_splits)
  next
    case (Inr out)
    show ?thesis
    proof (cases out)
      case None
      with q Inr assms show ?thesis by (auto simp: post_auth_handoff_def bnd_def split: if_splits)
    next
      case (Some h)
      with q Inr assms have "r = Inr h" by (auto simp: post_auth_handoff_def bnd_def)
      then show ?thesis using handoff_try_Replaced [of P target expected s _ u] q Inr Some
        by (auto simp: claim_matches_def)
    qed
  qed
qed

definition stale_platform :: "unit handoff_platform" where
  "stale_platform = \<lparr>hp_token = ret (Some ''h.e30.s''), hp_reload = throw (OtherError ''offline''), hp_parse = (\<lambda>t. Some (JObj [])),
     hp_cancelled = (\<lambda>s. False)\<rparr>"

theorem handoff_waits_for_claim_witness:
  "\<exists>h. fst (post_auth_handoff stale_platform ''/dashboard'' (Some ''w'') ()) = Inr h \<and> h \<noteq> Replaced ''/onboarding''"
proof -
  obtain r t where "post_auth_handoff stale_platform ''/dashboard'' (Some ''w'') () = (r, t)"
    by (cases "post_auth_handoff stale_platform ''/dashboard'' (Some ''w'') ()")
  with handoff_waits_for_claim [OF this] show ?thesis by auto
qed

end
