(* ===== verification/Live_Hook.thy ===== *)
theory Live_Hook
  imports Live_Client Onboarding
begin

text \<open>
  The hook that gives a screen its live stream (\<open>frontend/lib/sse/use-sse.ts\<close>): it finds the workspace, in
  its argument or in the token of the session, keeps one client of \<open>Live_Client\<close> for it, and shows the
  client's status. The hook is a machine over renderings, tokens and what the platform delivers to any of the
  clients it has ever made. The claim in a token has the type the source gives it, a text or nothing.
\<close>

section \<open>State\<close>

definition hook_workspace :: "(string \<Rightarrow> json option) \<Rightarrow> string \<Rightarrow> string option" where
  "hook_workspace parse token =
     (case split_on (CHR ''.'') token of
        _ # segment # _ \<Rightarrow>
          if segment = [] then None
          else (case Option.bind (atob (map url_safe segment)) parse of
             None \<Rightarrow> None
           | Some payload \<Rightarrow> js_str (jget (jget payload ''metadata'') ''workspaceId''))
      | _ \<Rightarrow> None)"

text \<open>What does not change: how JSON is parsed, and the variables of the build.\<close>

record hook_env =
  he_parse :: "string \<Rightarrow> json option"
  he_vars :: "string \<Rightarrow> string option"

definition hook_options :: "hook_env \<Rightarrow> string \<Rightarrow> sse_options" where
  "hook_options E w = \<lparr>so_workspace = w, so_base = None, so_vars = he_vars E, so_initial = INITIAL_BACKOFF_MS, so_max = MAX_BACKOFF_MS\<rparr>"

text \<open>
  The argument, the session and the three states of the hook; which wait for a token counts, out of how many; every client
  made so far with its workspace, of which at most one is the memoized one.
\<close>

record live_hook =
  lh_mounted :: bool
  lh_argument :: "string option"
  lh_loaded :: bool
  lh_derived :: "string option"
  lh_asking :: "nat option"
  lh_asked :: nat
  lh_clients :: "(string \<times> sse_client) list"
  lh_current :: "nat option"
  lh_status :: sse_status
  lh_last :: "string option"

definition effectiveWorkspaceId :: "live_hook \<Rightarrow> string option" where
  "effectiveWorkspaceId h = (case lh_argument h of Some w \<Rightarrow> Some w | None \<Rightarrow> lh_derived h)"

definition wanted_client :: "live_hook \<Rightarrow> string option" where
  "wanted_client h = (if \<not> given (effectiveWorkspaceId h) \<or> \<not> lh_loaded h then None else effectiveWorkspaceId h)"

definition current_workspace :: "live_hook \<Rightarrow> string option" where
  "current_workspace h = map_option (\<lambda>n. fst (lh_clients h ! n)) (lh_current h)"

section \<open>Clients\<close>

text \<open>
  A handler of client \<open>n\<close> runs; the hook's listener, which has number 0 with every client, hears the new
  snapshots.
\<close>

definition hear :: "sse_snapshot \<Rightarrow> live_hook \<Rightarrow> live_hook" where
  "hear x h = h\<lparr>lh_status := sn_status x, lh_last := sn_last x\<rparr>"

definition new_snapshots :: "sse_client \<Rightarrow> sse_client \<Rightarrow> sse_snapshot list" where
  "new_snapshots c d = map snd (filter (\<lambda>x. fst x = 0) (drop (length (c_notified c)) (c_notified d)))"

definition to_client :: "hook_env \<Rightarrow> nat \<Rightarrow> client_event \<Rightarrow> live_hook \<Rightarrow> live_hook" where
  "to_client E n e h =
     (let c = snd (lh_clients h ! n); d = client_handle (hook_options E (fst (lh_clients h ! n))) e c in
      fold hear (new_snapshots c d) (h\<lparr>lh_clients := (lh_clients h)[n := (fst (lh_clients h ! n), d)]\<rparr>))"

text \<open>The effect on the client: what its last run has left is cleaned up, then the new client is subscribed and connected.\<close>

definition leave_client :: "hook_env \<Rightarrow> live_hook \<Rightarrow> live_hook" where
  "leave_client E h =
     (case lh_current h of
        None \<Rightarrow> h
      | Some n \<Rightarrow> (to_client E n Disconnect (to_client E n (Unsubscribe 0) h))\<lparr>lh_current := None\<rparr>)"

definition enter_client :: "hook_env \<Rightarrow> string option \<Rightarrow> live_hook \<Rightarrow> live_hook" where
  "enter_client E w h =
     (case w of
        None \<Rightarrow> h\<lparr>lh_status := Disconnected\<rparr>
      | Some w \<Rightarrow>
          (let n = length (lh_clients h) in
           to_client E n Connect (to_client E n (Subscribe 0)
             (h\<lparr>lh_clients := lh_clients h @ [(w, new_client)], lh_current := Some n\<rparr>))))"

definition sync_client :: "hook_env \<Rightarrow> live_hook \<Rightarrow> live_hook" where
  "sync_client E h =
     (if wanted_client h = current_workspace h then h else enter_client E (wanted_client h) (leave_client E h))"

text \<open>The effect that derives the workspace, run when the argument or the session has changed.\<close>

definition derive_effect :: "live_hook \<Rightarrow> live_hook" where
  "derive_effect h =
     (let h = h\<lparr>lh_asking := None\<rparr> in
      if given (lh_argument h) \<or> \<not> lh_loaded h then h
      else h\<lparr>lh_asking := Some (lh_asked h), lh_asked := lh_asked h + 1\<rparr>)"

definition rerender :: "hook_env \<Rightarrow> string option \<Rightarrow> bool \<Rightarrow> live_hook \<Rightarrow> live_hook" where
  "rerender E w loaded h =
     (if lh_argument h = w \<and> lh_loaded h = loaded then h
      else sync_client E (derive_effect (h\<lparr>lh_argument := w, lh_loaded := loaded\<rparr>)))"

text \<open>A token that was waited for; a wait that was cancelled changes nothing, nor does a rejection.\<close>

definition token_found :: "hook_env \<Rightarrow> nat \<Rightarrow> string option option \<Rightarrow> live_hook \<Rightarrow> live_hook" where
  "token_found E n answer h =
     (if lh_asking h \<noteq> Some n then h
      else case answer of
        None \<Rightarrow> h\<lparr>lh_asking := None\<rparr>
      | Some token \<Rightarrow>
          sync_client E (h\<lparr>lh_asking := None,
            lh_derived := (if given token then hook_workspace (he_parse E) (the token) else None)\<rparr>))"

datatype hook_event =
    Rerender "string option" bool
  | TokenFound nat "string option option"
  | ToClient nat client_event
  | Unmount

text \<open>What the platform delivers; the methods are called by the hook alone.\<close>

fun delivered :: "client_event \<Rightarrow> bool" where
  "delivered Connect = False"
| "delivered Disconnect = False"
| "delivered (Subscribe l) = False"
| "delivered (Unsubscribe l) = False"
| "delivered _ = True"

fun hook_step :: "hook_env \<Rightarrow> live_hook \<Rightarrow> hook_event \<Rightarrow> live_hook" where
  "hook_step E h (Rerender w loaded) = (if lh_mounted h then rerender E w loaded h else h)"
| "hook_step E h (TokenFound n answer) = token_found E n answer h"
| "hook_step E h (ToClient n e) =
     (if n < length (lh_clients h) \<and> delivered e \<and> enabled e (snd (lh_clients h ! n)) then to_client E n e h else h)"
| "hook_step E h Unmount = leave_client E (h\<lparr>lh_mounted := False, lh_asking := None\<rparr>)"

definition hook_start :: "string option \<Rightarrow> live_hook" where
  "hook_start w =
     \<lparr>lh_mounted = True, lh_argument = w, lh_loaded = False, lh_derived = None, lh_asking = None, lh_asked = 0, lh_clients = [], lh_current = None,
      lh_status = Disconnected, lh_last = None\<rparr>"

definition hook_run :: "hook_env \<Rightarrow> string option \<Rightarrow> hook_event list \<Rightarrow> live_hook" where
  "hook_run E w es = foldl (hook_step E) (hook_start w) es"

section \<open>What a client tells its listeners\<close>

text \<open>
  From one state of a client to a later one its listeners have been told of snapshots, the last of which is the
  snapshot of the later state; if they were told of none, the snapshot is the same.
\<close>

definition told :: "sse_client \<Rightarrow> sse_client \<Rightarrow> bool" where
  "told c d \<longleftrightarrow> c_listeners d = c_listeners c \<and>
     (\<exists>xs. c_notified d = c_notified c @ concat (map (\<lambda>x. map (\<lambda>l. (l, x)) (c_listeners c)) xs) \<and>
        getSnapshot d = (if xs = [] then getSnapshot c else last xs))"

lemma told_silent:
  "c_listeners d = c_listeners c \<Longrightarrow> c_notified d = c_notified c \<Longrightarrow> c_status d = c_status c \<Longrightarrow> c_last d = c_last c \<Longrightarrow> told c d"
  by (auto simp: told_def getSnapshot_def intro: exI [of _ "[]"])

lemma told_refl [intro]: "told c c"
  by (simp add: told_silent)

lemma told_trans [trans]: "told c d \<Longrightarrow> told d e \<Longrightarrow> told c e"
proof -
  assume "told c d" "told d e"
  then obtain xs ys where l: "c_listeners d = c_listeners c" "c_listeners e = c_listeners c"
    and xs: "c_notified d = c_notified c @ concat (map (\<lambda>x. map (\<lambda>l. (l, x)) (c_listeners c)) xs)"
      "getSnapshot d = (if xs = [] then getSnapshot c else last xs)"
    and ys: "c_notified e = c_notified d @ concat (map (\<lambda>x. map (\<lambda>l. (l, x)) (c_listeners c)) ys)"
      "getSnapshot e = (if ys = [] then getSnapshot d else last ys)"
    unfolding told_def by auto
  then show "told c e" unfolding told_def by (intro conjI exI [of _ "xs @ ys"]) auto
qed

lemma told_notify:
  assumes "c_listeners d = c_listeners c" and "c_notified d = c_notified c"
  shows "told c (notify d)"
  using assms by (auto simp: told_def notify_def getSnapshot_def intro!: exI [of _ "[getSnapshot d]"])

lemma told_setStatus: "told c d \<Longrightarrow> told c (setStatus st d)"
  by (rule told_trans, assumption) (auto simp: setStatus_def intro: told_notify)

lemma told_setLastEventId: "told c d \<Longrightarrow> told c (setLastEventId i d)"
  by (rule told_trans, assumption) (auto simp: setLastEventId_def intro: told_notify)

lemma told_update:
  assumes "told c d" and "c_listeners e = c_listeners d" and "c_notified e = c_notified d" and "getSnapshot e = getSnapshot d"
  shows "told c e"
  using assms by (auto simp: told_def)

lemma told_scheduleReconnect: "told c d \<Longrightarrow> told c (scheduleReconnect opts d)"
  by (rule told_update [OF told_setStatus [of c d Reconnecting]]) (simp_all add: scheduleReconnect_def getSnapshot_def Let_def)

lemma told_openConnection: "told c d \<Longrightarrow> told c (openConnection d)"
  by (rule told_update, assumption) (simp_all add: openConnection_def getSnapshot_def)

lemma told_token_arrived:
  assumes "told c d"
  shows "told c (token_arrived opts r d)"
proof -
  have off: "told c (setStatus Disconnected (d\<lparr>c_stopped := True, c_attempt := 0\<rparr>))"
    by (rule told_setStatus, rule told_update [OF assms]) (simp_all add: getSnapshot_def)
  have new: "told c (d\<lparr>c_es := Some (c_next d), c_sources := c_sources d @ [(c_next d, url)], c_next := Suc (c_next d)\<rparr>)" for url
    by (rule told_update [OF assms]) (simp_all add: getSnapshot_def)
  show ?thesis using assms off new told_scheduleReconnect [OF assms]
    by (simp add: token_arrived_def split: token_outcome.split sum.split)
qed

lemma told_handleMessage: "told c d \<Longrightarrow> told c (handleMessage evt d)"
proof -
  assume d: "told c d"
  have e: "told c x \<Longrightarrow> told c (emit y x)" for x y
    by (rule told_update, assumption) (simp_all add: emit_def getSnapshot_def)
  show ?thesis using d e told_setLastEventId [OF d] by (simp add: handleMessage_def Let_def split: option.split)
qed

lemma told_handleError:
  assumes "told c d" and "c_es d = Some n"
  shows "told c (handleError opts n d)"
proof -
  have "told c ((close_source n d)\<lparr>c_es := None\<rparr>)"
    by (rule told_update [OF assms(1)]) (simp_all add: close_source_def getSnapshot_def)
  then show ?thesis using told_scheduleReconnect by (simp add: handleError_fields [OF assms(2)] Let_def)
qed

lemma told_disconnect: "told c d \<Longrightarrow> told c (sse_disconnect d)"
proof -
  assume d: "told c d"
  let ?d = "(clear_timer (d\<lparr>c_stopped := True\<rparr>))\<lparr>c_attempt := 0\<rparr>"
  let ?e = "case c_es ?d of None \<Rightarrow> ?d | Some n \<Rightarrow> (close_source n ?d)\<lparr>c_es := None\<rparr>"
  have "told c ?e"
    by (rule told_update [OF d]) (simp_all add: clear_timer_def close_source_def getSnapshot_def split: option.split)
  then show "told c (sse_disconnect d)" unfolding sse_disconnect_def Let_def by (rule told_setStatus)
qed

lemma told_connect: "told c d \<Longrightarrow> told c (sse_connect d)"
proof -
  assume d: "told c d"
  have "told c (d\<lparr>c_stopped := False\<rparr>)" by (rule told_update [OF d]) (simp_all add: getSnapshot_def)
  then show "told c (sse_connect d)" using d by (simp add: sse_connect_def told_openConnection told_setStatus)
qed

lemma told_handle:
  assumes "\<And>l. e \<noteq> Subscribe l" and "\<And>l. e \<noteq> Unsubscribe l"
  shows "told c (client_handle opts e c)"
proof (cases e)
  case (TokenArrives r)
  have "told c (c\<lparr>c_waiting := c_waiting c - 1\<rparr>)" by (rule told_silent) simp_all
  then show ?thesis using TokenArrives by (simp add: told_token_arrived)
next
  case (SourceOpen n)
  have "told c (c\<lparr>c_attempt := 0\<rparr>)" by (rule told_silent) simp_all
  then show ?thesis using SourceOpen by (simp add: told_setStatus told_refl)
next
  case (TimerFires n)
  have "told c (c\<lparr>c_timer := None, c_timers := filter (\<lambda>x. fst x \<noteq> n) (c_timers c)\<rparr>)" by (rule told_silent) simp_all
  then show ?thesis using TimerFires by (simp add: told_openConnection)
qed (use assms in \<open>simp_all add: told_refl told_connect told_disconnect told_handleMessage told_handleError\<close>)

text \<open>What the hook hears of it.\<close>

lemma fold_hear: "fold hear xs h = (if xs = [] then h else hear (last xs) h)"
  by (induction xs arbitrary: h) (simp_all add: hear_def)

lemma heard:
  assumes "told c d" and "c_listeners c = [0]" and "lh_status h = c_status c" and "lh_last h = c_last c"
  shows "fold hear (new_snapshots c d) h = h\<lparr>lh_status := c_status d, lh_last := c_last d\<rparr>"
proof -
  from assms(1,2) obtain xs where xs: "c_notified d = c_notified c @ map (\<lambda>x. (0, x)) xs"
    "getSnapshot d = (if xs = [] then getSnapshot c else last xs)"
    unfolding told_def by (auto simp: concat_map_singleton)
  then have "new_snapshots c d = xs" by (simp add: new_snapshots_def filter_map o_def)
  moreover have "hear (getSnapshot c) h = h" using assms(3,4) by (simp add: hear_def getSnapshot_def)
  ultimately have "fold hear (new_snapshots c d) h = hear (getSnapshot d) h" using xs(2) by (simp add: fold_hear)
  then show ?thesis by (simp add: hear_def getSnapshot_def)
qed

lemma not_heard:
  assumes "told c d" and "c_listeners c = []"
  shows "new_snapshots c d = []"
proof -
  have "c_notified d = c_notified c" using assms by (auto simp: told_def)
  then show ?thesis by (simp add: new_snapshots_def)
qed

section \<open>The invariant\<close>

text \<open>
  Every client ever made is in a state of one of its runs, and all but the current one are quiet; what the hook shows is
  what the current one says. After every event the current client is the one wanted.
\<close>

definition quiet :: "sse_client \<Rightarrow> bool" where
  "quiet c \<longleftrightarrow> c_stopped c \<and> c_status c = Disconnected \<and> c_es c = None \<and> c_listeners c = []"

definition real_client :: "hook_env \<Rightarrow> string \<times> sse_client \<Rightarrow> bool" where
  "real_client E p \<longleftrightarrow> (\<exists>es. client_runs (hook_options E (fst p)) es (snd p))"

definition shows_client :: "live_hook \<Rightarrow> nat \<Rightarrow> bool" where
  "shows_client h n \<longleftrightarrow>
     (let c = snd (lh_clients h ! n) in
      n < length (lh_clients h) \<and> c_listeners c = [0] \<and> lh_status h = c_status c \<and> lh_last h = c_last c)"

definition clients_ok :: "hook_env \<Rightarrow> live_hook \<Rightarrow> bool" where
  "clients_ok E h \<longleftrightarrow>
     (\<forall>n<length (lh_clients h). real_client E (lh_clients h ! n) \<and> (lh_current h \<noteq> Some n \<longrightarrow> quiet (snd (lh_clients h ! n)))) \<and>
     (\<forall>n. lh_current h = Some n \<longrightarrow> shows_client h n)"

definition hook_ok :: "hook_env \<Rightarrow> live_hook \<Rightarrow> bool" where
  "hook_ok E h \<longleftrightarrow> clients_ok E h \<and>
     (if lh_mounted h then wanted_client h = current_workspace h \<and> (lh_current h = None \<longrightarrow> lh_status h = Disconnected)
      else lh_current h = None \<and> lh_asking h = None)"

lemma real_client_step:
  "real_client E (w, c) \<Longrightarrow> enabled e c \<Longrightarrow> real_client E (w, client_handle (hook_options E w) e c)"
  unfolding real_client_def by (auto intro: client_runs.step simp del: client_handle.simps)

abbreviation stepped :: "hook_env \<Rightarrow> nat \<Rightarrow> client_event \<Rightarrow> live_hook \<Rightarrow> sse_client" where
  "stepped E n e h \<equiv> client_handle (hook_options E (fst (lh_clients h ! n))) e (snd (lh_clients h ! n))"

lemma to_current:
  assumes "shows_client h n" and "\<And>l. e \<noteq> Subscribe l" and "\<And>l. e \<noteq> Unsubscribe l"
  shows "to_client E n e h = h\<lparr>lh_clients := (lh_clients h)[n := (fst (lh_clients h ! n), stepped E n e h)],
    lh_status := c_status (stepped E n e h), lh_last := c_last (stepped E n e h)\<rparr>"
    and "shows_client (to_client E n e h) n"
proof -
  have t: "told (snd (lh_clients h ! n)) (stepped E n e h)" using assms(2,3) by (rule told_handle)
  let ?h = "h\<lparr>lh_clients := (lh_clients h)[n := (fst (lh_clients h ! n), stepped E n e h)]\<rparr>"
  have "fold hear (new_snapshots (snd (lh_clients h ! n)) (stepped E n e h)) ?h =
      ?h\<lparr>lh_status := c_status (stepped E n e h), lh_last := c_last (stepped E n e h)\<rparr>"
    by (rule heard [OF t]) (use assms(1) in \<open>simp_all add: shows_client_def Let_def\<close>)
  then show e: "to_client E n e h = h\<lparr>lh_clients := (lh_clients h)[n := (fst (lh_clients h ! n), stepped E n e h)],
    lh_status := c_status (stepped E n e h), lh_last := c_last (stepped E n e h)\<rparr>"
    by (simp add: to_client_def Let_def del: client_handle.simps)
  have "c_listeners (stepped E n e h) = [0]" using t assms(1) by (simp add: told_def shows_client_def Let_def)
  with assms(1) show "shows_client (to_client E n e h) n"
    by (simp add: e shows_client_def Let_def del: client_handle.simps)
qed

lemma to_other:
  assumes "c_listeners (snd (lh_clients h ! n)) = []" and "\<And>l. e \<noteq> Subscribe l" and "\<And>l. e \<noteq> Unsubscribe l"
  shows "to_client E n e h = h\<lparr>lh_clients := (lh_clients h)[n := (fst (lh_clients h ! n), stepped E n e h)]\<rparr>"
    and "c_listeners (stepped E n e h) = []"
proof -
  have t: "told (snd (lh_clients h ! n)) (stepped E n e h)" using assms(2,3) by (rule told_handle)
  from not_heard [OF t assms(1)]
  show "to_client E n e h = h\<lparr>lh_clients := (lh_clients h)[n := (fst (lh_clients h ! n), stepped E n e h)]\<rparr>"
    by (simp add: to_client_def Let_def del: client_handle.simps)
  from t assms(1) show "c_listeners (stepped E n e h) = []" by (simp add: told_def)
qed

lemma delivered_to_client:
  assumes ok: "clients_ok E h" and n: "n < length (lh_clients h)" and e: "delivered e" "enabled e (snd (lh_clients h ! n))"
  shows "clients_ok E (to_client E n e h)"
proof -
  have plain: "\<And>l. e \<noteq> Subscribe l" "\<And>l. e \<noteq> Unsubscribe l" "e \<noteq> Connect" using e(1) by auto
  have real: "real_client E (fst (lh_clients h ! n), stepped E n e h)"
    using ok n e(2) real_client_step [of E "fst (lh_clients h ! n)" "snd (lh_clients h ! n)" e]
    by (simp add: clients_ok_def del: client_handle.simps)
  show ?thesis
  proof (cases "lh_current h = Some n")
    case True
    then have "shows_client h n" using ok by (simp add: clients_ok_def)
    note to_current [OF this plain(1,2), of E]
    with real ok n True show ?thesis by (auto simp: clients_ok_def nth_list_update simp del: client_handle.simps)
  next
    case False
    then have q: "quiet (snd (lh_clients h ! n))" using ok n by (simp add: clients_ok_def)
    then have "quiet (stepped E n e h)"
      using handle_while_stopped [of "snd (lh_clients h ! n)" e] plain to_other(2) [of h n e E] by (simp add: quiet_def del: client_handle.simps)
    moreover have "to_client E n e h = h\<lparr>lh_clients := (lh_clients h)[n := (fst (lh_clients h ! n), stepped E n e h)]\<rparr>"
      using q plain by (intro to_other(1)) (simp_all add: quiet_def)
    ultimately show ?thesis using real ok n False
      by (auto simp: clients_ok_def shows_client_def Let_def nth_list_update simp del: client_handle.simps)
  qed
qed

text \<open>Leaving and entering, in terms of the fields.\<close>

definition left_client :: "sse_client \<Rightarrow> sse_client" where
  "left_client c = sse_disconnect (unsubscribe 0 c)"

lemma leave_current:
  assumes "shows_client h n" and "lh_current h = Some n"
  shows "leave_client E h = h\<lparr>lh_clients := (lh_clients h)[n := (fst (lh_clients h ! n), left_client (snd (lh_clients h ! n)))], lh_current := None\<rparr>"
    and "quiet (left_client (snd (lh_clients h ! n)))"
proof -
  let ?c = "snd (lh_clients h ! n)"
  let ?g = "h\<lparr>lh_clients := (lh_clients h)[n := (fst (lh_clients h ! n), unsubscribe 0 ?c)]\<rparr>"
  from assms(1) have n: "n < length (lh_clients h)" and l: "c_listeners (unsubscribe 0 ?c) = []"
    by (simp_all add: shows_client_def Let_def unsubscribe_def)
  have u: "to_client E n (Unsubscribe 0) h = ?g"
    by (simp add: to_client_def Let_def new_snapshots_def unsubscribe_def)
  have d: "to_client E n Disconnect ?g = ?g\<lparr>lh_clients := (lh_clients ?g)[n := (fst (lh_clients ?g ! n), stepped E n Disconnect ?g)]\<rparr>"
    "c_listeners (stepped E n Disconnect ?g) = []"
    using l n by (intro to_other [of ?g n Disconnect E]; simp)+
  show "leave_client E h = h\<lparr>lh_clients := (lh_clients h)[n := (fst (lh_clients h ! n), left_client ?c)], lh_current := None\<rparr>"
    using n by (simp add: leave_client_def assms(2) u d(1) left_client_def del: client_handle.simps) (simp add: client_handle.simps)
  show "quiet (left_client ?c)" using d(2) n by (simp add: quiet_def left_client_def)
qed

lemma leave_client_ok:
  assumes "clients_ok E h"
  shows "clients_ok E (leave_client E h) \<and> lh_current (leave_client E h) = None"
proof (cases "lh_current h")
  case None
  with assms show ?thesis by (simp add: leave_client_def)
next
  case (Some n)
  then have s: "shows_client h n" using assms by (simp add: clients_ok_def)
  then have n: "n < length (lh_clients h)" by (simp add: shows_client_def Let_def)
  let ?w = "fst (lh_clients h ! n)" and ?c = "snd (lh_clients h ! n)"
  have "real_client E (?w, ?c)" using assms n by (simp add: clients_ok_def)
  from real_client_step [OF this, of "Unsubscribe 0"] have "real_client E (?w, unsubscribe 0 ?c)" by simp
  from real_client_step [OF this, of Disconnect] have "real_client E (?w, left_client ?c)" by (simp add: left_client_def)
  then show ?thesis using leave_current(1) [OF s Some, of E] leave_current(2) [OF s Some] assms Some n
    by (auto simp: clients_ok_def nth_list_update)
qed

lemma leave_client_fields:
  "lh_mounted (leave_client E h) = lh_mounted h" "lh_argument (leave_client E h) = lh_argument h"
  "lh_loaded (leave_client E h) = lh_loaded h" "lh_derived (leave_client E h) = lh_derived h"
  by (simp_all add: leave_client_def to_client_def Let_def fold_hear hear_def split: option.split)

lemma enter_client_ok:
  assumes "clients_ok E h" and "lh_current h = None"
  shows "clients_ok E (enter_client E w h) \<and> current_workspace (enter_client E w h) = w \<and>
    (lh_current (enter_client E w h) = None \<longrightarrow> lh_status (enter_client E w h) = Disconnected)"
proof (cases w)
  case None
  with assms show ?thesis by (simp add: enter_client_def clients_ok_def current_workspace_def shows_client_def)
next
  case (Some v)
  let ?n = "length (lh_clients h)"
  let ?h = "h\<lparr>lh_clients := lh_clients h @ [(v, new_client)], lh_current := Some ?n\<rparr>"
  let ?s = "subscribe 0 new_client"
  let ?g = "h\<lparr>lh_clients := lh_clients h @ [(v, ?s)], lh_current := Some ?n, lh_status := Disconnected, lh_last := None\<rparr>"
  have g: "to_client E ?n (Subscribe 0) ?h = ?g"
    by (simp add: to_client_def Let_def new_snapshots_def subscribe_def new_client_def getSnapshot_def hear_def)
  have shown: "shows_client ?g ?n" by (simp add: shows_client_def subscribe_def new_client_def)
  note c = to_current [OF shown, of Connect E]
  have "real_client E (v, new_client)" by (auto simp: real_client_def intro: client_runs.start)
  from real_client_step [OF this, of "Subscribe 0"] have "real_client E (v, ?s)" by simp
  from real_client_step [OF this, of Connect] have real: "real_client E (v, sse_connect ?s)" by simp
  have e: "enter_client E w h = to_client E ?n Connect ?g" using g by (simp add: enter_client_def Some Let_def)
  have f: "lh_clients (enter_client E w h) = lh_clients h @ [(v, sse_connect ?s)]" "lh_current (enter_client E w h) = Some ?n"
    by (simp_all add: e c)
  have "shows_client (enter_client E w h) ?n" using c(2) by (simp add: e)
  moreover have "real_client E (lh_clients (enter_client E w h) ! m) \<and> (m \<noteq> ?n \<longrightarrow> quiet (snd (lh_clients (enter_client E w h) ! m)))"
    if "m < length (lh_clients (enter_client E w h))" for m
    using that assms real by (cases "m < ?n") (auto simp: f nth_append clients_ok_def less_Suc_eq)
  ultimately show ?thesis by (auto simp: clients_ok_def current_workspace_def f Some [symmetric])
qed

lemma enter_client_fields:
  "lh_mounted (enter_client E w h) = lh_mounted h" "lh_argument (enter_client E w h) = lh_argument h"
  "lh_loaded (enter_client E w h) = lh_loaded h" "lh_derived (enter_client E w h) = lh_derived h"
  by (simp_all add: enter_client_def to_client_def Let_def fold_hear hear_def split: option.split)

lemma wanted_cong:
  assumes "lh_argument g = lh_argument h" and "lh_loaded g = lh_loaded h" and "lh_derived g = lh_derived h"
  shows "wanted_client g = wanted_client h"
  by (simp only: wanted_client_def effectiveWorkspaceId_def assms)

lemma wanted_fields:
  "wanted_client (leave_client E h) = wanted_client h" "wanted_client (enter_client E w h) = wanted_client h"
  by (rule wanted_cong; simp add: leave_client_fields enter_client_fields)+

lemma sync_client_ok:
  assumes "clients_ok E h" and "lh_mounted h" and "lh_current h = None \<longrightarrow> lh_status h = Disconnected"
  shows "hook_ok E (sync_client E h)"
proof (cases "wanted_client h = current_workspace h")
  case True
  with assms show ?thesis by (simp add: sync_client_def hook_ok_def)
next
  case False
  have l: "clients_ok E (leave_client E h)" "lh_current (leave_client E h) = None" using leave_client_ok [OF assms(1)] by simp_all
  from enter_client_ok [OF this, of "wanted_client h"] False assms(2) show ?thesis
    by (simp add: sync_client_def hook_ok_def wanted_fields enter_client_fields leave_client_fields)
qed

lemma derive_effect_fields:
  "lh_mounted (derive_effect h) = lh_mounted h" "lh_clients (derive_effect h) = lh_clients h"
  "lh_current (derive_effect h) = lh_current h" "lh_status (derive_effect h) = lh_status h" "lh_last (derive_effect h) = lh_last h"
  by (simp_all add: derive_effect_def Let_def)

lemma clients_ok_cong:
  assumes "lh_clients g = lh_clients h" and "lh_current g = lh_current h" and "lh_status g = lh_status h" and "lh_last g = lh_last h"
  shows "clients_ok E g = clients_ok E h"
  by (simp add: clients_ok_def shows_client_def assms)

lemma rerender_ok:
  assumes "hook_ok E h" and "lh_mounted h"
  shows "hook_ok E (rerender E w loaded h)"
proof -
  let ?h = "derive_effect (h\<lparr>lh_argument := w, lh_loaded := loaded\<rparr>)"
  have "clients_ok E ?h = clients_ok E h" by (rule clients_ok_cong) (simp_all add: derive_effect_fields)
  then have "hook_ok E (sync_client E ?h)" using assms by (intro sync_client_ok) (simp_all add: hook_ok_def derive_effect_fields)
  with assms(1) show ?thesis by (simp add: rerender_def)
qed

lemma token_found_ok:
  assumes "hook_ok E h"
  shows "hook_ok E (token_found E n answer h)"
proof (cases "lh_asking h = Some n")
  case False
  with assms show ?thesis by (simp add: token_found_def)
next
  case True
  with assms have m: "lh_mounted h" by (auto simp: hook_ok_def split: if_splits)
  let ?g = "\<lambda>d. h\<lparr>lh_asking := None, lh_derived := d\<rparr>"
  have "clients_ok E (?g d) = clients_ok E h" for d by (rule clients_ok_cong) simp_all
  then have "hook_ok E (sync_client E (?g d))" for d using assms m by (intro sync_client_ok) (simp_all add: hook_ok_def)
  moreover have "hook_ok E (h\<lparr>lh_asking := None\<rparr>)"
  proof -
    have "clients_ok E (h\<lparr>lh_asking := None\<rparr>) = clients_ok E h" by (rule clients_ok_cong) simp_all
    moreover have "wanted_client (h\<lparr>lh_asking := None\<rparr>) = wanted_client h" by (rule wanted_cong) simp_all
    ultimately show ?thesis using assms m by (simp add: hook_ok_def current_workspace_def)
  qed
  ultimately show ?thesis using True by (simp add: token_found_def split: option.split)
qed

lemma to_client_fields:
  "lh_mounted (to_client E n e h) = lh_mounted h" "lh_current (to_client E n e h) = lh_current h"
  "lh_asking (to_client E n e h) = lh_asking h" "lh_argument (to_client E n e h) = lh_argument h"
  "lh_loaded (to_client E n e h) = lh_loaded h" "lh_derived (to_client E n e h) = lh_derived h"
  by (simp_all add: to_client_def Let_def fold_hear hear_def)

lemma to_client_workspaces: "map fst (lh_clients (to_client E n e h)) = map fst (lh_clients h)"
  by (cases "n < length (lh_clients h)")
    (simp_all add: to_client_def Let_def fold_hear hear_def map_update list_update_beyond, metis list_update_id nth_map length_map)

lemma delivered_ok:
  assumes "hook_ok E h" and "n < length (lh_clients h)" and "delivered e" and "enabled e (snd (lh_clients h ! n))"
  shows "hook_ok E (to_client E n e h)"
proof -
  let ?g = "to_client E n e h"
  have ok: "clients_ok E ?g" using assms by (intro delivered_to_client) (simp_all add: hook_ok_def)
  have w: "wanted_client ?g = wanted_client h" by (rule wanted_cong) (simp_all add: to_client_fields)
  have "fst (lh_clients ?g ! m) = fst (lh_clients h ! m)" if "m < length (lh_clients h)" for m
    using that to_client_workspaces [of E n e h] by (metis length_map nth_map)
  moreover have "lh_current h = Some m \<Longrightarrow> m < length (lh_clients h)" for m
    using assms(1) by (simp add: hook_ok_def clients_ok_def shows_client_def Let_def split: if_splits)
  ultimately have c: "current_workspace ?g = current_workspace h"
    by (cases "lh_current h") (simp_all add: current_workspace_def to_client_fields)
  have "lh_status ?g = lh_status h" if "lh_current h = None"
  proof -
    have "quiet (snd (lh_clients h ! n))" using assms(1,2) that by (simp add: hook_ok_def clients_ok_def)
    then have "c_listeners (snd (lh_clients h ! n)) = []" by (simp add: quiet_def)
    from to_other(1) [OF this, of e E] assms(3) show ?thesis by (cases e) simp_all
  qed
  with ok w c assms(1) show ?thesis by (simp add: hook_ok_def to_client_fields split: if_splits)
qed

lemma unmount_ok:
  assumes "hook_ok E h"
  shows "hook_ok E (leave_client E (h\<lparr>lh_mounted := False, lh_asking := None\<rparr>))"
proof -
  let ?h = "h\<lparr>lh_mounted := False, lh_asking := None\<rparr>"
  have "clients_ok E ?h = clients_ok E h" by (rule clients_ok_cong) simp_all
  then have "clients_ok E (leave_client E ?h) \<and> lh_current (leave_client E ?h) = None"
    using assms by (intro leave_client_ok) (simp add: hook_ok_def)
  moreover have "lh_asking (leave_client E ?h) = None" by (simp add: leave_client_def to_client_fields split: option.split)
  ultimately show ?thesis by (simp add: hook_ok_def leave_client_fields)
qed

lemma hook_step_ok: "hook_ok E h \<Longrightarrow> hook_ok E (hook_step E h e)"
  by (cases e) (simp_all add: rerender_ok token_found_ok delivered_ok unmount_ok)

lemma hook_run_ok: "hook_ok E (hook_run E w es)"
proof -
  have "hook_ok E h \<Longrightarrow> hook_ok E (foldl (hook_step E) h es)" for h
    by (induction es arbitrary: h) (simp_all add: hook_step_ok)
  moreover have "hook_ok E (hook_start w)"
    by (simp add: hook_ok_def hook_start_def clients_ok_def wanted_client_def current_workspace_def)
  ultimately show ?thesis by (simp add: hook_run_def)
qed

section \<open>Properties\<close>


text \<open>The workspace comes from the token; then the screen goes away.\<close>

definition sample_hook :: hook_env where
  "sample_hook = \<lparr>he_parse = (\<lambda>t. Some (JObj [(''metadata'', JObj [(''workspaceId'', JStr ''w1'')])])), he_vars = (\<lambda>_. Some ''http://h'')\<rparr>"

definition sample_rendering :: "hook_event list" where
  "sample_rendering = [Rerender None True, TokenFound 0 (Some (Some ''h.e30.s''))]"

lemma sample_token: "hook_workspace (he_parse sample_hook) ''h.e30.s'' = Some ''w1''"
  by code_simp

definition derived_hook :: live_hook where
  "derived_hook = (hook_start None)\<lparr>lh_loaded := True, lh_asked := 1, lh_derived := Some ''w1''\<rparr>"

lemma derived_hook_wanted: "wanted_client derived_hook = Some ''w1''" "current_workspace derived_hook = None" "lh_current derived_hook = None"
  by (simp_all add: derived_hook_def hook_start_def wanted_client_def effectiveWorkspaceId_def given_def current_workspace_def)

lemma sample_entered: "hook_run sample_hook None sample_rendering = enter_client sample_hook (Some ''w1'') derived_hook"
proof -
  let ?h = "(hook_start None)\<lparr>lh_loaded := True, lh_asking := Some 0, lh_asked := 1\<rparr>"
  have "rerender sample_hook None True (hook_start None) = ?h"
    by (simp add: rerender_def derive_effect_def Let_def hook_start_def given_def sync_client_def wanted_client_def
        effectiveWorkspaceId_def current_workspace_def)
  moreover have "token_found sample_hook 0 (Some (Some ''h.e30.s'')) ?h = sync_client sample_hook derived_hook"
    by (simp add: token_found_def sample_token given_def derived_hook_def hook_start_def)
  moreover have "sync_client sample_hook derived_hook = enter_client sample_hook (Some ''w1'') derived_hook"
    by (simp add: sync_client_def derived_hook_wanted leave_client_def)
  ultimately show ?thesis by (simp add: hook_run_def sample_rendering_def) (simp add: hook_start_def)
qed

lemma sample_rendered: "lh_current (hook_run sample_hook None sample_rendering) = Some 0"
  "wanted_client (hook_run sample_hook None sample_rendering) = Some ''w1''"
  unfolding sample_entered
  by (simp_all only: wanted_fields derived_hook_wanted) (simp add: enter_client_def Let_def to_client_fields derived_hook_def hook_start_def)

lemma leave_client_length: "length (lh_clients (leave_client E h)) = length (lh_clients h)"
  by (simp add: leave_client_def to_client_def Let_def fold_hear hear_def split: option.split)


text \<open>
  An empty argument asks for the workspace of the token, since the effect takes it for missing, and never uses the
  answer, since \<open>??\<close> does not: such a hook never has a client.
\<close>

lemma empty_argument_never_connects:
  "lh_argument h = Some [] \<Longrightarrow> wanted_client h = None"
  "lh_asking (hook_run sample_hook (Some []) [Rerender (Some []) True]) = Some 0"
  by (simp add: wanted_client_def effectiveWorkspaceId_def given_def, code_simp)

end
