(* ===== verification/Cloud_Page.thy ===== *)
theory Cloud_Page
  imports Frontend_Accounts
begin

text \<open>
  The page of cloud accounts as a state machine: the card of a provider
  (\<open>frontend/components/cloud-accounts/provider-card.tsx\<close>), the panel that connects an AWS account
  (\<open>aws-connect-panel.tsx\<close>) and the page that loads, creates, verifies and removes accounts
  (\<open>frontend/app/workspace/cloud-accounts/page.tsx\<close>). An event is a press, an input or the answer of a
  call of the browser's client in \<open>Frontend_Accounts\<close>; the log keeps what was asked and answered.
\<close>

section \<open>The card of a provider\<close>

record cloud_account =
  ac_id :: string
  ac_provider :: string
  ac_label :: string
  ac_status :: string

record capability_account =
  cc_id :: string
  cc_identity :: "string option"
  cc_default_region :: "string option"
  cc_regions :: "string list option"
  cc_domains :: "string list option"
  cc_ready :: "bool option"
  cc_warning :: "string option"

record capabilities =
  cb_workspace :: "string option"
  cb_accounts :: "capability_account list"

datatype card_action = DoConnect | DoVerify | DoDelete

text \<open>
  What a card shows: its texts, its details (where \<open>None\<close> is the dash for what is missing), the badge for
  execution with the warning beside it, and its buttons with what they do and whether they are disabled.
\<close>

record card =
  cd_name :: string
  cd_subtitle :: string
  cd_badge :: string
  cd_note :: "string option"
  cd_details :: "(string \<times> string option) list"
  cd_execution :: "(string \<times> string option) option"
  cd_buttons :: "(string \<times> card_action \<times> bool) list"

definition state_label :: "card_state \<Rightarrow> string" where
  "state_label st =
     (case st of CardActive \<Rightarrow> ''Active'' | CardPending \<Rightarrow> ''Pending verification'' | CardFailed \<Rightarrow> ''Failed''
      | CardDisconnected \<Rightarrow> ''Disconnected'' | CardNotConnected \<Rightarrow> ''Not connected'')"

definition card_region :: "capability_account option \<Rightarrow> string option" where
  "card_region capability =
     (case capability of
        None \<Rightarrow> None
      | Some c \<Rightarrow> if given (cc_default_region c) then cc_default_region c
                  else (case cc_regions c of Some (r # rs) \<Rightarrow> if r = [] then None else Some r | _ \<Rightarrow> None))"

definition supported_services :: "capability_account option \<Rightarrow> string option" where
  "supported_services capability =
     (case capability of
        None \<Rightarrow> None
      | Some c \<Rightarrow> (case cc_domains c of Some (d # ds) \<Rightarrow> Some (join '', '' (d # ds)) | _ \<Rightarrow> None))"

definition execution_ready :: "capability_account option \<Rightarrow> bool" where
  "execution_ready capability = (case capability of Some c \<Rightarrow> cc_ready c = Some True | None \<Rightarrow> False)"

definition execution_badge :: "capability_account option \<Rightarrow> string \<times> string option" where
  "execution_badge capability =
     (if execution_ready capability then (''Execution ready'', None)
      else (''Permissions not verified'',
            case capability of Some c \<Rightarrow> if given (cc_warning c) then cc_warning c else None | None \<Rightarrow> None))"

definition ProviderCard :: "string \<Rightarrow> cloud_account option \<Rightarrow> capability_account option \<Rightarrow> bool \<Rightarrow> card" where
  "ProviderCard provider account capability busy =
     (let meta = the (map_of PROVIDER_META provider); st = cardStateFor (map_option ac_status account);
          connectable = pm_connectable meta in
      \<lparr>cd_name = pm_name meta,
       cd_subtitle = (case account of Some a \<Rightarrow> ac_label a | None \<Rightarrow> pm_description meta),
       cd_badge = state_label st,
       cd_note = (if st = CardNotConnected
                  then Some (if connectable then ''No account connected yet.'' else ''Connection support is not available yet.'')
                  else None),
       cd_details = (if st = CardNotConnected then []
                     else [(''Account ID'', maskAccountId (case capability of Some c \<Rightarrow> cc_identity c | None \<Rightarrow> None)),
                           (''Default region'', card_region capability)] @
                          (if st = CardActive then [(''Supported services'', supported_services capability)] else [])),
       cd_execution = (if st = CardActive then Some (execution_badge capability) else None),
       cd_buttons =
         (if st = CardNotConnected
          then [(if connectable then ''Connect account''
                 else (case pm_coming_soon meta of Some l \<Rightarrow> l | None \<Rightarrow> ''Coming soon''),
                 DoConnect, \<not> connectable \<or> busy)]
          else (if st \<noteq> CardActive
                then [(if st = CardFailed then ''Retry verification'' else ''Verify connection'', DoVerify, busy)] else []) @
               [(if st = CardDisconnected then ''Remove'' else ''Disconnect'', DoDelete, busy)])\<rparr>)"

section \<open>The panel\<close>

text \<open>Its own state: role, label, whether the external identifier is revealed and whether it was copied.\<close>

record connect_panel =
  pn_role :: string
  pn_label :: string
  pn_revealed :: bool
  pn_copied :: bool

definition panel_start :: connect_panel where
  "panel_start = \<lparr>pn_role = [], pn_label = ''AWS account'', pn_revealed = False, pn_copied = False\<rparr>"

text \<open>The pattern \<open>arn:aws(-[a-z]+)?:iam::\d{12}:role/.+\<close> at the start of the role.\<close>

definition after_prefix :: "string \<Rightarrow> string \<Rightarrow> string option" where
  "after_prefix p s = (if starts_with p s then Some (drop (length p) s) else None)"

definition skip_partition :: "string \<Rightarrow> string option" where
  "skip_partition s =
     (case s of
        [] \<Rightarrow> Some s
      | c # t \<Rightarrow> if c = CHR ''-'' then (if takeWhile is_lower t = [] then None else Some (dropWhile is_lower t)) else Some s)"

definition skip_account :: "string \<Rightarrow> string option" where
  "skip_account s = (if length s \<ge> 12 \<and> list_all is_digit (take 12 s) then Some (drop 12 s) else None)"

definition line_end :: "char \<Rightarrow> bool" where
  "line_end c = (code_unit c = 10 \<or> code_unit c = 13)"

definition roleArnValid :: "string \<Rightarrow> bool" where
  "roleArnValid role =
     (case Option.bind (after_prefix ''arn:aws'' (trim role)) (\<lambda>s. Option.bind (skip_partition s) (\<lambda>s.
             Option.bind (after_prefix '':iam::'' s) (\<lambda>s. Option.bind (skip_account s) (after_prefix '':role/''))))  of
        Some (c # s) \<Rightarrow> \<not> line_end c
      | _ \<Rightarrow> False)"

definition templateConfigured :: "string \<Rightarrow> bool" where
  "templateConfigured principalId = account_number principalId"

definition canVerify :: "string \<Rightarrow> string \<Rightarrow> string option \<Rightarrow> bool \<Rightarrow> connect_panel \<Rightarrow> bool" where
  "canVerify principalId externalId accountId busy p \<longleftrightarrow>
     length (trim externalId) > 0 \<and>
     (given accountId \<or> templateConfigured principalId \<and> roleArnValid (pn_role p) \<and> length (trim (pn_label p)) > 0) \<and> \<not> busy"

text \<open>The template in the panel; the renderer throws on an identifier of white space.\<close>

definition panel_template :: "string \<Rightarrow> string \<Rightarrow> string \<Rightarrow> string option \<Rightarrow> connect_panel \<Rightarrow> string + string" where
  "panel_template principalId ws externalId accountId p =
     (if given accountId \<or> \<not> templateConfigured principalId \<or> externalId = [] \<or> ws = [] then Inr []
      else buildCloudFormationTemplate
             \<lparr>ti_external = externalId, ti_workspace = ws,
              ti_label = (if trim (pn_label p) = [] then None else Some (trim (pn_label p))), ti_principal = Some principalId\<rparr>)"

text \<open>The panel says that set-up is unavailable when there is no template; an existing account needs none.\<close>

definition setup_alert :: "string \<Rightarrow> string \<Rightarrow> string \<Rightarrow> string option \<Rightarrow> connect_panel \<Rightarrow> bool" where
  "setup_alert principalId ws externalId accountId p \<longleftrightarrow>
     \<not> given accountId \<and> panel_template principalId ws externalId accountId p = Inr []"

definition role_problem :: "connect_panel \<Rightarrow> bool" where
  "role_problem p \<longleftrightarrow> \<not> roleArnValid (pn_role p) \<and> pn_role p \<noteq> []"

record verify_params =
  vp_external :: string
  vp_role :: string
  vp_label :: string

definition panel_params :: "string \<Rightarrow> connect_panel \<Rightarrow> verify_params" where
  "panel_params externalId p = \<lparr>vp_external = externalId, vp_role = trim (pn_role p), vp_label = trim (pn_label p)\<rparr>"

section \<open>The page\<close>

datatype page_view = PageLoading | PageReady | PageError

datatype page_task = NoTask | Creating string | Verifying | Deleting | Reloading

text \<open>What was asked of the service and what it answered, in order.\<close>

datatype page_entry =
    AskedCreate create_account_input | AskedVerify string string | AskedDelete string
  | Created cloud_account | Listed "cloud_account list"

record cloud_page =
  cp_view :: page_view
  cp_accounts :: "cloud_account list"
  cp_capabilities :: "capabilities option"
  cp_load_error :: "string option"
  cp_open :: bool
  cp_external :: string
  cp_busy :: bool
  cp_panel_error :: "string option"
  cp_feedback :: "string option"
  cp_auto :: bool
  cp_task :: page_task
  cp_panel :: connect_panel
  cp_generated :: nat
  cp_log :: "page_entry list"

text \<open>
  What the page is given: the account of the platform, the query parameter \<open>connect\<close>, and the external
  identifiers that \<open>generateExternalId\<close> draws, one after the other.
\<close>

record page_env =
  pe_principal :: string
  pe_connect :: "string option"
  pe_draw :: "nat \<Rightarrow> string"

text \<open>The state after the first effect has called \<open>load\<close>; it waits for the answer while it shows loading.\<close>

definition page_start :: cloud_page where
  "page_start =
     \<lparr>cp_view = PageLoading, cp_accounts = [], cp_capabilities = None, cp_load_error = None, cp_open = False, cp_external = [],
      cp_busy = False, cp_panel_error = None, cp_feedback = None, cp_auto = False, cp_task = NoTask, cp_panel = panel_start,
      cp_generated = 0, cp_log = []\<rparr>"

text \<open>\<open>accountByProvider\<close> keeps the first account of a provider, \<open>capabilityById\<close> the last with an identifier.\<close>

definition account_of :: "cloud_page \<Rightarrow> string \<Rightarrow> cloud_account option" where
  "account_of s provider = List.find (\<lambda>a. ac_provider a = provider) (cp_accounts s)"

definition capability_of :: "cloud_page \<Rightarrow> string \<Rightarrow> capability_account option" where
  "capability_of s i =
     (case cp_capabilities s of None \<Rightarrow> None | Some c \<Rightarrow> List.find (\<lambda>a. cc_id a = i) (rev (cb_accounts c)))"

definition awsAccount :: "cloud_page \<Rightarrow> cloud_account option" where
  "awsAccount s = account_of s ''aws''"

definition aws_id :: "cloud_page \<Rightarrow> string option" where
  "aws_id s = map_option ac_id (awsAccount s)"

definition page_workspace :: "cloud_page \<Rightarrow> string option" where
  "page_workspace s = Option.bind (cp_capabilities s) cb_workspace"

definition operable :: "cloud_page \<Rightarrow> bool" where
  "operable s \<longleftrightarrow> cp_view s = PageReady \<and> given (page_workspace s)"

definition load_page :: "cloud_page \<Rightarrow> cloud_page" where
  "load_page s = s\<lparr>cp_view := PageLoading, cp_load_error := None\<rparr>"

type_synonym load_answer = "client_error + cloud_account list \<times> capabilities option"

definition load_checked :: "load_answer \<Rightarrow> client_error + cloud_account list \<times> capabilities" where
  "load_checked r =
     (case r of
        Inl e \<Rightarrow> Inl e
      | Inr (accounts, c) \<Rightarrow>
          (case c of
             Some c \<Rightarrow>
               if trim (case cb_workspace c of Some w \<Rightarrow> w | None \<Rightarrow> []) \<noteq> [] then Inr (accounts, c)
               else Inl (ErrorObject ''Workspace capabilities are unavailable. Please retry.'')
           | None \<Rightarrow> Inl (ErrorObject ''Workspace capabilities are unavailable. Please retry.'')))"

definition load_done :: "load_answer \<Rightarrow> cloud_page \<Rightarrow> cloud_page" where
  "load_done r s =
     (case load_checked r of
        Inl e \<Rightarrow> s\<lparr>cp_load_error := Some (errorMessage e), cp_view := PageError\<rparr>
      | Inr (accounts, c) \<Rightarrow>
          s\<lparr>cp_accounts := accounts, cp_capabilities := Some c, cp_view := PageReady, cp_log := cp_log s @ [Listed accounts]\<rparr>)"

text \<open>\<open>finally\<close> of the two handlers, reached after their reload.\<close>

definition task_over :: "cloud_page \<Rightarrow> cloud_page" where
  "task_over s = s\<lparr>cp_busy := False, cp_task := NoTask\<rparr>"

definition openVerify :: "cloud_account \<Rightarrow> cloud_page \<Rightarrow> cloud_page" where
  "openVerify a s =
     (if \<not> operable s \<or> ac_provider a \<noteq> ''aws'' then s
      else s\<lparr>cp_external := [], cp_panel_error := None, cp_open := True\<rparr>)"

definition openConnect :: "page_env \<Rightarrow> string \<Rightarrow> cloud_page \<Rightarrow> cloud_page" where
  "openConnect E provider s =
     (if provider \<noteq> ''aws'' \<or> \<not> operable s then s
      else case awsAccount s of
        Some a \<Rightarrow> openVerify a s
      | None \<Rightarrow> s\<lparr>cp_external := pe_draw E (cp_generated s), cp_generated := cp_generated s + 1, cp_panel_error := None, cp_open := True\<rparr>)"

text \<open>The effect that opens the panel once after the hand-over of the set-up.\<close>

definition auto_connect :: "page_env \<Rightarrow> cloud_page \<Rightarrow> cloud_page" where
  "auto_connect E s =
     (if cp_view s \<noteq> PageReady \<or> cp_auto s then s
      else if pe_connect E = Some ''aws'' then openConnect E ''aws'' (s\<lparr>cp_auto := True\<rparr>) else s)"

definition ask_verify :: "string \<Rightarrow> string \<Rightarrow> cloud_page \<Rightarrow> cloud_page" where
  "ask_verify i externalId s = s\<lparr>cp_task := Verifying, cp_log := cp_log s @ [AskedVerify i externalId]\<rparr>"

definition account_input :: "verify_params \<Rightarrow> create_account_input" where
  "account_input p =
     \<lparr>ca_provider = ''aws'', ca_label = vp_label p, ca_external = Some (vp_external p),
      ca_metadata = JObj [(''role_arn'', JStr (vp_role p))]\<rparr>"

text \<open>\<open>handleVerify\<close> up to its first \<open>await\<close>, and what follows each answer.\<close>

definition handleVerify :: "verify_params \<Rightarrow> cloud_page \<Rightarrow> cloud_page" where
  "handleVerify p s =
     (if cp_busy s \<or> \<not> operable s then s
      else (let s = s\<lparr>cp_busy := True, cp_panel_error := None\<rparr> in
            if given (aws_id s) then ask_verify (the (aws_id s)) (vp_external p) s
            else s\<lparr>cp_task := Creating (vp_external p), cp_log := cp_log s @ [AskedCreate (account_input p)]\<rparr>))"

definition verify_failed :: "client_error \<Rightarrow> cloud_page \<Rightarrow> cloud_page" where
  "verify_failed e s = task_over (s\<lparr>cp_panel_error := Some (errorMessage e)\<rparr>)"

definition create_done :: "client_error + cloud_account \<Rightarrow> string \<Rightarrow> cloud_page \<Rightarrow> cloud_page" where
  "create_done r externalId s =
     (case r of
        Inl e \<Rightarrow> verify_failed e s
      | Inr a \<Rightarrow> ask_verify (ac_id a) externalId (s\<lparr>cp_accounts := cp_accounts s @ [a], cp_log := cp_log s @ [Created a]\<rparr>))"

definition verify_done :: "client_error option \<Rightarrow> cloud_page \<Rightarrow> cloud_page" where
  "verify_done r s =
     (case r of
        Some e \<Rightarrow> verify_failed e s
      | None \<Rightarrow> load_page (s\<lparr>cp_open := False, cp_feedback := Some ''AWS account verified and connected.'', cp_task := Reloading\<rparr>))"

definition handleDelete :: "cloud_account \<Rightarrow> cloud_page \<Rightarrow> cloud_page" where
  "handleDelete a s =
     s\<lparr>cp_busy := True, cp_feedback := None, cp_task := Deleting, cp_log := cp_log s @ [AskedDelete (ac_id a)]\<rparr>"

definition delete_done :: "client_error option \<Rightarrow> cloud_page \<Rightarrow> cloud_page" where
  "delete_done r s =
     (case r of
        Some e \<Rightarrow>
          task_over (s\<lparr>cp_feedback := Some (if isActiveRunsError e
             then ''Cannot remove this account while provisioning runs are active.'' else errorMessage e)\<rparr>)
      | None \<Rightarrow> load_page (s\<lparr>cp_feedback := Some ''Cloud account removed.'', cp_task := Reloading\<rparr>))"

text \<open>
  The panel is mounted while it is open over a loaded page, and loses its state when it is not. The cards are
  those of \<open>CLOUD_PROVIDERS\<close>.
\<close>

definition panel_mounted :: "cloud_page \<Rightarrow> bool" where
  "panel_mounted s \<longleftrightarrow> cp_open s \<and> operable s"

definition page_card :: "cloud_page \<Rightarrow> string \<Rightarrow> card" where
  "page_card s provider =
     ProviderCard provider (account_of s provider)
       (case account_of s provider of Some a \<Rightarrow> capability_of s (ac_id a) | None \<Rightarrow> None) (cp_busy s)"

definition press_card :: "page_env \<Rightarrow> string \<Rightarrow> card_action \<Rightarrow> cloud_page \<Rightarrow> cloud_page" where
  "press_card E provider what s =
     (if cp_view s = PageReady \<and> provider \<in> set CLOUD_PROVIDERS \<and>
         list_ex (\<lambda>(l, w, disabled). w = what \<and> \<not> disabled) (cd_buttons (page_card s provider))
      then (case what of
              DoConnect \<Rightarrow> openConnect E provider s
            | DoVerify \<Rightarrow> (case account_of s provider of Some a \<Rightarrow> openVerify a s | None \<Rightarrow> s)
            | DoDelete \<Rightarrow> (case account_of s provider of Some a \<Rightarrow> handleDelete a s | None \<Rightarrow> s))
      else s)"

datatype page_event =
    LoadArrived load_answer | CreateArrived "client_error + cloud_account"
  | VerifyArrived "client_error option" | DeleteArrived "client_error option"
  | PressRetry | PressHeader | PressCard string card_action | DismissFeedback
  | EditExternal string | EditRole string | EditLabel string | PressReveal | CopyTried bool | CopyExpired
  | PressVerify | PressCancel

definition in_panel :: "(cloud_page \<Rightarrow> cloud_page) \<Rightarrow> cloud_page \<Rightarrow> cloud_page" where
  "in_panel f s = (if panel_mounted s then f s else s)"

fun page_handle :: "page_env \<Rightarrow> page_event \<Rightarrow> cloud_page \<Rightarrow> cloud_page" where
  "page_handle E (LoadArrived r) s =
     (if cp_view s = PageLoading then (if cp_task s = Reloading then task_over (load_done r s) else load_done r s) else s)"
| "page_handle E (CreateArrived r) s = (case cp_task s of Creating x \<Rightarrow> create_done r x s | _ \<Rightarrow> s)"
| "page_handle E (VerifyArrived r) s = (if cp_task s = Verifying then verify_done r s else s)"
| "page_handle E (DeleteArrived r) s = (if cp_task s = Deleting then delete_done r s else s)"
| "page_handle E PressRetry s = (if cp_view s = PageError then load_page s else s)"
| "page_handle E PressHeader s = (if cp_busy s \<or> cp_view s \<noteq> PageReady then s else openConnect E ''aws'' s)"
| "page_handle E (PressCard provider what) s = press_card E provider what s"
| "page_handle E DismissFeedback s = s\<lparr>cp_feedback := None\<rparr>"
| "page_handle E (EditExternal x) s = in_panel (\<lambda>s. if given (aws_id s) \<and> \<not> cp_busy s then s\<lparr>cp_external := x\<rparr> else s) s"
| "page_handle E (EditRole x) s = in_panel (\<lambda>s. if given (aws_id s) then s else s\<lparr>cp_panel := (cp_panel s)\<lparr>pn_role := x\<rparr>\<rparr>) s"
| "page_handle E (EditLabel x) s = in_panel (\<lambda>s. if given (aws_id s) then s else s\<lparr>cp_panel := (cp_panel s)\<lparr>pn_label := x\<rparr>\<rparr>) s"
| "page_handle E PressReveal s =
     in_panel (\<lambda>s. if given (aws_id s) then s else s\<lparr>cp_panel := (cp_panel s)\<lparr>pn_revealed := \<not> pn_revealed (cp_panel s)\<rparr>\<rparr>) s"
| "page_handle E (CopyTried ok) s =
     in_panel (\<lambda>s. if given (aws_id s) then s else s\<lparr>cp_panel := (cp_panel s)\<lparr>pn_copied := ok\<rparr>\<rparr>) s"
| "page_handle E CopyExpired s = in_panel (\<lambda>s. s\<lparr>cp_panel := (cp_panel s)\<lparr>pn_copied := False\<rparr>\<rparr>) s"
| "page_handle E PressVerify s =
     in_panel (\<lambda>s. if canVerify (pe_principal E) (cp_external s) (aws_id s) (cp_busy s) (cp_panel s)
                   then handleVerify (panel_params (cp_external s) (cp_panel s)) s else s) s"
| "page_handle E PressCancel s = in_panel (\<lambda>s. if cp_busy s then s else s\<lparr>cp_open := False\<rparr>) s"

definition page_rendered :: "cloud_page \<Rightarrow> cloud_page" where
  "page_rendered s = (if panel_mounted s then s else s\<lparr>cp_panel := panel_start\<rparr>)"

definition page_step :: "page_env \<Rightarrow> cloud_page \<Rightarrow> page_event \<Rightarrow> cloud_page" where
  "page_step E s e = page_rendered (auto_connect E (page_rendered (page_handle E e s)))"

definition page_run :: "page_env \<Rightarrow> page_event list \<Rightarrow> cloud_page" where
  "page_run E es = foldl (page_step E) page_start es"

section \<open>What the page knows and asks\<close>

text \<open>The accounts the service has told of: the last list, and what was created since.\<close>

fun told :: "page_entry \<Rightarrow> cloud_account list \<Rightarrow> cloud_account list" where
  "told (Created a) accounts = accounts @ [a]"
| "told (Listed as) accounts = as"
| "told e accounts = accounts"

definition known_accounts :: "page_entry list \<Rightarrow> cloud_account list" where
  "known_accounts entries = fold told entries []"

lemma known_accounts_snoc [simp]: "known_accounts (entries @ [e]) = told e (known_accounts entries)"
  by (simp add: known_accounts_def)

lemma known_accounts_Nil [simp]: "known_accounts [] = []"
  by (simp add: known_accounts_def)

text \<open>A role as the pattern describes it.\<close>

definition role_arn :: "string \<Rightarrow> bool" where
  "role_arn r \<longleftrightarrow> (\<exists>part number path. r = ''arn:aws'' @ part @ '':iam::'' @ number @ '':role/'' @ path \<and>
     (part = [] \<or> (\<exists>letters. part = CHR ''-'' # letters \<and> letters \<noteq> [] \<and> list_all is_lower letters)) \<and>
     account_number number \<and> path \<noteq> [] \<and> \<not> line_end (hd path))"

definition creation_ok :: "page_env \<Rightarrow> cloud_account list \<Rightarrow> create_account_input \<Rightarrow> bool" where
  "creation_ok E accounts i \<longleftrightarrow>
     (\<forall>a\<in>set accounts. ac_provider a \<noteq> ''aws'') \<and> account_number (pe_principal E) \<and>
     (\<exists>p. i = account_input p \<and> trim (vp_external p) \<noteq> [] \<and> vp_label p \<noteq> [] \<and> role_arn (vp_role p))"

fun request_ok :: "page_env \<Rightarrow> cloud_account list \<Rightarrow> page_entry \<Rightarrow> bool" where
  "request_ok E accounts (AskedCreate i) = creation_ok E accounts i"
| "request_ok E accounts (AskedVerify i x) = (i \<in> ac_id ` set accounts)"
| "request_ok E accounts (AskedDelete i) = (i \<in> ac_id ` set accounts)"
| "request_ok E accounts e = True"

definition books_ok :: "page_env \<Rightarrow> cloud_page \<Rightarrow> bool" where
  "books_ok E s \<longleftrightarrow> cp_accounts s = known_accounts (cp_log s) \<and> (\<forall>a\<in>set (cp_accounts s). ac_id a \<noteq> []) \<and>
     (\<forall>xs e ys. cp_log s = xs @ e # ys \<longrightarrow> request_ok E (known_accounts xs) e)"

lemma books_ok_entry:
  "books_ok E s \<Longrightarrow> cp_log t = cp_log s @ [e] \<Longrightarrow> cp_accounts t = told e (cp_accounts s) \<Longrightarrow>
   request_ok E (cp_accounts s) e \<Longrightarrow> (\<forall>a\<in>set (cp_accounts t). ac_id a \<noteq> []) \<Longrightarrow> books_ok E t"
  unfolding books_ok_def by (auto simp: snoc_split)

text \<open>Everything but the requests and the answers that bring accounts leaves accounts and log alone.\<close>

lemma books_kept [simp]:
  "cp_accounts (openVerify a s) = cp_accounts s" "cp_log (openVerify a s) = cp_log s"
  "cp_accounts (openConnect E p s) = cp_accounts s" "cp_log (openConnect E p s) = cp_log s"
  "cp_accounts (auto_connect E s) = cp_accounts s" "cp_log (auto_connect E s) = cp_log s"
  "cp_accounts (page_rendered s) = cp_accounts s" "cp_log (page_rendered s) = cp_log s"
  "cp_accounts (task_over s) = cp_accounts s" "cp_log (task_over s) = cp_log s"
  "cp_accounts (load_page s) = cp_accounts s" "cp_log (load_page s) = cp_log s"
  "cp_accounts (verify_failed e s) = cp_accounts s" "cp_log (verify_failed e s) = cp_log s"
  "cp_accounts (verify_done r s) = cp_accounts s" "cp_log (verify_done r s) = cp_log s"
  "cp_accounts (delete_done r s) = cp_accounts s" "cp_log (delete_done r s) = cp_log s"
  by (simp_all add: openVerify_def openConnect_def auto_connect_def page_rendered_def task_over_def load_page_def
      verify_failed_def verify_done_def delete_done_def split: option.split)

lemma ask_verify_books [simp]:
  "cp_accounts (ask_verify i x s) = cp_accounts s" "cp_log (ask_verify i x s) = cp_log s @ [AskedVerify i x]"
  by (simp_all add: ask_verify_def)

lemma books_ok_kept [simp]:
  "books_ok E (openVerify a s) = books_ok E s" "books_ok E (openConnect E p s) = books_ok E s"
  "books_ok E (auto_connect E s) = books_ok E s" "books_ok E (page_rendered s) = books_ok E s"
  "books_ok E (task_over s) = books_ok E s" "books_ok E (load_page s) = books_ok E s"
  "books_ok E (verify_failed e s) = books_ok E s" "books_ok E (verify_done v s) = books_ok E s"
  "books_ok E (delete_done d s) = books_ok E s"
  by (simp_all add: books_ok_def)

text \<open>The identifiers the service assigns are not empty.\<close>

fun ids_given :: "page_event \<Rightarrow> bool" where
  "ids_given (LoadArrived r) = (case r of Inr (accounts, c) \<Rightarrow> list_all (\<lambda>a. ac_id a \<noteq> []) accounts | Inl e \<Rightarrow> True)"
| "ids_given (CreateArrived r) = (case r of Inr a \<Rightarrow> ac_id a \<noteq> [] | Inl e \<Rightarrow> True)"
| "ids_given e = True"

lemma load_done_books:
  assumes "books_ok E s" and "ids_given (LoadArrived r)"
  shows "books_ok E (load_done r s)"
proof (cases "load_checked r")
  case (Inl e)
  with assms(1) show ?thesis by (simp add: load_done_def books_ok_def)
next
  case (Inr p)
  then obtain accounts c where p: "load_checked r = Inr (accounts, c)" by (cases p) auto
  then have "\<exists>d. r = Inr (accounts, d)" by (auto simp: load_checked_def split: sum.splits option.splits if_splits)
  then have "\<forall>a\<in>set accounts. ac_id a \<noteq> []" using assms(2) by (auto simp: list_all_iff)
  then show ?thesis using p by (intro books_ok_entry [OF assms(1), where e = "Listed accounts"]) (simp_all add: load_done_def)
qed

lemma create_done_books:
  assumes "books_ok E s" and "ids_given (CreateArrived r)"
  shows "books_ok E (create_done r x s)"
proof (cases r)
  case (Inl e)
  with assms(1) show ?thesis by (simp add: create_done_def books_ok_def)
next
  case (Inr a)
  let ?m = "s\<lparr>cp_accounts := cp_accounts s @ [a], cp_log := cp_log s @ [Created a]\<rparr>"
  have "\<forall>b\<in>set (cp_accounts s @ [a]). ac_id b \<noteq> []" using assms Inr by (auto simp: books_ok_def)
  then have "books_ok E ?m" by (intro books_ok_entry [OF assms(1), where e = "Created a"]) simp_all
  then have "books_ok E (ask_verify (ac_id a) x ?m)"
    using \<open>\<forall>b\<in>set (cp_accounts s @ [a]). ac_id b \<noteq> []\<close>
    by (intro books_ok_entry [OF \<open>books_ok E ?m\<close>, where e = "AskedVerify (ac_id a) x"]) simp_all
  with Inr show ?thesis by (simp add: create_done_def)
qed

lemma handleDelete_books:
  assumes "books_ok E s" and "account_of s p = Some a"
  shows "books_ok E (handleDelete a s)"
  using assms(1) find_SomeD [OF assms(2) [unfolded account_of_def]]
  by (intro books_ok_entry [OF assms(1), where e = "AskedDelete (ac_id a)"]) (auto simp: handleDelete_def books_ok_def)

lemma after_prefix_Some: "after_prefix p s = Some t \<Longrightarrow> s = p @ t"
  unfolding after_prefix_def starts_with_def by (metis append_take_drop_id option.distinct(1) option.inject)

lemma skip_partition_Some:
  assumes "skip_partition s = Some t"
  obtains part where "s = part @ t"
    and "part = [] \<or> (\<exists>letters. part = CHR ''-'' # letters \<and> letters \<noteq> [] \<and> list_all is_lower letters)"
proof (cases s)
  case Nil
  with assms that show ?thesis by (simp add: skip_partition_def)
next
  case (Cons c u)
  show ?thesis
  proof (cases "c = CHR ''-''")
    case True
    then have "takeWhile is_lower u \<noteq> []" "t = dropWhile is_lower u"
      using assms Cons by (auto simp: skip_partition_def split: if_splits)
    moreover have "list_all is_lower (takeWhile is_lower u)" by (auto simp: list_all_iff dest: set_takeWhileD)
    ultimately show ?thesis using that [of "CHR ''-'' # takeWhile is_lower u"] Cons True by simp
  next
    case False
    with assms Cons that [of "[]"] show ?thesis by (simp add: skip_partition_def)
  qed
qed

lemma skip_account_Some: "skip_account s = Some t \<Longrightarrow> \<exists>number. s = number @ t \<and> account_number number"
  unfolding skip_account_def account_number_def
  by (rule exI [of _ "take 12 s"]) (auto split: if_splits)

lemma roleArnValid_shape:
  assumes "roleArnValid role"
  shows "role_arn (trim role)"
proof -
  obtain s u v w x c where s: "after_prefix ''arn:aws'' (trim role) = Some s" and u: "skip_partition s = Some u"
    and v: "after_prefix '':iam::'' u = Some v" and w: "skip_account v = Some w" and x: "after_prefix '':role/'' w = Some (c # x)"
    and c: "\<not> line_end c"
    using assms by (auto simp: roleArnValid_def bind_eq_Some_conv split: option.splits list.splits)
  obtain part where part: "s = part @ u"
    "part = [] \<or> (\<exists>letters. part = CHR ''-'' # letters \<and> letters \<noteq> [] \<and> list_all is_lower letters)"
    using skip_partition_Some [OF u] by blast
  obtain number where number: "v = number @ w" "account_number number" using skip_account_Some [OF w] by blast
  have "trim role = ''arn:aws'' @ part @ '':iam::'' @ number @ '':role/'' @ (c # x)"
    using after_prefix_Some [OF s] after_prefix_Some [OF v] after_prefix_Some [OF x] part(1) number(1) by simp
  then show ?thesis unfolding role_arn_def using part(2) number(2) c by fastforce
qed

lemma awsAccount_known: "awsAccount s = Some a \<Longrightarrow> a \<in> set (cp_accounts s)"
  using find_SomeD unfolding awsAccount_def account_of_def by metis

lemma handleVerify_books:
  assumes "books_ok E s"
    and can: "canVerify (pe_principal E) (cp_external s) (aws_id s) (cp_busy s) (cp_panel s)"
  shows "books_ok E (handleVerify (panel_params (cp_external s) (cp_panel s)) s)"
proof (cases "cp_busy s \<or> \<not> operable s")
  case True
  with assms(1) show ?thesis by (auto simp: handleVerify_def)
next
  case go: False
  let ?p = "panel_params (cp_external s) (cp_panel s)" and ?m = "s\<lparr>cp_busy := True, cp_panel_error := None\<rparr>"
  have aws: "aws_id ?m = aws_id s" by (simp add: aws_id_def awsAccount_def account_of_def)
  show ?thesis
  proof (cases "given (aws_id s)")
    case True
    then have "the (aws_id s) \<in> ac_id ` set (cp_accounts s)"
      using awsAccount_known by (cases "awsAccount s") (auto simp: given_def aws_id_def)
    then show ?thesis
      using go True aws assms(1)
      by (intro books_ok_entry [OF assms(1), where e = "AskedVerify (the (aws_id s)) (vp_external ?p)"])
        (auto simp: handleVerify_def books_ok_def)
  next
    case False
    then have "awsAccount s = None"
      using assms(1) awsAccount_known by (cases "awsAccount s") (auto simp: given_def aws_id_def books_ok_def)
    then have none: "\<forall>a\<in>set (cp_accounts s). ac_provider a \<noteq> ''aws''"
      by (simp add: awsAccount_def account_of_def find_None_iff)
    have "creation_ok E (cp_accounts s) (account_input ?p)"
      unfolding creation_ok_def using none can False roleArnValid_shape
      by (intro conjI exI [of _ ?p]) (auto simp: canVerify_def templateConfigured_def panel_params_def)
    then show ?thesis
      using go False aws assms(1)
      by (intro books_ok_entry [OF assms(1), where e = "AskedCreate (account_input ?p)"]) (auto simp: handleVerify_def books_ok_def)
  qed
qed

lemma in_panel_books: "books_ok E s \<Longrightarrow> (panel_mounted s \<Longrightarrow> books_ok E (f s)) \<Longrightarrow> books_ok E (in_panel f s)"
  by (simp add: in_panel_def)

lemma press_card_books: "books_ok E s \<Longrightarrow> books_ok E (press_card E p what s)"
  by (auto simp: press_card_def split: card_action.split option.split intro: handleDelete_books)

lemma page_handle_books:
  assumes "books_ok E s" and "ids_given e"
  shows "books_ok E (page_handle E e s)"
proof (cases e)
  case (LoadArrived r)
  with assms load_done_books [of E s r] show ?thesis by simp
next
  case (CreateArrived r)
  with assms create_done_books [of E s r] show ?thesis by (auto split: page_task.split)
next
  case (PressCard p what)
  with assms press_card_books show ?thesis by simp
next
  case PressVerify
  with assms handleVerify_books show ?thesis by (auto intro!: in_panel_books)
qed (use assms in \<open>auto simp: in_panel_def books_ok_def\<close>)

lemma page_run_books:
  assumes "list_all ids_given es"
  shows "books_ok E (page_run E es)"
  using assms
proof (induction es rule: rev_induct)
  case Nil
  show ?case by (simp add: page_run_def page_start_def books_ok_def)
next
  case (snoc e es)
  have "page_run E (es @ [e]) = page_step E (page_run E es) e" by (simp add: page_run_def)
  moreover have "books_ok E (page_handle E e (page_run E es))" using snoc by (intro page_handle_books) simp_all
  ultimately show ?case by (simp add: page_step_def)
qed


text \<open>The account is created, its verification fails, and it is verified again.\<close>

definition sample_page_env :: page_env where
  "sample_page_env = \<lparr>pe_principal = ''123456789012'', pe_connect = Some ''aws'', pe_draw = (\<lambda>n. ''prv_aws_'' @ show_nat n)\<rparr>"

definition sample_capabilities :: capabilities where
  "sample_capabilities = \<lparr>cb_workspace = Some ''w'', cb_accounts = []\<rparr>"

definition sample_account :: "string \<Rightarrow> cloud_account" where
  "sample_account st = \<lparr>ac_id = ''a1'', ac_provider = ''aws'', ac_label = ''AWS account'', ac_status = st\<rparr>"

definition sample_connection :: "page_event list" where
  "sample_connection =
     [LoadArrived (Inr ([], Some sample_capabilities)), EditRole '' arn:aws:iam::123456789012:role/P'', PressVerify,
      CreateArrived (Inr (sample_account ''pending'')), VerifyArrived (Some OtherThrown), EditExternal ''prv'', PressVerify]"

definition sample_input :: create_account_input where
  "sample_input = account_input \<lparr>vp_external = ''prv_aws_0'', vp_role = ''arn:aws:iam::123456789012:role/P'', vp_label = ''AWS account''\<rparr>"

lemma sample_connection_log:
  "cp_log (page_run sample_page_env sample_connection) =
     [Listed []] @ AskedCreate sample_input #
       [Created (sample_account ''pending''), AskedVerify ''a1'' ''prv_aws_0'', AskedVerify ''a1'' ''prv'']"
  by code_simp


section \<open>Presses while the page is busy, and the panel after a removal\<close>

fun asks :: "page_entry \<Rightarrow> bool" where
  "asks (Created a) = False"
| "asks (Listed as) = False"
| "asks e = True"

lemma busy_card: "cp_busy s \<Longrightarrow> press_card E p what s = s"
  by (auto simp: press_card_def page_card_def ProviderCard_def Let_def split: card_action.split)

text \<open>While a request is under way nothing else is asked; only the verification follows its creation.\<close>

lemma busy_page_asks_nothing:
  assumes "cp_busy s" and "\<And>r. e \<noteq> CreateArrived r"
  shows "filter asks (cp_log (page_step E s e)) = filter asks (cp_log s)"
  using assms
  by (cases e) (auto simp: page_step_def in_panel_def busy_card load_done_def canVerify_def split: sum.splits)

text \<open>A failed verification leaves the panel open for another attempt, with what was entered and a message.\<close>

lemma failed_verification_keeps_form:
  assumes "cp_task s = Verifying" and "panel_mounted s" and "cp_auto s \<or> pe_connect E \<noteq> Some ''aws''"
  shows "page_step E s (VerifyArrived (Some e)) =
    s\<lparr>cp_panel_error := Some (errorMessage e), cp_busy := False, cp_task := NoTask\<rparr>"
  using assms
  by (auto simp: page_step_def verify_done_def verify_failed_def task_over_def page_rendered_def auto_connect_def panel_mounted_def
      operable_def page_workspace_def)

text \<open>
  A removal does not close the panel. After it the panel has no external identifier and blames the
  configuration of the platform; with white space typed before, its template cannot be rendered at all.
\<close>

definition removal_under_panel :: "string \<Rightarrow> cloud_page" where
  "removal_under_panel typed = page_run (sample_page_env\<lparr>pe_connect := None\<rparr>)
     [LoadArrived (Inr ([sample_account ''pending''], Some sample_capabilities)), PressCard ''aws'' DoVerify, EditExternal typed,
      PressCard ''aws'' DoDelete, DeleteArrived None, LoadArrived (Inr ([], Some sample_capabilities))]"

lemma removal_leaves_panel_open:
  "panel_mounted (removal_under_panel []) \<and>
   setup_alert ''123456789012'' ''w'' (cp_external (removal_under_panel [])) (aws_id (removal_under_panel [])) (cp_panel (removal_under_panel []))"
  by code_simp

lemma blank_identifier_breaks_panel:
  "panel_mounted (removal_under_panel '' '') \<and>
   panel_template ''123456789012'' ''w'' (cp_external (removal_under_panel '' '')) (aws_id (removal_under_panel '' ''))
     (cp_panel (removal_under_panel '' '')) = Inl ''An external id is required to render the template.''"
  by code_simp

end
