(* ===== verification/Question_Cards.thy ===== *)
theory Question_Cards
  imports Frontend_Workspaces Interactive
begin

text \<open>
  The cards that ask the user while a run waits: the clarification question with its inputs
  (\<open>frontend/components/ui/clarification-question.tsx\<close>, \<open>clarification-inputs.tsx\<close>,
  \<open>frontend/lib/clarification/types.ts\<close>) and the selector of a database engine
  (\<open>frontend/components/registry/components/database_engine_selector.tsx\<close>), each as a state machine over
  inputs, presses and the answer of its submission.
\<close>

section \<open>The clarification question\<close>

datatype input_type = AskText | AskSelect | AskMultiSelect | AskBoolean | AskConfirmation

record clarification =
  cq_id :: string
  cq_text :: string
  cq_type :: input_type
  cq_options :: "string list option"
  cq_required :: bool
  cq_field :: string

datatype answer = AText string | AChoices "string list" | AFlag bool

definition answer_json :: "answer \<Rightarrow> json" where
  "answer_json a = (case a of AText s \<Rightarrow> JStr s | AChoices xs \<Rightarrow> jstrs xs | AFlag b \<Rightarrow> JBool b)"

definition initialValue :: "clarification \<Rightarrow> answer option" where
  "initialValue q =
     (case cq_type q of
        AskMultiSelect \<Rightarrow> Some (AChoices [])
      | AskBoolean \<Rightarrow> None
      | AskConfirmation \<Rightarrow> None
      | _ \<Rightarrow> Some (AText []))"

definition isAnswerValid :: "answer option \<Rightarrow> clarification \<Rightarrow> bool" where
  "isAnswerValid v q =
     (case cq_type q of
        AskText \<Rightarrow> (case v of Some (AText s) \<Rightarrow> \<not> cq_required q \<or> trim s \<noteq> [] | _ \<Rightarrow> False)
      | AskSelect \<Rightarrow> (case v of Some (AText s) \<Rightarrow> \<not> cq_required q \<or> trim s \<noteq> [] | _ \<Rightarrow> False)
      | AskMultiSelect \<Rightarrow> (case v of Some (AChoices xs) \<Rightarrow> \<not> cq_required q \<or> length xs > 0 | _ \<Rightarrow> False)
      | AskBoolean \<Rightarrow> (case v of Some (AFlag b) \<Rightarrow> True | _ \<Rightarrow> False)
      | AskConfirmation \<Rightarrow> (case v of Some (AFlag b) \<Rightarrow> True | _ \<Rightarrow> False))"

datatype card_phase = PhaseDefault | PhaseSubmitting | PhaseSubmitted | PhaseError

text \<open>\<open>qc_sent\<close> logs the answers given to \<open>onSubmit\<close>, each under the field of the question.\<close>

record question_card =
  qc_value :: "answer option"
  qc_touched :: bool
  qc_phase :: card_phase
  qc_error :: string
  qc_last :: "answer option"
  qc_sent :: "(string \<times> answer) list"

definition question_start :: "clarification \<Rightarrow> question_card" where
  "question_start q =
     \<lparr>qc_value = initialValue q, qc_touched = False, qc_phase = PhaseDefault, qc_error = [], qc_last = None, qc_sent = []\<rparr>"

text \<open>\<open>submit\<close> up to its \<open>await\<close>; \<open>None\<close> is the missing argument, and \<open>null\<close>.\<close>

definition submit_answer :: "clarification \<Rightarrow> answer option \<Rightarrow> question_card \<Rightarrow> question_card" where
  "submit_answer q answer s =
     (let final = (case answer of Some a \<Rightarrow> Some a | None \<Rightarrow> qc_value s) in
      if \<not> isAnswerValid final q then s\<lparr>qc_touched := True\<rparr>
      else s\<lparr>qc_last := final, qc_phase := PhaseSubmitting, qc_sent := qc_sent s @ [(cq_field q, the final)]\<rparr>)"

text \<open>The outcome of a submission: a value, an error with its message, or something else that was thrown.\<close>

datatype submit_outcome = Resolved | Rejected string | RejectedOther

definition answer_settled :: "submit_outcome \<Rightarrow> question_card \<Rightarrow> question_card" where
  "answer_settled r s =
     (case r of
        Resolved \<Rightarrow> s\<lparr>qc_phase := PhaseSubmitted\<rparr>
      | Rejected m \<Rightarrow> s\<lparr>qc_error := m, qc_phase := PhaseError\<rparr>
      | RejectedOther \<Rightarrow> s\<lparr>qc_error := ''Failed to submit answer'', qc_phase := PhaseError\<rparr>)"

definition handleChange :: "answer \<Rightarrow> question_card \<Rightarrow> question_card" where
  "handleChange v s = s\<lparr>qc_value := Some v, qc_touched := True\<rparr>"

text \<open>The inputs. A select offers its options and a placeholder that cannot be chosen; a chip adds or removes its option.\<close>

definition text_value :: "question_card \<Rightarrow> string" where
  "text_value s = (case qc_value s of Some (AText t) \<Rightarrow> t | _ \<Rightarrow> [])"

definition selected_options :: "question_card \<Rightarrow> string list" where
  "selected_options s = (case qc_value s of Some (AChoices xs) \<Rightarrow> xs | _ \<Rightarrow> [])"

definition offered :: "clarification \<Rightarrow> string list" where
  "offered q = (case cq_options q of Some os \<Rightarrow> os | None \<Rightarrow> [])"

definition toggle_option :: "string \<Rightarrow> question_card \<Rightarrow> question_card" where
  "toggle_option x s =
     handleChange (AChoices (if x \<in> set (selected_options s) then filter (\<lambda>i. i \<noteq> x) (selected_options s)
                             else selected_options s @ [x])) s"

datatype question_event =
    EnterText string | ChooseOption string | PressChip string | PressFlag bool | LeaveInput
  | PressSubmit | PressConfirmation bool | PressRetryAnswer | Settle submit_outcome

text \<open>The inputs and buttons are there in the phases that show them, and disabled while an answer is submitted.\<close>

fun question_step :: "clarification \<Rightarrow> question_card \<Rightarrow> question_event \<Rightarrow> question_card" where
  "question_step q s (EnterText t) =
     (if qc_phase s = PhaseDefault \<and> cq_type q = AskText then handleChange (AText t) s else s)"
| "question_step q s (ChooseOption x) =
     (if qc_phase s = PhaseDefault \<and> cq_type q = AskSelect \<and> x \<in> set (offered q) then handleChange (AText x) s else s)"
| "question_step q s (PressChip x) =
     (if qc_phase s = PhaseDefault \<and> cq_type q = AskMultiSelect \<and> x \<in> set (offered q) then toggle_option x s else s)"
| "question_step q s (PressFlag b) =
     (if qc_phase s = PhaseDefault \<and> cq_type q = AskBoolean then handleChange (AFlag b) s else s)"
| "question_step q s LeaveInput =
     (if qc_phase s \<in> {PhaseDefault, PhaseSubmitting} \<and> cq_type q \<noteq> AskConfirmation then s\<lparr>qc_touched := True\<rparr> else s)"
| "question_step q s PressSubmit =
     (if qc_phase s = PhaseDefault \<and> cq_type q \<noteq> AskConfirmation \<and> isAnswerValid (qc_value s) q then submit_answer q None s else s)"
| "question_step q s (PressConfirmation b) =
     (if qc_phase s = PhaseDefault \<and> cq_type q = AskConfirmation then submit_answer q (Some (AFlag b)) s else s)"
| "question_step q s PressRetryAnswer = (if qc_phase s = PhaseError then submit_answer q (qc_last s) s else s)"
| "question_step q s (Settle r) = (if qc_phase s = PhaseSubmitting then answer_settled r s else s)"

definition question_run :: "clarification \<Rightarrow> question_event list \<Rightarrow> question_card" where
  "question_run q es = foldl (question_step q) (question_start q) es"

text \<open>\<open>showValidationError\<close>, and the body that goes to \<open>submitClarification\<close> with the caller's token.\<close>

definition showValidationError :: "clarification \<Rightarrow> question_card \<Rightarrow> bool" where
  "showValidationError q s \<longleftrightarrow> qc_touched s \<and> \<not> isAnswerValid (qc_value s) q"

definition answers_body :: "string \<times> answer \<Rightarrow> json" where
  "answers_body p = JObj [(''answers'', JObj [(fst p, answer_json (snd p))])]"

definition authenticated_submit ::
  "'s server \<Rightarrow> ('s, exn, string option) op \<Rightarrow> string \<Rightarrow> string \<Rightarrow> json \<Rightarrow> ('s, exn, unit) op" where
  "authenticated_submit S getToken runId questionId answers =
     bnd getToken (\<lambda>token.
     if \<not> given token then throw (OtherError ''Authentication required'')
     else submitClarification S runId questionId answers (the token))"

section \<open>The selector of a database engine\<close>

record db_engine =
  en_engine :: string
  en_name :: string
  en_version :: string
  en_supported :: bool
  en_services :: "string list"

record engine_data =
  ed_run :: string
  ed_provider :: string
  ed_recommended :: "string option"
  ed_selected :: "string option"
  ed_engines :: "db_engine list"

record engine_selection =
  es_engine :: string
  es_version :: "string option"
  es_custom :: bool

definition buildEngineSelectionAnswers :: "engine_selection \<Rightarrow> json" where
  "buildEngineSelectionAnswers x = JObj [(''answers'', JObj
     ([(''database_engine'', JStr (es_engine x))] @
      (if given (es_version x) then [(''database_engine_version'', JStr (the (es_version x)))] else []) @
      [(''database_engine_custom'', JBool (es_custom x))]))]"

definition engineSelectionQuestionId :: "engine_selection \<Rightarrow> string" where
  "engineSelectionQuestionId x =
     ''database_engine:'' @ es_engine x @ '':'' @ (case es_version x of Some v \<Rightarrow> v | None \<Rightarrow> [])"

definition CUSTOM_KEY :: string where
  "CUSTOM_KEY = ''__custom__''"

definition provider_name :: "string \<Rightarrow> string" where
  "provider_name p = (if p = ''aws'' then ''AWS'' else if p = ''azure'' then ''Azure'' else ''Google Cloud'')"

definition find_engine :: "engine_data \<Rightarrow> string option \<Rightarrow> db_engine option" where
  "find_engine d i = List.find (\<lambda>x. Some (en_engine x) = i) (ed_engines d)"

text \<open>An empty \<open>selectedEngine\<close> is none.\<close>

definition recommended_key :: "engine_data \<Rightarrow> string option" where
  "recommended_key d =
     (case find_engine d (ed_recommended d) of
        Some x \<Rightarrow> if en_supported x then Some (en_engine x) else None | None \<Rightarrow> None)"

definition initialSelection :: "engine_data \<Rightarrow> string option \<times> string" where
  "initialSelection d =
     (if given (ed_selected d)
      then (case find_engine d (ed_selected d) of
              None \<Rightarrow> (Some CUSTOM_KEY, the (ed_selected d))
            | Some x \<Rightarrow> if en_supported x then (Some (en_engine x), []) else (recommended_key d, []))
      else (recommended_key d, []))"

datatype engine_phase = EngineIdle | EnginePending | EngineError | EngineConfirmed

record selector =
  sl_key :: "string option"
  sl_custom :: string
  sl_touched :: bool
  sl_phase :: engine_phase
  sl_error :: string
  sl_last :: "engine_selection option"
  sl_in_flight :: bool
  sl_sent :: "engine_selection list"

definition selector_start :: "engine_data \<Rightarrow> selector" where
  "selector_start d =
     \<lparr>sl_key = fst (initialSelection d), sl_custom = snd (initialSelection d), sl_touched = False, sl_phase = EngineIdle,
      sl_error = [], sl_last = None, sl_in_flight = False, sl_sent = []\<rparr>"

definition locked :: "selector \<Rightarrow> bool" where
  "locked s \<longleftrightarrow> sl_phase s \<in> {EnginePending, EngineConfirmed}"

definition selector_options :: "engine_data \<Rightarrow> (string \<times> bool) list" where
  "selector_options d = map (\<lambda>x. (en_engine x, \<not> en_supported x)) (ed_engines d) @ [(CUSTOM_KEY, False)]"

definition enabledKeys :: "engine_data \<Rightarrow> string list" where
  "enabledKeys d = map fst (filter (\<lambda>x. \<not> snd x) (selector_options d))"

definition tabbableKey :: "engine_data \<Rightarrow> selector \<Rightarrow> string" where
  "tabbableKey d s = (case sl_key s of Some k \<Rightarrow> k | None \<Rightarrow> hd (enabledKeys d))"

definition customSelected :: "selector \<Rightarrow> bool" where
  "customSelected s \<longleftrightarrow> sl_key s = Some CUSTOM_KEY"

definition customInvalid :: "selector \<Rightarrow> bool" where
  "customInvalid s \<longleftrightarrow> customSelected s \<and> trim (sl_custom s) = []"

definition showCustomError :: "selector \<Rightarrow> bool" where
  "showCustomError s \<longleftrightarrow> customInvalid s \<and> sl_touched s \<and> \<not> locked s"

definition currentSelection :: "engine_data \<Rightarrow> selector \<Rightarrow> engine_selection option" where
  "currentSelection d s =
     (if customSelected s
      then (if customInvalid s then None else Some \<lparr>es_engine = trim (sl_custom s), es_version = None, es_custom = True\<rparr>)
      else (case find_engine d (sl_key s) of
              None \<Rightarrow> None
            | Some x \<Rightarrow> if \<not> en_supported x then None
                        else Some \<lparr>es_engine = en_engine x, es_version = Some (en_version x), es_custom = False\<rparr>))"

definition choose_option :: "string \<Rightarrow> selector \<Rightarrow> selector" where
  "choose_option key s =
     (if locked s then s
      else s\<lparr>sl_key := Some key, sl_phase := (if sl_phase s = EngineError then EngineIdle else sl_phase s)\<rparr>)"

datatype arrow = ArrowNext | ArrowPrevious | KeyHome | KeyEnd

text \<open>\<open>indexOf\<close> is minus one for a key that is not there.\<close>

definition index_of :: "string list \<Rightarrow> string \<Rightarrow> int" where
  "index_of keys k = (if k \<in> set keys then int (length (takeWhile (\<lambda>x. x \<noteq> k) keys)) else - 1)"

definition next_index :: "string list \<Rightarrow> arrow \<Rightarrow> string \<Rightarrow> int" where
  "next_index keys a k =
     (case a of
        ArrowNext \<Rightarrow> (index_of keys k + 1) mod int (length keys)
      | ArrowPrevious \<Rightarrow> (index_of keys k - 1 + int (length keys)) mod int (length keys)
      | KeyHome \<Rightarrow> 0
      | KeyEnd \<Rightarrow> int (length keys) - 1)"

definition handleKeyDown :: "engine_data \<Rightarrow> arrow \<Rightarrow> string \<Rightarrow> selector \<Rightarrow> selector" where
  "handleKeyDown d a k s =
     (if locked s then s
      else (let i = next_index (enabledKeys d) a k in
            if 0 \<le> i \<and> i < int (length (enabledKeys d)) then choose_option (enabledKeys d ! nat i) s else s))"

definition submit_selection :: "engine_selection option \<Rightarrow> selector \<Rightarrow> selector" where
  "submit_selection x s =
     (if sl_in_flight s then s
      else case x of
        None \<Rightarrow> s\<lparr>sl_touched := True\<rparr>
      | Some c \<Rightarrow> s\<lparr>sl_in_flight := True, sl_last := Some c, sl_phase := EnginePending, sl_sent := sl_sent s @ [c]\<rparr>)"

definition selection_settled :: "submit_outcome \<Rightarrow> selector \<Rightarrow> selector" where
  "selection_settled r s =
     (case r of
        Resolved \<Rightarrow> s\<lparr>sl_phase := EngineConfirmed\<rparr>
      | Rejected m \<Rightarrow> s\<lparr>sl_error := m, sl_phase := EngineError\<rparr>
      | RejectedOther \<Rightarrow> s\<lparr>sl_error := ''Failed to save the engine choice'', sl_phase := EngineError\<rparr>)\<lparr>sl_in_flight := False\<rparr>"

datatype selector_event =
    ClickOption string | PressKey arrow string | TypeCustom string | LeaveCustom
  | PressConfirmEngine | PressRetryEngine | SettleEngine submit_outcome

text \<open>The radio button of an option that is disabled has no handlers; the custom input is there while it is selected.\<close>

fun selector_step :: "engine_data \<Rightarrow> selector \<Rightarrow> selector_event \<Rightarrow> selector" where
  "selector_step d s (ClickOption k) = (if k \<in> set (enabledKeys d) then choose_option k s else s)"
| "selector_step d s (PressKey a k) = (if k \<in> set (enabledKeys d) then handleKeyDown d a k s else s)"
| "selector_step d s (TypeCustom t) = (if customSelected s \<and> \<not> locked s then s\<lparr>sl_custom := t\<rparr> else s)"
| "selector_step d s LeaveCustom = (if customSelected s then s\<lparr>sl_touched := True\<rparr> else s)"
| "selector_step d s PressConfirmEngine =
     (if sl_phase s \<in> {EnginePending, EngineConfirmed} \<or> sl_key s = None then s else submit_selection (currentSelection d s) s)"
| "selector_step d s PressRetryEngine = (if sl_phase s = EngineError then submit_selection (sl_last s) s else s)"
| "selector_step d s (SettleEngine r) = (if sl_phase s = EnginePending then selection_settled r s else s)"

definition selector_run :: "engine_data \<Rightarrow> selector_event list \<Rightarrow> selector" where
  "selector_run d es = foldl (selector_step d) (selector_start d) es"

definition confirmedLabel :: "engine_data \<Rightarrow> engine_selection \<Rightarrow> string" where
  "confirmedLabel d x =
     (if es_custom x then es_engine x @ '' (custom)''
      else (case find_engine d (Some (es_engine x)) of Some e \<Rightarrow> en_name e | None \<Rightarrow> es_engine x) @ '' v'' @
           (case es_version x of Some v \<Rightarrow> v | None \<Rightarrow> ''undefined''))"

text \<open>What the radio button of an engine says: its title, its services unless it is disabled, and its pills.\<close>

definition engine_option :: "engine_data \<Rightarrow> selector \<Rightarrow> db_engine \<Rightarrow> string list \<times> string option \<times> string list" where
  "engine_option d s e =
     ([en_name e, CHR ''v'' # en_version e],
      (if \<not> en_supported e then None
       else Some (if length (en_services e) > 0 then join '', '' (en_services e)
                  else ''No managed service listed for '' @ provider_name (ed_provider d))),
      (if \<not> en_supported e then [''Not supported on '' @ provider_name (ed_provider d)] else []) @
      (if sl_key s = Some (en_engine e) then [''Selected''] else []) @
      (if Some (en_engine e) = ed_recommended d then [''Recommended''] else []) @
      (if Some (en_engine e) = ed_selected d then [''Current''] else []))"

text \<open>\<open>onSelect\<close> of the registered component.\<close>

definition select_engine :: "'s server \<Rightarrow> ('s, exn, string option) op \<Rightarrow> engine_data \<Rightarrow> engine_selection \<Rightarrow> ('s, exn, unit) op" where
  "select_engine S getToken d x =
     authenticated_submit S getToken (ed_run d) (engineSelectionQuestionId x) (buildEngineSelectionAnswers x)"

section \<open>Answers\<close>

text \<open>What may be sent for a question.\<close>

definition good_answer :: "clarification \<Rightarrow> string \<times> answer \<Rightarrow> bool" where
  "good_answer q p \<longleftrightarrow> fst p = cq_field q \<and>
     (case (cq_type q, snd p) of
        (AskText, AText s) \<Rightarrow> cq_required q \<longrightarrow> \<not> list_all is_ws s
      | (AskSelect, AText s) \<Rightarrow> (cq_required q \<longrightarrow> \<not> list_all is_ws s) \<and> (s = [] \<or> s \<in> set (offered q))
      | (AskMultiSelect, AChoices xs) \<Rightarrow> (cq_required q \<longrightarrow> xs \<noteq> []) \<and> distinct xs \<and> set xs \<subseteq> set (offered q)
      | (AskBoolean, AFlag b) \<Rightarrow> True
      | (AskConfirmation, AFlag b) \<Rightarrow> True
      | _ \<Rightarrow> False)"

lemma trim_blank: "trim s = [] \<longleftrightarrow> list_all is_ws s"
proof -
  have "trim s = [] \<longleftrightarrow> list_all is_ws (dropWhile is_ws s)"
    by (simp add: trim_def list_all_iff)
  also have "\<dots> \<longleftrightarrow> list_all is_ws s" by (induction s) simp_all
  finally show ?thesis .
qed

definition value_ok :: "clarification \<Rightarrow> answer option \<Rightarrow> bool" where
  "value_ok q v \<longleftrightarrow>
     (case (cq_type q, v) of
        (AskSelect, Some (AText s)) \<Rightarrow> s = [] \<or> s \<in> set (offered q)
      | (AskMultiSelect, Some (AChoices xs)) \<Rightarrow> distinct xs \<and> set xs \<subseteq> set (offered q)
      | _ \<Rightarrow> True)"

lemma value_ok_plain: "cq_type q \<notin> {AskSelect, AskMultiSelect} \<Longrightarrow> value_ok q v"
  by (cases "cq_type q") (simp_all add: value_ok_def)

lemma value_ok_select: "cq_type q = AskSelect \<Longrightarrow> x \<in> set (offered q) \<Longrightarrow> value_ok q (Some (AText x))"
  by (simp add: value_ok_def)

text \<open>Nothing is sent by default; later the last answer is what was sent, and it is sent again.\<close>

definition question_ok :: "clarification \<Rightarrow> question_card \<Rightarrow> bool" where
  "question_ok q s \<longleftrightarrow> value_ok q (qc_value s) \<and>
     (case qc_phase s of
        PhaseDefault \<Rightarrow> qc_sent s = []
      | _ \<Rightarrow> \<exists>a. qc_last s = Some a \<and> good_answer q (cq_field q, a) \<and> set (qc_sent s) = {(cq_field q, a)})"

lemma good_answer_value: "good_answer q (cq_field q, a) \<longleftrightarrow> isAnswerValid (Some a) q \<and> value_ok q (Some a)"
  by (cases "cq_type q"; cases a) (auto simp: good_answer_def value_ok_def isAnswerValid_def trim_blank)

lemma toggle_option_ok: "value_ok q (qc_value s) \<Longrightarrow> x \<in> set (offered q) \<Longrightarrow> cq_type q = AskMultiSelect \<Longrightarrow> value_ok q (qc_value (toggle_option x s))"
  by (auto simp: toggle_option_def handleChange_def value_ok_def selected_options_def split: option.splits answer.splits)

lemma submit_answer_ok:
  assumes "value_ok q (qc_value s)" and "qc_phase s = PhaseDefault \<or> qc_phase s = PhaseError"
    and "question_ok q s" and "qc_phase s = PhaseError \<Longrightarrow> answer = qc_last s"
    and "answer \<noteq> None \<Longrightarrow> value_ok q answer"
  shows "question_ok q (submit_answer q answer s) \<and>
    (\<exists>new. qc_sent (submit_answer q answer s) = qc_sent s @ new \<and> list_all (good_answer q) new)"
proof -
  obtain final where final: "(case answer of Some a \<Rightarrow> Some a | None \<Rightarrow> qc_value s) = final" by blast
  then have v: "value_ok q final" using assms(1,5) by (cases answer) auto
  show ?thesis
  proof (cases "isAnswerValid final q")
    case False
    then show ?thesis using assms(3) by (auto simp: submit_answer_def final question_ok_def split: card_phase.splits)
  next
    case True
    then obtain a where a: "final = Some a" by (cases final) (auto simp: isAnswerValid_def split: input_type.splits)
    then have g: "good_answer q (cq_field q, a)" using True v by (simp add: good_answer_value)
    moreover have "qc_phase s = PhaseError \<Longrightarrow> qc_last s = Some a"
      using final a assms(3,4) by (auto simp: question_ok_def)
    ultimately show ?thesis using assms(2,3) True a
      by (auto simp: submit_answer_def final question_ok_def)
  qed
qed

interpretation clarify: repeating "question_step q" "question_ok q" qc_sent "good_answer q" for q
proof
  fix s e assume ok: "question_ok q s"
  have "question_ok q (question_step q s e) \<and> (\<exists>new. qc_sent (question_step q s e) = qc_sent s @ new \<and> list_all (good_answer q) new)"
  proof (cases e)
    case PressSubmit
    with ok submit_answer_ok [of q s None] show ?thesis by (auto simp: question_ok_def)
  next
    case (PressConfirmation b)
    with ok submit_answer_ok [of q s "Some (AFlag b)"] show ?thesis by (auto simp: question_ok_def value_ok_def)
  next
    case PressRetryAnswer
    with ok submit_answer_ok [of q s "qc_last s"] show ?thesis by (auto simp: question_ok_def good_answer_value)
  next
    case (PressChip x)
    with ok toggle_option_ok [of q s x] show ?thesis
      by (auto simp: question_ok_def toggle_option_def handleChange_def)
  next
    case (Settle r)
    with ok show ?thesis by (auto simp: question_ok_def answer_settled_def split: submit_outcome.splits)
  qed (use ok in \<open>auto simp: question_ok_def handleChange_def value_ok_plain value_ok_select split: card_phase.splits\<close>)
  then show "question_ok q (question_step q s e)"
    and "\<exists>new. qc_sent (question_step q s e) = qc_sent s @ new \<and> list_all (good_answer q) new" by blast+
next
  fix s r r' assume "question_ok q s" "r \<in> set (qc_sent s)" "r' \<in> set (qc_sent s)"
  then show "r = r'" by (auto simp: question_ok_def split: card_phase.splits)
qed


lemma question_start_ok: "question_ok q (question_start q)"
  by (simp add: question_ok_def question_start_def value_ok_def initialValue_def split: input_type.split)

text \<open>
  A question gets one answer. Whatever is entered and pressed in which order, and however often the
  submission fails, everything a card sends is one and the same answer under the question's field, so
  that one idempotency key per question is enough; and the answer is of the question's type, not blank where
  one is required, and for a choice it is one of the options, or distinct ones of them.
\<close>

theorem question_sends_one_valid_answer:
  assumes "r \<in> set (qc_sent (question_run q es))" and "r' \<in> set (qc_sent (question_run q es))"
  shows "r = r' \<and> good_answer q r"
proof
  show "r = r'"
    using clarify.run_repeats [OF question_start_ok] assms unfolding question_run_def by blast
  have "list_all (good_answer q) (qc_sent (question_run q es))"
    unfolding question_run_def using question_start_ok by (rule clarify.run_good) (simp add: question_start_def)
  then show "good_answer q r" using assms(1) by (auto simp: list_all_iff)
qed

definition sample_question :: clarification where
  "sample_question = \<lparr>cq_id = ''q1'', cq_text = ''Which regions?'', cq_type = AskMultiSelect,
     cq_options = Some [''eu'', ''us'', ''ap''], cq_required = True, cq_field = ''regions''\<rparr>"

definition sample_answering :: "question_event list" where
  "sample_answering = [PressSubmit, PressChip ''us'', PressChip ''eu'', PressChip ''us'', PressChip ''xx'', PressSubmit,
     Settle (Rejected ''offline''), PressChip ''ap'', PressRetryAnswer, Settle Resolved]"

lemma sample_answering_sent:
  "qc_sent (question_run sample_question sample_answering) = replicate 2 (''regions'', AChoices [''eu''])"
  by code_simp

theorem question_sends_one_valid_answer_witness:
  "good_answer sample_question (''regions'', AChoices [''eu''])"
  using question_sends_one_valid_answer [of _ sample_question sample_answering] sample_answering_sent by simp

section \<open>Choices of an engine\<close>

definition good_choice :: "engine_data \<Rightarrow> engine_selection \<Rightarrow> bool" where
  "good_choice d x \<longleftrightarrow>
     (if es_custom x then es_version x = None \<and> es_engine x \<noteq> []
      else \<exists>e\<in>set (ed_engines d). en_supported e \<and> es_engine x = en_engine e \<and> es_version x = Some (en_version e))"

definition selector_ok :: "engine_data \<Rightarrow> selector \<Rightarrow> bool" where
  "selector_ok d s \<longleftrightarrow> (\<forall>x. sl_last s = Some x \<longrightarrow> good_choice d x) \<and> (sl_in_flight s \<longleftrightarrow> sl_phase s = EnginePending)"

lemma currentSelection_good: "currentSelection d s = Some x \<Longrightarrow> good_choice d x"
  by (auto simp: currentSelection_def good_choice_def customInvalid_def find_engine_def find_Some_iff split: if_splits option.splits)

lemma submit_selection_ok:
  assumes "selector_ok d s" and "\<And>x. c = Some x \<Longrightarrow> good_choice d x"
  shows "selector_ok d (submit_selection c s) \<and> (\<exists>new. sl_sent (submit_selection c s) = sl_sent s @ new \<and> list_all (good_choice d) new)"
  using assms by (cases c) (auto simp: submit_selection_def selector_ok_def)

lemma choose_option_ok [simp]:
  "selector_ok d s \<Longrightarrow> selector_ok d (choose_option k s)" "sl_sent (choose_option k s) = sl_sent s"
  by (auto simp: choose_option_def selector_ok_def locked_def)

interpretation engines: interactive "selector_step d" "selector_ok d" sl_sent "good_choice d" for d
proof
  fix s e assume ok: "selector_ok d s"
  have "selector_ok d (selector_step d s e) \<and> (\<exists>new. sl_sent (selector_step d s e) = sl_sent s @ new \<and> list_all (good_choice d) new)"
  proof (cases e)
    case PressConfirmEngine
    with submit_selection_ok [OF ok, of "currentSelection d s"] ok
    show ?thesis using currentSelection_good by auto
  next
    case PressRetryEngine
    with submit_selection_ok [OF ok, of "sl_last s"] ok show ?thesis by (auto simp: selector_ok_def)
  next
    case (SettleEngine r)
    with ok show ?thesis by (auto simp: selector_ok_def selection_settled_def split: submit_outcome.splits)
  qed (use ok in \<open>auto simp: handleKeyDown_def Let_def, (auto simp: selector_ok_def)?\<close>)
  then show "selector_ok d (selector_step d s e)"
    and "\<exists>new. sl_sent (selector_step d s e) = sl_sent s @ new \<and> list_all (good_choice d) new" by blast+
qed


lemma engine_keys_apart:
  assumes "CHR '':'' \<notin> set e" "CHR '':'' \<notin> set v" "CHR '':'' \<notin> set e'" "CHR '':'' \<notin> set v'"
    and "e @ CHR '':'' # v = e' @ CHR '':'' # v'"
  shows "e = e' \<and> v = v'"
  using append_Cons_eq_iff [of "CHR '':''" e v e' v'] assms by blast

text \<open>The key of a custom engine ends in a colon, that of another does not.\<close>

lemma key_of_custom:
  assumes "good_choice d x"
    and "\<forall>e\<in>set (ed_engines d). CHR '':'' \<notin> set (en_engine e) \<and> CHR '':'' \<notin> set (en_version e) \<and> en_version e \<noteq> []"
  shows "last (engineSelectionQuestionId x) = CHR '':'' \<longleftrightarrow> es_custom x"
proof (cases "es_custom x")
  case True
  with assms(1) show ?thesis by (simp add: good_choice_def engineSelectionQuestionId_def)
next
  case False
  then obtain e where e: "e \<in> set (ed_engines d)" "es_version x = Some (en_version e)"
    using assms(1) by (auto simp: good_choice_def)
  then have "en_version e \<noteq> []" "last (en_version e) \<noteq> CHR '':''" using assms(2) last_in_set by metis+
  with False e show ?thesis by (simp add: engineSelectionQuestionId_def)
qed

text \<open>
  A key names one choice. In every run all that is sent is an engine the platform supports, at its
  version, or a custom engine with a name; and if engines and versions have no colon, two submissions under
  the same idempotency key are the same choice: a retry repeats its key, another choice gets another key.
\<close>

theorem engine_key_names_one_choice:
  assumes "x \<in> set (sl_sent (selector_run d es))" and "x' \<in> set (sl_sent (selector_run d es))"
    and "\<forall>e\<in>set (ed_engines d). CHR '':'' \<notin> set (en_engine e) \<and> CHR '':'' \<notin> set (en_version e) \<and> en_version e \<noteq> []"
    and "engineSelectionQuestionId x = engineSelectionQuestionId x'"
  shows "x = x' \<and> good_choice d x"
proof -
  have "list_all (good_choice d) (sl_sent (selector_run d es))"
    unfolding selector_run_def by (rule engines.run_good) (simp_all add: selector_ok_def selector_start_def)
  then have good: "good_choice d x" "good_choice d x'" using assms(1,2) by (auto simp: list_all_iff)
  have custom: "es_custom x = es_custom x'"
    using key_of_custom [OF good(1) assms(3)] key_of_custom [OF good(2) assms(3)] assms(4) by simp
  have "es_engine x = es_engine x' \<and> es_version x = es_version x'"
  proof (cases "es_custom x")
    case True
    with custom good assms(4) show ?thesis by (simp add: good_choice_def engineSelectionQuestionId_def)
  next
    case False
    obtain e e' where e: "e \<in> set (ed_engines d)" "es_engine x = en_engine e" "es_version x = Some (en_version e)"
      and e': "e' \<in> set (ed_engines d)" "es_engine x' = en_engine e'" "es_version x' = Some (en_version e')"
      using False custom good by (auto simp: good_choice_def)
    have "en_engine e = en_engine e' \<and> en_version e = en_version e'"
      by (rule engine_keys_apart) (use e e' assms(3,4) in \<open>auto simp: engineSelectionQuestionId_def\<close>)
    with e e' show ?thesis by simp
  qed
  with custom good(1) show ?thesis by simp
qed

definition sample_engines :: engine_data where
  "sample_engines = \<lparr>ed_run = ''r'', ed_provider = ''aws'', ed_recommended = Some ''mysql'', ed_selected = None,
     ed_engines = [\<lparr>en_engine = ''postgres'', en_name = ''PostgreSQL'', en_version = ''16'', en_supported = True, en_services = [''RDS'']\<rparr>,
       \<lparr>en_engine = ''mysql'', en_name = ''MySQL'', en_version = ''8'', en_supported = False, en_services = []\<rparr>]\<rparr>"

definition sample_choosing :: "selector_event list" where
  "sample_choosing = [PressConfirmEngine, ClickOption ''mysql'', PressKey ArrowPrevious ''postgres'', TypeCustom '' neon '',
     PressConfirmEngine, SettleEngine RejectedOther, PressKey ArrowNext ''__custom__'', PressConfirmEngine, SettleEngine Resolved]"

lemma sample_choosing_sent:
  "map (\<lambda>x. (es_engine x, es_version x)) (sl_sent (selector_run sample_engines sample_choosing)) =
     [(''neon'', None), (''postgres'', Some ''16'')]"
  by code_simp

theorem engine_key_names_one_choice_witness:
  "\<exists>x. sl_sent (selector_run sample_engines (take 5 sample_choosing)) = [x] \<and> good_choice sample_engines x"
proof -
  have "length (sl_sent (selector_run sample_engines (take 5 sample_choosing))) = Suc 0" by code_simp
  then obtain x where x: "sl_sent (selector_run sample_engines (take 5 sample_choosing)) = [x]"
    by (auto simp: length_Suc_conv)
  moreover have "good_choice sample_engines x"
    using engine_key_names_one_choice [of x sample_engines "take 5 sample_choosing" x] x by (simp add: sample_engines_def)
  ultimately show ?thesis by blast
qed

section \<open>Moving with the keys\<close>

lemma index_of_bounds:
  assumes "k \<in> set keys"
  shows "0 \<le> index_of keys k \<and> index_of keys k < int (length keys)"
proof -
  let ?t = "takeWhile (\<lambda>x. x \<noteq> k) keys"
  have "?t \<noteq> keys" using assms by (simp only: takeWhile_eq_all_conv) blast
  have "length ?t < length keys"
  proof (rule ccontr)
    assume "\<not> length ?t < length keys"
    then have "take (length ?t) keys = keys" by simp
    moreover have "?t = take (length ?t) keys" by (rule takeWhile_eq_take)
    ultimately have "?t = keys" by (rule trans [rotated])
    with \<open>?t \<noteq> keys\<close> show False ..
  qed
  with assms show ?thesis by (simp add: index_of_def)
qed

text \<open>The arrows stay within the keys that are enabled, and the way back leads back.\<close>

lemma next_index_bounds:
  assumes "k \<in> set keys"
  shows "0 \<le> next_index keys a k \<and> next_index keys a k < int (length keys)"
proof -
  have "0 < int (length keys)" using assms by (cases keys) auto
  then show ?thesis by (cases a) (simp_all add: next_index_def)
qed

lemma index_of_nth: "distinct keys \<Longrightarrow> i < length keys \<Longrightarrow> index_of keys (keys ! i) = int i"
proof (induction keys arbitrary: i)
  case (Cons x keys)
  then show ?case by (cases i) (auto simp: index_of_def)
qed simp

lemma arrow_back:
  assumes "distinct keys" and "k \<in> set keys"
  shows "keys ! nat (next_index keys ArrowPrevious (keys ! nat (next_index keys ArrowNext k))) = k"
proof -
  obtain i where i: "i < length keys" "k = keys ! i" using assms(2) by (auto simp: in_set_conv_nth)
  let ?n = "int (length keys)" and ?j = "next_index keys ArrowNext k"
  have "index_of keys (keys ! nat ?j) = ?j"
    using next_index_bounds [OF assms(2), of ArrowNext] index_of_nth [OF assms(1), of "nat ?j"] by (simp add: nat_less_iff)
  then have "next_index keys ArrowPrevious (keys ! nat ?j) = ((int i + 1) mod ?n - 1 + ?n) mod ?n"
    using index_of_nth [OF assms(1) i(1)] i(2) by (simp add: next_index_def)
  also have "\<dots> = int i mod ?n" by (simp add: mod_diff_left_eq)
  also have "\<dots> = int i" using i(1) by simp
  finally show ?thesis using i(2) by simp
qed

end
