(* ===== verification/Rego.thy ===== *)
theory Rego
  imports Js
begin

text \<open>
  The highlighter of policy sources (\<open>frontend/components/ui/rego-editor.tsx\<close>): the regular expression
  \<open>REGO_TOKEN\<close>, read off as a matcher at a position, and the loop that cuts a line into tokens.
\<close>

datatype token_class = CommentToken | StringToken | KeywordToken | NumberToken | PunctuationToken

type_synonym rego_token = "string \<times> token_class option"

definition rego_keywords :: "string list" where
  "rego_keywords = [''package'', ''import'', ''deny'', ''allow'', ''warn'', ''approval_required'', ''not'', ''if'', ''else'',
     ''some'', ''with'', ''as'', ''input'', ''true'', ''false'', ''null'', ''sprintf'']"

definition rego_punctuation :: "string list" where
  "rego_punctuation = [''=='', ''!='', ''<='', ''>='', '':='', ''='', ''{'', ''}'', ''('', '')'', ''['', '']'', '','', ''.'']"

definition word_char :: "char \<Rightarrow> bool" where
  "word_char c \<longleftrightarrow> is_alnum c \<or> c = CHR ''_''"

definition line_break :: "char \<Rightarrow> bool" where
  "line_break c \<longleftrightarrow> code_unit c = 10 \<or> code_unit c = 13"

text \<open>What follows the opening quote, up to and with the closing one.\<close>

fun string_rest :: "string \<Rightarrow> nat option" where
  "string_rest [] = None"
| "string_rest (c # s) =
     (if c = CHR 0x22 then Some 1
      else if c = CHR 0x5C
      then (case s of [] \<Rightarrow> None | d # t \<Rightarrow> if line_break d then None else map_option (\<lambda>n. n + 2) (string_rest t))
      else map_option (\<lambda>n. n + 1) (string_rest s))"

text \<open>A word boundary before a word character, and one after a word character.\<close>

definition starts_word :: "char option \<Rightarrow> bool" where
  "starts_word prev = (case prev of None \<Rightarrow> True | Some p \<Rightarrow> \<not> word_char p)"

definition ends_word :: "string \<Rightarrow> bool" where
  "ends_word s = (case s of [] \<Rightarrow> True | c # t \<Rightarrow> \<not> word_char c)"

definition keyword_length :: "string \<Rightarrow> nat option" where
  "keyword_length s =
     map_option length (List.find (\<lambda>k. starts_with k s \<and> ends_word (drop (length k) s)) rego_keywords)"

text \<open>Digits with a fraction if a word ends after it, or else without.\<close>

definition number_length :: "string \<Rightarrow> nat option" where
  "number_length s =
     (let d = takeWhile is_digit s; r = dropWhile is_digit s; f = takeWhile is_digit (drop 1 r) in
      if d = [] then None
      else if starts_with ''.'' r \<and> f \<noteq> [] \<and> ends_word (dropWhile is_digit (drop 1 r)) then Some (length d + 1 + length f)
      else if ends_word r then Some (length d) else None)"

definition punctuation_length :: "string \<Rightarrow> nat option" where
  "punctuation_length s = map_option length (List.find (\<lambda>p. starts_with p s) rego_punctuation)"

fun match_token :: "char option \<Rightarrow> string \<Rightarrow> (token_class \<times> nat) option" where
  "match_token prev [] = None"
| "match_token prev (c # s) =
     (if c = CHR ''#'' then Some (CommentToken, length (takeWhile (\<lambda>x. code_unit x \<noteq> 10) (c # s)))
      else if c = CHR 0x22 then map_option (\<lambda>n. (StringToken, n + 1)) (string_rest s)
      else case (if starts_word prev then keyword_length (c # s) else None) of
        Some n \<Rightarrow> Some (KeywordToken, n)
      | None \<Rightarrow>
          (case (if starts_word prev then number_length (c # s) else None) of
             Some n \<Rightarrow> Some (NumberToken, n)
           | None \<Rightarrow> map_option (\<lambda>n. (PunctuationToken, n)) (punctuation_length (c # s))))"

definition plain_token :: "string \<Rightarrow> rego_token list" where
  "plain_token s = (if s = [] then [] else [(s, None)])"

text \<open>A match is what its class says; in particular it is not empty.\<close>

lemma keyword_length_Some:
  assumes "keyword_length s = Some n"
  shows "take n s \<in> set rego_keywords"
proof -
  obtain k where k: "k \<in> set rego_keywords" "starts_with k s" "n = length k"
    using assms by (auto simp: keyword_length_def dest: find_SomeD)
  then show ?thesis by (simp add: starts_with_def)
qed

lemma punctuation_length_Some:
  assumes "punctuation_length s = Some n"
  shows "take n s \<in> set rego_punctuation"
proof -
  obtain k where k: "k \<in> set rego_punctuation" "starts_with k s" "n = length k"
    using assms by (auto simp: punctuation_length_def dest: find_SomeD)
  then show ?thesis by (simp add: starts_with_def)
qed

lemma no_empty_words: "[] \<notin> set rego_keywords" "[] \<notin> set rego_punctuation"
  by (simp_all add: rego_keywords_def rego_punctuation_def)

lemma number_length_pos: "number_length s = Some n \<Longrightarrow> 0 < n"
  by (auto simp: number_length_def Let_def split: if_splits)

lemma match_token_pos:
  assumes "match_token prev s = Some (k, n)"
  shows "0 < n"
proof (cases s)
  case Nil
  with assms show ?thesis by simp
next
  case (Cons c t)
  have "keyword_length s = Some n \<Longrightarrow> 0 < n" "punctuation_length s = Some n \<Longrightarrow> 0 < n"
    using keyword_length_Some [of s n] punctuation_length_Some [of s n] no_empty_words by (auto intro: gr0I)
  then show ?thesis using assms Cons number_length_pos [of s n]
    by (auto simp: code_unit_def split: if_splits option.splits)
qed

text \<open>The loop from a position on: the character before it and what was passed since the last token.\<close>

function rego_tokens :: "char option \<Rightarrow> string \<Rightarrow> string \<Rightarrow> rego_token list" where
  "rego_tokens prev plain [] = plain_token plain"
| "rego_tokens prev plain (c # s) =
     (case match_token prev (c # s) of
        None \<Rightarrow> rego_tokens (Some c) (plain @ [c]) s
      | Some (k, n) \<Rightarrow>
          plain_token plain @ (take n (c # s), Some k) # rego_tokens (Some (last (take n (c # s)))) [] (drop n (c # s)))"
  by pat_completeness auto

termination
  by (relation "measure (\<lambda>(prev, plain, s). length s)") (auto dest: match_token_pos simp del: match_token.simps)

definition tokenizeRego :: "string \<Rightarrow> rego_token list" where
  "tokenizeRego l = rego_tokens None [] l"

section \<open>Lines and tokens\<close>

lemma plain_token_text [simp]: "concat (map fst (plain_token s)) = s"
  by (simp add: plain_token_def)

lemma rego_tokens_text: "concat (map fst (rego_tokens prev plain s)) = plain @ s"
  by (induction prev plain s rule: rego_tokens.induct) (auto simp del: match_token.simps split: option.split)

lemma rego_tokens_nonempty: "(t, k) \<in> set (rego_tokens prev plain s) \<Longrightarrow> t \<noteq> []"
  by (induction prev plain s rule: rego_tokens.induct)
    (auto simp: plain_token_def simp del: match_token.simps dest: match_token_pos split: option.splits if_splits)

text \<open>What a token of a class looks like.\<close>

fun token_ok :: "rego_token \<Rightarrow> bool" where
  "token_ok (t, Some KeywordToken) \<longleftrightarrow> t \<in> set rego_keywords"
| "token_ok (t, Some PunctuationToken) \<longleftrightarrow> t \<in> set rego_punctuation"
| "token_ok (t, Some CommentToken) \<longleftrightarrow> hd t = CHR ''#''"
| "token_ok (t, Some StringToken) \<longleftrightarrow> hd t = CHR 0x22 \<and> last t = CHR 0x22 \<and> 2 \<le> length t"
| "token_ok (t, Some NumberToken) \<longleftrightarrow> is_digit (hd t) \<and> is_digit (last t)"
| "token_ok (t, None) \<longleftrightarrow> t \<noteq> []"

lemma string_rest_last: "string_rest s = Some n \<Longrightarrow> 0 < n \<and> n \<le> length s \<and> s ! (n - 1) = CHR 0x22"
  by (induction s arbitrary: n rule: string_rest.induct) (force split: if_splits list.splits)+

lemma string_token:
  assumes "string_rest t = Some n"
  shows "token_ok (take (n + 1) (CHR 0x22 # t), Some StringToken)"
proof -
  have n: "0 < n" "n \<le> length t" "t ! (n - 1) = CHR 0x22" using string_rest_last [OF assms] by blast+
  then have "take n t \<noteq> []" by auto
  with n have "last (take n t) = CHR 0x22" by (simp add: last_conv_nth)
  with n show ?thesis by (auto simp: last_ConsR)
qed

lemma number_token:
  assumes "number_length s = Some n"
  shows "token_ok (take n s, Some NumberToken)"
proof -
  obtain d r f where d: "d = takeWhile is_digit s" and r: "r = dropWhile is_digit s" and f: "f = takeWhile is_digit (drop 1 r)"
    by blast
  have s: "s = d @ r" and digits: "\<forall>c\<in>set d \<union> set f. is_digit c" unfolding d r f by (auto dest: set_takeWhileD)
  consider "d \<noteq> []" "n = length d" | "d \<noteq> []" "starts_with ''.'' r" "f \<noteq> []" "n = length d + 1 + length f"
    using assms by (auto simp: number_length_def Let_def d r f split: if_splits)
  then show ?thesis
  proof cases
    case 1
    with s digits show ?thesis by (simp add: last_in_set)
  next
    case 2
    then have "r = CHR ''.'' # drop 1 r" by (cases r) (simp_all add: starts_with_def)
    moreover have "drop 1 r = f @ dropWhile is_digit (drop 1 r)" unfolding f by simp
    ultimately have "s = (d @ CHR ''.'' # f) @ dropWhile is_digit (drop 1 r)" using s by simp
    then have "take n s = d @ CHR ''.'' # f" using 2(4) by simp
    with 2 digits show ?thesis by (simp add: last_in_set)
  qed
qed

lemma match_token_ok:
  assumes "match_token prev s = Some (k, n)"
  shows "token_ok (take n s, Some k)"
proof (cases s)
  case Nil
  with assms show ?thesis by simp
next
  case (Cons c t)
  consider "k = CommentToken" "c = CHR ''#''" | m where "k = StringToken" "c = CHR 0x22" "string_rest t = Some m" "n = m + 1"
    | "k = KeywordToken" "keyword_length s = Some n" | "k = NumberToken" "number_length s = Some n"
    | "k = PunctuationToken" "punctuation_length s = Some n"
    using assms Cons by (auto split: if_splits option.splits)
  then show ?thesis
  proof cases
    case 1
    with match_token_pos [OF assms] Cons show ?thesis by (cases n) auto
  next
    case 2
    with string_token Cons show ?thesis by simp
  qed (use keyword_length_Some number_token punctuation_length_Some in auto)
qed

lemma rego_tokens_ok: "t \<in> set (rego_tokens prev plain s) \<Longrightarrow> token_ok t"
proof (induction prev plain s rule: rego_tokens.induct)
  case (1 prev plain)
  then show ?case by (auto simp: plain_token_def split: if_splits)
next
  case (2 prev plain c s)
  show ?case
  proof (cases "match_token prev (c # s)")
    case None
    with 2 show ?thesis by simp
  next
    case (Some p)
    obtain k n where p: "match_token prev (c # s) = Some (k, n)" using Some by (cases p) simp
    with "2.prems" have "t \<in> set (plain_token plain) \<or> t = (take n (c # s), Some k) \<or>
        t \<in> set (rego_tokens (Some (last (take n (c # s)))) [] (drop n (c # s)))" by auto
    then show ?thesis using match_token_ok [OF p] "2.IH"(2) [OF p refl] by (auto simp: plain_token_def split: if_splits)
  qed
qed

text \<open>
  The highlighter only colours: the tokens of a line spell the line, none is empty, and a token is what
  its class says, a keyword of the language, a number from digit to digit, a string between quotes, or a comment.
\<close>

theorem tokens_spell_line:
  "concat (map fst (tokenizeRego l)) = l \<and> (\<forall>t\<in>set (tokenizeRego l). fst t \<noteq> [] \<and> token_ok t)"
  using rego_tokens_ok rego_tokens_nonempty by (force simp: tokenizeRego_def rego_tokens_text)

end
