(* ===== verification/Policy_Page.thy ===== *)
theory Policy_Page
  imports Rego Interactive
begin

text \<open>
  The page of policies: the packs it starts from (\<open>frontend/lib/policy/types.ts\<close>, \<open>mock-data.ts\<close>), the row
  of a rule with its parameters (\<open>frontend/components/ui/policy-rule-row.tsx\<close>), the editor of a rule's source
  (\<open>rego-editor.tsx\<close>) and the page that edits, saves and resets a draft of the packs
  (\<open>frontend/app/policy/page.tsx\<close>). Rows and editors keep a state of their own for as long as they are shown.
\<close>

section \<open>Packs\<close>

datatype severity = Deny | Warn | Approval

text \<open>The value of a parameter is of its type; a number that is not one is \<open>None\<close>.\<close>

datatype param_value = PText string | PNumber "rat option" | PChoices "string list" | PSwitch bool

record parameter =
  pa_key :: string
  pa_label :: string
  pa_value :: param_value
  pa_options :: "string list"
  pa_range :: "(rat \<times> rat \<times> rat) option"

record policy_rule =
  ru_key :: string
  ru_severity :: severity
  ru_description :: string
  ru_enabled :: bool
  ru_definition :: string
  ru_parameters :: "parameter list"
  ru_hint :: string
  ru_docs :: "string option"
  ru_rego :: string

record policy_pack =
  pk_id :: string
  pk_name :: string
  pk_version :: string
  pk_description :: string
  pk_enabled :: bool
  pk_count :: nat
  pk_rules :: "policy_rule list"

record draft_rule =
  dr_key :: string
  dr_enabled :: bool
  dr_parameters :: "parameter list"
  dr_rego :: string

record pack_draft =
  pd_id :: string
  pd_enabled :: bool
  pd_rules :: "draft_rule list"

definition source_text :: "string list \<Rightarrow> string" where
  "source_text ls = join [char_of (10 :: nat)] ls"

definition s3PublicAccessRego :: string where
  "s3PublicAccessRego = source_text
    [''# Base policy definition for aws_s3_bucket_public_access'',
     ''package provisr.aws.s3'',
     [],
     ''import data.provisr.utils.helpers'',
     [],
     ''# Exemption list mapped from UI parameters'',
     ''exempt_buckets := {'',
     ''    \"web-assets-prod\",'',
     ''    \"public-docs-repo\"'',
     ''}'',
     [],
     ''deny[msg] {'',
     ''    resource := input.resource.aws_s3_bucket[name]'',
     [],
     ''    # Check if bucket is in exempt list'',
     ''    not exempt_buckets[name]'',
     [],
     ''    # Evaluate public access block configuration'',
     ''    public_access_block := input.resource.aws_s3_bucket_public_access_block[name]'',
     [],
     ''    has_violation(public_access_block)'',
     [],
     ''    msg := sprintf(\"S3 bucket '%v' allows public access. All block_public_acls flags must be true.\", [name])'',
     ''}'',
     [],
     ''has_violation(block) {'',
     ''    block.block_public_acls == false'',
     ''} else {'',
     ''    block.block_public_policy == false'',
     ''}'']"

definition rule_aws_s3_bucket_public_access :: policy_rule where
  "rule_aws_s3_bucket_public_access = \<lparr>
    ru_key = ''aws_s3_bucket_public_access'', ru_severity = Deny,
    ru_description = ''Ensure all S3 buckets block public ACLs and bucket policies.'', ru_enabled = True,
    ru_definition = ''Denies provisioning when an S3 bucket has block_public_acls or block_public_policy set to false.'',
    ru_parameters =
     [\<lparr>pa_key = ''exempt_buckets'', pa_label = ''Exempted Buckets (comma separated)'', pa_value = PText ''web-assets-prod, public-docs-repo'',
       pa_options = [], pa_range = None\<rparr>,
      \<lparr>pa_key = ''action_on_violation'', pa_label = ''Action on Violation'', pa_value = PChoices [''deny''],
       pa_options = [''deny'', ''warn'', ''remediate''], pa_range = None\<rparr>],
    ru_hint = ''Update your Terraform or CloudFormation to include block_public_acls = true in the S3 bucket configuration block.'',
    ru_docs = Some ''https://docs.aws.amazon.com/AmazonS3/latest/userguide/access-control-block-public-access.html'',
    ru_rego = s3PublicAccessRego\<rparr>"

definition rule_k8s_container_resources_limits :: policy_rule where
  "rule_k8s_container_resources_limits = \<lparr>
    ru_key = ''k8s_container_resources_limits'', ru_severity = Warn,
    ru_description = ''Containers must have CPU and Memory limits defined.'', ru_enabled = True,
    ru_definition = ''Warns when a container resource declares limits for neither cpu nor memory.'',
    ru_parameters =
     [\<lparr>pa_key = ''min_cpu_millicores'', pa_label = ''Minimum CPU limit (millicores)'', pa_value = PNumber (Some 100),
       pa_options = [], pa_range = Some (10, 8000, 10)\<rparr>,
      \<lparr>pa_key = ''min_memory_mib'', pa_label = ''Minimum memory limit (MiB)'', pa_value = PNumber (Some 128),
       pa_options = [], pa_range = Some (32, 16384, 32)\<rparr>],
    ru_hint = ''Add resources.limits.cpu and resources.limits.memory to the container spec in your deployment manifest.'',
    ru_docs = Some ''https://kubernetes.io/docs/concepts/configuration/manage-resources-containers/'',
    ru_rego = source_text
      [''package provisr.k8s.containers'',
       [],
       ''warn[msg] {'',
       ''    container := input.resource.kubernetes_deployment[name].spec.template.spec.containers[_]'',
       ''    limits := container.resources.limits'',
       ''    not limits.cpu'',
       ''    not limits.memory'',
       ''    msg := sprintf(\"Container '%v' has no cpu/memory limits.\", [container.name])'',
       ''}'']\<rparr>"

definition rule_azure_iam_custom_role_creation :: policy_rule where
  "rule_azure_iam_custom_role_creation = \<lparr>
    ru_key = ''azure_iam_custom_role_creation'', ru_severity = Approval,
    ru_description = ''Creation of custom IAM roles requires SecOps sign-off.'', ru_enabled = True,
    ru_definition = ''Requires an approval gate before any azurerm_role_definition resource is created.'',
    ru_parameters =
     [\<lparr>pa_key = ''require_approval'', pa_label = ''Approval workflow required'', pa_value = PSwitch True,
       pa_options = [], pa_range = None\<rparr>],
    ru_hint = ''Route custom role definitions through the approval queue; use built-in roles where possible.'',
    ru_docs = Some ''https://learn.microsoft.com/en-us/azure/role-based-access-control/custom-roles'',
    ru_rego = source_text
      [''package provisr.azure.iam'',
       [],
       ''approval_required[resource] {'',
       ''    resource := input.resource.azurerm_role_definition[name]'',
       ''}'']\<rparr>"

definition rule_sandbox_resource_expiry :: policy_rule where
  "rule_sandbox_resource_expiry = \<lparr>
    ru_key = ''sandbox_resource_expiry'', ru_severity = Warn,
    ru_description = ''Resources in sandbox environments should carry an expiry tag.'', ru_enabled = True,
    ru_definition = ''Warns when a sandbox resource has no scheduled-expiry tag.'',
    ru_parameters =
     [\<lparr>pa_key = ''expiry_tag_key'', pa_label = ''Expiry tag key'', pa_value = PText ''scheduled-expiry'',
       pa_options = [], pa_range = None\<rparr>],
    ru_hint = ''Add a scheduled-expiry tag to the resource so it can be reclaimed automatically.'',
    ru_docs = None,
    ru_rego = source_text
      [''package provisr.sandbox.expiry'',
       [],
       ''warn[msg] {'',
       ''    resource := input.resource[_][name]'',
       ''    resource.tags.env == \"sandbox\"'',
       ''    not resource.tags[\"scheduled-expiry\"]'',
       ''    msg := sprintf(\"Resource '%v' has no scheduled-expiry tag.\", [name])'',
       ''}'']\<rparr>"

definition rule_hipaa_encryption_at_rest :: policy_rule where
  "rule_hipaa_encryption_at_rest = \<lparr>
    ru_key = ''hipaa_encryption_at_rest'', ru_severity = Deny,
    ru_description = ''All databases must use encryption at rest with customer-managed keys.'', ru_enabled = True,
    ru_definition = ''Denies database provisioning without encryption at rest and a KMS key reference.'',
    ru_parameters =
     [\<lparr>pa_key = ''allowed_key_types'', pa_label = ''Allowed KMS key types'', pa_value = PChoices [''customer-managed''],
       pa_options = [''customer-managed'', ''aws-managed''], pa_range = None\<rparr>,
      \<lparr>pa_key = ''enforce_backup_retention'', pa_label = ''Enforce backup retention'', pa_value = PSwitch True,
       pa_options = [], pa_range = None\<rparr>],
    ru_hint = ''Set encryption = true and kms_key_id on the database resource, and rotate keys on a schedule.'',
    ru_docs = None,
    ru_rego = source_text
      [''package provisr.hipaa.encryption'',
       [],
       ''deny[msg] {'',
       ''    db := input.resource.aws_rds_cluster[name]'',
       ''    not db.storage_encrypted'',
       ''    msg := sprintf(\"Database '%v' must be encrypted at rest.\", [name])'',
       ''}'']\<rparr>"

definition policyPacks :: "policy_pack list" where
  "policyPacks =
    [\<lparr>pk_id = ''secure-baseline'', pk_name = ''Secure Baseline'', pk_version = ''v2.4.1'',
       pk_description = ''Core security posture requirements based on CIS benchmarks for AWS, Azure, and GCP.'',
       pk_enabled = True, pk_count = 42, pk_rules = [rule_aws_s3_bucket_public_access, rule_k8s_container_resources_limits, rule_azure_iam_custom_role_creation]\<rparr>,
     \<lparr>pk_id = ''startup-velocity'', pk_name = ''Startup Velocity'', pk_version = ''v1.1.0'',
       pk_description = ''Relaxed compliance set optimizing for rapid deployment in non-production sandbox environments.'',
       pk_enabled = False, pk_count = 18, pk_rules = [rule_sandbox_resource_expiry]\<rparr>,
     \<lparr>pk_id = ''regulated'', pk_name = ''Regulated Prod'', pk_version = ''v4.0.2'',
       pk_description = ''Strict enforcement of HIPAA and SOC2 compliance constraints with automated approvals required.'',
       pk_enabled = False, pk_count = 156, pk_rules = [rule_hipaa_encryption_at_rest]\<rparr>]"

section \<open>The page\<close>

datatype policy_view = PolicyLoading | PolicyDefault | PolicyEmpty

datatype view_mode = VisualView | RegoView

datatype tone = ToneSuccess | ToneError

datatype policy_task = NoPolicyTask | SavingPack | ResettingPack string string

text \<open>
  The state of a row: whether it is expanded, its parameters, and the text in its editor while that is
  editing. \<open>pp_rows\<close> holds the rows that are shown, \<open>pp_edit\<close> the text of the editor in the other view, and
  \<open>pp_saved\<close> logs the drafts given to \<open>savePolicyDraft\<close>.
\<close>

record rule_row =
  rw_key :: string
  rw_expanded :: bool
  rw_parameters :: "parameter list"
  rw_edit :: "string option"

record policy_page =
  pp_draft :: "policy_pack list"
  pp_view :: policy_view
  pp_selected :: "string option"
  pp_mode :: view_mode
  pp_expanded :: "string option"
  pp_confirm :: bool
  pp_saving :: bool
  pp_error :: "string option"
  pp_toast :: "(tone \<times> string) option"
  pp_task :: policy_task
  pp_rows :: "rule_row list"
  pp_edit :: "string option"
  pp_saved :: "pack_draft list"

definition policy_start :: policy_page where
  "policy_start =
     \<lparr>pp_draft = policyPacks, pp_view = PolicyLoading, pp_selected = None, pp_mode = VisualView, pp_expanded = None,
      pp_confirm = False, pp_saving = False, pp_error = None, pp_toast = None, pp_task = NoPolicyTask, pp_rows = [],
      pp_edit = None, pp_saved = []\<rparr>"

definition selectedPack :: "policy_page \<Rightarrow> policy_pack option" where
  "selectedPack s = List.find (\<lambda>p. Some (pk_id p) = pp_selected s) (pp_draft s)"

definition updatePack :: "string \<Rightarrow> (policy_pack \<Rightarrow> policy_pack) \<Rightarrow> policy_page \<Rightarrow> policy_page" where
  "updatePack i f s = s\<lparr>pp_draft := map (\<lambda>p. if pk_id p = i then f p else p) (pp_draft s)\<rparr>"

definition update_rule :: "string \<Rightarrow> (policy_rule \<Rightarrow> policy_rule) \<Rightarrow> policy_pack \<Rightarrow> policy_pack" where
  "update_rule k f p = p\<lparr>pk_rules := map (\<lambda>r. if ru_key r = k then f r else r) (pk_rules p)\<rparr>"

text \<open>An update of a rule of the selected pack.\<close>

definition update_selected :: "string \<Rightarrow> (policy_rule \<Rightarrow> policy_rule) \<Rightarrow> policy_page \<Rightarrow> policy_page" where
  "update_selected k f s = (case selectedPack s of None \<Rightarrow> s | Some p \<Rightarrow> updatePack (pk_id p) (update_rule k f) s)"

definition selectPack :: "string \<Rightarrow> policy_page \<Rightarrow> policy_page" where
  "selectPack i s = s\<lparr>pp_selected := Some i, pp_confirm := False, pp_expanded := None, pp_mode := VisualView\<rparr>"

definition regoRule :: "policy_page \<Rightarrow> policy_rule option" where
  "regoRule s =
     (case selectedPack s of
        None \<Rightarrow> None
      | Some p \<Rightarrow> (case List.find (\<lambda>r. Some (ru_key r) = pp_expanded s) (pk_rules p) of
            Some r \<Rightarrow> Some r | None \<Rightarrow> (case pk_rules p of [] \<Rightarrow> None | r # rs \<Rightarrow> Some r)))"

definition draft_payload :: "policy_pack \<Rightarrow> pack_draft" where
  "draft_payload p =
     \<lparr>pd_id = pk_id p, pd_enabled = pk_enabled p,
      pd_rules = map (\<lambda>r. \<lparr>dr_key = ru_key r, dr_enabled = ru_enabled r, dr_parameters = ru_parameters r, dr_rego = ru_rego r\<rparr>)
        (pk_rules p)\<rparr>"

text \<open>\<open>handleSave\<close> and \<open>handleReset\<close> up to their \<open>await\<close>; the buttons are disabled while one is under way.\<close>

definition handleSave :: "policy_page \<Rightarrow> policy_page" where
  "handleSave s =
     (case selectedPack s of
        None \<Rightarrow> s
      | Some p \<Rightarrow> s\<lparr>pp_saving := True, pp_error := None, pp_task := SavingPack, pp_saved := pp_saved s @ [draft_payload p]\<rparr>)"

definition handleReset :: "policy_page \<Rightarrow> policy_page" where
  "handleReset s =
     (case selectedPack s of
        None \<Rightarrow> s
      | Some p \<Rightarrow> if \<not> pp_confirm s then s\<lparr>pp_confirm := True\<rparr>
                  else s\<lparr>pp_saving := True, pp_error := None, pp_task := ResettingPack (pk_id p) (pk_name p)\<rparr>)"

text \<open>What follows: \<open>Inr ()\<close>, or the message of an error, which may be none.\<close>

type_synonym policy_answer = "string option + unit"

definition policy_failed :: "string \<Rightarrow> policy_page \<Rightarrow> policy_page" where
  "policy_failed m s = s\<lparr>pp_error := Some m, pp_toast := Some (ToneError, m)\<rparr>"

definition policy_over :: "policy_page \<Rightarrow> policy_page" where
  "policy_over s = s\<lparr>pp_saving := False, pp_task := NoPolicyTask\<rparr>"

definition save_done :: "policy_answer \<Rightarrow> policy_page \<Rightarrow> policy_page" where
  "save_done r s = policy_over
     (case r of
        Inr u \<Rightarrow> s\<lparr>pp_toast := Some (ToneSuccess, ''Policy settings saved.'')\<rparr>
      | Inl m \<Rightarrow> policy_failed (case m of Some m \<Rightarrow> m | None \<Rightarrow> ''Failed to save policy settings.'') s)"

definition reset_pack :: "string \<Rightarrow> policy_page \<Rightarrow> policy_page" where
  "reset_pack i s =
     (case List.find (\<lambda>p. pk_id p = i) policyPacks of
        Some defaults \<Rightarrow> updatePack i (\<lambda>p. defaults) s
      | None \<Rightarrow> s)"

definition reset_done :: "string \<Rightarrow> string \<Rightarrow> policy_answer \<Rightarrow> policy_page \<Rightarrow> policy_page" where
  "reset_done i name r s = policy_over
     (case r of
        Inr u \<Rightarrow> (reset_pack i s)\<lparr>pp_confirm := False, pp_toast := Some (ToneSuccess, name @ '' reset to defaults.'')\<rparr>
      | Inl m \<Rightarrow> policy_failed (case m of Some m \<Rightarrow> m | None \<Rightarrow> ''Failed to reset policy pack.'') s)"

section \<open>Rows\<close>

text \<open>The value a control gives its parameter; no control gives a value of another type.\<close>

datatype param_input = TypedText string | PressedOption string | Switched

definition field_value :: "parameter \<Rightarrow> param_input \<Rightarrow> param_value option" where
  "field_value p inp =
     (case (pa_value p, inp) of
        (PSwitch b, Switched) \<Rightarrow> Some (PSwitch (\<not> b))
      | (PChoices xs, PressedOption x) \<Rightarrow>
          if x \<in> set (pa_options p)
          then Some (PChoices (if x \<in> set xs then filter (\<lambda>y. y \<noteq> x) xs else xs @ [x])) else None
      | (PNumber n, TypedText t) \<Rightarrow> Some (PNumber (js_number t))
      | (PText u, TypedText t) \<Rightarrow> Some (PText t)
      | _ \<Rightarrow> None)"

definition set_parameter :: "string \<Rightarrow> param_value \<Rightarrow> parameter list \<Rightarrow> parameter list" where
  "set_parameter k v ps = map (\<lambda>p. if pa_key p = k then p\<lparr>pa_value := v\<rparr> else p) ps"

definition row_of :: "policy_page \<Rightarrow> string \<Rightarrow> rule_row option" where
  "row_of s k = List.find (\<lambda>r. rw_key r = k) (pp_rows s)"

definition update_row :: "string \<Rightarrow> (rule_row \<Rightarrow> rule_row) \<Rightarrow> policy_page \<Rightarrow> policy_page" where
  "update_row k f s = s\<lparr>pp_rows := map (\<lambda>r. if rw_key r = k then f r else r) (pp_rows s)\<rparr>"

text \<open>\<open>updateParameter\<close> of an expanded row: its own parameters change, and all of them go to the draft.\<close>

definition updateParameter :: "string \<Rightarrow> string \<Rightarrow> param_input \<Rightarrow> policy_page \<Rightarrow> policy_page" where
  "updateParameter k pk inp s =
     (case row_of s k of
        None \<Rightarrow> s
      | Some r \<Rightarrow>
          (case Option.bind (List.find (\<lambda>p. pa_key p = pk) (rw_parameters r)) (\<lambda>p. field_value p inp) of
             None \<Rightarrow> s
           | Some v \<Rightarrow>
               if \<not> rw_expanded r then s
               else (let next = set_parameter pk v (rw_parameters r) in
                     update_selected k (\<lambda>u. u\<lparr>ru_parameters := next\<rparr>) (update_row k (\<lambda>r. r\<lparr>rw_parameters := next\<rparr>) s))))"

text \<open>A collapsed row has no editor.\<close>

definition toggleExpanded :: "string \<Rightarrow> policy_page \<Rightarrow> policy_page" where
  "toggleExpanded k s =
     (case row_of s k of
        None \<Rightarrow> s
      | Some r \<Rightarrow>
          (update_row k (\<lambda>r. r\<lparr>rw_expanded := \<not> rw_expanded r, rw_edit := None\<rparr>) s)
            \<lparr>pp_expanded := (if rw_expanded r then None else Some k)\<rparr>)"

text \<open>The rows that are shown: a row of a key that is shown already keeps its state.\<close>

definition shown_rules :: "policy_page \<Rightarrow> policy_rule list" where
  "shown_rules s =
     (if pp_view s = PolicyLoading \<or> pp_mode s \<noteq> VisualView then []
      else case selectedPack s of Some p \<Rightarrow> pk_rules p | None \<Rightarrow> [])"

definition mount_row :: "policy_page \<Rightarrow> nat \<times> policy_rule \<Rightarrow> rule_row" where
  "mount_row s p =
     (case row_of s (ru_key (snd p)) of
        Some r \<Rightarrow> r
      | None \<Rightarrow> \<lparr>rw_key = ru_key (snd p), rw_expanded = (fst p = 0), rw_parameters = ru_parameters (snd p), rw_edit = None\<rparr>)"

definition policy_rendered :: "policy_page \<Rightarrow> policy_page" where
  "policy_rendered s =
     s\<lparr>pp_rows := map (mount_row s) (enumerate 0 (shown_rules s)),
       pp_edit := (if pp_mode s = RegoView then pp_edit s else None)\<rparr>"

section \<open>Editors\<close>

text \<open>An editor from its source, what it does and whether the user is an administrator: its new text and what it reports.\<close>

datatype editor_event = PressEdit | TypeSource string | PressCancelEdit | PressSaveEdit

definition RegoEditor :: "bool \<Rightarrow> string \<Rightarrow> editor_event \<Rightarrow> string option \<Rightarrow> string option \<times> string option" where
  "RegoEditor isAdmin source e edit =
     (if \<not> isAdmin then (edit, None)
      else case (e, edit) of
        (PressEdit, None) \<Rightarrow> (Some source, None)
      | (TypeSource t, Some d) \<Rightarrow> (Some t, None)
      | (PressCancelEdit, Some d) \<Rightarrow> (None, None)
      | (PressSaveEdit, Some d) \<Rightarrow> (None, Some d)
      | _ \<Rightarrow> (edit, None))"

definition editor_lines :: "string \<Rightarrow> string option \<Rightarrow> rego_token list list" where
  "editor_lines source edit =
     map tokenizeRego (split_on (char_of (10 :: nat)) (case edit of Some d \<Rightarrow> d | None \<Rightarrow> source))"

definition report_rego :: "string \<Rightarrow> string option \<Rightarrow> policy_page \<Rightarrow> policy_page" where
  "report_rego k report s = (case report of None \<Rightarrow> s | Some t \<Rightarrow> update_selected k (\<lambda>u. u\<lparr>ru_rego := t\<rparr>) s)"

definition row_editor :: "bool \<Rightarrow> string \<Rightarrow> editor_event \<Rightarrow> policy_page \<Rightarrow> policy_page" where
  "row_editor isAdmin k e s =
     (case (row_of s k, List.find (\<lambda>u. ru_key u = k) (shown_rules s)) of
        (Some r, Some u) \<Rightarrow>
          if rw_expanded r
          then report_rego k (snd (RegoEditor isAdmin (ru_rego u) e (rw_edit r)))
                 (update_row k (\<lambda>r. r\<lparr>rw_edit := fst (RegoEditor isAdmin (ru_rego u) e (rw_edit r))\<rparr>) s)
          else s
      | _ \<Rightarrow> s)"

definition view_editor :: "bool \<Rightarrow> editor_event \<Rightarrow> policy_page \<Rightarrow> policy_page" where
  "view_editor isAdmin e s =
     (case (pp_view s, pp_mode s, regoRule s) of
        (PolicyDefault, RegoView, Some u) \<Rightarrow>
          report_rego (ru_key u) (snd (RegoEditor isAdmin (ru_rego u) e (pp_edit s)))
            (s\<lparr>pp_edit := fst (RegoEditor isAdmin (ru_rego u) e (pp_edit s))\<rparr>)
      | _ \<Rightarrow> s)"

section \<open>Events\<close>

datatype policy_event =
    TimerFired | SelectPack string | TogglePack string | ShowVisual | ShowRego
  | ToggleRow string | ToggleRule string | EditParameter string string param_input
  | RowEditor string editor_event | ViewEditor editor_event
  | PressSavePolicy | PressResetPolicy | SaveArrived policy_answer | ResetArrived policy_answer | DismissToast

fun policy_handle :: "bool \<Rightarrow> policy_event \<Rightarrow> policy_page \<Rightarrow> policy_page" where
  "policy_handle adm TimerFired s = s\<lparr>pp_view := (if pp_draft s = [] then PolicyEmpty else PolicyDefault)\<rparr>"
| "policy_handle adm (SelectPack i) s =
     (if pp_view s = PolicyDefault \<and> i \<in> pk_id ` set (pp_draft s) then selectPack i s else s)"
| "policy_handle adm (TogglePack i) s =
     (if pp_view s = PolicyDefault then updatePack i (\<lambda>p. p\<lparr>pk_enabled := \<not> pk_enabled p\<rparr>) s else s)"
| "policy_handle adm ShowVisual s = (if selectedPack s = None then s else s\<lparr>pp_mode := VisualView\<rparr>)"
| "policy_handle adm ShowRego s = (if selectedPack s = None then s else s\<lparr>pp_mode := RegoView\<rparr>)"
| "policy_handle adm (ToggleRow k) s = toggleExpanded k s"
| "policy_handle adm (ToggleRule k) s =
     (if row_of s k = None then s else update_selected k (\<lambda>u. u\<lparr>ru_enabled := \<not> ru_enabled u\<rparr>) s)"
| "policy_handle adm (EditParameter k pk inp) s = updateParameter k pk inp s"
| "policy_handle adm (RowEditor k e) s = row_editor adm k e s"
| "policy_handle adm (ViewEditor e) s = view_editor adm e s"
| "policy_handle adm PressSavePolicy s = (if pp_saving s then s else handleSave s)"
| "policy_handle adm PressResetPolicy s = (if pp_saving s then s else handleReset s)"
| "policy_handle adm (SaveArrived r) s = (if pp_task s = SavingPack then save_done r s else s)"
| "policy_handle adm (ResetArrived r) s = (case pp_task s of ResettingPack i n \<Rightarrow> reset_done i n r s | _ \<Rightarrow> s)"
| "policy_handle adm DismissToast s = s\<lparr>pp_toast := None\<rparr>"

definition policy_step :: "bool \<Rightarrow> policy_page \<Rightarrow> policy_event \<Rightarrow> policy_page" where
  "policy_step adm s e = policy_rendered (policy_handle adm e s)"

definition policy_run :: "bool \<Rightarrow> policy_event list \<Rightarrow> policy_page" where
  "policy_run adm es = foldl (policy_step adm) policy_start es"

text \<open>Who may edit sources: with the identity provider configured, a user whose public metadata says so.\<close>

definition policyEditorIsAdmin :: "bool \<Rightarrow> json \<Rightarrow> bool" where
  "policyEditorIsAdmin clerk metadata \<longleftrightarrow> clerk \<and> jget metadata ''role'' = JStr ''admin''"

section \<open>What a reset leaves behind\<close>

text \<open>
  A reset replaces the draft and not the rows that are shown, so the next edit of one parameter brings the
  old values of the others back, and they are saved.
\<close>

definition reset_and_edit :: "policy_event list" where
  "reset_and_edit =
     [TimerFired, SelectPack ''secure-baseline'',
      EditParameter ''aws_s3_bucket_public_access'' ''exempt_buckets'' (TypedText ''everything''),
      PressResetPolicy, PressResetPolicy, ResetArrived (Inr ()),
      EditParameter ''aws_s3_bucket_public_access'' ''action_on_violation'' (PressedOption ''warn''), PressSavePolicy]"

lemma reset_values_return:
  "map (\<lambda>d. map pa_value (dr_parameters (hd (pd_rules d)))) (pp_saved (policy_run False reset_and_edit)) =
     [[PText ''everything'', PChoices [''deny'', ''warn'']]]"
  by code_simp

section \<open>Shapes\<close>

text \<open>The type of a value, and what no edit changes: of a parameter all but its value, of a rule its key.\<close>

definition value_type :: "param_value \<Rightarrow> string" where
  "value_type v = (case v of PText t \<Rightarrow> ''text'' | PNumber n \<Rightarrow> ''number'' | PChoices xs \<Rightarrow> ''multi_select'' | PSwitch b \<Rightarrow> ''boolean'')"

definition shape :: "parameter \<Rightarrow> string \<times> string \<times> string \<times> string list \<times> (rat \<times> rat \<times> rat) option" where
  "shape p = (pa_key p, pa_label p, value_type (pa_value p), pa_options p, pa_range p)"

text \<open>Only an administrator changes sources.\<close>

definition rule_shape :: "bool \<Rightarrow> policy_rule \<Rightarrow> string \<times> (string \<times> string \<times> string \<times> string list \<times> (rat \<times> rat \<times> rat) option) list \<times> string" where
  "rule_shape adm r = (ru_key r, map shape (ru_parameters r), if adm then [] else ru_rego r)"

definition draft_shape :: "bool \<Rightarrow> draft_rule \<Rightarrow> string \<times> (string \<times> string \<times> string \<times> string list \<times> (rat \<times> rat \<times> rat) option) list \<times> string" where
  "draft_shape adm r = (dr_key r, map shape (dr_parameters r), if adm then [] else dr_rego r)"

definition pack_shape where
  "pack_shape adm p = (pk_id p, map (rule_shape adm) (pk_rules p))"

definition good_draft :: "bool \<Rightarrow> pack_draft \<Rightarrow> bool" where
  "good_draft adm d \<longleftrightarrow>
     (\<exists>p\<in>set policyPacks. pd_id d = pk_id p \<and> map (draft_shape adm) (pd_rules d) = map (rule_shape adm) (pk_rules p))"

definition known_rules :: "policy_rule list" where
  "known_rules = concat (map pk_rules policyPacks)"

definition row_ok :: "rule_row \<Rightarrow> bool" where
  "row_ok r \<longleftrightarrow> (\<exists>u\<in>set known_rules. ru_key u = rw_key r \<and> map shape (rw_parameters r) = map shape (ru_parameters u))"

definition policy_ok :: "bool \<Rightarrow> policy_page \<Rightarrow> bool" where
  "policy_ok adm s \<longleftrightarrow> map (pack_shape adm) (pp_draft s) = map (pack_shape adm) policyPacks \<and> (\<forall>r\<in>set (pp_rows s). row_ok r)"

text \<open>The packs of the source have distinct identifiers, keys and parameters.\<close>

lemma pack_ids_distinct: "distinct (map pk_id policyPacks)"
  by (simp add: policyPacks_def)

lemmas the_rules = rule_aws_s3_bucket_public_access_def rule_k8s_container_resources_limits_def
  rule_azure_iam_custom_role_creation_def rule_sandbox_resource_expiry_def rule_hipaa_encryption_at_rest_def

lemma rule_keys_distinct: "distinct (map ru_key known_rules)"
  by (simp add: known_rules_def policyPacks_def the_rules)

lemma parameter_keys_distinct: "u \<in> set known_rules \<Longrightarrow> distinct (map pa_key (ru_parameters u))"
  by (auto simp: known_rules_def policyPacks_def the_rules)

lemma known_rule_unique: "u \<in> set known_rules \<Longrightarrow> w \<in> set known_rules \<Longrightarrow> ru_key u = ru_key w \<Longrightarrow> u = w"
  using rule_keys_distinct by (auto simp: distinct_map inj_on_def)

lemma known_pack_unique: "p \<in> set policyPacks \<Longrightarrow> q \<in> set policyPacks \<Longrightarrow> pk_id p = pk_id q \<Longrightarrow> p = q"
  using pack_ids_distinct by (auto simp: distinct_map inj_on_def)

text \<open>A pack and a rule of the draft have a counterpart in the source.\<close>

lemma drafted_pack:
  assumes "policy_ok adm s" and "p \<in> set (pp_draft s)"
  obtains q where "q \<in> set policyPacks" "pack_shape adm p = pack_shape adm q"
proof -
  have "pack_shape adm p \<in> pack_shape adm ` set policyPacks"
    using assms unfolding policy_ok_def by (metis image_eqI list.set_map)
  with that show thesis by blast
qed

lemma drafted_rule:
  assumes "policy_ok adm s" and "p \<in> set (pp_draft s)" and "r \<in> set (pk_rules p)"
  obtains u where "u \<in> set known_rules" "rule_shape adm r = rule_shape adm u"
proof -
  obtain q where q: "q \<in> set policyPacks" "pack_shape adm p = pack_shape adm q" using drafted_pack [OF assms(1,2)] .
  then have "rule_shape adm ` set (pk_rules p) = rule_shape adm ` set (pk_rules q)"
    by (simp add: pack_shape_def) (metis list.set_map)
  then have "rule_shape adm r \<in> rule_shape adm ` set (pk_rules q)" using assms(3) by blast
  with q(1) that show thesis by (auto simp: known_rules_def)
qed

lemma selectedPack_in: "selectedPack s = Some p \<Longrightarrow> p \<in> set (pp_draft s)"
  using find_SomeD unfolding selectedPack_def by metis

lemma draft_rule_shape:
  "draft_shape adm \<lparr>dr_key = ru_key r, dr_enabled = ru_enabled r, dr_parameters = ru_parameters r, dr_rego = ru_rego r\<rparr> = rule_shape adm r"
  by (simp add: draft_shape_def rule_shape_def)

lemma payload_good:
  assumes "policy_ok adm s" and "selectedPack s = Some p"
  shows "good_draft adm (draft_payload p)"
proof -
  obtain q where q: "q \<in> set policyPacks" "pack_shape adm p = pack_shape adm q"
    using drafted_pack [OF assms(1) selectedPack_in [OF assms(2)]] .
  then show ?thesis by (auto simp: good_draft_def draft_payload_def pack_shape_def draft_rule_shape comp_def intro!: bexI [of _ q])
qed

section \<open>Updates keep the shape\<close>

lemma updatePack_ok:
  assumes "policy_ok adm s" and "\<And>p. p \<in> set (pp_draft s) \<Longrightarrow> pk_id p = i \<Longrightarrow> pack_shape adm (f p) = pack_shape adm p"
  shows "policy_ok adm (updatePack i f s)"
proof -
  have "map (pack_shape adm) (map (\<lambda>p. if pk_id p = i then f p else p) (pp_draft s)) = map (pack_shape adm) (pp_draft s)"
    using assms(2) by simp
  with assms(1) show ?thesis by (simp add: policy_ok_def updatePack_def)
qed

lemma update_selected_ok:
  assumes "policy_ok adm s"
    and "\<And>p r. p \<in> set (pp_draft s) \<Longrightarrow> r \<in> set (pk_rules p) \<Longrightarrow> ru_key r = k \<Longrightarrow> rule_shape adm (f r) = rule_shape adm r"
  shows "policy_ok adm (update_selected k f s)"
proof (cases "selectedPack s")
  case None
  with assms(1) show ?thesis by (simp add: update_selected_def)
next
  case (Some q)
  have "pack_shape adm (update_rule k f p) = pack_shape adm p" if "p \<in> set (pp_draft s)" for p
    using assms(2) [OF that] by (simp add: pack_shape_def update_rule_def)
  with assms(1) Some show ?thesis by (simp add: update_selected_def updatePack_ok)
qed

lemma kept [simp]:
  "pp_saved (updatePack i f s) = pp_saved s" "pp_rows (updatePack i f s) = pp_rows s"
  "pp_saved (update_selected k g s) = pp_saved s" "pp_rows (update_selected k g s) = pp_rows s"
  "pp_saved (update_row k h s) = pp_saved s" "pp_draft (update_row k h s) = pp_draft s"
  "pp_saved (report_rego k t s) = pp_saved s" "pp_saved (policy_over s) = pp_saved s"
  by (simp_all add: updatePack_def update_selected_def update_row_def report_rego_def policy_over_def split: option.split)

lemma update_row_ok:
  assumes "policy_ok adm s" and "\<And>r. row_ok r \<Longrightarrow> rw_key r = k \<Longrightarrow> row_ok (f r)"
  shows "policy_ok adm (update_row k f s)"
  using assms by (auto simp: policy_ok_def update_row_def)

lemma report_rego_ok:
  assumes "policy_ok adm s" and "t \<noteq> None \<Longrightarrow> adm"
  shows "policy_ok adm (report_rego k t s)"
  using assms by (cases t) (auto simp: report_rego_def rule_shape_def intro: update_selected_ok)

lemma RegoEditor_report: "snd (RegoEditor adm src e edit) = Some t \<Longrightarrow> adm"
  by (simp add: RegoEditor_def split: if_splits)

lemma reset_pack_ok:
  assumes "policy_ok adm s"
  shows "policy_ok adm (reset_pack i s)"
proof (cases "List.find (\<lambda>p. pk_id p = i) policyPacks")
  case None
  with assms show ?thesis by (simp add: reset_pack_def)
next
  case (Some d)
  then have d: "d \<in> set policyPacks" "pk_id d = i" by (auto dest: find_SomeD)
  have "pack_shape adm d = pack_shape adm p" if p: "p \<in> set (pp_draft s)" "pk_id p = i" for p
  proof -
    obtain q where q: "q \<in> set policyPacks" "pack_shape adm p = pack_shape adm q" using drafted_pack [OF assms p(1)] .
    then have "pk_id q = i" using p(2) by (simp add: pack_shape_def)
    with q d known_pack_unique show ?thesis by metis
  qed
  with assms Some show ?thesis by (simp add: reset_pack_def updatePack_ok)
qed

lemma field_value_type: "field_value p inp = Some v \<Longrightarrow> value_type v = value_type (pa_value p)"
  by (auto simp: field_value_def value_type_def split: param_value.splits param_input.splits if_splits)

lemma set_parameter_shape:
  assumes "distinct (map pa_key ps)" and "p \<in> set ps" and "value_type v = value_type (pa_value p)"
  shows "map shape (set_parameter (pa_key p) v ps) = map shape ps"
proof -
  have "q = p" if "q \<in> set ps" "pa_key q = pa_key p" for q
    using assms(1,2) that by (auto simp: distinct_map inj_on_def)
  with assms(3) show ?thesis by (auto simp: set_parameter_def shape_def)
qed

lemma row_keys_distinct:
  assumes "row_ok r"
  shows "distinct (map pa_key (rw_parameters r))"
proof -
  obtain u where u: "u \<in> set known_rules" "map shape (rw_parameters r) = map shape (ru_parameters u)"
    using assms by (auto simp: row_ok_def)
  then have "map fst (map shape (rw_parameters r)) = map fst (map shape (ru_parameters u))" by simp
  then have "map pa_key (rw_parameters r) = map pa_key (ru_parameters u)" by (simp add: shape_def comp_def)
  with parameter_keys_distinct [OF u(1)] show ?thesis by simp
qed

lemma updateParameter_cases:
  assumes "updateParameter k pk inp s \<noteq> s"
  obtains r p v where "row_of s k = Some r" "rw_expanded r" "List.find (\<lambda>p. pa_key p = pk) (rw_parameters r) = Some p"
    "field_value p inp = Some v"
proof (cases "row_of s k")
  case None
  with assms show thesis by (simp add: updateParameter_def)
next
  case r: (Some r)
  show thesis
  proof (cases "Option.bind (List.find (\<lambda>p. pa_key p = pk) (rw_parameters r)) (\<lambda>p. field_value p inp)")
    case None
    with assms r show thesis by (simp add: updateParameter_def)
  next
    case (Some v)
    moreover from this assms r have "rw_expanded r" by (simp add: updateParameter_def split: if_splits)
    ultimately show thesis using r that by (auto simp: bind_eq_Some_conv)
  qed
qed

lemma updateParameter_ok:
  assumes "policy_ok adm s"
  shows "policy_ok adm (updateParameter k pk inp s) \<and> pp_saved (updateParameter k pk inp s) = pp_saved s"
proof (cases "updateParameter k pk inp s = s")
  case True
  with assms show ?thesis by simp
next
  case False
  then obtain r p v where r: "row_of s k = Some r" and x: "rw_expanded r"
    and p: "List.find (\<lambda>p. pa_key p = pk) (rw_parameters r) = Some p" and v: "field_value p inp = Some v"
    by (rule updateParameter_cases)
  let ?next = "set_parameter pk v (rw_parameters r)"
  have r': "r \<in> set (pp_rows s)" "rw_key r = k" using find_SomeD [OF r [unfolded row_of_def]] by blast+
  then have ok: "row_ok r" using assms by (simp add: policy_ok_def)
  have "p \<in> set (rw_parameters r)" "pa_key p = pk" using find_SomeD [OF p] by blast+
  then have shape: "map shape ?next = map shape (rw_parameters r)"
    using set_parameter_shape [OF row_keys_distinct [OF ok] _ field_value_type [OF v]] by blast
  let ?t = "update_row k (\<lambda>r. r\<lparr>rw_parameters := ?next\<rparr>) s"
  have t: "policy_ok adm ?t" using assms ok shape r'(2) by (intro update_row_ok) (auto simp: row_ok_def)
  have "rule_shape adm (u\<lparr>ru_parameters := ?next\<rparr>) = rule_shape adm u"
    if u: "q \<in> set (pp_draft ?t)" "u \<in> set (pk_rules q)" "ru_key u = k" for q u
  proof -
    obtain w where w: "w \<in> set known_rules" "rule_shape adm u = rule_shape adm w" using drafted_rule [OF t u(1,2)] .
    obtain w' where w': "w' \<in> set known_rules" "ru_key w' = k" "map shape (rw_parameters r) = map shape (ru_parameters w')"
      using ok r'(2) by (auto simp: row_ok_def)
    have "ru_key w = k" and ps: "map shape (ru_parameters u) = map shape (ru_parameters w)"
      using w(2) u(3) by (simp_all only: rule_shape_def prod.inject)
    then have "w = w'" using known_rule_unique w(1) w'(1,2) by blast
    with ps w'(3) shape have "map shape ?next = map shape (ru_parameters u)" by (simp only:)
    then show ?thesis by (simp add: rule_shape_def)
  qed
  then have "policy_ok adm (update_selected k (\<lambda>u. u\<lparr>ru_parameters := ?next\<rparr>) ?t)" by (rule update_selected_ok [OF t])
  with r p v x show ?thesis by (simp add: updateParameter_def Let_def)
qed

lemma policy_rendered_ok:
  assumes "policy_ok adm s"
  shows "policy_ok adm (policy_rendered s)"
proof -
  have "row_ok (mount_row s (n, u))" if u: "u \<in> set (shown_rules s)" for n u
  proof (cases "row_of s (ru_key u)")
    case None
    obtain p where p: "selectedPack s = Some p" "u \<in> set (pk_rules p)"
      using u by (cases "selectedPack s") (auto simp: shown_rules_def split: if_splits)
    obtain w where "w \<in> set known_rules" "rule_shape adm u = rule_shape adm w"
      using drafted_rule [OF assms selectedPack_in [OF p(1)] p(2)] .
    with None show ?thesis by (auto simp: mount_row_def row_ok_def rule_shape_def)
  next
    case (Some r)
    then have "r \<in> set (pp_rows s)" using find_SomeD unfolding row_of_def by metis
    with Some assms show ?thesis by (simp add: mount_row_def policy_ok_def)
  qed
  then have "\<forall>r\<in>set (map (mount_row s) (enumerate 0 (shown_rules s))). row_ok r"
    by (force simp: in_set_enumerate_eq)
  with assms show ?thesis by (simp add: policy_ok_def policy_rendered_def)
qed

section \<open>Every run\<close>

lemma policy_handle_ok:
  assumes ok: "policy_ok adm s"
  shows "policy_ok adm (policy_handle adm e s) \<and>
    (\<exists>new. pp_saved (policy_handle adm e s) = pp_saved s @ new \<and> list_all (good_draft adm) new)"
proof (cases e)
  case (SelectPack i)
  with ok show ?thesis by (simp add: selectPack_def policy_ok_def)
next
  case (TogglePack i)
  with ok show ?thesis by (auto simp: pack_shape_def intro!: updatePack_ok)
next
  case (ToggleRow k)
  with ok show ?thesis
    by (auto simp: toggleExpanded_def policy_ok_def update_row_def row_ok_def split: option.split)
next
  case (ToggleRule k)
  with ok show ?thesis by (auto simp: rule_shape_def intro!: update_selected_ok)
next
  case (EditParameter k pk inp)
  with updateParameter_ok [OF ok] show ?thesis by simp
next
  case (RowEditor k f)
  have "policy_ok adm (update_row k (\<lambda>r. r\<lparr>rw_edit := g r\<rparr>) s)" for g
    by (rule update_row_ok [OF ok]) (simp add: row_ok_def)
  then have "policy_ok adm (row_editor adm k f s) \<and> pp_saved (row_editor adm k f s) = pp_saved s"
    using ok by (auto simp: row_editor_def intro!: report_rego_ok dest: RegoEditor_report split: option.split)
  with RowEditor show ?thesis by simp
next
  case (ViewEditor f)
  have "policy_ok adm (s\<lparr>pp_edit := t\<rparr>)" for t using ok by (simp add: policy_ok_def)
  then have "policy_ok adm (view_editor adm f s) \<and> pp_saved (view_editor adm f s) = pp_saved s"
    using ok
    by (auto simp: view_editor_def intro!: report_rego_ok dest: RegoEditor_report split: option.split policy_view.split view_mode.split)
  with ViewEditor show ?thesis by simp
next
  case PressSavePolicy
  have "policy_ok adm (handleSave s) \<and> (\<exists>new. pp_saved (handleSave s) = pp_saved s @ new \<and> list_all (good_draft adm) new)"
  proof (cases "selectedPack s")
    case None
    with ok show ?thesis by (simp add: handleSave_def)
  next
    case (Some p)
    with ok payload_good [OF ok Some] show ?thesis by (simp add: handleSave_def policy_ok_def)
  qed
  with PressSavePolicy ok show ?thesis by simp
next
  case PressResetPolicy
  with ok show ?thesis by (auto simp: handleReset_def policy_ok_def split: option.split)
next
  case (SaveArrived r)
  with ok show ?thesis by (auto simp: save_done_def policy_over_def policy_failed_def policy_ok_def split: sum.split)
next
  case (ResetArrived r)
  have "policy_ok adm (reset_done i n r s) \<and> pp_saved (reset_done i n r s) = pp_saved s" for i n
    using reset_pack_ok [OF ok, of i] ok
    by (auto simp: reset_done_def policy_over_def policy_failed_def policy_ok_def reset_pack_def split: sum.split option.split)
  with ResetArrived ok show ?thesis by (auto split: policy_task.split)
qed (use ok in \<open>auto simp: policy_ok_def\<close>)

interpretation policy: interactive "policy_step adm" "policy_ok adm" pp_saved "good_draft adm" for adm
proof
  fix s e assume ok: "policy_ok adm s"
  show "policy_ok adm (policy_step adm s e)"
    using policy_rendered_ok policy_handle_ok [OF ok, of e] by (simp add: policy_step_def)
  show "\<exists>new. pp_saved (policy_step adm s e) = pp_saved s @ new \<and> list_all (good_draft adm) new"
    using policy_handle_ok [OF ok, of e] by (simp add: policy_step_def policy_rendered_def)
qed

text \<open>
  C37. What is saved is a pack of the source with other values. In every run each draft that is saved has
  the identifier of a pack, its rules in their order with their keys, and of every rule the parameters
  with their keys, types, options and ranges; and unless the user is an administrator, the source of
  every rule is the one the pack came with.
\<close>

theorem policy_drafts_keep_their_rules:
  assumes "d \<in> set (pp_saved (policy_run adm es))"
  shows "good_draft adm d"
proof -
  have "list_all (good_draft adm) (pp_saved (policy_run adm es))"
    unfolding policy_run_def by (rule policy.run_good) (simp_all add: policy_ok_def policy_start_def)
  with assms show ?thesis by (auto simp: list_all_iff)
qed

theorem policy_drafts_keep_their_rules_witness:
  "\<exists>d. pp_saved (policy_run False reset_and_edit) = [d] \<and> good_draft False d"
proof -
  obtain d where d: "pp_saved (policy_run False reset_and_edit) = [d]"
    using reset_values_return by (cases "pp_saved (policy_run False reset_and_edit)") auto
  with policy_drafts_keep_their_rules [of d False reset_and_edit] show ?thesis by simp
qed

text \<open>A confirmed reset restores the pack as the source has it.\<close>

lemma reset_restores_pack:
  assumes "policy_ok adm s" and "p \<in> set policyPacks"
  shows "\<forall>q\<in>set (pp_draft (reset_pack (pk_id p) s)). pk_id q = pk_id p \<longrightarrow> q = p"
proof -
  obtain d where d: "List.find (\<lambda>q. pk_id q = pk_id p) policyPacks = Some d"
    using assms(2) by (cases "List.find (\<lambda>q. pk_id q = pk_id p) policyPacks") (auto simp: find_None_iff)
  then have "d = p" using find_SomeD [OF d] known_pack_unique assms(2) by blast
  with d show ?thesis by (auto simp: reset_pack_def updatePack_def)
qed

end
