(* ===== verification/Registry_Cards.thy ===== *)
theory Registry_Cards
  imports Frontend_Shell Resource_Table Rego
begin

text \<open>
  The logic of the components that render validated payloads (\<open>frontend/components/registry/components\<close>):
  \<open>resource_table.tsx\<close> with search, sorting, navigation and the redaction of specifications,
  \<open>database_config.tsx\<close>, \<open>networking_topology.tsx\<close>, \<open>loadbalancer_card.tsx\<close>, \<open>storage_card.tsx\<close>,
  \<open>monitoring_card.tsx\<close>, \<open>compute_plan.tsx\<close>, \<open>cost_estimate.tsx\<close> and \<open>region_selector.tsx\<close>.
\<close>

section \<open>Redaction\<close>

text \<open>One of two words with at most one character between them, at the start of a text.\<close>

definition words_here :: "string \<Rightarrow> string \<Rightarrow> string \<Rightarrow> bool" where
  "words_here p q s \<longleftrightarrow> starts_with p s \<and>
     (starts_with q (drop (length p) s) \<or>
      (case drop (length p) s of [] \<Rightarrow> False | c # t \<Rightarrow> \<not> line_break c \<and> starts_with q t))"

definition sensitive_here :: "string \<Rightarrow> bool" where
  "sensitive_here s \<longleftrightarrow>
     list_ex (\<lambda>p. starts_with p s) [''password'', ''secret'', ''token'', ''credential''] \<or>
     list_ex (\<lambda>p. words_here p ''key'' s) [''private'', ''access'', ''api'']"

fun sensitive_within :: "string \<Rightarrow> bool" where
  "sensitive_within [] = False"
| "sensitive_within (c # s) \<longleftrightarrow> sensitive_here (c # s) \<or> sensitive_within s"

definition sensitiveField :: "string \<Rightarrow> bool" where
  "sensitiveField k = sensitive_within (lower_case k)"

definition REDACTED :: json where
  "REDACTED = JStr ''[REDACTED]''"

definition namedSecret :: "json \<Rightarrow> bool" where
  "namedSecret v = list_ex (\<lambda>n. case n of JStr s \<Rightarrow> sensitiveField s | _ \<Rightarrow> False) [jget v ''name'', jget v ''key'']"

text \<open>The fields of a record that are replaced.\<close>

definition secret_field :: "json \<Rightarrow> string \<Rightarrow> bool" where
  "secret_field v k \<longleftrightarrow> sensitiveField k \<or> (namedSecret v \<and> k \<noteq> ''name'' \<and> k \<noteq> ''key'')"

fun redactSensitiveFields :: "json \<Rightarrow> json" where
  "redactSensitiveFields (JArr vs) = JArr (map redactSensitiveFields vs)"
| "redactSensitiveFields (JObj fs) =
     (if jget (JObj fs) ''sensitive'' = JBool True then REDACTED
      else JObj (map (\<lambda>(k, x). (k, if secret_field (JObj fs) k then REDACTED else redactSensitiveFields x)) fs))"
| "redactSensitiveFields v = v"

text \<open>A value that shows no secret, and two values that differ in secrets only.\<close>

fun shows_no_secret :: "json \<Rightarrow> bool" where
  "shows_no_secret (JArr vs) = list_all shows_no_secret vs"
| "shows_no_secret (JObj fs) \<longleftrightarrow> jget (JObj fs) ''sensitive'' \<noteq> JBool True \<and>
     list_all (\<lambda>(k, x). if secret_field (JObj fs) k then x = REDACTED else shows_no_secret x) fs"
| "shows_no_secret v = True"

inductive alike :: "json \<Rightarrow> json \<Rightarrow> bool" where
  same: "alike v v"
| arrays: "list_all2 alike vs ws \<Longrightarrow> alike (JArr vs) (JArr ws)"
| hidden: "jget (JObj fs) ''sensitive'' = JBool True \<Longrightarrow> jget (JObj gs) ''sensitive'' = JBool True \<Longrightarrow> alike (JObj fs) (JObj gs)"
| records: "list_all2 (\<lambda>f g. fst f = fst g \<and> (secret_field (JObj fs) (fst f) \<or> alike (snd f) (snd g))) fs gs \<Longrightarrow>
     secret_field (JObj fs) = secret_field (JObj gs) \<Longrightarrow>
     (jget (JObj fs) ''sensitive'' = JBool True \<longleftrightarrow> jget (JObj gs) ''sensitive'' = JBool True) \<Longrightarrow> alike (JObj fs) (JObj gs)"
monos list.rel_mono

lemma redact_true: "redactSensitiveFields v = JBool True \<longleftrightarrow> v = JBool True"
  by (cases v) (auto simp: REDACTED_def)

lemma redact_text: "redactSensitiveFields v = JStr s \<Longrightarrow> v = JStr s \<or> s = ''[REDACTED]''"
  by (cases v) (auto simp: REDACTED_def split: if_splits)

lemma redacted_not_sensitive: "\<not> sensitiveField ''[REDACTED]''"
  by code_simp

lemma map_of_fields: "map_of (map (\<lambda>(k, x). (k, g k x)) fs) k = map_option (g k) (map_of fs k)"
  by (induction fs) auto

text \<open>The name and the key of a record survive, so that what counts as a secret does not change.\<close>

lemma plain_names: "\<not> sensitiveField ''name''" "\<not> sensitiveField ''key''" "\<not> sensitiveField ''sensitive''"
  by code_simp+

definition redacted_fields :: "(string \<times> json) list \<Rightarrow> (string \<times> json) list" where
  "redacted_fields fs = map (\<lambda>(k, x). (k, if secret_field (JObj fs) k then REDACTED else redactSensitiveFields x)) fs"

lemma redacted_get:
  "jget (JObj (redacted_fields fs)) k =
     (if map_of fs k = None then JUndef else if secret_field (JObj fs) k then REDACTED else redactSensitiveFields (jget (JObj fs) k))"
  by (auto simp: redacted_fields_def map_of_fields split: option.split)

lemma redacted_names:
  assumes "k = ''name'' \<or> k = ''key''"
  shows "jget (JObj (redacted_fields fs)) k = redactSensitiveFields (jget (JObj fs) k)"
proof -
  have "\<not> secret_field (JObj fs) k" using assms plain_names by (auto simp: secret_field_def)
  then show ?thesis unfolding redacted_get by (auto split: option.split)
qed

lemma redacted_named: "namedSecret (JObj (redacted_fields fs)) = namedSecret (JObj fs)"
proof -
  have texts: "(case redactSensitiveFields v of JStr s \<Rightarrow> sensitiveField s | _ \<Rightarrow> False) =
      (case v of JStr s \<Rightarrow> sensitiveField s | _ \<Rightarrow> False)" for v
    using redacted_not_sensitive by (cases v) (auto simp: REDACTED_def)
  have "jget (JObj (redacted_fields fs)) ''name'' = redactSensitiveFields (jget (JObj fs) ''name'')"
    and "jget (JObj (redacted_fields fs)) ''key'' = redactSensitiveFields (jget (JObj fs) ''key'')"
    by (simp_all only: redacted_names simp_thms)
  then show ?thesis by (simp only: namedSecret_def list_ex_Cons_iff list_ex_Nil_iff texts)
qed

lemma redacted_secret: "secret_field (JObj (redacted_fields fs)) = secret_field (JObj fs)"
  by (simp add: fun_eq_iff secret_field_def redacted_named)

lemma redacted_sensitive:
  assumes "jget (JObj fs) ''sensitive'' \<noteq> JBool True"
  shows "jget (JObj (redacted_fields fs)) ''sensitive'' \<noteq> JBool True"
  using assms redact_true unfolding redacted_get by (auto simp: REDACTED_def split: option.splits)

lemma redaction_clean: "shows_no_secret (redactSensitiveFields v)"
proof (induction v rule: redactSensitiveFields.induct)
  case (1 vs)
  then show ?case by (auto simp: list_all_iff)
next
  case (2 fs)
  show ?case
  proof (cases "jget (JObj fs) ''sensitive'' = JBool True")
    case True
    then show ?thesis by (simp add: REDACTED_def)
  next
    case False
    then have "redactSensitiveFields (JObj fs) = JObj (redacted_fields fs)" by (simp add: redacted_fields_def)
    moreover have "list_all (\<lambda>(k, x). if secret_field (JObj fs) k then x = REDACTED else shows_no_secret x) (redacted_fields fs)"
      using 2 False by (auto simp: list_all_iff redacted_fields_def)
    ultimately show ?thesis using redacted_sensitive [OF False] by (simp only: shows_no_secret.simps redacted_secret simp_thms not_False_eq_True)
  qed
qed simp_all

lemma list_all2_map_eq: "list_all2 (\<lambda>x y. f x = g y) xs ys \<Longrightarrow> map f xs = map g ys"
  by (induction rule: list_all2_induct) simp_all

lemma redaction_hides: "alike v w \<Longrightarrow> redactSensitiveFields v = redactSensitiveFields w"
proof (induction rule: alike.induct)
  case (arrays vs ws)
  then have "list_all2 (\<lambda>x y. redactSensitiveFields x = redactSensitiveFields y) vs ws" by (auto elim: list_all2_mono)
  then show ?case by (simp add: list_all2_map_eq)
next
  case (hidden fs gs)
  then show ?case by simp
next
  case (records fs gs)
  have "redacted_fields fs = redacted_fields gs"
    unfolding redacted_fields_def records(2)
    by (rule list_all2_map_eq, rule list_all2_mono [OF records(1) [unfolded records(2)]]) auto
  with records(3) show ?case by (simp add: redacted_fields_def)
qed simp


lemma password_sensitive: "sensitiveField ''DB_PASSWORD''"
  by code_simp


section \<open>The table of resources\<close>

record table_row =
  tr_id :: string
  tr_name :: string
  tr_type :: string
  tr_provider :: string
  tr_region :: "string option"
  tr_status :: string
  tr_depends :: "string list"
  tr_warnings :: nat
  tr_spec :: "json option"

datatype registry_key = KeyName | KeyType | KeyProvider | KeyRegion | KeyDependsOn | KeyWarnings | KeyStatus

definition dependencyTarget :: "table_row list \<Rightarrow> string \<Rightarrow> table_row option" where
  "dependencyTarget rows reference =
     (case List.find (\<lambda>r. tr_id r = reference) rows of
        Some r \<Rightarrow> Some r | None \<Rightarrow> List.find (\<lambda>r. tr_name r = reference) rows)"

definition region_text :: "table_row \<Rightarrow> string" where
  "region_text r = (case tr_region r of Some x \<Rightarrow> x | None \<Rightarrow> [])"

text \<open>The text a column is compared by, and its number.\<close>

definition registry_field :: "registry_key \<Rightarrow> table_row \<Rightarrow> string \<times> nat" where
  "registry_field k r =
     (case k of
        KeyName \<Rightarrow> (tr_name r, 0) | KeyType \<Rightarrow> (tr_type r, 0) | KeyProvider \<Rightarrow> (tr_provider r, 0)
      | KeyRegion \<Rightarrow> (region_text r, 0) | KeyDependsOn \<Rightarrow> (join '', '' (tr_depends r), 0)
      | KeyWarnings \<Rightarrow> ([], tr_warnings r) | KeyStatus \<Rightarrow> (tr_status r, 0))"

definition compareRows :: "(string \<Rightarrow> string \<Rightarrow> int) \<Rightarrow> registry_key \<Rightarrow> table_row \<Rightarrow> table_row \<Rightarrow> int" where
  "compareRows collate k l r =
     (if k = KeyWarnings then int (tr_warnings l) - int (tr_warnings r)
      else collate (fst (registry_field k l)) (fst (registry_field k r)))"

definition directed_compare :: "(string \<Rightarrow> string \<Rightarrow> int) \<Rightarrow> registry_key \<times> sort_dir \<Rightarrow> table_row \<Rightarrow> table_row \<Rightarrow> int" where
  "directed_compare collate s l r =
     (let result = compareRows collate (fst s) l r in if snd s = Ascending then result else - result)"

record registry_view =
  rv_query :: string
  rv_type :: string
  rv_provider :: string
  rv_region :: string
  rv_sort :: "registry_key \<times> sort_dir"
  rv_expanded :: "string option"
  rv_focus :: "string option"
  rv_opened :: "(string \<times> string) list"

definition registry_start :: registry_view where
  "registry_start =
     \<lparr>rv_query = [], rv_type = ''all'', rv_provider = ''all'', rv_region = ''all'', rv_sort = (KeyName, Ascending),
      rv_expanded = None, rv_focus = None, rv_opened = []\<rparr>"

definition searchable :: "table_row list \<Rightarrow> table_row \<Rightarrow> string" where
  "searchable rows r =
     lower_case (join '' '' ([tr_name r, tr_type r, tr_provider r, region_text r, tr_status r] @ tr_depends r @
       map (\<lambda>d. case dependencyTarget rows d of Some t \<Rightarrow> tr_name t | None \<Rightarrow> d) (tr_depends r)))"

definition row_matches :: "registry_view \<Rightarrow> table_row list \<Rightarrow> table_row \<Rightarrow> bool" where
  "row_matches v rows r =
     (let query = lower_case (trim (rv_query v)) in
      if rv_type v \<noteq> ''all'' \<and> tr_type r \<noteq> rv_type v then False
      else if rv_provider v \<noteq> ''all'' \<and> tr_provider r \<noteq> rv_provider v then False
      else if rv_region v \<noteq> ''all'' \<and> tr_region r \<noteq> Some (rv_region v) then False
      else if query = [] then True
      else js_includes query (searchable rows r))"

definition visibleRows :: "(string \<Rightarrow> string \<Rightarrow> int) \<Rightarrow> registry_view \<Rightarrow> table_row list \<Rightarrow> table_row list" where
  "visibleRows collate v rows = js_sort (directed_compare collate (rv_sort v)) (filter (row_matches v rows) rows)"

text \<open>The options of the filters, in the order of the default collation.\<close>

definition filter_options :: "(string \<Rightarrow> string \<Rightarrow> int) \<Rightarrow> table_row list \<Rightarrow> string list \<times> string list \<times> string list" where
  "filter_options collate rows =
     (js_sort collate (uniq (map tr_type rows)), js_sort collate (uniq (map tr_provider rows)),
      js_sort collate (uniq (filter (\<lambda>x. x \<noteq> []) (List.map_filter tr_region rows))))"

definition keep_filters :: "string list \<times> string list \<times> string list \<Rightarrow> registry_view \<Rightarrow> registry_view" where
  "keep_filters os v =
     v\<lparr>rv_type := (if rv_type v \<in> set (fst os) then rv_type v else ''all''),
       rv_provider := (if rv_provider v \<in> set (fst (snd os)) then rv_provider v else ''all''),
       rv_region := (if rv_region v \<in> set (snd (snd os)) then rv_region v else ''all'')\<rparr>"

definition toggle_key :: "registry_key \<Rightarrow> registry_view \<Rightarrow> registry_view" where
  "toggle_key k v = v\<lparr>rv_sort := (k, if rv_sort v = (k, Ascending) then Descending else Ascending)\<rparr>"

definition clearFilters :: "registry_view \<Rightarrow> registry_view" where
  "clearFilters v = v\<lparr>rv_query := [], rv_type := ''all'', rv_provider := ''all'', rv_region := ''all''\<rparr>"

definition navigateDependency :: "table_row list \<Rightarrow> string \<Rightarrow> registry_view \<Rightarrow> registry_view" where
  "navigateDependency rows n v =
     (case dependencyTarget rows n of
        None \<Rightarrow> v
      | Some t \<Rightarrow> (clearFilters v)\<lparr>rv_expanded := Some (tr_id t), rv_focus := Some (tr_id t)\<rparr>)"

text \<open>With a handler for navigation a name opens its card elsewhere; \<open>rv_opened\<close> logs what is asked for.\<close>

definition handleNameClick :: "bool \<Rightarrow> table_row \<Rightarrow> registry_view \<Rightarrow> registry_view" where
  "handleNameClick navigates r v =
     (if navigates then v\<lparr>rv_opened := rv_opened v @ [(tr_id r, tr_name r)]\<rparr>
      else v\<lparr>rv_expanded := Some (tr_id r), rv_focus := Some (tr_id r)\<rparr>)"

definition click_row :: "table_row \<Rightarrow> registry_view \<Rightarrow> registry_view" where
  "click_row r v = v\<lparr>rv_expanded := (if rv_expanded v = Some (tr_id r) then None else Some (tr_id r))\<rparr>"

definition shown_spec :: "table_row \<Rightarrow> json option" where
  "shown_spec r = map_option redactSensitiveFields (tr_spec r)"

text \<open>The comparison by a column is consistent when the collation is, so the sort is as the standard says.\<close>

interpretation by_key: consistent_comparator "directed_compare (lawful_collation c) s" "registry_field (fst s)" for c s
proof
  fix a b d :: table_row
  have "sgn (compareRows (lawful_collation c) (fst s) b a) = - sgn (compareRows (lawful_collation c) (fst s) a b)"
  proof (cases "fst s = KeyWarnings")
    case True
    then show ?thesis by (simp add: compareRows_def sgn_if)
  next
    case False
    show ?thesis unfolding compareRows_def if_not_P [OF False] by (rule lawful_collation_laws(1))
  qed
  then show "sgn (directed_compare (lawful_collation c) s b a) = - sgn (directed_compare (lawful_collation c) s a b)"
    by (simp add: directed_compare_def Let_def sgn_minus)
  show "directed_compare (lawful_collation c) s a b \<le> 0 \<Longrightarrow> directed_compare (lawful_collation c) s b d \<le> 0 \<Longrightarrow>
      directed_compare (lawful_collation c) s a d \<le> 0"
    by (auto simp: directed_compare_def compareRows_def Let_def intro: lawful_collation_laws(2) lawful_collation_flipped split: if_splits)
  show "registry_field (fst s) a = registry_field (fst s) b \<Longrightarrow> directed_compare (lawful_collation c) s a b = 0"
    by (simp add: directed_compare_def compareRows_def lawful_collation_laws(3) registry_field_def split: registry_key.splits)
qed

lemma visible_rows_sorted:
  assumes "collation collate"
  shows "mset (visibleRows collate v rows) = mset (filter (row_matches v rows) rows)"
    and "sorted_wrt (\<lambda>a b. directed_compare collate (rv_sort v) a b \<le> 0) (visibleRows collate v rows)"
proof -
  have "lawful_collation collate = collate" using assms by (simp add: lawful_collation_def)
  then have e: "visibleRows collate v rows = js_sort (directed_compare (lawful_collation collate) (rv_sort v)) (filter (row_matches v rows) rows)"
    and c: "directed_compare collate = directed_compare (lawful_collation collate)"
    by (simp_all add: visibleRows_def)
  show "mset (visibleRows collate v rows) = mset (filter (row_matches v rows) rows)"
    unfolding e by (rule by_key.sort_mset)
  show "sorted_wrt (\<lambda>a b. directed_compare collate (rv_sort v) a b \<le> 0) (visibleRows collate v rows)"
    unfolding e c by (rule by_key.sort_sorted)
qed

text \<open>A dependency that is followed is shown, whatever was filtered before.\<close>

lemma dependencyTarget_in: "dependencyTarget rows n = Some t \<Longrightarrow> t \<in> set rows \<and> (tr_id t = n \<or> tr_name t = n)"
  by (auto simp: dependencyTarget_def split: option.splits dest: find_SomeD)

lemma followed_dependency_is_shown:
  assumes "collation collate" and "dependencyTarget rows n = Some t"
  shows "t \<in> set (visibleRows collate (navigateDependency rows n v) rows) \<and>
    rv_expanded (navigateDependency rows n v) = Some (tr_id t)"
proof -
  have "row_matches (navigateDependency rows n v) rows t"
    using assms(2) by (simp add: navigateDependency_def clearFilters_def row_matches_def trim_def lower_case_def)
  then have "t \<in># mset (filter (row_matches (navigateDependency rows n v) rows) rows)"
    using dependencyTarget_in [OF assms(2)] by simp
  then have "t \<in># mset (visibleRows collate (navigateDependency rows n v) rows)" by (simp only: visible_rows_sorted(1) [OF assms(1)])
  with assms(2) show ?thesis by (simp add: navigateDependency_def)
qed

section \<open>The card of a database\<close>

datatype risk_severity = RiskCritical | RiskWarning

record database_risk =
  dk_id :: string
  dk_severity :: risk_severity
  dk_title :: string
  dk_detail :: string

definition getDatabaseRisks :: "json \<Rightarrow> database_risk list" where
  "getDatabaseRisks d =
     (if \<not> truthy (jget d ''storageEncrypted'')
      then [\<lparr>dk_id = ''unencrypted'', dk_severity = RiskCritical, dk_title = ''Storage is not encrypted'',
             dk_detail = ''Data at rest will be stored unencrypted.''\<rparr>] else []) @
     (if truthy (jget d ''publiclyAccessible'')
      then [\<lparr>dk_id = ''public'', dk_severity = RiskCritical, dk_title = ''Publicly accessible'',
             dk_detail = ''This database will be reachable from the public internet.''\<rparr>] else []) @
     (if \<not> truthy (jget d ''deletionProtection'')
      then [\<lparr>dk_id = ''deletion_protection_off'', dk_severity = RiskWarning, dk_title = ''Deletion protection is off'',
             dk_detail = ''The database can be deleted without an extra safeguard.''\<rparr>] else []) @
     (if jget d ''backupRetentionDays'' = JNum 0
      then [\<lparr>dk_id = ''no_backups'', dk_severity = RiskWarning, dk_title = ''Backups disabled'',
             dk_detail = ''Backup retention is 0 days, so automated backups will not be kept.''\<rparr>] else [])"

text \<open>\<open>Math.round\<close> and the share of the storage bar.\<close>

definition js_round :: "rat \<Rightarrow> int" where
  "js_round x = floor (x + 1 / 2)"

definition storage_percent :: "rat \<Rightarrow> rat \<Rightarrow> int" where
  "storage_percent allocated maximum = min 100 (js_round (allocated / maximum * 100))"

text \<open>The indicators: what they are about, what they say and in which tone.\<close>

datatype indicator_tone = SafeTone | CriticalTone | WarningTone

definition security_indicators :: "json \<Rightarrow> (string \<times> string \<times> indicator_tone) list" where
  "security_indicators d =
     [(if truthy (jget d ''storageEncrypted'') then (''Encryption at rest'', ''Encrypted'', SafeTone)
       else (''Encryption at rest'', ''Not encrypted'', CriticalTone)),
      (if truthy (jget d ''publiclyAccessible'') then (''Network accessibility'', ''Public'', CriticalTone)
       else (''Network accessibility'', ''Private'', SafeTone)),
      (if truthy (jget d ''deletionProtection'') then (''Deletion protection'', ''On'', SafeTone)
       else (''Deletion protection'', ''Off'', WarningTone))]"

datatype database_card = DatabaseSkeleton | DatabaseInvalid | DatabaseShown "database_risk list" "(string \<times> string \<times> indicator_tone) list"

definition DatabaseConfigComponent :: "world \<Rightarrow> bool \<Rightarrow> json \<Rightarrow> database_card" where
  "DatabaseConfigComponent W loading data =
     (if loading then DatabaseSkeleton
      else case zparse W databaseConfigSchema data of
        Inl issues \<Rightarrow> DatabaseInvalid
      | Inr config \<Rightarrow> DatabaseShown (getDatabaseRisks config) (security_indicators config))"

section \<open>Networks and load balancers\<close>

record firewall_rule =
  fw_direction :: string
  fw_source :: "string option"

record security_group =
  sg_name :: string
  sg_count :: "nat option"
  sg_rules :: "firewall_rule list option"

definition PUBLIC_CIDRS :: "string list" where
  "PUBLIC_CIDRS = [''0.0.0.0/0'', ''::/0'']"

definition isPublicCidr :: "string \<Rightarrow> bool" where
  "isPublicCidr cidr \<longleftrightarrow> trim cidr \<in> set PUBLIC_CIDRS"

definition isPublicIngressRule :: "firewall_rule \<Rightarrow> bool" where
  "isPublicIngressRule r \<longleftrightarrow> fw_direction r = ''ingress'' \<and> (case fw_source r of Some c \<Rightarrow> isPublicCidr c | None \<Rightarrow> False)"

definition group_rules :: "security_group \<Rightarrow> firewall_rule list" where
  "group_rules g = (case sg_rules g of Some rs \<Rightarrow> rs | None \<Rightarrow> [])"

definition findPublicIngressExposures :: "security_group list option \<Rightarrow> (string \<times> firewall_rule) list" where
  "findPublicIngressExposures groups =
     concat (map (\<lambda>g. map (\<lambda>r. (sg_name g, r)) (filter isPublicIngressRule (group_rules g)))
       (case groups of Some gs \<Rightarrow> gs | None \<Rightarrow> []))"

definition rule_count :: "security_group \<Rightarrow> nat" where
  "rule_count g = (case sg_count g of Some n \<Rightarrow> n | None \<Rightarrow> (case sg_rules g of Some rs \<Rightarrow> length rs | None \<Rightarrow> 0))"

definition isPubliclyExposed :: "string \<Rightarrow> bool option \<Rightarrow> bool" where
  "isPubliclyExposed scheme publicExposure \<longleftrightarrow> scheme = ''internet-facing'' \<or> publicExposure = Some True"

definition isTlsListener :: "string \<Rightarrow> bool" where
  "isTlsListener protocol \<longleftrightarrow> map to_upper (trim protocol) \<in> set [''HTTPS'', ''TLS'']"

definition counted :: "nat \<Rightarrow> string \<Rightarrow> string \<Rightarrow> string" where
  "counted n one many = show_nat n @ '' '' @ (if n = 1 then one else many)"

definition traffic_path :: "string \<Rightarrow> string \<Rightarrow> string \<Rightarrow> nat \<Rightarrow> nat \<Rightarrow> string list" where
  "traffic_path scheme lbType name listeners groups =
     [if scheme = ''internet-facing'' then ''Internet'' else ''Private network'', lbType @ '' '' @ name,
      counted listeners ''listener'' ''listeners'', counted groups ''target group'' ''target groups'']"

section \<open>Storage and monitoring\<close>

definition UNENCRYPTED_VALUES :: "string list" where
  "UNENCRYPTED_VALUES = [''none'', ''disabled'', ''off'', ''unencrypted'', ''plaintext'']"

definition isEncryptionEnabled :: "string option \<Rightarrow> bool" where
  "isEncryptionEnabled encryption =
     (if \<not> given encryption then False
      else (let e = lower_case (trim (the encryption)) in e \<noteq> [] \<and> e \<notin> set UNENCRYPTED_VALUES))"

text \<open>A parsed address; the platform's parser is a parameter. \<open>Origin\<close> says whether an ellipsis follows.\<close>

record parsed_url =
  pu_protocol :: string
  pu_origin :: string
  pu_pathname :: string
  pu_search :: string
  pu_hash :: string

datatype destination = Verbatim string | Origin string bool | UnrecognizedWebhook

definition formatDestination :: "(string \<Rightarrow> parsed_url option) \<Rightarrow> string \<Rightarrow> string \<Rightarrow> destination" where
  "formatDestination parse kind target =
     (if kind \<noteq> ''webhook'' then Verbatim target
      else case parse target of
        None \<Rightarrow> UnrecognizedWebhook
      | Some url \<Rightarrow>
          if pu_protocol url \<noteq> ''https:'' \<and> pu_protocol url \<noteq> ''http:'' then UnrecognizedWebhook
          else Origin (pu_origin url) (pu_pathname url \<noteq> ''/'' \<or> pu_search url \<noteq> [] \<or> pu_hash url \<noteq> []))"

section \<open>Compute and costs\<close>

type_synonym properties = "(string \<times> string) list"

fun pickString :: "properties \<Rightarrow> string list \<Rightarrow> string option" where
  "pickString ps [] = None"
| "pickString ps (k # ks) =
     (case map_of ps k of Some v \<Rightarrow> if v \<noteq> [] then Some v else pickString ps ks | None \<Rightarrow> pickString ps ks)"

definition pickNumber :: "properties \<Rightarrow> string list \<Rightarrow> rat option" where
  "pickNumber ps ks = (case pickString ps ks of None \<Rightarrow> None | Some raw \<Rightarrow> js_number raw)"

definition pickEnum :: "string option \<Rightarrow> string list \<Rightarrow> string option" where
  "pickEnum v allowed = (case v of Some s \<Rightarrow> if s \<in> set allowed then Some s else None | None \<Rightarrow> None)"

definition jrat :: "rat option \<Rightarrow> json" where
  "jrat n = (case n of Some x \<Rightarrow> JNum x | None \<Rightarrow> JUndef)"

definition ARCHITECTURES :: "string list" where
  "ARCHITECTURES = [''x86_64'', ''arm64'']"

definition RESERVATIONS :: "string list" where
  "RESERVATIONS = [''reserved'', ''on-demand'', ''spot'']"

definition computePlanFromResource :: "string \<Rightarrow> properties \<Rightarrow> string option \<Rightarrow> json" where
  "computePlanFromResource service ps provider =
     (let hourly = pickNumber ps [''hourlyCostUsd'', ''hourly_cost_usd''];
          monthly = (case pickNumber ps [''monthlyCostUsd'', ''monthly_cost_usd''] of
                       Some m \<Rightarrow> Some m | None \<Rightarrow> map_option (\<lambda>h. h * 730) hourly);
          minNodes = pickNumber ps [''minNodes'', ''min_nodes'']; maxNodes = pickNumber ps [''maxNodes'', ''max_nodes''] in
      JObj
        [(''service'', JStr service), (''provider'', jundef provider),
         (''instanceType'', jundef (pickString ps [''instanceType'', ''instance_type''])),
         (''replicaCount'', JNum (case pickNumber ps [''count'', ''replicaCount'', ''replicas''] of Some n \<Rightarrow> n | None \<Rightarrow> 1)),
         (''autoScaling'',
            (case (minNodes, maxNodes) of
               (Some a, Some b) \<Rightarrow> JObj [(''min'', JNum a), (''max'', JNum b),
                 (''desired'', jrat (pickNumber ps [''desiredNodes'', ''desired_nodes'']))]
             | _ \<Rightarrow> JUndef)),
         (''os'', jundef (pickString ps [''os'', ''operatingSystem'', ''operating_system''])),
         (''architecture'', jundef (pickEnum (pickString ps [''architecture'', ''arch'']) ARCHITECTURES)),
         (''vcpu'', jrat (pickNumber ps [''vcpu'', ''vcpus''])),
         (''memoryGb'', jrat (pickNumber ps [''memoryGb'', ''memory_gb''])),
         (''hourlyCostUsd'', jrat hourly), (''monthlyCostUsd'', jrat monthly),
         (''reservation'', jundef (pickEnum (pickString ps [''reservation'']) RESERVATIONS))])"

definition HIGH_COST_MONTHLY_USD :: rat where
  "HIGH_COST_MONTHLY_USD = 500"

text \<open>The warnings without repetition; the dash, which is no character of the model, and \<open>toFixed(2)\<close> are parameters.\<close>

definition compute_warnings :: "string \<Rightarrow> (rat \<Rightarrow> string) \<Rightarrow> string option \<Rightarrow> rat option \<Rightarrow> string list option \<Rightarrow> string list" where
  "compute_warnings dash fixed reservation monthly notes =
     uniq
       ((case reservation of
           Some r \<Rightarrow> if r \<noteq> ''reserved''
             then [''Unreserved instance ('' @ r @ '') '' @ dash @ '' consider reserved pricing to reduce compute cost.''] else []
         | None \<Rightarrow> []) @
        (case monthly of
           Some m \<Rightarrow> if m \<ge> HIGH_COST_MONTHLY_USD
             then [''High-cost configuration '' @ dash @ '' estimated $'' @ fixed m @ ''/mo exceeds the $500/mo review threshold.''] else []
         | None \<Rightarrow> []) @
        (case notes of Some ns \<Rightarrow> ns | None \<Rightarrow> []))"

definition proportionalWidth :: "rat option \<Rightarrow> rat \<Rightarrow> rat option \<Rightarrow> rat option" where
  "proportionalWidth percentage monthly_cost chartDenominator =
     (case (percentage, chartDenominator) of
        (Some p, Some d) \<Rightarrow> Some (if d > 0 then min 100 (max 0 (monthly_cost / d * 100)) else 0)
      | _ \<Rightarrow> percentage)"

section \<open>Regions\<close>

record region_option =
  ro_id :: string
  ro_name :: string
  ro_available :: bool
  ro_restricted :: bool
  ro_latency :: "rat option"

record provider_option =
  po_provider :: string
  po_selected :: "string option"
  po_regions :: "region_option list"

record region_data =
  rd_main :: provider_option
  rd_providers :: "provider_option list option"

definition latencyStatus :: "rat option \<Rightarrow> string option" where
  "latencyStatus ms =
     map_option (\<lambda>l. if l < 100 then ''Low latency'' else if l < 250 then ''Medium latency'' else ''High latency'') ms"

definition providerOptions :: "region_data \<Rightarrow> provider_option list" where
  "providerOptions d = (case rd_providers d of Some ps \<Rightarrow> ps | None \<Rightarrow> [rd_main d])"

definition activeProvider :: "region_data \<Rightarrow> string \<Rightarrow> provider_option option" where
  "activeProvider d provider =
     (case List.find (\<lambda>o'. po_provider o' = provider) (providerOptions d) of
        Some x \<Rightarrow> Some x
      | None \<Rightarrow> (case providerOptions d of [] \<Rightarrow> None | x # xs \<Rightarrow> Some x))"

definition activeProviderId :: "region_data \<Rightarrow> string \<Rightarrow> string" where
  "activeProviderId d provider = (case activeProvider d provider of Some x \<Rightarrow> po_provider x | None \<Rightarrow> po_provider (rd_main d))"

definition active_regions :: "region_data \<Rightarrow> string \<Rightarrow> region_option list" where
  "active_regions d provider = (case activeProvider d provider of Some x \<Rightarrow> po_regions x | None \<Rightarrow> [])"

definition acceptedRegion :: "region_data \<Rightarrow> string \<Rightarrow> string option" where
  "acceptedRegion d provider =
     (if activeProviderId d provider = po_provider (rd_main d) then po_selected (rd_main d)
      else Option.bind (activeProvider d provider) po_selected)"

definition selectedRegion :: "region_data \<Rightarrow> string \<Rightarrow> string option" where
  "selectedRegion d provider =
     map_option ro_id
       (List.find (\<lambda>r. Some (ro_id r) = acceptedRegion d provider \<and> ro_available r \<and> \<not> ro_restricted r) (active_regions d provider))"

text \<open>A press on a region: nothing while it is disabled, and else the update.\<close>

definition press_region :: "region_data \<Rightarrow> string \<Rightarrow> bool \<Rightarrow> region_option \<Rightarrow> (string \<times> string) option" where
  "press_region d provider updates r =
     (if \<not> ro_available r \<or> ro_restricted r \<or> \<not> updates then None else Some (activeProviderId d provider, ro_id r))"

section \<open>What the cards guarantee\<close>

text \<open>An exposure is reported exactly for an ingress rule from everywhere.\<close>

lemma exposures_exact:
  "(n, r) \<in> set (findPublicIngressExposures (Some gs)) \<longleftrightarrow>
     (\<exists>g\<in>set gs. sg_name g = n \<and> r \<in> set (group_rules g) \<and> isPublicIngressRule r)"
  by (auto simp: findPublicIngressExposures_def)

text \<open>Of a webhook nothing but the origin is shown, and whether there was more.\<close>

lemma webhook_hides_path:
  assumes "parse s = Some u" and "parse t = Some w" and "pu_origin u = pu_origin w" and "pu_protocol u = pu_protocol w"
    and "pu_pathname u \<noteq> ''/''" and "pu_pathname w \<noteq> ''/''"
  shows "formatDestination parse ''webhook'' s = formatDestination parse ''webhook'' t"
  using assms by (simp add: formatDestination_def)

lemma proportionalWidth_bounds: "proportionalWidth (Some p) m (Some d) = Some x \<Longrightarrow> 0 \<le> x \<and> x \<le> 100"
  by (auto simp: proportionalWidth_def split: if_splits)

lemma storage_percent_bounds: "0 < allocated \<Longrightarrow> 0 < maximum \<Longrightarrow> 0 \<le> storage_percent allocated maximum \<and> storage_percent allocated maximum \<le> 100"
  by (simp add: storage_percent_def js_round_def)

text \<open>A selected region, and one that can be asked for, is available and not restricted.\<close>

lemma regions_respect_policy:
  "(selectedRegion d p = Some i \<longrightarrow> (\<exists>r\<in>set (active_regions d p). ro_id r = i \<and> ro_available r \<and> \<not> ro_restricted r)) \<and>
   (press_region d p u r = Some q \<longrightarrow> ro_available r \<and> \<not> ro_restricted r)"
  by (auto simp: selectedRegion_def press_region_def dest: find_SomeD split: if_splits)

lemma retention_kept:
  assumes "zdoc fmt databaseConfigSchema payload = Some d"
  shows "jget d ''backupRetentionDays'' = jget payload ''backupRetentionDays''"
proof -
  from assms obtain fs where z: "zdoc fmt (ZObj Strip fs) payload = Some d"
    and fs: "distinct (map fst fs)" "(''backupRetentionDays'', ZNum [NInt, NMin 0]) \<in> set fs"
    unfolding databaseConfigSchema_def zdoc_refine by auto
  have "zdoc fmt (ZNum [NInt, NMin 0]) (jget payload ''backupRetentionDays'') = Some (jget d ''backupRetentionDays'')"
    by (rule zdoc_field [OF z fs]) simp
  then show ?thesis unfolding zdoc_num by blast
qed

text \<open>
  The card of a database warns of what its payload says. If a payload is shown at all, then it states
  encryption, public access and deletion protection, and the risks that are shown are exactly: critical ones for
  storage that is not encrypted and for public access, warnings for deletion protection that is off and for a
  retention of zero days.
\<close>

theorem database_risks_are_those_of_payload:
  assumes "zod_documented fmt W" and "DatabaseConfigComponent W loading data = DatabaseShown risks indicators"
  shows "\<exists>encrypted public protected. jget data ''storageEncrypted'' = JBool encrypted \<and>
    jget data ''publiclyAccessible'' = JBool public \<and> jget data ''deletionProtection'' = JBool protected \<and>
    map (\<lambda>r. (dk_id r, dk_severity r)) risks =
      (if encrypted then [] else [(''unencrypted'', RiskCritical)]) @ (if public then [(''public'', RiskCritical)] else []) @
      (if protected then [] else [(''deletion_protection_off'', RiskWarning)]) @
      (if jget data ''backupRetentionDays'' = JNum 0 then [(''no_backups'', RiskWarning)] else [])"
proof -
  obtain d where d: "zdoc fmt databaseConfigSchema data = Some d" and risks: "risks = getDatabaseRisks d"
    using assms by (auto simp: DatabaseConfigComponent_def zod_Inr split: if_splits sum.splits)
  obtain e p t where b: "jget data ''storageEncrypted'' = JBool e" "jget d ''storageEncrypted'' = JBool e"
    "jget data ''publiclyAccessible'' = JBool p" "jget d ''publiclyAccessible'' = JBool p"
    "jget data ''deletionProtection'' = JBool t" "jget d ''deletionProtection'' = JBool t"
    using database_config_explicit [OF d] by (metis insertCI)
  have "jget d ''backupRetentionDays'' = jget data ''backupRetentionDays''"
    using retention_kept [OF d] by simp
  with b show ?thesis by (simp add: risks getDatabaseRisks_def)
qed

theorem database_risks_are_those_of_payload_witness:
  "\<exists>risks indicators.
     DatabaseConfigComponent sample_world False
       (JObj [(''engine'', JStr ''postgres''), (''allocatedStorageGb'', JNum 20), (''backupRetentionDays'', JNum 0),
         (''storageEncrypted'', JBool True), (''publiclyAccessible'', JBool True), (''deletionProtection'', JBool True)]) =
       DatabaseShown risks indicators \<and>
     map (\<lambda>r. (dk_id r, dk_severity r)) risks = [(''public'', RiskCritical), (''no_backups'', RiskWarning)]"
proof -
  let ?p = "JObj [(''engine'', JStr ''postgres''), (''allocatedStorageGb'', JNum 20), (''backupRetentionDays'', JNum 0),
      (''storageEncrypted'', JBool True), (''publiclyAccessible'', JBool True), (''deletionProtection'', JBool True)]"
  have "\<exists>d. zdoc (\<lambda>f s. s \<noteq> []) databaseConfigSchema ?p = Some d"
    by (simp add: databaseConfigSchema_def zdoc.simps object_doc_def shape_fields_def
        number_ok_def is_int_def storage_range_ok_def)
  then obtain risks indicators where shown: "DatabaseConfigComponent sample_world False ?p = DatabaseShown risks indicators"
    by (auto simp: DatabaseConfigComponent_def zod_Inr [OF sample_documented, symmetric] simp del: sample_world_simps)
  from database_risks_are_those_of_payload [OF sample_documented this]
  have "map (\<lambda>r. (dk_id r, dk_severity r)) risks = [(''public'', RiskCritical), (''no_backups'', RiskWarning)]" by auto
  from conjI [OF shown this] show ?thesis by (intro exI)
qed

end
