(* ===== verification/Resources_Page.thy ===== *)
theory Resources_Page
  imports Resource_Table Interactive
begin

text \<open>
  The page of resources (\<open>frontend/app/resources/page.tsx\<close>) with its banner (\<open>resource-drift-banner.tsx\<close>): loading,
  repeating a load that failed, the synchronisation and the export of a report, as a machine over presses and
  answers. What a load answers is arbitrary; the clock, the file and the download of an export are the platform's.
\<close>

section \<open>State\<close>

datatype view_state = ViewLoading | ViewDefault | ViewEmpty | ViewError

text \<open>The result of a load, or what it threw: an error with its message, or something else.\<close>

datatype load_result = Loaded "resource_item list" | NotLoaded string | LoadThrew "string option"

text \<open>The data of a report.\<close>

record resource_report =
  rr_title :: string
  rr_generated :: string
  rr_total :: nat
  rr_drift :: nat
  rr_providers :: "(cloud \<times> nat) list"
  rr_resources :: "resource_item list"

text \<open>
  \<open>rp_loads\<close> has the loads without an answer, each with whether a synchronisation waits for it; \<open>rp_reports\<close> logs
  the reports that were downloaded. A feedback is a success or not, with its text.
\<close>

record resources_page =
  rp_view :: view_state
  rp_error :: "string option"
  rp_resources :: "resource_item list"
  rp_exporting :: bool
  rp_syncing :: bool
  rp_feedback :: "(bool \<times> string) option"
  rp_loads :: "bool list"
  rp_reports :: "resource_report list"

definition load_resources :: "bool \<Rightarrow> resources_page \<Rightarrow> resources_page" where
  "load_resources sync s = s\<lparr>rp_view := ViewLoading, rp_error := None, rp_loads := rp_loads s @ [sync]\<rparr>"

definition resources_start :: resources_page where
  "resources_start = load_resources False
     \<lparr>rp_view = ViewLoading, rp_error = None, rp_resources = [], rp_exporting = False, rp_syncing = False, rp_feedback = None,
      rp_loads = [], rp_reports = []\<rparr>"

definition load_failed :: "string \<Rightarrow> resources_page \<Rightarrow> resources_page" where
  "load_failed m s = s\<lparr>rp_error := Some m, rp_resources := [], rp_view := ViewError\<rparr>"

text \<open>What follows the answer of \<open>load\<close>, with its value.\<close>

definition loaded :: "load_result \<Rightarrow> resources_page \<Rightarrow> bool \<times> resources_page" where
  "loaded r s =
     (case r of
        NotLoaded e \<Rightarrow> (False, load_failed e s)
      | Loaded [] \<Rightarrow> (True, s\<lparr>rp_resources := [], rp_error := None, rp_view := ViewEmpty\<rparr>)
      | Loaded rs \<Rightarrow> (True, s\<lparr>rp_resources := rs, rp_error := None, rp_view := ViewDefault\<rparr>)
      | LoadThrew m \<Rightarrow> (False, load_failed (case m of Some e \<Rightarrow> e | None \<Rightarrow> ''An unexpected error occurred while loading resources.'') s))"

definition sync_over :: "bool \<Rightarrow> resources_page \<Rightarrow> resources_page" where
  "sync_over ok s =
     s\<lparr>rp_feedback := Some (if ok then (True, ''State synchronization complete. Inventory is up to date.'')
         else (False, ''State synchronization failed. Please check credentials and retry.'')),
       rp_syncing := False\<rparr>"

definition load_answer :: "load_result \<Rightarrow> resources_page \<Rightarrow> resources_page" where
  "load_answer r s =
     (case rp_loads s of
        [] \<Rightarrow> s
      | sync # rest \<Rightarrow>
          (let (ok, s) = loaded r (s\<lparr>rp_loads := rest\<rparr>) in if sync then sync_over ok s else s))"

definition resource_report_of :: "string \<Rightarrow> resource_item list \<Rightarrow> resource_report" where
  "resource_report_of time rs =
     \<lparr>rr_title = ''Provisr Cloud Resource Inventory'', rr_generated = time, rr_total = length rs, rr_drift = driftCount rs,
      rr_providers = providerCounts rs, rr_resources = rs\<rparr>"

text \<open>An export at a time, and what the platform threw of it, if it did.\<close>

definition handleExport :: "string \<Rightarrow> string option option \<Rightarrow> resources_page \<Rightarrow> resources_page" where
  "handleExport time thrown s =
     (if rp_resources s = [] \<or> rp_exporting s then s
      else (let s = s\<lparr>rp_exporting := True, rp_feedback := None\<rparr>;
                s = (case thrown of
                       None \<Rightarrow> s\<lparr>rp_reports := rp_reports s @ [resource_report_of time (rp_resources s)],
                         rp_feedback := Some (True, ''Resource report exported successfully ('' @ show_nat (length (rp_resources s)) @ '' resources).'')\<rparr>
                     | Some m \<Rightarrow> s\<lparr>rp_feedback := Some (False, case m of Some e \<Rightarrow> e | None \<Rightarrow> ''Failed to export resource report.'')\<rparr>)
            in s\<lparr>rp_exporting := False\<rparr>))"

definition handleSync :: "resources_page \<Rightarrow> resources_page" where
  "handleSync s = (if rp_syncing s then s else load_resources True (s\<lparr>rp_syncing := True, rp_feedback := None\<rparr>))"

text \<open>The buttons: which are disabled, and that of a failed load is only there after one.\<close>

datatype resources_event = LoadAnswer load_result | PressExport string "string option option" | PressSync | PressRetryLoad | PressDismiss

fun resources_step :: "resources_page \<Rightarrow> resources_event \<Rightarrow> resources_page" where
  "resources_step s (LoadAnswer r) = load_answer r s"
| "resources_step s (PressExport time thrown) =
     (if rp_resources s = [] \<or> rp_exporting s \<or> rp_view s = ViewLoading then s else handleExport time thrown s)"
| "resources_step s PressSync = (if rp_syncing s \<or> rp_view s = ViewLoading then s else handleSync s)"
| "resources_step s PressRetryLoad = (if rp_error s \<noteq> None \<or> rp_view s = ViewError then load_resources False s else s)"
| "resources_step s PressDismiss = s\<lparr>rp_feedback := None\<rparr>"

definition resources_run :: "resources_event list \<Rightarrow> resources_page" where
  "resources_run es = foldl resources_step resources_start es"

text \<open>The statistics and the banner.\<close>

definition provider_detail :: "resources_page \<Rightarrow> string" where
  "provider_detail s =
     (let n = length (providerCounts (rp_resources s)) in
      ''across '' @ show_nat n @ '' provider'' @ (if n = 1 then [] else ''s''))"

definition drift_banner :: "nat \<Rightarrow> string \<times> string" where
  "drift_banner n =
     (if n > 0
      then (''Configuration drift detected'',
            show_nat n @ '' resource'' @ (if n = 1 then [] else ''s'') @ '' out of sync with the last planned state.'')
      else (''All resources in sync'', ''Last state sync completed without drift.''))"

section \<open>The page\<close>

text \<open>
  What the page shows is what the last load answered; a synchronisation is under way while its load is; and
  at most one load is under way.
\<close>

definition resources_ok :: "resources_page \<Rightarrow> bool" where
  "resources_ok s \<longleftrightarrow>
     \<not> rp_exporting s \<and>
     (case rp_view s of
        ViewLoading \<Rightarrow> rp_loads s = [rp_syncing s] \<and> rp_error s = None
      | ViewDefault \<Rightarrow> rp_loads s = [] \<and> \<not> rp_syncing s \<and> rp_resources s \<noteq> [] \<and> rp_error s = None
      | ViewEmpty \<Rightarrow> rp_loads s = [] \<and> \<not> rp_syncing s \<and> rp_resources s = [] \<and> rp_error s = None
      | ViewError \<Rightarrow> rp_loads s = [] \<and> \<not> rp_syncing s \<and> rp_resources s = [] \<and> rp_error s \<noteq> None)"

text \<open>A report that adds up.\<close>

definition good_report :: "resource_report \<Rightarrow> bool" where
  "good_report r \<longleftrightarrow> rr_resources r \<noteq> [] \<and> rr_total r = length (rr_resources r) \<and>
     sum_list (map snd (rr_providers r)) = rr_total r \<and> rr_drift r \<le> rr_total r \<and> (\<forall>(p, n)\<in>set (rr_providers r). n > 0)"

lemma counts_add_up: "sum_list (map snd (providerCounts rs)) = length rs"
proof -
  have "length (filter (\<lambda>r. ri_provider r = Aws) rs) + (length (filter (\<lambda>r. ri_provider r = Azure) rs) +
      length (filter (\<lambda>r. ri_provider r = Gcp) rs)) = length rs"
  proof (induction rs)
    case (Cons r rs)
    then show ?case by (cases "ri_provider r") simp_all
  qed simp
  moreover have "sum_list (map snd (filter (\<lambda>x. snd x > 0) xs)) = sum_list (map snd xs)" for xs :: "(cloud \<times> nat) list"
    by (induction xs) auto
  ultimately show ?thesis by (simp only: providerCounts_def) simp
qed

lemma counts_positive: "(p, n) \<in> set (providerCounts rs) \<Longrightarrow> 0 < n"
  unfolding providerCounts_def by (simp only: set_filter mem_Collect_eq snd_conv)

lemma report_good: "rs \<noteq> [] \<Longrightarrow> good_report (resource_report_of time rs)"
  using counts_positive [of _ _ rs] by (simp add: good_report_def resource_report_of_def counts_add_up driftCount_def) blast

interpretation inventory: interactive resources_step resources_ok rp_reports good_report
proof
  fix s e assume ok: "resources_ok s"
  show "resources_ok (resources_step s e)"
    using ok by (cases e)
      (auto simp: resources_ok_def load_answer_def loaded_def load_failed_def sync_over_def handleExport_def handleSync_def load_resources_def Let_def
        split: view_state.splits load_result.splits list.splits option.splits)
  show "\<exists>new. rp_reports (resources_step s e) = rp_reports s @ new \<and> list_all good_report new"
  proof (cases e)
    case (PressExport time thrown)
    with report_good show ?thesis by (auto simp: handleExport_def Let_def split: option.split)
  qed (auto simp: load_answer_def loaded_def load_failed_def sync_over_def handleSync_def load_resources_def Let_def
        split: load_result.splits list.splits)
qed

lemma resources_run_ok: "resources_ok (resources_run es)"
  unfolding resources_run_def
  by (rule inventory.run_inv) (simp add: resources_ok_def resources_start_def load_resources_def)

text \<open>
  Every report that was downloaded adds up, and was made of what the page showed: its number of resources, its counts
  of the providers and its number of drifted ones.
\<close>

lemma reports_add_up:
  assumes "r \<in> set (rp_reports (resources_run es))"
  shows "good_report r"
proof -
  have "list_all good_report (rp_reports (resources_run es))"
    unfolding resources_run_def
    by (rule inventory.run_good) (simp_all add: resources_ok_def resources_start_def load_resources_def)
  with assms show ?thesis by (auto simp: list_all_iff)
qed

text \<open>
  The page shows what its load answered. In every run at most one load is under way, exactly while the page
  says so, and a synchronisation lasts no longer than its load; and whenever a load is under way, its
  answer ends it, whatever it is: the page shows the resources, that there are none, or the error, and a
  synchronisation reports its outcome.
\<close>

theorem load_is_always_settled:
  "let s = resources_run es; t = resources_run (es @ [LoadAnswer r]) in
   length (rp_loads s) = (if rp_view s = ViewLoading then 1 else 0) \<and> (rp_syncing s \<longrightarrow> rp_view s = ViewLoading) \<and>
   (rp_view s = ViewLoading \<longrightarrow>
      rp_loads t = [] \<and> \<not> rp_syncing t \<and> rp_view t \<noteq> ViewLoading \<and>
      (case r of
         Loaded rs \<Rightarrow> rp_resources t = rs \<and> rp_error t = None \<and> (rp_view t = ViewEmpty \<longleftrightarrow> rs = [])
       | NotLoaded e \<Rightarrow> rp_resources t = [] \<and> rp_error t = Some e
       | LoadThrew m \<Rightarrow> rp_resources t = [] \<and> rp_view t = ViewError) \<and>
      (rp_syncing s \<longrightarrow> map_option fst (rp_feedback t) = Some (\<exists>rs. r = Loaded rs)))"
proof -
  let ?s = "resources_run es"
  have ok: "resources_ok ?s" by (rule resources_run_ok)
  have step: "resources_run (es @ [LoadAnswer r]) = load_answer r ?s" by (simp add: resources_run_def)
  show ?thesis
  proof (cases "rp_view ?s = ViewLoading")
    case True
    then have "rp_loads ?s = [rp_syncing ?s]" using ok by (simp add: resources_ok_def)
    then show ?thesis using True unfolding step
      by (auto simp: Let_def load_answer_def loaded_def load_failed_def sync_over_def split: load_result.split list.split)
  next
    case False
    with ok show ?thesis by (auto simp: Let_def resources_ok_def split: view_state.splits)
  qed
qed

theorem load_is_always_settled_witness:
  "rp_view (resources_run [LoadAnswer (Loaded [sample_item]), PressSync]) = ViewLoading \<and>
   rp_resources (resources_run [LoadAnswer (Loaded [sample_item]), PressSync, LoadAnswer (NotLoaded ''e'')]) = []"
proof -
  have "rp_view (resources_run [LoadAnswer (Loaded [sample_item]), PressSync]) = ViewLoading"
    by (simp add: resources_run_def resources_start_def load_resources_def load_answer_def loaded_def handleSync_def)
  with load_is_always_settled [of "[LoadAnswer (Loaded [sample_item]), PressSync]" "NotLoaded ''e''"]
  show ?thesis by (simp add: Let_def)
qed

end
