(* ===== verification/Status_Cards.thy ===== *)
theory Status_Cards
  imports Dashboard "HOL-Library.Sublist" "HOL-Library.Multiset"
begin

text \<open>
  What a conversation shows: the message with its parts (\<open>frontend/components/ui/chat-message.tsx\<close> and its
  siblings), the summary of an architecture (\<open>architecture-summary.tsx\<close>), the formats of sizes and times
  (\<open>frontend/lib/format.ts\<close>, \<open>time.ts\<close>), the renderer of the registry (\<open>RegistryRenderer.tsx\<close>), and the cards
  that report findings, policy results and drift (\<open>registry/components/security_warning.tsx\<close>,
  \<open>policy_result.tsx\<close>, \<open>drift_status.tsx\<close>). \<open>toFixed(1)\<close> and the calendar are the platform's.
\<close>

section \<open>Security findings\<close>

datatype review_state = ReviewDefault | ReviewLoading | ReviewError

datatype security_card = CheckingFindings | FindingsUnavailable | NoFindings | FindingsShown bool "(string \<times> json list) list"

definition severities :: "string list" where
  "severities = [''critical'', ''high'', ''medium'', ''low'']"

definition listed_findings :: "json \<Rightarrow> json list" where
  "listed_findings d =
     (if has_key d ''findings'' then (case js_arr (jget d ''findings'') of Some vs \<Rightarrow> vs | None \<Rightarrow> []) else [d])"

definition urgent_findings :: "json list \<Rightarrow> bool" where
  "urgent_findings vs = list_ex (\<lambda>v. jget v ''severity'' = JStr ''critical'' \<or> jget v ''severity'' = JStr ''high'') vs"

definition finding_groups :: "json list \<Rightarrow> (string \<times> json list) list" where
  "finding_groups vs =
     filter (\<lambda>g. snd g \<noteq> []) (map (\<lambda>s. (s, filter (\<lambda>v. jget v ''severity'' = JStr s) vs)) severities)"

definition suggested_fixes :: "json \<Rightarrow> json list" where
  "suggested_fixes v =
     (if truthy (jget v ''suggestedFix'') then [jget v ''suggestedFix''] else []) @
     (case js_arr (coalesce (jget v ''mitigationSteps'') (JArr [])) of Some vs \<Rightarrow> vs | None \<Rightarrow> [])"

definition SecurityWarningComponent :: "world \<Rightarrow> review_state \<Rightarrow> json \<Rightarrow> security_card" where
  "SecurityWarningComponent W view data =
     (if view = ReviewLoading then CheckingFindings
      else case zparse W securityWarningSchema data of
        Inl issues \<Rightarrow> FindingsUnavailable
      | Inr d \<Rightarrow>
          if view = ReviewError then FindingsUnavailable
          else (let findings = listed_findings d in
                if findings = [] then NoFindings else FindingsShown (urgent_findings findings) (finding_groups findings)))"

section \<open>Policy results and drift\<close>

text \<open>The badge, and the violations or (\<open>None\<close>) the line that all guardrails passed.\<close>

definition PolicyResultComponent :: "json \<Rightarrow> string \<times> json list option" where
  "PolicyResultComponent d =
     (''Policy Gate: '' @ map to_upper (case jget d ''status'' of JStr s \<Rightarrow> s | _ \<Rightarrow> []),
      case jget d ''violations'' of JArr vs \<Rightarrow> if vs \<noteq> [] then Some vs else None | _ \<Rightarrow> None)"

text \<open>The badge, and the drifted resources or the line that there is no drift.\<close>

definition DriftStatusComponent :: "json \<Rightarrow> string \<times> json list option" where
  "DriftStatusComponent d =
     (if truthy (jget d ''hasDrift'') then ''Drift Detected'' else ''In Sync'',
      case jget d ''driftedResources'' of JArr vs \<Rightarrow> if vs \<noteq> [] then Some vs else None | _ \<Rightarrow> None)"

section \<open>Sizes and times\<close>

definition formatBytes :: "(rat \<Rightarrow> string) \<Rightarrow> nat \<Rightarrow> string" where
  "formatBytes fixed bytes =
     (if bytes < 1024 then show_nat bytes @ '' B''
      else (let kb = of_nat bytes / 1024 in
            if kb < 1024 then fixed kb @ '' KB'' else fixed (kb / 1024) @ '' MB''))"

definition formatDurationMs :: "(rat \<Rightarrow> string) \<Rightarrow> nat \<Rightarrow> string" where
  "formatDurationMs fixed ms = (if ms < 1000 then show_nat ms @ ''ms'' else fixed (of_nat ms / 1000) @ ''s'')"

text \<open>The calendar: the instant of a text, the day and the year of an instant, and its text with the year or without.\<close>

record calendar =
  cal_parse :: "string \<Rightarrow> int option"
  cal_day :: "int \<Rightarrow> string"
  cal_year :: "int \<Rightarrow> int"
  cal_text :: "int \<Rightarrow> bool \<Rightarrow> string"

datatype relative_time = NoTime | JustNow | MinutesAgo nat | Yesterday | HoursAgo nat | OnDate string

definition formatRelativeTime :: "calendar \<Rightarrow> string \<Rightarrow> int \<Rightarrow> relative_time" where
  "formatRelativeTime C stamp time =
     (case cal_parse C stamp of
        None \<Rightarrow> NoTime
      | Some t \<Rightarrow>
          (let diff = time - t; minutes = diff div 60000; hours = minutes div 60;
               dated = OnDate (cal_text C t (cal_year C t \<noteq> cal_year C time)) in
           if diff < 60000 then JustNow
           else if minutes < 60 then MinutesAgo (nat minutes)
           else if hours < 24 then
             (if cal_day C t = cal_day C (time - 86400000) then Yesterday
              else if cal_day C t = cal_day C time then HoursAgo (nat hours) else dated)
           else dated))"

lemma relative_time_bounds:
  "formatRelativeTime C stamp time = MinutesAgo n \<Longrightarrow> 1 \<le> n \<and> n < 60"
  "formatRelativeTime C stamp time = HoursAgo n \<Longrightarrow> 1 \<le> n \<and> n < 24"
  by (auto simp: formatRelativeTime_def Let_def split: option.splits if_splits)

section \<open>Messages\<close>

datatype message_role = FromUser | FromAssistant | FromSystem

datatype message_status = MsgSending | MsgSent | MsgStreaming | MsgComplete | MsgError

record chat_item =
  ci_id :: string
  ci_run :: string
  ci_role :: message_role
  ci_content :: string
  ci_status :: message_status
  ci_created :: string
  ci_sender :: "string option"
  ci_attachments :: "(string \<times> nat option) list option"
  ci_tool :: "(string \<times> nat \<times> string) option"
  ci_components :: "json list option"
  ci_error :: "string option"

text \<open>
  The parts of a message in their order. A tool's line has its name, its duration and, while it is unfolded,
  its result. A component is rendered (\<open>Component\<close>), or named by its type and version where nobody renders it.
\<close>

datatype message_part =
    Content string
  | Attached string "string option"
  | Cursor
  | ErrorText string
  | ToolLine string string "string option"
  | Component json
  | ComponentNamed json json
  | Created string
  | RetryButton string
  | Avatar string

definition avatar_initials :: "string option \<Rightarrow> string" where
  "avatar_initials n =
     (if \<not> given n then ''?'' else concat (map (\<lambda>p. map to_upper (take 1 p)) (take 2 (name_parts (the n)))))"

definition retry_part :: "bool \<Rightarrow> chat_item \<Rightarrow> message_part list" where
  "retry_part retries m = (if ci_status m \<noteq> MsgError \<or> \<not> retries then [] else [RetryButton (ci_id m)])"

definition UserMessage :: "(rat \<Rightarrow> string) \<Rightarrow> bool \<Rightarrow> chat_item \<Rightarrow> message_part list" where
  "UserMessage fixed retries m =
     [Content (ci_content m)] @
     map (\<lambda>(n, size). Attached n (map_option (formatBytes fixed) size)) (case ci_attachments m of Some as \<Rightarrow> as | None \<Rightarrow> []) @
     [Created (ci_created m)] @ retry_part retries m @ [Avatar (avatar_initials (ci_sender m))]"

definition ToolSummary :: "(rat \<Rightarrow> string) \<Rightarrow> bool \<Rightarrow> string \<times> nat \<times> string \<Rightarrow> message_part" where
  "ToolSummary fixed unfolded summary =
     (case summary of (n, ms, r) \<Rightarrow> ToolLine n (formatDurationMs fixed ms) (if unfolded then Some r else None))"

definition ComponentCard :: "bool \<Rightarrow> json \<Rightarrow> message_part" where
  "ComponentCard renders payload =
     (if renders then Component payload else ComponentNamed (jget payload ''type'') (jget payload ''version''))"

definition AssistantMessage :: "(rat \<Rightarrow> string) \<Rightarrow> bool \<Rightarrow> bool \<Rightarrow> bool \<Rightarrow> chat_item \<Rightarrow> message_part list" where
  "AssistantMessage fixed retries renders unfolded m =
     [Content (ci_content m)] @ (if ci_status m = MsgStreaming then [Cursor] else []) @
     (if ci_status m = MsgError \<and> given (ci_error m) then [ErrorText (the (ci_error m))] else []) @
     (case ci_tool m of Some summary \<Rightarrow> [ToolSummary fixed unfolded summary] | None \<Rightarrow> []) @
     map (ComponentCard renders) (case ci_components m of Some vs \<Rightarrow> vs | None \<Rightarrow> []) @
     [Created (ci_created m)] @ retry_part retries m"

text \<open>A message is given a renderer, or takes that of the registry around it, if there is one.\<close>

definition ChatMessage :: "(rat \<Rightarrow> string) \<Rightarrow> bool \<Rightarrow> bool \<Rightarrow> bool \<Rightarrow> bool \<Rightarrow> chat_item \<Rightarrow> message_part list" where
  "ChatMessage fixed retries renderer registry unfolded m =
     (case ci_role m of
        FromUser \<Rightarrow> UserMessage fixed retries m
      | FromSystem \<Rightarrow> [Content (ci_content m)]
      | FromAssistant \<Rightarrow> AssistantMessage fixed retries (renderer \<or> registry) unfolded m)"

text \<open>Only a failed message of the user or the assistant can be sent again, and only under its own identifier.\<close>

lemma retry_only_failed:
  "RetryButton i \<in> set (ChatMessage fixed retries renderer registry unfolded m) \<longleftrightarrow>
     retries \<and> ci_status m = MsgError \<and> ci_role m \<noteq> FromSystem \<and> i = ci_id m"
  by (cases "ci_role m")
    (auto simp: ChatMessage_def UserMessage_def AssistantMessage_def retry_part_def ToolSummary_def ComponentCard_def split: option.splits)

section \<open>The summary of an architecture\<close>

record architecture =
  as_provider :: string
  as_region :: string
  as_environment :: string
  as_count :: int
  as_resources :: "(string \<times> int) list"
  as_assumptions :: "string list"
  as_unknowns :: "string list"
  as_warnings :: "string list"

datatype summary_state = SummaryLoading | SummaryDefault | SummaryEmpty

text \<open>A summary lists heading, lines of resources, assumptions, unknowns with whether they can be clarified, and warnings.\<close>

datatype summary_card =
    SummarySkeleton
  | NothingIdentified
  | SummaryShown string "string list" "string list" "(string \<times> bool) list" "string list"

definition capitalized :: "string \<Rightarrow> string" where
  "capitalized s = map to_upper (take 1 s) @ drop 1 s"

definition ArchitectureSummary :: "architecture option \<Rightarrow> summary_state \<Rightarrow> bool \<Rightarrow> summary_card" where
  "ArchitectureSummary payload view clarifies =
     (case payload of
        None \<Rightarrow> SummarySkeleton
      | Some a \<Rightarrow>
          if view = SummaryLoading then SummarySkeleton
          else if view = SummaryEmpty \<or>
            (as_resources a = [] \<and> as_assumptions a = [] \<and> as_unknowns a = [] \<and> as_warnings a = []) then NothingIdentified
          else SummaryShown (if as_count a > 0 then show_int (as_count a) @ '' resources'' else ''Resources'')
            (map (\<lambda>(t, n). show_int n @ ''x '' @ capitalized t) (as_resources a)) (as_assumptions a)
            (map (\<lambda>u. (u, clarifies)) (as_unknowns a)) (as_warnings a))"

section \<open>The renderer\<close>

text \<open>What is rendered, and whether the component gets the handlers of navigation or those of a region.\<close>

datatype 'c rendering =
    UnknownComponentFallback string
  | InvalidPayloadFallback string invalid_reason "payload_issue list"
  | Rendered 'c json bool bool

definition RegistryRenderer :: "world \<Rightarrow> 'c registry \<Rightarrow> json \<Rightarrow> 'c rendering" where
  "RegistryRenderer W entries payload =
     (case resolvePayload W entries payload of
        Unknown t \<Rightarrow> UnknownComponentFallback t
      | Invalid t reason issues \<Rightarrow> InvalidPayloadFallback t reason issues
      | Render t c d \<Rightarrow> Rendered c d (t = ''resource_table'') (t = ''region_selector''))"

section \<open>What the cards say\<close>

lemma zdoc_strict_out: "zdoc fmt (ZObj Strict fs) v = Some w \<Longrightarrow> fst ` set (js_fields w) \<subseteq> fst ` set fs"
  by (auto simp: zdoc.simps object_doc_def shape_fields_def Let_def comp_def
      split: json.splits option.splits if_splits dest!: set_zip_leftD)

lemma finding_severity:
  assumes "zdoc fmt securityFindingSchema v = Some w"
  shows "\<exists>s\<in>set severities. jget w ''severity'' = JStr s"
proof -
  from assms obtain fs where z: "zdoc fmt (ZObj Strict fs) v = Some w"
    and fs: "distinct (map fst fs)" "(''severity'', ZEnum severities) \<in> set fs"
    unfolding securityFindingSchema_def severities_def by auto
  have "zdoc fmt (ZEnum severities) (jget v ''severity'') = Some (jget w ''severity'')"
    by (rule zdoc_field [OF z fs]) simp
  then show ?thesis unfolding zdoc_enum by auto
qed

lemma findings_parsed:
  assumes "zdoc fmt securityWarningSchema v = Some d"
  shows "\<forall>w\<in>set (listed_findings d). \<exists>s\<in>set severities. jget w ''severity'' = JStr s"
    and "listed_findings d = [] \<Longrightarrow> jget v ''findings'' = JArr []"
proof -
  let ?list = "ZObj Strict [(''findings'', ZArr securityFindingSchema None (Some 200))]"
  have d: "zdoc fmt ?list v = Some d \<or> zdoc fmt securityFindingSchema v = Some d"
    using assms unfolding securityWarningSchema_def zdoc.simps(14) by (auto split: option.splits)
  have single: "listed_findings d = [d]" if "zdoc fmt securityFindingSchema v = Some d"
  proof -
    have "fst ` set (js_fields d) \<subseteq> {''title'', ''severity'', ''description'', ''affectedResource'', ''suggestedFix'', ''mitigationSteps''}"
      using zdoc_strict_out [OF that [unfolded securityFindingSchema_def]] by simp
    then have "\<not> has_key d ''findings''" by (auto simp: has_key_def)
    then show ?thesis by (simp add: listed_findings_def)
  qed
  have many: "\<exists>vs ws. jget v ''findings'' = JArr vs \<and> jget d ''findings'' = JArr ws \<and> map (zdoc fmt securityFindingSchema) vs = map Some ws"
    if "zdoc fmt ?list v = Some d"
    using zdoc_field [OF that, of "''findings''" "ZArr securityFindingSchema None (Some 200)"] unfolding zdoc_arr by auto
  have listed: "listed_findings d = ws" if "zdoc fmt ?list v = Some d" "jget d ''findings'' = JArr ws" for ws
  proof -
    have "is_obj d" using zdoc_obj_is_obj [OF that(1)] by simp
    then have "has_key d ''findings''" using that(2) by (cases d) (auto simp: has_key_def split: option.splits, force dest: map_of_SomeD)
    then show ?thesis using that(2) by (simp add: listed_findings_def)
  qed
  show "\<forall>w\<in>set (listed_findings d). \<exists>s\<in>set severities. jget w ''severity'' = JStr s"
  proof
    fix w assume w: "w \<in> set (listed_findings d)"
    show "\<exists>s\<in>set severities. jget w ''severity'' = JStr s"
    proof (cases "zdoc fmt ?list v = Some d")
      case True
      from many [OF True] obtain vs ws where ws: "jget d ''findings'' = JArr ws" "map (zdoc fmt securityFindingSchema) vs = map Some ws" by blast
      from w listed [OF True ws(1)] have "Some w \<in> set (map Some ws)" by simp
      then have "Some w \<in> set (map (zdoc fmt securityFindingSchema) vs)" by (simp only: ws(2))
      then show ?thesis using finding_severity by auto
    next
      case False
      with d single w finding_severity show ?thesis by auto
    qed
  qed
  assume none: "listed_findings d = []"
  with d single have "zdoc fmt ?list v = Some d" by auto
  with many listed none show "jget v ''findings'' = JArr []" by fastforce
qed

lemma groups_complete:
  assumes "\<forall>w\<in>set vs. \<exists>s\<in>set severities. jget w ''severity'' = JStr s"
  shows "mset (concat (map snd (finding_groups vs))) = mset vs"
proof -
  have "concat (map snd (filter (\<lambda>g. snd g \<noteq> []) xs)) = concat (map snd xs)" for xs :: "(string \<times> json list) list"
    by (induction xs) auto
  then have "concat (map snd (finding_groups vs)) = concat (map (\<lambda>s. filter (\<lambda>v. jget v ''severity'' = JStr s) vs) severities)"
    by (simp add: finding_groups_def comp_def)
  also have "mset \<dots> = mset vs"
    using assms
  proof (induction vs)
    case (Cons v vs)
    then have "mset (concat (map (\<lambda>s. filter (\<lambda>v. jget v ''severity'' = JStr s) vs) severities)) = mset vs" by simp
    moreover obtain s where "s \<in> set severities" "jget v ''severity'' = JStr s" using Cons.prems by auto
    ultimately show ?case unfolding severities_def by auto
  qed (simp add: severities_def)
  finally show ?thesis .
qed

text \<open>
  The card of security findings neither hides nor invents one. What it shows are exactly the findings of the validated
  payload, each once, under its own severity, the critical ones first, and as an alert exactly if one is critical or
  high; and it reports that there are none only for a payload that itself lists none.
\<close>

theorem findings_are_shown_once:
  assumes "zod_documented fmt W"
  shows "(SecurityWarningComponent W view data = NoFindings \<longrightarrow> jget data ''findings'' = JArr []) \<and>
    (SecurityWarningComponent W view data = FindingsShown urgent groups \<longrightarrow>
      (\<exists>d. zdoc fmt securityWarningSchema data = Some d \<and> mset (concat (map snd groups)) = mset (listed_findings d)) \<and>
      (\<forall>(s, vs)\<in>set groups. vs \<noteq> [] \<and> (\<forall>v\<in>set vs. jget v ''severity'' = JStr s)) \<and>
      subseq (map fst groups) [''critical'', ''high'', ''medium'', ''low''] \<and>
      (urgent \<longleftrightarrow> ''critical'' \<in> fst ` set groups \<or> ''high'' \<in> fst ` set groups))"
proof (cases "zparse W securityWarningSchema data")
  case (Inl issues)
  then show ?thesis by (simp add: SecurityWarningComponent_def)
next
  case (Inr d)
  then have d: "zdoc fmt securityWarningSchema data = Some d" by (simp add: zod_Inr [OF assms])
  let ?vs = "listed_findings d"
  have groups: "\<forall>(s, vs)\<in>set (finding_groups ?vs). vs \<noteq> [] \<and> (\<forall>v\<in>set vs. jget v ''severity'' = JStr s)"
    by (auto simp: finding_groups_def)
  have order: "subseq (map fst (finding_groups ?vs)) [''critical'', ''high'', ''medium'', ''low'']"
  proof -
    have "subseq (map fst (filter P (map f xs))) (map (fst \<circ> f) xs)" for P and f :: "string \<Rightarrow> string \<times> json list" and xs
      using subseq_map [OF subseq_filter_left, of fst P "map f xs"] by simp
    from this [of "\<lambda>g. snd g \<noteq> []" "\<lambda>s. (s, filter (\<lambda>v. jget v ''severity'' = JStr s) ?vs)" severities]
    show ?thesis by (simp add: finding_groups_def comp_def severities_def)
  qed
  have urgent: "urgent_findings ?vs \<longleftrightarrow> ''critical'' \<in> fst ` set (finding_groups ?vs) \<or> ''high'' \<in> fst ` set (finding_groups ?vs)"
    by (auto simp: urgent_findings_def finding_groups_def severities_def list_ex_iff filter_empty_conv)
  from groups order urgent groups_complete [OF findings_parsed(1) [OF d]] findings_parsed(2) [OF d] d Inr
  show ?thesis by (auto simp: SecurityWarningComponent_def Let_def split: if_splits)
qed

definition sample_findings :: json where
  "sample_findings = JObj [(''findings'', JArr
     [JObj [(''title'', JStr ''a''), (''severity'', JStr ''low''), (''description'', JStr ''x'')],
      JObj [(''title'', JStr ''b''), (''severity'', JStr ''high''), (''description'', JStr ''y'')]])]"

lemma sample_findings_valid: "zdoc (\<lambda>f s. s \<noteq> []) securityWarningSchema sample_findings = Some sample_findings"
  by (simp add: securityWarningSchema_def securityFindingSchema_def sample_findings_def zdoc.simps object_doc_def shape_fields_def
      array_doc_def len_ok_def trim_def is_ws_def code_unit_def)

theorem findings_are_shown_once_witness:
  "\<exists>groups. SecurityWarningComponent sample_world ReviewDefault sample_findings = FindingsShown True groups \<and>
     map fst groups = [''high'', ''low''] \<and> mset (concat (map snd groups)) = mset (listed_findings sample_findings)"
proof -
  let ?groups = "finding_groups (listed_findings sample_findings)"
  have shown: "urgent_findings (listed_findings sample_findings)" "listed_findings sample_findings \<noteq> []" "map fst ?groups = [''high'', ''low'']"
    by code_simp+
  have "zparse sample_world securityWarningSchema sample_findings = Inr sample_findings"
    using sample_findings_valid by (simp add: zod_Inr [OF sample_documented] del: sample_world_simps)
  then have c: "SecurityWarningComponent sample_world ReviewDefault sample_findings = FindingsShown True ?groups"
    using shown by (simp add: SecurityWarningComponent_def Let_def del: sample_world_simps)
  from findings_are_shown_once [OF sample_documented, of ReviewDefault sample_findings True ?groups] c sample_findings_valid
  have "mset (concat (map snd ?groups)) = mset (listed_findings sample_findings)" by simp
  with c shown(3) show ?thesis by (intro exI conjI)
qed

text \<open>
  A valid result that failed without listing violations, or with an empty list, is shown with the line that all
  guardrails passed; and a drift without listed resources with the line that there is none.
\<close>

lemma failed_policy_reads_as_passed:
  "zdoc fmt policyResultSchema (JObj [(''status'', JStr ''failed''), (''evaluatedCount'', JNum 3), (''passedCount'', JNum 1)]) =
     Some (JObj [(''status'', JStr ''failed''), (''evaluatedCount'', JNum 3), (''passedCount'', JNum 1)])"
  "PolicyResultComponent (JObj [(''status'', JStr ''failed''), (''evaluatedCount'', JNum 3), (''passedCount'', JNum 1)]) =
     (''Policy Gate: FAILED'', None)"
  by (simp_all add: policyResultSchema_def zdoc.simps object_doc_def shape_fields_def, code_simp)

lemma drift_reads_as_none:
  "zdoc fmt driftStatusSchema (JObj [(''hasDrift'', JBool True), (''lastCheckedAt'', JStr t)]) =
     Some (JObj [(''hasDrift'', JBool True), (''lastCheckedAt'', JStr t)])"
  "DriftStatusComponent (JObj [(''hasDrift'', JBool True), (''lastCheckedAt'', JStr t)]) = (''Drift Detected'', None)"
  by (simp_all add: driftStatusSchema_def zdoc.simps object_doc_def shape_fields_def DriftStatusComponent_def)

end
