(* ===== verification/Spec2Isabelle.thy ===== *)
theory Spec2Isabelle
  imports Workflow_Fsm Tenancy Runs_Progress Run_Scheduler Routes Frontend_Stubs Dashboard Live_Hook Onboarding Cloud_Page Question_Cards Policy_Page Registry_Cards Resources_Page Status_Cards
begin

text \<open>
  Provisr: the orchestrator (\<open>orchestrator/src\<close>), the contracts it shares with the web application
  (\<open>packages/shared-contracts/src\<close>), and the logic of the web application (\<open>frontend\<close>), all of
  it TypeScript. A user describes infrastructure in a chat; the orchestrator turns the request into a
  \<^emph>\<open>provisioning run\<close>, a state machine stored in PostgreSQL that a background worker moves
  from received to planned by asking a planning agent, a manifest service and a code generator.

  \<^bold>\<open>How the program is modelled\<close>

  An operation is a function from a state to a result and a state (\<open>op\<close> in \<open>Prelude\<close>): every
  \<open>throw\<close> is an \<open>Inl\<close>, \<open>await\<close> and \<open>;\<close> are \<open>bnd\<close>, \<open>try\<close> is \<open>catching\<close>. JavaScript values are
  the type \<open>json\<close> of \<open>Js\<close>, with truthiness, number and string conversion, \<open>JSON.stringify\<close> and
  the string methods the sources call. Numbers are rationals: no source relies on rounding or on
  values beyond 2 to the power of 53. Strings are lists of code units below 256. Database tables are
  records of lists of rows (\<open>Store\<close>). The parts outside the sources are parameters: the
  validation package, hashing and the clock's origin in \<open>world\<close>; the pool, the other requests
  that interleave between two statements (\<open>others\<close>), the advisory lock, fresh identifiers and
  \<open>fetch\<close> in \<open>env\<close>; the identity provider in \<open>Auth\<close>; the browser's platform in the frontend
  theories. What is assumed of them has a name (\<open>zod_documented\<close>, \<open>well_behaved\<close>,
  \<open>others_apart\<close>, \<open>only_appends\<close> and so on), and every property with an assumption has a witness that
  instantiates the parameter with a concrete function.

  \<^bold>\<open>The theories\<close>

  \<^item> Foundations. \<open>Prelude\<close>: operations, their evaluation (collection \<open>mnd\<close>) and the moves of an
    operation along a relation (\<open>along\<close>, collection \<open>along_intros\<close>). \<open>Js\<close>, \<open>Zod\<close>: values and schemas,
    with what a schema documents (\<open>zdoc\<close>). \<open>Errors\<close>: typed errors, exception filter, validation
    pipe (\<open>common/\<close>). \<open>Store\<close>: the tables, transactions (\<open>db/db.service.ts\<close>), and the locale
    \<open>table_relation\<close>, the interface between the database and every proof about its clients.
  \<^item> Contracts. \<open>Component_Schemas\<close> (\<open>component-schemas.ts\<close>), \<open>Planning_Contracts\<close>
    (\<open>services/planning-contracts.ts\<close>), \<open>Iac_Contracts\<close> (\<open>services/iac-contracts.ts\<close>).
  \<^item> Workflow. \<open>Workflow_Fsm\<close> (\<open>state-machine/workflow-state.ts\<close>, \<open>transitions.ts\<close>),
    \<open>Workflow_Transition\<close> (the transition service over its store, locale \<open>transition_contract\<close>),
    \<open>Outbox\<close> (writer, store, publisher; locale \<open>outbox_contract\<close>), \<open>Policy\<close> (client, pre-flight,
    store; locale \<open>preflight_contract\<close>), \<open>Audit_Log\<close> (\<open>services/audit.service.ts\<close>).
  \<^item> Runs (\<open>state-machine/runs.service.ts\<close>). \<open>Run_Core\<close>: the transaction every change goes
    through, \<open>mutate\<close>. \<open>Runs\<close>: the operations of a request. \<open>Planning_Clients\<close>, \<open>Runs_Worker\<close>: the
    polls. \<open>Runs_Machine\<close>: \<open>run_step\<close>, the abstract machine of committed changes, its invariant
    \<open>run_ok\<close> and the order \<open>succeeds\<close> of the versions of a row. \<open>Runs_Service\<close>: every operation moves
    along \<open>run_step\<close>, hence the invariants of the whole service. \<open>Tenancy\<close>: isolation of workspaces.
    \<open>Runs_Progress\<close>: the agent's loop ends, and failures are reported. \<open>Run_Scheduler\<close>: the timer, the
    polls in flight, the shutdown and the session lock of any number of instances, which refine an abstract
    protocol of connections and locks (\<open>lock_move\<close>).
  \<^item> Chat. \<open>Chat\<close>: sessions, turns, the numbered event log and the live stream
    (\<open>services/chat-persistence.service.ts\<close>, \<open>chat-events.service.ts\<close>, \<open>routes/sse.controller.ts\<close>).
  \<^item> Gateway. \<open>Upstream\<close>, \<open>Gateway\<close>, \<open>Gateway_Access\<close>: the routes that proxy to internal
    services, with a log of the requests they make and the locale \<open>access_contract\<close> for the
    permission check. \<open>Auth\<close>: the guard, token verification and its caches (locale \<open>timed_cache\<close>,
    interpreted on each of the three). \<open>Bootstrap\<close>: selection of a workspace. \<open>Routes\<close>: the rest.
  \<^item> Web application. \<open>Live_Client\<close> (\<open>frontend/lib/sse\<close>): the reconnecting client as an inductive
    set of runs over calls, tokens, timers and messages. \<open>Frontend_Shell\<close>, \<open>Frontend_Accounts\<close>,
    \<open>Frontend_Workspaces\<close>, \<open>Frontend_Stubs\<close>: permissions, navigation and middleware; cloud accounts
    from browser to service; workspaces and the session; the stand-ins for development.
    \<open>Onboarding\<close>: the wizard that sets up a workspace, the older flow and the hand-over to the
    dashboard. \<open>Resource_Table\<close>: filters and sorting (locale \<open>consistent_comparator\<close>) of the table of
    resources and its comparison of states by a longest common subsequence.
  \<^item> Pages and cards of the web application, as machines over what the user does and what is
    answered. \<open>Interactive\<close>: the locales \<open>interactive\<close> and \<open>repeating\<close>, an invariant of such a machine and
    what it gives of everything the machine sends. \<open>Cloud_Page\<close>: the page of cloud accounts with its
    panel. \<open>Question_Cards\<close>: the clarification question and the selector of a database engine.
    \<open>Rego\<close>, \<open>Policy_Page\<close>: the highlighter, and the policy settings with packs, rows and editor.
    \<open>Registry_Cards\<close>: the logic of the cards that render validated payloads, above all the redaction of
    specifications. \<open>Dashboard\<close>: the shell of the pages, with the switcher of workspaces, the theme and the
    user menu. \<open>Live_Hook\<close>: the hook that owns the clients of the live stream. \<open>Resources_Page\<close>: loading,
    reports and synchronization of the resources. \<open>Status_Cards\<close>: the messages of a conversation, the
    summary of an architecture, and the cards of findings, policy results and drift.

  \<^bold>\<open>What is shown\<close>

  A run that reached planning has verified code and every run satisfies its invariant, for all
  sequences of requests and polls with arbitrary lawful interleaving; a version identifies a row; tenants do
  not see or touch each other's runs. The transition table admits exactly its edges and every
  history passes the mandatory stages. The worker's loops end and a failing stage is reported in safe words. A run
  is processed by one worker at a time over all instances of the service, and a shutdown is clean and ends. The transition store is a compare-and-set that fails without trace;
  the publisher settles at most one event a round and claims the oldest; the audit log stays a
  hash chain. Payloads that validate are what their schemas say, on the server and when rendered. The
  live stream is exact on the server, and on the client its sequence numbers increase, it refines
  its life cycle, recovers from broken connections and is silent after disconnection. Permission is
  asked first on every route, and a caller speaks only for itself. An idempotency key of the set-up
  wizard names one request; the comparison of states flags as few lines as possible. The page of cloud
  accounts never creates a second account; a question card sends one valid answer, and a key of the engine
  selector names one choice; what the policy page saves has the rules of its pack, with their sources
  unless an administrator edits; a specification is shown without its secrets. The
  dashboard refines its switcher and shows navigation by what the service granted, not by what the browser
  claims; the hook of the live stream leaves at most one of its clients running; every security finding of a
  payload is shown once.

  \<^bold>\<open>Bounds and fuel\<close>

  The agent loop of the worker has the number of drafts left as its fuel (\<open>draft_fuel\<close>), and
  \<open>drafts_end\<close> shows that more makes no difference. Membership paging has fuel, and \<open>memberships_are_complete\<close>
  shows that the length of the list is enough. Ticks of the live stream and rounds of polls are explicit numbers
  or lists of requests, over which the theorems quantify; an instance that shuts down waits for at most six
  answers (\<open>inst_rank\<close>). Everything else is structural recursion.

  \<^bold>\<open>Not modelled\<close>

  The wiring of the framework (\<open>app.module.ts\<close>, \<open>main.ts\<close>, decorators), the configuration of the connection
  pool, stack traces; generated protobuf code; rendering, styling and icons in the
  React components, mock data and type-only modules; what a card prints of numbers, dates and
  currencies, and the focus of the browser; the retired code under \<open>archive\<close>; the services in
  other languages (Go, Python), infrastructure and tests.

  \<^bold>\<open>What modelling showed\<close>

  The manifest of a database never projects into components (\<open>rds_manifest_never_projects\<close>); the audit
  hash does not cover the actor (\<open>audit_chain_ignores_actor\<close>); an overlapping connection of the live
  client leaks its source (\<open>superseded_source_leaks\<close>); the web application posts clarifications
  without the workspace, which the route refuses (\<open>clarification_without_workspace_refused\<close>); a slug
  cut to its length may end in a dash (\<open>normalizeSlug_may_end_in_dash\<close>); once the outcome of a request
  is unknown the wizard can only repeat it (\<open>unknown_outcome_is_repeated\<close>); removing a cloud account
  leaves a panel without identifier behind (\<open>removal_leaves_panel_open\<close>), and a blank identifier breaks
  it (\<open>blank_identifier_breaks_panel\<close>); values of a policy that were reset come back with the next
  edit (\<open>reset_values_return\<close>); an empty workspace given to the hook of the live stream never connects
  (\<open>empty_argument_never_connects\<close>); a failed policy result without listed violations and a drift without
  listed resources read as if nothing were wrong (\<open>failed_policy_reads_as_passed\<close>, \<open>drift_reads_as_none\<close>).
\<close>

end
